(* ===== verification/Inv_Prelude.thy ===== *)
theory Inv_Prelude
  imports Complex_Main "HOL-Library.Char_ord" "HOL-Library.List_Lexorder"
    "HOL-Library.Product_Lexorder" "HOL-Library.Sublist"
begin

text \<open>
  Shared ground of the development: the Go string helpers the services use
  (strings.TrimSpace, strings.ToLower, strings.Contains, ...), machine integers
  as int with the wrap-around written out, a list updateWhere used by every
  SQL UPDATE, and the generic lemmas and simp rules on them.
  Strings are byte lists; trimming and case folding are those of ASCII text.
\<close>

section \<open>Collections of hints\<close>

named_theorems keeps_intros \<open>introduction rules for frame conditions of effects\<close>
named_theorems run_simps \<open>evaluation of monadic programs on a world\<close>

section \<open>Go strings\<close>

definition isSpace :: "char \<Rightarrow> bool" where
  "isSpace c \<longleftrightarrow> c \<in> {CHR 0x09, CHR 0x0A, CHR 0x0B, CHR 0x0C, CHR 0x0D, CHR 0x20}"

definition TrimSpace :: "string \<Rightarrow> string" where
  "TrimSpace s = rev (dropWhile isSpace (rev (dropWhile isSpace s)))"

definition lowerChar :: "char \<Rightarrow> char" where
  "lowerChar c = (if 65 \<le> (of_char c :: nat) \<and> (of_char c :: nat) \<le> 90
                  then char_of (of_char c + 32 :: nat) else c)"

text \<open>The bits of an upper case letter, for evaluation.\<close>

lemma lowerChar_code [code]:
  "lowerChar (Char b0 b1 b2 b3 b4 b5 b6 b7) =
    (if \<not> b7 \<and> b6 \<and> \<not> b5 \<and> (b0 \<or> b1 \<or> b2 \<or> b3 \<or> b4) \<and> \<not> (b4 \<and> b3 \<and> (b2 \<or> b1 \<and> b0))
     then Char b0 b1 b2 b3 b4 True b6 b7 else Char b0 b1 b2 b3 b4 b5 b6 b7)"
  by (cases b0; cases b1; cases b2; cases b3; cases b4; cases b5; cases b6; cases b7)
    (simp_all add: lowerChar_def of_char_Char char_of_def bit_iff_odd)

definition ToLower :: "string \<Rightarrow> string" where
  "ToLower s = map lowerChar s"

definition EqualFold :: "string \<Rightarrow> string \<Rightarrow> bool" where
  "EqualFold a b \<longleftrightarrow> ToLower a = ToLower b"

fun Contains :: "string \<Rightarrow> string \<Rightarrow> bool" where
  "Contains [] sub = (sub = [])"
| "Contains (c # cs) sub = (prefix sub (c # cs) \<or> Contains cs sub)"

fun joinStrings :: "string \<Rightarrow> string list \<Rightarrow> string" where
  "joinStrings sep [] = []"
| "joinStrings sep [x] = x"
| "joinStrings sep (x # y # ys) = x @ sep @ joinStrings sep (y # ys)"

definition digitChar :: "nat \<Rightarrow> char" where
  "digitChar d = char_of (48 + d)"

fun natDigits :: "nat \<Rightarrow> string" where
  "natDigits n = (if n < 10 then [digitChar n] else natDigits (n div 10) @ [digitChar (n mod 10)])"

declare natDigits.simps [simp del]

definition Itoa :: "int \<Rightarrow> string" where
  "Itoa i = (if i < 0 then CHR ''-'' # natDigits (nat (- i)) else natDigits (nat i))"

text \<open>strings.TrimSpace of an optional string, nil for an empty result: the helper that the
  usecases and repositories all have under different names.\<close>

fun trimOpt :: "string option \<Rightarrow> string option" where
  "trimOpt None = None"
| "trimOpt (Some s) = (if TrimSpace s = [] then None else Some (TrimSpace s))"

lemma dropWhile_hd_fix: "s = [] \<or> \<not> P (hd s) \<Longrightarrow> dropWhile P s = s"
  by (cases s) auto

lemma hd_prefix: "xs = ys @ zs \<Longrightarrow> ys \<noteq> [] \<Longrightarrow> hd ys = hd xs"
  by auto

lemma dropWhile_idem_rev:
  "dropWhile P (rev (dropWhile P (rev (dropWhile P s)))) = rev (dropWhile P (rev (dropWhile P s)))"
proof (cases "rev (dropWhile P (rev (dropWhile P s))) = []")
  case False
  have "rev (takeWhile P (rev (dropWhile P s)) @ dropWhile P (rev (dropWhile P s))) = dropWhile P s"
    by simp
  then have ys: "dropWhile P s = rev (dropWhile P (rev (dropWhile P s))) @ rev (takeWhile P (rev (dropWhile P s)))"
    by (metis rev_append)
  have ne: "dropWhile P s \<noteq> []"
  proof
    assume "dropWhile P s = []"
    with False show False by simp
  qed
  have "hd (rev (dropWhile P (rev (dropWhile P s)))) = hd (dropWhile P s)"
    by (rule hd_prefix [OF ys False])
  then have "\<not> P (hd (rev (dropWhile P (rev (dropWhile P s)))))"
    using hd_dropWhile [OF ne] by simp
  then show ?thesis by (rule dropWhile_hd_fix [OF disjI2])
next
  case True then show ?thesis by (simp only: True dropWhile.simps)
qed

lemma TrimSpace_idem [simp]: "TrimSpace (TrimSpace s) = TrimSpace s"
  unfolding TrimSpace_def by (simp add: dropWhile_idem_rev)

lemma TrimSpace_Nil [simp]: "TrimSpace [] = []"
  by (simp add: TrimSpace_def)

lemma trimOpt_idem [simp]: "trimOpt (trimOpt p) = trimOpt p"
  by (cases p) auto

lemma trimOpt_Some_nonempty [simp]: "trimOpt p = Some s \<Longrightarrow> s \<noteq> [] \<and> TrimSpace s = s"
  by (cases p) (auto split: if_splits)

lemma trimOpt_not_empty [simp]: "trimOpt p \<noteq> Some []"
  by (cases p) auto

lemma trimOpt_fixed: "trimOpt p = Some s \<Longrightarrow> trimOpt (Some s) = Some s"
  by (cases p) (auto split: if_splits)

lemma lowerChar_idem [simp]: "lowerChar (lowerChar c) = lowerChar c"
  unfolding lowerChar_def by auto

lemma ToLower_idem [simp]: "ToLower (ToLower s) = ToLower s"
  by (induction s) (auto simp: ToLower_def)

lemma Contains_append: "Contains (a @ sub @ b) sub"
proof (induction a)
  case Nil
  have "prefix sub (sub @ b)" by simp
  then show ?case by (cases "sub @ b") (simp_all only: append_Nil Contains.simps prefix_bot.extremum_unique, simp_all)
qed auto

section \<open>Machine integers\<close>

definition wrap32 :: "int \<Rightarrow> int" where
  "wrap32 i = (i + 2147483648) mod 4294967296 - 2147483648"

definition wrap64 :: "int \<Rightarrow> int" where
  "wrap64 i = (i + 9223372036854775808) mod 18446744073709551616 - 9223372036854775808"

definition MaxInt32 :: int where "MaxInt32 = 2147483647"

definition is_int32 :: "int \<Rightarrow> bool" where
  "is_int32 i \<longleftrightarrow> -2147483648 \<le> i \<and> i \<le> 2147483647"

definition is_int64 :: "int \<Rightarrow> bool" where
  "is_int64 i \<longleftrightarrow> -9223372036854775808 \<le> i \<and> i \<le> 9223372036854775807"

lemma wrap32_id [simp]: "is_int32 i \<Longrightarrow> wrap32 i = i"
  by (simp add: wrap32_def is_int32_def)

lemma wrap64_id [simp]: "is_int64 i \<Longrightarrow> wrap64 i = i"
  by (simp add: wrap64_def is_int64_def)

lemma wrap32_range: "is_int32 (wrap32 i)"
proof -
  have "0 \<le> (i + 2147483648) mod 4294967296" "(i + 2147483648) mod 4294967296 < 4294967296" by simp_all
  then show ?thesis unfolding wrap32_def is_int32_def by linarith
qed

section \<open>Rows of a table\<close>

text \<open>SQL UPDATE and the count of affected rows.\<close>

definition updateWhere :: "('a \<Rightarrow> bool) \<Rightarrow> ('a \<Rightarrow> 'a) \<Rightarrow> 'a list \<Rightarrow> 'a list" where
  "updateWhere P f xs = map (\<lambda>x. if P x then f x else x) xs"

definition countWhere :: "('a \<Rightarrow> bool) \<Rightarrow> 'a list \<Rightarrow> int" where
  "countWhere P xs = int (length (filter P xs))"

lemma length_updateWhere [simp]: "length (updateWhere P f xs) = length xs"
  by (simp add: updateWhere_def)

lemma updateWhere_Nil [simp]: "updateWhere P f [] = []"
  by (simp add: updateWhere_def)

lemma updateWhere_Cons [simp]:
  "updateWhere P f (x # xs) = (if P x then f x else x) # updateWhere P f xs"
  by (simp add: updateWhere_def)

lemma set_updateWhere: "y \<in> set (updateWhere P f xs) \<longleftrightarrow>
    (\<exists>x \<in> set xs. y = (if P x then f x else x))"
  by (auto simp: updateWhere_def)

lemma updateWhere_cong_none: "(\<And>x. x \<in> set xs \<Longrightarrow> \<not> P x) \<Longrightarrow> updateWhere P f xs = xs"
  by (induction xs) auto

lemma map_updateWhere: "(\<And>x. P x \<Longrightarrow> g (f x) = g x) \<Longrightarrow> map g (updateWhere P f xs) = map g xs"
  by (induction xs) auto

lemma filter_updateWhere_other:
  "(\<And>x. P x \<Longrightarrow> \<not> Q x) \<Longrightarrow> (\<And>x. P x \<Longrightarrow> \<not> Q (f x)) \<Longrightarrow> filter Q (updateWhere P f xs) = filter Q xs"
  by (induction xs) auto

lemma find_updateWhere_other:
  "(\<And>x. P x \<Longrightarrow> \<not> Q x) \<Longrightarrow> (\<And>x. P x \<Longrightarrow> \<not> Q (f x)) \<Longrightarrow> find Q (updateWhere P f xs) = find Q xs"
  by (induction xs) auto

lemma find_updateWhere_same:
  "(\<And>x. P x \<Longrightarrow> Q (f x) = Q x) \<Longrightarrow>
   find Q (updateWhere P f xs) = map_option (\<lambda>x. if P x then f x else x) (find Q xs)"
  by (induction xs) auto

lemma countWhere_Nil [simp]: "countWhere P [] = 0"
  by (simp add: countWhere_def)

lemma countWhere_Cons [simp]: "countWhere P (x # xs) = (if P x then 1 else 0) + countWhere P xs"
  by (simp add: countWhere_def)

lemma countWhere_nonneg [simp]: "0 \<le> countWhere P xs"
  by (simp add: countWhere_def)

lemma countWhere_0: "countWhere P xs = 0 \<longleftrightarrow> (\<forall>x \<in> set xs. \<not> P x)"
  by (auto simp: countWhere_def filter_empty_conv)

lemma map_le_None: "m \<subseteq>\<^sub>m n \<Longrightarrow> n k = None \<Longrightarrow> m k = None"
  by (metis domIff map_le_def)

lemma find_SomeD: "find P xs = Some x \<Longrightarrow> P x \<and> x \<in> set xs"
  by (auto simp: find_Some_iff)

lemma find_append: "find P (xs @ ys) = (case find P xs of Some x \<Rightarrow> Some x | None \<Rightarrow> find P ys)"
  by (induction xs) auto

lemma countWhere_distinct_le1:
  assumes "distinct (map key xs)" "\<And>x y. P x \<Longrightarrow> P y \<Longrightarrow> key x = key y"
  shows "countWhere P xs \<le> 1"
  using assms(1)
proof (induction xs)
  case (Cons a xs)
  show ?case
  proof (cases "P a")
    case True
    have "\<not> P x" if "x \<in> set xs" for x
    proof
      assume "P x"
      then have "key x = key a" by (rule assms(2)) (rule True)
      with that Cons.prems show False by (auto simp: image_iff)
    qed
    then have "countWhere P xs = 0" by (simp add: countWhere_0)
    with True show ?thesis by simp
  next
    case False
    with Cons show ?thesis by simp
  qed
qed simp

lemma find_eq_distinct:
  "distinct (map key xs) \<Longrightarrow> x \<in> set xs \<Longrightarrow> find (\<lambda>y. key y = key x) xs = Some x"
  by (induction xs) auto

section \<open>Evolution of a table\<close>

text \<open>The rows of xs are still there, in order, each related to its successor by step.\<close>

definition evolves :: "('a \<Rightarrow> 'a \<Rightarrow> bool) \<Rightarrow> 'a list \<Rightarrow> 'a list \<Rightarrow> bool" where
  "evolves step xs ys \<longleftrightarrow> length xs \<le> length ys \<and> list_all2 step xs (take (length xs) ys)"

lemma evolves_refl: "(\<And>x. step x x) \<Longrightarrow> evolves step xs xs"
  by (simp add: evolves_def list_all2_refl)

lemma evolves_trans:
  assumes "\<And>x y z. step x y \<Longrightarrow> step y z \<Longrightarrow> step x z" "evolves step xs ys" "evolves step ys zs"
  shows "evolves step xs zs"
  using assms(2,3) by (auto simp: evolves_def list_all2_conv_all_nth intro: assms(1))

lemma evolves_append: "(\<And>x. step x x) \<Longrightarrow> evolves step xs (xs @ ys)"
  by (simp add: evolves_def list_all2_refl)

lemma evolves_update: "(\<And>x. P x \<Longrightarrow> step x (f x)) \<Longrightarrow> (\<And>x. step x x) \<Longrightarrow> evolves step xs (updateWhere P f xs)"
  by (simp add: evolves_def updateWhere_def list_all2_conv_all_nth)

lemma evolves_nth:
  "evolves step xs ys \<Longrightarrow> i < length xs \<Longrightarrow> i < length ys \<and> step (xs ! i) (ys ! i)"
  by (auto simp: evolves_def list_all2_conv_all_nth)

lemma evolves_eq: "evolves (=) xs ys \<longleftrightarrow> prefix xs ys"
  by (auto simp: evolves_def list.rel_eq prefix_def) (metis append_take_drop_id)

end
