(* ===== verification/Errors.thy ===== *)
theory Errors
  imports Inv_Prelude
begin

text \<open>
  The error contract of the services (src/pkg/common/errorcodes): AppError values and their
  templates, the sentinel errors, the chain walk of errors.As and errors.Is, and ToHTTP, the one
  classification path from any error to an HTTP status and a response-safe AppError.
  An error of the program is a value of the datatype err: an AppError, a sentinel, an
  echo.HTTPError, an opaque driver or library error with its message, an error wrapped with
  fmt.Errorf and the verb w, or a run-time panic.
\<close>

section \<open>JSON-like values\<close>

text \<open>The values of Go's map[string]any as the services build them (error details and audit
  snapshots).\<close>

datatype jval =
    JNull
  | JBool bool
  | JInt int
  | JRat rat
  | JStr string
  | JTime int
  | JRaw string
  | JArr "jval list"
  | JObj "(string \<times> jval) list"

fun optJ :: "string option \<Rightarrow> jval" where
  "optJ None = JNull"
| "optJ (Some s) = JStr s"

section \<open>AppError\<close>

record AppError =
  aeCode :: string
  aeMessage :: string
  aeMessageID :: string
  aeStatus :: int
  aeDetails :: "(string \<times> jval) list"

definition newAppError :: "string \<Rightarrow> string \<Rightarrow> int \<Rightarrow> AppError" where
  "newAppError code message status =
     \<lparr>aeCode = code, aeMessage = message, aeMessageID = [], aeStatus = status, aeDetails = []\<rparr>"

definition AppError_Error :: "AppError \<Rightarrow> string" where
  "AppError_Error e = (if aeMessage e \<noteq> [] then aeMessage e else aeCode e)"

definition WithDetails :: "AppError \<Rightarrow> (string \<times> jval) list \<Rightarrow> AppError" where
  "WithDetails e details = (if length details = 0 then e\<lparr>aeDetails := []\<rparr> else e\<lparr>aeDetails := details\<rparr>)"

definition WithMessageID :: "AppError \<Rightarrow> string \<Rightarrow> AppError" where
  "WithMessageID e i = e\<lparr>aeMessageID := i\<rparr>"

definition WithStatus :: "AppError \<Rightarrow> int \<Rightarrow> AppError" where
  "WithStatus e s = e\<lparr>aeStatus := s\<rparr>"

definition WithCode :: "AppError \<Rightarrow> string \<Rightarrow> AppError" where
  "WithCode e c = e\<lparr>aeCode := c\<rparr>"

definition CodeValidationError :: string where "CodeValidationError = ''VALIDATION_ERROR''"
definition CodeUnauthorized :: string where "CodeUnauthorized = ''UNAUTHORIZED''"
definition CodeForbidden :: string where "CodeForbidden = ''FORBIDDEN''"
definition CodeNotFound :: string where "CodeNotFound = ''NOT_FOUND''"
definition CodeConflict :: string where "CodeConflict = ''CONFLICT''"
definition CodeIdempotency :: string where "CodeIdempotency = ''IDEMPOTENCY_CONFLICT''"
definition CodeProductHasStock :: string where "CodeProductHasStock = ''PRODUCT_HAS_STOCK''"
definition CodeWarehouseHasStock :: string where "CodeWarehouseHasStock = ''WAREHOUSE_HAS_STOCK''"
definition CodeInsufficientStock :: string where "CodeInsufficientStock = ''INSUFFICIENT_STOCK''"
definition CodeMovementNotDraft :: string where "CodeMovementNotDraft = ''MOVEMENT_NOT_DRAFT''"
definition CodeCategoryHasActiveProducts :: string where
  "CodeCategoryHasActiveProducts = ''CATEGORY_HAS_ACTIVE_PRODUCTS''"
definition CodeInternalError :: string where "CodeInternalError = ''INTERNAL_ERROR''"
definition CodeNotImplemented :: string where "CodeNotImplemented = ''NOT_IMPLEMENTED''"

lemmas code_defs =
  CodeValidationError_def CodeUnauthorized_def CodeForbidden_def CodeNotFound_def CodeConflict_def
  CodeIdempotency_def CodeProductHasStock_def CodeWarehouseHasStock_def CodeInsufficientStock_def
  CodeMovementNotDraft_def CodeCategoryHasActiveProducts_def CodeInternalError_def
  CodeNotImplemented_def

definition Problem :: "string \<Rightarrow> AppError" where
  "Problem msg = \<lparr>aeCode = CodeInternalError, aeMessage = msg, aeMessageID = [],
                  aeStatus = 500, aeDetails = []\<rparr>"

definition ErrValidationError :: AppError where
  "ErrValidationError = newAppError CodeValidationError ''Request body or params is invalid'' 400"
definition ErrUnauthorized :: AppError where
  "ErrUnauthorized = newAppError CodeUnauthorized ''Missing or invalid token'' 401"
definition ErrForbidden :: AppError where
  "ErrForbidden = newAppError CodeForbidden ''Insufficient permissions'' 403"
definition ErrNotFound :: AppError where
  "ErrNotFound = newAppError CodeNotFound ''Entity not found'' 404"
definition ErrConflict :: AppError where
  "ErrConflict = newAppError CodeConflict ''Resource conflict'' 409"
definition ErrIdempotency :: AppError where
  "ErrIdempotency = newAppError CodeIdempotency ''Idempotency key has been processed'' 409"
definition ErrProductHasStock :: AppError where
  "ErrProductHasStock = newAppError CodeProductHasStock ''Cannot delete product with remaining stock'' 422"
definition ErrWarehouseStock :: AppError where
  "ErrWarehouseStock = newAppError CodeWarehouseHasStock ''Cannot deactivate warehouse with stock'' 422"
definition ErrInsufficient :: AppError where
  "ErrInsufficient = newAppError CodeInsufficientStock ''Outbound quantity exceeds available stock'' 422"
definition ErrMovementDraft :: AppError where
  "ErrMovementDraft = newAppError CodeMovementNotDraft ''Cannot modify confirmed or cancelled movement'' 422"
definition ErrCategoryHasActiveProducts :: AppError where
  "ErrCategoryHasActiveProducts = newAppError CodeCategoryHasActiveProducts
     ''Cannot delete category while active products reference it'' 422"
definition ErrInternal :: AppError where
  "ErrInternal = newAppError CodeInternalError ''Unexpected server error'' 500"
definition ErrNotImplemented :: AppError where
  "ErrNotImplemented = newAppError CodeNotImplemented ''Not implemented yet'' 501"

lemmas err_defs =
  ErrValidationError_def ErrUnauthorized_def ErrForbidden_def ErrNotFound_def ErrConflict_def
  ErrIdempotency_def ErrProductHasStock_def ErrWarehouseStock_def ErrInsufficient_def
  ErrMovementDraft_def ErrCategoryHasActiveProducts_def ErrInternal_def ErrNotImplemented_def

section \<open>Errors of the program\<close>

datatype sentinel =
    ErrJWTInvalidSecret
  | ErrJWTInvalidTTL
  | ErrJWTInvalidSubject
  | ErrJWTInvalidTenantID
  | ErrJWTInvalidTokenType
  | ErrJWTParseToken
  | ErrJWTInvalidClaims
  | ErrJWTInvalidSigning
  | ErrTxBegin
  | ErrTxCommit
  | ErrTxRollback
  | ErrTenantContextMissing
  | GormRecordNotFound
  | RedisNil
  | ErrTransient
  | ErrPermanent

datatype echo_message = EMString string | EMError string | EMStringer string | EMOther

record HTTPError =
  heCode :: int
  heMessage :: echo_message

datatype err =
    App AppError
  | Sys sentinel
  | Echo HTTPError
  | Raw string
  | Wrap string err
  | Panic string

fun sentinelText :: "sentinel \<Rightarrow> string" where
  "sentinelText ErrJWTInvalidSecret = ''jwt: secret is required''"
| "sentinelText ErrJWTInvalidTTL = ''jwt: ttl must be greater than zero''"
| "sentinelText ErrJWTInvalidSubject = ''jwt: subject is required''"
| "sentinelText ErrJWTInvalidTenantID = ''jwt: tenant_id is required''"
| "sentinelText ErrJWTInvalidTokenType = ''jwt: invalid token type''"
| "sentinelText ErrJWTParseToken = ''jwt: failed to parse token''"
| "sentinelText ErrJWTInvalidClaims = ''jwt: invalid claims''"
| "sentinelText ErrJWTInvalidSigning = ''jwt: invalid signing method''"
| "sentinelText ErrTxBegin = ''transaction: begin tx''"
| "sentinelText ErrTxCommit = ''transaction: commit tx''"
| "sentinelText ErrTxRollback = ''transaction: rollback tx''"
| "sentinelText ErrTenantContextMissing = ''auth: tenant context missing''"
| "sentinelText GormRecordNotFound = ''record not found''"
| "sentinelText RedisNil = ''redis: nil''"
| "sentinelText ErrTransient = ''eventbus: transient processing error''"
| "sentinelText ErrPermanent = ''eventbus: permanent processing error''"

text \<open>The Error method: the text an error shows.\<close>

fun errorText :: "err \<Rightarrow> string" where
  "errorText (App a) = AppError_Error a"
| "errorText (Sys s) = sentinelText s"
| "errorText (Echo h) = ''code='' @ Itoa (heCode h)"
| "errorText (Raw m) = m"
| "errorText (Wrap m e) = m"
| "errorText (Panic m) = m"

text \<open>errors.As for the two target types the code asks for: the first match along the chain.\<close>

fun asEcho :: "err \<Rightarrow> HTTPError option" where
  "asEcho (Echo h) = Some h"
| "asEcho (Wrap m e) = asEcho e"
| "asEcho _ = None"

fun asApp :: "err \<Rightarrow> AppError option" where
  "asApp (App a) = Some a"
| "asApp (Wrap m e) = asApp e"
| "asApp _ = None"

text \<open>The Is method of AppError, and errors.Is: sentinels are compared by identity, an AppError by
  its code.\<close>

definition AppError_Is :: "AppError \<Rightarrow> err \<Rightarrow> bool" where
  "AppError_Is e target = (case asApp target of
     None \<Rightarrow> False
   | Some t \<Rightarrow> aeCode e \<noteq> [] \<and> aeCode e = aeCode t)"

fun errorsIs :: "err \<Rightarrow> err \<Rightarrow> bool" where
  "errorsIs (App a) target = AppError_Is a target"
| "errorsIs (Sys s) target = (target = Sys s)"
| "errorsIs (Wrap m e) target = errorsIs e target"
| "errorsIs _ target = False"

section \<open>ToHTTP\<close>

text \<open>net/http StatusText for the codes of RFC 9110 and the registered extensions of 4xx and 5xx.\<close>

definition statusTable :: "(int \<times> string) list" where
  "statusTable = [(400, ''Bad Request''), (401, ''Unauthorized''), (402, ''Payment Required''),
     (403, ''Forbidden''), (404, ''Not Found''), (405, ''Method Not Allowed''), (406, ''Not Acceptable''),
     (407, ''Proxy Authentication Required''), (408, ''Request Timeout''), (409, ''Conflict''),
     (410, ''Gone''), (411, ''Length Required''), (412, ''Precondition Failed''),
     (413, ''Request Entity Too Large''), (414, ''Request URI Too Long''),
     (415, ''Unsupported Media Type''), (416, ''Requested Range Not Satisfiable''),
     (417, ''Expectation Failed''), (418, [CHR ''I'', CHR 0x27] @ ''m a teapot''),
     (421, ''Misdirected Request''), (422, ''Unprocessable Entity''), (423, ''Locked''),
     (424, ''Failed Dependency''), (425, ''Too Early''), (426, ''Upgrade Required''),
     (428, ''Precondition Required''), (429, ''Too Many Requests''),
     (431, ''Request Header Fields Too Large''), (451, ''Unavailable For Legal Reasons''),
     (500, ''Internal Server Error''), (501, ''Not Implemented''), (502, ''Bad Gateway''),
     (503, ''Service Unavailable''), (504, ''Gateway Timeout''), (505, ''HTTP Version Not Supported''),
     (506, ''Variant Also Negotiates''), (507, ''Insufficient Storage''), (508, ''Loop Detected''),
     (510, ''Not Extended''), (511, ''Network Authentication Required'')]"

definition StatusText :: "int \<Rightarrow> string" where
  "StatusText c = (case map_of statusTable c of Some t \<Rightarrow> t | None \<Rightarrow> [])"

fun echoMessage :: "HTTPError \<Rightarrow> string" where
  "echoMessage he = (case heMessage he of
     EMString m \<Rightarrow> (if m \<noteq> [] then m else StatusText (heCode he))
   | EMError m \<Rightarrow> m
   | EMStringer m \<Rightarrow> m
   | EMOther \<Rightarrow> StatusText (heCode he))"

definition withMessage :: "AppError \<Rightarrow> string \<Rightarrow> AppError" where
  "withMessage e msg = WithDetails e [(''message'', JStr msg)]"

definition fromEchoHTTPError :: "HTTPError \<Rightarrow> int \<times> AppError" where
  "fromEchoHTTPError he =
    (let code = (if heCode he = 0 then 500 else heCode he);
         msg = echoMessage he
     in if code = 400 then (code, withMessage ErrValidationError msg)
        else if code = 401 then (code, withMessage ErrUnauthorized msg)
        else if code = 403 then (code, withMessage ErrForbidden msg)
        else if code = 404 then (code, withMessage ErrNotFound msg)
        else if code = 409 then (code, withMessage ErrConflict msg)
        else if code = 501 then (code, withMessage ErrNotImplemented msg)
        else if code \<ge> 400 \<and> code < 500 then
          (code, withMessage (newAppError CodeValidationError msg code) msg)
        else if code \<ge> 500 then (code, ErrInternal)
        else (500, ErrInternal))"

definition mapKnownSentinels :: "err \<Rightarrow> AppError option" where
  "mapKnownSentinels e =
    (if errorsIs e (Sys ErrJWTParseToken) \<or> errorsIs e (Sys ErrJWTInvalidClaims)
        \<or> errorsIs e (Sys ErrJWTInvalidSigning) \<or> errorsIs e (Sys ErrJWTInvalidTokenType)
     then Some ErrUnauthorized
     else if errorsIs e (Sys ErrJWTInvalidSubject) \<or> errorsIs e (Sys ErrJWTInvalidTenantID)
     then Some ErrValidationError
     else if errorsIs e (Sys ErrTenantContextMissing) then Some ErrUnauthorized
     else if errorsIs e (Sys ErrJWTInvalidSecret) \<or> errorsIs e (Sys ErrJWTInvalidTTL)
     then Some ErrInternal
     else None)"

definition emptyAppError :: AppError where
  "emptyAppError = \<lparr>aeCode = [], aeMessage = [], aeMessageID = [], aeStatus = 0, aeDetails = []\<rparr>"

definition ToHTTP :: "err option \<Rightarrow> int \<times> AppError" where
  "ToHTTP eo = (case eo of None \<Rightarrow> (200, emptyAppError) | Some e \<Rightarrow>
     (case asEcho e of Some he \<Rightarrow> fromEchoHTTPError he | None \<Rightarrow>
     (case asApp e of
        Some ae \<Rightarrow>
          (if aeStatus ae \<le> 0 then
             (let fallback = WithDetails ErrInternal (aeDetails ae);
                  fallback' = (if aeMessageID ae \<noteq> [] then WithMessageID fallback (aeMessageID ae)
                               else fallback)
              in (aeStatus fallback', fallback'))
           else (aeStatus ae, ae))
      | None \<Rightarrow>
     (case mapKnownSentinels e of Some app \<Rightarrow> (aeStatus app, app)
      | None \<Rightarrow> (aeStatus ErrInternal, ErrInternal)))))"

definition IsClassified :: "err option \<Rightarrow> bool" where
  "IsClassified eo = (case eo of None \<Rightarrow> True | Some e \<Rightarrow>
     asApp e \<noteq> None \<or> asEcho e \<noteq> None \<or> mapKnownSentinels e \<noteq> None)"

text \<open>The error envelope of WriteHTTPError: status and JSON body.\<close>

record ErrorPayload =
  epCode :: string
  epMessage :: string
  epMessageID :: string
  epDetails :: "(string \<times> jval) list"

record APIErrorEnvelope =
  envSuccess :: bool
  envErr :: ErrorPayload
  envMeta :: "(string \<times> jval) list"

text \<open>WriteHTTPError for a non-nil error: the response header's request id wins over the request's;
  logging of 5xx is not modelled.\<close>

definition WriteHTTPError :: "string \<Rightarrow> string \<Rightarrow> err option \<Rightarrow> (int \<times> APIErrorEnvelope) option" where
  "WriteHTTPError respReqID reqReqID eo = (case eo of None \<Rightarrow> None | Some e \<Rightarrow>
     (let (status, ae) = ToHTTP (Some e);
          reqID = (if respReqID = [] then reqReqID else respReqID)
      in Some (status,
        \<lparr>envSuccess = False,
         envErr = \<lparr>epCode = aeCode ae, epMessage = aeMessage ae, epMessageID = aeMessageID ae,
                   epDetails = aeDetails ae\<rparr>,
         envMeta = (if reqID \<noteq> [] then [(''request_id'', JStr reqID)] else [])\<rparr>)))"

section \<open>Correctness\<close>

lemma asEcho_Wrap_eq [simp]: "mapKnownSentinels (Wrap m e) = mapKnownSentinels e"
  by (simp add: mapKnownSentinels_def)

lemma mapKnownSentinels_status:
  "mapKnownSentinels e = Some a \<Longrightarrow> aeStatus a \<in> {400, 401, 500}"
  by (auto simp: mapKnownSentinels_def err_defs newAppError_def split: if_splits)

lemma fromEcho_status: "400 \<le> fst (fromEchoHTTPError he)"
  by (simp add: fromEchoHTTPError_def Let_def)

lemma errorsIs_App_code:
  "errorsIs (App a) (App b) \<longleftrightarrow> aeCode a \<noteq> [] \<and> aeCode a = aeCode b"
  by (simp add: AppError_Is_def)

lemma WithDetails_code [simp]: "aeCode (WithDetails e d) = aeCode e"
  "aeStatus (WithDetails e d) = aeStatus e" "aeMessage (WithDetails e d) = aeMessage e"
  by (simp_all add: WithDetails_def)

lemma withMessage_code [simp]: "aeCode (withMessage e d) = aeCode e" "aeStatus (withMessage e d) = aeStatus e"
  by (simp_all add: withMessage_def)

text \<open>C6: Error classification. Every error of the program whose AppError, if its chain has one,
  carries an error status or none at all, is answered with an HTTP error status; an error that
  IsClassified rejects is answered with exactly the generic 500 INTERNAL_ERROR, so that no driver
  message reaches a client; and wrapping an error never changes its answer.\<close>

theorem ToHTTP_classification:
  assumes "\<forall>a. asApp e = Some a \<longrightarrow> aeStatus a \<le> 0 \<or> 400 \<le> aeStatus a"
  shows "400 \<le> fst (ToHTTP (Some e))
    \<and> (\<not> IsClassified (Some e) \<longrightarrow> ToHTTP (Some e) = (500, ErrInternal))
    \<and> ToHTTP (Some (Wrap m e)) = ToHTTP (Some e)"
proof (intro conjI)
  show "400 \<le> fst (ToHTTP (Some e))"
    using assms mapKnownSentinels_status [of e] fromEcho_status
    by (auto simp: ToHTTP_def Let_def WithMessageID_def ErrInternal_def newAppError_def
          split: option.splits)
qed (auto simp: ToHTTP_def IsClassified_def ErrInternal_def newAppError_def split: option.splits)

theorem ToHTTP_classification_witness:
  "ToHTTP (Some (Wrap ''list products'' (Raw ''dial tcp: refused''))) = (500, ErrInternal)"
proof -
  have raw: "asApp (Raw ''dial tcp: refused'') = None" "\<not> IsClassified (Some (Raw ''dial tcp: refused''))"
    by code_simp+
  have "\<forall>a. asApp (Raw ''dial tcp: refused'') = Some a \<longrightarrow> aeStatus a \<le> 0 \<or> 400 \<le> aeStatus a"
    using raw(1) by simp
  from ToHTTP_classification [OF this, of "''list products''"] raw(2) show ?thesis by simp
qed

end
