(* ===== verification/Claims.thy ===== *)
theory Claims
  imports Errors
begin

text \<open>
  Identity on the request context (src/pkg/common/jwt: claims.go, context.go, rbac.go), the request
  metadata of audit rows (src/pkg/common/requestmeta), and the role to permission table. The
  context.Context of Go is the record ctx: the claims stored by ContextWithClaims, the Meta stored
  by requestmeta.WithContext and whether transaction.WithTx stored a transaction.
\<close>

section \<open>Claims and context\<close>

record RegisteredClaims =
  rcIssuer :: string
  rcSubject :: string
  rcAudience :: "string list"
  rcExpiresAt :: "int option"
  rcNotBefore :: "int option"
  rcIssuedAt :: "int option"
  rcID :: string

record Claims =
  clTenantID :: string
  clTokenType :: string
  clRole :: string
  clPermissions :: "string list"
  clRegistered :: RegisteredClaims

definition TokenTypeAccess :: string where "TokenTypeAccess = ''access''"
definition TokenTypeRefresh :: string where "TokenTypeRefresh = ''refresh''"

record Meta =
  mtIP :: "string option"
  mtUserAgent :: "string option"
  mtRequestID :: "string option"

definition emptyMeta :: Meta where
  "emptyMeta = \<lparr>mtIP = None, mtUserAgent = None, mtRequestID = None\<rparr>"

record ctx =
  cxClaims :: "Claims option"
  cxMeta :: "Meta option"
  cxTx :: bool

definition Background :: ctx where
  "Background = \<lparr>cxClaims = None, cxMeta = None, cxTx = False\<rparr>"

definition ContextWithClaims :: "ctx \<Rightarrow> Claims option \<Rightarrow> ctx" where
  "ContextWithClaims c claims = (case claims of None \<Rightarrow> c | Some cl \<Rightarrow> c\<lparr>cxClaims := Some cl\<rparr>)"

definition ClaimsFromContext :: "ctx \<Rightarrow> Claims option" where
  "ClaimsFromContext c = cxClaims c"

definition TenantIDFromContext :: "ctx \<Rightarrow> err + string" where
  "TenantIDFromContext c = (case ClaimsFromContext c of
     None \<Rightarrow> Inl (Sys ErrTenantContextMissing)
   | Some claims \<Rightarrow> (if clTenantID claims = [] then Inl (Sys ErrTenantContextMissing)
                     else Inr (clTenantID claims)))"

definition SubjectFromContext :: "ctx \<Rightarrow> err + string" where
  "SubjectFromContext c = (case ClaimsFromContext c of
     None \<Rightarrow> Inl (App ErrUnauthorized)
   | Some claims \<Rightarrow> (if rcSubject (clRegistered claims) = [] then Inl (App ErrUnauthorized)
                     else Inr (rcSubject (clRegistered claims))))"

section \<open>Request metadata\<close>

definition WithContext :: "ctx \<Rightarrow> Meta \<Rightarrow> ctx" where
  "WithContext c m = c\<lparr>cxMeta := Some m\<rparr>"

definition FromContext :: "ctx \<Rightarrow> Meta" where
  "FromContext c = (case cxMeta c of None \<Rightarrow> emptyMeta | Some m \<Rightarrow> m)"

text \<open>What EchoMiddleware stores for a request with the given headers and peer address.\<close>

definition EchoMiddleware :: "string \<Rightarrow> string \<Rightarrow> string \<Rightarrow> string \<Rightarrow> ctx \<Rightarrow> ctx" where
  "EchoMiddleware respReqID reqReqID ip ua c =
    (let reqID = (if respReqID = [] then reqReqID else respReqID);
         opt = (\<lambda>s. if s \<noteq> [] then Some s else None)
     in WithContext c \<lparr>mtIP = opt ip, mtUserAgent = opt ua, mtRequestID = opt reqID\<rparr>)"

section \<open>Role-based access control\<close>

definition PermProductRead :: string where "PermProductRead = ''product:read''"
definition PermProductWrite :: string where "PermProductWrite = ''product:write''"
definition PermMovementWrite :: string where "PermMovementWrite = ''movement:write''"
definition PermMovementConfirm :: string where "PermMovementConfirm = ''movement:confirm''"
definition PermReportRead :: string where "PermReportRead = ''report:read''"

definition allTenantPermissions :: "string list" where
  "allTenantPermissions = [PermProductRead, PermProductWrite, PermMovementWrite,
     PermMovementConfirm, PermReportRead]"

definition PermissionsForRole :: "string \<Rightarrow> string list" where
  "PermissionsForRole role =
    (let r = ToLower (TrimSpace role)
     in if r = ''super_admin'' then allTenantPermissions
        else if r = ''admin'' \<or> r = ''owner'' then allTenantPermissions
        else if r = ''manager'' then [PermProductRead, PermProductWrite, PermMovementWrite,
                                      PermMovementConfirm, PermReportRead]
        else if r = ''staff'' then [PermProductRead, PermMovementWrite]
        else [PermProductRead])"

definition HasPermission :: "Claims option \<Rightarrow> string \<Rightarrow> bool" where
  "HasPermission co permission = (case co of None \<Rightarrow> False | Some c \<Rightarrow>
     (let r = ToLower (TrimSpace (clRole c))
      in if r = ''super_admin'' \<or> r = ''admin'' \<or> r = ''owner'' then True
         else list_ex (\<lambda>p. p = permission) (clPermissions c)))"

definition RequirePermission :: "ctx \<Rightarrow> string \<Rightarrow> err + unit" where
  "RequirePermission c permission = (case ClaimsFromContext c of
     None \<Rightarrow> Inl (Sys ErrTenantContextMissing)
   | Some claims \<Rightarrow>
       (if clTenantID claims = [] then Inl (Sys ErrTenantContextMissing)
        else if \<not> HasPermission (Some claims) permission then Inl (App ErrForbidden)
        else Inr ()))"

lemma TenantIDFromContext_Inr:
  "TenantIDFromContext c = Inr t \<Longrightarrow> t \<noteq> [] \<and> (\<exists>cl. cxClaims c = Some cl \<and> clTenantID cl = t)"
  by (auto simp: TenantIDFromContext_def ClaimsFromContext_def split: option.splits if_splits)

lemma TenantIDFromContext_Tx [simp]: "TenantIDFromContext (c\<lparr>cxTx := b\<rparr>) = TenantIDFromContext c"
  by (simp add: TenantIDFromContext_def ClaimsFromContext_def)

lemma SubjectFromContext_Tx [simp]: "SubjectFromContext (c\<lparr>cxTx := b\<rparr>) = SubjectFromContext c"
  by (simp add: SubjectFromContext_def ClaimsFromContext_def)

lemma FromContext_Tx [simp]: "FromContext (c\<lparr>cxTx := b\<rparr>) = FromContext c"
  by (simp add: FromContext_def)

text \<open>A login puts PermissionsForRole of the role into the claims; the check then grants a
  permission exactly according to the role table.\<close>

definition role_grants :: "string \<Rightarrow> string \<Rightarrow> bool" where
  "role_grants r p =
    (if r \<in> {''super_admin'', ''admin'', ''owner''} then True
     else if r = ''manager'' then p \<in> set allTenantPermissions
     else if r = ''staff'' then p = PermProductRead \<or> p = PermMovementWrite
     else p = PermProductRead)"

text \<open>Login permissions and the permission check agree. For claims issued with the role and the
  permissions PermissionsForRole gives it, RequirePermission succeeds exactly when the role table
  grants the permission (a super_admin, admin or owner is granted every permission), is
  ErrForbidden otherwise, and is ErrTenantContextMissing exactly when no tenant is on the
  context.\<close>

theorem RequirePermission_role:
  assumes "cxClaims c = Some cl" "clPermissions cl = PermissionsForRole (clRole cl)"
  shows "RequirePermission c p =
    (if clTenantID cl = [] then Inl (Sys ErrTenantContextMissing)
     else if role_grants (ToLower (TrimSpace (clRole cl))) p then Inr ()
     else Inl (App ErrForbidden))"
  using assms
  by (auto simp: RequirePermission_def ClaimsFromContext_def HasPermission_def Let_def
      PermissionsForRole_def role_grants_def allTenantPermissions_def)

definition staffClaims :: Claims where
  "staffClaims = \<lparr>clTenantID = ''t1'', clTokenType = TokenTypeAccess, clRole = '' Staff '',
     clPermissions = PermissionsForRole '' Staff '',
     clRegistered = \<lparr>rcIssuer = [], rcSubject = ''u1'', rcAudience = [], rcExpiresAt = Some 900,
       rcNotBefore = None, rcIssuedAt = None, rcID = []\<rparr>\<rparr>"

theorem RequirePermission_role_witness:
  "RequirePermission (ContextWithClaims Background (Some staffClaims)) PermMovementConfirm
     = Inl (App ErrForbidden)"
proof -
  have r: "ToLower (TrimSpace (clRole staffClaims)) = ''staff''" by code_simp
  have g: "\<not> role_grants ''staff'' PermMovementConfirm" by code_simp
  have t: "clTenantID staffClaims \<noteq> []" by code_simp
  have "RequirePermission (ContextWithClaims Background (Some staffClaims)) PermMovementConfirm =
    (if clTenantID staffClaims = [] then Inl (Sys ErrTenantContextMissing)
     else if role_grants (ToLower (TrimSpace (clRole staffClaims))) PermMovementConfirm then Inr ()
     else Inl (App ErrForbidden))"
    by (rule RequirePermission_role) (simp_all add: ContextWithClaims_def Background_def staffClaims_def)
  then show ?thesis using r g t by simp
qed

end
