(* ===== verification/Pagination.thy ===== *)
theory Pagination
  imports Claims
begin

text \<open>
  Page bounds of the list endpoints (src/pkg/common/pagination/normalize.go), the success envelope
  and its pagination metadata (src/pkg/common/httpresponse). Page numbers and limits are Go int
  (64 bit); TotalPages is an int32 computed with int64 arithmetic.
\<close>

definition Normalize :: "int \<Rightarrow> int \<Rightarrow> int \<times> int" where
  "Normalize page limit =
    (let page = (if page < 1 then 1 else page);
         limit = (if limit < 1 then 20 else limit);
         limit = (if limit > 100 then 100 else limit)
     in (page, limit))"

record PaginationMeta =
  pmPage :: int
  pmPerPage :: int
  pmTotal :: int
  pmTotalPages :: int

definition ComputeTotalPages :: "int \<Rightarrow> int \<Rightarrow> int" where
  "ComputeTotalPages tot perPage =
    (if perPage \<le> 0 \<or> tot \<le> 0 then 0
     else (let s = wrap64 (wrap64 (tot + perPage) - 1);
               n = (if s < 0 then - ((- s) div perPage) else s div perPage)
           in if n > MaxInt32 then MaxInt32 else wrap32 n))"

record 'a APISuccessEnvelope =
  seSuccess :: bool
  seData :: 'a
  seRequestID :: "string option"
  sePagination :: "PaginationMeta option"

definition MetaFromEcho :: "string \<Rightarrow> string \<Rightarrow> string option" where
  "MetaFromEcho respReqID reqReqID =
    (let reqID = (if respReqID = [] then reqReqID else respReqID)
     in if reqID = [] then None else Some reqID)"

definition OK :: "string \<Rightarrow> string \<Rightarrow> int \<Rightarrow> 'a \<Rightarrow> int \<times> 'a APISuccessEnvelope" where
  "OK respReqID reqReqID status d =
    (status, \<lparr>seSuccess = True, seData = d, seRequestID = MetaFromEcho respReqID reqReqID,
              sePagination = None\<rparr>)"

definition OKList :: "string \<Rightarrow> string \<Rightarrow> int \<Rightarrow> 'a \<Rightarrow> PaginationMeta \<Rightarrow> int \<times> 'a APISuccessEnvelope" where
  "OKList respReqID reqReqID status d pg =
    (status, \<lparr>seSuccess = True, seData = d, seRequestID = MetaFromEcho respReqID reqReqID,
              sePagination = Some pg\<rparr>)"

lemma Normalize_bounds:
  "Normalize p l = (p', l') \<Longrightarrow> 1 \<le> p' \<and> 1 \<le> l' \<and> l' \<le> 100"
  by (auto simp: Normalize_def Let_def split: if_splits)

lemma Normalize_idem: "Normalize p l = (p', l') \<Longrightarrow> Normalize p' l' = (p', l')"
  by (auto simp: Normalize_def Let_def split: if_splits)

lemma ceil_div:
  fixes t n :: int
  assumes "0 < t" "0 < n"
  shows "(t + n - 1) div n = - ((- t) div n)"
proof -
  have "t = n * (t div n) + t mod n" by simp
  show ?thesis
  proof (cases "t mod n = 0")
    case True
    then obtain k where k: "t = n * k" by auto
    have "(n * k + (n - 1)) div n = k + (n - 1) div n" using assms by simp
    moreover have "(n - 1) div n = 0" using assms by simp
    moreover have "(- (n * k)) div n = - k" using assms nonzero_mult_div_cancel_left [of n "- k"] by simp
    ultimately show ?thesis using k by (simp add: algebra_simps)
  next
    case False
    then have "(- t) div n = - (t div n) - 1" using assms by (simp add: zdiv_zminus1_eq_if)
    moreover have "(t + n - 1) div n = t div n + 1"
    proof -
      have b0: "0 \<le> t mod n" and b2: "t mod n < n" using assms by simp_all
      have b: "1 \<le> t mod n" "t mod n < n" using b0 b2 False by linarith+
      have "t + n - 1 = n * (t div n + 1) + (t mod n - 1)"
        by (simp add: algebra_simps)
      also have "\<dots> div n = t div n + 1 + (t mod n - 1) div n"
        using assms by simp
      also have "(t mod n - 1) div n = 0" using b by (simp add: div_pos_pos_trivial)
      finally show ?thesis by simp
    qed
    ultimately show ?thesis by simp
  qed
qed



end
