(* ===== verification/Programs.thy ===== *)
theory Programs
  imports Pagination
begin

text \<open>
  Programs as functions from a world to a result and a world: an error of the datatype err or a
  value. The type of worlds is a parameter, because the services of the repository do not share
  their state: the inventory service runs on the world of Database, the authentication service and
  the event consumers on worlds of their own. The second part is a calculus of frame conditions:
  keeps R m says that every run of m, failing ones included, ends in a world related to the first by
  R; for a reflexive and transitive R (locale effect) it is compositional, so that a frame condition
  of a whole usecase follows from those of its statements.
\<close>

section \<open>Programs\<close>

type_synonym ('w, 'a) prog = "'w \<Rightarrow> (err + 'a) \<times> 'w"

definition ret :: "'a \<Rightarrow> ('w, 'a) prog" where
  "ret a w = (Inr a, w)"

definition throw :: "err \<Rightarrow> ('w, 'a) prog" where
  "throw e w = (Inl e, w)"

definition bindM :: "('w, 'a) prog \<Rightarrow> ('a \<Rightarrow> ('w, 'b) prog) \<Rightarrow> ('w, 'b) prog" where
  "bindM m f w = (case m w of (Inl e, w') \<Rightarrow> (Inl e, w') | (Inr a, w') \<Rightarrow> f a w')"

definition liftE :: "err + 'a \<Rightarrow> ('w, 'a) prog" where
  "liftE r w = (r, w)"

text \<open>The result of m as a value, for code that looks at an error itself; a panic is not a value.\<close>

definition tryM :: "('w, 'a) prog \<Rightarrow> ('w, err + 'a) prog" where
  "tryM m w = (case m w of
     (Inl (Panic s), w') \<Rightarrow> (Inl (Panic s), w')
   | (r, w') \<Rightarrow> (Inr r, w'))"

text \<open>The Go statement that drops an error.\<close>

definition ignoreErr :: "('w, 'a) prog \<Rightarrow> ('w, unit) prog" where
  "ignoreErr m = bindM (tryM m) (\<lambda>_. ret ())"

fun forM :: "'a list \<Rightarrow> ('a \<Rightarrow> ('w, unit) prog) \<Rightarrow> ('w, unit) prog" where
  "forM [] f = ret ()"
| "forM (x # xs) f = bindM (f x) (\<lambda>_. forM xs f)"

text \<open>A loop that appends to a result slice.\<close>

fun collectM :: "'a list \<Rightarrow> ('a \<Rightarrow> ('w, 'b list) prog) \<Rightarrow> ('w, 'b list) prog" where
  "collectM [] f = ret []"
| "collectM (x # xs) f = bindM (f x) (\<lambda>ys. bindM (collectM xs f) (\<lambda>zs. ret (ys @ zs)))"

section \<open>Runs\<close>

lemma ret_run [run_simps]: "ret a w = (Inr a, w)"
  by (simp add: ret_def)

lemma throw_run [run_simps]: "throw e w = (Inl e, w)"
  by (simp add: throw_def)

lemma liftE_run [run_simps]: "liftE r w = (r, w)"
  by (simp add: liftE_def)

lemma bindM_run: "m w = (Inr a, w') \<Longrightarrow> bindM m f w = f a w'"
  by (simp add: bindM_def)

lemma bindM_err: "m w = (Inl e, w') \<Longrightarrow> bindM m f w = (Inl e, w')"
  by (simp add: bindM_def)

lemma bindM_Inr:
  "bindM m f w = (Inr b, w'') \<longleftrightarrow> (\<exists>a w'. m w = (Inr a, w') \<and> f a w' = (Inr b, w''))"
  by (auto simp: bindM_def split: prod.splits sum.splits)

lemma bindM_Inl:
  "bindM m f w = (Inl e, w'') \<longleftrightarrow>
     m w = (Inl e, w'') \<or> (\<exists>a w'. m w = (Inr a, w') \<and> f a w' = (Inl e, w''))"
  by (auto simp: bindM_def split: prod.splits sum.splits)

lemma bindM_ret [simp]: "bindM (ret a) f = f a"
  by (rule ext) (simp add: bindM_def ret_def)

lemma bindM_throw [simp]: "bindM (throw e) f = throw e"
  by (rule ext) (simp add: bindM_def throw_def)

lemma bindM_liftE_Inr [simp]: "bindM (liftE (Inr a)) f = f a"
  by (rule ext) (simp add: bindM_def liftE_def)

lemma bindM_liftE_Inl [simp]: "bindM (liftE (Inl e)) f = throw e"
  by (rule ext) (simp add: bindM_def liftE_def throw_def)

lemma bindM_liftE_case: "bindM (liftE x) g = (\<lambda>v. case x of Inl e \<Rightarrow> (Inl e, v) | Inr a \<Rightarrow> g a v)"
  by (rule ext) (auto simp: bindM_def liftE_def split: sum.splits)

lemma bindM_assoc: "bindM (bindM m f) g = bindM m (\<lambda>a. bindM (f a) g)"
  by (rule ext) (simp add: bindM_def split: prod.splits sum.splits)

lemma liftE_Inr_iff [simp]: "liftE r w = (Inr a, w') \<longleftrightarrow> r = Inr a \<and> w' = w"
  by (auto simp: liftE_def)

lemma liftE_Inl_iff [simp]: "liftE r w = (Inl e, w') \<longleftrightarrow> r = Inl e \<and> w' = w"
  by (auto simp: liftE_def)

lemma ret_Inr_iff [simp]: "ret x w = (Inr a, w') \<longleftrightarrow> x = a \<and> w' = w"
  by (auto simp: ret_def)

lemma ret_Inl_iff [simp]: "ret x w \<noteq> (Inl e, w')"
  by (auto simp: ret_def)

lemma throw_Inr_iff [simp]: "throw e w \<noteq> (Inr a, w')"
  by (auto simp: throw_def)

lemma throw_Inl_iff [simp]: "throw e w = (Inl e', w') \<longleftrightarrow> e' = e \<and> w' = w"
  by (auto simp: throw_def)

lemma tryM_Inr_Inr: "tryM m w = (Inr (Inr a), w') \<longleftrightarrow> m w = (Inr a, w')"
  by (auto simp: tryM_def split: prod.splits sum.splits err.splits)

lemma tryM_Inr_Inl: "tryM m w = (Inr (Inl e), w') \<longleftrightarrow> m w = (Inl e, w') \<and> (\<forall>s. e \<noteq> Panic s)"
  by (cases "m w"; cases "fst (m w)"; cases e) (auto simp: tryM_def split: err.splits)

lemma tryM_snd [simp]: "snd (tryM m w) = snd (m w)"
  by (auto simp: tryM_def split: prod.splits sum.splits err.splits)

lemma ignoreErr_snd [simp]: "snd (ignoreErr m w) = snd (m w)"
proof -
  have "snd (ignoreErr m w) = snd (tryM m w)"
    by (cases "tryM m w"; cases "fst (tryM m w)") (auto simp: ignoreErr_def bindM_def ret_def)
  then show ?thesis by simp
qed

lemma ignoreErr_Inr: "ignoreErr m w = (Inr u, w') \<Longrightarrow> w' = snd (m w)"
  by (metis ignoreErr_snd snd_conv)

text \<open>An invariant of worlds that both parts keep.\<close>

lemma bindM_snd_inv:
  assumes "P (snd (m w))" "\<And>a w1. m w = (Inr a, w1) \<Longrightarrow> P w1 \<Longrightarrow> P (snd (f a w1))"
  shows "P (snd (bindM m f w))"
  using assms by (auto simp: bindM_def split: prod.splits sum.splits)

section \<open>Frame conditions\<close>

definition keeps :: "('w \<Rightarrow> 'w \<Rightarrow> bool) \<Rightarrow> ('w, 'a) prog \<Rightarrow> bool" where
  "keeps R m \<longleftrightarrow> (\<forall>w. R w (snd (m w)))"

lemma keepsI: "(\<And>w. R w (snd (m w))) \<Longrightarrow> keeps R m"
  by (simp add: keeps_def)

lemma keepsD: "keeps R m \<Longrightarrow> m w = (r, w') \<Longrightarrow> R w w'"
  by (metis keeps_def snd_conv)

lemma keeps_mono: "keeps R m \<Longrightarrow> (\<And>w w'. R w w' \<Longrightarrow> S w w') \<Longrightarrow> keeps S m"
  by (simp add: keeps_def)

locale effect =
  fixes R :: "'w \<Rightarrow> 'w \<Rightarrow> bool"
  assumes R_refl: "R w w"
    and R_trans: "R a b \<Longrightarrow> R b c \<Longrightarrow> R a c"
begin

lemma keeps_ret: "keeps R (ret a)"
  by (simp add: keeps_def ret_def R_refl)

lemma keeps_throw: "keeps R (throw e)"
  by (simp add: keeps_def throw_def R_refl)

lemma keeps_liftE: "keeps R (liftE r)"
  by (simp add: keeps_def liftE_def R_refl)

lemma keeps_bind: "keeps R m \<Longrightarrow> (\<And>a. keeps R (f a)) \<Longrightarrow> keeps R (bindM m f)"
  unfolding keeps_def bindM_def
  by (auto split: prod.splits sum.splits intro: R_trans) (metis R_trans snd_conv)+

lemma keeps_try: "keeps R m \<Longrightarrow> keeps R (tryM m)"
  by (simp add: keeps_def)

lemma keeps_ignore: "keeps R m \<Longrightarrow> keeps R (ignoreErr m)"
  by (simp add: keeps_def)

lemma keeps_forM: "(\<And>x. x \<in> set xs \<Longrightarrow> keeps R (f x)) \<Longrightarrow> keeps R (forM xs f)"
  by (induction xs) (auto intro: keeps_bind keeps_ret)

lemma keeps_collectM: "(\<And>x. x \<in> set xs \<Longrightarrow> keeps R (f x)) \<Longrightarrow> keeps R (collectM xs f)"
  by (induction xs) (auto intro!: keeps_bind keeps_ret)

lemma keeps_if: "(b \<Longrightarrow> keeps R m) \<Longrightarrow> (\<not> b \<Longrightarrow> keeps R n) \<Longrightarrow> keeps R (if b then m else n)"
  by simp

lemma keeps_option: "(x = None \<Longrightarrow> keeps R m) \<Longrightarrow> (\<And>a. x = Some a \<Longrightarrow> keeps R (f a)) \<Longrightarrow>
    keeps R (case x of None \<Rightarrow> m | Some a \<Rightarrow> f a)"
  by (cases x) auto

lemma keeps_sum: "(\<And>e. x = Inl e \<Longrightarrow> keeps R (f e)) \<Longrightarrow> (\<And>a. x = Inr a \<Longrightarrow> keeps R (g a)) \<Longrightarrow>
    keeps R (case x of Inl e \<Rightarrow> f e | Inr a \<Rightarrow> g a)"
  by (cases x) auto

lemma keeps_prod: "(\<And>a b. x = (a, b) \<Longrightarrow> keeps R (f a b)) \<Longrightarrow> keeps R (case x of (a, b) \<Rightarrow> f a b)"
  by (cases x) auto

lemmas keeps_rules = keeps_ret keeps_throw keeps_liftE keeps_bind keeps_try keeps_ignore
  keeps_forM keeps_collectM keeps_if keeps_option keeps_sum keeps_prod

end

end
