(* ===== verification/Database.thy ===== *)
theory Database
  imports Programs
begin

text \<open>
  The data of the inventory service and the world its code runs in. The rows of the tables are the
  gorm row structs of the repositories (src/services/inventory/domains/*/repository), the API objects
  are the structs the repositories return, and the database record holds one list per table in
  storage order. The uniqueness and CHECK constraints of src/infra/database/migrations are in the
  insert and update statements of the repositories.

  The world has the
  committed database, the view of an open transaction, the Redis cache, Pub/Sub channel, streams and
  idempotency keys, and the
  sources of everything the code does not decide: which statement fails and with which message,
  which Redis command fails, finds its key expired or loses its reply, which identifiers Redis gives to
  stream entries, what the clock shows, which UUIDs are drawn,
  how the database collates strings and normalises jsonb, and the SHA-256 digest. Each is a function of a counter, so a
  run is determined by the world it starts in, and a theorem for all worlds holds for every schedule
  of failures.
\<close>

section \<open>Rows\<close>

record warehouseRow =
  whrID :: string
  whrTenantID :: string
  whrCode :: string
  whrName :: string
  whrAddress :: "string option"
  whrIsActive :: bool
  whrCreatedAt :: int
  whrUpdatedAt :: int
  whrDeletedAt :: "int option"

record categoryRow =
  carID :: string
  carTenantID :: string
  carParentID :: "string option"
  carName :: string
  carDescription :: "string option"
  carSortOrder :: int
  carCreatedAt :: int
  carUpdatedAt :: int
  carDeletedAt :: "int option"

record productRow =
  prrID :: string
  prrTenantID :: string
  prrCategoryID :: "string option"
  prrSKU :: string
  prrName :: string
  prrDescription :: "string option"
  prrUnit :: string
  prrPrice :: rat
  prrReorderLevel :: int
  prrMetadata :: string
  prrCreatedAt :: int
  prrUpdatedAt :: int
  prrDeletedAt :: "int option"

record stockBalanceRow =
  sbrID :: string
  sbrTenantID :: string
  sbrWarehouseID :: string
  sbrProductID :: string
  sbrQuantity :: int
  sbrReservedQuantity :: int
  sbrLastMovementAt :: "int option"
  sbrCreatedAt :: int
  sbrUpdatedAt :: int

record movementRow =
  mvrID :: string
  mvrTenantID :: string
  mvrType :: string
  mvrReferenceNumber :: string
  mvrSourceWarehouseID :: "string option"
  mvrDestinationWarehouseID :: "string option"
  mvrCreatedBy :: string
  mvrStatus :: string
  mvrNotes :: "string option"
  mvrIdempotencyKey :: "string option"
  mvrIdempotencyRequestHash :: "string option"
  mvrCreatedAt :: int
  mvrUpdatedAt :: int

record movementLineRow =
  mlrID :: string
  mlrMovementID :: string
  mlrProductID :: string
  mlrQuantity :: int
  mlrNotes :: "string option"
  mlrCreatedAt :: int

record auditLogRow =
  alrID :: string
  alrTenantID :: string
  alrUserID :: "string option"
  alrAction :: string
  alrEntity :: string
  alrEntityID :: string
  alrBeforeData :: "jval option"
  alrAfterData :: "jval option"
  alrIPAddress :: "string option"
  alrUserAgent :: "string option"
  alrRequestID :: "string option"
  alrCreatedAt :: int

record outboxEventRow =
  oerID :: int
  oerTenantID :: string
  oerEventType :: string
  oerAggregateType :: string
  oerAggregateID :: string
  oerPayload :: jval
  oerPublished :: bool
  oerCreatedAt :: int
  oerPublishedAt :: "int option"

record userRow =
  urID :: string
  urTenantID :: string
  urFullName :: string

record database =
  dbUsers :: "userRow list"
  dbWarehouses :: "warehouseRow list"
  dbCategories :: "categoryRow list"
  dbProducts :: "productRow list"
  dbBalances :: "stockBalanceRow list"
  dbMovements :: "movementRow list"
  dbLines :: "movementLineRow list"
  dbOutbox :: "outboxEventRow list"
  dbAudit :: "auditLogRow list"

section \<open>Objects of the application layers\<close>

record Warehouse =
  whID :: string
  whTenantID :: string
  whCode :: string
  whName :: string
  whAddress :: "string option"
  whIsActive :: bool
  whCreatedAt :: int
  whUpdatedAt :: int
  whDeletedAt :: "int option"

record Category =
  caID :: string
  caTenantID :: string
  caParentID :: "string option"
  caName :: string
  caDescription :: "string option"
  caSortOrder :: int
  caCreatedAt :: int
  caUpdatedAt :: int
  caDeletedAt :: "int option"

record Product =
  prID :: string
  prTenantID :: string
  prCategoryID :: "string option"
  prSKU :: string
  prName :: string
  prDescription :: "string option"
  prUnit :: string
  prPrice :: rat
  prReorderLevel :: int
  prCurrentStock :: int
  prMetadata :: string
  prCreatedAt :: int
  prUpdatedAt :: int
  prDeletedAt :: "int option"

record StockBalance =
  sbID :: string
  sbTenantID :: string
  sbWarehouseID :: string
  sbProductID :: string
  sbQuantity :: int
  sbReservedQuantity :: int
  sbLastMovementAt :: "int option"
  sbCreatedAt :: int
  sbUpdatedAt :: int

record MovementLine =
  mlID :: string
  mlMovementID :: string
  mlProductID :: string
  mlQuantity :: int
  mlNotes :: "string option"
  mlCreatedAt :: int

record Movement =
  mvID :: string
  mvTenantID :: string
  mvType :: string
  mvReferenceNumber :: string
  mvSourceWarehouseID :: "string option"
  mvDestinationWarehouseID :: "string option"
  mvCreatedBy :: string
  mvStatus :: string
  mvNotes :: "string option"
  mvIdempotencyKey :: "string option"
  mvIdempotencyRequestHash :: "string option"
  mvLines :: "MovementLine list"
  mvCreatedAt :: int
  mvUpdatedAt :: int

record Summary =
  suTotalProducts :: int
  suTotalWarehouses :: int
  suMovementsToday :: int
  suLowStockCount :: int

record MovementChartPoint =
  mcpBucketStart :: string
  mcpMovementCount :: int

record MovementChart =
  mcPeriod :: string
  mcPoints :: "MovementChartPoint list"

text \<open>The paginated outputs of the list usecases (ListWarehousesOutput, ListCategoriesOutput,
  ListProductsOutput, ListMovementsOutput, ListAuditLogsOutput) have the same four fields.\<close>

record 'a ListOutput =
  loItems :: "'a list"
  loTotal :: int
  loPage :: int
  loPerPage :: int

text \<open>A cached value is the JSON of one Go value: encoding/json round-trips the structs of this
  program (exported fields, no custom tags that drop data), so the value itself is kept.\<close>

datatype cval =
    CVProduct Product
  | CVProducts "Product ListOutput"
  | CVCategories "Category ListOutput"
  | CVWarehouses "Warehouse ListOutput"
  | CVSummary Summary
  | CVChart MovementChart

record StockChange =
  scWarehouseID :: string
  scProductID :: string
  scOldQty :: int
  scNewQty :: int

record PubEvent =
  peEvent :: string
  peTenantID :: string
  peMovementID :: string
  peChanges :: "StockChange list"

section \<open>The world\<close>

datatype redis_fault = RedisDown | RedisExpired

text \<open>A Redis stream: its entries in order, and per consumer group the number of entries delivered
  so far and the identifiers delivered and not acknowledged. A command on the event bus may fail
  before it is executed or lose its reply after it.\<close>

record streamEntry =
  seID :: string
  seFields :: "(string \<times> string) list"

record groupState =
  gsName :: string
  gsNext :: nat
  gsPending :: "string list"

record busStream =
  bsName :: string
  bsEntries :: "streamEntry list"
  bsGroups :: "groupState list"

datatype bus_fault = BusDown string | ReplyLost string

record world =
  wdb :: database
  wtx :: "database option"
  wcache :: "(string \<times> cval \<times> int) list"
  wredis :: bool
  wpub :: "(string \<times> PubEvent) list"
  wseq :: int
  wstmt :: nat
  wfault :: "nat \<Rightarrow> string option"
  wcmd :: nat
  wcfault :: "nat \<Rightarrow> redis_fault option"
  wtick :: nat
  wtime :: "nat \<Rightarrow> int"
  wfresh :: nat
  wuuid :: "nat \<Rightarrow> string"
  wcoll :: "string \<Rightarrow> string"
  wsha :: "string \<Rightarrow> string"
  wjsonb :: "string \<Rightarrow> string"
  wstreams :: "busStream list"
  wkeys :: "(string \<times> int) list"
  wbus :: nat
  wbfault :: "nat \<Rightarrow> bus_fault option"
  wxadd :: nat
  wxid :: "nat \<Rightarrow> string"

type_synonym 'a app = "(world, 'a) prog"

text \<open>Clock, UUIDs.\<close>

definition nowUTC :: "int app" where
  "nowUTC w = (Inr (wtime w (wtick w)), w\<lparr>wtick := Suc (wtick w)\<rparr>)"

definition newUUID :: "string app" where
  "newUUID w = (Inr (wuuid w (wfresh w)), w\<lparr>wfresh := Suc (wfresh w)\<rparr>)"

section \<open>Statements and transactions\<close>

datatype handle = Pool | Tx

text \<open>transaction.GetDB: the transaction of the context if there is one, else the pool.\<close>

definition GetDB :: "ctx \<Rightarrow> handle" where
  "GetDB c = (if cxTx c then Tx else Pool)"

text \<open>One SQL statement on a handle. It fails when the world says so; otherwise it runs on the
  committed database or on the open transaction.\<close>

definition runStmt :: "handle \<Rightarrow> (database \<Rightarrow> err + 'a \<times> database) \<Rightarrow> 'a app" where
  "runStmt h f w0 =
    (let w = w0\<lparr>wstmt := Suc (wstmt w0)\<rparr>
     in case wfault w0 (wstmt w0) of
          Some msg \<Rightarrow> (Inl (Raw msg), w)
        | None \<Rightarrow> (case h of
            Pool \<Rightarrow> (case f (wdb w) of
                Inl e \<Rightarrow> (Inl e, w)
              | Inr (a, d) \<Rightarrow> (Inr a, w\<lparr>wdb := d\<rparr>))
          | Tx \<Rightarrow> (case wtx w of
                None \<Rightarrow> (Inl (Raw ''sql: transaction has already been committed or rolled back''), w)
              | Some t \<Rightarrow> (case f t of
                  Inl e \<Rightarrow> (Inl e, w)
                | Inr (a, d) \<Rightarrow> (Inr a, w\<lparr>wtx := Some d\<rparr>)))))"

definition queryStmt :: "handle \<Rightarrow> (database \<Rightarrow> 'a) \<Rightarrow> 'a app" where
  "queryStmt h q = runStmt h (\<lambda>d. Inr (q d, d))"

text \<open>gorm's First: the first row that matches, ErrRecordNotFound otherwise.\<close>

definition firstStmt :: "handle \<Rightarrow> (database \<Rightarrow> 'a option) \<Rightarrow> 'a app" where
  "firstStmt h q = runStmt h (\<lambda>d. case q d of
     None \<Rightarrow> Inl (Sys GormRecordNotFound)
   | Some r \<Rightarrow> Inr (r, d))"

text \<open>transaction.RunInTx: a context that already has a transaction reuses it; otherwise BEGIN, the
  callback on a context with the transaction, COMMIT on success and ROLLBACK on an error or panic.
  BEGIN and COMMIT are statements that may fail; a failed COMMIT leaves nothing behind.\<close>

definition RunInTx :: "ctx \<Rightarrow> (ctx \<Rightarrow> 'a app) \<Rightarrow> 'a app" where
  "RunInTx c fn w0 =
    (if GetDB c = Tx then fn c w0
     else (case wfault w0 (wstmt w0) of
        Some msg \<Rightarrow> (Inl (Raw msg), w0\<lparr>wstmt := Suc (wstmt w0)\<rparr>)
      | None \<Rightarrow>
         (case fn (c\<lparr>cxTx := True\<rparr>) (w0\<lparr>wstmt := Suc (wstmt w0), wtx := Some (wdb w0)\<rparr>) of
            (Inl e, w) \<Rightarrow> (Inl e, w\<lparr>wtx := None\<rparr>)
          | (Inr a, w) \<Rightarrow>
             (let w' = w\<lparr>wstmt := Suc (wstmt w), wtx := None\<rparr>
              in case wfault w (wstmt w) of
                   Some msg \<Rightarrow> (Inl (Raw msg), w')
                 | None \<Rightarrow> (case wtx w of
                     None \<Rightarrow> (Inl (Raw ''sql: transaction has already been committed or rolled back''), w')
                   | Some d \<Rightarrow> (Inr a, w'\<lparr>wdb := d\<rparr>))))))"

end
