(* ===== verification/Effects.thy ===== *)
theory Effects
  imports Database
begin

text \<open>
  The frames of the store of the inventory service, instances of the calculus of Programs: the
  committed database is unchanged, the open transaction is unchanged, the database is unchanged at
  all, the schedules of the world are unchanged; and what a run of a statement or of a transaction
  says about the view it worked on.
\<close>

section \<open>Frames of the store\<close>

subsection \<open>The committed database, the transaction, the whole database\<close>

definition samePool :: "world \<Rightarrow> world \<Rightarrow> bool" where
  "samePool w w' \<longleftrightarrow> wdb w' = wdb w"

definition sameTx :: "world \<Rightarrow> world \<Rightarrow> bool" where
  "sameTx w w' \<longleftrightarrow> wtx w' = wtx w"

definition sameDB :: "world \<Rightarrow> world \<Rightarrow> bool" where
  "sameDB w w' \<longleftrightarrow> wdb w' = wdb w \<and> wtx w' = wtx w \<and> wseq w' = wseq w \<and> wpub w' = wpub w"

text \<open>What no program changes: the schedules of the world and its configuration.\<close>

definition sameEnv :: "world \<Rightarrow> world \<Rightarrow> bool" where
  "sameEnv w w' \<longleftrightarrow> wfault w' = wfault w \<and> wcfault w' = wcfault w \<and> wtime w' = wtime w
     \<and> wuuid w' = wuuid w \<and> wcoll w' = wcoll w \<and> wsha w' = wsha w \<and> wjsonb w' = wjsonb w \<and> wredis w' = wredis w
     \<and> wbfault w' = wbfault w \<and> wxid w' = wxid w"

interpretation pool: effect samePool
  by standard (auto simp: samePool_def)

interpretation txv: effect sameTx
  by standard (auto simp: sameTx_def)

interpretation dbs: effect sameDB
  by standard (auto simp: sameDB_def)

interpretation env: effect sameEnv
  by standard (auto simp: sameEnv_def)

lemma sameDB_samePool: "keeps sameDB m \<Longrightarrow> keeps samePool m"
  by (auto simp: keeps_def sameDB_def samePool_def)

lemma sameDB_sameTx: "keeps sameDB m \<Longrightarrow> keeps sameTx m"
  by (auto simp: keeps_def sameDB_def sameTx_def)

subsection \<open>The view a handle works on\<close>

definition viewOf :: "handle \<Rightarrow> world \<Rightarrow> database" where
  "viewOf h w = (case h of Pool \<Rightarrow> wdb w | Tx \<Rightarrow> (case wtx w of Some d \<Rightarrow> d | None \<Rightarrow> wdb w))"

definition setView :: "handle \<Rightarrow> database \<Rightarrow> world \<Rightarrow> world" where
  "setView h d w = (case h of Pool \<Rightarrow> w\<lparr>wdb := d\<rparr> | Tx \<Rightarrow> w\<lparr>wtx := Some d\<rparr>)"

lemma runStmt_Inr:
  "runStmt h f w = (Inr a, w') \<Longrightarrow>
     \<exists>d. f (viewOf h w) = Inr (a, d) \<and> w' = setView h d (w\<lparr>wstmt := Suc (wstmt w)\<rparr>)
       \<and> (h = Tx \<longrightarrow> wtx w \<noteq> None) \<and> wfault w (wstmt w) = None"
  by (cases h) (auto simp: runStmt_def Let_def viewOf_def setView_def split: option.splits sum.splits)

lemma runStmt_Inl:
  "runStmt h f w = (Inl e, w') \<Longrightarrow> w' = w\<lparr>wstmt := Suc (wstmt w)\<rparr>
     \<and> ((\<exists>m. e = Raw m) \<or> (wfault w (wstmt w) = None \<and> f (viewOf h w) = Inl e))"
  by (cases h) (auto simp: runStmt_def Let_def viewOf_def split: option.splits sum.splits)

text \<open>Without a fault a statement does what its function says.\<close>

lemma runStmt_ok:
  "wfault w (wstmt w) = None \<Longrightarrow> (h = Tx \<Longrightarrow> wtx w \<noteq> None) \<Longrightarrow>
   runStmt h f w = (case f (viewOf h w) of
       Inl e \<Rightarrow> (Inl e, w\<lparr>wstmt := Suc (wstmt w)\<rparr>)
     | Inr (a, d) \<Rightarrow> (Inr a, setView h d (w\<lparr>wstmt := Suc (wstmt w)\<rparr>)))"
  by (cases h) (auto simp: runStmt_def Let_def viewOf_def setView_def split: option.splits sum.splits)

lemma viewOf_setView [simp]: "viewOf h (setView h d w) = d"
  by (cases h) (auto simp: viewOf_def setView_def)

lemma viewOf_Tx_setView_Pool [simp]: "wtx w \<noteq> None \<Longrightarrow> viewOf Tx (setView Pool d w) = viewOf Tx w"
  by (auto simp: viewOf_def setView_def)

lemma viewOf_Pool_setView_Tx [simp]: "viewOf Pool (setView Tx d w) = viewOf Pool w"
  by (auto simp: viewOf_def setView_def)

lemma queryStmt_Inr:
  "queryStmt h q w = (Inr a, w') \<Longrightarrow> a = q (viewOf h w) \<and> w' = w\<lparr>wstmt := Suc (wstmt w)\<rparr>
     \<and> (h = Tx \<longrightarrow> wtx w \<noteq> None)"
  using runStmt_Inr [of h "\<lambda>d. Inr (q d, d)" w a w']
  by (cases h) (auto simp: queryStmt_def viewOf_def setView_def split: option.splits)

lemma firstStmt_Inr:
  "firstStmt h q w = (Inr a, w') \<Longrightarrow> q (viewOf h w) = Some a \<and> w' = w\<lparr>wstmt := Suc (wstmt w)\<rparr>
     \<and> (h = Tx \<longrightarrow> wtx w \<noteq> None)"
  using runStmt_Inr [of h "\<lambda>d. case q d of None \<Rightarrow> Inl (Sys GormRecordNotFound) | Some r \<Rightarrow> Inr (r, d)" w a w']
  by (cases h) (auto simp: firstStmt_def viewOf_def setView_def split: option.splits)

lemma firstStmt_notfound:
  "firstStmt h q w = (Inl (Sys GormRecordNotFound), w') \<Longrightarrow>
     q (viewOf h w) = None \<and> w' = w\<lparr>wstmt := Suc (wstmt w)\<rparr>"
  using runStmt_Inl [of h "\<lambda>d. case q d of None \<Rightarrow> Inl (Sys GormRecordNotFound) | Some r \<Rightarrow> Inr (r, d)" w]
  by (auto simp: firstStmt_def split: option.splits)

lemma viewOf_upd [simp]:
  "viewOf h (w\<lparr>wstmt := n\<rparr>) = viewOf h w" "viewOf h (w\<lparr>wcmd := n\<rparr>) = viewOf h w"
  "viewOf h (w\<lparr>wtick := n\<rparr>) = viewOf h w" "viewOf h (w\<lparr>wfresh := n\<rparr>) = viewOf h w"
  "viewOf h (w\<lparr>wseq := i\<rparr>) = viewOf h w" "viewOf h (w\<lparr>wcache := c\<rparr>) = viewOf h w"
  "viewOf h (w\<lparr>wpub := p\<rparr>) = viewOf h w"
  by (simp_all add: viewOf_def split: handle.splits option.splits)

subsection \<open>Frames of the basic effects\<close>

lemma keeps_query: "keeps sameDB (queryStmt h q)"
  by (cases h) (auto simp: keeps_def sameDB_def queryStmt_def runStmt_def Let_def split: option.splits)

lemma keeps_first: "keeps sameDB (firstStmt h q)"
  by (cases h) (auto simp: keeps_def sameDB_def firstStmt_def runStmt_def Let_def split: option.splits)

lemma keeps_stmt_pool: "keeps samePool (runStmt Tx f)"
  by (auto simp: keeps_def samePool_def runStmt_def Let_def split: option.splits sum.splits)

lemma keeps_stmt_tx: "keeps sameTx (runStmt Pool f)"
  by (auto simp: keeps_def sameTx_def runStmt_def Let_def split: option.splits sum.splits)

lemma keeps_now: "keeps sameDB nowUTC"
  by (simp add: keeps_def sameDB_def nowUTC_def)

lemma keeps_uuid: "keeps sameDB newUUID"
  by (simp add: keeps_def sameDB_def newUUID_def)

lemma keeps_stmt_env: "keeps sameEnv (runStmt h f)"
  by (cases h) (auto simp: keeps_def sameEnv_def runStmt_def Let_def split: option.splits sum.splits)

lemma keeps_query_env: "keeps sameEnv (queryStmt h q)"
  by (simp add: queryStmt_def keeps_stmt_env)

lemma keeps_first_env: "keeps sameEnv (firstStmt h q)"
  by (simp add: firstStmt_def keeps_stmt_env)

lemma keeps_now_env: "keeps sameEnv nowUTC"
  by (simp add: keeps_def sameEnv_def nowUTC_def)

lemma keeps_uuid_env: "keeps sameEnv newUUID"
  by (simp add: keeps_def sameEnv_def newUUID_def)

lemmas env_basic = keeps_stmt_env keeps_query_env keeps_first_env keeps_now_env keeps_uuid_env

lemmas dbs_basic = keeps_query keeps_first keeps_now keeps_uuid

lemma nowUTC_Inr [simp]: "nowUTC w = (Inr t, w') \<longleftrightarrow> t = wtime w (wtick w) \<and> w' = w\<lparr>wtick := Suc (wtick w)\<rparr>"
  by (auto simp: nowUTC_def)

lemma newUUID_Inr [simp]: "newUUID w = (Inr t, w') \<longleftrightarrow> t = wuuid w (wfresh w) \<and> w' = w\<lparr>wfresh := Suc (wfresh w)\<rparr>"
  by (auto simp: newUUID_def)

lemma nowUTC_Inl [simp]: "nowUTC w \<noteq> (Inl e, w')"
  by (auto simp: nowUTC_def)

lemma newUUID_Inl [simp]: "newUUID w \<noteq> (Inl e, w')"
  by (auto simp: newUUID_def)

section \<open>Missing rows\<close>

text \<open>The error translation every repository applies to First: a record that is not found becomes
  the ErrNotFound of the API.\<close>

definition orNotFound :: "'a app \<Rightarrow> 'a app" where
  "orNotFound m =
    bindM (tryM m) (\<lambda>r.
    case r of
      Inl e \<Rightarrow> (if errorsIs e (Sys GormRecordNotFound) then throw (App ErrNotFound) else throw e)
    | Inr row \<Rightarrow> ret row)"

lemma orNotFound_Inr [simp]: "orNotFound m w = (Inr a, w') \<longleftrightarrow> m w = (Inr a, w')"
proof
  assume "orNotFound m w = (Inr a, w')"
  then obtain r w1 where "tryM m w = (Inr r, w1)"
    "(case r of Inl e \<Rightarrow> (if errorsIs e (Sys GormRecordNotFound) then throw (App ErrNotFound) else throw e)
      | Inr row \<Rightarrow> ret row) w1 = (Inr a, w')"
    by (auto simp: orNotFound_def bindM_Inr)
  then show "m w = (Inr a, w')" by (cases r) (auto simp: tryM_Inr_Inr split: if_splits)
next
  assume "m w = (Inr a, w')"
  then have "tryM m w = (Inr (Inr a), w')" by (simp add: tryM_Inr_Inr)
  then show "orNotFound m w = (Inr a, w')" by (simp add: orNotFound_def bindM_run ret_run)
qed

lemma orNotFound_snd [simp]: "snd (orNotFound m w) = snd (m w)"
  by (cases "m w"; cases "fst (m w)")
    (auto simp: orNotFound_def bindM_def tryM_def throw_def ret_def split: err.splits)

lemma keeps_orNotFound: "keeps R m \<Longrightarrow> keeps R (orNotFound m)"
  by (simp add: keeps_def)

section \<open>Transactions\<close>

text \<open>Atomicity of RunInTx outside a transaction: if the callback on the transaction's context never
  touches the pool, then an error leaves the committed database as it was, and a success replaces it
  by the transaction's final view in one step.\<close>

lemma RunInTx_Inl:
  assumes "keeps samePool (fn (c\<lparr>cxTx := True\<rparr>))" "\<not> cxTx c"
    and "RunInTx c fn w = (Inl e, w')"
  shows "wdb w' = wdb w \<and> (w' = w\<lparr>wstmt := Suc (wstmt w)\<rparr> \<or> wtx w' = None)"
  using assms keepsD [OF assms(1)]
  by (fastforce simp: RunInTx_def GetDB_def samePool_def Let_def split: option.splits prod.splits sum.splits)

lemma RunInTx_Inr:
  assumes "\<not> cxTx c" "RunInTx c fn w = (Inr a, w')"
  obtains w1 d where "fn (c\<lparr>cxTx := True\<rparr>) (w\<lparr>wstmt := Suc (wstmt w), wtx := Some (wdb w)\<rparr>) = (Inr a, w1)"
    "wtx w1 = Some d" "w' = w1\<lparr>wstmt := Suc (wstmt w1), wtx := None, wdb := d\<rparr>"
    "wfault w (wstmt w) = None" "wfault w1 (wstmt w1) = None"
  using assms
  by (auto simp: RunInTx_def GetDB_def Let_def split: option.splits prod.splits sum.splits if_splits)

lemma RunInTx_nested [simp]: "cxTx c \<Longrightarrow> RunInTx c fn = fn c"
  by (rule ext) (simp add: RunInTx_def GetDB_def)

end
