(* ===== verification/Cache.thy ===== *)
theory Cache
  imports Effects
begin

text \<open>
  The cache of the services (src/pkg/cache): the key and pattern scheme of keys.go, the Cache
  interface with its Redis and Noop implementations, the choice NewRedis makes, and the cache-aside
  read that the usecases share with GetFromCacheOrDB (src/pkg/database/base/cache.go). The interface
  is the locale cache_interface; both implementations are interpretations of it.

  A Redis command may fail or find its key expired whenever the world says so; entries keep the TTL
  they were set with and only entries with a TTL expire. SCAN is the one of a server that nobody
  else writes to during the loop: it hands out the keys present at the start in batches of 100.
\<close>

section \<open>Keys\<close>

definition keyPrefix :: string where "keyPrefix = ''cache:t:''"

definition TTLProductList :: int where "TTLProductList = 5 * 60"
definition TTLProductOne :: int where "TTLProductOne = 10 * 60"
definition TTLCategoryList :: int where "TTLCategoryList = 15 * 60"
definition TTLWarehouseList :: int where "TTLWarehouseList = 15 * 60"
definition TTLDashboardSummary :: int where "TTLDashboardSummary = 30"
definition TTLDashboardChart :: int where "TTLDashboardChart = 30"

definition KeyProduct :: "string \<Rightarrow> string \<Rightarrow> string" where
  "KeyProduct tenantID productID = keyPrefix @ tenantID @ '':product:'' @ productID"

definition PatternProducts :: "string \<Rightarrow> string" where
  "PatternProducts tenantID = keyPrefix @ tenantID @ '':product*''"

definition KeyProductsList :: "string \<Rightarrow> string \<Rightarrow> string" where
  "KeyProductsList tenantID fp = keyPrefix @ tenantID @ '':products:list:'' @ fp"

definition KeyCategoriesList :: "string \<Rightarrow> string \<Rightarrow> string" where
  "KeyCategoriesList tenantID fp = keyPrefix @ tenantID @ '':categories:list:'' @ fp"

definition PatternCategories :: "string \<Rightarrow> string" where
  "PatternCategories tenantID = keyPrefix @ tenantID @ '':categories:*''"

definition KeyWarehousesList :: "string \<Rightarrow> string \<Rightarrow> string" where
  "KeyWarehousesList tenantID fp = keyPrefix @ tenantID @ '':warehouses:list:'' @ fp"

definition PatternWarehouses :: "string \<Rightarrow> string" where
  "PatternWarehouses tenantID = keyPrefix @ tenantID @ '':warehouses:*''"

definition KeyDashboardSummary :: "string \<Rightarrow> string" where
  "KeyDashboardSummary tenantID = keyPrefix @ tenantID @ '':dashboard:summary''"

definition KeyDashboardMovementsChart :: "string \<Rightarrow> string \<Rightarrow> string" where
  "KeyDashboardMovementsChart tenantID periodKey =
     keyPrefix @ tenantID @ '':dashboard:movements:chart:'' @ periodKey"

definition PatternDashboardMovementsChart :: "string \<Rightarrow> string" where
  "PatternDashboardMovementsChart tenantID = keyPrefix @ tenantID @ '':dashboard:movements:chart:*''"

definition ChartPeriodFingerprint :: "string \<Rightarrow> string" where
  "ChartPeriodFingerprint period = ToLower (TrimSpace period)"

text \<open>The first argument stands for the hex digest of SHA-256.\<close>

definition QueryFingerprint :: "(string \<Rightarrow> string) \<Rightarrow> string list \<Rightarrow> string" where
  "QueryFingerprint sha parts = take 16 (sha (joinStrings ''|'' parts))"

definition CategoriesFP :: "(string \<Rightarrow> string) \<Rightarrow> int \<Rightarrow> int \<Rightarrow> string \<Rightarrow> string \<Rightarrow> string \<Rightarrow> string" where
  "CategoriesFP sha page perPage search srt order =
     QueryFingerprint sha [Itoa page, Itoa perPage, ToLower (TrimSpace search), srt, order]"

definition ProductsFP :: "(string \<Rightarrow> string) \<Rightarrow> int \<Rightarrow> int \<Rightarrow> string \<Rightarrow> string \<Rightarrow> string \<Rightarrow> string \<Rightarrow> string" where
  "ProductsFP sha page perPage search srt order categoryID =
     (let cat = TrimSpace categoryID
      in QueryFingerprint sha [Itoa page, Itoa perPage, ToLower (TrimSpace search), srt, order, cat])"

definition WarehousesFP :: "(string \<Rightarrow> string) \<Rightarrow> int \<Rightarrow> int \<Rightarrow> string \<Rightarrow> string \<Rightarrow> string \<Rightarrow> string" where
  "WarehousesFP sha page perPage search srt order =
     QueryFingerprint sha [Itoa page, Itoa perPage, ToLower (TrimSpace search), srt, order]"

section \<open>Redis\<close>

text \<open>The glob patterns of Redis, without character classes: * any text, ? one character, a
  backslash escapes.\<close>

fun glob :: "string \<Rightarrow> string \<Rightarrow> bool" where
  "glob [] s = (s = [])"
| "glob (p # ps) [] = (p = CHR ''*'' \<and> glob ps [])"
| "glob (p # ps) (c # cs) =
    (if p = CHR ''*'' then glob ps (c # cs) \<or> glob (p # ps) cs
     else if p = CHR ''?'' then glob ps cs
     else if p = CHR 0x5C \<and> ps \<noteq> [] then hd ps = c \<and> glob (tl ps) cs
     else p = c \<and> glob ps cs)"

definition redisErr :: err where "redisErr = Raw ''redis: connection refused''"

definition redisCmd :: "(world \<Rightarrow> 'a \<times> world) \<Rightarrow> 'a app" where
  "redisCmd f w0 =
    (let w = w0\<lparr>wcmd := Suc (wcmd w0)\<rparr>
     in if wcfault w0 (wcmd w0) = Some RedisDown then (Inl redisErr, w)
        else (case f w of (a, w') \<Rightarrow> (Inr a, w')))"

definition removeKeys :: "string list \<Rightarrow> (string \<times> 'a) list \<Rightarrow> (string \<times> 'a) list" where
  "removeKeys ks c = filter (\<lambda>kv. fst kv \<notin> set ks) c"

text \<open>GET. The expiry schedule of the world applies to keys that were set with a TTL.\<close>

definition Redis_Get :: "string \<Rightarrow> cval option app" where
  "Redis_Get key w0 = redisCmd (\<lambda>w.
     case map_of (wcache w) key of
       None \<Rightarrow> (None, w)
     | Some (v, ttl) \<Rightarrow>
         (if wcfault w0 (wcmd w0) = Some RedisExpired \<and> 0 < ttl
          then (None, w\<lparr>wcache := removeKeys [key] (wcache w)\<rparr>) else (Some v, w))) w0"

definition Redis_Set :: "string \<Rightarrow> cval \<Rightarrow> int \<Rightarrow> unit app" where
  "Redis_Set key v ttl =
    (if ttl \<le> 0 then redisCmd (\<lambda>w. ((), w\<lparr>wcache := (key, v, 0) # removeKeys [key] (wcache w)\<rparr>))
     else redisCmd (\<lambda>w. ((), w\<lparr>wcache := (key, v, ttl) # removeKeys [key] (wcache w)\<rparr>)))"

definition redisDel :: "string list \<Rightarrow> unit app" where
  "redisDel ks = redisCmd (\<lambda>w. ((), w\<lparr>wcache := removeKeys ks (wcache w)\<rparr>))"

definition Redis_Delete :: "string list \<Rightarrow> unit app" where
  "Redis_Delete ks = (if length ks = 0 then ret () else redisDel ks)"

definition redisScan :: "string list \<Rightarrow> string \<Rightarrow> string list app" where
  "redisScan batch pattern = redisCmd (\<lambda>w. (filter (glob pattern) batch, w))"

text \<open>The SCAN loop over the keys still to be handed out; an empty rest is cursor 0.\<close>

function deletePatternLoop :: "string list \<Rightarrow> string \<Rightarrow> unit app" where
  "deletePatternLoop rest pattern =
    bindM (redisScan (take 100 rest) pattern) (\<lambda>keys.
    bindM (if length keys > 0 then redisDel keys else ret ()) (\<lambda>_.
    if drop 100 rest = [] then ret () else deletePatternLoop (drop 100 rest) pattern))"
  by pat_completeness auto
termination
  by (relation "measure (\<lambda>(rest, pattern). length rest)") auto

declare deletePatternLoop.simps [simp del]

definition Redis_DeletePattern :: "string \<Rightarrow> unit app" where
  "Redis_DeletePattern pattern w =
    (if pattern = [] then ret () w else deletePatternLoop (map fst (wcache w)) pattern w)"

section \<open>The interface and its implementations\<close>

record cache_impl =
  cGet :: "string \<Rightarrow> cval option app"
  cSet :: "string \<Rightarrow> cval \<Rightarrow> int \<Rightarrow> unit app"
  cDelete :: "string list \<Rightarrow> unit app"
  cDeletePattern :: "string \<Rightarrow> unit app"

definition Redis :: cache_impl where
  "Redis = \<lparr>cGet = Redis_Get, cSet = Redis_Set, cDelete = Redis_Delete,
            cDeletePattern = Redis_DeletePattern\<rparr>"

definition Noop :: cache_impl where
  "Noop = \<lparr>cGet = (\<lambda>_. ret None), cSet = (\<lambda>_ _ _. ret ()), cDelete = (\<lambda>_. ret ()),
           cDeletePattern = (\<lambda>_. ret ())\<rparr>"

definition NewRedis :: "bool \<Rightarrow> cache_impl" where
  "NewRedis rdb = (if \<not> rdb then Noop else Redis)"

text \<open>The cache a usecase holds: what NewRedis returned for the configured client.\<close>

definition wired :: cache_impl where
  "wired = \<lparr>cGet = (\<lambda>key w. cGet (NewRedis (wredis w)) key w),
            cSet = (\<lambda>key v ttl w. cSet (NewRedis (wredis w)) key v ttl w),
            cDelete = (\<lambda>ks w. cDelete (NewRedis (wredis w)) ks w),
            cDeletePattern = (\<lambda>p w. cDeletePattern (NewRedis (wredis w)) p w)\<rparr>"

text \<open>The cache-aside read of the usecases: a hit that decodes is returned; on a miss, an error of
  the cache or a value of another type the loader runs, and its result is written back with errors
  dropped.\<close>

definition readThrough :: "cache_impl \<Rightarrow> string \<Rightarrow> (cval \<Rightarrow> 'a option) \<Rightarrow> ('a \<Rightarrow> cval) \<Rightarrow> int \<Rightarrow> 'a app \<Rightarrow> 'a app" where
  "readThrough c key dec enc ttl load =
    bindM (tryM (cGet c key)) (\<lambda>r.
    case (case r of Inr (Some raw) \<Rightarrow> dec raw | _ \<Rightarrow> None) of
      Some out \<Rightarrow> ret out
    | None \<Rightarrow>
        bindM load (\<lambda>out.
        bindM (ignoreErr (cSet c key (enc out) ttl)) (\<lambda>_.
        ret out)))"

text \<open>GetFromCacheOrDB of the base package: same protocol, but a nil cache is skipped and nothing
  is stored unless the TTL is positive.\<close>

definition GetFromCacheOrDB :: "cache_impl option \<Rightarrow> string \<Rightarrow> (cval \<Rightarrow> 'a option) \<Rightarrow> ('a \<Rightarrow> cval) \<Rightarrow> int \<Rightarrow> 'a app \<Rightarrow> 'a app" where
  "GetFromCacheOrDB c key dec enc ttl dbFn =
    bindM (case c of None \<Rightarrow> ret None
           | Some ca \<Rightarrow> bindM (tryM (cGet ca key)) (\<lambda>r.
               ret (case r of Inr (Some raw) \<Rightarrow> dec raw | _ \<Rightarrow> None))) (\<lambda>hit.
    case hit of
      Some out \<Rightarrow> ret out
    | None \<Rightarrow>
        bindM dbFn (\<lambda>fromDB.
        bindM (case c of None \<Rightarrow> ret ()
               | Some ca \<Rightarrow> (if ttl > 0 then ignoreErr (cSet ca key (enc fromDB) ttl) else ret ())) (\<lambda>_.
        ret fromDB)))"

section \<open>The contract of a cache\<close>

text \<open>content w k is what the cache may answer for k. Nothing but a Set adds to it, a successful
  Delete or DeletePattern removes the keys it names, and no operation touches the database.\<close>

locale cache_interface =
  fixes impl :: cache_impl
    and content :: "world \<Rightarrow> string \<Rightarrow> cval option"
  assumes get_frame: "keeps sameDB (cGet impl k)"
    and set_frame: "keeps sameDB (cSet impl k v t)"
    and delete_frame: "keeps sameDB (cDelete impl ks)"
    and pattern_frame: "keeps sameDB (cDeletePattern impl p)"
    and get_hit: "cGet impl k w = (Inr (Some v), w') \<Longrightarrow> content w k = Some v"
    and get_shrinks: "content (snd (cGet impl k w)) \<subseteq>\<^sub>m content w"
    and set_adds: "content (snd (cSet impl k v t w)) k' = Some v2 \<Longrightarrow>
      content w k' = Some v2 \<or> (k' = k \<and> v2 = v)"
    and delete_shrinks: "content (snd (cDelete impl ks w)) \<subseteq>\<^sub>m content w"
    and delete_removes: "cDelete impl ks w = (Inr u, w') \<Longrightarrow> k \<in> set ks \<Longrightarrow> content w' k = None"
    and pattern_shrinks: "content (snd (cDeletePattern impl p w)) \<subseteq>\<^sub>m content w"
    and pattern_removes: "cDeletePattern impl p w = (Inr u, w') \<Longrightarrow> p \<noteq> [] \<Longrightarrow> glob p k \<Longrightarrow> content w' k = None"
    and no_panic: "cGet impl k w \<noteq> (Inl (Panic s), w')"
begin

lemma readThrough_frame:
  assumes "keeps sameDB load"
  shows "keeps sameDB (readThrough impl key dec enc ttl load)"
  unfolding readThrough_def
  by (intro dbs.keeps_bind dbs.keeps_try get_frame dbs.keeps_option dbs.keeps_ret assms
      dbs.keeps_ignore set_frame)

text \<open>What a cache-aside read answers: a value the cache had for the key, or what the loader
  answers on the same database.\<close>

lemma readThrough_Inr:
  assumes "readThrough impl key dec enc ttl load w = (Inr a, w')"
  shows "(\<exists>v. content w key = Some v \<and> dec v = Some a) \<or>
         (\<exists>w1 w2. load w1 = (Inr a, w2) \<and> sameDB w w1)"
proof -
  from assms obtain r w1 where r: "tryM (cGet impl key) w = (Inr r, w1)"
    and rest: "(case (case r of Inr (Some raw) \<Rightarrow> dec raw | _ \<Rightarrow> None) of
      Some out \<Rightarrow> ret out
    | None \<Rightarrow> bindM load (\<lambda>out. bindM (ignoreErr (cSet impl key (enc out) ttl)) (\<lambda>_. ret out))) w1 = (Inr a, w')"
    by (auto simp: readThrough_def bindM_Inr)
  have s: "sameDB w w1" using dbs.keeps_try [OF get_frame] r by (rule keepsD)
  show ?thesis
  proof (cases "case r of Inr (Some raw) \<Rightarrow> dec raw | _ \<Rightarrow> None")
    case None
    with rest s show ?thesis by (auto simp: bindM_Inr)
  next
    case (Some out)
    then obtain raw where "r = Inr (Some raw)" "dec raw = Some out"
      by (auto split: sum.splits option.splits)
    moreover from this r have "content w key = Some raw" by (auto simp: tryM_Inr_Inr intro: get_hit)
    ultimately show ?thesis using rest Some by auto
  qed
qed

text \<open>A read adds at most the value of its own key.\<close>

lemma readThrough_other:
  assumes "\<And>w. content (snd (load w)) \<subseteq>\<^sub>m content w" "k \<noteq> key" "content w k = None"
  shows "content (snd (readThrough impl key dec enc ttl load w)) k = None"
proof -
  have g: "content (snd (cGet impl key w)) k = None"
    using map_le_None [OF get_shrinks [of key w] assms(3)] by simp
  have l: "content (snd (load w1)) k = None" if "content w1 k = None" for w1
    by (rule map_le_None [OF assms(1) that])
  have s: "content (snd (cSet impl key v ttl w1)) k = None" if "content w1 k = None" for w1 v
    using set_adds [of key v ttl w1 k] that assms(2)
    by (cases "content (snd (cSet impl key v ttl w1)) k") auto
  show ?thesis
    unfolding readThrough_def
    by (rule bindM_snd_inv [where P = "\<lambda>w. content w k = None"])
      (auto simp: g l s ret_def split: option.splits intro!: bindM_snd_inv [where P = "\<lambda>w. content w k = None"])
qed

end

section \<open>Redis and Noop keep the contract\<close>

definition redisContent :: "world \<Rightarrow> string \<Rightarrow> cval option" where
  "redisContent w k = map_option fst (map_of (wcache w) k)"

definition wiredContent :: "world \<Rightarrow> string \<Rightarrow> cval option" where
  "wiredContent w k = (if wredis w then redisContent w k else None)"

lemma map_of_removeKeys: "map_of (removeKeys ks c) k = (if k \<in> set ks then None else map_of c k)"
  by (induction c) (auto simp: removeKeys_def)

lemma Redis_Get_frame: "keeps sameDB (Redis_Get k)"
  by (auto simp: keeps_def Redis_Get_def redisCmd_def Let_def sameDB_def split: option.splits)

lemma Redis_Set_frame: "keeps sameDB (Redis_Set k v t)"
  by (auto simp: keeps_def Redis_Set_def redisCmd_def Let_def sameDB_def)

lemma redisDel_frame: "keeps sameDB (redisDel ks)"
  by (auto simp: keeps_def redisDel_def redisCmd_def Let_def sameDB_def)

lemma redisScan_frame: "keeps sameDB (redisScan b p)"
  by (auto simp: keeps_def redisScan_def redisCmd_def Let_def sameDB_def)

lemma deletePatternLoop_frame: "keeps sameDB (deletePatternLoop ks p)"
proof (induction ks p rule: deletePatternLoop.induct)
  case (1 rest pattern)
  then show ?case
    by (subst deletePatternLoop.simps)
      (auto intro!: dbs.keeps_bind redisScan_frame redisDel_frame dbs.keeps_ret)
qed

lemma redisContent_simps [simp]:
  "redisContent (w\<lparr>wcmd := n\<rparr>) = redisContent w"
  "redisContent (w\<lparr>wcmd := n, wcache := c\<rparr>) k = map_option fst (map_of c k)"
  by (auto simp: redisContent_def)

lemma Redis_Get_content: "redisContent (snd (Redis_Get k w)) \<subseteq>\<^sub>m redisContent w"
  by (auto simp: Redis_Get_def redisCmd_def Let_def map_le_def map_of_removeKeys redisContent_def
      split: option.splits)

lemma Redis_Set_content: "redisContent (snd (Redis_Set k v t w)) k' = Some u \<Longrightarrow>
    redisContent w k' = Some u \<or> (k' = k \<and> u = v)"
  by (auto simp: Redis_Set_def redisCmd_def Let_def map_of_removeKeys redisContent_def
      split: option.splits if_splits)

lemma redisDel_content: "redisContent (snd (redisDel ks w)) \<subseteq>\<^sub>m redisContent w"
  by (auto simp: redisDel_def redisCmd_def Let_def map_le_def map_of_removeKeys redisContent_def
      split: if_splits)

lemma redisDel_removes: "redisDel ks w = (Inr u, w') \<Longrightarrow> k \<in> set ks \<Longrightarrow> redisContent w' k = None"
  by (auto simp: redisDel_def redisCmd_def Let_def map_of_removeKeys redisContent_def split: if_splits)

lemma redisScan_Inr:
  "redisScan b p w = (Inr ks, w') \<Longrightarrow> ks = filter (glob p) b \<and> redisContent w' = redisContent w"
  by (auto simp: redisScan_def redisCmd_def Let_def split: if_splits)

lemma redisScan_content: "redisContent (snd (redisScan b p w)) = redisContent w"
  by (auto simp: redisScan_def redisCmd_def Let_def)

lemma deletePatternLoop_content: "redisContent (snd (deletePatternLoop ks p w)) \<subseteq>\<^sub>m redisContent w"
proof (induction ks p arbitrary: w rule: deletePatternLoop.induct)
  case (1 rest pattern)
  have "redisContent (snd (bindM (redisScan (take 100 rest) pattern) (\<lambda>keys.
    bindM (if length keys > 0 then redisDel keys else ret ()) (\<lambda>_.
    if drop 100 rest = [] then ret () else deletePatternLoop (drop 100 rest) pattern)) w)) \<subseteq>\<^sub>m redisContent w"
    by (auto intro!: bindM_snd_inv [where P = "\<lambda>v. redisContent v \<subseteq>\<^sub>m redisContent w"]
        simp: redisScan_content ret_def
        intro: map_le_trans [OF redisDel_content] map_le_trans [OF 1])
  then show ?case by (subst deletePatternLoop.simps)
qed

lemma deletePatternLoop_removes:
  "deletePatternLoop ks p w = (Inr u, w') \<Longrightarrow> k \<in> set ks \<or> redisContent w k = None \<Longrightarrow> glob p k \<Longrightarrow>
   redisContent w' k = None"
proof (induction ks p arbitrary: w u rule: deletePatternLoop.induct)
  case (1 rest pattern)
  from "1.prems"(1) obtain keys w1 u2 w2 where
    s: "redisScan (take 100 rest) pattern w = (Inr keys, w1)"
    and d: "(if length keys > 0 then redisDel keys else ret ()) w1 = (Inr u2, w2)"
    and l: "(if drop 100 rest = [] then ret () else deletePatternLoop (drop 100 rest) pattern) w2 = (Inr u, w')"
    by (subst (asm) deletePatternLoop.simps) (auto simp: bindM_Inr)
  have keys: "keys = filter (glob pattern) (take 100 rest)" and c1: "redisContent w1 = redisContent w"
    using redisScan_Inr [OF s] by auto
  have c2: "redisContent w2 k = None" if "k \<in> set (take 100 rest) \<or> redisContent w k = None"
  proof (cases "k \<in> set keys")
    case True
    with d show ?thesis by (auto intro: redisDel_removes split: if_splits)
  next
    case False
    with that keys "1.prems"(3) have "redisContent w1 k = None" using c1 by auto
    moreover have "redisContent w2 \<subseteq>\<^sub>m redisContent w1"
      using d redisDel_content [of keys w1] by (auto split: if_splits)
    ultimately show ?thesis by (rule map_le_None [rotated])
  qed
  have mem: "k \<in> set (take 100 rest) \<or> k \<in> set (drop 100 rest) \<or> redisContent w k = None"
    using "1.prems"(2) by (metis Un_iff append_take_drop_id set_append)
  show ?case
  proof (cases "drop 100 rest = []")
    case True
    with l mem c2 show ?thesis by auto
  next
    case False
    with l have l': "deletePatternLoop (drop 100 rest) pattern w2 = (Inr u, w')" by simp
    have "k \<in> set (drop 100 rest) \<or> redisContent w2 k = None"
      using mem c2 by (cases "k \<in> set (drop 100 rest)") auto
    from "1.IH" [OF False l' this "1.prems"(3)] show ?thesis .
  qed
qed

lemma Redis_DeletePattern_content: "redisContent (snd (Redis_DeletePattern p w)) \<subseteq>\<^sub>m redisContent w"
  by (simp add: Redis_DeletePattern_def ret_def deletePatternLoop_content)

lemma redisContent_None: "k \<notin> set (map fst (wcache w)) \<Longrightarrow> redisContent w k = None"
  by (auto simp: redisContent_def map_of_eq_None_iff)

lemma Redis_DeletePattern_removes:
  "Redis_DeletePattern p w = (Inr u, w') \<Longrightarrow> p \<noteq> [] \<Longrightarrow> glob p k \<Longrightarrow> redisContent w' k = None"
  unfolding Redis_DeletePattern_def
  by (cases "k \<in> set (map fst (wcache w))")
    (simp_all del: set_map add: deletePatternLoop_removes redisContent_None)

lemma Redis_DeletePattern_frame: "keeps sameDB (Redis_DeletePattern p)"
  using deletePatternLoop_frame dbs.R_refl
  by (simp add: keeps_def Redis_DeletePattern_def ret_def)

lemma Redis_Get_no_panic: "Redis_Get k w \<noteq> (Inl (Panic s), w')"
  by (auto simp: Redis_Get_def redisCmd_def redisErr_def Let_def split: option.splits)

interpretation redis: cache_interface Redis redisContent
proof (standard, goal_cases)
  case 1 show ?case by (simp add: Redis_def Redis_Get_frame)
next
  case 2 show ?case by (simp add: Redis_def Redis_Set_frame)
next
  case 3 show ?case by (simp add: Redis_def Redis_Delete_def redisDel_frame dbs.keeps_ret)
next
  case 4 show ?case by (simp add: Redis_def Redis_DeletePattern_frame)
next
  case (5 k w v w') then show ?case
    by (auto simp: Redis_def Redis_Get_def redisCmd_def Let_def redisContent_def
        split: option.splits if_splits)
next
  case 6 show ?case by (simp add: Redis_def Redis_Get_content)
next
  case 7 then show ?case by (simp add: Redis_def Redis_Set_content)
next
  case 8 show ?case by (simp add: Redis_def Redis_Delete_def ret_def redisDel_content)
next
  case 9 then show ?case by (auto simp: Redis_def Redis_Delete_def intro: redisDel_removes split: if_splits)
next
  case 10 show ?case by (simp add: Redis_def Redis_DeletePattern_content)
next
  case 11 then show ?case by (auto simp: Redis_def intro: Redis_DeletePattern_removes)
next
  case 12 show ?case by (simp add: Redis_def Redis_Get_no_panic)
qed

interpretation noop: cache_interface Noop "\<lambda>w. Map.empty"
  by standard (auto simp: Noop_def ret_def dbs.keeps_ret [unfolded ret_def] keeps_def dbs.R_refl)

text \<open>No cache command changes the configuration.\<close>

lemma Redis_Get_env: "keeps sameEnv (Redis_Get k)"
  by (auto simp: keeps_def Redis_Get_def redisCmd_def Let_def sameEnv_def split: option.splits)

lemma Redis_Set_env: "keeps sameEnv (Redis_Set k v t)"
  by (auto simp: keeps_def Redis_Set_def redisCmd_def Let_def sameEnv_def)

lemma redisDel_env: "keeps sameEnv (redisDel ks)"
  by (auto simp: keeps_def redisDel_def redisCmd_def Let_def sameEnv_def)

lemma redisScan_env: "keeps sameEnv (redisScan b p)"
  by (auto simp: keeps_def redisScan_def redisCmd_def Let_def sameEnv_def)

lemma deletePatternLoop_env: "keeps sameEnv (deletePatternLoop ks p)"
proof (induction ks p rule: deletePatternLoop.induct)
  case (1 rest pattern)
  then show ?case
    by (subst deletePatternLoop.simps)
      (auto intro!: env.keeps_bind redisScan_env redisDel_env env.keeps_ret)
qed

lemma Redis_DeletePattern_env: "keeps sameEnv (Redis_DeletePattern p)"
  using deletePatternLoop_env env.R_refl
  by (simp add: keeps_def Redis_DeletePattern_def ret_def)

lemma Redis_Delete_env: "keeps sameEnv (Redis_Delete ks)"
  by (simp add: Redis_Delete_def redisDel_env env.keeps_ret)

lemma wired_env:
  "keeps sameEnv (cGet wired k)" "keeps sameEnv (cSet wired k v t)"
  "keeps sameEnv (cDelete wired ks)" "keeps sameEnv (cDeletePattern wired p)"
  using Redis_Get_env [of k] Redis_Set_env [of k v t] Redis_Delete_env [of ks]
    Redis_DeletePattern_env [of p]
  by (auto simp: keeps_def wired_def NewRedis_def Redis_def Noop_def ret_def env.R_refl)

lemma readThrough_env:
  "keeps sameEnv load \<Longrightarrow> keeps sameEnv (readThrough wired key dec enc ttl load)"
  unfolding readThrough_def
  by (intro env.keeps_bind env.keeps_try wired_env env.keeps_option env.keeps_ret env.keeps_ignore)

interpretation wiredc: cache_interface wired wiredContent
proof (standard, goal_cases)
  case (1 k) show ?case using redis.get_frame [of k] noop.get_frame [of k]
    by (auto simp: keeps_def wired_def NewRedis_def)
next
  case (2 k v t) show ?case using redis.set_frame [of k v t] noop.set_frame [of k v t]
    by (auto simp: keeps_def wired_def NewRedis_def)
next
  case (3 ks) show ?case using redis.delete_frame [of ks] noop.delete_frame [of ks]
    by (auto simp: keeps_def wired_def NewRedis_def)
next
  case (4 p) show ?case using redis.pattern_frame [of p] noop.pattern_frame [of p]
    by (auto simp: keeps_def wired_def NewRedis_def)
next
  case (5 k w v w') then show ?case using redis.get_hit [of k w v w'] noop.get_hit [of k w v w']
    by (auto simp: wired_def wiredContent_def NewRedis_def split: if_splits)
next
  case (6 k w)
  have "wredis (snd (cGet wired k w)) = wredis w"
    using wired_env(1) [of k] by (simp add: keeps_def sameEnv_def)
  then show ?case using redis.get_shrinks [of k w]
    by (simp add: map_le_def wired_def wiredContent_def NewRedis_def dom_def)
next
  case (7 k v t w k' v2)
  have "wredis (snd (cSet wired k v t w)) = wredis w"
    using wired_env(2) [of k v t] by (simp add: keeps_def sameEnv_def)
  with 7 show ?case using redis.set_adds [of k v t w k' v2]
    by (auto simp: wired_def wiredContent_def NewRedis_def split: if_splits)
next
  case (8 ks w)
  have "wredis (snd (cDelete wired ks w)) = wredis w"
    using wired_env(3) [of ks] by (simp add: keeps_def sameEnv_def)
  then show ?case using redis.delete_shrinks [of ks w]
    by (simp add: map_le_def wired_def wiredContent_def NewRedis_def dom_def)
next
  case (9 ks w u w' k)
  have "wredis w' = wredis w"
    using keepsD [OF wired_env(3) 9(1)] by (simp add: sameEnv_def)
  with 9 show ?case using redis.delete_removes [of ks w u w' k]
    by (auto simp: wired_def wiredContent_def NewRedis_def split: if_splits)
next
  case (10 p w)
  have "wredis (snd (cDeletePattern wired p w)) = wredis w"
    using wired_env(4) [of p] by (simp add: keeps_def sameEnv_def)
  then show ?case using redis.pattern_shrinks [of p w]
    by (simp add: map_le_def wired_def wiredContent_def NewRedis_def dom_def)
next
  case (11 p w u w' k)
  have "wredis w' = wredis w"
    using keepsD [OF wired_env(4) 11(1)] by (simp add: sameEnv_def)
  with 11 show ?case using redis.pattern_removes [of p w u w' k]
    by (auto simp: wired_def wiredContent_def NewRedis_def split: if_splits)
next
  case (12 k w s w') then show ?case using redis.no_panic [of k w s w'] noop.no_panic [of k w s w']
    by (auto simp: wired_def NewRedis_def split: if_splits)
qed

end
