(* ===== verification/Sql_List.thy ===== *)
theory Sql_List
  imports Cache "HOL-Library.Multiset"
begin

text \<open>
  The SELECT statements behind the list endpoints: WHERE with ILIKE patterns, ORDER BY a column and
  a tie break on id, OFFSET and LIMIT, as PostgreSQL evaluates them. Column values are the datatype
  sqlval, a linear order in which NULL is the largest value (NULLS LAST for ASC, NULLS FIRST for
  DESC); strings are compared by the collation key of the world.
\<close>

section \<open>Column values\<close>

datatype sqlval = SNull | SNum rat | SText string

fun sqlrank :: "sqlval \<Rightarrow> nat \<times> rat \<times> string" where
  "sqlrank (SNum r) = (0, r, [])"
| "sqlrank (SText s) = (1, 0, s)"
| "sqlrank SNull = (2, 0, [])"

lemma sqlrank_inj: "sqlrank a = sqlrank b \<Longrightarrow> a = b"
  by (cases a; cases b) auto

instantiation sqlval :: linorder
begin

definition less_eq_sqlval :: "sqlval \<Rightarrow> sqlval \<Rightarrow> bool" where
  "less_eq_sqlval a b \<longleftrightarrow> sqlrank a \<le> sqlrank b"

definition less_sqlval :: "sqlval \<Rightarrow> sqlval \<Rightarrow> bool" where
  "less_sqlval a b \<longleftrightarrow> sqlrank a < sqlrank b"

instance
  by standard (auto simp: less_eq_sqlval_def less_sqlval_def less_le_not_le dest: sqlrank_inj antisym)

end

definition sInt :: "int \<Rightarrow> sqlval" where "sInt i = SNum (of_int i)"
definition sBool :: "bool \<Rightarrow> sqlval" where "sBool b = SNum (if b then 1 else 0)"

section \<open>ILIKE\<close>

text \<open>LIKE with the default escape character, the backslash.\<close>

fun like :: "string \<Rightarrow> string \<Rightarrow> bool" where
  "like [] s = (s = [])"
| "like (p # ps) [] = (p = CHR 0x25 \<and> like ps [])"
| "like (p # ps) (c # cs) =
    (if p = CHR 0x25 then like ps (c # cs) \<or> like (p # ps) cs
     else if p = CHR ''_'' then like ps cs
     else if p = CHR 0x5C then ps \<noteq> [] \<and> hd ps = c \<and> like (tl ps) cs
     else p = c \<and> like ps cs)"

definition ilike :: "string \<Rightarrow> string \<Rightarrow> bool" where
  "ilike s pattern = like (ToLower pattern) (ToLower s)"

text \<open>ILIKE on a nullable column: NULL does not match.\<close>

definition ilikeOpt :: "string option \<Rightarrow> string \<Rightarrow> bool" where
  "ilikeOpt so pattern = (case so of None \<Rightarrow> False | Some s \<Rightarrow> ilike s pattern)"

definition likePattern :: "string \<Rightarrow> string" where
  "likePattern s = ''%'' @ s @ ''%''"

lemma like_percent: "like (CHR 0x25 # ps) s \<longleftrightarrow> (\<exists>t u. s = t @ u \<and> like ps u)"
proof (induction s)
  case (Cons c cs)
  have "(\<exists>t u. c # cs = t @ u \<and> like ps u) \<longleftrightarrow> like ps (c # cs) \<or> (\<exists>t u. cs = t @ u \<and> like ps u)"
    by (metis append_Cons append_Nil list.distinct(1) list.exhaust list.inject)
  with Cons show ?case by simp
qed auto

lemma like_literal:
  "\<forall>c \<in> set p. c \<noteq> CHR 0x25 \<and> c \<noteq> CHR ''_'' \<and> c \<noteq> CHR 0x5C \<Longrightarrow>
   like (p @ q) s \<longleftrightarrow> (\<exists>u. s = p @ u \<and> like q u)"
proof (induction p arbitrary: s)
  case (Cons c p)
  then show ?case by (cases s) auto
qed simp

section \<open>ORDER BY, OFFSET and LIMIT\<close>

text \<open>ORDER BY column direction, id ASC: stable sort by id, then by the column.\<close>

definition orderBy :: "bool \<Rightarrow> ('a \<Rightarrow> sqlval) \<Rightarrow> ('a \<Rightarrow> string) \<Rightarrow> 'a list \<Rightarrow> 'a list" where
  "orderBy desc col idc xs =
    (let ys = sort_key idc xs
     in if desc then rev (sort_key col (rev ys)) else sort_key col ys)"

text \<open>gorm's Offset and Limit; a non-positive offset is not sent. The offset is an int product.\<close>

definition pageOf :: "int \<Rightarrow> int \<Rightarrow> 'a list \<Rightarrow> 'a list" where
  "pageOf page per xs = take (nat per) (drop (nat (wrap64 (wrap64 (page - 1) * per))) xs)"

lemma set_orderBy [simp]: "set (orderBy d c i xs) = set xs"
  by (simp add: orderBy_def Let_def)

lemma length_orderBy [simp]: "length (orderBy d c i xs) = length xs"
  by (simp add: orderBy_def Let_def)

lemma mset_orderBy: "mset (orderBy d c i xs) = mset xs"
  by (simp add: orderBy_def Let_def)

lemma orderBy_asc_sorted: "sorted (map c (orderBy False c i xs))"
  by (simp add: orderBy_def Let_def)

lemma orderBy_desc_sorted: "sorted (map c (rev (orderBy True c i xs)))"
  by (simp add: orderBy_def Let_def)

lemma set_pageOf: "set (pageOf p n xs) \<subseteq> set xs"
  by (metis pageOf_def set_drop_subset set_take_subset subset_trans)

lemma length_pageOf: "0 \<le> n \<Longrightarrow> int (length (pageOf p n xs)) \<le> n"
  by (simp add: pageOf_def)

text \<open>The pages of a fixed size partition the list: page k + 1 starts where page k ends.\<close>

lemma pageOf_concat:
  assumes "0 < n" "n \<le> 100" "n * (int k + 1) < 9223372036854775808"
  shows "concat (map (\<lambda>j. pageOf (int j + 1) n xs) [0..<k]) = take (nat n * k) xs"
  using assms(3)
proof (induction k)
  case (Suc k)
  have b: "n * (int k + 1) < 9223372036854775808" "0 \<le> int k * n" "int k * n < 9223372036854775808"
      "int k < 9223372036854775808"
  proof -
    have "n * (int k + 1) \<le> n * (int (Suc k) + 1)" using assms(1) by (intro mult_left_mono) auto
    then show b1: "n * (int k + 1) < 9223372036854775808" using Suc.prems by linarith
    show "0 \<le> int k * n" using assms(1) by simp
    have "int k * n \<le> n * (int k + 1)" using assms(1) by (simp add: algebra_simps)
    then show "int k * n < 9223372036854775808" using b1 by linarith
    have "int k * 1 \<le> int k * n" using assms(1) by (intro mult_left_mono) auto
    then show "int k < 9223372036854775808" using \<open>int k * n < 9223372036854775808\<close> by linarith
  qed
  then have w: "wrap64 (wrap64 (int k + 1 - 1) * n) = int k * n" by (simp add: is_int64_def)
  have "concat (map (\<lambda>j. pageOf (int j + 1) n xs) [0..<Suc k])
      = take (nat n * k) xs @ pageOf (int k + 1) n xs"
    using Suc.IH [OF b(1)] by simp
  also have "pageOf (int k + 1) n xs = take (nat n) (drop (k * nat n) xs)"
    unfolding pageOf_def w by (simp add: nat_mult_distrib)
  also have "take (nat n * k) xs @ take (nat n) (drop (k * nat n) xs) = take (nat n * k + nat n) xs"
    by (simp add: take_add mult.commute)
  finally show ?case by (simp add: mult.commute add.commute)
qed simp

end
