(* ===== verification/Audit_Log.thy ===== *)
theory Audit_Log
  imports Sql_List
begin

text \<open>
  The audit domain (src/services/inventory/domains/audit): the repository that appends to and lists
  audit_logs, the writer that takes tenant, user and request metadata from the context, and the list
  usecase. The audit log is append only: no program of the development changes or removes a row.
\<close>

section \<open>Repository\<close>

record AuditInsertInput =
  aiTenantID :: string
  aiUserID :: "string option"
  aiAction :: string
  aiEntity :: string
  aiEntityID :: string
  aiBeforeData :: "jval option"
  aiAfterData :: "jval option"
  aiIPAddress :: "string option"
  aiUserAgent :: "string option"
  aiRequestID :: "string option"

record AuditListFilter =
  afPage :: int
  afPerPage :: int
  afEntity :: "string option"
  afEntityID :: "string option"
  afAction :: "string option"
  afUserID :: "string option"
  afCreatedFrom :: "int option"
  afCreatedTo :: "int option"

record Entry =
  enID :: string
  enTenantID :: string
  enUserID :: "string option"
  enUserName :: "string option"
  enAction :: string
  enEntity :: string
  enEntityID :: string
  enBeforeData :: "jval option"
  enAfterData :: "jval option"
  enIPAddress :: "string option"
  enUserAgent :: "string option"
  enRequestID :: "string option"
  enCreatedAt :: int

text \<open>The message of a unique violation in PostgreSQL.\<close>

definition dupMsg :: "string \<Rightarrow> string" where
  "dupMsg cname = ''ERROR: duplicate key value violates unique constraint '' @ cname @ '' (SQLSTATE 23505)''"

definition checkMsg :: "string \<Rightarrow> string" where
  "checkMsg cname = ''ERROR: new row violates check constraint '' @ cname @ '' (SQLSTATE 23514)''"

definition auditInsert :: "ctx \<Rightarrow> AuditInsertInput \<Rightarrow> unit app" where
  "auditInsert c inp =
    bindM newUUID (\<lambda>id.
    bindM nowUTC (\<lambda>now.
    runStmt (GetDB c) (\<lambda>d.
      let row = \<lparr>alrID = id, alrTenantID = aiTenantID inp, alrUserID = aiUserID inp,
                 alrAction = aiAction inp, alrEntity = aiEntity inp, alrEntityID = aiEntityID inp,
                 alrBeforeData = aiBeforeData inp, alrAfterData = aiAfterData inp,
                 alrIPAddress = aiIPAddress inp, alrUserAgent = aiUserAgent inp,
                 alrRequestID = aiRequestID inp, alrCreatedAt = now\<rparr>
      in if list_ex (\<lambda>r. alrID r = id) (dbAudit d) then Inl (Raw (dupMsg ''audit_logs_pkey''))
         else Inr ((), d\<lparr>dbAudit := dbAudit d @ [row]\<rparr>))))"

text \<open>The list row: the audit row LEFT JOIN users for the name.\<close>

definition listRowToEntry :: "userRow list \<Rightarrow> auditLogRow \<Rightarrow> Entry" where
  "listRowToEntry users r =
    \<lparr>enID = alrID r, enTenantID = alrTenantID r, enUserID = alrUserID r,
     enUserName = (case alrUserID r of None \<Rightarrow> None
       | Some u \<Rightarrow> map_option urFullName (find (\<lambda>x. urID x = u) users)),
     enAction = alrAction r, enEntity = alrEntity r, enEntityID = alrEntityID r,
     enBeforeData = alrBeforeData r, enAfterData = alrAfterData r, enIPAddress = alrIPAddress r,
     enUserAgent = alrUserAgent r, enRequestID = alrRequestID r, enCreatedAt = alrCreatedAt r\<rparr>"

definition optCond :: "string option \<Rightarrow> (string \<Rightarrow> bool) \<Rightarrow> bool" where
  "optCond p P = (case p of None \<Rightarrow> True | Some s \<Rightarrow> (if TrimSpace s \<noteq> [] then P (TrimSpace s) else True))"

definition auditWhere :: "string \<Rightarrow> AuditListFilter \<Rightarrow> auditLogRow \<Rightarrow> bool" where
  "auditWhere tid f r \<longleftrightarrow> alrTenantID r = tid
     \<and> optCond (afEntity f) (\<lambda>v. alrEntity r = v)
     \<and> optCond (afEntityID f) (\<lambda>v. alrEntityID r = v)
     \<and> optCond (afAction f) (\<lambda>v. ilike (alrAction r) (likePattern v))
     \<and> optCond (afUserID f) (\<lambda>v. alrUserID r = Some v)
     \<and> (case afCreatedFrom f of None \<Rightarrow> True | Some t \<Rightarrow> t \<le> alrCreatedAt r)
     \<and> (case afCreatedTo f of None \<Rightarrow> True | Some t \<Rightarrow> alrCreatedAt r \<le> t)"

definition auditList :: "ctx \<Rightarrow> string \<Rightarrow> AuditListFilter \<Rightarrow> (Entry list \<times> int) app" where
  "auditList c tenantID f =
    (let tid = TrimSpace tenantID;
         page = (if afPage f < 1 then 1 else afPage f);
         per = (if afPerPage f < 1 then 20 else afPerPage f)
     in bindM (queryStmt (GetDB c) (\<lambda>d. countWhere (auditWhere tid f) (dbAudit d))) (\<lambda>cnt.
        bindM (queryStmt (GetDB c) (\<lambda>d.
          map (listRowToEntry (dbUsers d))
            (pageOf page per (orderBy True (\<lambda>r. sInt (alrCreatedAt r)) alrID
              (filter (auditWhere tid f) (dbAudit d)))))) (\<lambda>out.
        ret (out, cnt))))"

section \<open>Writer\<close>

record AuditParams =
  apAction :: string
  apEntity :: string
  apEntityID :: string
  apBefore :: "jval option"
  apAfter :: "jval option"

text \<open>The snapshots are JSON values already, so marshalling cannot fail; nil is SQL NULL.\<close>

definition marshalSnap :: "jval option \<Rightarrow> err + jval option" where
  "marshalSnap v = (case v of None \<Rightarrow> Inr None | Some j \<Rightarrow> Inr (Some j))"

definition auditLog :: "ctx \<Rightarrow> AuditParams \<Rightarrow> unit app" where
  "auditLog c p =
    bindM (liftE (TenantIDFromContext c)) (\<lambda>tid.
    bindM (liftE (SubjectFromContext c)) (\<lambda>uid.
    bindM (liftE (marshalSnap (apBefore p))) (\<lambda>beforeRaw.
    bindM (liftE (marshalSnap (apAfter p))) (\<lambda>after.
    let meta = FromContext c
    in auditInsert c
      \<lparr>aiTenantID = tid, aiUserID = Some uid, aiAction = apAction p, aiEntity = apEntity p,
       aiEntityID = apEntityID p, aiBeforeData = beforeRaw, aiAfterData = after,
       aiIPAddress = mtIP meta, aiUserAgent = mtUserAgent meta, aiRequestID = mtRequestID meta\<rparr>))))"

section \<open>List usecase\<close>

record ListAuditLogsInput =
  liaPage :: "int option"
  liaPerPage :: "int option"
  liaEntity :: "string option"
  liaEntityID :: "string option"
  liaAction :: "string option"
  liaUserID :: "string option"
  liaCreatedFrom :: "int option"
  liaCreatedTo :: "int option"

text \<open>Page and limit of a list request: defaults 1 and 10, then Normalize.\<close>

definition pageParams :: "int option \<Rightarrow> int option \<Rightarrow> int \<times> int" where
  "pageParams page perPage =
    Normalize (case page of None \<Rightarrow> 1 | Some p \<Rightarrow> p) (case perPage of None \<Rightarrow> 10 | Some p \<Rightarrow> p)"

definition trimPtr :: "string option \<Rightarrow> string option" where
  "trimPtr p = (case p of None \<Rightarrow> None
     | Some s \<Rightarrow> (let t = TrimSpace s in if t = [] then None else Some t))"

definition ListAuditLogs :: "ctx \<Rightarrow> ListAuditLogsInput \<Rightarrow> Entry ListOutput app" where
  "ListAuditLogs c inp =
    bindM (liftE (TenantIDFromContext c)) (\<lambda>tid.
    let (page, per) = pageParams (liaPage inp) (liaPerPage inp)
    in bindM (auditList c tid
         \<lparr>afPage = page, afPerPage = per, afEntity = trimPtr (liaEntity inp),
          afEntityID = trimPtr (liaEntityID inp), afAction = trimPtr (liaAction inp),
          afUserID = trimPtr (liaUserID inp), afCreatedFrom = liaCreatedFrom inp,
          afCreatedTo = liaCreatedTo inp\<rparr>) (\<lambda>(items, cnt).
       ret \<lparr>loItems = items, loTotal = cnt, loPage = wrap32 page, loPerPage = wrap32 per\<rparr>))"

section \<open>Correctness\<close>

lemma trimPtr_trimOpt: "trimPtr p = trimOpt p"
  by (cases p) (simp_all add: trimPtr_def Let_def)

lemma pageParams_bounds:
  "pageParams p n = (a, b) \<Longrightarrow> 1 \<le> a \<and> 1 \<le> b \<and> b \<le> 100"
  unfolding pageParams_def by (rule Normalize_bounds)

text \<open>Log appends exactly one row, with the identity of the context.\<close>

definition auditAppends :: "handle \<Rightarrow> auditLogRow \<Rightarrow> world \<Rightarrow> world \<Rightarrow> bool" where
  "auditAppends h row w w' \<longleftrightarrow>
     viewOf h w' = (viewOf h w)\<lparr>dbAudit := dbAudit (viewOf h w) @ [row]\<rparr>"

lemma auditInsert_Inr:
  assumes "auditInsert c inp w = (Inr u, w')"
  shows "\<exists>row. auditAppends (GetDB c) row w w' \<and> alrTenantID row = aiTenantID inp
     \<and> alrUserID row = aiUserID inp \<and> alrAction row = aiAction inp \<and> alrEntity row = aiEntity inp
     \<and> alrEntityID row = aiEntityID inp \<and> alrBeforeData row = aiBeforeData inp
     \<and> alrAfterData row = aiAfterData inp"
  using assms unfolding auditInsert_def bindM_Inr
  by (auto simp: auditAppends_def Let_def split: if_splits dest!: runStmt_Inr)

lemma auditLog_Inr:
  assumes "auditLog c p w = (Inr u, w')"
  shows "\<exists>row. auditAppends (GetDB c) row w w' \<and> TenantIDFromContext c = Inr (alrTenantID row)
     \<and> (\<exists>s. SubjectFromContext c = Inr s \<and> alrUserID row = Some s) \<and> alrAction row = apAction p
     \<and> alrEntity row = apEntity p \<and> alrEntityID row = apEntityID p
     \<and> alrBeforeData row = apBefore p \<and> alrAfterData row = apAfter p"
  using assms unfolding auditLog_def Let_def marshalSnap_def
  by (cases "apBefore p"; cases "apAfter p")
    (auto simp: bindM_Inr dest!: auditInsert_Inr)

text \<open>A failing Log leaves the view as it was.\<close>

lemma auditInsert_Inl: "auditInsert c inp w = (Inl e, w') \<Longrightarrow> viewOf h w' = viewOf h w"
  unfolding auditInsert_def
  by (auto simp: bindM_Inl Let_def dest!: runStmt_Inl)

lemma auditLog_Inl: "auditLog c p w = (Inl e, w') \<Longrightarrow> viewOf h w' = viewOf h w"
  unfolding auditLog_def Let_def
  by (auto simp: bindM_Inl dest: auditInsert_Inl)

lemma auditInsert_pool: "cxTx c \<Longrightarrow> keeps samePool (auditInsert c inp)"
  unfolding auditInsert_def
  by (auto intro!: pool.keeps_bind sameDB_samePool [OF keeps_uuid] sameDB_samePool [OF keeps_now]
      simp: GetDB_def keeps_stmt_pool)

lemma auditLog_pool: "cxTx c \<Longrightarrow> keeps samePool (auditLog c p)"
  unfolding auditLog_def Let_def
  by (intro pool.keeps_bind pool.keeps_liftE auditInsert_pool)

lemma auditLog_tx: "\<not> cxTx c \<Longrightarrow> keeps sameTx (auditLog c p)"
  unfolding auditLog_def auditInsert_def Let_def
  by (auto intro!: txv.keeps_bind txv.keeps_liftE sameDB_sameTx [OF keeps_uuid]
      sameDB_sameTx [OF keeps_now] simp: GetDB_def keeps_stmt_tx)

lemma auditLog_env: "keeps sameEnv (auditLog c p)"
  unfolding auditLog_def auditInsert_def Let_def
  by (intro env.keeps_bind env.keeps_liftE env_basic)

lemma auditList_frame: "keeps sameDB (auditList c t f)"
  unfolding auditList_def Let_def
  by (intro dbs.keeps_bind dbs_basic dbs.keeps_ret)

end
