(* ===== verification/Stock.thy ===== *)
theory Stock
  imports Audit_Log
begin

text \<open>
  The stock balances (src/services/inventory/domains/stock/repository): the deterministic lock
  order of order.go, the repository with its locked reads and balance updates, and the contract its
  client, the confirmation of movements, relies on. The contract is the locale stock_repository,
  over an abstract map from (tenant, warehouse, product) to quantity; the interpretation at the end
  discharges it for the repository.

  A row lock is held until the end of its transaction; the world runs one request at a time, so a
  locked read is the read itself.
\<close>

section \<open>Lock order\<close>

record WarehouseProductKey =
  wpkWarehouseID :: string
  wpkProductID :: string

definition LessWarehouseProduct :: "WarehouseProductKey \<Rightarrow> WarehouseProductKey \<Rightarrow> bool" where
  "LessWarehouseProduct a b =
    (if wpkWarehouseID a \<noteq> wpkWarehouseID b then wpkWarehouseID a < wpkWarehouseID b
     else wpkProductID a < wpkProductID b)"

definition OrderedWarehouseProduct ::
  "WarehouseProductKey \<Rightarrow> WarehouseProductKey \<Rightarrow> WarehouseProductKey \<times> WarehouseProductKey" where
  "OrderedWarehouseProduct a b = (if LessWarehouseProduct b a then (b, a) else (a, b))"

section \<open>Repository\<close>

definition rowToStockBalance :: "stockBalanceRow \<Rightarrow> StockBalance" where
  "rowToStockBalance m =
    \<lparr>sbID = sbrID m, sbTenantID = sbrTenantID m, sbWarehouseID = sbrWarehouseID m,
     sbProductID = sbrProductID m, sbQuantity = sbrQuantity m,
     sbReservedQuantity = sbrReservedQuantity m, sbLastMovementAt = sbrLastMovementAt m,
     sbCreatedAt = sbrCreatedAt m, sbUpdatedAt = sbrUpdatedAt m\<rparr>"

type_synonym skey = "string \<times> string \<times> string"

definition rowKey :: "stockBalanceRow \<Rightarrow> skey" where
  "rowKey r = (sbrTenantID r, sbrWarehouseID r, sbrProductID r)"

definition trimKey :: "string \<Rightarrow> string \<Rightarrow> string \<Rightarrow> skey" where
  "trimKey t w p = (TrimSpace t, TrimSpace w, TrimSpace p)"

definition findBalance :: "skey \<Rightarrow> database \<Rightarrow> stockBalanceRow option" where
  "findBalance k d = find (\<lambda>r. rowKey r = k) (dbBalances d)"

definition getBalanceRowForUpdate :: "ctx \<Rightarrow> string \<Rightarrow> string \<Rightarrow> string \<Rightarrow> stockBalanceRow app" where
  "getBalanceRowForUpdate c tenantID warehouseID productID =
    orNotFound (firstStmt (GetDB c) (findBalance (trimKey tenantID warehouseID productID)))"

definition GetForUpdate :: "ctx \<Rightarrow> string \<Rightarrow> string \<Rightarrow> string \<Rightarrow> StockBalance app" where
  "GetForUpdate c tenantID warehouseID productID =
    bindM (getBalanceRowForUpdate c tenantID warehouseID productID) (\<lambda>row.
    ret (rowToStockBalance row))"

text \<open>INSERT ... ON CONFLICT ON CONSTRAINT uq_stock_tenant_warehouse_product DO NOTHING; the id and
  the time stamps are column defaults, and a collision of the id is not covered by the conflict
  clause.\<close>

definition insertBalance :: "skey \<Rightarrow> string \<Rightarrow> int \<Rightarrow> database \<Rightarrow> err + unit \<times> database" where
  "insertBalance k newID now d =
    (case k of (t, w, p) \<Rightarrow>
     if findBalance k d \<noteq> None then Inr ((), d)
     else if list_ex (\<lambda>r. sbrID r = newID) (dbBalances d) then Inl (Raw (dupMsg ''stock_balances_pkey''))
     else Inr ((), d\<lparr>dbBalances := dbBalances d @
       [\<lparr>sbrID = newID, sbrTenantID = t, sbrWarehouseID = w, sbrProductID = p, sbrQuantity = 0,
         sbrReservedQuantity = 0, sbrLastMovementAt = None, sbrCreatedAt = now,
         sbrUpdatedAt = now\<rparr>]\<rparr>))"

definition EnsureBalanceRow :: "ctx \<Rightarrow> string \<Rightarrow> string \<Rightarrow> string \<Rightarrow> StockBalance app" where
  "EnsureBalanceRow c tenantID warehouseID productID =
    bindM newUUID (\<lambda>id.
    bindM nowUTC (\<lambda>now.
    bindM (runStmt (GetDB c) (insertBalance (trimKey tenantID warehouseID productID) id now)) (\<lambda>_.
    bindM (getBalanceRowForUpdate c tenantID warehouseID productID) (\<lambda>row.
    ret (rowToStockBalance row)))))"

text \<open>UPDATE stock_balances SET quantity, updated_at WHERE id, under the CHECK constraints of the
  table; the result is the number of affected rows.\<close>

definition updateQuantity :: "string \<Rightarrow> int \<Rightarrow> int \<Rightarrow> database \<Rightarrow> err + int \<times> database" where
  "updateQuantity rowID qty now d =
    (if list_ex (\<lambda>r. sbrID r = rowID) (dbBalances d) \<and> qty < 0
     then Inl (Raw (checkMsg ''stock_balances_quantity_check''))
     else if list_ex (\<lambda>r. sbrID r = rowID \<and> qty < sbrReservedQuantity r) (dbBalances d)
     then Inl (Raw (checkMsg ''chk_reserved_lte_quantity''))
     else Inr (countWhere (\<lambda>r. sbrID r = rowID) (dbBalances d),
       d\<lparr>dbBalances := updateWhere (\<lambda>r. sbrID r = rowID)
           (\<lambda>r. r\<lparr>sbrQuantity := qty, sbrUpdatedAt := now\<rparr>) (dbBalances d)\<rparr>))"

definition applyQuantity :: "ctx \<Rightarrow> stockBalanceRow \<Rightarrow> int \<Rightarrow> unit app" where
  "applyQuantity c row newQty =
    (if newQty < 0 then throw (App ErrInsufficient)
     else if newQty > MaxInt32 then throw (App (withMessage ErrValidationError ''quantity overflow''))
     else
       bindM nowUTC (\<lambda>now.
       bindM (runStmt (GetDB c) (updateQuantity (sbrID row) (wrap32 newQty) now)) (\<lambda>affected.
       if affected \<noteq> 1 then throw (App ErrNotFound) else ret ())))"

definition ApplyDelta :: "ctx \<Rightarrow> string \<Rightarrow> string \<Rightarrow> string \<Rightarrow> int \<Rightarrow> unit app" where
  "ApplyDelta c tenantID warehouseID productID delta =
    bindM (getBalanceRowForUpdate c tenantID warehouseID productID) (\<lambda>row.
    let newQty = wrap64 (sbrQuantity row + delta)
    in applyQuantity c row newQty)"

text \<open>The switch that finds out which of the two locked rows is the source.\<close>

definition transferRows :: "string \<Rightarrow> string \<Rightarrow> stockBalanceRow \<Rightarrow> stockBalanceRow \<Rightarrow>
    err + stockBalanceRow \<times> stockBalanceRow" where
  "transferRows srcWH productID r1 r2 =
    (if sbrWarehouseID r1 = srcWH \<and> sbrProductID r1 = productID then Inr (r1, r2)
     else if sbrWarehouseID r2 = srcWH \<and> sbrProductID r2 = productID then Inr (r2, r1)
     else Inl (App (withMessage ErrInternal ''stock: transfer lock mismatch'')))"

definition TransferDelta :: "ctx \<Rightarrow> string \<Rightarrow> string \<Rightarrow> string \<Rightarrow> string \<Rightarrow> int \<Rightarrow> unit app" where
  "TransferDelta c tenantID srcWarehouseID dstWarehouseID productID qty =
    (if qty \<le> 0 then throw (App (withMessage ErrValidationError ''transfer quantity must be positive''))
     else let srcWH = TrimSpace srcWarehouseID; dstWH = TrimSpace dstWarehouseID in
     if srcWH = dstWH then ret ()
     else
       let kSrc = \<lparr>wpkWarehouseID = srcWH, wpkProductID = TrimSpace productID\<rparr>;
           kDst = \<lparr>wpkWarehouseID = dstWH, wpkProductID = wpkProductID kSrc\<rparr>;
           (first, second) = OrderedWarehouseProduct kSrc kDst
       in
       bindM (getBalanceRowForUpdate c tenantID (wpkWarehouseID first) (wpkProductID first)) (\<lambda>r1.
       bindM (getBalanceRowForUpdate c tenantID (wpkWarehouseID second) (wpkProductID second)) (\<lambda>r2.
       bindM (liftE (transferRows srcWH (wpkProductID kSrc) r1 r2)) (\<lambda>(srcRow, dstRow).
       let newSrc = wrap64 (sbrQuantity srcRow - qty);
           newDst = wrap64 (sbrQuantity dstRow + qty)
       in bindM (applyQuantity c srcRow newSrc) (\<lambda>_. applyQuantity c dstRow newDst)))))"

text \<open>The Go interface Repository as a record of its methods, and the value New returns.\<close>

record stock_repo =
  srGetForUpdate :: "ctx \<Rightarrow> string \<Rightarrow> string \<Rightarrow> string \<Rightarrow> StockBalance app"
  srEnsureBalanceRow :: "ctx \<Rightarrow> string \<Rightarrow> string \<Rightarrow> string \<Rightarrow> StockBalance app"
  srApplyDelta :: "ctx \<Rightarrow> string \<Rightarrow> string \<Rightarrow> string \<Rightarrow> int \<Rightarrow> unit app"
  srTransferDelta :: "ctx \<Rightarrow> string \<Rightarrow> string \<Rightarrow> string \<Rightarrow> string \<Rightarrow> int \<Rightarrow> unit app"

definition stockRepository :: stock_repo where
  "stockRepository = \<lparr>srGetForUpdate = GetForUpdate, srEnsureBalanceRow = EnsureBalanceRow,
     srApplyDelta = ApplyDelta, srTransferDelta = TransferDelta\<rparr>"

section \<open>The contract\<close>

type_synonym qmap = "skey \<Rightarrow> int option"

locale stock_repository =
  fixes repo :: stock_repo
    and inv :: "ctx \<Rightarrow> world \<Rightarrow> bool"
    and qty :: "ctx \<Rightarrow> world \<Rightarrow> qmap"
  assumes range: "inv c w \<Longrightarrow> qty c w k = Some q \<Longrightarrow> 0 \<le> q \<and> q \<le> MaxInt32"
    and get_ok: "inv c w \<Longrightarrow> srGetForUpdate repo c t wh p w = (Inr sb, w') \<Longrightarrow>
      inv c w' \<and> qty c w' = qty c w \<and> qty c w (trimKey t wh p) = Some (sbQuantity sb)"
    and ensure_ok: "inv c w \<Longrightarrow> srEnsureBalanceRow repo c t wh p w = (Inr sb, w') \<Longrightarrow>
      inv c w' \<and> qty c w' = (qty c w)(trimKey t wh p \<mapsto> sbQuantity sb)
      \<and> sbQuantity sb = (case qty c w (trimKey t wh p) of None \<Rightarrow> 0 | Some q \<Rightarrow> q)"
    and apply_ok: "inv c w \<Longrightarrow> is_int32 n \<Longrightarrow> srApplyDelta repo c t wh p n w = (Inr u, w') \<Longrightarrow>
      inv c w' \<and> (\<exists>q. qty c w (trimKey t wh p) = Some q \<and> 0 \<le> q + n \<and> q + n \<le> MaxInt32
        \<and> qty c w' = (qty c w)(trimKey t wh p \<mapsto> q + n))"
    and transfer_ok: "inv c w \<Longrightarrow> is_int32 n \<Longrightarrow> TrimSpace src \<noteq> TrimSpace dst \<Longrightarrow>
      srTransferDelta repo c t src dst p n w = (Inr u, w') \<Longrightarrow>
      inv c w' \<and> 0 < n \<and> (\<exists>a b. qty c w (trimKey t src p) = Some a \<and> qty c w (trimKey t dst p) = Some b
        \<and> 0 \<le> a - n \<and> b + n \<le> MaxInt32
        \<and> qty c w' = (qty c w)(trimKey t src p \<mapsto> a - n, trimKey t dst p \<mapsto> b + n))"
begin

text \<open>Quantities with an absent row read as 0.\<close>

definition onHand :: "ctx \<Rightarrow> world \<Rightarrow> skey \<Rightarrow> int" where
  "onHand c w k = (case qty c w k of None \<Rightarrow> 0 | Some q \<Rightarrow> q)"

lemma onHand_range: "inv c w \<Longrightarrow> 0 \<le> onHand c w k \<and> onHand c w k \<le> MaxInt32"
  using range [of c w k] by (auto simp: onHand_def MaxInt32_def split: option.splits)

lemma get_onHand:
  assumes "inv c w" "srGetForUpdate repo c t wh p w = (Inr sb, w')"
  shows "inv c w'" "onHand c w' = onHand c w" "onHand c w (trimKey t wh p) = sbQuantity sb"
  using get_ok [OF assms] by (auto simp: onHand_def fun_eq_iff)

lemma ensure_onHand:
  assumes "inv c w" "srEnsureBalanceRow repo c t wh p w = (Inr sb, w')"
  shows "inv c w'" "onHand c w' = onHand c w" "onHand c w (trimKey t wh p) = sbQuantity sb"
  using ensure_ok [OF assms] by (auto simp: onHand_def fun_upd_def split: option.splits)

lemma apply_onHand:
  assumes "inv c w" "is_int32 n" "srApplyDelta repo c t wh p n w = (Inr u, w')"
  shows "inv c w'" "onHand c w' = (onHand c w)(trimKey t wh p := onHand c w (trimKey t wh p) + n)"
    "0 \<le> onHand c w (trimKey t wh p) + n" "onHand c w (trimKey t wh p) + n \<le> MaxInt32"
  using apply_ok [OF assms] by (auto simp: onHand_def)

lemma transfer_onHand:
  assumes "inv c w" "is_int32 n" "TrimSpace src \<noteq> TrimSpace dst"
    "srTransferDelta repo c t src dst p n w = (Inr u, w')"
  shows "inv c w'" "0 < n"
    "onHand c w' = (onHand c w)(trimKey t src p := onHand c w (trimKey t src p) - n,
        trimKey t dst p := onHand c w (trimKey t dst p) + n)"
  using transfer_ok [OF assms] assms(3) by (auto simp: onHand_def trimKey_def)

end

section \<open>The repository keeps the contract\<close>

text \<open>What the constraints of the table guarantee of its rows.\<close>

definition balancesOK :: "database \<Rightarrow> bool" where
  "balancesOK d \<longleftrightarrow> distinct (map sbrID (dbBalances d)) \<and> distinct (map rowKey (dbBalances d))
     \<and> (\<forall>r \<in> set (dbBalances d). 0 \<le> sbrReservedQuantity r
          \<and> sbrReservedQuantity r \<le> sbrQuantity r \<and> sbrQuantity r \<le> MaxInt32)"

definition qtyMap :: "database \<Rightarrow> qmap" where
  "qtyMap d k = map_option sbrQuantity (findBalance k d)"

definition idMap :: "database \<Rightarrow> skey \<Rightarrow> string option" where
  "idMap d k = map_option sbrID (findBalance k d)"

definition stockInv :: "ctx \<Rightarrow> world \<Rightarrow> bool" where
  "stockInv c w = balancesOK (viewOf (GetDB c) w)"

definition stockQty :: "ctx \<Rightarrow> world \<Rightarrow> qmap" where
  "stockQty c w = qtyMap (viewOf (GetDB c) w)"

lemma findBalance_key: "findBalance k d = Some r \<Longrightarrow> rowKey r = k \<and> r \<in> set (dbBalances d)"
  by (auto simp: findBalance_def dest: find_SomeD)

lemma getBalance_Inr:
  assumes "getBalanceRowForUpdate c t wh p w = (Inr row, w')"
  shows "findBalance (trimKey t wh p) (viewOf (GetDB c) w) = Some row"
    "w' = w\<lparr>wstmt := Suc (wstmt w)\<rparr>"
  using assms
  by (auto simp: getBalanceRowForUpdate_def dest: firstStmt_Inr)

lemma updateQuantity_effect:
  assumes ok: "balancesOK d" and row: "findBalance k d = Some row"
    and q: "0 \<le> q" "q \<le> MaxInt32"
    and u: "updateQuantity (sbrID row) q now d = Inr (n, d')"
  shows "n = 1" "balancesOK d'" "qtyMap d' = (qtyMap d)(k \<mapsto> q)" "idMap d' = idMap d"
proof -
  let ?P = "\<lambda>r. sbrID r = sbrID row" and ?f = "\<lambda>r. r\<lparr>sbrQuantity := q, sbrUpdatedAt := now\<rparr>"
  have mem: "row \<in> set (dbBalances d)" "rowKey row = k" using findBalance_key [OF row] by auto
  have d': "d' = d\<lparr>dbBalances := updateWhere ?P ?f (dbBalances d)\<rparr>"
    and res: "\<forall>r \<in> set (dbBalances d). ?P r \<longrightarrow> sbrReservedQuantity r \<le> q"
    and n: "n = countWhere ?P (dbBalances d)"
    using u by (auto simp: updateQuantity_def list_ex_iff not_less split: if_splits)
  have dist: "distinct (map sbrID (dbBalances d))" "distinct (map rowKey (dbBalances d))"
    using ok by (auto simp: balancesOK_def)
  have uniq: "r = row" if "r \<in> set (dbBalances d)" "?P r" for r
    by (rule inj_onD [of sbrID "set (dbBalances d)"]) (use dist(1) that mem in \<open>simp_all add: distinct_map\<close>)
  have "countWhere ?P (dbBalances d) \<le> 1"
    by (rule countWhere_distinct_le1 [OF dist(1)]) simp
  moreover have "countWhere ?P (dbBalances d) \<noteq> 0" using mem by (auto simp: countWhere_0)
  ultimately show "n = 1" using n countWhere_nonneg [of ?P "dbBalances d"] by linarith
  have ids: "map sbrID (updateWhere ?P ?f (dbBalances d)) = map sbrID (dbBalances d)"
    "map rowKey (updateWhere ?P ?f (dbBalances d)) = map rowKey (dbBalances d)"
    by (rule map_updateWhere; simp add: rowKey_def)+
  show "balancesOK d'"
    using ok res q unfolding balancesOK_def d'
    by (simp add: ids) (auto simp: set_updateWhere split: if_splits)
  have fb: "findBalance k' d' = map_option (\<lambda>r. if ?P r then ?f r else r) (findBalance k' d)" for k'
    unfolding findBalance_def d' by (simp add: find_updateWhere_same rowKey_def)
  show "idMap d' = idMap d"
    by (rule ext) (simp add: idMap_def fb option.map_comp comp_def if_distrib cong: if_cong)
  show "qtyMap d' = (qtyMap d)(k \<mapsto> q)"
  proof
    fix k'
    have "findBalance k' d' = map_option (\<lambda>r. if ?P r then ?f r else r) (findBalance k' d)"
      by (rule fb)
    moreover have "?P r \<longleftrightarrow> k' = k" if f: "findBalance k' d = Some r" for r
    proof
      assume "?P r"
      then have "r = row" using uniq findBalance_key [OF f] by blast
      then show "k' = k" using findBalance_key [OF f] mem by simp
    next
      assume "k' = k"
      then have "r = row" using f row by simp
      then show "?P r" by simp
    qed
    ultimately show "qtyMap d' k' = ((qtyMap d)(k \<mapsto> q)) k'"
      using row by (cases "findBalance k' d") (auto simp: qtyMap_def)
  qed
qed

lemma insertBalance_effect:
  assumes ok: "balancesOK d" and i: "insertBalance k newID now d = Inr (u, d')"
  shows "balancesOK d'"
    "qtyMap d' = (case qtyMap d k of None \<Rightarrow> (qtyMap d)(k \<mapsto> 0) | Some _ \<Rightarrow> qtyMap d)"
proof -
  obtain t w p where k: "k = (t, w, p)" by (cases k)
  show "balancesOK d'"
    using ok i unfolding k balancesOK_def insertBalance_def findBalance_def
    by (auto simp: list_ex_iff find_None_iff rowKey_def MaxInt32_def split: if_splits)
  show "qtyMap d' = (case qtyMap d k of None \<Rightarrow> (qtyMap d)(k \<mapsto> 0) | Some _ \<Rightarrow> qtyMap d)"
    using i unfolding k
    by (auto simp: qtyMap_def insertBalance_def findBalance_def find_append rowKey_def fun_eq_iff
        split: if_splits option.splits)
qed

text \<open>applyQuantity works on the row's id: the row may have been read earlier.\<close>

lemma applyQuantity_Inr:
  assumes "applyQuantity c row q w = (Inr u, w')" "stockInv c w"
    "findBalance k (viewOf (GetDB c) w) = Some cur" "sbrID cur = sbrID row"
  shows "stockInv c w'" "0 \<le> q" "q \<le> MaxInt32" "stockQty c w' = (stockQty c w)(k \<mapsto> q)"
    "idMap (viewOf (GetDB c) w') = idMap (viewOf (GetDB c) w)"
proof -
  show q: "0 \<le> q" "q \<le> MaxInt32" using assms(1) by (auto simp: applyQuantity_def split: if_splits)
  then have w32: "wrap32 q = q" by (simp add: is_int32_def MaxInt32_def)
  from assms(1) q obtain n w1 where
    r: "runStmt (GetDB c) (updateQuantity (sbrID row) q (wtime w (wtick w))) (w\<lparr>wtick := Suc (wtick w)\<rparr>) = (Inr n, w1)"
    and w1: "w' = w1"
    by (auto simp: applyQuantity_def bindM_Inr w32 split: if_splits)
  from runStmt_Inr [OF r] obtain d where
    u: "updateQuantity (sbrID cur) q (wtime w (wtick w)) (viewOf (GetDB c) w) = Inr (n, d)"
    and v: "viewOf (GetDB c) w1 = d" using assms(4) by auto
  from updateQuantity_effect [OF _ assms(3) q u] assms(2) show "stockInv c w'"
    "stockQty c w' = (stockQty c w)(k \<mapsto> q)" "idMap (viewOf (GetDB c) w') = idMap (viewOf (GetDB c) w)"
    by (auto simp: stockInv_def stockQty_def v w1)
qed

lemma sums_int64: "0 \<le> q \<Longrightarrow> q \<le> MaxInt32 \<Longrightarrow> is_int32 n \<Longrightarrow> wrap64 (q + n) = q + n"
  "0 \<le> q \<Longrightarrow> q \<le> MaxInt32 \<Longrightarrow> is_int32 n \<Longrightarrow> wrap64 (q - n) = q - n"
  by (simp_all add: is_int32_def is_int64_def MaxInt32_def)

lemma stockInv_row:
  assumes "stockInv c w" "findBalance k (viewOf (GetDB c) w) = Some row"
  shows "0 \<le> sbrQuantity row" "sbrQuantity row \<le> MaxInt32"
  using assms findBalance_key [OF assms(2)] by (fastforce simp: stockInv_def balancesOK_def)+

lemma stockQty_Some: "findBalance k (viewOf (GetDB c) w) = Some row \<Longrightarrow> stockQty c w k = Some (sbrQuantity row)"
  by (simp add: stockQty_def qtyMap_def)

lemma stock_upd [simp]:
  "stockInv c (w\<lparr>wstmt := n\<rparr>) = stockInv c w" "stockInv c (w\<lparr>wtick := n\<rparr>) = stockInv c w"
  "stockInv c (w\<lparr>wfresh := n\<rparr>) = stockInv c w"
  "stockQty c (w\<lparr>wstmt := n\<rparr>) = stockQty c w" "stockQty c (w\<lparr>wtick := n\<rparr>) = stockQty c w"
  "stockQty c (w\<lparr>wfresh := n\<rparr>) = stockQty c w"
  by (simp_all add: stockInv_def stockQty_def)

lemma ApplyDelta_Inr:
  assumes "stockInv c w" "is_int32 n" "ApplyDelta c t wh p n w = (Inr u, w')"
  shows "stockInv c w' \<and> (\<exists>q. stockQty c w (trimKey t wh p) = Some q \<and> 0 \<le> q + n \<and> q + n \<le> MaxInt32
        \<and> stockQty c w' = (stockQty c w)(trimKey t wh p \<mapsto> q + n))"
proof -
  from assms(3) obtain row w1 where g: "getBalanceRowForUpdate c t wh p w = (Inr row, w1)"
    and a: "applyQuantity c row (wrap64 (sbrQuantity row + n)) w1 = (Inr u, w')"
    by (auto simp: ApplyDelta_def bindM_Inr)
  note f = getBalance_Inr [OF g]
  note r = stockInv_row [OF assms(1) f(1)]
  have a': "applyQuantity c row (sbrQuantity row + n) w1 = (Inr u, w')"
    using a by (simp add: sums_int64 [OF r assms(2)])
  have f1: "findBalance (trimKey t wh p) (viewOf (GetDB c) w1) = Some row" using f by simp
  have i1: "stockInv c w1" using assms(1) f(2) by simp
  from applyQuantity_Inr [OF a' i1 f1 refl] show ?thesis
    using stockQty_Some [OF f(1)] f(2) by simp
qed

lemma trimKey_trim [simp]: "trimKey t (TrimSpace w) (TrimSpace p) = trimKey t w p"
  by (simp add: trimKey_def)

lemma stockInv_wstmt2: "stockInv c w \<Longrightarrow> w' = w\<lparr>wstmt := n\<rparr> \<Longrightarrow> stockInv c w'"
  by simp

lemma OrderedWarehouseProduct_cases:
  "OrderedWarehouseProduct a b = (a, b) \<or> OrderedWarehouseProduct a b = (b, a)"
  by (simp add: OrderedWarehouseProduct_def)

text \<open>Both orders of locking read the same two rows.\<close>

lemma TransferDelta_rows:
  assumes "TrimSpace src \<noteq> TrimSpace dst" "TransferDelta c t src dst p n w = (Inr u, w')"
  shows "\<exists>sr dr w1 w2. findBalance (trimKey t src p) (viewOf (GetDB c) w) = Some sr
    \<and> findBalance (trimKey t dst p) (viewOf (GetDB c) w) = Some dr
    \<and> w1 = w\<lparr>wstmt := Suc (Suc (wstmt w))\<rparr> \<and> 0 < n
    \<and> applyQuantity c sr (wrap64 (sbrQuantity sr - n)) w1 = (Inr (), w2)
    \<and> applyQuantity c dr (wrap64 (sbrQuantity dr + n)) w2 = (Inr u, w')"
proof -
  let ?s = "\<lparr>wpkWarehouseID = TrimSpace src, wpkProductID = TrimSpace p\<rparr>"
  let ?d = "\<lparr>wpkWarehouseID = TrimSpace dst, wpkProductID = TrimSpace p\<rparr>"
  let ?body = "\<lambda>first second.
      bindM (getBalanceRowForUpdate c t (wpkWarehouseID first) (wpkProductID first)) (\<lambda>r1.
      bindM (getBalanceRowForUpdate c t (wpkWarehouseID second) (wpkProductID second)) (\<lambda>r2.
      bindM (liftE (transferRows (TrimSpace src) (TrimSpace p) r1 r2)) (\<lambda>(sr, dr).
      bindM (applyQuantity c sr (wrap64 (sbrQuantity sr - n))) (\<lambda>_.
        applyQuantity c dr (wrap64 (sbrQuantity dr + n))))))"
  from assms have n: "0 < n" by (auto simp: TransferDelta_def split: if_splits)
  have body: "(case OrderedWarehouseProduct ?s ?d of (first, second) \<Rightarrow> ?body first second) w = (Inr u, w')"
    using assms n by (simp add: TransferDelta_def Let_def cong: prod.case_cong)
  have key: "rowKey r = trimKey t x p \<and> w' = w\<lparr>wstmt := Suc (wstmt w)\<rparr>
      \<and> findBalance (trimKey t x p) (viewOf (GetDB c) w) = Some r"
    if "getBalanceRowForUpdate c t (TrimSpace x) (TrimSpace p) w = (Inr r, w')" for x r w w'
    using getBalance_Inr [OF that] findBalance_key by fastforce
  consider (sd) "OrderedWarehouseProduct ?s ?d = (?s, ?d)" | (ds) "OrderedWarehouseProduct ?s ?d = (?d, ?s)"
    using OrderedWarehouseProduct_cases [of ?s ?d] by blast
  then show ?thesis
  proof cases
    case sd
    with body have "?body ?s ?d w = (Inr u, w')" by simp
    then obtain r1 wa r2 wb sr dr wc where
      g1: "getBalanceRowForUpdate c t (TrimSpace src) (TrimSpace p) w = (Inr r1, wa)"
      and g2: "getBalanceRowForUpdate c t (TrimSpace dst) (TrimSpace p) wa = (Inr r2, wb)"
      and sel: "transferRows (TrimSpace src) (TrimSpace p) r1 r2 = Inr (sr, dr)"
      and ap: "applyQuantity c sr (wrap64 (sbrQuantity sr - n)) wb = (Inr (), wc)"
         "applyQuantity c dr (wrap64 (sbrQuantity dr + n)) wc = (Inr u, w')"
      by (auto simp: bindM_Inr)
    have "sr = r1 \<and> dr = r2" using sel key [OF g1] by (simp add: transferRows_def rowKey_def trimKey_def)
    with ap key [OF g1] key [OF g2] n show ?thesis by auto
  next
    case ds
    with body have "?body ?d ?s w = (Inr u, w')" by simp
    then obtain r1 wa r2 wb sr dr wc where
      g1: "getBalanceRowForUpdate c t (TrimSpace dst) (TrimSpace p) w = (Inr r1, wa)"
      and g2: "getBalanceRowForUpdate c t (TrimSpace src) (TrimSpace p) wa = (Inr r2, wb)"
      and sel: "transferRows (TrimSpace src) (TrimSpace p) r1 r2 = Inr (sr, dr)"
      and ap: "applyQuantity c sr (wrap64 (sbrQuantity sr - n)) wb = (Inr (), wc)"
         "applyQuantity c dr (wrap64 (sbrQuantity dr + n)) wc = (Inr u, w')"
      by (auto simp: bindM_Inr)
    have "sr = r2 \<and> dr = r1" using sel key [OF g1] key [OF g2] assms(1)
      by (simp add: transferRows_def rowKey_def trimKey_def)
    with ap key [OF g1] key [OF g2] n show ?thesis by auto
  qed
qed

lemma TransferDelta_Inr:
  assumes "stockInv c w" "is_int32 n" "TrimSpace src \<noteq> TrimSpace dst"
    "TransferDelta c t src dst p n w = (Inr u, w')"
  shows "stockInv c w' \<and> 0 < n \<and> (\<exists>a b. stockQty c w (trimKey t src p) = Some a
        \<and> stockQty c w (trimKey t dst p) = Some b \<and> 0 \<le> a - n \<and> b + n \<le> MaxInt32
        \<and> stockQty c w' = (stockQty c w)(trimKey t src p \<mapsto> a - n, trimKey t dst p \<mapsto> b + n))"
proof -
  from TransferDelta_rows [OF assms(3,4)] obtain sr dr w1 w2 where
    s: "findBalance (trimKey t src p) (viewOf (GetDB c) w) = Some sr"
    and d: "findBalance (trimKey t dst p) (viewOf (GetDB c) w) = Some dr"
    and w1: "w1 = w\<lparr>wstmt := Suc (Suc (wstmt w))\<rparr>" and n: "0 < n"
    and a1: "applyQuantity c sr (wrap64 (sbrQuantity sr - n)) w1 = (Inr (), w2)"
    and a2: "applyQuantity c dr (wrap64 (sbrQuantity dr + n)) w2 = (Inr u, w')" by blast
  note rs = stockInv_row [OF assms(1) s] and rd = stockInv_row [OF assms(1) d]
  have i1: "stockInv c w1" and f1: "findBalance (trimKey t src p) (viewOf (GetDB c) w1) = Some sr"
    using assms(1) s w1 by simp_all
  note e1 = applyQuantity_Inr [OF a1 [unfolded sums_int64(2) [OF rs assms(2)]] i1 f1 refl]
  have ne: "trimKey t src p \<noteq> trimKey t dst p" using assms(3) by (simp add: trimKey_def)
  have "idMap (viewOf (GetDB c) w2) (trimKey t dst p) = Some (sbrID dr)"
    using e1(5) w1 d by (simp add: idMap_def)
  then obtain dr2 where d2: "findBalance (trimKey t dst p) (viewOf (GetDB c) w2) = Some dr2"
    and q2: "sbrID dr2 = sbrID dr" by (auto simp: idMap_def)
  note e2 = applyQuantity_Inr [OF a2 [unfolded sums_int64(1) [OF rd assms(2)]] e1(1) d2 q2]
  have "stockQty c w1 = stockQty c w" using w1 by simp
  then show ?thesis
    using e1 e2 n stockQty_Some [OF s] stockQty_Some [OF d] by simp
qed

interpretation stock: stock_repository stockRepository stockInv stockQty
proof (standard, goal_cases)
  case (1 c w k q)
  then obtain r where f: "findBalance k (viewOf (GetDB c) w) = Some r" and q: "q = sbrQuantity r"
    by (auto simp: stockQty_def qtyMap_def)
  show ?case using stockInv_row [OF 1(1) f] q by simp
next
  case (2 c w t wh p sb w')
  then obtain row where g: "getBalanceRowForUpdate c t wh p w = (Inr row, w')"
    and sb: "sb = rowToStockBalance row"
    by (auto simp: stockRepository_def GetForUpdate_def bindM_Inr)
  show ?case using 2 getBalance_Inr [OF g] stockQty_Some [of "trimKey t wh p" c w row] sb
    by (simp add: rowToStockBalance_def)
next
  case (3 c w t wh p sb w')
  then obtain u w1 row where
    i: "runStmt (GetDB c) (insertBalance (trimKey t wh p) (wuuid w (wfresh w)) (wtime w (wtick w)))
        (w\<lparr>wfresh := Suc (wfresh w), wtick := Suc (wtick w)\<rparr>) = (Inr u, w1)"
    and g: "getBalanceRowForUpdate c t wh p w1 = (Inr row, w')"
    and sb: "sb = rowToStockBalance row"
    by (auto simp: stockRepository_def EnsureBalanceRow_def bindM_Inr)
  from runStmt_Inr [OF i] obtain d where
    ins: "insertBalance (trimKey t wh p) (wuuid w (wfresh w)) (wtime w (wtick w)) (viewOf (GetDB c) w) = Inr (u, d)"
    and v: "viewOf (GetDB c) w1 = d" by auto
  note e = insertBalance_effect [OF _ ins]
  note f = getBalance_Inr [OF g]
  have inv1: "stockInv c w1" using e(1) 3(1) v by (simp add: stockInv_def)
  have q1: "stockQty c w1 = (case stockQty c w (trimKey t wh p) of
      None \<Rightarrow> (stockQty c w)(trimKey t wh p \<mapsto> 0) | Some _ \<Rightarrow> stockQty c w)"
    using e(2) 3(1) v unfolding stockInv_def stockQty_def by simp
  have s: "stockQty c w1 (trimKey t wh p) = Some (sbQuantity sb)"
    using stockQty_Some [OF f(1)] sb by (simp add: rowToStockBalance_def)
  show ?case using inv1 q1 s f(2)
    by (auto simp: fun_upd_idem split: option.splits)
next
  case (4 c w n t wh p u w')
  then show ?case using ApplyDelta_Inr [of c w n t wh p u w'] by (simp add: stockRepository_def)
next
  case (5 c w n src dst t p u w')
  then show ?case using TransferDelta_Inr [of c w n src dst t p u w'] by (simp add: stockRepository_def)
qed

end
