(* ===== verification/Outbox.thy ===== *)
theory Outbox
  imports Audit_Log
begin

text \<open>
  The transactional outbox (src/services/inventory/domains/outbox/repository): Insert appends an
  unpublished event in the caller's transaction; RelayPublishBatch hands out the unpublished rows in
  id order, one transaction per row, and marks a row published after its publish callback succeeded.
  Ids come from a sequence, which a rollback does not set back. Rows that another worker has locked
  are skipped (SKIP LOCKED); they are the argument locked.
\<close>

section \<open>Insert\<close>

record InsertInput =
  iiTenantID :: string
  iiEventType :: string
  iiAggregateType :: string
  iiAggregateID :: string
  iiPayload :: jval

definition nextval :: "int app" where
  "nextval w = (Inr (wseq w), w\<lparr>wseq := wseq w + 1\<rparr>)"

definition outboxInsert :: "ctx \<Rightarrow> InsertInput \<Rightarrow> unit app" where
  "outboxInsert c inp =
    bindM nowUTC (\<lambda>now.
    bindM nextval (\<lambda>newID.
    runStmt (GetDB c) (\<lambda>d.
      let row = \<lparr>oerID = newID, oerTenantID = iiTenantID inp, oerEventType = iiEventType inp,
                 oerAggregateType = iiAggregateType inp, oerAggregateID = iiAggregateID inp,
                 oerPayload = iiPayload inp, oerPublished = False, oerCreatedAt = now,
                 oerPublishedAt = None\<rparr>
      in if list_ex (\<lambda>r. oerID r = newID) (dbOutbox d) then Inl (Raw (dupMsg ''outbox_events_pkey''))
         else Inr ((), d\<lparr>dbOutbox := dbOutbox d @ [row]\<rparr>))))"

section \<open>Relay\<close>

record OutboxRow =
  orID :: int
  orTenantID :: string
  orEventType :: string
  orAggregateType :: string
  orAggregateID :: string
  orPayload :: jval
  orCreatedAt :: int

definition rowToOutbox :: "outboxEventRow \<Rightarrow> OutboxRow" where
  "rowToOutbox row =
    \<lparr>orID = oerID row, orTenantID = oerTenantID row, orEventType = oerEventType row,
     orAggregateType = oerAggregateType row, orAggregateID = oerAggregateID row,
     orPayload = oerPayload row, orCreatedAt = oerCreatedAt row\<rparr>"

text \<open>SELECT ... WHERE published = false ORDER BY id LIMIT 1 FOR UPDATE SKIP LOCKED.\<close>

definition nextUnpublished :: "(int \<Rightarrow> bool) \<Rightarrow> database \<Rightarrow> outboxEventRow option" where
  "nextUnpublished locked d =
    (case sort_key oerID (filter (\<lambda>r. \<not> oerPublished r \<and> \<not> locked (oerID r)) (dbOutbox d)) of
       [] \<Rightarrow> None | r # _ \<Rightarrow> Some r)"

definition markPublished :: "int \<Rightarrow> int \<Rightarrow> database \<Rightarrow> database" where
  "markPublished rowID now d =
    d\<lparr>dbOutbox := updateWhere (\<lambda>r. oerID r = rowID)
        (\<lambda>r. r\<lparr>oerPublished := True, oerPublishedAt := Some now\<rparr>) (dbOutbox d)\<rparr>"

definition relayOne :: "(int \<Rightarrow> bool) \<Rightarrow> (OutboxRow \<Rightarrow> unit app) \<Rightarrow> ctx \<Rightarrow> unit app" where
  "relayOne locked publish c =
    bindM (firstStmt (GetDB c) (nextUnpublished locked)) (\<lambda>row.
    let out = rowToOutbox row in
    bindM (publish out) (\<lambda>_.
    bindM nowUTC (\<lambda>now.
    runStmt (GetDB c) (\<lambda>d. Inr ((), markPublished (oerID row) now d)))))"

text \<open>The loop: n counts the rows of this batch; running out of rows ends it without an error.\<close>

fun relayLoop :: "(int \<Rightarrow> bool) \<Rightarrow> (OutboxRow \<Rightarrow> unit app) \<Rightarrow> nat \<Rightarrow> int \<Rightarrow> (int \<times> err option) app" where
  "relayLoop locked publish 0 n = ret (n, None)"
| "relayLoop locked publish (Suc k) n =
    bindM (tryM (RunInTx Background (relayOne locked publish))) (\<lambda>r.
    case r of
      Inl e \<Rightarrow> (if errorsIs e (Sys GormRecordNotFound) then ret (n, None) else ret (n, Some e))
    | Inr _ \<Rightarrow> relayLoop locked publish k (n + 1))"

definition RelayPublishBatch :: "(int \<Rightarrow> bool) \<Rightarrow> int \<Rightarrow> (OutboxRow \<Rightarrow> unit app) \<Rightarrow> (int \<times> err option) app" where
  "RelayPublishBatch locked limit publish =
    (let limit = (if limit \<le> 0 then 1 else limit)
     in relayLoop locked publish (nat limit) 0)"

section \<open>Insert appends\<close>

lemma nextval_Inr [simp]: "nextval w = (Inr i, w') \<longleftrightarrow> i = wseq w \<and> w' = w\<lparr>wseq := wseq w + 1\<rparr>"
  by (auto simp: nextval_def)

lemma nextval_Inl [simp]: "nextval w \<noteq> (Inl e, w')"
  by (auto simp: nextval_def)

definition outboxRowOf :: "InsertInput \<Rightarrow> int \<Rightarrow> int \<Rightarrow> outboxEventRow" where
  "outboxRowOf inp i now = \<lparr>oerID = i, oerTenantID = iiTenantID inp, oerEventType = iiEventType inp,
     oerAggregateType = iiAggregateType inp, oerAggregateID = iiAggregateID inp,
     oerPayload = iiPayload inp, oerPublished = False, oerCreatedAt = now, oerPublishedAt = None\<rparr>"

lemma outboxInsert_Inr:
  assumes "outboxInsert c inp w = (Inr u, w')"
  shows "\<exists>now. viewOf (GetDB c) w' = (viewOf (GetDB c) w)
      \<lparr>dbOutbox := dbOutbox (viewOf (GetDB c) w) @ [outboxRowOf inp (wseq w) now]\<rparr>
    \<and> wseq w' = wseq w + 1"
  using assms unfolding outboxInsert_def bindM_Inr
  by (cases "GetDB c") (auto simp: Let_def outboxRowOf_def setView_def viewOf_def split: if_splits option.splits dest!: runStmt_Inr)

lemma outboxInsert_pool: "cxTx c \<Longrightarrow> keeps samePool (outboxInsert c inp)"
proof -
  assume "cxTx c"
  moreover have "keeps samePool nextval" by (simp add: keeps_def samePool_def nextval_def)
  ultimately show ?thesis
    unfolding outboxInsert_def
    by (auto intro!: pool.keeps_bind sameDB_samePool [OF keeps_now] simp: GetDB_def keeps_stmt_pool)
qed

lemma outboxInsert_env: "keeps sameEnv (outboxInsert c inp)"
proof -
  have "keeps sameEnv nextval" by (simp add: keeps_def sameEnv_def nextval_def)
  then show ?thesis unfolding outboxInsert_def by (intro env.keeps_bind env_basic)
qed

end
