(* ===== verification/Warehouse.thy ===== *)
theory Warehouse
  imports Audit_Log
begin

text \<open>
  The warehouse domain (src/services/inventory/domains/warehouse): the repository, which always works
  on the pool, and the usecases with their validation, delete guard, audit rows and cache
  invalidation. The usecases are those of the wired program: the audit writer is present and the
  cache is what NewRedis returned.
\<close>

section \<open>Repository\<close>

definition whUniqueMsg :: string where "whUniqueMsg = dupMsg ''uq_warehouses_tenant_code''"

definition isDuplicateErr :: "err \<Rightarrow> bool" where
  "isDuplicateErr e = (let s = ToLower (errorText e) in Contains s ''duplicate'' \<or> Contains s ''unique'')"

text \<open>Turns a uniqueness error of a statement into the conflict error of the API.\<close>

definition onDuplicate :: "AppError \<Rightarrow> 'a app \<Rightarrow> 'a app" where
  "onDuplicate conflict m =
    bindM (tryM m) (\<lambda>r.
    case r of
      Inl e \<Rightarrow> (if isDuplicateErr e then throw (App conflict) else throw e)
    | Inr a \<Rightarrow> ret a)"

record WarehouseListFilter =
  wfPage :: int
  wfPerPage :: int
  wfSearch :: string
  wfSort :: string
  wfOrder :: string

record CreateInput =
  ciCode :: string
  ciName :: string
  ciAddress :: "string option"
  ciIsActive :: "bool option"

record UpdateInput =
  uiCode :: "string option"
  uiName :: "string option"
  uiAddress :: "string option"
  uiIsActive :: "bool option"

definition rowToWarehouse :: "warehouseRow \<Rightarrow> Warehouse" where
  "rowToWarehouse m =
    \<lparr>whID = whrID m, whTenantID = whrTenantID m, whCode = whrCode m, whName = whrName m,
     whAddress = whrAddress m, whIsActive = whrIsActive m, whCreatedAt = whrCreatedAt m,
     whUpdatedAt = whrUpdatedAt m, whDeletedAt = whrDeletedAt m\<rparr>"

definition whLive :: "string \<Rightarrow> warehouseRow \<Rightarrow> bool" where
  "whLive tid r \<longleftrightarrow> whrTenantID r = tid \<and> whrDeletedAt r = None"

definition whWhere :: "string \<Rightarrow> WarehouseListFilter \<Rightarrow> warehouseRow \<Rightarrow> bool" where
  "whWhere tid f r \<longleftrightarrow> whLive tid r \<and>
    (let s = TrimSpace (wfSearch f) in
     if s \<noteq> [] then (let p = likePattern s in
       ilike (whrName r) p \<or> ilike (whrCode r) p \<or> ilikeOpt (whrAddress r) p)
     else True)"

text \<open>The ORDER BY column: a whitelist with the default name.\<close>

definition whSortColumn :: "string \<Rightarrow> string" where
  "whSortColumn s =
    (let k = ToLower (TrimSpace s)
     in if k = ''code'' then ''code''
        else if k = ''created_at'' then ''created_at''
        else if k = ''updated_at'' then ''updated_at''
        else if k = ''name'' then ''name''
        else if k = ''is_active'' then ''is_active''
        else ''name'')"

definition whColumn :: "(string \<Rightarrow> string) \<Rightarrow> string \<Rightarrow> warehouseRow \<Rightarrow> sqlval" where
  "whColumn coll col r =
    (if col = ''code'' then SText (coll (whrCode r))
     else if col = ''created_at'' then sInt (whrCreatedAt r)
     else if col = ''updated_at'' then sInt (whrUpdatedAt r)
     else if col = ''is_active'' then sBool (whrIsActive r)
     else SText (coll (whrName r)))"

definition whList :: "string \<Rightarrow> WarehouseListFilter \<Rightarrow> (Warehouse list \<times> int) app" where
  "whList tenantID f w0 =
    (let col = whSortColumn (wfSort f);
         desc = EqualFold (TrimSpace (wfOrder f)) ''desc'';
         page = (if wfPage f < 1 then 1 else wfPage f);
         per = (if wfPerPage f < 1 then 20 else wfPerPage f)
     in bindM (queryStmt Pool (\<lambda>d. countWhere (whWhere tenantID f) (dbWarehouses d))) (\<lambda>cnt.
        bindM (queryStmt Pool (\<lambda>d.
          pageOf page per (orderBy desc (whColumn (wcoll w0) col) whrID
            (filter (whWhere tenantID f) (dbWarehouses d))))) (\<lambda>rows.
        ret (map rowToWarehouse rows, cnt)))) w0"

definition whGetByID :: "string \<Rightarrow> string \<Rightarrow> Warehouse app" where
  "whGetByID tenantID i =
    bindM (orNotFound (firstStmt Pool (\<lambda>d.
      find (\<lambda>r. whrID r = TrimSpace i \<and> whLive tenantID r) (dbWarehouses d)))) (\<lambda>m.
    ret (rowToWarehouse m))"

definition insertWarehouse :: "warehouseRow \<Rightarrow> database \<Rightarrow> err + unit \<times> database" where
  "insertWarehouse m d =
    (if list_ex (\<lambda>r. whrID r = whrID m) (dbWarehouses d) then Inl (Raw (dupMsg ''warehouses_pkey''))
     else if list_ex (\<lambda>r. whrTenantID r = whrTenantID m \<and> whrCode r = whrCode m) (dbWarehouses d)
     then Inl (Raw whUniqueMsg)
     else Inr ((), d\<lparr>dbWarehouses := dbWarehouses d @ [m]\<rparr>))"

definition whConflict :: AppError where
  "whConflict = withMessage ErrConflict ''warehouse code already exists''"

definition whCreate :: "string \<Rightarrow> CreateInput \<Rightarrow> Warehouse app" where
  "whCreate tenantID inp =
    bindM nowUTC (\<lambda>now.
    bindM newUUID (\<lambda>newID.
    let active = (case ciIsActive inp of None \<Rightarrow> True | Some b \<Rightarrow> b);
        m = \<lparr>whrID = newID, whrTenantID = tenantID, whrCode = TrimSpace (ciCode inp),
             whrName = TrimSpace (ciName inp), whrAddress = ciAddress inp, whrIsActive = active,
             whrCreatedAt = now, whrUpdatedAt = now, whrDeletedAt = None\<rparr>
    in bindM (onDuplicate whConflict (runStmt Pool (insertWarehouse m))) (\<lambda>_.
       ret (rowToWarehouse m))))"

text \<open>UPDATE with the map of the fields that are present.\<close>

definition applyWhUpdate :: "UpdateInput \<Rightarrow> int \<Rightarrow> warehouseRow \<Rightarrow> warehouseRow" where
  "applyWhUpdate inp now r =
    r\<lparr>whrUpdatedAt := now,
      whrCode := (case uiCode inp of None \<Rightarrow> whrCode r | Some s \<Rightarrow> TrimSpace s),
      whrName := (case uiName inp of None \<Rightarrow> whrName r | Some s \<Rightarrow> TrimSpace s),
      whrAddress := (case uiAddress inp of None \<Rightarrow> whrAddress r | Some s \<Rightarrow> Some s),
      whrIsActive := (case uiIsActive inp of None \<Rightarrow> whrIsActive r | Some b \<Rightarrow> b)\<rparr>"

definition updateWarehouses :: "(warehouseRow \<Rightarrow> bool) \<Rightarrow> (warehouseRow \<Rightarrow> warehouseRow) \<Rightarrow> database \<Rightarrow> err + int \<times> database" where
  "updateWarehouses P f d =
    (let rows = updateWhere P f (dbWarehouses d)
     in if \<not> distinct (map (\<lambda>r. (whrTenantID r, whrCode r)) rows) then Inl (Raw whUniqueMsg)
        else Inr (countWhere P (dbWarehouses d), d\<lparr>dbWarehouses := rows\<rparr>))"

definition whUpdate :: "string \<Rightarrow> string \<Rightarrow> UpdateInput \<Rightarrow> Warehouse app" where
  "whUpdate tenantID i0 inp =
    (let i = TrimSpace i0;
         P = (\<lambda>r. whrID r = i \<and> whLive tenantID r)
     in bindM (orNotFound (firstStmt Pool (\<lambda>d. find P (dbWarehouses d)))) (\<lambda>_.
        bindM nowUTC (\<lambda>now.
        bindM (onDuplicate whConflict (runStmt Pool (updateWarehouses P (applyWhUpdate inp now)))) (\<lambda>_.
        bindM (firstStmt Pool (\<lambda>d. find (\<lambda>r. whrID r = i) (dbWarehouses d))) (\<lambda>m.
        ret (rowToWarehouse m))))))"

definition whSoftDelete :: "string \<Rightarrow> string \<Rightarrow> unit app" where
  "whSoftDelete tenantID i0 =
    (let i = TrimSpace i0;
         P = (\<lambda>r. whrID r = i \<and> whLive tenantID r)
     in bindM nowUTC (\<lambda>now.
        bindM (runStmt Pool (updateWarehouses P
          (\<lambda>r. r\<lparr>whrIsActive := False, whrDeletedAt := Some now, whrUpdatedAt := now\<rparr>))) (\<lambda>affected.
        if affected = 0 then throw (App ErrNotFound) else ret ())))"

definition whHasPositiveStock :: "string \<Rightarrow> string \<Rightarrow> bool app" where
  "whHasPositiveStock tenantID warehouseID =
    bindM (queryStmt Pool (\<lambda>d. countWhere (\<lambda>r. sbrTenantID r = tenantID
        \<and> sbrWarehouseID r = TrimSpace warehouseID \<and> sbrQuantity r > 0) (dbBalances d))) (\<lambda>n.
    ret (n > 0))"

section \<open>Usecases\<close>

record ListWarehousesInput =
  lwPage :: "int option"
  lwPerPage :: "int option"
  lwSearch :: "string option"
  lwSort :: "string option"
  lwOrder :: "string option"

definition optStr :: "string option \<Rightarrow> string" where
  "optStr p = (case p of None \<Rightarrow> [] | Some s \<Rightarrow> s)"

text \<open>toAuditMap: the struct marshalled to JSON and back, keys by Go field name.\<close>

definition warehouseAuditMap :: "Warehouse \<Rightarrow> jval" where
  "warehouseAuditMap v = JObj [(''Address'', optJ (whAddress v)), (''Code'', JStr (whCode v)),
     (''CreatedAt'', JTime (whCreatedAt v)),
     (''DeletedAt'', (case whDeletedAt v of None \<Rightarrow> JNull | Some t \<Rightarrow> JTime t)),
     (''ID'', JStr (whID v)), (''IsActive'', JBool (whIsActive v)), (''Name'', JStr (whName v)),
     (''TenantID'', JStr (whTenantID v)), (''UpdatedAt'', JTime (whUpdatedAt v))]"

definition invalidateAfterWarehouseWrite :: "string \<Rightarrow> unit app" where
  "invalidateAfterWarehouseWrite tenantID =
    bindM (ignoreErr (cDeletePattern wired (PatternWarehouses tenantID))) (\<lambda>_.
    ignoreErr (cDelete wired [KeyDashboardSummary tenantID]))"

fun decWarehouses :: "cval \<Rightarrow> Warehouse ListOutput option" where
  "decWarehouses (CVWarehouses x) = Some x"
| "decWarehouses _ = None"

definition ListWarehouses :: "ctx \<Rightarrow> ListWarehousesInput \<Rightarrow> Warehouse ListOutput app" where
  "ListWarehouses c inp w0 =
    bindM (liftE (TenantIDFromContext c)) (\<lambda>tid.
    let (page, perPage) = pageParams (lwPage inp) (lwPerPage inp);
        search = TrimSpace (optStr (lwSearch inp));
        srt = optStr (lwSort inp);
        order = optStr (lwOrder inp);
        fp = WarehousesFP (wsha w0) page perPage search srt order;
        listKey = KeyWarehousesList tid fp
    in readThrough wired listKey decWarehouses CVWarehouses TTLWarehouseList
      (bindM (whList tid \<lparr>wfPage = page, wfPerPage = perPage, wfSearch = search, wfSort = srt,
          wfOrder = order\<rparr>) (\<lambda>(items, cnt).
       ret \<lparr>loItems = items, loTotal = cnt, loPage = wrap32 page, loPerPage = wrap32 perPage\<rparr>))) w0"

definition GetWarehouse :: "ctx \<Rightarrow> string \<Rightarrow> Warehouse app" where
  "GetWarehouse c warehouseID =
    bindM (liftE (TenantIDFromContext c)) (\<lambda>tid. whGetByID tid (TrimSpace warehouseID))"

definition validationFail :: "string \<Rightarrow> 'a app" where
  "validationFail msg = throw (App (withMessage ErrValidationError msg))"

definition CreateWarehouse :: "ctx \<Rightarrow> CreateInput \<Rightarrow> Warehouse app" where
  "CreateWarehouse c inp =
    bindM (liftE (TenantIDFromContext c)) (\<lambda>tid.
    let code = TrimSpace (ciCode inp); name = TrimSpace (ciName inp) in
    if code = [] then validationFail ''code is required''
    else if name = [] then validationFail ''name is required''
    else
      bindM (whCreate tid \<lparr>ciCode = code, ciName = name, ciAddress = ciAddress inp,
          ciIsActive = ciIsActive inp\<rparr>) (\<lambda>w.
      bindM (ignoreErr (auditLog c \<lparr>apAction = ''warehouse.create'', apEntity = ''warehouse'',
          apEntityID = whID w, apBefore = None, apAfter = Some (warehouseAuditMap w)\<rparr>)) (\<lambda>_.
      ret w)))"

definition UpdateWarehouse :: "ctx \<Rightarrow> string \<Rightarrow> UpdateInput \<Rightarrow> Warehouse app" where
  "UpdateWarehouse c warehouseID inp =
    bindM (liftE (TenantIDFromContext c)) (\<lambda>tid.
    let i = TrimSpace warehouseID in
    if i = [] then validationFail ''warehouse id is required''
    else if (case uiCode inp of None \<Rightarrow> False | Some s \<Rightarrow> TrimSpace s = [])
    then validationFail ''code cannot be empty''
    else if (case uiName inp of None \<Rightarrow> False | Some s \<Rightarrow> TrimSpace s = [])
    then validationFail ''name cannot be empty''
    else
      bindM (whGetByID tid i) (\<lambda>old.
      bindM (whUpdate tid i inp) (\<lambda>w.
      bindM (ignoreErr (auditLog c \<lparr>apAction = ''warehouse.update'', apEntity = ''warehouse'',
          apEntityID = i, apBefore = Some (warehouseAuditMap old),
          apAfter = Some (warehouseAuditMap w)\<rparr>)) (\<lambda>_.
      bindM (invalidateAfterWarehouseWrite tid) (\<lambda>_.
      ret w)))))"

definition DeleteWarehouse :: "ctx \<Rightarrow> string \<Rightarrow> unit app" where
  "DeleteWarehouse c warehouseID =
    bindM (liftE (TenantIDFromContext c)) (\<lambda>tid.
    let i = TrimSpace warehouseID in
    if i = [] then validationFail ''warehouse id is required''
    else
      bindM (whGetByID tid i) (\<lambda>old.
      bindM (whHasPositiveStock tid i) (\<lambda>has.
      if has then throw (App (WithDetails ErrWarehouseStock [(''warehouse_id'', JStr i)]))
      else
        bindM (whSoftDelete tid i) (\<lambda>_.
        bindM (ignoreErr (auditLog c \<lparr>apAction = ''warehouse.delete'', apEntity = ''warehouse'',
            apEntityID = i, apBefore = Some (warehouseAuditMap old),
            apAfter = Some (JObj [(''deleted'', JBool True)])\<rparr>)) (\<lambda>_.
        invalidateAfterWarehouseWrite tid)))))"

end
