(* ===== verification/Categories.thy ===== *)
theory Categories
  imports Warehouse
begin

text \<open>
  Categories (src/services/inventory/domains/catalog: repository.go, usecase.go, cache_inval.go):
  repository and usecases with the parent checks, the guard against deleting a category that active
  products reference, audit rows and cache invalidation.
\<close>

section \<open>Repository\<close>

record CategoryCreateInput =
  cciName :: string
  cciDescription :: "string option"
  cciParentID :: "string option"
  cciSortOrder :: "int option"

record CategoryUpdateInput =
  cuiName :: "string option"
  cuiDescription :: "string option"
  cuiParentID :: "string option"
  cuiSortOrder :: "int option"

definition rowToCategory :: "categoryRow \<Rightarrow> Category" where
  "rowToCategory m =
    \<lparr>caID = carID m, caTenantID = carTenantID m, caParentID = carParentID m, caName = carName m,
     caDescription = carDescription m, caSortOrder = carSortOrder m, caCreatedAt = carCreatedAt m,
     caUpdatedAt = carUpdatedAt m, caDeletedAt = carDeletedAt m\<rparr>"

definition catLive :: "string \<Rightarrow> categoryRow \<Rightarrow> bool" where
  "catLive tid r \<longleftrightarrow> carTenantID r = tid \<and> carDeletedAt r = None"

definition catWhere :: "string \<Rightarrow> WarehouseListFilter \<Rightarrow> categoryRow \<Rightarrow> bool" where
  "catWhere tid f r \<longleftrightarrow> catLive tid r \<and>
    (let s = TrimSpace (wfSearch f) in
     if s \<noteq> [] then (let p = likePattern s in ilike (carName r) p \<or> ilikeOpt (carDescription r) p)
     else True)"

definition catSortColumn :: "string \<Rightarrow> string" where
  "catSortColumn s =
    (let k = ToLower (TrimSpace s)
     in if k = ''name'' then ''name''
        else if k = ''created_at'' then ''created_at''
        else if k = ''updated_at'' then ''updated_at''
        else if k = ''sort_order'' then ''sort_order''
        else ''sort_order'')"

definition catColumn :: "(string \<Rightarrow> string) \<Rightarrow> string \<Rightarrow> categoryRow \<Rightarrow> sqlval" where
  "catColumn coll col r =
    (if col = ''name'' then SText (coll (carName r))
     else if col = ''created_at'' then sInt (carCreatedAt r)
     else if col = ''updated_at'' then sInt (carUpdatedAt r)
     else sInt (carSortOrder r))"

definition catList :: "string \<Rightarrow> WarehouseListFilter \<Rightarrow> (Category list \<times> int) app" where
  "catList tenantID f w0 =
    (let col = catSortColumn (wfSort f);
         desc = EqualFold (TrimSpace (wfOrder f)) ''desc'';
         page = (if wfPage f < 1 then 1 else wfPage f);
         per = (if wfPerPage f < 1 then 20 else wfPerPage f)
     in bindM (queryStmt Pool (\<lambda>d. countWhere (catWhere tenantID f) (dbCategories d))) (\<lambda>cnt.
        bindM (queryStmt Pool (\<lambda>d.
          pageOf page per (orderBy desc (catColumn (wcoll w0) col) carID
            (filter (catWhere tenantID f) (dbCategories d))))) (\<lambda>rows.
        ret (map rowToCategory rows, cnt)))) w0"

definition catGetByID :: "string \<Rightarrow> string \<Rightarrow> Category app" where
  "catGetByID tenantID i =
    bindM (orNotFound (firstStmt Pool (\<lambda>d.
      find (\<lambda>r. carID r = TrimSpace i \<and> catLive tenantID r) (dbCategories d)))) (\<lambda>m.
    ret (rowToCategory m))"

definition catUniqueMsg :: string where "catUniqueMsg = dupMsg ''uq_categories_tenant_name''"

definition catConflict :: AppError where
  "catConflict = withMessage ErrConflict ''category name already exists''"

definition insertCategory :: "categoryRow \<Rightarrow> database \<Rightarrow> err + unit \<times> database" where
  "insertCategory m d =
    (if list_ex (\<lambda>r. carID r = carID m) (dbCategories d) then Inl (Raw (dupMsg ''categories_pkey''))
     else if list_ex (\<lambda>r. carTenantID r = carTenantID m \<and> carName r = carName m) (dbCategories d)
     then Inl (Raw catUniqueMsg)
     else Inr ((), d\<lparr>dbCategories := dbCategories d @ [m]\<rparr>))"

definition catCreate :: "string \<Rightarrow> CategoryCreateInput \<Rightarrow> Category app" where
  "catCreate tenantID inp =
    bindM nowUTC (\<lambda>now.
    bindM newUUID (\<lambda>newID.
    let srt = (case cciSortOrder inp of None \<Rightarrow> 0 | Some n \<Rightarrow> n);
        m = \<lparr>carID = newID, carTenantID = tenantID, carParentID = cciParentID inp,
             carName = TrimSpace (cciName inp), carDescription = cciDescription inp,
             carSortOrder = srt, carCreatedAt = now, carUpdatedAt = now, carDeletedAt = None\<rparr>
    in bindM (onDuplicate catConflict (runStmt Pool (insertCategory m))) (\<lambda>_.
       ret (rowToCategory m))))"

definition applyCatUpdate :: "CategoryUpdateInput \<Rightarrow> int \<Rightarrow> categoryRow \<Rightarrow> categoryRow" where
  "applyCatUpdate inp now r =
    r\<lparr>carUpdatedAt := now,
      carName := (case cuiName inp of None \<Rightarrow> carName r | Some s \<Rightarrow> TrimSpace s),
      carDescription := (case cuiDescription inp of None \<Rightarrow> carDescription r | Some s \<Rightarrow> Some s),
      carSortOrder := (case cuiSortOrder inp of None \<Rightarrow> carSortOrder r | Some n \<Rightarrow> n),
      carParentID := (case cuiParentID inp of None \<Rightarrow> carParentID r | Some s \<Rightarrow> Some s)\<rparr>"

definition updateCategories :: "(categoryRow \<Rightarrow> bool) \<Rightarrow> (categoryRow \<Rightarrow> categoryRow) \<Rightarrow> database \<Rightarrow> err + int \<times> database" where
  "updateCategories P f d =
    (let rows = updateWhere P f (dbCategories d)
     in if \<not> distinct (map (\<lambda>r. (carTenantID r, carName r)) rows) then Inl (Raw catUniqueMsg)
        else Inr (countWhere P (dbCategories d), d\<lparr>dbCategories := rows\<rparr>))"

definition catUpdate :: "string \<Rightarrow> string \<Rightarrow> CategoryUpdateInput \<Rightarrow> Category app" where
  "catUpdate tenantID i0 inp =
    (let i = TrimSpace i0;
         P = (\<lambda>r. carID r = i \<and> catLive tenantID r)
     in bindM (orNotFound (firstStmt Pool (\<lambda>d. find P (dbCategories d)))) (\<lambda>_.
        bindM nowUTC (\<lambda>now.
        bindM (onDuplicate catConflict (runStmt Pool (updateCategories P (applyCatUpdate inp now)))) (\<lambda>_.
        bindM (firstStmt Pool (\<lambda>d. find (\<lambda>r. carID r = i) (dbCategories d))) (\<lambda>m.
        ret (rowToCategory m))))))"

text \<open>The second clock reading is gorm's automatic update of updated_at.\<close>

definition catSoftDelete :: "string \<Rightarrow> string \<Rightarrow> unit app" where
  "catSoftDelete tenantID i0 =
    (let i = TrimSpace i0;
         P = (\<lambda>r. carID r = i \<and> catLive tenantID r)
     in bindM nowUTC (\<lambda>now.
        bindM nowUTC (\<lambda>auto.
        bindM (runStmt Pool (updateCategories P
          (\<lambda>r. r\<lparr>carDeletedAt := Some now, carUpdatedAt := auto\<rparr>))) (\<lambda>affected.
        if affected = 0 then throw (App ErrNotFound) else ret ()))))"

definition CountActiveProductsByCategoryID :: "string \<Rightarrow> string \<Rightarrow> int app" where
  "CountActiveProductsByCategoryID tenantID categoryID =
    queryStmt Pool (\<lambda>d. countWhere (\<lambda>r. prrTenantID r = tenantID
      \<and> prrCategoryID r = Some (TrimSpace categoryID) \<and> prrDeletedAt r = None) (dbProducts d))"

section \<open>Usecases\<close>

definition invalidateDashboard :: "string \<Rightarrow> unit app" where
  "invalidateDashboard tenantID = ignoreErr (cDelete wired [KeyDashboardSummary tenantID])"

definition invalidateAfterCategoryWrite :: "string \<Rightarrow> unit app" where
  "invalidateAfterCategoryWrite tenantID =
    bindM (ignoreErr (cDeletePattern wired (PatternCategories tenantID))) (\<lambda>_.
    bindM (ignoreErr (cDeletePattern wired (PatternProducts tenantID))) (\<lambda>_.
    invalidateDashboard tenantID))"

definition normalizeParentID :: "string option \<Rightarrow> string option" where
  "normalizeParentID p = (case p of None \<Rightarrow> None
     | Some x \<Rightarrow> (let s = TrimSpace x in if s = [] then None else Some s))"

definition categoryAuditMap :: "Category \<Rightarrow> jval" where
  "categoryAuditMap v = JObj [(''CreatedAt'', JTime (caCreatedAt v)),
     (''DeletedAt'', (case caDeletedAt v of None \<Rightarrow> JNull | Some t \<Rightarrow> JTime t)),
     (''Description'', optJ (caDescription v)), (''ID'', JStr (caID v)), (''Name'', JStr (caName v)),
     (''ParentID'', optJ (caParentID v)), (''SortOrder'', JInt (caSortOrder v)),
     (''TenantID'', JStr (caTenantID v)), (''UpdatedAt'', JTime (caUpdatedAt v))]"

fun decCategories :: "cval \<Rightarrow> Category ListOutput option" where
  "decCategories (CVCategories x) = Some x"
| "decCategories _ = None"

definition ListCategories :: "ctx \<Rightarrow> ListWarehousesInput \<Rightarrow> Category ListOutput app" where
  "ListCategories c inp w0 =
    bindM (liftE (TenantIDFromContext c)) (\<lambda>tid.
    let (page, perPage) = pageParams (lwPage inp) (lwPerPage inp);
        search = TrimSpace (optStr (lwSearch inp));
        srt = optStr (lwSort inp);
        order = optStr (lwOrder inp);
        fp = CategoriesFP (wsha w0) page perPage search srt order;
        ckey = KeyCategoriesList tid fp
    in readThrough wired ckey decCategories CVCategories TTLCategoryList
      (bindM (catList tid \<lparr>wfPage = page, wfPerPage = perPage, wfSearch = search, wfSort = srt,
          wfOrder = order\<rparr>) (\<lambda>(items, cnt).
       ret \<lparr>loItems = items, loTotal = cnt, loPage = wrap32 page, loPerPage = wrap32 perPage\<rparr>))) w0"

definition GetCategory :: "ctx \<Rightarrow> string \<Rightarrow> Category app" where
  "GetCategory c categoryID =
    bindM (liftE (TenantIDFromContext c)) (\<lambda>tid. catGetByID tid (TrimSpace categoryID))"

definition CreateCategory :: "ctx \<Rightarrow> CategoryCreateInput \<Rightarrow> Category app" where
  "CreateCategory c inp =
    bindM (liftE (TenantIDFromContext c)) (\<lambda>tid.
    let name = TrimSpace (cciName inp) in
    if name = [] then validationFail ''name is required''
    else
      bindM (case cciParentID inp of
          None \<Rightarrow> ret ()
        | Some p \<Rightarrow> (if TrimSpace p \<noteq> [] then bindM (catGetByID tid (TrimSpace p)) (\<lambda>_. ret ())
                     else ret ())) (\<lambda>_.
      bindM (catCreate tid \<lparr>cciName = name, cciDescription = cciDescription inp,
          cciParentID = normalizeParentID (cciParentID inp), cciSortOrder = cciSortOrder inp\<rparr>) (\<lambda>cat.
      bindM (ignoreErr (auditLog c \<lparr>apAction = ''category.create'', apEntity = ''category'',
          apEntityID = caID cat, apBefore = None, apAfter = Some (categoryAuditMap cat)\<rparr>)) (\<lambda>_.
      bindM (invalidateAfterCategoryWrite tid) (\<lambda>_.
      ret cat)))))"

definition UpdateCategory :: "ctx \<Rightarrow> string \<Rightarrow> CategoryUpdateInput \<Rightarrow> Category app" where
  "UpdateCategory c categoryID inp =
    bindM (liftE (TenantIDFromContext c)) (\<lambda>tid.
    let i = TrimSpace categoryID in
    if i = [] then validationFail ''category id is required''
    else
      bindM (case cuiParentID inp of
          None \<Rightarrow> ret ()
        | Some p0 \<Rightarrow> (let p = TrimSpace p0 in
            if p \<noteq> [] then
              (if p = i then validationFail ''parent_id cannot equal category id''
               else bindM (catGetByID tid p) (\<lambda>_. ret ()))
            else ret ())) (\<lambda>_.
      if (case cuiName inp of None \<Rightarrow> False | Some s \<Rightarrow> TrimSpace s = [])
      then validationFail ''name cannot be empty''
      else
        bindM (catGetByID tid i) (\<lambda>old.
        let repoIn = \<lparr>cuiName = cuiName inp, cuiDescription = cuiDescription inp,
              cuiParentID = (case cuiParentID inp of None \<Rightarrow> None
                | Some p \<Rightarrow> normalizeParentID (Some p)),
              cuiSortOrder = cuiSortOrder inp\<rparr> in
        bindM (catUpdate tid i repoIn) (\<lambda>cat.
        bindM (ignoreErr (auditLog c \<lparr>apAction = ''category.update'', apEntity = ''category'',
            apEntityID = i, apBefore = Some (categoryAuditMap old),
            apAfter = Some (categoryAuditMap cat)\<rparr>)) (\<lambda>_.
        bindM (invalidateAfterCategoryWrite tid) (\<lambda>_.
        ret cat))))))"

definition DeleteCategory :: "ctx \<Rightarrow> string \<Rightarrow> unit app" where
  "DeleteCategory c categoryID =
    bindM (liftE (TenantIDFromContext c)) (\<lambda>tid.
    let i = TrimSpace categoryID in
    if i = [] then validationFail ''category id is required''
    else
      bindM (catGetByID tid i) (\<lambda>old.
      bindM (CountActiveProductsByCategoryID tid i) (\<lambda>n.
      if n > 0 then throw (App (WithDetails ErrCategoryHasActiveProducts
          [(''category_id'', JStr i), (''active_products'', JInt n)]))
      else
        bindM (catSoftDelete tid i) (\<lambda>_.
        bindM (ignoreErr (auditLog c \<lparr>apAction = ''category.delete'', apEntity = ''category'',
            apEntityID = i, apBefore = Some (categoryAuditMap old),
            apAfter = Some (JObj [(''deleted'', JBool True)])\<rparr>)) (\<lambda>_.
        invalidateAfterCategoryWrite tid)))))"

end
