(* ===== verification/Json.thy ===== *)
theory Json
  imports Inv_Prelude
begin

text \<open>
  The syntax check of encoding/json that the metadata validation rests on: json.Unmarshal of a raw
  message into an any value, reduced to what the code asks of it, whether the text is valid JSON and
  whether its value is an object. The grammar is RFC 8259 with the nesting limit 10000 of the Go
  scanner; numbers outside the range of float64 are not distinguished. The first argument of the
  mutually recursive functions is fuel: every call consumes at least one character or one unit, and
  twice the length of the text plus one is always enough.
\<close>

datatype jkind = KObject | KOther

definition isWs :: "char \<Rightarrow> bool" where
  "isWs c \<longleftrightarrow> c \<in> {CHR 0x20, CHR 0x09, CHR 0x0A, CHR 0x0D}"

definition skipWs :: "string \<Rightarrow> string" where "skipWs s = dropWhile isWs s"

definition isDigit :: "char \<Rightarrow> bool" where
  "isDigit c \<longleftrightarrow> 48 \<le> (of_char c :: nat) \<and> (of_char c :: nat) \<le> 57"

definition isHex :: "char \<Rightarrow> bool" where
  "isHex c \<longleftrightarrow> isDigit c \<or> (97 \<le> (of_char c :: nat) \<and> (of_char c :: nat) \<le> 102)
     \<or> (65 \<le> (of_char c :: nat) \<and> (of_char c :: nat) \<le> 70)"

text \<open>The rest of a string literal after the opening quote.\<close>

fun scanString :: "string \<Rightarrow> string option" where
  "scanString [] = None"
| "scanString (c # cs) =
    (if c = CHR 0x22 then Some cs
     else if c = CHR 0x5C then (case cs of
         [] \<Rightarrow> None
       | e # ds \<Rightarrow>
          (if e = CHR ''u'' then (case ds of
              a # b # x # y # rest \<Rightarrow> (if isHex a \<and> isHex b \<and> isHex x \<and> isHex y then scanString rest else None)
            | _ \<Rightarrow> None)
           else if e \<in> {CHR 0x22, CHR 0x5C, CHR ''/'', CHR ''b'', CHR ''f'', CHR ''n'', CHR ''r'', CHR ''t''}
           then scanString ds else None))
     else if (of_char c :: nat) < 32 then None
     else scanString cs)"

definition digits1 :: "string \<Rightarrow> string option" where
  "digits1 s = (case s of [] \<Rightarrow> None | c # cs \<Rightarrow> (if isDigit c then Some (dropWhile isDigit cs) else None))"

definition scanInt :: "string \<Rightarrow> string option" where
  "scanInt s = (case s of [] \<Rightarrow> None
     | c # cs \<Rightarrow> (if c = CHR ''0'' then Some cs else digits1 s))"

definition scanFrac :: "string \<Rightarrow> string option" where
  "scanFrac s = (case s of [] \<Rightarrow> Some []
     | c # cs \<Rightarrow> (if c = CHR ''.'' then digits1 cs else Some s))"

definition scanExp :: "string \<Rightarrow> string option" where
  "scanExp s = (case s of [] \<Rightarrow> Some []
     | c # cs \<Rightarrow> (if c = CHR ''e'' \<or> c = CHR ''E'' then
         (case cs of [] \<Rightarrow> None
          | d # ds \<Rightarrow> (if d = CHR ''+'' \<or> d = CHR ''-'' then digits1 ds else digits1 cs))
        else Some s))"

definition scanNumber :: "string \<Rightarrow> string option" where
  "scanNumber s =
    Option.bind (scanInt (case s of [] \<Rightarrow> [] | c # cs \<Rightarrow> if c = CHR ''-'' then cs else s)) (\<lambda>r.
    Option.bind (scanFrac r) scanExp)"

definition scanLit :: "string \<Rightarrow> string \<Rightarrow> string option" where
  "scanLit lit s = (if prefix lit s then Some (drop (length lit) s) else None)"

fun scanValue :: "nat \<Rightarrow> nat \<Rightarrow> string \<Rightarrow> (jkind \<times> string) option"
and scanMembers :: "nat \<Rightarrow> nat \<Rightarrow> string \<Rightarrow> string option"
and scanElements :: "nat \<Rightarrow> nat \<Rightarrow> string \<Rightarrow> string option" where
  "scanValue 0 depth s = None"
| "scanValue (Suc k) depth s =
    (case skipWs s of
       [] \<Rightarrow> None
     | c # cs \<Rightarrow>
        (if c = CHR ''{'' then
           (if depth \<ge> 10000 then None
            else (case skipWs cs of
                [] \<Rightarrow> None
              | d # ds \<Rightarrow> (if d = CHR ''}'' then Some (KObject, ds)
                  else map_option (Pair KObject) (scanMembers k (Suc depth) (d # ds)))))
         else if c = CHR ''['' then
           (if depth \<ge> 10000 then None
            else (case skipWs cs of
                [] \<Rightarrow> None
              | d # ds \<Rightarrow> (if d = CHR '']'' then Some (KOther, ds)
                  else map_option (Pair KOther) (scanElements k (Suc depth) (d # ds)))))
         else if c = CHR 0x22 then map_option (Pair KOther) (scanString cs)
         else if c = CHR ''t'' then map_option (Pair KOther) (scanLit ''true'' (c # cs))
         else if c = CHR ''f'' then map_option (Pair KOther) (scanLit ''false'' (c # cs))
         else if c = CHR ''n'' then map_option (Pair KOther) (scanLit ''null'' (c # cs))
         else map_option (Pair KOther) (scanNumber (c # cs))))"
| "scanMembers 0 depth s = None"
| "scanMembers (Suc k) depth s =
    (case skipWs s of
       [] \<Rightarrow> None
     | c # cs \<Rightarrow>
        (if c \<noteq> CHR 0x22 then None
         else Option.bind (scanString cs) (\<lambda>r.
           case skipWs r of
             [] \<Rightarrow> None
           | d # ds \<Rightarrow>
             (if d \<noteq> CHR '':'' then None
              else Option.bind (scanValue k depth ds) (\<lambda>(kd, r2).
                case skipWs r2 of
                  [] \<Rightarrow> None
                | e # es \<Rightarrow>
                  (if e = CHR '','' then scanMembers k depth es
                   else if e = CHR ''}'' then Some es else None))))))"
| "scanElements 0 depth s = None"
| "scanElements (Suc k) depth s =
    Option.bind (scanValue k depth s) (\<lambda>(kd, r).
      case skipWs r of
        [] \<Rightarrow> None
      | e # es \<Rightarrow>
        (if e = CHR '','' then scanElements k depth es
         else if e = CHR '']'' then Some es else None))"

text \<open>A text is a JSON document of the given kind.\<close>

definition jsonKind :: "string \<Rightarrow> jkind option" where
  "jsonKind s = (case scanValue (2 * length s + 1) 0 s of
     None \<Rightarrow> None
   | Some (kd, r) \<Rightarrow> (if skipWs r = [] then Some kd else None))"

lemma jsonKind_empty_object: "jsonKind ''{}'' = Some KObject"
  by code_simp

lemma jsonKind_array: "jsonKind ''[1, {}]'' = Some KOther"
  by code_simp


end
