(* ===== verification/Products.thy ===== *)
theory Products
  imports Categories Json
begin

text \<open>
  Products (src/services/inventory/domains/catalog: product_repository.go, products_usecase.go):
  repository and usecases with metadata validation, the guard against deleting a product that has
  stock, restore, cache-aside reads and invalidation after every write.
  A price is a rational number; the column DECIMAL(15,2) rounds it to two decimals when it is
  stored. Metadata is JSON text; the column jsonb keeps its normal form.
\<close>

section \<open>Repository\<close>

record ProductCreateInput =
  pciCategoryID :: "string option"
  pciSKU :: string
  pciName :: string
  pciDescription :: "string option"
  pciUnit :: "string option"
  pciPrice :: "rat option"
  pciReorderLevel :: "int option"
  pciMetadata :: string

record ProductUpdateInput =
  puiCategoryID :: "string option"
  puiSKU :: "string option"
  puiName :: "string option"
  puiDescription :: "string option"
  puiUnit :: "string option"
  puiPrice :: "rat option"
  puiReorderLevel :: "int option"
  puiMetadata :: "string option"

record ListProductsFilter =
  pfPage :: int
  pfPerPage :: int
  pfSearch :: string
  pfSort :: string
  pfOrder :: string
  pfCategoryID :: "string option"

text \<open>DECIMAL(15,2): round half away from zero.\<close>

definition numeric2 :: "rat \<Rightarrow> rat" where
  "numeric2 x = (if x \<ge> 0 then of_int (floor (x * 100 + 1 / 2)) / 100
                 else - (of_int (floor (- x * 100 + 1 / 2)) / 100))"

definition rowToProduct :: "productRow \<Rightarrow> Product" where
  "rowToProduct m =
    \<lparr>prID = prrID m, prTenantID = prrTenantID m, prCategoryID = prrCategoryID m, prSKU = prrSKU m,
     prName = prrName m, prDescription = prrDescription m, prUnit = prrUnit m, prPrice = prrPrice m,
     prReorderLevel = prrReorderLevel m, prCurrentStock = 0,
     prMetadata = (if length (prrMetadata m) = 0 then ''{}'' else prrMetadata m),
     prCreatedAt = prrCreatedAt m, prUpdatedAt = prrUpdatedAt m, prDeletedAt = prrDeletedAt m\<rparr>"

definition prodLive :: "string \<Rightarrow> productRow \<Rightarrow> bool" where
  "prodLive tid r \<longleftrightarrow> prrTenantID r = tid \<and> prrDeletedAt r = None"

definition prodWhere :: "string \<Rightarrow> ListProductsFilter \<Rightarrow> productRow \<Rightarrow> bool" where
  "prodWhere tid f r \<longleftrightarrow> prodLive tid r
    \<and> (let s = TrimSpace (pfSearch f) in
       if s \<noteq> [] then (let p = likePattern s in
         ilike (prrName r) p \<or> ilike (prrSKU r) p \<or> ilikeOpt (prrDescription r) p)
       else True)
    \<and> (case pfCategoryID f of None \<Rightarrow> True
       | Some cid \<Rightarrow> (if TrimSpace cid \<noteq> [] then prrCategoryID r = Some (TrimSpace cid) else True))"

definition prodSortColumn :: "string \<Rightarrow> string" where
  "prodSortColumn s =
    (let k = ToLower (TrimSpace s)
     in if k = ''sku'' then ''sku''
        else if k = ''created_at'' then ''created_at''
        else if k = ''updated_at'' then ''updated_at''
        else if k = ''price'' then ''price''
        else if k = ''reorder_level'' then ''reorder_level''
        else if k = ''name'' then ''name''
        else ''name'')"

definition prodColumn :: "(string \<Rightarrow> string) \<Rightarrow> string \<Rightarrow> productRow \<Rightarrow> sqlval" where
  "prodColumn coll col r =
    (if col = ''sku'' then SText (coll (prrSKU r))
     else if col = ''created_at'' then sInt (prrCreatedAt r)
     else if col = ''updated_at'' then sInt (prrUpdatedAt r)
     else if col = ''price'' then SNum (prrPrice r)
     else if col = ''reorder_level'' then sInt (prrReorderLevel r)
     else SText (coll (prrName r)))"

text \<open>SELECT product_id, SUM(quantity) FROM stock_balances WHERE tenant_id AND product_id IN (ids)
  GROUP BY product_id.\<close>

definition stockAgg :: "string \<Rightarrow> string list \<Rightarrow> database \<Rightarrow> (string \<times> int) list" where
  "stockAgg tenantID ids d =
    (let rows = filter (\<lambda>r. sbrTenantID r = tenantID \<and> sbrProductID r \<in> set ids) (dbBalances d)
     in map (\<lambda>p. (p, sum_list (map sbrQuantity (filter (\<lambda>r. sbrProductID r = p) rows))))
          (remdups (map sbrProductID rows)))"

definition ListProductsRepo :: "string \<Rightarrow> ListProductsFilter \<Rightarrow> (Product list \<times> int) app" where
  "ListProductsRepo tenantID f w0 =
    (let col = prodSortColumn (pfSort f);
         desc = EqualFold (TrimSpace (pfOrder f)) ''desc'';
         page = (if pfPage f < 1 then 1 else pfPage f);
         per = (if pfPerPage f < 1 then 20 else pfPerPage f)
     in bindM (queryStmt Pool (\<lambda>d. countWhere (prodWhere tenantID f) (dbProducts d))) (\<lambda>cnt.
        bindM (queryStmt Pool (\<lambda>d.
          pageOf page per (orderBy desc (prodColumn (wcoll w0) col) prrID
            (filter (prodWhere tenantID f) (dbProducts d))))) (\<lambda>rows.
        let out = map rowToProduct rows in
        if length rows = 0 then ret (out, cnt)
        else
          bindM (queryStmt Pool (stockAgg tenantID (map prrID rows))) (\<lambda>stockRows.
          let stockBy = map_of (rev (map (\<lambda>(p, q). (TrimSpace p, q)) stockRows))
          in ret (map (\<lambda>p. p\<lparr>prCurrentStock := (case stockBy (TrimSpace (prID p)) of
                    None \<Rightarrow> 0 | Some q \<Rightarrow> q)\<rparr>) out, cnt))))) w0"

definition GetProductByID :: "string \<Rightarrow> string \<Rightarrow> Product app" where
  "GetProductByID tenantID i =
    bindM (orNotFound (firstStmt Pool (\<lambda>d.
      find (\<lambda>r. prrID r = TrimSpace i \<and> prodLive tenantID r) (dbProducts d)))) (\<lambda>m.
    ret (rowToProduct m))"

definition skuUniqueMsg :: string where "skuUniqueMsg = dupMsg ''uq_products_tenant_sku''"

definition skuConflict :: AppError where
  "skuConflict = withMessage ErrConflict ''sku already exists''"

text \<open>What the columns price and metadata keep of a row.\<close>

definition storeProduct :: "(string \<Rightarrow> string) \<Rightarrow> productRow \<Rightarrow> productRow" where
  "storeProduct jsonb m = m\<lparr>prrPrice := numeric2 (prrPrice m), prrMetadata := jsonb (prrMetadata m)\<rparr>"

definition insertProduct :: "productRow \<Rightarrow> database \<Rightarrow> err + unit \<times> database" where
  "insertProduct m d =
    (if list_ex (\<lambda>r. prrID r = prrID m) (dbProducts d) then Inl (Raw (dupMsg ''products_pkey''))
     else if list_ex (\<lambda>r. prrTenantID r = prrTenantID m \<and> prrSKU r = prrSKU m) (dbProducts d)
     then Inl (Raw skuUniqueMsg)
     else Inr ((), d\<lparr>dbProducts := dbProducts d @ [m]\<rparr>))"

definition CreateProductRepo :: "string \<Rightarrow> ProductCreateInput \<Rightarrow> Product app" where
  "CreateProductRepo tenantID inp w0 =
    bindM nowUTC (\<lambda>now.
    let unt = (case pciUnit inp of None \<Rightarrow> ''pcs''
          | Some s \<Rightarrow> (if TrimSpace s \<noteq> [] then TrimSpace s else ''pcs''));
        price = (case pciPrice inp of None \<Rightarrow> 0 | Some x \<Rightarrow> x);
        rl = (case pciReorderLevel inp of None \<Rightarrow> 0 | Some n \<Rightarrow> n);
        meta = (if length (pciMetadata inp) = 0 then ''{}'' else pciMetadata inp)
    in bindM newUUID (\<lambda>newID.
       let m = \<lparr>prrID = newID, prrTenantID = tenantID, prrCategoryID = pciCategoryID inp,
             prrSKU = TrimSpace (pciSKU inp), prrName = TrimSpace (pciName inp),
             prrDescription = pciDescription inp, prrUnit = unt, prrPrice = price,
             prrReorderLevel = rl, prrMetadata = meta, prrCreatedAt = now, prrUpdatedAt = now,
             prrDeletedAt = None\<rparr>
       in bindM (onDuplicate skuConflict (runStmt Pool (insertProduct (storeProduct (wjsonb w0) m)))) (\<lambda>_.
          ret (rowToProduct m)))) w0"

definition applyProdUpdate :: "(string \<Rightarrow> string) \<Rightarrow> ProductUpdateInput \<Rightarrow> int \<Rightarrow> productRow \<Rightarrow> productRow" where
  "applyProdUpdate jsonb inp now r =
    r\<lparr>prrUpdatedAt := now,
      prrSKU := (case puiSKU inp of None \<Rightarrow> prrSKU r | Some s \<Rightarrow> TrimSpace s),
      prrName := (case puiName inp of None \<Rightarrow> prrName r | Some s \<Rightarrow> TrimSpace s),
      prrDescription := (case puiDescription inp of None \<Rightarrow> prrDescription r | Some s \<Rightarrow> Some s),
      prrUnit := (case puiUnit inp of None \<Rightarrow> prrUnit r | Some s \<Rightarrow> TrimSpace s),
      prrPrice := (case puiPrice inp of None \<Rightarrow> prrPrice r | Some x \<Rightarrow> numeric2 x),
      prrReorderLevel := (case puiReorderLevel inp of None \<Rightarrow> prrReorderLevel r | Some n \<Rightarrow> n),
      prrMetadata := (case puiMetadata inp of None \<Rightarrow> prrMetadata r
         | Some m \<Rightarrow> jsonb (if length m = 0 then ''{}'' else m)),
      prrCategoryID := (case puiCategoryID inp of None \<Rightarrow> prrCategoryID r
         | Some cid \<Rightarrow> (if cid = [] then None else Some cid))\<rparr>"

definition updateProducts :: "(productRow \<Rightarrow> bool) \<Rightarrow> (productRow \<Rightarrow> productRow) \<Rightarrow> database \<Rightarrow> err + int \<times> database" where
  "updateProducts P f d =
    (let rows = updateWhere P f (dbProducts d)
     in if \<not> distinct (map (\<lambda>r. (prrTenantID r, prrSKU r)) rows) then Inl (Raw skuUniqueMsg)
        else Inr (countWhere P (dbProducts d), d\<lparr>dbProducts := rows\<rparr>))"

definition UpdateProductRepo :: "string \<Rightarrow> string \<Rightarrow> ProductUpdateInput \<Rightarrow> Product app" where
  "UpdateProductRepo tenantID i0 inp w0 =
    (let i = TrimSpace i0;
         P = (\<lambda>r. prrID r = i \<and> prodLive tenantID r)
     in bindM (orNotFound (firstStmt Pool (\<lambda>d. find P (dbProducts d)))) (\<lambda>_.
        bindM nowUTC (\<lambda>now.
        bindM (onDuplicate skuConflict
          (runStmt Pool (updateProducts P (applyProdUpdate (wjsonb w0) inp now)))) (\<lambda>_.
        bindM (firstStmt Pool (\<lambda>d. find (\<lambda>r. prrID r = i) (dbProducts d))) (\<lambda>m.
        ret (rowToProduct m)))))) w0"

definition SoftDeleteProduct :: "string \<Rightarrow> string \<Rightarrow> unit app" where
  "SoftDeleteProduct tenantID i0 =
    (let i = TrimSpace i0;
         P = (\<lambda>r. prrID r = i \<and> prodLive tenantID r)
     in bindM nowUTC (\<lambda>now.
        bindM nowUTC (\<lambda>auto.
        bindM (runStmt Pool (updateProducts P
          (\<lambda>r. r\<lparr>prrDeletedAt := Some now, prrUpdatedAt := auto\<rparr>))) (\<lambda>affected.
        if affected = 0 then throw (App ErrNotFound) else ret ()))))"

definition RestoreProductRepo :: "string \<Rightarrow> string \<Rightarrow> Product app" where
  "RestoreProductRepo tenantID i0 =
    (let i = TrimSpace i0;
         P = (\<lambda>r. prrID r = i \<and> prrTenantID r = tenantID \<and> prrDeletedAt r \<noteq> None)
     in bindM nowUTC (\<lambda>now.
        bindM (onDuplicate skuConflict (runStmt Pool (updateProducts P
          (\<lambda>r. r\<lparr>prrDeletedAt := None, prrUpdatedAt := now\<rparr>)))) (\<lambda>affected.
        if affected = 0 then throw (App ErrNotFound) else GetProductByID tenantID i)))"

definition prodHasPositiveStock :: "string \<Rightarrow> string \<Rightarrow> bool app" where
  "prodHasPositiveStock tenantID productID =
    bindM (queryStmt Pool (\<lambda>d. countWhere (\<lambda>r. sbrTenantID r = tenantID
        \<and> sbrProductID r = TrimSpace productID \<and> sbrQuantity r > 0) (dbBalances d))) (\<lambda>n.
    ret (n > 0))"

section \<open>Usecases\<close>

definition maxProductMetadataBytes :: nat where "maxProductMetadataBytes = 65536"

definition validateJSONObjectMetadata :: "string \<Rightarrow> err + unit" where
  "validateJSONObjectMetadata raw =
    (if length raw = 0 then Inr ()
     else if length raw > maxProductMetadataBytes
     then Inl (App (withMessage ErrValidationError ''metadata too large''))
     else (case jsonKind raw of
         None \<Rightarrow> Inl (App (withMessage ErrValidationError ''metadata must be valid JSON''))
       | Some KOther \<Rightarrow> Inl (App (withMessage ErrValidationError ''metadata must be a JSON object''))
       | Some KObject \<Rightarrow> Inr ()))"

definition normalizeMetadataJSON :: "string \<Rightarrow> string" where
  "normalizeMetadataJSON raw = (if length raw = 0 then ''{}'' else raw)"

definition invalidateAfterProductWrite :: "string \<Rightarrow> string \<Rightarrow> unit app" where
  "invalidateAfterProductWrite tenantID productID =
    bindM (ignoreErr (cDelete wired [KeyProduct tenantID productID])) (\<lambda>_.
    bindM (ignoreErr (cDeletePattern wired (PatternProducts tenantID))) (\<lambda>_.
    invalidateDashboard tenantID))"

text \<open>The metadata of a product is raw JSON and is embedded as such in the audit map.\<close>

definition productAuditMap :: "Product \<Rightarrow> jval" where
  "productAuditMap v = JObj [(''CategoryID'', optJ (prCategoryID v)),
     (''CreatedAt'', JTime (prCreatedAt v)), (''CurrentStock'', JInt (prCurrentStock v)),
     (''DeletedAt'', (case prDeletedAt v of None \<Rightarrow> JNull | Some t \<Rightarrow> JTime t)),
     (''Description'', optJ (prDescription v)), (''ID'', JStr (prID v)),
     (''Metadata'', JRaw (prMetadata v)), (''Name'', JStr (prName v)), (''Price'', JRat (prPrice v)),
     (''ReorderLevel'', JInt (prReorderLevel v)), (''SKU'', JStr (prSKU v)),
     (''TenantID'', JStr (prTenantID v)), (''Unit'', JStr (prUnit v)),
     (''UpdatedAt'', JTime (prUpdatedAt v))]"

record ListProductsInput =
  lpPage :: "int option"
  lpPerPage :: "int option"
  lpSearch :: "string option"
  lpSort :: "string option"
  lpOrder :: "string option"
  lpCategoryID :: "string option"

fun decProducts :: "cval \<Rightarrow> Product ListOutput option" where
  "decProducts (CVProducts x) = Some x"
| "decProducts _ = None"

fun decProduct :: "cval \<Rightarrow> Product option" where
  "decProduct (CVProduct x) = Some x"
| "decProduct _ = None"

definition ListProducts :: "ctx \<Rightarrow> ListProductsInput \<Rightarrow> Product ListOutput app" where
  "ListProducts c inp w0 =
    bindM (liftE (TenantIDFromContext c)) (\<lambda>tid.
    let (page, perPage) = pageParams (lpPage inp) (lpPerPage inp);
        search = TrimSpace (optStr (lpSearch inp));
        srt = optStr (lpSort inp);
        order = optStr (lpOrder inp);
        catFilter = trimPtr (lpCategoryID inp);
        catFP = optStr catFilter;
        fp = ProductsFP (wsha w0) page perPage search srt order catFP;
        listKey = KeyProductsList tid fp
    in readThrough wired listKey decProducts CVProducts TTLProductList
      (bindM (ListProductsRepo tid \<lparr>pfPage = page, pfPerPage = perPage, pfSearch = search,
          pfSort = srt, pfOrder = order, pfCategoryID = catFilter\<rparr>) (\<lambda>(items, cnt).
       ret \<lparr>loItems = items, loTotal = cnt, loPage = wrap32 page, loPerPage = wrap32 perPage\<rparr>))) w0"

definition GetProduct :: "ctx \<Rightarrow> string \<Rightarrow> Product app" where
  "GetProduct c productID =
    bindM (liftE (TenantIDFromContext c)) (\<lambda>tid.
    let i = TrimSpace productID
    in readThrough wired (KeyProduct tid i) decProduct CVProduct TTLProductOne (GetProductByID tid i))"

definition ensureCategory :: "string \<Rightarrow> string option \<Rightarrow> unit app" where
  "ensureCategory tenantID categoryID = (case categoryID of None \<Rightarrow> ret ()
     | Some x \<Rightarrow> (let cid = TrimSpace x in
         if cid = [] then ret () else bindM (catGetByID tenantID cid) (\<lambda>_. ret ())))"

definition negOpt :: "('a :: linordered_idom) option \<Rightarrow> bool" where
  "negOpt x = (case x of None \<Rightarrow> False | Some v \<Rightarrow> v < 0)"

definition CreateProduct :: "ctx \<Rightarrow> ProductCreateInput \<Rightarrow> Product app" where
  "CreateProduct c inp =
    bindM (liftE (TenantIDFromContext c)) (\<lambda>tid.
    let sku = TrimSpace (pciSKU inp); name = TrimSpace (pciName inp) in
    if sku = [] then validationFail ''sku is required''
    else if name = [] then validationFail ''name is required''
    else let meta = normalizeMetadataJSON (pciMetadata inp) in
      bindM (liftE (validateJSONObjectMetadata meta)) (\<lambda>_.
      if negOpt (pciReorderLevel inp) then validationFail ''reorder_level must be >= 0''
      else if negOpt (pciPrice inp) then validationFail ''price must be >= 0''
      else let catID = normalizeParentID (pciCategoryID inp) in
        bindM (ensureCategory tid catID) (\<lambda>_.
        bindM (CreateProductRepo tid \<lparr>pciCategoryID = catID, pciSKU = sku, pciName = name,
            pciDescription = pciDescription inp, pciUnit = pciUnit inp, pciPrice = pciPrice inp,
            pciReorderLevel = pciReorderLevel inp, pciMetadata = meta\<rparr>) (\<lambda>p.
        bindM (ignoreErr (auditLog c \<lparr>apAction = ''product.create'', apEntity = ''product'',
            apEntityID = prID p, apBefore = None, apAfter = Some (productAuditMap p)\<rparr>)) (\<lambda>_.
        bindM (invalidateAfterProductWrite tid (prID p)) (\<lambda>_.
        ret p))))))"

definition UpdateProduct :: "ctx \<Rightarrow> string \<Rightarrow> ProductUpdateInput \<Rightarrow> Product app" where
  "UpdateProduct c productID inp =
    bindM (liftE (TenantIDFromContext c)) (\<lambda>tid.
    let i = TrimSpace productID in
    if i = [] then validationFail ''product id is required''
    else if (case puiSKU inp of None \<Rightarrow> False | Some s \<Rightarrow> TrimSpace s = [])
    then validationFail ''sku cannot be empty''
    else if (case puiName inp of None \<Rightarrow> False | Some s \<Rightarrow> TrimSpace s = [])
    then validationFail ''name cannot be empty''
    else if negOpt (puiReorderLevel inp) then validationFail ''reorder_level must be >= 0''
    else if negOpt (puiPrice inp) then validationFail ''price must be >= 0''
    else
      bindM (case puiMetadata inp of None \<Rightarrow> ret ()
             | Some raw \<Rightarrow> liftE (validateJSONObjectMetadata (normalizeMetadataJSON raw))) (\<lambda>_.
      bindM (ensureCategory tid (puiCategoryID inp)) (\<lambda>_.
      bindM (GetProductByID tid i) (\<lambda>old.
      let repoIn = inp\<lparr>puiCategoryID := (case puiCategoryID inp of None \<Rightarrow> None
              | Some x \<Rightarrow> normalizeParentID (Some x)),
            puiMetadata := map_option normalizeMetadataJSON (puiMetadata inp)\<rparr> in
      bindM (UpdateProductRepo tid i repoIn) (\<lambda>p.
      bindM (ignoreErr (auditLog c \<lparr>apAction = ''product.update'', apEntity = ''product'',
          apEntityID = i, apBefore = Some (productAuditMap old),
          apAfter = Some (productAuditMap p)\<rparr>)) (\<lambda>_.
      bindM (invalidateAfterProductWrite tid i) (\<lambda>_.
      ret p)))))))"

definition DeleteProduct :: "ctx \<Rightarrow> string \<Rightarrow> unit app" where
  "DeleteProduct c productID =
    bindM (liftE (TenantIDFromContext c)) (\<lambda>tid.
    let i = TrimSpace productID in
    if i = [] then validationFail ''product id is required''
    else
      bindM (GetProductByID tid i) (\<lambda>old.
      bindM (prodHasPositiveStock tid i) (\<lambda>has.
      if has then throw (App (WithDetails ErrProductHasStock [(''product_id'', JStr i)]))
      else
        bindM (SoftDeleteProduct tid i) (\<lambda>_.
        bindM (ignoreErr (auditLog c \<lparr>apAction = ''product.delete'', apEntity = ''product'',
            apEntityID = i, apBefore = Some (productAuditMap old),
            apAfter = Some (JObj [(''deleted'', JBool True)])\<rparr>)) (\<lambda>_.
        invalidateAfterProductWrite tid i)))))"

definition RestoreProduct :: "ctx \<Rightarrow> string \<Rightarrow> Product app" where
  "RestoreProduct c productID =
    bindM (liftE (TenantIDFromContext c)) (\<lambda>tid.
    let i = TrimSpace productID in
    if i = [] then validationFail ''product id is required''
    else
      bindM (RestoreProductRepo tid i) (\<lambda>p.
      bindM (ignoreErr (auditLog c \<lparr>apAction = ''product.restore'', apEntity = ''product'',
          apEntityID = i, apBefore = Some (JObj [(''deleted'', JBool True), (''product_id'', JStr i)]),
          apAfter = Some (productAuditMap p)\<rparr>)) (\<lambda>_.
      bindM (invalidateAfterProductWrite tid i) (\<lambda>_.
      ret p))))"

end
