(* ===== verification/Movement_Repo.thy ===== *)
theory Movement_Repo
  imports Stock Outbox Products
begin

text \<open>
  Persistence of movements (src/services/inventory/domains/movement/repository): header and lines,
  creation with idempotent replay, reads, the filtered list and the guarded status update. The
  statements check the constraints of 0007_movements.sql: the enums, the CHECK on the warehouses of
  a movement, positive line quantities, and the uniqueness of the reference number and of the
  idempotency key within a tenant.
\<close>

section \<open>Types and statuses\<close>

definition TypeInbound :: string where "TypeInbound = ''inbound''"
definition TypeOutbound :: string where "TypeOutbound = ''outbound''"
definition TypeTransfer :: string where "TypeTransfer = ''transfer''"
definition TypeAdjustment :: string where "TypeAdjustment = ''adjustment''"
definition StatusDraft :: string where "StatusDraft = ''draft''"
definition StatusConfirmed :: string where "StatusConfirmed = ''confirmed''"
definition StatusCancelled :: string where "StatusCancelled = ''cancelled''"

lemmas type_defs = TypeInbound_def TypeOutbound_def TypeTransfer_def TypeAdjustment_def
lemmas status_defs = StatusDraft_def StatusConfirmed_def StatusCancelled_def

record MovementLineInput =
  miProductID :: string
  miQuantity :: int
  miNotes :: "string option"

record CreateMovementInput =
  cmTenantID :: string
  cmType :: string
  cmReferenceNumber :: string
  cmSourceWarehouseID :: "string option"
  cmDestinationWarehouseID :: "string option"
  cmCreatedBy :: string
  cmNotes :: "string option"
  cmIdempotencyKey :: string
  cmIdempotencyRequestHash :: string
  cmLines :: "MovementLineInput list"

record MovementListFilter =
  mfPage :: int
  mfPerPage :: int
  mfType :: "string option"
  mfStatus :: "string option"
  mfSearch :: string
  mfSort :: string
  mfOrder :: string

definition rowToLine :: "movementLineRow \<Rightarrow> MovementLine" where
  "rowToLine l = \<lparr>mlID = mlrID l, mlMovementID = mlrMovementID l, mlProductID = mlrProductID l,
     mlQuantity = mlrQuantity l, mlNotes = mlrNotes l, mlCreatedAt = mlrCreatedAt l\<rparr>"

definition rowToMovement :: "movementRow \<Rightarrow> movementLineRow list \<Rightarrow> Movement" where
  "rowToMovement m lines =
    \<lparr>mvID = mvrID m, mvTenantID = mvrTenantID m, mvType = mvrType m,
     mvReferenceNumber = mvrReferenceNumber m, mvSourceWarehouseID = mvrSourceWarehouseID m,
     mvDestinationWarehouseID = mvrDestinationWarehouseID m, mvCreatedBy = mvrCreatedBy m,
     mvStatus = mvrStatus m, mvNotes = mvrNotes m, mvIdempotencyKey = mvrIdempotencyKey m,
     mvIdempotencyRequestHash = mvrIdempotencyRequestHash m, mvLines = map rowToLine lines,
     mvCreatedAt = mvrCreatedAt m, mvUpdatedAt = mvrUpdatedAt m\<rparr>"

section \<open>Reads\<close>

definition UserBelongsToTenant :: "ctx \<Rightarrow> string \<Rightarrow> string \<Rightarrow> bool app" where
  "UserBelongsToTenant c tenantID userID =
    bindM (queryStmt (GetDB c) (\<lambda>d. countWhere (\<lambda>u. urID u = TrimSpace userID
        \<and> urTenantID u = TrimSpace tenantID) (dbUsers d))) (\<lambda>n.
    ret (n > 0))"

definition findMovement :: "string \<Rightarrow> string \<Rightarrow> database \<Rightarrow> movementRow option" where
  "findMovement tid mid d = find (\<lambda>r. mvrID r = mid \<and> mvrTenantID r = tid) (dbMovements d)"

definition linesOf :: "string \<Rightarrow> database \<Rightarrow> movementLineRow list" where
  "linesOf mid d = sort_key mlrCreatedAt (filter (\<lambda>l. mlrMovementID l = mid) (dbLines d))"

definition mvGetByID :: "ctx \<Rightarrow> string \<Rightarrow> string \<Rightarrow> Movement app" where
  "mvGetByID c tenantID movementID =
    bindM (orNotFound (firstStmt (GetDB c) (findMovement (TrimSpace tenantID) (TrimSpace movementID)))) (\<lambda>m.
    bindM (queryStmt (GetDB c) (linesOf (mvrID m))) (\<lambda>lines.
    ret (rowToMovement m lines)))"

text \<open>The same read with FOR UPDATE on the header: the row stays locked until the end of the
  transaction, which in a world of one request at a time is the read itself.\<close>

definition GetByIDForUpdate :: "ctx \<Rightarrow> string \<Rightarrow> string \<Rightarrow> Movement app" where
  "GetByIDForUpdate c tenantID movementID =
    bindM (orNotFound (firstStmt (GetDB c) (findMovement (TrimSpace tenantID) (TrimSpace movementID)))) (\<lambda>m.
    bindM (queryStmt (GetDB c) (linesOf (mvrID m))) (\<lambda>lines.
    ret (rowToMovement m lines)))"

definition GetByTenantAndIdempotencyKey :: "ctx \<Rightarrow> string \<Rightarrow> string \<Rightarrow> Movement app" where
  "GetByTenantAndIdempotencyKey c tenantID idempotencyKey =
    (let tid = TrimSpace tenantID; key = TrimSpace idempotencyKey in
     if key = [] then throw (App ErrNotFound)
     else
       bindM (orNotFound (firstStmt (GetDB c) (\<lambda>d.
         find (\<lambda>r. mvrTenantID r = tid \<and> mvrIdempotencyKey r = Some key) (dbMovements d)))) (\<lambda>row.
       mvGetByID c tid (mvrID row)))"

section \<open>Creation\<close>

definition mvIsDuplicateErr :: "err \<Rightarrow> bool" where
  "mvIsDuplicateErr e =
    (let msg = ToLower (errorText e)
     in Contains msg ''duplicate'' \<or> Contains msg ''unique'' \<or> Contains msg ''violates unique constraint'')"

definition idempotencyHashesMatch :: "string option \<Rightarrow> string \<Rightarrow> bool" where
  "idempotencyHashesMatch stored want =
    (if length want \<noteq> 64 then False
     else (case stored of
         None \<Rightarrow> False
       | Some s \<Rightarrow> (let got = TrimSpace (ToLower s) in
           if length got \<noteq> 64 then False else got = want)))"

definition movementTypes :: "string list" where
  "movementTypes = [TypeInbound, TypeOutbound, TypeTransfer, TypeAdjustment]"

definition movementStatuses :: "string list" where
  "movementStatuses = [StatusDraft, StatusConfirmed, StatusCancelled]"

text \<open>The constraint chk_movement_warehouses.\<close>

definition chkMovementWarehouses :: "string \<Rightarrow> string option \<Rightarrow> string option \<Rightarrow> bool" where
  "chkMovementWarehouses typ src dst \<longleftrightarrow>
     (typ = TypeInbound \<and> src = None \<and> dst \<noteq> None)
   \<or> (typ = TypeOutbound \<and> src \<noteq> None \<and> dst = None)
   \<or> (typ = TypeTransfer \<and> src \<noteq> None \<and> dst \<noteq> None \<and> src \<noteq> dst)
   \<or> (typ = TypeAdjustment \<and> (src \<noteq> None \<or> dst \<noteq> None))"

definition enumMsg :: string where
  "enumMsg = ''ERROR: invalid input value for enum (SQLSTATE 22P02)''"

definition tooLongMsg :: string where
  "tooLongMsg = ''ERROR: value too long for type character varying (SQLSTATE 22001)''"

definition insertMovement :: "movementRow \<Rightarrow> database \<Rightarrow> err + unit \<times> database" where
  "insertMovement m d =
    (if mvrType m \<notin> set movementTypes \<or> mvrStatus m \<notin> set movementStatuses then Inl (Raw enumMsg)
     else if length (mvrReferenceNumber m) > 100
       \<or> (case mvrIdempotencyKey m of None \<Rightarrow> False | Some k \<Rightarrow> length k > 255)
     then Inl (Raw tooLongMsg)
     else if \<not> chkMovementWarehouses (mvrType m) (mvrSourceWarehouseID m) (mvrDestinationWarehouseID m)
     then Inl (Raw (checkMsg ''chk_movement_warehouses''))
     else if list_ex (\<lambda>r. mvrID r = mvrID m) (dbMovements d) then Inl (Raw (dupMsg ''movements_pkey''))
     else if list_ex (\<lambda>r. mvrTenantID r = mvrTenantID m
         \<and> mvrReferenceNumber r = mvrReferenceNumber m) (dbMovements d)
     then Inl (Raw (dupMsg ''uq_movements_tenant_ref''))
     else if mvrIdempotencyKey m \<noteq> None \<and> list_ex (\<lambda>r. mvrTenantID r = mvrTenantID m
         \<and> mvrIdempotencyKey r = mvrIdempotencyKey m) (dbMovements d)
     then Inl (Raw (dupMsg ''uq_movements_idempotency''))
     else Inr ((), d\<lparr>dbMovements := dbMovements d @ [m]\<rparr>))"

definition insertLine :: "movementLineRow \<Rightarrow> database \<Rightarrow> err + unit \<times> database" where
  "insertLine l d =
    (if mlrQuantity l \<le> 0 then Inl (Raw (checkMsg ''movement_lines_quantity_check''))
     else if list_ex (\<lambda>r. mlrID r = mlrID l) (dbLines d) then Inl (Raw (dupMsg ''movement_lines_pkey''))
     else Inr ((), d\<lparr>dbLines := dbLines d @ [l]\<rparr>))"

definition handleCreateDuplicate :: "ctx \<Rightarrow> CreateMovementInput \<Rightarrow> string \<Rightarrow> string \<Rightarrow> (Movement \<times> bool) app" where
  "handleCreateDuplicate c inp keyTrim hashTrim =
    (let tid = TrimSpace (cmTenantID inp);
         conflict = throw (App (withMessage ErrConflict ''reference_number already exists'')) in
     if keyTrim \<noteq> [] then
       bindM (tryM (GetByTenantAndIdempotencyKey c tid keyTrim)) (\<lambda>r.
       case r of
         Inr existing \<Rightarrow>
           (if idempotencyHashesMatch (mvIdempotencyRequestHash existing) hashTrim
            then ret (existing, True)
            else throw (App ErrIdempotency))
       | Inl e \<Rightarrow> (if \<not> errorsIs e (App ErrNotFound) then throw e else conflict))
     else conflict)"

definition newMovementRow :: "string \<Rightarrow> int \<Rightarrow> CreateMovementInput \<Rightarrow> movementRow" where
  "newMovementRow mid now inp =
    (let keyTrim = TrimSpace (cmIdempotencyKey inp);
         hashTrim = TrimSpace (ToLower (cmIdempotencyRequestHash inp))
     in \<lparr>mvrID = mid, mvrTenantID = TrimSpace (cmTenantID inp), mvrType = cmType inp,
         mvrReferenceNumber = TrimSpace (cmReferenceNumber inp),
         mvrSourceWarehouseID = trimOpt (cmSourceWarehouseID inp),
         mvrDestinationWarehouseID = trimOpt (cmDestinationWarehouseID inp),
         mvrCreatedBy = TrimSpace (cmCreatedBy inp), mvrStatus = StatusDraft,
         mvrNotes = trimOpt (cmNotes inp), mvrIdempotencyKey = trimOpt (Some keyTrim),
         mvrIdempotencyRequestHash = (if hashTrim \<noteq> [] then Some hashTrim else None),
         mvrCreatedAt = now, mvrUpdatedAt = now\<rparr>)"

definition createLine :: "ctx \<Rightarrow> string \<Rightarrow> int \<Rightarrow> MovementLineInput \<Rightarrow> unit app" where
  "createLine c mid now l =
    bindM newUUID (\<lambda>lid.
    runStmt (GetDB c) (insertLine
      \<lparr>mlrID = lid, mlrMovementID = mid, mlrProductID = TrimSpace (miProductID l),
       mlrQuantity = miQuantity l, mlrNotes = trimOpt (miNotes l), mlrCreatedAt = now\<rparr>))"

text \<open>Create: insert the header, on a uniqueness error decide between replay and conflict, else
  insert the lines and read the movement back. The second result tells a replay.\<close>

definition mvCreate :: "ctx \<Rightarrow> CreateMovementInput \<Rightarrow> (Movement \<times> bool) app" where
  "mvCreate c inp =
    bindM newUUID (\<lambda>mid.
    bindM nowUTC (\<lambda>now.
    let keyTrim = TrimSpace (cmIdempotencyKey inp);
        hashTrim = TrimSpace (ToLower (cmIdempotencyRequestHash inp))
    in bindM (tryM (runStmt (GetDB c) (insertMovement (newMovementRow mid now inp)))) (\<lambda>r.
       case r of
         Inl e \<Rightarrow> (if \<not> mvIsDuplicateErr e then throw e
                   else handleCreateDuplicate c inp keyTrim hashTrim)
       | Inr _ \<Rightarrow>
           bindM (forM (cmLines inp) (createLine c mid now)) (\<lambda>_.
           bindM (mvGetByID c (cmTenantID inp) mid) (\<lambda>mv.
           ret (mv, False))))))"

section \<open>List\<close>

text \<open>The ORDER BY identifier for a sort field; type and status are quoted.\<close>

definition listSortColumnSQL :: "string \<Rightarrow> string" where
  "listSortColumnSQL name =
    (let k = TrimSpace name
     in if k = ''type'' then [CHR 0x22] @ ''type'' @ [CHR 0x22]
        else if k = ''status'' then [CHR 0x22] @ ''status'' @ [CHR 0x22]
        else name)"

text \<open>The column an identifier in ORDER BY denotes: a quoted name stands for itself, an unquoted
  one is folded to lower case. Anything else is not a column of the table.\<close>

definition sqlIdent :: "string \<Rightarrow> string" where
  "sqlIdent s = (if s \<noteq> [] \<and> hd s = CHR 0x22 then filter (\<lambda>c. c \<noteq> CHR 0x22) s else ToLower s)"

definition movementColumns :: "string list" where
  "movementColumns = [''created_at'', ''updated_at'', ''reference_number'', ''status'', ''type'']"

fun enumPos :: "string list \<Rightarrow> string \<Rightarrow> int" where
  "enumPos [] s = 0"
| "enumPos (x # xs) s = (if x = s then 0 else 1 + enumPos xs s)"

definition mvColumn :: "(string \<Rightarrow> string) \<Rightarrow> string \<Rightarrow> movementRow \<Rightarrow> sqlval" where
  "mvColumn coll col r =
    (if col = ''updated_at'' then sInt (mvrUpdatedAt r)
     else if col = ''reference_number'' then SText (coll (mvrReferenceNumber r))
     else if col = ''status'' then sInt (enumPos movementStatuses (mvrStatus r))
     else if col = ''type'' then sInt (enumPos movementTypes (mvrType r))
     else sInt (mvrCreatedAt r))"

definition mvWhere :: "string \<Rightarrow> MovementListFilter \<Rightarrow> movementRow \<Rightarrow> bool" where
  "mvWhere tid f r \<longleftrightarrow> mvrTenantID r = tid
     \<and> optCond (mfType f) (\<lambda>v. mvrType r = v)
     \<and> optCond (mfStatus f) (\<lambda>v. mvrStatus r = v)
     \<and> (let s = TrimSpace (mfSearch f) in
        if s \<noteq> [] then ilike (mvrReferenceNumber r) (likePattern s) else True)"

text \<open>A filter on an enum column with a value outside the enum is an error of the statement.\<close>

definition enumsOK :: "MovementListFilter \<Rightarrow> bool" where
  "enumsOK f \<longleftrightarrow> optCond (mfType f) (\<lambda>v. v \<in> set movementTypes)
     \<and> optCond (mfStatus f) (\<lambda>v. v \<in> set movementStatuses)"

definition mvList :: "ctx \<Rightarrow> string \<Rightarrow> MovementListFilter \<Rightarrow> (Movement list \<times> int) app" where
  "mvList c tenantID f w0 =
    (let tid = TrimSpace tenantID;
         col = (if TrimSpace (mfSort f) \<noteq> [] then TrimSpace (mfSort f) else ''created_at'');
         asc = EqualFold (TrimSpace (mfOrder f)) ''asc'';
         page = (if mfPage f < 1 then 1 else mfPage f);
         per = (if mfPerPage f < 1 then 20 else mfPerPage f);
         orderCol = listSortColumnSQL col
     in bindM (runStmt (GetDB c) (\<lambda>d. if enumsOK f
            then Inr (countWhere (mvWhere tid f) (dbMovements d), d) else Inl (Raw enumMsg))) (\<lambda>cnt.
        bindM (runStmt (GetDB c) (\<lambda>d.
          if sqlIdent orderCol \<in> set movementColumns
          then Inr (pageOf page per (orderBy (\<not> asc) (mvColumn (wcoll w0) (sqlIdent orderCol)) mvrID
            (filter (mvWhere tid f) (dbMovements d))), d)
          else Inl (Raw ''ERROR: column does not exist (SQLSTATE 42703)''))) (\<lambda>rows.
        ret (map (\<lambda>r. rowToMovement r []) rows, cnt)))) w0"

section \<open>Status update\<close>

definition setStatus :: "string \<Rightarrow> string \<Rightarrow> string \<Rightarrow> string \<Rightarrow> int \<Rightarrow> database \<Rightarrow> int \<times> database" where
  "setStatus tid mid fromStatus toStatus now d =
    (let P = (\<lambda>r. mvrID r = mid \<and> mvrTenantID r = tid \<and> mvrStatus r = fromStatus)
     in (countWhere P (dbMovements d),
         d\<lparr>dbMovements := updateWhere P (\<lambda>r. r\<lparr>mvrStatus := toStatus, mvrUpdatedAt := now\<rparr>) (dbMovements d)\<rparr>))"

definition UpdateStatus :: "ctx \<Rightarrow> string \<Rightarrow> string \<Rightarrow> string \<Rightarrow> string \<Rightarrow> unit app" where
  "UpdateStatus c tenantID movementID fromStatus toStatus =
    bindM nowUTC (\<lambda>now.
    bindM (runStmt (GetDB c) (\<lambda>d.
      Inr (setStatus (TrimSpace tenantID) (TrimSpace movementID) fromStatus toStatus now d))) (\<lambda>affected.
    if affected \<noteq> 1 then throw (App ErrMovementDraft) else ret ()))"

end
