(* ===== verification/Movement_Apply.thy ===== *)
theory Movement_Apply
  imports Movement_Repo
begin

text \<open>
  How a confirmed movement changes stock (src/services/inventory/domains/movement/usecase:
  validation.go, stock_apply.go). The operations take the stock repository as an argument, like the
  Go code takes the interface; their specification is a list of postings that is run on the
  on-hand quantities, and the refinement is proved once in the locale stock_repository.
\<close>

section \<open>Warehouses of a movement\<close>

definition validateMovementWarehouses :: "string \<Rightarrow> string option \<Rightarrow> string option \<Rightarrow> err + unit" where
  "validateMovementWarehouses movementType src dst =
    (let hasSrc = (case src of None \<Rightarrow> False | Some s \<Rightarrow> TrimSpace s \<noteq> []);
         hasDst = (case dst of None \<Rightarrow> False | Some d \<Rightarrow> TrimSpace d \<noteq> []);
         fail = (\<lambda>msg. Inl (App (withMessage ErrValidationError msg)))
     in if movementType = TypeInbound then
          (if hasSrc \<or> \<not> hasDst then fail ''inbound requires destination warehouse only'' else Inr ())
        else if movementType = TypeOutbound then
          (if \<not> hasSrc \<or> hasDst then fail ''outbound requires source warehouse only'' else Inr ())
        else if movementType = TypeTransfer then
          (if \<not> hasSrc \<or> \<not> hasDst then fail ''transfer requires source and destination warehouses''
           else if TrimSpace (the src) = TrimSpace (the dst)
           then fail ''transfer source and destination must differ'' else Inr ())
        else if movementType = TypeAdjustment then
          (if hasSrc \<and> hasDst
           then fail ''adjustment must set exactly one warehouse: source (decrease) OR destination (increase)''
           else if \<not> hasSrc \<and> \<not> hasDst
           then fail ''adjustment requires source or destination warehouse'' else Inr ())
        else fail ''unknown movement type'')"

section \<open>Applying a movement to stock\<close>

record stockQtyChange =
  sqWarehouseID :: string
  sqProductID :: string
  sqOldQty :: int
  sqNewQty :: int

definition change :: "string \<Rightarrow> string \<Rightarrow> int \<Rightarrow> int \<Rightarrow> stockQtyChange" where
  "change w p old new = \<lparr>sqWarehouseID = w, sqProductID = p, sqOldQty = old, sqNewQty = new\<rparr>"

text \<open>mapStockNotFound around a call: a missing balance is insufficient stock.\<close>

definition mapStockNotFound :: "err \<Rightarrow> err" where
  "mapStockNotFound e = (if errorsIs e (App ErrNotFound) then App ErrInsufficient else e)"

definition mapErr :: "(err \<Rightarrow> err) \<Rightarrow> 'a app \<Rightarrow> 'a app" where
  "mapErr f m = bindM (tryM m) (\<lambda>r. case r of Inl e \<Rightarrow> throw (f e) | Inr a \<Rightarrow> ret a)"

text \<open>Dereferencing a nil pointer panics.\<close>

definition deref :: "'a option \<Rightarrow> 'a app" where
  "deref p = (case p of None \<Rightarrow> throw (Panic ''invalid memory address or nil pointer dereference'')
              | Some x \<Rightarrow> ret x)"

definition inboundLine :: "ctx \<Rightarrow> stock_repo \<Rightarrow> string \<Rightarrow> string \<Rightarrow> MovementLine \<Rightarrow> stockQtyChange list app" where
  "inboundLine c stock tenantID dst l =
    bindM (srEnsureBalanceRow stock c tenantID dst (mlProductID l)) (\<lambda>sb.
    let old = sbQuantity sb in
    bindM (srApplyDelta stock c tenantID dst (mlProductID l) (mlQuantity l)) (\<lambda>_.
    ret [change dst (mlProductID l) old (wrap32 (old + mlQuantity l))]))"

definition applyInbound :: "ctx \<Rightarrow> stock_repo \<Rightarrow> string \<Rightarrow> Movement \<Rightarrow> stockQtyChange list app" where
  "applyInbound c stock tenantID mv =
    bindM (deref (mvDestinationWarehouseID mv)) (\<lambda>dst.
    collectM (mvLines mv) (inboundLine c stock tenantID dst))"

definition outboundLine :: "ctx \<Rightarrow> stock_repo \<Rightarrow> string \<Rightarrow> string \<Rightarrow> MovementLine \<Rightarrow> stockQtyChange list app" where
  "outboundLine c stock tenantID src l =
    bindM (mapErr mapStockNotFound (srGetForUpdate stock c tenantID src (mlProductID l))) (\<lambda>b.
    let old = sbQuantity b in
    bindM (srApplyDelta stock c tenantID src (mlProductID l) (- mlQuantity l)) (\<lambda>_.
    ret [change src (mlProductID l) old (wrap32 (old - mlQuantity l))]))"

definition applyOutbound :: "ctx \<Rightarrow> stock_repo \<Rightarrow> string \<Rightarrow> Movement \<Rightarrow> stockQtyChange list app" where
  "applyOutbound c stock tenantID mv =
    bindM (deref (mvSourceWarehouseID mv)) (\<lambda>src.
    collectM (mvLines mv) (outboundLine c stock tenantID src))"

definition transferLine :: "ctx \<Rightarrow> stock_repo \<Rightarrow> string \<Rightarrow> string \<Rightarrow> string \<Rightarrow> MovementLine \<Rightarrow> stockQtyChange list app" where
  "transferLine c stock tenantID src dst l =
    bindM (srEnsureBalanceRow stock c tenantID dst (mlProductID l)) (\<lambda>_.
    bindM (mapErr mapStockNotFound
        (srTransferDelta stock c tenantID src dst (mlProductID l) (mlQuantity l))) (\<lambda>_.
    bindM (mapErr mapStockNotFound (srGetForUpdate stock c tenantID src (mlProductID l))) (\<lambda>sbSrc.
    bindM (srGetForUpdate stock c tenantID dst (mlProductID l)) (\<lambda>sbDst.
    let newS = sbQuantity sbSrc; newD = sbQuantity sbDst;
        oldS = wrap32 (newS + mlQuantity l);
        oldD = wrap32 (newD - mlQuantity l)
    in ret [change src (mlProductID l) oldS newS, change dst (mlProductID l) oldD newD]))))"

definition applyTransfer :: "ctx \<Rightarrow> stock_repo \<Rightarrow> string \<Rightarrow> Movement \<Rightarrow> stockQtyChange list app" where
  "applyTransfer c stock tenantID mv =
    bindM (deref (mvSourceWarehouseID mv)) (\<lambda>src.
    bindM (deref (mvDestinationWarehouseID mv)) (\<lambda>dst.
    collectM (mvLines mv) (transferLine c stock tenantID src dst)))"

text \<open>The decreasing branch of an adjustment translates ErrNotFound of the update as well.\<close>

definition decreaseLine :: "ctx \<Rightarrow> stock_repo \<Rightarrow> string \<Rightarrow> string \<Rightarrow> MovementLine \<Rightarrow> stockQtyChange list app" where
  "decreaseLine c stock tenantID src l =
    bindM (mapErr mapStockNotFound (srGetForUpdate stock c tenantID src (mlProductID l))) (\<lambda>b.
    let old = sbQuantity b in
    bindM (mapErr mapStockNotFound
        (srApplyDelta stock c tenantID src (mlProductID l) (- mlQuantity l))) (\<lambda>_.
    ret [change src (mlProductID l) old (wrap32 (old - mlQuantity l))]))"

definition applyAdjustment :: "ctx \<Rightarrow> stock_repo \<Rightarrow> string \<Rightarrow> Movement \<Rightarrow> stockQtyChange list app" where
  "applyAdjustment c stock tenantID mv =
    (if mvDestinationWarehouseID mv \<noteq> None \<and> mvSourceWarehouseID mv = None then
       bindM (deref (mvDestinationWarehouseID mv)) (\<lambda>dst.
       collectM (mvLines mv) (inboundLine c stock tenantID dst))
     else
       bindM (deref (mvSourceWarehouseID mv)) (\<lambda>src.
       collectM (mvLines mv) (decreaseLine c stock tenantID src)))"

definition applyStock :: "ctx \<Rightarrow> stock_repo \<Rightarrow> string \<Rightarrow> Movement \<Rightarrow> stockQtyChange list app" where
  "applyStock c stock tenantID mv =
    (if mvType mv = TypeInbound then applyInbound c stock tenantID mv
     else if mvType mv = TypeOutbound then applyOutbound c stock tenantID mv
     else if mvType mv = TypeTransfer then applyTransfer c stock tenantID mv
     else if mvType mv = TypeAdjustment then applyAdjustment c stock tenantID mv
     else throw (App (withMessage ErrValidationError ''unsupported movement type'')))"

section \<open>Specification: postings\<close>

text \<open>A posting adds a signed quantity at a warehouse. A movement is a list of postings, two per
  line for a transfer.\<close>

type_synonym posting = "string \<times> string \<times> int"

definition linePostings :: "Movement \<Rightarrow> MovementLine \<Rightarrow> posting list" where
  "linePostings mv l =
    (let p = mlProductID l; n = mlQuantity l;
         src = the (mvSourceWarehouseID mv); dst = the (mvDestinationWarehouseID mv)
     in if mvType mv = TypeInbound then [(dst, p, n)]
        else if mvType mv = TypeOutbound then [(src, p, - n)]
        else if mvType mv = TypeTransfer then [(src, p, - n), (dst, p, n)]
        else if mvDestinationWarehouseID mv \<noteq> None \<and> mvSourceWarehouseID mv = None then [(dst, p, n)]
        else [(src, p, - n)])"

definition postings :: "Movement \<Rightarrow> posting list" where
  "postings mv = concat (map (linePostings mv) (mvLines mv))"

text \<open>Running postings on the quantities on hand, with the change each of them makes.\<close>

fun runPostings :: "string \<Rightarrow> posting list \<Rightarrow> (skey \<Rightarrow> int) \<Rightarrow> (skey \<Rightarrow> int) \<times> stockQtyChange list" where
  "runPostings t [] q = (q, [])"
| "runPostings t ((w, p, n) # ps) q =
    (let k = trimKey t w p;
         (q', chs) = runPostings t ps (q(k := q k + n))
     in (q', change w p (q k) (q k + n) # chs))"

lemma runPostings_append:
  "runPostings t (ps @ qs) q =
    (let (q1, c1) = runPostings t ps q; (q2, c2) = runPostings t qs q1 in (q2, c1 @ c2))"
proof (induction ps arbitrary: q)
  case (Cons a ps)
  then show ?case by (cases a) (simp add: Let_def split: prod.splits)
qed simp

text \<open>The net effect at a key is the sum of the postings to it.\<close>

definition netAt :: "string \<Rightarrow> skey \<Rightarrow> posting list \<Rightarrow> int" where
  "netAt t k ps = sum_list (map (\<lambda>(w, p, n). if trimKey t w p = k then n else 0) ps)"

lemma runPostings_net: "fst (runPostings t ps q) k = q k + netAt t k ps"
proof (induction ps arbitrary: q)
  case (Cons a ps)
  obtain w p n where a: "a = (w, p, n)" by (cases a)
  obtain q1 cs where r: "runPostings t ps (q(trimKey t w p := q (trimKey t w p) + n)) = (q1, cs)"
    by fastforce
  show ?case using Cons [of "q(trimKey t w p := q (trimKey t w p) + n)", unfolded r]
    unfolding a runPostings.simps Let_def r by (simp add: netAt_def)
qed (simp add: netAt_def)

text \<open>Every reported change is consistent with the quantities: it starts from what the postings
  before it left.\<close>

lemma runPostings_length: "length (snd (runPostings t ps q)) = length ps"
proof (induction ps arbitrary: q)
  case (Cons a ps)
  obtain w p n where a: "a = (w, p, n)" by (cases a)
  obtain q1 cs where r: "runPostings t ps (q(trimKey t w p := q (trimKey t w p) + n)) = (q1, cs)"
    by fastforce
  show ?case using Cons [of "q(trimKey t w p := q (trimKey t w p) + n)", unfolded r]
    unfolding a runPostings.simps Let_def r by simp
qed simp

text \<open>Postings are feasible if each keeps the quantity within the column.\<close>

fun feasible :: "string \<Rightarrow> posting list \<Rightarrow> (skey \<Rightarrow> int) \<Rightarrow> bool" where
  "feasible t [] q = True"
| "feasible t ((w, p, n) # ps) q =
    (let k = trimKey t w p; q' = q k + n
     in 0 \<le> q' \<and> q' \<le> MaxInt32 \<and> feasible t ps (q(k := q')))"

lemma feasible_append:
  "feasible t (ps @ qs) q \<longleftrightarrow> feasible t ps q \<and> feasible t qs (fst (runPostings t ps q))"
proof (induction ps arbitrary: q)
  case (Cons a ps)
  obtain w p n where a: "a = (w, p, n)" by (cases a)
  obtain q1 cs where r: "runPostings t ps (q(trimKey t w p := q (trimKey t w p) + n)) = (q1, cs)"
    by fastforce
  show ?case using Cons [of "q(trimKey t w p := q (trimKey t w p) + n)", unfolded r]
    unfolding a append_Cons feasible.simps runPostings.simps Let_def r prod.case fst_conv by blast
qed simp

text \<open>Lines as the table keeps them: positive int32 quantities; a transfer names two warehouses.\<close>

definition movementOK :: "Movement \<Rightarrow> bool" where
  "movementOK mv \<longleftrightarrow> (\<forall>l \<in> set (mvLines mv). 0 < mlQuantity l \<and> mlQuantity l \<le> MaxInt32)
     \<and> chkMovementWarehouses (mvType mv) (mvSourceWarehouseID mv) (mvDestinationWarehouseID mv)
     \<and> (mvType mv = TypeTransfer \<longrightarrow>
          TrimSpace (the (mvSourceWarehouseID mv)) \<noteq> TrimSpace (the (mvDestinationWarehouseID mv)))"

section \<open>Refinement\<close>

lemma mapErr_Inr [simp]: "mapErr f m w = (Inr a, w') \<longleftrightarrow> m w = (Inr a, w')"
proof
  assume "mapErr f m w = (Inr a, w')"
  then obtain r w1 where r: "tryM m w = (Inr r, w1)"
    and c: "(case r of Inl e \<Rightarrow> throw (f e) | Inr a \<Rightarrow> ret a) w1 = (Inr a, w')"
    by (auto simp: mapErr_def bindM_Inr)
  then show "m w = (Inr a, w')" by (cases r) (auto simp: tryM_Inr_Inr)
next
  assume "m w = (Inr a, w')"
  then have "tryM m w = (Inr (Inr a), w')" by (simp add: tryM_Inr_Inr)
  then show "mapErr f m w = (Inr a, w')" by (simp add: mapErr_def bindM_run ret_run)
qed

lemma keeps_mapErr: "effect R \<Longrightarrow> keeps R m \<Longrightarrow> keeps R (mapErr f m)"
  unfolding mapErr_def
  by (intro effect.keeps_bind effect.keeps_try effect.keeps_sum effect.keeps_throw effect.keeps_ret)

lemma deref_Inr [simp]: "deref p w = (Inr a, w') \<longleftrightarrow> p = Some a \<and> w' = w"
  by (auto simp: deref_def split: option.splits)

lemma int32_pos: "0 < n \<Longrightarrow> n \<le> MaxInt32 \<Longrightarrow> is_int32 n" "0 < n \<Longrightarrow> n \<le> MaxInt32 \<Longrightarrow> is_int32 (- n)"
  by (simp_all add: is_int32_def MaxInt32_def)

lemma int32_qty: "0 \<le> q \<Longrightarrow> q \<le> MaxInt32 \<Longrightarrow> wrap32 q = q"
  by (simp add: is_int32_def MaxInt32_def)

context stock_repository
begin

lemma inboundLine_ok:
  assumes "inv c w" "0 < mlQuantity l" "mlQuantity l \<le> MaxInt32"
    and "inboundLine c repo t dst l w = (Inr chs, w')"
  shows "inv c w' \<and> runPostings t [(dst, mlProductID l, mlQuantity l)] (onHand c w) = (onHand c w', chs)
    \<and> feasible t [(dst, mlProductID l, mlQuantity l)] (onHand c w)"
proof -
  let ?p = "mlProductID l" and ?n = "mlQuantity l"
  from assms(4) obtain sb w1 where e: "srEnsureBalanceRow repo c t dst ?p w = (Inr sb, w1)"
    and a: "srApplyDelta repo c t dst ?p ?n w1 = (Inr (), w')"
    and chs: "chs = [change dst ?p (sbQuantity sb) (wrap32 (sbQuantity sb + ?n))]"
    by (auto simp: inboundLine_def bindM_Inr Let_def)
  note e1 = ensure_onHand [OF assms(1) e]
  note a1 = apply_onHand [OF e1(1) int32_pos(1) [OF assms(2,3)] a]
  show ?thesis using a1 e1 chs int32_qty [of "sbQuantity sb + ?n"] by (simp add: Let_def)
qed

lemma decrease_ok:
  assumes "inv c w" "0 < n" "n \<le> MaxInt32"
    and "srGetForUpdate repo c t src p w = (Inr b, w1)"
    and "srApplyDelta repo c t src p (- n) w1 = (Inr u, w')"
  shows "inv c w' \<and> runPostings t [(src, p, - n)] (onHand c w)
      = (onHand c w', [change src p (sbQuantity b) (wrap32 (sbQuantity b - n))])
    \<and> feasible t [(src, p, - n)] (onHand c w)"
proof -
  note g = get_onHand [OF assms(1,4)]
  note a = apply_onHand [OF g(1) int32_pos(2) [OF assms(2,3)] assms(5)]
  show ?thesis using a g int32_qty [of "sbQuantity b - n"] by (simp add: Let_def)
qed

lemma outboundLine_ok:
  assumes "inv c w" "0 < mlQuantity l" "mlQuantity l \<le> MaxInt32"
    and "outboundLine c repo t src l w = (Inr chs, w')"
  shows "inv c w' \<and> runPostings t [(src, mlProductID l, - mlQuantity l)] (onHand c w) = (onHand c w', chs)
    \<and> feasible t [(src, mlProductID l, - mlQuantity l)] (onHand c w)"
  using assms(4) decrease_ok [OF assms(1-3)]
  by (auto simp: outboundLine_def bindM_Inr Let_def)

lemma decreaseLine_ok:
  assumes "inv c w" "0 < mlQuantity l" "mlQuantity l \<le> MaxInt32"
    and "decreaseLine c repo t src l w = (Inr chs, w')"
  shows "inv c w' \<and> runPostings t [(src, mlProductID l, - mlQuantity l)] (onHand c w) = (onHand c w', chs)
    \<and> feasible t [(src, mlProductID l, - mlQuantity l)] (onHand c w)"
  using assms(4) decrease_ok [OF assms(1-3)]
  by (auto simp: decreaseLine_def bindM_Inr Let_def)

lemma transferLine_ok:
  assumes "inv c w" "0 < mlQuantity l" "mlQuantity l \<le> MaxInt32" "TrimSpace src \<noteq> TrimSpace dst"
    and "transferLine c repo t src dst l w = (Inr chs, w')"
  shows "inv c w' \<and> runPostings t [(src, mlProductID l, - mlQuantity l), (dst, mlProductID l, mlQuantity l)]
      (onHand c w) = (onHand c w', chs)
    \<and> feasible t [(src, mlProductID l, - mlQuantity l), (dst, mlProductID l, mlQuantity l)] (onHand c w)"
proof -
  let ?p = "mlProductID l" and ?n = "mlQuantity l"
  from assms(5) obtain sb w1 w2 sbS w3 sbD where
    e: "srEnsureBalanceRow repo c t dst ?p w = (Inr sb, w1)"
    and tr: "srTransferDelta repo c t src dst ?p ?n w1 = (Inr (), w2)"
    and gs: "srGetForUpdate repo c t src ?p w2 = (Inr sbS, w3)"
    and gd: "srGetForUpdate repo c t dst ?p w3 = (Inr sbD, w')"
    and chs: "chs = [change src ?p (wrap32 (sbQuantity sbS + ?n)) (sbQuantity sbS),
                     change dst ?p (wrap32 (sbQuantity sbD - ?n)) (sbQuantity sbD)]"
    by (auto simp: transferLine_def bindM_Inr Let_def)
  note e1 = ensure_onHand [OF assms(1) e]
  note t1 = transfer_onHand [OF e1(1) int32_pos(1) [OF assms(2,3)] assms(4) tr]
  note s1 = get_onHand [OF t1(1) gs]
  note d1 = get_onHand [OF s1(1) gd]
  have ne: "trimKey t src ?p \<noteq> trimKey t dst ?p" using assms(4) by (simp add: trimKey_def)
  have qs: "sbQuantity sbS = onHand c w (trimKey t src ?p) - ?n"
    using s1(3) t1(3) e1(2) ne by simp
  have qd: "sbQuantity sbD = onHand c w (trimKey t dst ?p) + ?n"
    using d1(3) s1(2) t1(3) e1(2) ne by simp
  have ws: "wrap32 (sbQuantity sbS + ?n) = onHand c w (trimKey t src ?p)"
    "wrap32 (sbQuantity sbD - ?n) = onHand c w (trimKey t dst ?p)"
    using onHand_range [OF assms(1)] qs qd by (simp_all add: int32_qty)
  have w': "onHand c w' = (onHand c w)(trimKey t src ?p := onHand c w (trimKey t src ?p) - ?n,
        trimKey t dst ?p := onHand c w (trimKey t dst ?p) + ?n)"
    using d1(2) s1(2) t1(3) e1(2) by simp
  have "0 \<le> sbQuantity sbS" "sbQuantity sbS \<le> MaxInt32" "0 \<le> sbQuantity sbD" "sbQuantity sbD \<le> MaxInt32"
    using onHand_range [OF t1(1)] s1(3) d1(3) s1(2) by metis+
  then show ?thesis using d1(1) ws qs qd w' ne chs by (simp add: Let_def)
qed

lemma collectM_postings:
  assumes "\<And>w chs w' l. inv c w \<Longrightarrow> l \<in> set lns \<Longrightarrow> f l w = (Inr chs, w') \<Longrightarrow>
      inv c w' \<and> runPostings t (g l) (onHand c w) = (onHand c w', chs) \<and> feasible t (g l) (onHand c w)"
    and "inv c w" "collectM lns f w = (Inr chs, w')"
  shows "inv c w' \<and> runPostings t (concat (map g lns)) (onHand c w) = (onHand c w', chs)
    \<and> feasible t (concat (map g lns)) (onHand c w)"
  using assms
proof (induction lns arbitrary: w chs)
  case (Cons l lns)
  from Cons.prems(3) obtain c1 w1 c2 where f: "f l w = (Inr c1, w1)"
    and r: "collectM lns f w1 = (Inr c2, w')" and chs: "chs = c1 @ c2"
    by (auto simp: bindM_Inr)
  have 1: "inv c w1 \<and> runPostings t (g l) (onHand c w) = (onHand c w1, c1) \<and> feasible t (g l) (onHand c w)"
    by (rule Cons.prems(1) [OF Cons.prems(2) _ f]) simp
  have 2: "inv c w' \<and> runPostings t (concat (map g lns)) (onHand c w1) = (onHand c w', c2)
    \<and> feasible t (concat (map g lns)) (onHand c w1)"
    using Cons.prems(1) 1 r by (intro Cons.IH) auto
  show ?case using 1 2 chs by (simp add: runPostings_append feasible_append)
qed simp

text \<open>The refinement: a successful applyStock runs exactly the postings of the movement, and what it
  reports is what they changed; they were feasible.\<close>

theorem applyStock_refines:
  assumes "inv c w" "movementOK mv" "applyStock c repo t mv w = (Inr chs, w')"
  shows "inv c w' \<and> runPostings t (postings mv) (onHand c w) = (onHand c w', chs)
    \<and> feasible t (postings mv) (onHand c w)"
proof -
  have q: "0 < mlQuantity l" "mlQuantity l \<le> MaxInt32" if "l \<in> set (mvLines mv)" for l
    using assms(2) that by (auto simp: movementOK_def)
  have chk: "chkMovementWarehouses (mvType mv) (mvSourceWarehouseID mv) (mvDestinationWarehouseID mv)"
    using assms(2) by (simp add: movementOK_def)
  have ap: "applyStock c repo t mv w = (Inr chs, w')" by fact
  show ?thesis unfolding postings_def
  proof (rule collectM_postings [OF _ assms(1)])
    let ?f = "\<lambda>l. if mvType mv = TypeInbound then inboundLine c repo t (the (mvDestinationWarehouseID mv)) l
      else if mvType mv = TypeOutbound then outboundLine c repo t (the (mvSourceWarehouseID mv)) l
      else if mvType mv = TypeTransfer then
        transferLine c repo t (the (mvSourceWarehouseID mv)) (the (mvDestinationWarehouseID mv)) l
      else if mvDestinationWarehouseID mv \<noteq> None \<and> mvSourceWarehouseID mv = None
      then inboundLine c repo t (the (mvDestinationWarehouseID mv)) l
      else decreaseLine c repo t (the (mvSourceWarehouseID mv)) l"
    show "collectM (mvLines mv) ?f w = (Inr chs, w')"
      using ap
      by (auto simp: applyStock_def applyInbound_def applyOutbound_def applyTransfer_def
          applyAdjustment_def bindM_Inr type_defs split: if_splits)
    show "inv c w' \<and> runPostings t (linePostings mv l) (onHand c w) = (onHand c w', chs)
        \<and> feasible t (linePostings mv l) (onHand c w)"
      if i: "inv c w" and l: "l \<in> set (mvLines mv)" and f: "?f l w = (Inr chs, w')" for w chs w' l
    proof -
      consider (inb) "mvType mv = TypeInbound"
        | (outb) "mvType mv \<noteq> TypeInbound" "mvType mv = TypeOutbound"
        | (tra) "mvType mv \<noteq> TypeInbound" "mvType mv \<noteq> TypeOutbound" "mvType mv = TypeTransfer"
        | (up) "mvType mv \<noteq> TypeInbound" "mvType mv \<noteq> TypeOutbound" "mvType mv \<noteq> TypeTransfer"
            "mvDestinationWarehouseID mv \<noteq> None \<and> mvSourceWarehouseID mv = None"
        | (down) "mvType mv \<noteq> TypeInbound" "mvType mv \<noteq> TypeOutbound" "mvType mv \<noteq> TypeTransfer"
            "\<not> (mvDestinationWarehouseID mv \<noteq> None \<and> mvSourceWarehouseID mv = None)"
        by blast
      then show ?thesis
      proof cases
        case inb
        with f have "inboundLine c repo t (the (mvDestinationWarehouseID mv)) l w = (Inr chs, w')" by simp
        from inboundLine_ok [OF i q [OF l] this] inb show ?thesis by (simp add: linePostings_def Let_def)
      next
        case outb
        with f have "outboundLine c repo t (the (mvSourceWarehouseID mv)) l w = (Inr chs, w')" by simp
        from outboundLine_ok [OF i q [OF l] this] outb show ?thesis by (simp add: linePostings_def Let_def)
      next
        case tra
        with f have f': "transferLine c repo t (the (mvSourceWarehouseID mv)) (the (mvDestinationWarehouseID mv)) l w
          = (Inr chs, w')" by simp
        have "TrimSpace (the (mvSourceWarehouseID mv)) \<noteq> TrimSpace (the (mvDestinationWarehouseID mv))"
          using tra assms(2) by (simp add: movementOK_def)
        from transferLine_ok [OF i q [OF l] this f'] tra show ?thesis by (simp add: linePostings_def Let_def)
      next
        case up
        with f have "inboundLine c repo t (the (mvDestinationWarehouseID mv)) l w = (Inr chs, w')" by simp
        from inboundLine_ok [OF i q [OF l] this] up show ?thesis by (simp add: linePostings_def Let_def)
      next
        case down
        then have "decreaseLine c repo t (the (mvSourceWarehouseID mv)) l w = (Inr chs, w')"
          using f by (simp only: if_False simp_thms)
        from decreaseLine_ok [OF i q [OF l] this] down show ?thesis
          by (simp only: linePostings_def Let_def if_False simp_thms)
      qed
    qed
  qed
qed

end

end
