(* ===== verification/Movement.thy ===== *)
theory Movement
  imports Movement_Apply
begin

text \<open>
  The movement usecases (src/services/inventory/domains/movement/usecase: usecase.go, emit.go,
  audit_snapshots.go, outbox_events.go) and the publisher of stock changes
  (src/pkg/realtime/stockpub). Creation and cancellation run without a transaction; confirmation
  locks the movement, checks it, applies it to stock, updates its status, writes the audit row and
  the outbox events in one transaction, and invalidates caches and publishes after the commit.
\<close>

section \<open>Inputs\<close>

record LineInput =
  liProductID :: string
  liQuantity :: int
  liNotes :: "string option"

record CreateMovementBase =
  cbReferenceNumber :: string
  cbNotes :: "string option"
  cbLines :: "LineInput list"
  cbIdempotencyKey :: string
  cbRequestHashSHA256Hex :: string

section \<open>Creating drafts\<close>

definition isHexLower :: "char \<Rightarrow> bool" where
  "isHexLower c \<longleftrightarrow> (CHR ''0'' \<le> c \<and> c \<le> CHR ''9'') \<or> (CHR ''a'' \<le> c \<and> c \<le> CHR ''f'')"

definition validateIdempotencyCreate :: "CreateMovementBase \<Rightarrow> err + unit" where
  "validateIdempotencyCreate inp =
    (let key = TrimSpace (cbIdempotencyKey inp);
         hash = TrimSpace (ToLower (cbRequestHashSHA256Hex inp));
         fail = (\<lambda>msg. Inl (App (withMessage ErrValidationError msg)))
     in if key = [] then fail ''Idempotency-Key header is required''
        else if length key > 255 then fail ''Idempotency-Key exceeds 255 characters''
        else if length hash \<noteq> 64 then fail ''invalid request body fingerprint''
        else if list_all isHexLower hash then Inr ()
        else fail ''invalid request body fingerprint'')"

definition checkWarehouse :: "ctx \<Rightarrow> string \<Rightarrow> unit app" where
  "checkWarehouse c i =
    bindM (GetWarehouse c i) (\<lambda>w.
    if \<not> whIsActive w \<or> whDeletedAt w \<noteq> None then validationFail ''warehouse is inactive or deleted''
    else ret ())"

definition validateWarehousesActive :: "ctx \<Rightarrow> string option \<Rightarrow> string option \<Rightarrow> unit app" where
  "validateWarehousesActive c src dst =
    bindM (case src of None \<Rightarrow> ret () | Some s \<Rightarrow> checkWarehouse c (TrimSpace s)) (\<lambda>_.
    case dst of None \<Rightarrow> ret () | Some d \<Rightarrow> checkWarehouse c (TrimSpace d))"

definition checkLine :: "ctx \<Rightarrow> LineInput \<Rightarrow> unit app" where
  "checkLine c l =
    (if TrimSpace (liProductID l) = [] \<or> liQuantity l \<le> 0
     then validationFail ''each line requires product_id and quantity > 0''
     else bindM (GetProduct c (TrimSpace (liProductID l))) (\<lambda>_. ret ()))"

text \<open>The map is listed in key order, the order of its JSON.\<close>

definition movementCreateAuditSnapshot :: "Movement \<Rightarrow> jval" where
  "movementCreateAuditSnapshot m = JObj
    ((case mvDestinationWarehouseID m of None \<Rightarrow> [] | Some d \<Rightarrow> [(''destination_warehouse_id'', JStr d)])
     @ [(''line_count'', JInt (int (length (mvLines m)))), (''movement_id'', JStr (mvID m)),
        (''reference_number'', JStr (mvReferenceNumber m))]
     @ (case mvSourceWarehouseID m of None \<Rightarrow> [] | Some s \<Rightarrow> [(''source_warehouse_id'', JStr s)])
     @ [(''status'', JStr (mvStatus m)), (''type'', JStr (mvType m))])"

definition createInput :: "string \<Rightarrow> string \<Rightarrow> string \<Rightarrow> CreateMovementBase \<Rightarrow> string option \<Rightarrow> string option \<Rightarrow> CreateMovementInput" where
  "createInput tenantID userID typ inp src dst =
    \<lparr>cmTenantID = tenantID, cmType = typ, cmReferenceNumber = TrimSpace (cbReferenceNumber inp),
     cmSourceWarehouseID = src, cmDestinationWarehouseID = dst, cmCreatedBy = userID,
     cmNotes = trimOpt (cbNotes inp), cmIdempotencyKey = TrimSpace (cbIdempotencyKey inp),
     cmIdempotencyRequestHash = TrimSpace (ToLower (cbRequestHashSHA256Hex inp)),
     cmLines = map (\<lambda>l. \<lparr>miProductID = TrimSpace (liProductID l), miQuantity = liQuantity l,
       miNotes = trimOpt (liNotes l)\<rparr>) (cbLines inp)\<rparr>"

definition createDraft :: "ctx \<Rightarrow> string \<Rightarrow> string \<Rightarrow> string \<Rightarrow> CreateMovementBase \<Rightarrow> string option \<Rightarrow> string option \<Rightarrow> Movement app" where
  "createDraft c tenantID userID typ inp src dst =
    bindM (liftE (validateIdempotencyCreate inp)) (\<lambda>_.
    bindM (liftE (validateMovementWarehouses typ src dst)) (\<lambda>_.
    let ref = TrimSpace (cbReferenceNumber inp) in
    if ref = [] then validationFail ''reference_number is required''
    else if length (cbLines inp) = 0 then validationFail ''at least one line is required''
    else
      bindM (UserBelongsToTenant c tenantID userID) (\<lambda>ok.
      if \<not> ok then throw (App (withMessage ErrForbidden ''user does not belong to tenant''))
      else
        bindM (validateWarehousesActive c src dst) (\<lambda>_.
        bindM (forM (cbLines inp) (checkLine c)) (\<lambda>_.
        bindM (mvCreate c (createInput tenantID userID typ inp src dst)) (\<lambda>(mv, replay).
        bindM (if \<not> replay then
                 ignoreErr (auditLog c \<lparr>apAction = ''movement.create'', apEntity = ''movement'',
                   apEntityID = mvID mv, apBefore = None,
                   apAfter = Some (movementCreateAuditSnapshot mv)\<rparr>)
               else ret ()) (\<lambda>_.
        ret mv)))))))"

definition CreateInbound :: "ctx \<Rightarrow> string \<Rightarrow> CreateMovementBase \<Rightarrow> Movement app" where
  "CreateInbound c destWarehouseID inp =
    bindM (liftE (TenantIDFromContext c)) (\<lambda>tid.
    bindM (liftE (SubjectFromContext c)) (\<lambda>userID.
    createDraft c tid userID TypeInbound inp None (Some (TrimSpace destWarehouseID))))"

definition CreateOutbound :: "ctx \<Rightarrow> string \<Rightarrow> CreateMovementBase \<Rightarrow> Movement app" where
  "CreateOutbound c sourceWarehouseID inp =
    bindM (liftE (TenantIDFromContext c)) (\<lambda>tid.
    bindM (liftE (SubjectFromContext c)) (\<lambda>userID.
    createDraft c tid userID TypeOutbound inp (Some (TrimSpace sourceWarehouseID)) None))"

definition CreateTransfer :: "ctx \<Rightarrow> string \<Rightarrow> string \<Rightarrow> CreateMovementBase \<Rightarrow> Movement app" where
  "CreateTransfer c sourceWarehouseID destWarehouseID inp =
    bindM (liftE (TenantIDFromContext c)) (\<lambda>tid.
    bindM (liftE (SubjectFromContext c)) (\<lambda>userID.
    createDraft c tid userID TypeTransfer inp (Some (TrimSpace sourceWarehouseID))
      (Some (TrimSpace destWarehouseID))))"

definition CreateAdjustment :: "ctx \<Rightarrow> string option \<Rightarrow> string option \<Rightarrow> CreateMovementBase \<Rightarrow> Movement app" where
  "CreateAdjustment c sourceWarehouseID destWarehouseID inp =
    bindM (liftE (TenantIDFromContext c)) (\<lambda>tid.
    bindM (liftE (SubjectFromContext c)) (\<lambda>userID.
    createDraft c tid userID TypeAdjustment inp (trimOpt sourceWarehouseID) (trimOpt destWarehouseID)))"

section \<open>Reading and cancelling\<close>

record ListMovementsInput =
  lmPage :: "int option"
  lmPerPage :: "int option"
  lmType :: "string option"
  lmStatus :: "string option"
  lmSearch :: "string option"
  lmSort :: "string option"
  lmOrder :: "string option"

definition GetMovement :: "ctx \<Rightarrow> string \<Rightarrow> Movement app" where
  "GetMovement c movementID =
    bindM (liftE (TenantIDFromContext c)) (\<lambda>tid. mvGetByID c tid (TrimSpace movementID))"

definition listSortColumn :: "string \<Rightarrow> string" where
  "listSortColumn s =
    (if ToLower s \<in> set [''created_at'', ''updated_at'', ''reference_number'', ''status'', ''type'']
     then s else ''created_at'')"

definition ListMovements :: "ctx \<Rightarrow> ListMovementsInput \<Rightarrow> Movement ListOutput app" where
  "ListMovements c inp =
    bindM (liftE (TenantIDFromContext c)) (\<lambda>tid.
    let (page, per) = pageParams (lmPage inp) (lmPerPage inp);
        search = TrimSpace (optStr (lmSearch inp));
        srt = (case lmSort inp of None \<Rightarrow> ''created_at''
          | Some s \<Rightarrow> (if TrimSpace s \<noteq> [] then listSortColumn (TrimSpace s) else ''created_at''));
        order = (case lmOrder inp of None \<Rightarrow> ''DESC''
          | Some s \<Rightarrow> (if EqualFold (TrimSpace s) ''asc'' then ''ASC'' else ''DESC''))
    in bindM (mvList c tid \<lparr>mfPage = page, mfPerPage = per, mfType = lmType inp,
          mfStatus = lmStatus inp, mfSearch = search, mfSort = srt, mfOrder = order\<rparr>) (\<lambda>(items, cnt).
       ret \<lparr>loItems = items, loTotal = cnt, loPage = wrap32 page, loPerPage = wrap32 per\<rparr>))"

definition CancelMovement :: "ctx \<Rightarrow> string \<Rightarrow> Movement app" where
  "CancelMovement c movementID =
    bindM (liftE (TenantIDFromContext c)) (\<lambda>tid.
    let mid = TrimSpace movementID in
    bindM (mvGetByID c tid mid) (\<lambda>m.
    if mvStatus m \<noteq> StatusDraft then throw (App ErrMovementDraft)
    else
      bindM (UpdateStatus c tid mid StatusDraft StatusCancelled) (\<lambda>_.
      bindM (mvGetByID c tid mid) (\<lambda>out.
      bindM (ignoreErr (auditLog c \<lparr>apAction = ''movement.cancel'', apEntity = ''movement'',
          apEntityID = mid, apBefore = Some (movementCreateAuditSnapshot m),
          apAfter = Some (movementCreateAuditSnapshot out)\<rparr>)) (\<lambda>_.
      ret out)))))"

section \<open>Confirming\<close>

definition emitAudit :: "ctx \<Rightarrow> string \<Rightarrow> Movement \<Rightarrow> unit app" where
  "emitAudit c movementID mv =
    (let beforeMap = JObj [(''movement_id'', JStr movementID),
           (''reference_number'', JStr (mvReferenceNumber mv)), (''status'', JStr (mvStatus mv)),
           (''type'', JStr (mvType mv))];
         after = JObj [(''line_count'', JInt (int (length (mvLines mv)))),
           (''movement_id'', JStr movementID), (''reference_number'', JStr (mvReferenceNumber mv)),
           (''status'', JStr StatusConfirmed), (''type'', JStr (mvType mv))]
     in auditLog c \<lparr>apAction = ''movement.confirm'', apEntity = ''movement'',
          apEntityID = movementID, apBefore = Some beforeMap, apAfter = Some after\<rparr>)"

definition EventTypeMovementCreated :: string where "EventTypeMovementCreated = ''MovementCreated''"
definition EventTypeStockChanged :: string where "EventTypeStockChanged = ''StockChanged''"
definition EventTypeStockBelowThreshold :: string where
  "EventTypeStockBelowThreshold = ''StockBelowThreshold''"

definition movementCreatedPayload :: "string \<Rightarrow> string \<Rightarrow> Movement \<Rightarrow> jval" where
  "movementCreatedPayload tenantID movementID mv = JObj [(''tenant_id'', JStr tenantID),
     (''movement_id'', JStr movementID), (''type'', JStr (mvType mv)),
     (''reference_number'', JStr (mvReferenceNumber mv)),
     (''line_count'', JInt (int (length (mvLines mv))))]"

definition stockChangedPayload :: "string \<Rightarrow> string \<Rightarrow> stockQtyChange \<Rightarrow> jval" where
  "stockChangedPayload tenantID movementID ch = JObj [(''tenant_id'', JStr tenantID),
     (''warehouse_id'', JStr (sqWarehouseID ch)), (''product_id'', JStr (sqProductID ch)),
     (''old_qty'', JInt (sqOldQty ch)), (''new_qty'', JInt (sqNewQty ch)),
     (''movement_id'', JStr movementID)]"

definition stockBelowThresholdPayload :: "string \<Rightarrow> stockQtyChange \<Rightarrow> int \<Rightarrow> jval" where
  "stockBelowThresholdPayload tenantID ch rl = JObj [(''tenant_id'', JStr tenantID),
     (''warehouse_id'', JStr (sqWarehouseID ch)), (''product_id'', JStr (sqProductID ch)),
     (''current_qty'', JInt (sqNewQty ch)), (''reorder_level'', JInt rl)]"

definition movementEvent :: "string \<Rightarrow> string \<Rightarrow> string \<Rightarrow> jval \<Rightarrow> InsertInput" where
  "movementEvent tenantID movementID typ payload =
    \<lparr>iiTenantID = tenantID, iiEventType = typ, iiAggregateType = ''movement'',
     iiAggregateID = movementID, iiPayload = payload\<rparr>"

definition emitChange :: "ctx \<Rightarrow> string \<Rightarrow> string \<Rightarrow> stockQtyChange \<Rightarrow> unit app" where
  "emitChange c tenantID movementID ch =
    bindM (outboxInsert c (movementEvent tenantID movementID EventTypeStockChanged
        (stockChangedPayload tenantID movementID ch))) (\<lambda>_.
    bindM (GetProduct c (sqProductID ch)) (\<lambda>prod.
    let rl = prReorderLevel prod in
    if rl > 0 \<and> sqNewQty ch < rl then
      outboxInsert c (movementEvent tenantID movementID EventTypeStockBelowThreshold
        (stockBelowThresholdPayload tenantID ch rl))
    else ret ()))"

definition emitOutbox :: "ctx \<Rightarrow> string \<Rightarrow> string \<Rightarrow> Movement \<Rightarrow> stockQtyChange list \<Rightarrow> unit app" where
  "emitOutbox c tenantID movementID mv changes =
    bindM (outboxInsert c (movementEvent tenantID movementID EventTypeMovementCreated
        (movementCreatedPayload tenantID movementID mv))) (\<lambda>_.
    forM changes (emitChange c tenantID movementID))"

subsection \<open>Publishing\<close>

definition Channel :: "string \<Rightarrow> string" where "Channel tenantID = ''stock:'' @ tenantID"

definition stockChangesToPub :: "stockQtyChange list \<Rightarrow> StockChange list" where
  "stockChangesToPub inp = map (\<lambda>c. \<lparr>scWarehouseID = sqWarehouseID c, scProductID = sqProductID c,
     scOldQty = sqOldQty c, scNewQty = sqNewQty c\<rparr>) inp"

text \<open>PublishStockChanged of the Redis publisher and, without a client, of Noop.\<close>

definition PublishStockChanged :: "string \<Rightarrow> string \<Rightarrow> StockChange list \<Rightarrow> unit app" where
  "PublishStockChanged tenantID movementID changes w0 =
    (if \<not> wredis w0 then ret () w0
     else redisCmd (\<lambda>w. ((), w\<lparr>wpub := wpub w @ [(Channel tenantID,
       \<lparr>peEvent = ''stock_changed'', peTenantID = tenantID, peMovementID = movementID,
        peChanges = changes\<rparr>)]\<rparr>)) w0)"

subsection \<open>The transaction and the usecase\<close>

definition confirmTx :: "string \<Rightarrow> string \<Rightarrow> ctx \<Rightarrow> stockQtyChange list app" where
  "confirmTx tid mid txCtx =
    bindM (GetByIDForUpdate txCtx tid mid) (\<lambda>mv.
    if mvStatus mv \<noteq> StatusDraft then throw (App ErrMovementDraft)
    else
      bindM (validateWarehousesActive txCtx (mvSourceWarehouseID mv) (mvDestinationWarehouseID mv)) (\<lambda>_.
      bindM (applyStock txCtx stockRepository tid mv) (\<lambda>changes.
      bindM (UpdateStatus txCtx tid mid StatusDraft StatusConfirmed) (\<lambda>_.
      bindM (emitAudit txCtx mid mv) (\<lambda>_.
      bindM (emitOutbox txCtx tid mid mv changes) (\<lambda>_.
      ret changes))))))"

definition afterConfirm :: "string \<Rightarrow> string \<Rightarrow> stockQtyChange list \<Rightarrow> unit app" where
  "afterConfirm tid mid txChanges =
    bindM (ignoreErr (cDelete wired [KeyDashboardSummary tid])) (\<lambda>_.
    bindM (ignoreErr (cDeletePattern wired (PatternDashboardMovementsChart tid))) (\<lambda>_.
    bindM (ignoreErr (cDeletePattern wired (PatternProducts tid))) (\<lambda>_.
    if length txChanges > 0
    then ignoreErr (PublishStockChanged tid mid (stockChangesToPub txChanges)) else ret ())))"

definition ConfirmMovement :: "ctx \<Rightarrow> string \<Rightarrow> Movement app" where
  "ConfirmMovement c movementID =
    bindM (liftE (TenantIDFromContext c)) (\<lambda>tid.
    let mid = TrimSpace movementID in
    bindM (RunInTx c (confirmTx tid mid)) (\<lambda>txChanges.
    bindM (afterConfirm tid mid txChanges) (\<lambda>_.
    mvGetByID c tid mid)))"

end
