(* ===== verification/Frames.thy ===== *)
theory Frames
  imports Movement
begin

text \<open>
  Frame conditions of whole usecases. A relation Q on databases that is reflexive and transitive is
  lifted to worlds through the handle a program works on (locale db_frame), and framed Q m says that
  m relates by Q whatever database it works on. The locale app_frame adds the closure under the
  program's elementary mutations for a tenant t, those that only the confirmation of a movement makes
  left aside; inside it every other usecase is framed, once and for all. Stock_Frames.thy extends it
  to confirmation.
\<close>

section \<open>Lifting a relation on databases\<close>

text \<open>A property of a database that a statement keeps.\<close>

lemma stmt_view:
  assumes "\<And>a d'. f (viewOf h w) = Inr (a, d') \<Longrightarrow> P d'" "P (viewOf h w)"
  shows "P (viewOf h (snd (runStmt h f w)))"
proof -
  obtain r w' where r: "runStmt h f w = (r, w')" by fastforce
  then show ?thesis
    using assms runStmt_Inl [of h f w _ w'] runStmt_Inr [of h f w _ w'] by (cases r) auto
qed

definition liftQ :: "handle \<Rightarrow> (database \<Rightarrow> database \<Rightarrow> bool) \<Rightarrow> world \<Rightarrow> world \<Rightarrow> bool" where
  "liftQ h Q w w' \<longleftrightarrow> Q (viewOf h w) (viewOf h w') \<and> (h = Tx \<longrightarrow> wtx w \<noteq> None \<longrightarrow> wtx w' \<noteq> None)"

lemma liftQ_wfresh: "liftQ h Q (w\<lparr>wfresh := n\<rparr>) = liftQ h Q w"
  by (rule ext) (simp add: liftQ_def)

definition framed :: "(database \<Rightarrow> database \<Rightarrow> bool) \<Rightarrow> 'a app \<Rightarrow> bool" where
  "framed Q m \<longleftrightarrow> (\<forall>h. keeps (liftQ h Q) m)"

locale db_frame =
  fixes Q :: "database \<Rightarrow> database \<Rightarrow> bool"
  assumes Q_refl: "Q d d"
    and Q_trans: "Q a b \<Longrightarrow> Q b c \<Longrightarrow> Q a c"

sublocale db_frame \<subseteq> lifted: effect "liftQ h Q" for h
  by standard (auto simp: liftQ_def intro: Q_refl Q_trans)

context db_frame
begin

lemma framedI: "(\<And>h. keeps (liftQ h Q) m) \<Longrightarrow> framed Q m"
  by (simp add: framed_def)

lemma framedD: "framed Q m \<Longrightarrow> keeps (liftQ h Q) m"
  by (simp add: framed_def)

lemma fr_sameDB: "keeps sameDB m \<Longrightarrow> framed Q m"
  unfolding framed_def keeps_def sameDB_def liftQ_def
  by (auto simp: viewOf_def Q_refl split: handle.splits option.splits)

lemma fr_ret: "framed Q (ret a)"
  by (simp add: framed_def lifted.keeps_ret)

lemma fr_throw: "framed Q (throw e)"
  by (simp add: framed_def lifted.keeps_throw)

lemma fr_liftE: "framed Q (liftE r)"
  by (simp add: framed_def lifted.keeps_liftE)

lemma fr_bind: "framed Q m \<Longrightarrow> (\<And>a. framed Q (f a)) \<Longrightarrow> framed Q (bindM m f)"
  by (simp add: framed_def lifted.keeps_bind)

text \<open>The continuation of a lifted value may use which value it is.\<close>

lemma fr_bindE: "(\<And>a. r = Inr a \<Longrightarrow> framed Q (f a)) \<Longrightarrow> framed Q (bindM (liftE r) f)"
  by (cases r) (simp_all add: fr_throw)

lemma fr_try: "framed Q m \<Longrightarrow> framed Q (tryM m)"
  by (simp add: framed_def lifted.keeps_try)

lemma fr_ignore: "framed Q m \<Longrightarrow> framed Q (ignoreErr m)"
  by (simp add: framed_def lifted.keeps_ignore)

lemma fr_orNotFound: "framed Q m \<Longrightarrow> framed Q (orNotFound m)"
  by (simp add: framed_def keeps_orNotFound)

lemma fr_onDuplicate: "framed Q m \<Longrightarrow> framed Q (onDuplicate e m)"
  unfolding onDuplicate_def
  by (rule fr_bind) (auto intro: fr_try fr_throw fr_ret split: sum.splits)

lemma fr_mapErr: "framed Q m \<Longrightarrow> framed Q (mapErr e m)"
  unfolding mapErr_def
  by (rule fr_bind) (auto intro: fr_try fr_throw fr_ret split: sum.splits)

lemma fr_forM: "(\<And>x. x \<in> set xs \<Longrightarrow> framed Q (f x)) \<Longrightarrow> framed Q (forM xs f)"
  by (simp add: framed_def lifted.keeps_forM)

lemma fr_collectM: "(\<And>x. x \<in> set xs \<Longrightarrow> framed Q (f x)) \<Longrightarrow> framed Q (collectM xs f)"
  by (simp add: framed_def lifted.keeps_collectM)

lemma fr_deref: "framed Q (deref p)"
  by (auto simp: deref_def intro: fr_throw fr_ret split: option.splits)

text \<open>A statement relates the database it runs on to its result, and leaves the other one alone.\<close>

lemma liftQ_stmt:
  assumes "\<And>a d'. f (viewOf h w) = Inr (a, d') \<Longrightarrow> Q (viewOf h w) d'"
  shows "liftQ h' Q w (snd (runStmt h f w))"
proof -
  obtain r w' where r: "runStmt h f w = (r, w')" by fastforce
  show ?thesis
  proof (cases r)
    case (Inl e)
    with r runStmt_Inl [of h f w e w'] show ?thesis by (auto simp: liftQ_def Q_refl)
  next
    case (Inr a)
    with r runStmt_Inr [of h f w a w'] obtain d where
      d: "f (viewOf h w) = Inr (a, d)" "w' = setView h d (w\<lparr>wstmt := Suc (wstmt w)\<rparr>)"
        "h = Tx \<longrightarrow> wtx w \<noteq> None" by auto
    from assms [OF d(1)] have "Q (viewOf h w) d" .
    with d r show ?thesis
      by (cases h; cases h') (auto simp: liftQ_def viewOf_def setView_def Q_refl split: option.splits)
  qed
qed

lemma fr_stmt:
  assumes "\<And>d a d'. f d = Inr (a, d') \<Longrightarrow> Q d d'"
  shows "framed Q (runStmt h f)"
  unfolding framed_def keeps_def by (intro allI liftQ_stmt assms)

lemma fr_query: "framed Q (queryStmt h q)"
  unfolding queryStmt_def by (rule fr_stmt) (simp add: Q_refl)

lemma fr_first: "framed Q (firstStmt h q)"
  unfolding firstStmt_def by (rule fr_stmt) (auto simp: Q_refl split: option.splits)

lemma fr_now: "framed Q nowUTC" by (rule fr_sameDB) (rule keeps_now)

lemma fr_uuid: "framed Q newUUID" by (rule fr_sameDB) (rule keeps_uuid)

lemma fr_cache:
  "framed Q (cGet wired k)" "framed Q (cSet wired k v n)" "framed Q (cDelete wired ks)"
  "framed Q (cDeletePattern wired p)"
  by (intro fr_sameDB wiredc.get_frame wiredc.set_frame wiredc.delete_frame wiredc.pattern_frame)+

lemma fr_readThrough: "framed Q load \<Longrightarrow> framed Q (readThrough wired key dec enc ttl load)"
  unfolding readThrough_def
  by (intro fr_bind fr_try fr_cache) (auto intro: fr_ret fr_bind fr_ignore fr_cache split: option.splits)

lemma fr_nextval: "framed Q nextval"
  unfolding framed_def keeps_def liftQ_def
  by (auto simp: nextval_def viewOf_def Q_refl split: handle.splits option.splits)

lemma fr_publish: "framed Q (PublishStockChanged t m chs)"
  unfolding framed_def keeps_def liftQ_def PublishStockChanged_def redisCmd_def ret_def
  by (auto simp: viewOf_def Let_def Q_refl split: handle.splits option.splits)

text \<open>A program that works on one handle only.\<close>

lemma fr_single:
  assumes "\<And>w. Q (viewOf h0 w) (viewOf h0 (snd (m w)))"
    and "h0 = Tx \<Longrightarrow> keeps samePool m" "h0 = Pool \<Longrightarrow> keeps sameTx m"
    and "\<And>w. wtx w \<noteq> None \<Longrightarrow> wtx (snd (m w)) \<noteq> None"
  shows "framed Q m"
  unfolding framed_def keeps_def
proof (intro allI)
  fix h and w :: world
  show "liftQ h Q w (snd (m w))"
  proof (cases "h = h0")
    case True
    then show ?thesis using assms(1,4) [of w] by (simp add: liftQ_def)
  next
    case False
    then consider (pt) "h = Pool" "h0 = Tx" | (tp) "h = Tx" "h0 = Pool" by (cases h; cases h0) auto
    then show ?thesis
    proof cases
      case pt
      then show ?thesis using assms(2) by (simp add: liftQ_def viewOf_def keeps_def samePool_def Q_refl)
    next
      case tp
      then have "wtx (snd (m w)) = wtx w" using assms(3) by (simp add: keeps_def sameTx_def)
      then show ?thesis using assms(1) [of w] tp
        by (cases "wtx w") (simp_all add: liftQ_def viewOf_def Q_refl)
    qed
  qed
qed

lemmas fr_basic = fr_ret fr_throw fr_liftE fr_query fr_first fr_now fr_uuid fr_cache fr_nextval
  fr_deref fr_publish

lemmas fr_struct = fr_bindE fr_bind fr_try fr_ignore fr_orNotFound fr_onDuplicate fr_mapErr fr_forM
  fr_collectM fr_readThrough

text \<open>A transaction of its own is framed on the committed database.\<close>

lemma fr_RunInTx:
  assumes "\<And>c. framed Q (fn c)"
  shows "keeps (liftQ Pool Q) (RunInTx c fn)"
proof (cases "cxTx c")
  case True
  then show ?thesis using assms by (simp add: framed_def)
next
  case False
  show ?thesis
  proof (rule keepsI)
    fix w :: world
    let ?w0 = "w\<lparr>wstmt := Suc (wstmt w), wtx := Some (wdb w)\<rparr>"
    obtain r w1 where r: "fn (c\<lparr>cxTx := True\<rparr>) ?w0 = (r, w1)" by fastforce
    have p: "Q (wdb w) (wdb w1)"
      using keepsD [OF framedD [OF assms, of Pool] r] by (simp add: liftQ_def viewOf_def)
    have t: "\<exists>d. wtx w1 = Some d \<and> Q (wdb w) d"
      using keepsD [OF framedD [OF assms, of Tx] r] by (auto simp: liftQ_def viewOf_def)
    then obtain d where d: "wtx w1 = Some d" "Q (wdb w) d" by blast
    show "liftQ Pool Q w (snd (RunInTx c fn w))"
      using False r p d
      by (auto simp: RunInTx_def GetDB_def liftQ_def viewOf_def Let_def Q_refl split: option.splits sum.splits)
  qed
qed

lemma fr_pool: "framed Q m \<Longrightarrow> keeps (liftQ Pool Q) m"
  by (rule framedD)

end

section \<open>Closure under the mutations of the program\<close>

definition isMovementOf :: "string \<Rightarrow> string \<Rightarrow> database \<Rightarrow> bool" where
  "isMovementOf t mid d \<longleftrightarrow> list_ex (\<lambda>m. mvrID m = mid \<and> mvrTenantID m = t) (dbMovements d)"

lemma isMovementOf_insertLine:
  "insertLine l d = Inr (u, d') \<Longrightarrow> isMovementOf t mid d' = isMovementOf t mid d"
  by (auto simp: isMovementOf_def insertLine_def split: if_splits)

lemma isMovementOf_insertMovement:
  "insertMovement m d = Inr (u, d') \<Longrightarrow> isMovementOf (mvrTenantID m) (mvrID m) d'"
  by (auto simp: isMovementOf_def insertMovement_def split: if_splits)

locale app_frame = db_frame Q for Q :: "database \<Rightarrow> database \<Rightarrow> bool" +
  fixes t :: string
  assumes audit_append: "\<not> list_ex (\<lambda>x. alrID x = alrID r) (dbAudit d) \<Longrightarrow> alrTenantID r = t \<Longrightarrow>
      Q d (d\<lparr>dbAudit := dbAudit d @ [r]\<rparr>)"
    and wh_insert: "insertWarehouse wr d = Inr (u, d') \<Longrightarrow> whrTenantID wr = t \<Longrightarrow> Q d d'"
    and wh_update: "updateWarehouses wP wu d = Inr (n, d') \<Longrightarrow> (\<And>x. wP x \<Longrightarrow> whrTenantID x = t) \<Longrightarrow>
      (\<And>x. whrTenantID (wu x) = whrTenantID x \<and> whrID (wu x) = whrID x) \<Longrightarrow> Q d d'"
    and cat_insert: "insertCategory cr d = Inr (u, d') \<Longrightarrow> carTenantID cr = t \<Longrightarrow> Q d d'"
    and cat_update: "updateCategories cP cu d = Inr (n, d') \<Longrightarrow> (\<And>x. cP x \<Longrightarrow> carTenantID x = t) \<Longrightarrow>
      (\<And>x. carTenantID (cu x) = carTenantID x \<and> carID (cu x) = carID x) \<Longrightarrow> Q d d'"
    and prod_insert: "insertProduct pr d = Inr (u, d') \<Longrightarrow> prrTenantID pr = t \<Longrightarrow> Q d d'"
    and prod_update: "updateProducts pP pu d = Inr (n, d') \<Longrightarrow> (\<And>x. pP x \<Longrightarrow> prrTenantID x = t) \<Longrightarrow>
      (\<And>x. prrTenantID (pu x) = prrTenantID x \<and> prrID (pu x) = prrID x) \<Longrightarrow> Q d d'"
    and mv_insert: "insertMovement mr d = Inr (u, d') \<Longrightarrow> mvrTenantID mr = t \<Longrightarrow>
      mvrStatus mr = StatusDraft \<Longrightarrow>
      trimOpt (mvrSourceWarehouseID mr) = mvrSourceWarehouseID mr \<Longrightarrow>
      trimOpt (mvrDestinationWarehouseID mr) = mvrDestinationWarehouseID mr \<Longrightarrow> Q d d'"
    and line_insert: "insertLine l d = Inr (u, d') \<Longrightarrow> mlrQuantity l \<le> MaxInt32 \<Longrightarrow>
      isMovementOf t (mlrMovementID l) d \<Longrightarrow> Q d d'"
    and set_cancelled: "setStatus t m StatusDraft StatusCancelled now d = (n, d') \<Longrightarrow> Q d d'"
    and trimmed: "TrimSpace t = t"
begin

subsection \<open>Audit and outbox\<close>

lemma fr_auditLog: "TenantIDFromContext c = Inr t \<Longrightarrow> framed Q (auditLog c p)"
  unfolding auditLog_def auditInsert_def Let_def
  by (intro fr_struct fr_basic fr_stmt) (auto intro: audit_append split: if_splits)

lemma fr_auditList: "framed Q (auditList c x f)"
  by (rule fr_sameDB) (rule auditList_frame)

subsection \<open>Warehouses\<close>

lemma fr_whList: "framed Q (whList x f)"
  unfolding framed_def keeps_def whList_def Let_def
  by (intro allI, rule keeps_def [THEN iffD1, rule_format], rule framedD)
    (intro fr_struct fr_basic)

lemma fr_whGetByID: "framed Q (whGetByID x i)"
  unfolding whGetByID_def by (intro fr_struct fr_basic)

lemma fr_whCreate: "framed Q (whCreate t inp)"
  unfolding whCreate_def Let_def
  by (intro fr_struct fr_basic fr_stmt) (auto intro: wh_insert)

lemma fr_whUpdate: "framed Q (whUpdate t i inp)"
  unfolding whUpdate_def Let_def
  by (intro fr_struct fr_basic fr_stmt) (auto intro: wh_update simp: whLive_def applyWhUpdate_def)

lemma fr_whSoftDelete: "framed Q (whSoftDelete t i)"
  unfolding whSoftDelete_def Let_def
  by (intro fr_struct fr_basic fr_stmt)
    (auto intro: wh_update simp: whLive_def intro!: fr_throw fr_ret split: if_splits)

lemma fr_validation: "framed Q (validationFail m)"
  unfolding validationFail_def by (rule fr_throw)

lemma fr_invWarehouse: "framed Q (invalidateAfterWarehouseWrite x)"
  unfolding invalidateAfterWarehouseWrite_def by (intro fr_struct fr_basic)

lemma fr_whHasStock: "framed Q (whHasPositiveStock x i)"
  unfolding whHasPositiveStock_def by (intro fr_struct fr_basic)

text \<open>A program that only reads configuration from its world is framed if each instance is.\<close>

lemma fr_world: "(\<And>v. framed Q (m v)) \<Longrightarrow> framed Q (\<lambda>w. m w w)"
  by (simp add: framed_def keeps_def)

lemma fr_ListWarehouses: "framed Q (ListWarehouses c inp)"
  unfolding ListWarehouses_def [abs_def] Let_def
  by (rule fr_world) (auto intro!: fr_struct fr_basic fr_whList split: prod.splits)

lemma fr_GetWarehouse: "framed Q (GetWarehouse c i)"
  unfolding GetWarehouse_def by (intro fr_struct fr_whGetByID)

lemma fr_CreateWarehouse: "TenantIDFromContext c = Inr t \<Longrightarrow> framed Q (CreateWarehouse c inp)"
  unfolding CreateWarehouse_def Let_def
  by (auto intro!: fr_struct fr_basic fr_validation fr_whCreate fr_auditLog)

lemma fr_UpdateWarehouse: "TenantIDFromContext c = Inr t \<Longrightarrow> framed Q (UpdateWarehouse c i inp)"
  unfolding UpdateWarehouse_def Let_def
  by (auto intro!: fr_struct fr_basic fr_validation fr_whGetByID fr_whUpdate fr_auditLog fr_invWarehouse)

lemma fr_DeleteWarehouse: "TenantIDFromContext c = Inr t \<Longrightarrow> framed Q (DeleteWarehouse c i)"
  unfolding DeleteWarehouse_def Let_def
  by (auto intro!: fr_struct fr_basic fr_validation fr_whGetByID fr_whHasStock fr_whSoftDelete
      fr_auditLog fr_invWarehouse)

subsection \<open>Categories\<close>

lemma fr_catList: "framed Q (catList x f)"
  unfolding catList_def [abs_def] Let_def
  by (rule fr_world) (auto intro!: fr_struct fr_basic)

lemma fr_catGetByID: "framed Q (catGetByID x i)"
  unfolding catGetByID_def by (intro fr_struct fr_basic)

lemma fr_catCreate: "framed Q (catCreate t inp)"
  unfolding catCreate_def Let_def
  by (intro fr_struct fr_basic fr_stmt) (auto intro: cat_insert)

lemma fr_catUpdate: "framed Q (catUpdate t i inp)"
  unfolding catUpdate_def Let_def
  by (intro fr_struct fr_basic fr_stmt) (auto intro: cat_update simp: catLive_def applyCatUpdate_def)

lemma fr_catSoftDelete: "framed Q (catSoftDelete t i)"
  unfolding catSoftDelete_def Let_def
  by (intro fr_struct fr_basic fr_stmt)
    (auto intro: cat_update simp: catLive_def intro!: fr_throw fr_ret split: if_splits)

lemma fr_countActive: "framed Q (CountActiveProductsByCategoryID x i)"
  unfolding CountActiveProductsByCategoryID_def by (rule fr_query)

lemma fr_invDashboard: "framed Q (invalidateDashboard x)"
  unfolding invalidateDashboard_def by (intro fr_struct fr_basic)

lemma fr_invCategory: "framed Q (invalidateAfterCategoryWrite x)"
  unfolding invalidateAfterCategoryWrite_def by (intro fr_struct fr_basic fr_invDashboard)

lemma fr_ListCategories: "framed Q (ListCategories c inp)"
  unfolding ListCategories_def [abs_def] Let_def
  by (rule fr_world) (auto intro!: fr_struct fr_basic fr_catList split: prod.splits)

lemma fr_GetCategory: "framed Q (GetCategory c i)"
  unfolding GetCategory_def by (intro fr_struct fr_catGetByID)

lemma fr_CreateCategory: "TenantIDFromContext c = Inr t \<Longrightarrow> framed Q (CreateCategory c inp)"
  unfolding CreateCategory_def Let_def
  by (auto intro!: fr_struct fr_basic fr_validation fr_catGetByID fr_catCreate fr_auditLog fr_invCategory
      split: option.splits)

lemma fr_UpdateCategory: "TenantIDFromContext c = Inr t \<Longrightarrow> framed Q (UpdateCategory c i inp)"
  unfolding UpdateCategory_def Let_def
  by (auto intro!: fr_struct fr_basic fr_validation fr_catGetByID fr_catUpdate fr_auditLog fr_invCategory
      split: option.splits)

lemma fr_DeleteCategory: "TenantIDFromContext c = Inr t \<Longrightarrow> framed Q (DeleteCategory c i)"
  unfolding DeleteCategory_def Let_def
  by (auto intro!: fr_struct fr_basic fr_validation fr_catGetByID fr_countActive fr_catSoftDelete
      fr_auditLog fr_invCategory)

subsection \<open>Products\<close>

lemma fr_ListProductsRepo: "framed Q (ListProductsRepo x f)"
  unfolding ListProductsRepo_def [abs_def] Let_def
  by (rule fr_world) (auto intro!: fr_struct fr_basic)

lemma fr_GetProductByID: "framed Q (GetProductByID x i)"
  unfolding GetProductByID_def by (intro fr_struct fr_basic)

lemma fr_CreateProductRepo: "framed Q (CreateProductRepo t inp)"
  unfolding CreateProductRepo_def [abs_def] Let_def
  by (rule fr_world) (intro fr_struct fr_basic fr_stmt, auto intro: prod_insert simp: storeProduct_def)

lemma fr_UpdateProductRepo: "framed Q (UpdateProductRepo t i inp)"
  unfolding UpdateProductRepo_def [abs_def] Let_def
  by (rule fr_world)
    (intro fr_struct fr_basic fr_stmt, auto intro: prod_update simp: prodLive_def applyProdUpdate_def)

lemma fr_SoftDeleteProduct: "framed Q (SoftDeleteProduct t i)"
  unfolding SoftDeleteProduct_def Let_def
  by (intro fr_struct fr_basic fr_stmt)
    (auto intro: prod_update simp: prodLive_def intro!: fr_throw fr_ret split: if_splits)

lemma fr_RestoreProductRepo: "framed Q (RestoreProductRepo t i)"
  unfolding RestoreProductRepo_def Let_def
  by (intro fr_struct fr_basic fr_stmt)
    (auto intro: prod_update intro!: fr_throw fr_GetProductByID split: if_splits)

lemma fr_prodHasStock: "framed Q (prodHasPositiveStock x i)"
  unfolding prodHasPositiveStock_def by (intro fr_struct fr_basic)

lemma fr_invProduct: "framed Q (invalidateAfterProductWrite x i)"
  unfolding invalidateAfterProductWrite_def by (intro fr_struct fr_basic fr_invDashboard)

lemma fr_ListProducts: "framed Q (ListProducts c inp)"
  unfolding ListProducts_def [abs_def] Let_def
  by (rule fr_world) (auto intro!: fr_struct fr_basic fr_ListProductsRepo split: prod.splits)

lemma fr_GetProduct: "framed Q (GetProduct c i)"
  unfolding GetProduct_def Let_def by (intro fr_struct fr_GetProductByID)

lemma fr_ensureCategory: "framed Q (ensureCategory x i)"
  unfolding ensureCategory_def Let_def
  by (auto intro!: fr_struct fr_basic fr_catGetByID split: option.splits)

lemma fr_CreateProduct: "TenantIDFromContext c = Inr t \<Longrightarrow> framed Q (CreateProduct c inp)"
  unfolding CreateProduct_def Let_def
  by (auto intro!: fr_struct fr_basic fr_validation fr_ensureCategory fr_CreateProductRepo fr_auditLog
      fr_invProduct)

lemma fr_UpdateProduct: "TenantIDFromContext c = Inr t \<Longrightarrow> framed Q (UpdateProduct c i inp)"
  unfolding UpdateProduct_def Let_def
  by (auto intro!: fr_struct fr_basic fr_validation fr_ensureCategory fr_GetProductByID
      fr_UpdateProductRepo fr_auditLog fr_invProduct split: option.splits)

lemma fr_DeleteProduct: "TenantIDFromContext c = Inr t \<Longrightarrow> framed Q (DeleteProduct c i)"
  unfolding DeleteProduct_def Let_def
  by (auto intro!: fr_struct fr_basic fr_validation fr_GetProductByID fr_prodHasStock
      fr_SoftDeleteProduct fr_auditLog fr_invProduct)

lemma fr_RestoreProduct: "TenantIDFromContext c = Inr t \<Longrightarrow> framed Q (RestoreProduct c i)"
  unfolding RestoreProduct_def Let_def
  by (auto intro!: fr_struct fr_basic fr_validation fr_RestoreProductRepo fr_auditLog fr_invProduct)

subsection \<open>Movements\<close>

lemma fr_mvGetByID: "framed Q (mvGetByID c x i)" "framed Q (GetByIDForUpdate c x i)"
  unfolding mvGetByID_def GetByIDForUpdate_def by (intro fr_struct fr_basic)+

lemma fr_byKey: "framed Q (GetByTenantAndIdempotencyKey c x k)"
  unfolding GetByTenantAndIdempotencyKey_def Let_def
  by (auto intro!: fr_struct fr_basic fr_mvGetByID)

lemma fr_dup: "framed Q (handleCreateDuplicate c inp k h)"
  unfolding handleCreateDuplicate_def Let_def
  by (auto intro!: fr_struct fr_basic fr_byKey split: sum.splits)

text \<open>The lines are inserted under the header that was inserted before them.\<close>

lemma createLine_at:
  assumes "isMovementOf t mid (viewOf (GetDB c) w)" "miQuantity l \<le> MaxInt32"
  shows "liftQ h Q w (snd (createLine c mid now l w))
    \<and> isMovementOf t mid (viewOf (GetDB c) (snd (createLine c mid now l w)))"
proof -
  let ?row = "\<lparr>mlrID = wuuid w (wfresh w), mlrMovementID = mid, mlrProductID = TrimSpace (miProductID l),
       mlrQuantity = miQuantity l, mlrNotes = trimOpt (miNotes l), mlrCreatedAt = now\<rparr>"
  let ?w = "w\<lparr>wfresh := Suc (wfresh w)\<rparr>"
  have r: "createLine c mid now l w = runStmt (GetDB c) (insertLine ?row) ?w"
    unfolding createLine_def by (rule bindM_run) simp
  have "liftQ h Q ?w (snd (runStmt (GetDB c) (insertLine ?row) ?w))"
    using assms by (intro liftQ_stmt) (auto intro: line_insert)
  moreover have "isMovementOf t mid (viewOf (GetDB c) (snd (runStmt (GetDB c) (insertLine ?row) ?w)))"
    by (rule stmt_view [where P = "isMovementOf t mid"])
      (simp_all add: assms(1) isMovementOf_insertLine)
  ultimately show ?thesis unfolding r by (simp only: liftQ_wfresh simp_thms)
qed

lemma createLines_at:
  assumes "isMovementOf t mid (viewOf (GetDB c) w)" "\<forall>l \<in> set ls. miQuantity l \<le> MaxInt32"
  shows "liftQ h Q w (snd (forM ls (createLine c mid now) w))"
  using assms
proof (induction ls arbitrary: w)
  case Nil
  show ?case by (simp add: ret_def lifted.R_refl)
next
  case (Cons l ls)
  obtain r w1 where r: "createLine c mid now l w = (r, w1)" by fastforce
  have 1: "liftQ h Q w w1" "isMovementOf t mid (viewOf (GetDB c) w1)"
    using createLine_at [OF Cons.prems(1), of l h now] Cons.prems(2) r by auto
  then show ?case
    using Cons r by (cases r) (auto simp: bindM_def intro: lifted.R_trans)
qed

lemma insertMovement_at:
  assumes "mvrTenantID row = t" "mvrStatus row = StatusDraft" "trimOpt (mvrSourceWarehouseID row) = mvrSourceWarehouseID row"
    "trimOpt (mvrDestinationWarehouseID row) = mvrDestinationWarehouseID row"
    and "\<forall>l \<in> set ls. miQuantity l \<le> MaxInt32" "\<And>e. framed Q (onErr e)" "framed Q after"
  shows "framed Q (bindM (tryM (runStmt (GetDB c) (insertMovement row))) (\<lambda>r.
     case r of Inl e \<Rightarrow> onErr e
     | Inr _ \<Rightarrow> bindM (forM ls (createLine c (mvrID row) now)) (\<lambda>_. after)))"
proof (rule framedI, rule keepsI)
  fix h and w :: world
  let ?k = "\<lambda>r. case r of Inl e \<Rightarrow> onErr e
     | Inr (_ :: unit) \<Rightarrow> bindM (forM ls (createLine c (mvrID row) now)) (\<lambda>_. after)"
  obtain r w1 where r: "runStmt (GetDB c) (insertMovement row) w = (r, w1)" by fastforce
  have 1: "liftQ h Q w w1"
    using liftQ_stmt [of "insertMovement row" "GetDB c" w h] mv_insert [OF _ assms(1-4)] r by auto
  show "liftQ h Q w (snd (bindM (tryM (runStmt (GetDB c) (insertMovement row))) ?k w))"
  proof (cases r)
    case (Inl e)
    have "liftQ h Q w1 (snd (onErr e w1))" using assms(6) by (simp add: framed_def keeps_def)
    then show ?thesis using r Inl 1
      by (cases e) (auto simp: bindM_def tryM_def intro: lifted.R_trans)
  next
    case (Inr u)
    from runStmt_Inr [OF r [unfolded Inr]] have "isMovementOf t (mvrID row) (viewOf (GetDB c) w1)"
      using isMovementOf_insertMovement assms(1) by fastforce
    note ls = createLines_at [OF this assms(5), of h now]
    have "liftQ h Q w1 (snd (bindM (forM ls (createLine c (mvrID row) now)) (\<lambda>_. after) w1))"
      by (rule bindM_snd_inv [where P = "liftQ h Q w1"])
        (use ls assms(7) in \<open>auto simp: framed_def keeps_def intro: lifted.R_trans\<close>)
    then show ?thesis using r Inr 1
      by (auto simp: bindM_def tryM_def intro: lifted.R_trans)
  qed
qed

lemma fr_mvCreate:
  assumes "TrimSpace (cmTenantID inp) = t" "\<forall>l \<in> set (cmLines inp). miQuantity l \<le> MaxInt32"
  shows "framed Q (mvCreate c inp)"
proof -
  have "framed Q (bindM (tryM (runStmt (GetDB c) (insertMovement (newMovementRow mid now inp)))) (\<lambda>r.
       case r of
         Inl e \<Rightarrow> (if \<not> mvIsDuplicateErr e then throw e else handleCreateDuplicate c inp k h)
       | Inr _ \<Rightarrow>
           bindM (forM (cmLines inp) (createLine c mid now)) (\<lambda>_.
           bindM (mvGetByID c (cmTenantID inp) mid) (\<lambda>mv. ret (mv, False)))))" for mid now k h
  proof -
    let ?row = "newMovementRow mid now inp"
    have row: "mvrID ?row = mid" "mvrTenantID ?row = t" "mvrStatus ?row = StatusDraft"
      "trimOpt (mvrSourceWarehouseID ?row) = mvrSourceWarehouseID ?row"
      "trimOpt (mvrDestinationWarehouseID ?row) = mvrDestinationWarehouseID ?row"
      using assms(1) by (simp_all add: newMovementRow_def Let_def)
    show ?thesis
      by (rule insertMovement_at [OF row(2-5) assms(2), unfolded row(1)])
        (auto intro!: fr_bind fr_basic fr_dup fr_mvGetByID)
  qed
  then show ?thesis
    unfolding mvCreate_def Let_def by (intro fr_bind [OF fr_uuid] fr_bind [OF fr_now])
qed

lemma fr_mvList: "framed Q (mvList c x f)"
  unfolding mvList_def [abs_def] Let_def
  by (rule fr_world) (auto intro!: fr_struct fr_basic fr_stmt simp: Q_refl split: if_splits)

lemma fr_UpdateStatus:
  assumes "\<And>m now d n d'. setStatus t m a b now d = (n, d') \<Longrightarrow> Q d d'"
  shows "framed Q (UpdateStatus c t m a b)"
  unfolding UpdateStatus_def trimmed
  by (intro fr_struct fr_basic fr_stmt) (auto intro: assms intro!: fr_throw fr_ret)

lemma fr_validateWarehouses: "framed Q (validateWarehousesActive c src dst)"
  unfolding validateWarehousesActive_def checkWarehouse_def
  by (auto intro!: fr_struct fr_basic fr_validation fr_GetWarehouse split: option.splits)

lemma fr_createDraft:
  assumes "TenantIDFromContext c = Inr t" "\<forall>l \<in> set (cbLines inp). liQuantity l \<le> MaxInt32"
  shows "framed Q (createDraft c t u typ inp src dst)"
proof -
  have "framed Q (mvCreate c (createInput t u typ inp src dst))"
    by (rule fr_mvCreate) (use assms(2) trimmed in \<open>auto simp: createInput_def\<close>)
  then show ?thesis
    unfolding createDraft_def Let_def UserBelongsToTenant_def checkLine_def
    by (auto intro!: fr_struct fr_basic fr_validation fr_validateWarehouses fr_GetProduct
        fr_auditLog assms(1) split: prod.splits)
qed

lemmas fr_create = fr_createDraft [OF _ _]

lemma fr_CreateMovement:
  assumes "TenantIDFromContext c = Inr t" "\<forall>l \<in> set (cbLines inp). liQuantity l \<le> MaxInt32"
  shows "framed Q (CreateInbound c x inp)" "framed Q (CreateOutbound c x inp)"
    "framed Q (CreateTransfer c x y inp)" "framed Q (CreateAdjustment c xo yo inp)"
  using fr_createDraft [OF assms]
  unfolding CreateInbound_def CreateOutbound_def CreateTransfer_def CreateAdjustment_def
  by (auto intro!: fr_struct simp: assms(1))

lemma fr_GetMovement: "framed Q (GetMovement c i)"
  unfolding GetMovement_def by (intro fr_struct fr_mvGetByID)

lemma fr_ListMovements: "framed Q (ListMovements c inp)"
  unfolding ListMovements_def Let_def
  by (auto intro!: fr_struct fr_basic fr_mvList split: prod.splits)

lemma fr_CancelMovement: "TenantIDFromContext c = Inr t \<Longrightarrow> framed Q (CancelMovement c i)"
  unfolding CancelMovement_def Let_def
  by (auto intro!: fr_struct fr_basic fr_mvGetByID fr_UpdateStatus set_cancelled fr_auditLog)

lemma fr_afterConfirm: "framed Q (afterConfirm x mid chs)"
  unfolding afterConfirm_def by (auto intro!: fr_struct fr_basic)

lemma fr_ListAuditLogs: "framed Q (ListAuditLogs c inp)"
  unfolding ListAuditLogs_def Let_def
  by (auto intro!: fr_struct fr_basic fr_auditList split: prod.splits)

end

end
