(* ===== verification/Stock_Frames.thy ===== *)
theory Stock_Frames
  imports Frames
begin

text \<open>
  Frame conditions of the confirmation of a movement. The locale stock_frame extends app_frame with
  the closure under the mutations that only a confirmation makes: balance rows, outbox events and
  the status confirmed. The stock operations are framed as a whole, because the row an update names
  was read in the same transaction.
\<close>

section \<open>Stock operations work on one handle\<close>

definition txStays :: "world \<Rightarrow> world \<Rightarrow> bool" where
  "txStays w w' \<longleftrightarrow> (wtx w \<noteq> None \<longrightarrow> wtx w' \<noteq> None)"

interpretation txs: effect txStays
  by standard (auto simp: txStays_def)

lemma keeps_stmt_txs: "keeps txStays (runStmt h f)"
  by (cases h) (auto simp: keeps_def txStays_def runStmt_def Let_def split: option.splits sum.splits)

lemma sameDB_txs: "keeps sameDB m \<Longrightarrow> keeps txStays m"
  by (auto simp: keeps_def sameDB_def txStays_def)

lemma first_pool: "keeps samePool (firstStmt h q)" "keeps sameTx (firstStmt h q)" "keeps txStays (firstStmt h q)"
  using sameDB_samePool [OF keeps_first] sameDB_sameTx [OF keeps_first] sameDB_txs [OF keeps_first] by auto

lemma now_pool: "keeps samePool nowUTC" "keeps sameTx nowUTC" "keeps txStays nowUTC"
  using sameDB_samePool [OF keeps_now] sameDB_sameTx [OF keeps_now] sameDB_txs [OF keeps_now] by auto

lemma uuid_pool: "keeps samePool newUUID" "keeps sameTx newUUID" "keeps txStays newUUID"
  using sameDB_samePool [OF keeps_uuid] sameDB_sameTx [OF keeps_uuid] sameDB_txs [OF keeps_uuid] by auto

lemma getBalance_one:
  "keeps samePool (getBalanceRowForUpdate c t wh p)" "keeps sameTx (getBalanceRowForUpdate c t wh p)"
  "keeps txStays (getBalanceRowForUpdate c t wh p)"
  by (simp_all add: getBalanceRowForUpdate_def keeps_orNotFound first_pool)

lemma applyQuantity_one:
  "cxTx c \<Longrightarrow> keeps samePool (applyQuantity c row q)" "\<not> cxTx c \<Longrightarrow> keeps sameTx (applyQuantity c row q)"
  "keeps txStays (applyQuantity c row q)"
  unfolding applyQuantity_def GetDB_def
  by (auto intro!: pool.keeps_rules txv.keeps_rules txs.keeps_rules now_pool keeps_stmt_pool
      keeps_stmt_tx keeps_stmt_txs)

lemma ApplyDelta_one:
  "cxTx c \<Longrightarrow> keeps samePool (ApplyDelta c t wh p n)" "\<not> cxTx c \<Longrightarrow> keeps sameTx (ApplyDelta c t wh p n)"
  "keeps txStays (ApplyDelta c t wh p n)"
  unfolding ApplyDelta_def Let_def
  by (auto intro!: pool.keeps_bind txv.keeps_bind txs.keeps_bind getBalance_one applyQuantity_one)

lemma TransferDelta_one:
  "cxTx c \<Longrightarrow> keeps samePool (TransferDelta c t src dst p n)"
  "\<not> cxTx c \<Longrightarrow> keeps sameTx (TransferDelta c t src dst p n)"
  "keeps txStays (TransferDelta c t src dst p n)"
  unfolding TransferDelta_def Let_def
  by (auto intro!: pool.keeps_rules txv.keeps_rules txs.keeps_rules getBalance_one applyQuantity_one
      split: prod.splits)

lemma GetForUpdate_one:
  "keeps samePool (GetForUpdate c t wh p)" "keeps sameTx (GetForUpdate c t wh p)"
  "keeps txStays (GetForUpdate c t wh p)"
  unfolding GetForUpdate_def
  by (intro pool.keeps_rules txv.keeps_rules txs.keeps_rules getBalance_one)+

lemma EnsureBalanceRow_one:
  "cxTx c \<Longrightarrow> keeps samePool (EnsureBalanceRow c t wh p)"
  unfolding EnsureBalanceRow_def GetDB_def
  by (auto intro!: pool.keeps_rules uuid_pool now_pool keeps_stmt_pool getBalance_one)

section \<open>Closure under the mutations of a confirmation\<close>

locale stock_frame = app_frame Q t for Q :: "database \<Rightarrow> database \<Rightarrow> bool" and t :: string +
  assumes outbox_append: "\<not> list_ex (\<lambda>x. oerID x = oerID e) (dbOutbox d) \<Longrightarrow> oerTenantID e = t \<Longrightarrow>
      Q d (d\<lparr>dbOutbox := dbOutbox d @ [e]\<rparr>)"
    and set_confirmed: "setStatus t m StatusDraft StatusConfirmed now d = (n, d') \<Longrightarrow> Q d d'"
    and bal_insert: "insertBalance (t, wh, p) i now d = Inr (u, d') \<Longrightarrow> Q d d'"
    and bal_update: "findBalance (t, wh, p) d0 = Some b \<Longrightarrow> Q d0 d \<Longrightarrow>
      updateQuantity (sbrID b) q now d = Inr (n, d') \<Longrightarrow> 0 \<le> q \<Longrightarrow> q \<le> MaxInt32 \<Longrightarrow> Q d0 d'"
begin

lemma fr_outboxInsert: "iiTenantID inp = t \<Longrightarrow> framed Q (outboxInsert c inp)"
  unfolding outboxInsert_def Let_def
  by (intro fr_struct fr_basic fr_stmt) (auto intro: outbox_append split: if_splits)

subsection \<open>Stock\<close>

lemma fr_getBalance: "framed Q (getBalanceRowForUpdate c x wh p)"
  unfolding getBalanceRowForUpdate_def by (intro fr_struct fr_basic)

lemma fr_GetForUpdate: "framed Q (GetForUpdate c x wh p)"
  unfolding GetForUpdate_def by (intro fr_struct fr_basic fr_getBalance)

lemma fr_EnsureBalanceRow: "framed Q (EnsureBalanceRow c t wh p)"
  unfolding EnsureBalanceRow_def trimKey_def trimmed
  by (intro fr_struct fr_basic fr_stmt fr_getBalance) (auto intro: bal_insert)

lemma applyQuantity_Q:
  assumes "findBalance (t, wh, p) d0 = Some row" "Q d0 (viewOf (GetDB c) w)"
  shows "Q d0 (viewOf (GetDB c) (snd (applyQuantity c row q w)))"
proof (cases "0 \<le> q \<and> q \<le> MaxInt32")
  case False
  then show ?thesis using assms(2) by (auto simp: applyQuantity_def throw_def)
next
  case True
  then have w32: "wrap32 q = q" by (simp add: is_int32_def MaxInt32_def)
  let ?m = "runStmt (GetDB c) (updateQuantity (sbrID row) q (wtime w (wtick w)))"
  obtain r w1 where r: "?m (w\<lparr>wtick := Suc (wtick w)\<rparr>) = (r, w1)" by fastforce
  have "snd (applyQuantity c row q w) = w1"
    using True r by (cases r) (auto simp: applyQuantity_def bindM_def nowUTC_def w32 throw_def ret_def)
  moreover have "Q d0 (viewOf (GetDB c) w1)"
  proof (cases r)
    case (Inl e)
    with runStmt_Inl [OF r [unfolded Inl]] assms(2) show ?thesis by simp
  next
    case (Inr n)
    from runStmt_Inr [OF r [unfolded Inr]] obtain d where
      "updateQuantity (sbrID row) q (wtime w (wtick w)) (viewOf (GetDB c) w) = Inr (n, d)"
      and v: "viewOf (GetDB c) w1 = d" by auto
    then show ?thesis using bal_update [OF assms(1,2)] True by auto
  qed
  ultimately show ?thesis by simp
qed

lemma ApplyDelta_Q: "Q (viewOf (GetDB c) w) (viewOf (GetDB c) (snd (ApplyDelta c t wh p n w)))"
proof -
  obtain r w1 where r: "getBalanceRowForUpdate c t wh p w = (r, w1)" by fastforce
  show ?thesis
  proof (cases r)
    case (Inl e)
    have "Q (viewOf (GetDB c) w) (viewOf (GetDB c) w1)"
      using keepsD [OF framedD [OF fr_getBalance] r] by (simp add: liftQ_def)
    then show ?thesis using r Inl by (simp add: ApplyDelta_def bindM_def)
  next
    case (Inr row)
    note g = getBalance_Inr [OF r [unfolded Inr]]
    have "Q (viewOf (GetDB c) w) (viewOf (GetDB c) w1)" using g(2) by (simp add: Q_refl)
    with g(1) show ?thesis using r Inr
      by (simp add: ApplyDelta_def bindM_def Let_def applyQuantity_Q trimKey_def trimmed)
  qed
qed

lemma fr_ApplyDelta: "framed Q (ApplyDelta c t wh p n)"
proof (rule fr_single [of "GetDB c"])
  show "wtx w \<noteq> None \<Longrightarrow> wtx (snd (ApplyDelta c t wh p n w)) \<noteq> None" for w
    using ApplyDelta_one(3) [of c t wh p n] by (simp add: keeps_def txStays_def)
qed (auto simp: GetDB_def ApplyDelta_Q [unfolded GetDB_def] intro: ApplyDelta_one split: if_splits)

lemma transferRows_cases:
  "transferRows s p r1 r2 = Inr (a, b) \<Longrightarrow> (a = r1 \<and> b = r2) \<or> (a = r2 \<and> b = r1)"
  by (auto simp: transferRows_def split: if_splits)

lemma TransferDelta_Q:
  "Q (viewOf (GetDB c) w) (viewOf (GetDB c) (snd (TransferDelta c t src dst p n w)))"
proof -
  let ?d0 = "viewOf (GetDB c) w" and ?P = "\<lambda>v. Q (viewOf (GetDB c) w) (viewOf (GetDB c) v)"
  let ?k = "\<lambda>r. \<exists>wh p. findBalance (t, wh, p) ?d0 = Some r"
  have g: "?P (snd (getBalanceRowForUpdate c t x y v))" if "?P v" for x y v
    using framedD [OF fr_getBalance, of "GetDB c" c t x y] that
    by (auto simp: keeps_def liftQ_def intro: Q_trans)
  have k: "?k r" if "getBalanceRowForUpdate c t x y v = (Inr r, v')" "viewOf (GetDB c) v = ?d0" for x y v r v'
    using getBalance_Inr(1) [OF that(1)] that(2) by (auto simp: trimKey_def trimmed)
  have v: "viewOf (GetDB c) v' = viewOf (GetDB c) v" if "getBalanceRowForUpdate c t x y v = (Inr r, v')" for x y v r v'
    using getBalance_Inr(2) [OF that] by simp
  have sel: "?P (snd ((case transferRows s y r1 r2 of Inl e \<Rightarrow> (Inl e, v2)
      | Inr (sr, dr) \<Rightarrow> bindM (applyQuantity c sr (wrap64 (sbrQuantity sr - n)))
          (\<lambda>_. applyQuantity c dr (wrap64 (sbrQuantity dr + n))) v2)))"
    if "?k r1" "?k r2" "?P v2" for s y r1 r2 v2
    using that transferRows_cases [of s y r1 r2]
    by (auto split: sum.splits prod.splits intro!: bindM_snd_inv [where P = ?P] intro: applyQuantity_Q)
  show ?thesis
  proof (cases "n \<le> 0 \<or> TrimSpace src = TrimSpace dst")
    case True
    then show ?thesis by (auto simp: TransferDelta_def throw_def ret_def Let_def Q_refl)
  next
    case False
    let ?s = "\<lparr>wpkWarehouseID = TrimSpace src, wpkProductID = TrimSpace p\<rparr>"
    let ?d = "\<lparr>wpkWarehouseID = TrimSpace dst, wpkProductID = TrimSpace p\<rparr>"
    obtain f1 f2 where f: "OrderedWarehouseProduct ?s ?d = (f1, f2)" by fastforce
    have "?P (snd (bindM (getBalanceRowForUpdate c t (wpkWarehouseID f1) (wpkProductID f1)) (\<lambda>r1.
       bindM (getBalanceRowForUpdate c t (wpkWarehouseID f2) (wpkProductID f2)) (\<lambda>r2 v2.
       case transferRows (TrimSpace src) (TrimSpace p) r1 r2 of Inl e \<Rightarrow> (Inl e, v2)
      | Inr (sr, dr) \<Rightarrow> bindM (applyQuantity c sr (wrap64 (sbrQuantity sr - n)))
          (\<lambda>_. applyQuantity c dr (wrap64 (sbrQuantity dr + n))) v2)) w))"
    proof (rule bindM_snd_inv [where P = ?P])
      show "?P (snd (getBalanceRowForUpdate c t (wpkWarehouseID f1) (wpkProductID f1) w))"
        by (rule g) (rule Q_refl)
      fix r1 w1
      assume r1: "getBalanceRowForUpdate c t (wpkWarehouseID f1) (wpkProductID f1) w = (Inr r1, w1)" and p1: "?P w1"
      show "?P (snd (bindM (getBalanceRowForUpdate c t (wpkWarehouseID f2) (wpkProductID f2)) (\<lambda>r2 v2.
         case transferRows (TrimSpace src) (TrimSpace p) r1 r2 of Inl e \<Rightarrow> (Inl e, v2)
        | Inr (sr, dr) \<Rightarrow> bindM (applyQuantity c sr (wrap64 (sbrQuantity sr - n)))
            (\<lambda>_. applyQuantity c dr (wrap64 (sbrQuantity dr + n))) v2) w1))"
      proof (rule bindM_snd_inv [where P = ?P], rule g [OF p1])
        fix r2 w2
        assume r2: "getBalanceRowForUpdate c t (wpkWarehouseID f2) (wpkProductID f2) w1 = (Inr r2, w2)"
          and p2: "?P w2"
        show "?P (snd (case transferRows (TrimSpace src) (TrimSpace p) r1 r2 of Inl e \<Rightarrow> (Inl e, w2)
          | Inr (sr, dr) \<Rightarrow> bindM (applyQuantity c sr (wrap64 (sbrQuantity sr - n)))
            (\<lambda>_. applyQuantity c dr (wrap64 (sbrQuantity dr + n))) w2))"
          by (rule sel [OF k [OF r1 refl] k [OF r2 v [OF r1]] p2])
      qed
    qed
    then show ?thesis using False f
      by (simp add: TransferDelta_def Let_def split_def bindM_liftE_case cong: sum.case_cong)
  qed
qed

lemma fr_TransferDelta: "framed Q (TransferDelta c t src dst p n)"
proof (rule fr_single [of "GetDB c"])
  show "wtx w \<noteq> None \<Longrightarrow> wtx (snd (TransferDelta c t src dst p n w)) \<noteq> None" for w
    using TransferDelta_one(3) [of c t src dst p n] by (simp add: keeps_def txStays_def)
qed (auto simp: GetDB_def TransferDelta_Q [unfolded GetDB_def] intro: TransferDelta_one split: if_splits)

lemma stockRepository_sel [simp]:
  "srGetForUpdate stockRepository = GetForUpdate" "srEnsureBalanceRow stockRepository = EnsureBalanceRow"
  "srApplyDelta stockRepository = ApplyDelta" "srTransferDelta stockRepository = TransferDelta"
  by (simp_all add: stockRepository_def)

lemmas fr_stock = fr_GetForUpdate fr_EnsureBalanceRow fr_ApplyDelta fr_TransferDelta

lemma fr_applyStock: "framed Q (applyStock c stockRepository t mv)"
  unfolding applyStock_def applyInbound_def applyOutbound_def applyTransfer_def applyAdjustment_def
    inboundLine_def outboundLine_def transferLine_def decreaseLine_def Let_def
  by (auto intro!: fr_struct fr_basic fr_stock)

subsection \<open>Confirmation\<close>

lemma fr_confirmTx: "TenantIDFromContext c = Inr t \<Longrightarrow> framed Q (confirmTx t mid c)"
  unfolding confirmTx_def emitAudit_def emitOutbox_def emitChange_def movementEvent_def Let_def
  by (auto intro!: fr_struct fr_basic fr_mvGetByID fr_validateWarehouses fr_applyStock fr_UpdateStatus set_confirmed
      fr_auditLog fr_outboxInsert fr_GetProduct)

end

end
