(* ===== verification/Times.thy ===== *)
theory Times
  imports Errors
begin

text \<open>
  Dates and times: the proleptic Gregorian calendar, and the RFC3339Nano layout in which package time
  prints and parses the time stamps of events (src/pkg/eventbus). A time is a number of nanoseconds
  since 1970-01-01 UTC with the offset in minutes of its location; days are numbered from that date.
\<close>

section \<open>The calendar\<close>

text \<open>Year, month and day of a day number, by counting days from 0000-03-01 in eras of 400 years.\<close>

definition yearOfEra :: "int \<Rightarrow> int" where
  "yearOfEra doe = (doe - doe div 1460 + doe div 36524 - doe div 146096) div 365"

definition civilOf :: "int \<Rightarrow> int \<times> int \<times> int" where
  "civilOf day =
    (let z = day + 719468;
         era = z div 146097;
         doe = z mod 146097;
         yoe = yearOfEra doe;
         doy = doe - (365 * yoe + yoe div 4 - yoe div 100);
         mp = (5 * doy + 2) div 153;
         d = doy - (153 * mp + 2) div 5 + 1;
         m = (if mp < 10 then mp + 3 else mp - 9);
         y = yoe + era * 400 + (if m \<le> 2 then 1 else 0)
     in (y, m, d))"

definition dayNumber :: "int \<Rightarrow> int \<Rightarrow> int \<Rightarrow> int" where
  "dayNumber y m d =
    (let y' = (if m \<le> 2 then y - 1 else y);
         era = y' div 400;
         yoe = y' mod 400;
         mp = (m + 9) mod 12;
         doy = (153 * mp + 2) div 5 + d - 1;
         doe = yoe * 365 + yoe div 4 - yoe div 100 + doy
     in era * 146097 + doe - 719468)"

definition isLeap :: "int \<Rightarrow> bool" where
  "isLeap y \<longleftrightarrow> y mod 4 = 0 \<and> (y mod 100 \<noteq> 0 \<or> y mod 400 = 0)"

definition daysIn :: "int \<Rightarrow> int \<Rightarrow> int" where
  "daysIn y m = (if m = 2 then if isLeap y then 29 else 28
     else if m \<in> {4, 6, 9, 11} then 30 else 31)"

lemma div_bounds:
  fixes n k :: int
  assumes "0 < k"
  shows "k * (n div k) \<le> n" "n < k * (n div k) + k"
proof -
  have "n = k * (n div k) + n mod k" "0 \<le> n mod k" "n mod k < k" using assms by simp_all
  then show "k * (n div k) \<le> n" "n < k * (n div k) + k" by linarith+
qed

text \<open>The parts of a day of the era: centuries, periods of four years, years and days.\<close>

lemma era_parts:
  assumes "0 \<le> doe" "doe < 146097"
  obtains c q r s where "0 \<le> c" "c \<le> 3" "0 \<le> q" "q \<le> 24" "0 \<le> r" "r \<le> 3" "0 \<le> s" "s \<le> 365"
    "doe = 36524 * c + 1461 * q + 365 * r + s" "s = 365 \<longrightarrow> r = 3 \<and> (q = 24 \<longrightarrow> c = (3::int))"
proof -
  define c where "c = (if doe = 146096 then 3 else doe div 36524)"
  define n1 where "n1 = doe - 36524 * c"
  define q where "q = n1 div 1461"
  define n2 where "n2 = n1 - 1461 * q"
  define r where "r = (if n2 = 1460 then 3 else n2 div 365)"
  define s where "s = n2 - 365 * r"
  have c: "0 \<le> c \<and> c \<le> 3 \<and> 0 \<le> n1 \<and> n1 \<le> 36524 \<and> (n1 = 36524 \<longrightarrow> c = 3)"
  proof (cases "doe = 146096")
    case False
    then have "c = doe div 36524" by (simp add: c_def)
    with False show ?thesis using assms div_bounds [of 36524 doe] unfolding n1_def by auto
  qed (simp add: c_def n1_def)
  have q: "0 \<le> q \<and> q \<le> 24 \<and> 0 \<le> n2 \<and> n2 \<le> 1460"
    using c div_bounds [of 1461 n1] unfolding q_def n2_def by auto
  have r: "0 \<le> r \<and> r \<le> 3 \<and> 0 \<le> s \<and> s \<le> 365 \<and> (s = 365 \<longrightarrow> n2 = 1460 \<and> r = 3)"
  proof (cases "n2 = 1460")
    case False
    then have "r = n2 div 365" by (simp add: r_def)
    with False show ?thesis using q div_bounds [of 365 n2] unfolding s_def by auto
  qed (simp add: r_def s_def)
  show thesis
  proof (rule that [of c q r s])
    show "0 \<le> c" "c \<le> 3" "0 \<le> q" "q \<le> 24" "0 \<le> r" "r \<le> 3" "0 \<le> s" "s \<le> 365" using c q r by auto
    show "doe = 36524 * c + 1461 * q + 365 * r + s" by (simp add: s_def n2_def n1_def)
    show "s = 365 \<longrightarrow> r = 3 \<and> (q = 24 \<longrightarrow> c = 3)" using r c by (auto simp: n2_def)
  qed
qed

lemma yearOfEra_parts:
  fixes c q r s :: int
  assumes "0 \<le> c" "c \<le> 3" "0 \<le> q" "q \<le> 24" "0 \<le> r" "r \<le> 3" "0 \<le> s" "s \<le> 365"
    and s: "s = 365 \<longrightarrow> r = 3 \<and> (q = 24 \<longrightarrow> c = 3)"
  shows "yearOfEra (36524 * c + 1461 * q + 365 * r + s) = 100 * c + 4 * q + r"
proof (cases "s = 365 \<and> q = 24")
  case True
  with s show ?thesis by (simp add: yearOfEra_def)
next
  case False
  define doe where "doe = 36524 * c + 1461 * q + 365 * r + s"
  have n: "1461 * q + 365 * r + s < 36524"
    using assms False by (cases "r = 3 \<and> q = 24") auto
  have d1: "doe div 36524 = c" using n assms unfolding doe_def by (intro int_div_pos_eq [of _ _ _ "1461 * q + 365 * r + s"]) auto
  have d2: "doe div 146096 = 0" using n assms unfolding doe_def by auto
  let ?e = "q + 24 * c + 365 * r + s"
  have d3: "doe div 1460 = 25 * c + q + (if 1460 \<le> ?e then 1 else 0)"
  proof (cases "1460 \<le> ?e")
    case True
    then show ?thesis using assms unfolding doe_def
      by (intro int_div_pos_eq [of _ _ _ "?e - 1460"]) auto
  next
    case False
    then show ?thesis using assms unfolding doe_def by (intro int_div_pos_eq [of _ _ _ ?e]) auto
  qed
  let ?s = "s - (if 1460 \<le> ?e then 1 else 0)"
  have e: "0 \<le> ?s" "?s \<le> 364" using assms by (auto split: if_splits)
  have "doe - doe div 1460 + doe div 36524 - doe div 146096 = 365 * (100 * c + 4 * q + r) + ?s"
    unfolding d1 d2 d3 by (simp add: doe_def)
  then have "yearOfEra doe = (365 * (100 * c + 4 * q + r) + ?s) div 365" by (simp only: yearOfEra_def)
  also have "\<dots> = 100 * c + 4 * q + r" using e by (intro int_div_pos_eq [of _ _ _ ?s]) auto
  finally show ?thesis by (simp add: doe_def)
qed

text \<open>A day of a year that starts in March, as month and day.\<close>

lemma month_case:
  fixes s mp :: int
  assumes "153 * mp \<le> 5 * s + 2" "5 * s + 2 < 153 * mp + 153" "0 \<le> mp" "mp \<le> 11" "s \<le> 365"
  shows "1 \<le> s - (153 * mp + 2) div 5 + 1" (is ?a)
    and "s - (153 * mp + 2) div 5 + 1 \<le> (if mp = 11 then (if s = 365 then 29 else 28)
       else if mp \<in> {1, 3, 6, 8} then 30 else 31)" (is ?b)
proof -
  have "mp = 0 \<or> mp = 1 \<or> mp = 2 \<or> mp = 3 \<or> mp = 4 \<or> mp = 5 \<or> mp = 6 \<or> mp = 7 \<or> mp = 8 \<or> mp = 9
      \<or> mp = 10 \<or> mp = 11" using assms(3,4) by presburger
  then have "?a \<and> ?b" using assms(1,2,5) by (elim disjE) simp_all
  then show ?a ?b by auto
qed

lemma month_parts:
  fixes s :: int
  assumes "0 \<le> s" "s \<le> 365"
  obtains mp where "(5 * s + 2) div 153 = mp" "0 \<le> mp" "mp \<le> 11" "1 \<le> s - (153 * mp + 2) div 5 + 1"
    "s - (153 * mp + 2) div 5 + 1 \<le> (if mp = 11 then (if s = 365 then 29 else 28)
       else if mp \<in> {1, 3, 6, 8} then 30 else 31)"
proof -
  define mp where "mp = (5 * s + 2) div 153"
  have b: "0 \<le> mp" "mp \<le> 11" "153 * mp \<le> 5 * s + 2" "5 * s + 2 < 153 * mp + 153"
    using assms div_bounds [of 153 "5 * s + 2"] unfolding mp_def by linarith+
  show thesis using month_case [OF b(3,4,1,2) assms(2)]
    by (intro that [of mp]) (simp_all add: mp_def [symmetric] b)
qed

text \<open>The date of a day is a date of the calendar, and dayNumber gives the day back.\<close>

lemma civilOf_correct:
  assumes "civilOf day = (y, m, d)"
  shows "1 \<le> m \<and> m \<le> 12 \<and> 1 \<le> d \<and> d \<le> daysIn y m \<and> dayNumber y m d = day"
proof -
  define z where "z = day + 719468"
  define era where "era = z div 146097"
  have doe: "0 \<le> z mod 146097" "z mod 146097 < 146097" by auto
  from era_parts [OF doe] obtain c q r s where p: "0 \<le> c" "c \<le> 3" "0 \<le> q" "q \<le> 24" "0 \<le> r" "r \<le> 3"
    "0 \<le> s" "s \<le> 365" "z mod 146097 = 36524 * c + 1461 * q + 365 * r + s"
    "s = 365 \<longrightarrow> r = 3 \<and> (q = 24 \<longrightarrow> c = 3)" .
  define yoe where "yoe = 100 * c + 4 * q + r"
  have yoe: "yearOfEra (z mod 146097) = yoe"
    unfolding p(9) yoe_def by (rule yearOfEra_parts [OF p(1-8,10)])
  have yb: "0 \<le> yoe" "yoe < 400" using p by (auto simp: yoe_def)
  have "yoe div 4 = 25 * c + q" "yoe div 100 = c" using p by (auto simp: yoe_def)
  then have doy: "z mod 146097 - (365 * yoe + yoe div 4 - yoe div 100) = s" using p(9) by (simp add: yoe_def)
  from month_parts [OF p(7,8)] obtain mp where mp: "(5 * s + 2) div 153 = mp" "0 \<le> mp" "mp \<le> 11"
    "1 \<le> s - (153 * mp + 2) div 5 + 1"
    "s - (153 * mp + 2) div 5 + 1 \<le> (if mp = 11 then (if s = 365 then 29 else 28)
       else if mp \<in> {1, 3, 6, 8} then 30 else 31)" .
  have md: "m = (if mp < 10 then mp + 3 else mp - 9)" "d = s - (153 * mp + 2) div 5 + 1"
    "y = yoe + era * 400 + (if m \<le> 2 then 1 else 0)"
    using assms unfolding civilOf_def Let_def z_def [symmetric] yoe doy mp(1) era_def by auto
  have m: "1 \<le> m" "m \<le> 12" "m \<le> 2 \<longleftrightarrow> 10 \<le> mp" "(m + 9) mod 12 = mp"
    using mp(2,3) unfolding md(1) by auto
  have leap: "isLeap (yoe + era * 400 + 1)" if "s = 365"
  proof -
    have r: "r = 3" "q = 24 \<longrightarrow> c = 3" using p(10) that by auto
    have y1: "yoe + era * 400 + 1 = 4 * (25 * c + q + 1 + 100 * era)" using r by (simp add: yoe_def)
    show ?thesis
    proof (cases "q = 24")
      case True
      then have "yoe + era * 400 + 1 = 400 * (era + 1)" using r by (simp add: yoe_def)
      then show ?thesis by (simp add: isLeap_def)
    next
      case False
      have "yoe + era * 400 + 1 = 4 * (q + 1) + 100 * (c + 4 * era)" using r by (simp add: yoe_def)
      then have "(yoe + era * 400 + 1) mod 100 = (4 * (q + 1)) mod 100" by (simp only: mod_mult_self2)
      also have "\<dots> = 4 * (q + 1)" using False p(3,4) by (intro mod_pos_pos_trivial) auto
      finally have "(yoe + era * 400 + 1) mod 100 = 4 * (q + 1)" .
      then show ?thesis unfolding isLeap_def y1 using False p(3,4) by auto
    qed
  qed
  have days: "d \<le> daysIn y m"
  proof (cases "mp = 11")
    case True
    then have "m = 2" "y = yoe + era * 400 + 1" using md by auto
    then show ?thesis using mp(5) md(2) leap True by (auto simp: daysIn_def split: if_splits)
  next
    case False
    then show ?thesis using mp(2,3,5) md(1,2) by (auto simp: daysIn_def split: if_splits)
  qed
  have y': "(if m \<le> 2 then y - 1 else y) = yoe + era * 400" using md(3) by auto
  have "dayNumber y m d = era * 146097 + z mod 146097 - 719468"
    unfolding dayNumber_def Let_def y' m(4) md(2) using yb doy by simp
  also have "\<dots> = day" unfolding era_def by (simp add: z_def)
  finally show ?thesis using m days mp(4) md(2) by simp
qed

section \<open>Decimal text\<close>

primrec digitsN :: "nat \<Rightarrow> int \<Rightarrow> string" where
  "digitsN 0 n = []"
| "digitsN (Suc k) n = digitsN k (n div 10) @ [digitChar (nat (n mod 10))]"

definition isDec :: "char \<Rightarrow> bool" where
  "isDec c \<longleftrightarrow> 48 \<le> (of_char c :: nat) \<and> (of_char c :: nat) \<le> 57"

definition decVal :: "char \<Rightarrow> int" where
  "decVal c = int (of_char c) - 48"

definition readDec :: "string \<Rightarrow> int" where
  "readDec s = foldl (\<lambda>n c. 10 * n + decVal c) 0 s"

text \<open>Exactly k digits, or one given character, at the start of a text.\<close>

definition takeDec :: "nat \<Rightarrow> string \<Rightarrow> (int \<times> string) option" where
  "takeDec k s = (if k \<le> length s \<and> list_all isDec (take k s) then Some (readDec (take k s), drop k s) else None)"

definition takeChar :: "char \<Rightarrow> string \<Rightarrow> string option" where
  "takeChar c s = (case s of [] \<Rightarrow> None | x # r \<Rightarrow> if x = c then Some r else None)"

definition padTo :: "nat \<Rightarrow> string \<Rightarrow> string" where
  "padTo n s = replicate (n - length s) (CHR ''0'') @ s"

lemma digitChar_dec: "n < 10 \<Longrightarrow> isDec (digitChar n) \<and> decVal (digitChar n) = int n"
  by (simp add: isDec_def decVal_def digitChar_def)

lemma digitChar_0 [simp]: "digitChar 0 = CHR ''0''"
  by code_simp

lemma length_digitsN [simp]: "length (digitsN k n) = k"
  by (induction k arbitrary: n) auto

lemma digitsN_dec: "list_all isDec (digitsN k n)"
  by (induction k arbitrary: n) (auto simp: digitChar_dec)

lemma digitsN_value: "0 \<le> n \<Longrightarrow> n < 10 ^ k \<Longrightarrow> readDec (digitsN k n) = n"
proof (induction k arbitrary: n)
  case (Suc k)
  have "n div 10 < 10 ^ k" using Suc.prems by (simp add: int_div_less_self zdiv_mono1 div_less_iff_less_mult mult.commute)
  then show ?case using Suc by (simp add: readDec_def digitChar_dec)
qed (simp add: readDec_def)

lemma takeDec_digits: "0 \<le> n \<Longrightarrow> n < 10 ^ k \<Longrightarrow> takeDec k (digitsN k n @ r) = Some (n, r)"
  by (simp add: takeDec_def digitsN_dec digitsN_value)

lemma takeChar_Cons [simp]: "takeChar c (x # r) = (if x = c then Some r else None)"
  by (simp add: takeChar_def)

lemma natDigits_pad:
  "n < 10 ^ k \<Longrightarrow> 0 < k \<Longrightarrow> length (natDigits n) \<le> k \<and> padTo k (natDigits n) = digitsN k (int n)"
proof (induction k arbitrary: n)
  case (Suc k)
  show ?case
  proof (cases "n < 10")
    case True
    have z: "digitsN j 0 = replicate j (CHR ''0'')" for j
      by (induction j) (simp_all add: replicate_append_same)
    from True show ?thesis
      by (simp add: natDigits.simps [of n] padTo_def z zdiv_int [symmetric] nat_mod_distrib)
  next
    case False
    then have k: "0 < k" using Suc.prems(1) by (cases k) auto
    have "n div 10 < 10 ^ k" using Suc.prems(1) by (simp add: div_less_iff_less_mult mult.commute)
    from Suc.IH [OF this k] False show ?thesis
      by (simp add: natDigits.simps [of n] padTo_def nat_mod_distrib of_nat_div)
  qed
qed simp

section \<open>RFC3339Nano\<close>

record GoTime =
  gtNanos :: int
  gtOffset :: int

definition zeroTime :: GoTime where
  "zeroTime = \<lparr>gtNanos = -62135596800000000000, gtOffset = 0\<rparr>"

definition IsZero :: "GoTime \<Rightarrow> bool" where
  "IsZero t \<longleftrightarrow> gtNanos t = gtNanos zeroTime"

definition inUTC :: "GoTime \<Rightarrow> GoTime" where
  "inUTC t = t\<lparr>gtOffset := 0\<rparr>"

definition localNanos :: "GoTime \<Rightarrow> int" where
  "localNanos t = gtNanos t + gtOffset t * 60000000000"

definition stripZeros :: "string \<Rightarrow> string" where
  "stripZeros s = rev (dropWhile (\<lambda>c. c = CHR ''0'') (rev s))"

definition yearText :: "int \<Rightarrow> string" where
  "yearText y = (if y < 0 then ''-'' @ padTo 4 (natDigits (nat (- y))) else padTo 4 (natDigits (nat y)))"

definition formatTime :: "GoTime \<Rightarrow> string" where
  "formatTime t =
    (let n = localNanos t;
         sec = n div 1000000000;
         nsec = n mod 1000000000;
         sod = sec mod 86400;
         z = gtOffset t
     in case civilOf (sec div 86400) of (y, m, d) \<Rightarrow>
        yearText y @ ''-'' @ digitsN 2 m @ ''-'' @ digitsN 2 d @ ''T'' @
        digitsN 2 (sod div 3600) @ '':'' @ digitsN 2 (sod mod 3600 div 60) @ '':'' @ digitsN 2 (sod mod 60) @
        (if nsec = 0 then [] else ''.'' @ stripZeros (digitsN 9 nsec)) @
        (if z = 0 then ''Z''
         else (if z < 0 then ''-'' else ''+'') @ digitsN 2 (abs z div 60) @ '':'' @ digitsN 2 (abs z mod 60)))"

text \<open>The fraction is optional; digits beyond the ninth are dropped.\<close>

definition takeFrac :: "string \<Rightarrow> int \<times> string" where
  "takeFrac s = (case s of
     c # d # r \<Rightarrow>
       if (c = CHR ''.'' \<or> c = CHR '','') \<and> isDec d then
         (let ds = takeWhile isDec (d # r); k = take 9 ds
          in (readDec (k @ replicate (9 - length k) (CHR ''0'')), dropWhile isDec (d # r)))
       else (0, s)
   | _ \<Rightarrow> (0, s))"

definition takeZone :: "string \<Rightarrow> int option" where
  "takeZone s = (if s = ''Z'' then Some 0
     else case s of [] \<Rightarrow> None | c # r \<Rightarrow>
       if c = CHR ''+'' \<or> c = CHR ''-'' then
         Option.bind (takeDec 2 r) (\<lambda>(hh, r).
         Option.bind (takeChar (CHR '':'') r) (\<lambda>r.
         Option.bind (takeDec 2 r) (\<lambda>(mm, r).
         if r = [] \<and> hh \<le> 24 \<and> mm \<le> 60
         then Some ((if c = CHR ''-'' then -1 else 1) * (60 * hh + mm)) else None)))
       else None)"

definition parseTimeText :: "string \<Rightarrow> GoTime option" where
  "parseTimeText s =
     Option.bind (takeDec 4 s) (\<lambda>(y, s).
     Option.bind (takeChar (CHR ''-'') s) (\<lambda>s.
     Option.bind (takeDec 2 s) (\<lambda>(m, s).
     Option.bind (takeChar (CHR ''-'') s) (\<lambda>s.
     Option.bind (takeDec 2 s) (\<lambda>(d, s).
     Option.bind (takeChar (CHR ''T'') s) (\<lambda>s.
     Option.bind (takeDec 2 s) (\<lambda>(h, s).
     Option.bind (takeChar (CHR '':'') s) (\<lambda>s.
     Option.bind (takeDec 2 s) (\<lambda>(mi, s).
     Option.bind (takeChar (CHR '':'') s) (\<lambda>s.
     Option.bind (takeDec 2 s) (\<lambda>(sec, s).
     case takeFrac s of (nsec, s) \<Rightarrow>
     Option.bind (takeZone s) (\<lambda>z.
     if 1 \<le> m \<and> m \<le> 12 \<and> 1 \<le> d \<and> d \<le> daysIn y m \<and> h < 24 \<and> mi < 60 \<and> sec < 60
     then Some \<lparr>gtNanos = (dayNumber y m d * 86400 + h * 3600 + mi * 60 + sec - z * 60) * 1000000000 + nsec,
                gtOffset = z\<rparr>
     else None))))))))))))"

text \<open>The times whose text is in the layout's range: a local year of four digits, an offset of less
  than a day.\<close>

definition timeInRange :: "GoTime \<Rightarrow> bool" where
  "timeInRange t \<longleftrightarrow> 0 \<le> fst (civilOf (localNanos t div 86400000000000))
     \<and> fst (civilOf (localNanos t div 86400000000000)) \<le> 9999 \<and> \<bar>gtOffset t\<bar> < 1440"

lemma yearText_digits: "0 \<le> y \<Longrightarrow> y \<le> 9999 \<Longrightarrow> yearText y = digitsN 4 y"
  using natDigits_pad [of "nat y" 4] by (simp add: yearText_def)

lemma strip_pad: "\<exists>k. s = rev (dropWhile (\<lambda>c. c = z) (rev s)) @ replicate k z"
proof -
  let ?t = "takeWhile (\<lambda>c. c = z) (rev s)"
  have "?t = replicate (length ?t) z" by (rule replicate_eqI) (auto dest: set_takeWhileD)
  moreover have "rev (?t @ dropWhile (\<lambda>c. c = z) (rev s)) = s" by simp
  ultimately have "s = rev (dropWhile (\<lambda>c. c = z) (rev s)) @ replicate (length ?t) z"
    by (metis rev_append rev_replicate)
  then show ?thesis by blast
qed

lemma stripZeros_pad: "\<exists>k. s = stripZeros s @ replicate k (CHR ''0'')"
  unfolding stripZeros_def by (rule strip_pad)


lemma stripZeros_hd: "s \<noteq> [] \<Longrightarrow> readDec s \<noteq> 0 \<Longrightarrow> stripZeros s \<noteq> []"
proof
  assume "readDec s \<noteq> 0" "stripZeros s = []"
  obtain k where "s = replicate k (CHR ''0'')" using stripZeros_pad [of s] \<open>stripZeros s = []\<close> by auto
  moreover have "readDec (replicate k (CHR ''0'')) = 0"
    by (induction k) (simp_all add: readDec_def decVal_def)
  ultimately show False using \<open>readDec s \<noteq> 0\<close> by simp
qed

lemma isDec_not: "\<not> isDec (CHR ''Z'')" "\<not> isDec (CHR ''+'')" "\<not> isDec (CHR ''-'')"
  by (simp_all add: isDec_def)

lemma takeFrac_text:
  assumes "0 \<le> n" "n < 1000000000" "r \<noteq> []" "hd r \<in> {CHR ''Z'', CHR ''+'', CHR ''-''}"
  shows "takeFrac ((if n = 0 then [] else ''.'' @ stripZeros (digitsN 9 n)) @ r) = (n, r)"
proof (cases "n = 0")
  case True
  obtain c q where "r = c # q" using assms(3) by (cases r) auto
  then show ?thesis using True assms(4) by (auto simp: takeFrac_def split: list.splits)
next
  case False
  let ?f = "stripZeros (digitsN 9 n)"
  have v: "readDec (digitsN 9 n) = n" using assms by (intro digitsN_value) auto
  have "?f \<noteq> []" using v False by (intro stripZeros_hd) (auto simp: length_0_conv [symmetric])
  obtain k where k: "digitsN 9 n = ?f @ replicate k (CHR ''0'')" using stripZeros_pad by blast
  then have len: "length ?f + k = 9" by (metis length_append length_digitsN length_replicate)
  have dec: "\<forall>c \<in> set ?f. isDec c"
    using digitsN_dec [of 9 n] by (subst (asm) k) (simp add: list_all_iff)
  obtain d fs where f: "?f = d # fs" using \<open>?f \<noteq> []\<close> by (cases ?f) auto
  have nd: "\<not> isDec (hd r)" using assms(4) isDec_not by auto
  have tw: "takeWhile isDec (?f @ r) = ?f" "dropWhile isDec (?f @ r) = r"
    using dec nd assms(3) by (cases r; simp add: takeWhile_append2 dropWhile_append2)+
  have "takeFrac (''.'' @ ?f @ r) = (readDec (take 9 ?f @ replicate (9 - length (take 9 ?f)) (CHR ''0'')), r)"
    using tw dec unfolding f by (simp add: takeFrac_def Let_def)
  also have "take 9 ?f @ replicate (9 - length (take 9 ?f)) (CHR ''0'') = digitsN 9 n"
    using len k by (metis add_diff_cancel_left' diff_diff_cancel le_add1 min.absorb2 take_all length_take)
  finally show ?thesis using v False by simp
qed

lemma takeZone_text:
  assumes "\<bar>z\<bar> < 1440"
  shows "takeZone (if z = 0 then ''Z'' else (if z < 0 then ''-'' else ''+'') @ digitsN 2 (\<bar>z\<bar> div 60) @ '':'' @ digitsN 2 (\<bar>z\<bar> mod 60)) = Some z"
proof (cases "z = 0")
  case False
  have h: "takeDec 2 (digitsN 2 (\<bar>z\<bar> div 60) @ r) = Some (\<bar>z\<bar> div 60, r)" for r
    using assms by (intro takeDec_digits) auto
  have m: "takeDec 2 (digitsN 2 (\<bar>z\<bar> mod 60)) = Some (\<bar>z\<bar> mod 60, [])"
    using takeDec_digits [of "\<bar>z\<bar> mod 60" 2 "[]"] by simp
  have "\<bar>z\<bar> div 60 \<le> 24" using assms by auto
  moreover have "60 * (\<bar>z\<bar> div 60) + \<bar>z\<bar> mod 60 = \<bar>z\<bar>" by simp
  ultimately show ?thesis using False h m
    by (auto simp: takeZone_def abs_if split: if_splits)
qed (simp add: takeZone_def)

lemma split_seconds:
  fixes sod :: int
  assumes "0 \<le> sod" "sod < 86400"
  shows "0 \<le> sod div 3600" "sod div 3600 < 24" "0 \<le> sod mod 3600 div 60" "sod mod 3600 div 60 < 60"
    "0 \<le> sod mod 60" "sod mod 60 < 60" "sod div 3600 * 3600 + sod mod 3600 div 60 * 60 + sod mod 60 = sod"
proof -
  have m: "sod mod 3600 mod 60 = sod mod 60" by (simp add: mod_mod_cancel)
  have e: "sod = 3600 * (sod div 3600) + sod mod 3600" "sod mod 3600 = 60 * (sod mod 3600 div 60) + sod mod 60"
    using m by (metis mult_div_mod_eq)+
  have b: "0 \<le> sod mod 3600" "sod mod 3600 < 3600" "0 \<le> sod mod 60" "sod mod 60 < 60" by simp_all
  show "sod div 3600 * 3600 + sod mod 3600 div 60 * 60 + sod mod 60 = sod" using e by linarith
  show "0 \<le> sod div 3600" "sod div 3600 < 24" using e(1) b(1,2) assms by linarith+
  show "0 \<le> sod mod 3600 div 60" "sod mod 3600 div 60 < 60" using e(2) b by linarith+
  show "0 \<le> sod mod 60" "sod mod 60 < 60" using b by auto
qed

lemma parse_fields:
  assumes "0 \<le> y" "y \<le> 9999" "1 \<le> m" "m \<le> 12" "1 \<le> d" "d \<le> daysIn y m" "0 \<le> h" "h < 24"
    "0 \<le> mi" "mi < 60" "0 \<le> se" "se < 60" "takeFrac (fr @ zz) = (ns, zz)" "takeZone zz = Some z"
  shows "parseTimeText (digitsN 4 y @ ''-'' @ digitsN 2 m @ ''-'' @ digitsN 2 d @ ''T'' @ digitsN 2 h @ '':'' @
      digitsN 2 mi @ '':'' @ digitsN 2 se @ fr @ zz)
    = Some \<lparr>gtNanos = (dayNumber y m d * 86400 + h * 3600 + mi * 60 + se - z * 60) * 1000000000 + ns, gtOffset = z\<rparr>"
proof -
  have "d \<le> 31" using assms(6) by (auto simp: daysIn_def split: if_splits)
  then show ?thesis unfolding parseTimeText_def using assms by (simp add: takeDec_digits)
qed

text \<open>Time stamps survive their text: parsing the RFC3339Nano text of a time whose local year has four
  digits gives back the same instant, to the nanosecond, and the same offset.\<close>

lemma time_text:
  assumes "timeInRange t"
  shows "parseTimeText (formatTime t) = Some t"
proof -
  define n where "n = localNanos t"
  define sec where "sec = n div 1000000000"
  define sod where "sod = sec mod 86400"
  obtain y m d where c: "civilOf (sec div 86400) = (y, m, d)" by (metis prod_cases3)
  from civilOf_correct [OF c] have md: "1 \<le> m" "m \<le> 12" "1 \<le> d" "d \<le> daysIn y m" "dayNumber y m d = sec div 86400"
    by auto
  have "n div 86400000000000 = sec div 86400" unfolding sec_def by (simp add: zdiv_zmult2_eq [symmetric])
  then have y: "0 \<le> y" "y \<le> 9999" and z: "\<bar>gtOffset t\<bar> < 1440"
    using assms c by (simp_all add: timeInRange_def n_def)
  have sod: "0 \<le> sod" "sod < 86400" unfolding sod_def by simp_all
  note ss = split_seconds [OF sod]
  let ?zt = "if gtOffset t = 0 then ''Z'' else (if gtOffset t < 0 then ''-'' else ''+'')
    @ digitsN 2 (\<bar>gtOffset t\<bar> div 60) @ '':'' @ digitsN 2 (\<bar>gtOffset t\<bar> mod 60)"
  have zt: "?zt \<noteq> []" "hd ?zt \<in> {CHR ''Z'', CHR ''+'', CHR ''-''}" by auto
  have fr: "takeFrac ((if n mod 1000000000 = 0 then [] else ''.'' @ stripZeros (digitsN 9 (n mod 1000000000))) @ ?zt)
      = (n mod 1000000000, ?zt)" by (rule takeFrac_text [OF _ _ zt]) auto
  have layout: "formatTime t = digitsN 4 y @ ''-'' @ digitsN 2 m @ ''-'' @ digitsN 2 d @ ''T'' @
      digitsN 2 (sod div 3600) @ '':'' @ digitsN 2 (sod mod 3600 div 60) @ '':'' @ digitsN 2 (sod mod 60) @
      (if n mod 1000000000 = 0 then [] else ''.'' @ stripZeros (digitsN 9 (n mod 1000000000))) @ ?zt"
    unfolding formatTime_def Let_def n_def [symmetric] sec_def [symmetric] c sod_def [symmetric]
    using yearText_digits [OF y] by simp
  have secs: "sec div 86400 * 86400 + sod = sec" unfolding sod_def by simp
  have "(sec div 86400 * 86400 + sod div 3600 * 3600 + sod mod 3600 div 60 * 60 + sod mod 60 - gtOffset t * 60)
      * 1000000000 + n mod 1000000000 = gtNanos t"
  proof -
    have "sec div 86400 * 86400 + sod div 3600 * 3600 + sod mod 3600 div 60 * 60 + sod mod 60 = sec"
      using ss(7) secs by linarith
    moreover have "sec * 1000000000 + n mod 1000000000 = n" unfolding sec_def by simp
    moreover have "n = gtNanos t + gtOffset t * 60000000000" by (simp add: n_def localNanos_def)
    ultimately show ?thesis by (simp add: algebra_simps)
  qed
  moreover have "parseTimeText (formatTime t) = Some \<lparr>gtNanos = (sec div 86400 * 86400 + sod div 3600 * 3600
      + sod mod 3600 div 60 * 60 + sod mod 60 - gtOffset t * 60) * 1000000000 + n mod 1000000000, gtOffset = gtOffset t\<rparr>"
    unfolding layout md(5) [symmetric]
    by (rule parse_fields [OF y md(1-4) ss(1-6) fr takeZone_text [OF z]])
  ultimately show ?thesis by simp
qed

lemma sample_time: "formatTime \<lparr>gtNanos = 1700000000123456000, gtOffset = 420\<rparr> = ''2023-11-15T05:13:20.123456+07:00''"
  by code_simp

end
