(* ===== verification/Dashboard.thy ===== *)
theory Dashboard
  imports Movement_Repo Times
begin

text \<open>
  The dashboard domain (src/services/inventory/domains/dashboard): the aggregate queries of the
  repository, evaluated the way PostgreSQL evaluates them, and the cached usecases. Time stamps are
  microseconds since 1970-01-01 UTC; days are numbered from that date. The clock of the database
  server, now() in the queries, is one reading of the clock of the world.
\<close>

section \<open>The calendar of the queries\<close>

definition dayOf :: "int \<Rightarrow> int" where
  "dayOf ts = ts div 86400000000"

definition dateText :: "int \<Rightarrow> int \<Rightarrow> int \<Rightarrow> string" where
  "dateText y m d = padTo 4 (Itoa y) @ ''-'' @ padTo 2 (Itoa m) @ ''-'' @ padTo 2 (Itoa d)"

definition toCharDay :: "int \<Rightarrow> string" where
  "toCharDay day = (case civilOf day of (y, m, d) \<Rightarrow> dateText y m d)"

text \<open>date_trunc of a day to its ISO week, the day number of the Monday (1970-01-01 was a Thursday),
  and to its month, counted in months from year 0.\<close>

definition weekStart :: "int \<Rightarrow> int" where
  "weekStart day = day - (day + 3) mod 7"

definition monthIndex :: "int \<Rightarrow> int" where
  "monthIndex day = (case civilOf day of (y, m, d) \<Rightarrow> y * 12 + (m - 1))"

definition monthText :: "int \<Rightarrow> string" where
  "monthText k = dateText (k div 12) (k mod 12 + 1) 1"

section \<open>Repository\<close>

definition confirmedOf :: "string \<Rightarrow> movementRow \<Rightarrow> bool" where
  "confirmedOf tenantID m \<longleftrightarrow> mvrTenantID m = tenantID \<and> mvrStatus m = StatusConfirmed"

text \<open>COALESCE of the SUM of a product's quantities over the warehouses of the tenant.\<close>

definition productStock :: "string \<Rightarrow> string \<Rightarrow> database \<Rightarrow> int" where
  "productStock tenantID productID d = sum_list (map sbrQuantity
     (filter (\<lambda>r. sbrTenantID r = tenantID \<and> sbrProductID r = productID) (dbBalances d)))"

definition summaryQuery :: "string \<Rightarrow> int \<Rightarrow> database \<Rightarrow> Summary" where
  "summaryQuery tenantID now d =
    \<lparr>suTotalProducts = countWhere (prodLive tenantID) (dbProducts d),
     suTotalWarehouses = countWhere (\<lambda>w. whLive tenantID w \<and> whrIsActive w) (dbWarehouses d),
     suMovementsToday = countWhere (\<lambda>m. confirmedOf tenantID m
       \<and> dayOf (mvrUpdatedAt m) = dayOf now) (dbMovements d),
     suLowStockCount = countWhere (\<lambda>p. prodLive tenantID p
       \<and> productStock tenantID (prrID p) d < prrReorderLevel p) (dbProducts d)\<rparr>"

definition dashSummary :: "string \<Rightarrow> Summary app" where
  "dashSummary tenantID =
    bindM nowUTC (\<lambda>now. queryStmt Pool (summaryQuery tenantID now))"

definition ChartDaily :: string where "ChartDaily = ''daily''"
definition ChartWeekly :: string where "ChartWeekly = ''weekly''"
definition ChartMonthly :: string where "ChartMonthly = ''monthly''"

lemmas chart_defs = ChartDaily_def ChartWeekly_def ChartMonthly_def

text \<open>A chart query: the dense list of buckets from lo to hi in the given step, LEFT JOIN the counts
  of the confirmed movements by the bucket of updated_at.\<close>

definition bucketRange :: "int \<Rightarrow> int \<Rightarrow> nat \<Rightarrow> int list" where
  "bucketRange lo step n = map (\<lambda>k. lo + step * int k) [0..<n]"

definition chartRows :: "string \<Rightarrow> (int \<Rightarrow> int) \<Rightarrow> (int \<Rightarrow> string) \<Rightarrow> int list \<Rightarrow> database \<Rightarrow> MovementChartPoint list" where
  "chartRows tenantID bucket label bs d =
    map (\<lambda>b. \<lparr>mcpBucketStart = label b,
              mcpMovementCount = countWhere (\<lambda>m. confirmedOf tenantID m
                \<and> bucket (dayOf (mvrUpdatedAt m)) = b) (dbMovements d)\<rparr>) bs"

definition sqlMovementChartDaily :: "string \<Rightarrow> int \<Rightarrow> database \<Rightarrow> MovementChartPoint list" where
  "sqlMovementChartDaily tenantID now =
    chartRows tenantID (\<lambda>x. x) toCharDay (bucketRange (dayOf now - 29) 1 30)"

definition sqlMovementChartWeekly :: "string \<Rightarrow> int \<Rightarrow> database \<Rightarrow> MovementChartPoint list" where
  "sqlMovementChartWeekly tenantID now =
    chartRows tenantID weekStart toCharDay (bucketRange (weekStart (dayOf now) - 77) 7 12)"

definition sqlMovementChartMonthly :: "string \<Rightarrow> int \<Rightarrow> database \<Rightarrow> MovementChartPoint list" where
  "sqlMovementChartMonthly tenantID now =
    chartRows tenantID monthIndex monthText (bucketRange (monthIndex (dayOf now) - 11) 1 12)"

definition dashMovementChart :: "string \<Rightarrow> string \<Rightarrow> MovementChartPoint list app" where
  "dashMovementChart tenantID period =
    (let run = (\<lambda>sql. bindM nowUTC (\<lambda>now. queryStmt Pool (sql tenantID now)))
     in if period = ChartDaily then run sqlMovementChartDaily
        else if period = ChartWeekly then run sqlMovementChartWeekly
        else if period = ChartMonthly then run sqlMovementChartMonthly
        else throw (Raw (''repository: invalid chart period '' @ period)))"

definition NormalizeChartPeriod :: "string \<Rightarrow> err + string" where
  "NormalizeChartPeriod s =
    (let k = ToLower (TrimSpace s)
     in if k = [] \<or> k = ChartDaily then Inr ChartDaily
        else if k = ChartWeekly then Inr ChartWeekly
        else if k = ChartMonthly then Inr ChartMonthly
        else Inl (Raw ''invalid chart period''))"

record StorageUtilizationRow =
  stWarehouseID :: string
  stWarehouseCode :: string
  stWarehouseName :: string
  stOnHandQty :: int
  stPercent :: int

definition warehouseStock :: "string \<Rightarrow> string \<Rightarrow> database \<Rightarrow> int" where
  "warehouseStock tenantID warehouseID d = sum_list (map sbrQuantity
     (filter (\<lambda>r. sbrTenantID r = tenantID \<and> sbrWarehouseID r = warehouseID) (dbBalances d)))"

text \<open>ROUND of the numeric quotient to a whole per cent, half away from zero; both operands are
  positive where it is evaluated.\<close>

definition roundPercent :: "int \<Rightarrow> int \<Rightarrow> int" where
  "roundPercent q m = (200 * q + m) div (2 * m)"

text \<open>The common table wh_qty with its window aggregate MAX, ORDER BY on_hand_qty DESC,
  warehouse_name ASC and LIMIT. Rows that tie on both are in storage order.\<close>

definition storageQuery :: "(string \<Rightarrow> string) \<Rightarrow> string \<Rightarrow> int \<Rightarrow> database \<Rightarrow> StorageUtilizationRow list" where
  "storageQuery coll tenantID limit d =
    (let ws = filter (\<lambda>w. whLive tenantID w \<and> whrIsActive w) (dbWarehouses d);
         qty = (\<lambda>w. warehouseStock tenantID (whrID w) d);
         mx = foldr max (map qty ws) 0;
         row = (\<lambda>w. \<lparr>stWarehouseID = whrID w, stWarehouseCode = whrCode w,
                     stWarehouseName = whrName w, stOnHandQty = qty w,
                     stPercent = (if mx \<le> 0 then 0 else roundPercent (qty w) mx)\<rparr>)
     in take (nat limit) (sort_key (\<lambda>r. (- stOnHandQty r, coll (stWarehouseName r))) (map row ws)))"

definition dashStorage :: "string \<Rightarrow> int \<Rightarrow> StorageUtilizationRow list app" where
  "dashStorage tenantID limit0 w0 =
    (let limit = (if limit0 \<le> 0 then 10 else limit0);
         limit = (if limit > 100 then 100 else limit)
     in queryStmt Pool (storageQuery (wcoll w0) tenantID limit) w0)"

section \<open>Usecases\<close>

fun decSummary :: "cval \<Rightarrow> Summary option" where
  "decSummary (CVSummary x) = Some x"
| "decSummary _ = None"

fun decChart :: "cval \<Rightarrow> MovementChart option" where
  "decChart (CVChart x) = Some x"
| "decChart _ = None"

definition GetDashboardSummary :: "ctx \<Rightarrow> Summary app" where
  "GetDashboardSummary c =
    bindM (liftE (TenantIDFromContext c)) (\<lambda>tid.
    readThrough wired (KeyDashboardSummary tid) decSummary CVSummary TTLDashboardSummary
      (dashSummary tid))"

definition GetDashboardMovementsChart :: "ctx \<Rightarrow> string \<Rightarrow> MovementChart app" where
  "GetDashboardMovementsChart c periodParam =
    (case NormalizeChartPeriod periodParam of
       Inl _ \<Rightarrow> throw (App (withMessage ErrValidationError ''period must be daily, weekly, or monthly''))
     | Inr period \<Rightarrow>
         bindM (liftE (TenantIDFromContext c)) (\<lambda>tid.
         let fp = ChartPeriodFingerprint period;
             ckey = KeyDashboardMovementsChart tid fp
         in readThrough wired ckey decChart CVChart TTLDashboardChart
           (bindM (dashMovementChart tid period) (\<lambda>points.
            ret \<lparr>mcPeriod = period, mcPoints = points\<rparr>))))"

definition GetStorageUtilization :: "ctx \<Rightarrow> int \<Rightarrow> StorageUtilizationRow list app" where
  "GetStorageUtilization c limit =
    bindM (liftE (TenantIDFromContext c)) (\<lambda>tid.
    bindM (dashStorage tid limit) (\<lambda>rows.
    ret (map (\<lambda>r. \<lparr>stWarehouseID = stWarehouseID r, stWarehouseCode = stWarehouseCode r,
        stWarehouseName = stWarehouseName r, stOnHandQty = stOnHandQty r,
        stPercent = stPercent r\<rparr>) rows)))"

section \<open>Correctness\<close>

lemma dashSummary_frame: "keeps sameDB (dashSummary t)"
  unfolding dashSummary_def by (intro dbs.keeps_bind dbs_basic)

lemma dashMovementChart_frame: "keeps sameDB (dashMovementChart t p)"
  unfolding dashMovementChart_def Let_def
  by (intro dbs.keeps_if dbs.keeps_bind dbs_basic dbs.keeps_throw)

lemma GetDashboardSummary_frame: "keeps sameDB (GetDashboardSummary c)"
  unfolding GetDashboardSummary_def
  by (intro dbs.keeps_bind dbs.keeps_liftE wiredc.readThrough_frame dashSummary_frame)

lemma GetDashboardMovementsChart_frame: "keeps sameDB (GetDashboardMovementsChart c p)"
  unfolding GetDashboardMovementsChart_def Let_def
  by (intro dbs.keeps_sum dbs.keeps_bind dbs.keeps_liftE dbs.keeps_throw wiredc.readThrough_frame
      dashMovementChart_frame dbs.keeps_ret)

lemma GetStorageUtilization_frame: "keeps sameDB (GetStorageUtilization c l)"
proof -
  have "keeps sameDB (dashStorage t l)" for t
    by (rule keepsI) (auto simp: dashStorage_def Let_def intro: keeps_query [unfolded keeps_def, rule_format])
  then show ?thesis unfolding GetStorageUtilization_def
    by (intro dbs.keeps_bind dbs.keeps_liftE dbs.keeps_ret)
qed

text \<open>The dense buckets partition the confirmed movements of the window.\<close>

lemma sum_countWhere_partition:
  "distinct bs \<Longrightarrow> sum_list (map (\<lambda>b. countWhere (\<lambda>m. P m \<and> f m = b) xs) bs)
     = countWhere (\<lambda>m. P m \<and> f m \<in> set bs) xs"
proof (induction xs)
  case Nil
  show ?case by (induction bs) auto
next
  case (Cons x xs)
  have one: "distinct bs \<Longrightarrow> sum_list (map (\<lambda>b. (if P x \<and> f x = b then 1 else 0)) bs)
      = (if P x \<and> f x \<in> set bs then (1::int) else 0)"
    by (induction bs) auto
  show ?case using Cons one by (simp add: sum_list_addf)
qed

lemma distinct_bucketRange: "step \<noteq> 0 \<Longrightarrow> distinct (bucketRange lo step n)"
  by (auto simp: bucketRange_def distinct_map inj_on_def)

lemma set_bucketRange: "b \<in> set (bucketRange lo step n) \<longleftrightarrow> (\<exists>k < n. b = lo + step * int k)"
  by (auto simp: bucketRange_def)

lemma chartRows_sum:
  "distinct bs \<Longrightarrow> sum_list (map mcpMovementCount (chartRows t bucket label bs d))
     = countWhere (\<lambda>m. confirmedOf t m \<and> bucket (dayOf (mvrUpdatedAt m)) \<in> set bs) (dbMovements d)"
  using sum_countWhere_partition [of bs "confirmedOf t" "\<lambda>m. bucket (dayOf (mvrUpdatedAt m))" "dbMovements d"]
  by (simp add: chartRows_def comp_def)

lemma weekStart_bounds: "weekStart x \<le> x" "x < weekStart x + 7" "7 dvd weekStart x + 3"
proof -
  have "(x + 3) mod 7 < 7" "0 \<le> (x + 3) mod 7" by simp_all
  then show "weekStart x \<le> x" "x < weekStart x + 7" by (simp_all add: weekStart_def)
  show "7 dvd weekStart x + 3" unfolding weekStart_def by (simp add: algebra_simps dvd_minus_mod)
qed

lemma week_in_range:
  "weekStart x \<in> set (bucketRange (weekStart n - 77) 7 12) \<longleftrightarrow> weekStart n - 77 \<le> x \<and> x < weekStart n + 7"
proof
  assume "weekStart x \<in> set (bucketRange (weekStart n - 77) 7 12)"
  then show "weekStart n - 77 \<le> x \<and> x < weekStart n + 7"
    using weekStart_bounds(1,2) [of x] by (auto simp: set_bucketRange)
next
  assume a: "weekStart n - 77 \<le> x \<and> x < weekStart n + 7"
  have "7 dvd (weekStart x + 3) - (weekStart n + 3)"
    by (rule dvd_diff) (rule weekStart_bounds(3))+
  then have "7 dvd weekStart x - weekStart n" by simp
  then obtain k where k: "weekStart x - weekStart n = 7 * k" by blast
  have "-11 \<le> k" "k \<le> 0" using a k weekStart_bounds(1,2) [of x] by linarith+
  then show "weekStart x \<in> set (bucketRange (weekStart n - 77) 7 12)"
    using k by (auto simp: set_bucketRange intro!: exI [of _ "nat (k + 11)"])
qed


end
