(* ===== verification/Service.thy ===== *)
theory Service
  imports Stock_Frames Dashboard
begin

text \<open>
  The facade of the inventory service (src/services/inventory/service): every method delegates to
  the usecase of its domain. A request is a method with its arguments, a response the value it
  returns, so that a theorem about serve is a theorem about every operation of the service. PingDB
  is a round trip to the database server and reads nothing.
\<close>

datatype request =
    RPingDB
  | RListCategories ListWarehousesInput
  | RGetCategory string
  | RCreateCategory CategoryCreateInput
  | RUpdateCategory string CategoryUpdateInput
  | RDeleteCategory string
  | RListProducts ListProductsInput
  | RGetProduct string
  | RCreateProduct ProductCreateInput
  | RUpdateProduct string ProductUpdateInput
  | RDeleteProduct string
  | RRestoreProduct string
  | RListWarehouses ListWarehousesInput
  | RGetWarehouse string
  | RCreateWarehouse CreateInput
  | RUpdateWarehouse string UpdateInput
  | RDeleteWarehouse string
  | RCreateInbound string CreateMovementBase
  | RCreateOutbound string CreateMovementBase
  | RCreateTransfer string string CreateMovementBase
  | RCreateAdjustment "string option" "string option" CreateMovementBase
  | RGetMovement string
  | RListMovements ListMovementsInput
  | RConfirmMovement string
  | RCancelMovement string
  | RListAuditLogs ListAuditLogsInput
  | RDashboardSummary
  | RDashboardMovementsChart string
  | RStorageUtilization int

datatype response =
    PDone
  | PCategories "Category ListOutput"
  | PCategory Category
  | PProducts "Product ListOutput"
  | PProduct Product
  | PWarehouses "Warehouse ListOutput"
  | PWarehouse Warehouse
  | PMovements "Movement ListOutput"
  | PMovement Movement
  | PAudit "Entry ListOutput"
  | PSummary Summary
  | PChart MovementChart
  | PStorage "StorageUtilizationRow list"

text \<open>The result of a method as a response.\<close>

definition asResp :: "('a \<Rightarrow> response) \<Rightarrow> 'a app \<Rightarrow> response app" where
  "asResp f m = bindM m (\<lambda>a. ret (f a))"

definition PingDB :: "ctx \<Rightarrow> unit app" where
  "PingDB c = queryStmt Pool (\<lambda>_. ())"

fun serve :: "ctx \<Rightarrow> request \<Rightarrow> response app" where
  "serve c RPingDB = asResp (\<lambda>_. PDone) (PingDB c)"
| "serve c (RListCategories inp) = asResp PCategories (ListCategories c inp)"
| "serve c (RGetCategory i) = asResp PCategory (GetCategory c i)"
| "serve c (RCreateCategory inp) = asResp PCategory (CreateCategory c inp)"
| "serve c (RUpdateCategory i inp) = asResp PCategory (UpdateCategory c i inp)"
| "serve c (RDeleteCategory i) = asResp (\<lambda>_. PDone) (DeleteCategory c i)"
| "serve c (RListProducts inp) = asResp PProducts (ListProducts c inp)"
| "serve c (RGetProduct i) = asResp PProduct (GetProduct c i)"
| "serve c (RCreateProduct inp) = asResp PProduct (CreateProduct c inp)"
| "serve c (RUpdateProduct i inp) = asResp PProduct (UpdateProduct c i inp)"
| "serve c (RDeleteProduct i) = asResp (\<lambda>_. PDone) (DeleteProduct c i)"
| "serve c (RRestoreProduct i) = asResp PProduct (RestoreProduct c i)"
| "serve c (RListWarehouses inp) = asResp PWarehouses (ListWarehouses c inp)"
| "serve c (RGetWarehouse i) = asResp PWarehouse (GetWarehouse c i)"
| "serve c (RCreateWarehouse inp) = asResp PWarehouse (CreateWarehouse c inp)"
| "serve c (RUpdateWarehouse i inp) = asResp PWarehouse (UpdateWarehouse c i inp)"
| "serve c (RDeleteWarehouse i) = asResp (\<lambda>_. PDone) (DeleteWarehouse c i)"
| "serve c (RCreateInbound dst inp) = asResp PMovement (CreateInbound c dst inp)"
| "serve c (RCreateOutbound src inp) = asResp PMovement (CreateOutbound c src inp)"
| "serve c (RCreateTransfer src dst inp) = asResp PMovement (CreateTransfer c src dst inp)"
| "serve c (RCreateAdjustment src dst inp) = asResp PMovement (CreateAdjustment c src dst inp)"
| "serve c (RGetMovement i) = asResp PMovement (GetMovement c i)"
| "serve c (RListMovements inp) = asResp PMovements (ListMovements c inp)"
| "serve c (RConfirmMovement i) = asResp PMovement (ConfirmMovement c i)"
| "serve c (RCancelMovement i) = asResp PMovement (CancelMovement c i)"
| "serve c (RListAuditLogs inp) = asResp PAudit (ListAuditLogs c inp)"
| "serve c RDashboardSummary = asResp PSummary (GetDashboardSummary c)"
| "serve c (RDashboardMovementsChart p) = asResp PChart (GetDashboardMovementsChart c p)"
| "serve c (RStorageUtilization n) = asResp PStorage (GetStorageUtilization c n)"

text \<open>The lines of a request; the API decodes their quantities into int32.\<close>

fun requestLines :: "request \<Rightarrow> LineInput list" where
  "requestLines (RCreateInbound _ inp) = cbLines inp"
| "requestLines (RCreateOutbound _ inp) = cbLines inp"
| "requestLines (RCreateTransfer _ _ inp) = cbLines inp"
| "requestLines (RCreateAdjustment _ _ inp) = cbLines inp"
| "requestLines _ = []"

definition typedRequest :: "request \<Rightarrow> bool" where
  "typedRequest r \<longleftrightarrow> (\<forall>l \<in> set (requestLines r). is_int32 (liQuantity l))"

lemma typedRequest_le: "typedRequest r \<Longrightarrow> \<forall>l \<in> set (requestLines r). liQuantity l \<le> MaxInt32"
  by (auto simp: typedRequest_def is_int32_def MaxInt32_def)

section \<open>Frames of the service\<close>

context app_frame
begin

lemma fr_asResp: "framed Q m \<Longrightarrow> framed Q (asResp f m)"
  unfolding asResp_def by (intro fr_bind fr_ret)

lemma keeps_asResp: "keeps (liftQ Pool Q) m \<Longrightarrow> keeps (liftQ Pool Q) (asResp f m)"
  unfolding asResp_def by (intro lifted.keeps_bind lifted.keeps_ret)

lemma fr_queries:
  "framed Q (PingDB c)" "framed Q (GetDashboardSummary c)"
  "framed Q (GetDashboardMovementsChart c p)" "framed Q (GetStorageUtilization c n)"
  unfolding PingDB_def
  by (intro fr_basic fr_sameDB GetDashboardSummary_frame GetDashboardMovementsChart_frame
      GetStorageUtilization_frame)+

lemma serve_framed_other:
  assumes "TenantIDFromContext c = Inr t" "\<forall>l \<in> set (requestLines r). liQuantity l \<le> MaxInt32"
    and "\<And>i. r \<noteq> RConfirmMovement i"
  shows "framed Q (serve c r)"
  by (cases r; use assms in \<open>auto intro!: fr_asResp fr_queries fr_ListCategories fr_GetCategory fr_CreateCategory
  fr_UpdateCategory fr_DeleteCategory fr_ListProducts fr_GetProduct fr_CreateProduct fr_UpdateProduct
  fr_DeleteProduct fr_RestoreProduct fr_ListWarehouses fr_GetWarehouse fr_CreateWarehouse
  fr_UpdateWarehouse fr_DeleteWarehouse fr_CreateMovement fr_GetMovement fr_ListMovements
  fr_CancelMovement fr_ListAuditLogs\<close>)

end

context stock_frame
begin

lemma fr_ConfirmMovement:
  assumes "TenantIDFromContext c = Inr t"
  shows "keeps (liftQ Pool Q) (ConfirmMovement c i)"
proof -
  have "framed Q (confirmTx t m c')" if "TenantIDFromContext c' = Inr t" for m c'
    using that by (rule fr_confirmTx)
  have tx: "keeps (liftQ Pool Q) (RunInTx c (confirmTx t m))" for m
  proof -
    have "keeps (liftQ Pool Q) (RunInTx c (\<lambda>c'. if TenantIDFromContext c' = Inr t then confirmTx t m c' else throw (Raw [])))"
      by (rule fr_RunInTx) (auto intro: fr_confirmTx fr_throw)
    moreover have "RunInTx c (\<lambda>c'. if TenantIDFromContext c' = Inr t then confirmTx t m c' else throw (Raw []))
      = RunInTx c (confirmTx t m)"
      by (rule ext) (simp add: RunInTx_def assms)
    ultimately show ?thesis by simp
  qed
  show ?thesis
    unfolding ConfirmMovement_def Let_def assms
    by (simp, intro lifted.keeps_bind tx framedD [OF fr_afterConfirm] framedD [OF fr_mvGetByID(1)])
qed

lemma serve_framed:
  assumes "TenantIDFromContext c = Inr t" "\<forall>l \<in> set (requestLines r). liQuantity l \<le> MaxInt32"
  shows "keeps (liftQ Pool Q) (serve c r)"
proof (cases "\<exists>i. r = RConfirmMovement i")
  case True
  then show ?thesis using fr_ConfirmMovement [OF assms(1)] by (auto simp: keeps_asResp)
next
  case False
  then show ?thesis using serve_framed_other [OF assms] by (auto intro: framedD)
qed

end

text \<open>Without a tenant in the context every request but PingDB is refused before it reads
  anything.\<close>

lemma serve_no_tenant:
  assumes "TenantIDFromContext c = Inl e" "r \<noteq> RPingDB"
  shows "\<exists>e. serve c r w = (Inl e, w)"
  using assms
  by (cases r) (auto simp: asResp_def bindM_def liftE_def ListCategories_def GetCategory_def
    CreateCategory_def UpdateCategory_def DeleteCategory_def ListProducts_def GetProduct_def
    CreateProduct_def UpdateProduct_def DeleteProduct_def RestoreProduct_def ListWarehouses_def
    GetWarehouse_def CreateWarehouse_def UpdateWarehouse_def DeleteWarehouse_def CreateInbound_def
    CreateOutbound_def CreateTransfer_def CreateAdjustment_def GetMovement_def ListMovements_def
    ConfirmMovement_def CancelMovement_def ListAuditLogs_def GetDashboardSummary_def
    GetDashboardMovementsChart_def GetStorageUtilization_def throw_def split: sum.splits)

end
