(* ===== verification/Sample.thy ===== *)
theory Sample
  imports Service
begin

text \<open>
  A small concrete world on which the hypotheses of the properties are discharged: tenant t1 has a
  user, two warehouses, a product with 10 pieces in the first warehouse, and a draft transfer of 4
  pieces to the second; tenant t2 has a warehouse and stock of its own. The clock ticks in seconds, UUIDs
  are n, nn, nnn, ..., and nothing fails unless a schedule is set.
\<close>

definition sampleWh :: "string \<Rightarrow> string \<Rightarrow> string \<Rightarrow> warehouseRow" where
  "sampleWh i t code = \<lparr>whrID = i, whrTenantID = t, whrCode = code, whrName = code, whrAddress = None,
     whrIsActive = True, whrCreatedAt = 0, whrUpdatedAt = 0, whrDeletedAt = None\<rparr>"

definition sampleBal :: "string \<Rightarrow> string \<Rightarrow> string \<Rightarrow> string \<Rightarrow> int \<Rightarrow> stockBalanceRow" where
  "sampleBal i t w p q = \<lparr>sbrID = i, sbrTenantID = t, sbrWarehouseID = w, sbrProductID = p,
     sbrQuantity = q, sbrReservedQuantity = 0, sbrLastMovementAt = None, sbrCreatedAt = 0,
     sbrUpdatedAt = 0\<rparr>"

definition sampleProduct :: "string \<Rightarrow> string \<Rightarrow> productRow" where
  "sampleProduct i t = \<lparr>prrID = i, prrTenantID = t, prrCategoryID = None, prrSKU = ''S'', prrName = ''P'',
     prrDescription = None, prrUnit = ''pcs'', prrPrice = 1, prrReorderLevel = 5, prrMetadata = ''{}'',
     prrCreatedAt = 0, prrUpdatedAt = 0, prrDeletedAt = None\<rparr>"

definition sampleMovement :: movementRow where
  "sampleMovement = \<lparr>mvrID = ''m1'', mvrTenantID = ''t1'', mvrType = ''transfer'', mvrReferenceNumber = ''R1'',
     mvrSourceWarehouseID = Some ''w1'', mvrDestinationWarehouseID = Some ''w2'', mvrCreatedBy = ''u1'',
     mvrStatus = ''draft'', mvrNotes = None, mvrIdempotencyKey = Some ''k1'',
     mvrIdempotencyRequestHash = None, mvrCreatedAt = 0, mvrUpdatedAt = 0\<rparr>"

definition sampleLine :: movementLineRow where
  "sampleLine = \<lparr>mlrID = ''l1'', mlrMovementID = ''m1'', mlrProductID = ''p1'', mlrQuantity = 4,
     mlrNotes = None, mlrCreatedAt = 0\<rparr>"

definition sampleDB :: database where
  "sampleDB = \<lparr>dbUsers = [\<lparr>urID = ''u1'', urTenantID = ''t1'', urFullName = ''U''\<rparr>],
     dbWarehouses = [sampleWh ''w1'' ''t1'' ''A'', sampleWh ''w2'' ''t1'' ''B'', sampleWh ''w3'' ''t2'' ''A''],
     dbCategories = [], dbProducts = [sampleProduct ''p1'' ''t1'', sampleProduct ''p2'' ''t2''],
     dbBalances = [sampleBal ''b1'' ''t1'' ''w1'' ''p1'' 10, sampleBal ''b2'' ''t2'' ''w3'' ''p2'' 7],
     dbMovements = [sampleMovement], dbLines = [sampleLine], dbOutbox = [], dbAudit = []\<rparr>"

definition sampleWorldOf :: "database \<Rightarrow> (nat \<Rightarrow> string option) \<Rightarrow> world" where
  "sampleWorldOf d faults = \<lparr>wdb = d, wtx = None, wcache = [], wredis = True, wpub = [], wseq = 1,
     wstmt = 0, wfault = faults, wcmd = 0, wcfault = (\<lambda>_. None), wtick = 0,
     wtime = (\<lambda>n. 1000000 * int n), wfresh = 0, wuuid = (\<lambda>n. replicate (Suc n) (CHR ''n'')),
     wcoll = (\<lambda>s. s), wsha = (\<lambda>s. s), wjsonb = (\<lambda>s. s),
     wstreams = [], wkeys = [], wbus = 0, wbfault = (\<lambda>_. None), wxadd = 0, wxid = (\<lambda>n. natDigits n @ ''-0'')\<rparr>"

definition sampleWorld :: world where
  "sampleWorld = sampleWorldOf sampleDB (\<lambda>_. None)"

definition sampleClaims :: "string \<Rightarrow> Claims" where
  "sampleClaims t = \<lparr>clTenantID = t, clTokenType = TokenTypeAccess, clRole = ''owner'',
     clPermissions = PermissionsForRole ''owner'',
     clRegistered = \<lparr>rcIssuer = [], rcSubject = ''u1'', rcAudience = [], rcExpiresAt = None,
       rcNotBefore = None, rcIssuedAt = None, rcID = []\<rparr>\<rparr>"

definition sampleCtx :: ctx where
  "sampleCtx = ContextWithClaims Background (Some (sampleClaims ''t1''))"

lemma sample_tenant [simp]: "TenantIDFromContext sampleCtx = Inr ''t1''" "cxTx sampleCtx = False"
  "TrimSpace ''t1'' = ''t1''" "SubjectFromContext sampleCtx = Inr ''u1''"
  by (simp_all add: sampleCtx_def ContextWithClaims_def Background_def TenantIDFromContext_def
      ClaimsFromContext_def sampleClaims_def TrimSpace_def isSpace_def SubjectFromContext_def)

end
