(* ===== verification/Tenancy.thy ===== *)
theory Tenancy
  imports Sample
begin

text \<open>
  What every operation of the service keeps, for every schedule of failures. dbInv collects what the
  constraints of the tables and the code guarantee of the rows; othersEq says that no row of another
  tenant changed. Both are shown closed under the elementary mutations, so that the locale
  stock_frame gives them for every request. The theorems at the end are the invariant over all
  reachable worlds and tenant isolation of writes.
\<close>

section \<open>The invariant of the database\<close>

definition movementRowOK :: "movementRow \<Rightarrow> bool" where
  "movementRowOK r \<longleftrightarrow>
     chkMovementWarehouses (mvrType r) (mvrSourceWarehouseID r) (mvrDestinationWarehouseID r)
   \<and> mvrStatus r \<in> set movementStatuses
   \<and> trimOpt (mvrSourceWarehouseID r) = mvrSourceWarehouseID r
   \<and> trimOpt (mvrDestinationWarehouseID r) = mvrDestinationWarehouseID r"

definition idemKeys :: "movementRow list \<Rightarrow> (string \<times> string option) list" where
  "idemKeys rs = map (\<lambda>r. (mvrTenantID r, mvrIdempotencyKey r)) (filter (\<lambda>r. mvrIdempotencyKey r \<noteq> None) rs)"

definition movementsOK :: "database \<Rightarrow> bool" where
  "movementsOK d \<longleftrightarrow> distinct (map mvrID (dbMovements d))
   \<and> distinct (map (\<lambda>r. (mvrTenantID r, mvrReferenceNumber r)) (dbMovements d))
   \<and> distinct (idemKeys (dbMovements d))
   \<and> list_all movementRowOK (dbMovements d)
   \<and> list_all (\<lambda>l. 0 < mlrQuantity l \<and> mlrQuantity l \<le> MaxInt32) (dbLines d)"

definition keysOK :: "database \<Rightarrow> bool" where
  "keysOK d \<longleftrightarrow> distinct (map whrID (dbWarehouses d))
   \<and> distinct (map (\<lambda>r. (whrTenantID r, whrCode r)) (dbWarehouses d))
   \<and> distinct (map carID (dbCategories d))
   \<and> distinct (map (\<lambda>r. (carTenantID r, carName r)) (dbCategories d))
   \<and> distinct (map prrID (dbProducts d))
   \<and> distinct (map (\<lambda>r. (prrTenantID r, prrSKU r)) (dbProducts d))
   \<and> distinct (map alrID (dbAudit d))
   \<and> distinct (map oerID (dbOutbox d))"

definition dbInv :: "database \<Rightarrow> bool" where
  "dbInv d \<longleftrightarrow> balancesOK d \<and> movementsOK d \<and> keysOK d"

lemmas dbInv_defs = dbInv_def movementsOK_def keysOK_def

text \<open>The rows of a table that do not belong to a tenant.\<close>

definition others :: "('a \<Rightarrow> string) \<Rightarrow> string \<Rightarrow> 'a list \<Rightarrow> 'a list" where
  "others tenant t xs = filter (\<lambda>x. tenant x \<noteq> t) xs"

definition othersEq :: "string \<Rightarrow> database \<Rightarrow> database \<Rightarrow> bool" where
  "othersEq t d d' \<longleftrightarrow> dbUsers d' = dbUsers d
   \<and> others whrTenantID t (dbWarehouses d') = others whrTenantID t (dbWarehouses d)
   \<and> others carTenantID t (dbCategories d') = others carTenantID t (dbCategories d)
   \<and> others prrTenantID t (dbProducts d') = others prrTenantID t (dbProducts d)
   \<and> others sbrTenantID t (dbBalances d') = others sbrTenantID t (dbBalances d)
   \<and> others mvrTenantID t (dbMovements d') = others mvrTenantID t (dbMovements d)
   \<and> others oerTenantID t (dbOutbox d') = others oerTenantID t (dbOutbox d)
   \<and> others alrTenantID t (dbAudit d') = others alrTenantID t (dbAudit d)
   \<and> (\<forall>m \<in> set (others mvrTenantID t (dbMovements d)). linesOf (mvrID m) d' = linesOf (mvrID m) d)"

lemma othersEq_refl: "othersEq t d d"
  by (simp add: othersEq_def)

lemma othersEq_trans: "othersEq t a b \<Longrightarrow> othersEq t b c \<Longrightarrow> othersEq t a c"
  unfolding othersEq_def by simp

lemma others_append [simp]: "others f t (xs @ ys) = others f t xs @ others f t ys"
  by (simp add: others_def)

lemma others_self [simp]: "f x = t \<Longrightarrow> others f t [x] = []"
  by (simp add: others_def)

lemma others_updateWhere:
  "(\<And>x. P x \<Longrightarrow> f x = t) \<Longrightarrow> (\<And>x. P x \<Longrightarrow> f (g x) = f x) \<Longrightarrow> others f t (updateWhere P g xs) = others f t xs"
  unfolding others_def by (rule filter_updateWhere_other) auto

lemma set_others: "x \<in> set (others f t xs) \<longleftrightarrow> x \<in> set xs \<and> f x \<noteq> t"
  by (auto simp: others_def)

definition isolated :: "string \<Rightarrow> database \<Rightarrow> database \<Rightarrow> bool" where
  "isolated t d d' \<longleftrightarrow> (dbInv d \<longrightarrow> dbInv d' \<and> othersEq t d d')"

section \<open>Closure under the mutations\<close>

lemma isolated_refl: "isolated t d d"
  by (simp add: isolated_def othersEq_refl)

lemma isolated_trans: "isolated t a b \<Longrightarrow> isolated t b c \<Longrightarrow> isolated t a c"
  by (auto simp: isolated_def intro: othersEq_trans)

text \<open>A mutation of one table keeps what only reads the others.\<close>

lemma balancesOK_cong: "dbBalances d' = dbBalances d \<Longrightarrow> balancesOK d' = balancesOK d"
  by (simp add: balancesOK_def)

lemma movementsOK_cong:
  "dbMovements d' = dbMovements d \<Longrightarrow> dbLines d' = dbLines d \<Longrightarrow> movementsOK d' = movementsOK d"
  by (simp add: movementsOK_def)

lemma linesOf_cong: "dbLines d' = dbLines d \<Longrightarrow> linesOf m d' = linesOf m d"
  by (simp add: linesOf_def)

lemma isolated_audit:
  "\<not> list_ex (\<lambda>x. alrID x = alrID r) (dbAudit d) \<Longrightarrow> alrTenantID r = t \<Longrightarrow>
   isolated t d (d\<lparr>dbAudit := dbAudit d @ [r]\<rparr>)"
  by (auto simp: isolated_def dbInv_defs othersEq_def balancesOK_def linesOf_def list_ex_iff)

lemma isolated_outbox:
  "\<not> list_ex (\<lambda>x. oerID x = oerID r) (dbOutbox d) \<Longrightarrow> oerTenantID r = t \<Longrightarrow>
   isolated t d (d\<lparr>dbOutbox := dbOutbox d @ [r]\<rparr>)"
  by (auto simp: isolated_def dbInv_defs othersEq_def balancesOK_def linesOf_def list_ex_iff)

lemma isolated_wh_insert:
  assumes "insertWarehouse r d = Inr (u, d')" "whrTenantID r = t"
  shows "isolated t d d'"
proof -
  have "d' = d\<lparr>dbWarehouses := dbWarehouses d @ [r]\<rparr>" "whrID r \<notin> whrID ` set (dbWarehouses d)"
    "(whrTenantID r, whrCode r) \<notin> (\<lambda>r. (whrTenantID r, whrCode r)) ` set (dbWarehouses d)"
    using assms(1) by (auto simp: insertWarehouse_def list_ex_iff split: if_splits)
  then show ?thesis using assms(2)
    by (simp add: isolated_def dbInv_defs othersEq_def balancesOK_def linesOf_def)
qed

lemma isolated_cat_insert:
  assumes "insertCategory r d = Inr (u, d')" "carTenantID r = t"
  shows "isolated t d d'"
proof -
  have "d' = d\<lparr>dbCategories := dbCategories d @ [r]\<rparr>" "carID r \<notin> carID ` set (dbCategories d)"
    "(carTenantID r, carName r) \<notin> (\<lambda>r. (carTenantID r, carName r)) ` set (dbCategories d)"
    using assms(1) by (auto simp: insertCategory_def list_ex_iff split: if_splits)
  then show ?thesis using assms(2)
    by (simp add: isolated_def dbInv_defs othersEq_def balancesOK_def linesOf_def)
qed

lemma isolated_prod_insert:
  assumes "insertProduct r d = Inr (u, d')" "prrTenantID r = t"
  shows "isolated t d d'"
proof -
  have "d' = d\<lparr>dbProducts := dbProducts d @ [r]\<rparr>" "prrID r \<notin> prrID ` set (dbProducts d)"
    "(prrTenantID r, prrSKU r) \<notin> (\<lambda>r. (prrTenantID r, prrSKU r)) ` set (dbProducts d)"
    using assms(1) by (auto simp: insertProduct_def list_ex_iff split: if_splits)
  then show ?thesis using assms(2)
    by (simp add: isolated_def dbInv_defs othersEq_def balancesOK_def linesOf_def)
qed

lemma isolated_wh_update:
  assumes "updateWarehouses P f d = Inr (n, d')" "\<And>x. P x \<Longrightarrow> whrTenantID x = t"
    "\<And>x. whrTenantID (f x) = whrTenantID x \<and> whrID (f x) = whrID x"
  shows "isolated t d d'"
proof -
  have "others whrTenantID t (updateWhere P f (dbWarehouses d)) = others whrTenantID t (dbWarehouses d)"
    using assms(2,3) by (intro others_updateWhere) auto
  moreover have "map whrID (updateWhere P f (dbWarehouses d)) = map whrID (dbWarehouses d)"
    using assms(3) by (intro map_updateWhere) auto
  ultimately show ?thesis using assms(1)
    by (auto simp: updateWarehouses_def Let_def isolated_def dbInv_defs othersEq_def balancesOK_def
        linesOf_def simp del: distinct_map split: if_splits)
qed

lemma isolated_cat_update:
  assumes "updateCategories P f d = Inr (n, d')" "\<And>x. P x \<Longrightarrow> carTenantID x = t"
    "\<And>x. carTenantID (f x) = carTenantID x \<and> carID (f x) = carID x"
  shows "isolated t d d'"
proof -
  have "others carTenantID t (updateWhere P f (dbCategories d)) = others carTenantID t (dbCategories d)"
    using assms(2,3) by (intro others_updateWhere) auto
  moreover have "map carID (updateWhere P f (dbCategories d)) = map carID (dbCategories d)"
    using assms(3) by (intro map_updateWhere) auto
  ultimately show ?thesis using assms(1)
    by (auto simp: updateCategories_def Let_def isolated_def dbInv_defs othersEq_def balancesOK_def
        linesOf_def simp del: distinct_map split: if_splits)
qed

lemma isolated_prod_update:
  assumes "updateProducts P f d = Inr (n, d')" "\<And>x. P x \<Longrightarrow> prrTenantID x = t"
    "\<And>x. prrTenantID (f x) = prrTenantID x \<and> prrID (f x) = prrID x"
  shows "isolated t d d'"
proof -
  have "others prrTenantID t (updateWhere P f (dbProducts d)) = others prrTenantID t (dbProducts d)"
    using assms(2,3) by (intro others_updateWhere) auto
  moreover have "map prrID (updateWhere P f (dbProducts d)) = map prrID (dbProducts d)"
    using assms(3) by (intro map_updateWhere) auto
  ultimately show ?thesis using assms(1)
    by (auto simp: updateProducts_def Let_def isolated_def dbInv_defs othersEq_def balancesOK_def
        linesOf_def simp del: distinct_map split: if_splits)
qed

lemma idemKeys_append: "idemKeys (xs @ ys) = idemKeys xs @ idemKeys ys"
  by (simp add: idemKeys_def)

lemma isolated_mv_insert:
  assumes "insertMovement r d = Inr (u, d')" "mvrTenantID r = t"
    "trimOpt (mvrSourceWarehouseID r) = mvrSourceWarehouseID r"
    "trimOpt (mvrDestinationWarehouseID r) = mvrDestinationWarehouseID r"
  shows "isolated t d d'"
proof -
  have d': "d' = d\<lparr>dbMovements := dbMovements d @ [r]\<rparr>"
    and ok: "movementRowOK r"
    and fresh: "mvrID r \<notin> set (map mvrID (dbMovements d))"
      "(mvrTenantID r, mvrReferenceNumber r) \<notin> set (map (\<lambda>x. (mvrTenantID x, mvrReferenceNumber x)) (dbMovements d))"
    and key: "mvrIdempotencyKey r \<noteq> None \<Longrightarrow> (mvrTenantID r, mvrIdempotencyKey r) \<notin> set (idemKeys (dbMovements d))"
    using assms by (auto simp: insertMovement_def movementRowOK_def idemKeys_def list_ex_iff split: if_splits)
  have "movementsOK d \<Longrightarrow> movementsOK d'"
    using ok fresh key unfolding d' movementsOK_def
    by (cases "mvrIdempotencyKey r") (auto simp: idemKeys_append, auto simp: idemKeys_def)
  then show ?thesis using assms(2)
    by (auto simp: d' isolated_def dbInv_def keysOK_def othersEq_def balancesOK_def linesOf_def)
qed

lemma isolated_line_insert:
  assumes "insertLine l d = Inr (u, d')" "mlrQuantity l \<le> MaxInt32"
    "isMovementOf t (mlrMovementID l) d"
  shows "isolated t d d'"
proof -
  have d': "d' = d\<lparr>dbLines := dbLines d @ [l]\<rparr>" and q: "0 < mlrQuantity l"
    using assms(1) by (auto simp: insertLine_def split: if_splits)
  have "linesOf (mvrID m) d' = linesOf (mvrID m) d"
    if "m \<in> set (others mvrTenantID t (dbMovements d))" "movementsOK d" for m
  proof -
    have m: "m \<in> set (dbMovements d)" "mvrTenantID m \<noteq> t" using that(1) by (simp_all add: set_others)
    obtain x where x: "x \<in> set (dbMovements d)" "mvrID x = mlrMovementID l" "mvrTenantID x = t"
      using assms(3) by (auto simp: isMovementOf_def list_ex_iff)
    have "mvrID m \<noteq> mvrID x"
    proof
      assume "mvrID m = mvrID x"
      then have "m = x" using m(1) x(1) that(2) by (auto simp: movementsOK_def distinct_map dest: inj_onD)
      then show False using m(2) x(3) by simp
    qed
    then show ?thesis using x(2) by (simp add: linesOf_def d')
  qed
  then show ?thesis using q assms(2)
    by (auto simp: d' isolated_def dbInv_defs othersEq_def balancesOK_def)
qed

lemma isolated_set_status:
  assumes "setStatus t m s1 s2 now d = (n, d')" "s2 \<in> set movementStatuses"
  shows "isolated t d d'"
proof -
  let ?P = "\<lambda>r. mvrID r = m \<and> mvrTenantID r = t \<and> mvrStatus r = s1"
  let ?f = "\<lambda>r. r\<lparr>mvrStatus := s2, mvrUpdatedAt := now\<rparr>"
  have d': "d' = d\<lparr>dbMovements := updateWhere ?P ?f (dbMovements d)\<rparr>"
    using assms(1) by (simp add: setStatus_def Let_def)
  have maps: "map mvrID (updateWhere ?P ?f (dbMovements d)) = map mvrID (dbMovements d)"
    "map (\<lambda>r. (mvrTenantID r, mvrReferenceNumber r)) (updateWhere ?P ?f (dbMovements d))
      = map (\<lambda>r. (mvrTenantID r, mvrReferenceNumber r)) (dbMovements d)"
    by (rule map_updateWhere; simp)+
  have idem: "idemKeys (updateWhere ?P ?f xs) = idemKeys xs" for xs
    by (induction xs) (auto simp: idemKeys_def)
  have rows: "list_all movementRowOK (updateWhere ?P ?f (dbMovements d))" if "list_all movementRowOK (dbMovements d)"
    using that assms(2) by (auto simp: list_all_iff set_updateWhere movementRowOK_def)
  have "others mvrTenantID t (updateWhere ?P ?f (dbMovements d)) = others mvrTenantID t (dbMovements d)"
    by (rule others_updateWhere) auto
  then show ?thesis
    unfolding isolated_def dbInv_def movementsOK_def keysOK_def othersEq_def
    using maps idem rows
    by (auto simp: d' balancesOK_def linesOf_def simp del: distinct_map)
qed

lemma isolated_bal_insert:
  assumes "insertBalance (t, wh, p) i now d = Inr (u, d')"
  shows "isolated t d d'"
proof -
  obtain bs where bs: "d' = d\<lparr>dbBalances := bs\<rparr>"
    "others sbrTenantID t bs = others sbrTenantID t (dbBalances d)"
  proof (cases "findBalance (t, wh, p) d")
    case None
    then show ?thesis using assms that by (auto simp: insertBalance_def split: if_splits)
  next
    case (Some b)
    then show ?thesis using assms that [of "dbBalances d"] by (simp add: insertBalance_def)
  qed
  moreover have "balancesOK d \<Longrightarrow> balancesOK d'" by (rule insertBalance_effect(1) [OF _ assms])
  ultimately show ?thesis
    by (auto simp: isolated_def dbInv_defs othersEq_def linesOf_def)
qed

text \<open>An update of the quantity of a row that was found for tenant t.\<close>

lemma balancesOK_update:
  assumes "balancesOK d" "updateQuantity i q now d = Inr (n, d')" "q \<le> MaxInt32"
  shows "balancesOK d'"
proof -
  let ?f = "\<lambda>r. r\<lparr>sbrQuantity := q, sbrUpdatedAt := now\<rparr>"
  have d': "d' = d\<lparr>dbBalances := updateWhere (\<lambda>r. sbrID r = i) ?f (dbBalances d)\<rparr>"
    and res: "\<forall>r \<in> set (dbBalances d). sbrID r = i \<longrightarrow> sbrReservedQuantity r \<le> q"
    using assms(2) by (auto simp: updateQuantity_def list_ex_iff not_less split: if_splits)
  have "map sbrID (updateWhere (\<lambda>r. sbrID r = i) ?f (dbBalances d)) = map sbrID (dbBalances d)"
    "map rowKey (updateWhere (\<lambda>r. sbrID r = i) ?f (dbBalances d)) = map rowKey (dbBalances d)"
    by (rule map_updateWhere; simp add: rowKey_def)+
  then show ?thesis using assms(1,3) res
    unfolding balancesOK_def d' by simp (auto simp: set_updateWhere)
qed

lemma isolated_bal_update:
  assumes "findBalance (t, wh, p) d0 = Some b" "isolated t d0 d"
    "updateQuantity (sbrID b) q now d = Inr (n, d')" "q \<le> MaxInt32"
  shows "isolated t d0 d'"
  unfolding isolated_def
proof (rule impI, rule conjI)
  assume i0: "dbInv d0"
  with assms(2) have i: "dbInv d" and o: "othersEq t d0 d" by (auto simp: isolated_def)
  let ?P = "\<lambda>r. sbrID r = sbrID b"
  let ?f = "\<lambda>r. r\<lparr>sbrQuantity := q, sbrUpdatedAt := now\<rparr>"
  have d': "d' = d\<lparr>dbBalances := updateWhere ?P ?f (dbBalances d)\<rparr>"
    using assms(3) by (auto simp: updateQuantity_def split: if_splits)
  have "balancesOK d'" using i by (auto intro: balancesOK_update [OF _ assms(3,4)] simp: dbInv_def)
  then show "dbInv d'" using i by (simp add: d' dbInv_defs)
  have b: "b \<in> set (dbBalances d0)" "sbrTenantID b = t"
    using findBalance_key [OF assms(1)] by (auto simp: rowKey_def)
  have own: "sbrTenantID r = t" if "r \<in> set (dbBalances d)" "?P r" for r
  proof (rule ccontr)
    assume n: "sbrTenantID r \<noteq> t"
    then have "r \<in> set (others sbrTenantID t (dbBalances d))" using that by (simp add: set_others)
    then have "r \<in> set (others sbrTenantID t (dbBalances d0))" using o by (simp only: othersEq_def)
    then have "r \<in> set (dbBalances d0)" by (simp add: set_others)
    then have "r = b" using b that(2) i0 by (auto simp: dbInv_def balancesOK_def distinct_map dest: inj_onD)
    then show False using n b by simp
  qed
  have "others sbrTenantID t (updateWhere ?P ?f xs) = others sbrTenantID t xs"
    if "\<And>r. r \<in> set xs \<Longrightarrow> ?P r \<Longrightarrow> sbrTenantID r = t" for xs
    using that by (induction xs) (auto simp: others_def)
  from this [OF own] have "others sbrTenantID t (dbBalances d') = others sbrTenantID t (dbBalances d)"
    by (simp add: d')
  then show "othersEq t d0 d'" using o by (simp add: othersEq_def d' linesOf_def)
qed

section \<open>Every request\<close>

interpretation iso: stock_frame "isolated (TrimSpace t)" "TrimSpace t" for t
proof (unfold_locales, goal_cases)
  case 1 show ?case by (rule isolated_refl)
next
  case 2 then show ?case by (rule isolated_trans)
next
  case 3 then show ?case by (rule isolated_audit)
next
  case 4 then show ?case by (rule isolated_wh_insert)
next
  case 5 then show ?case by (rule isolated_wh_update) blast+
next
  case 6 then show ?case by (rule isolated_cat_insert)
next
  case 7 then show ?case by (rule isolated_cat_update) blast+
next
  case 8 then show ?case by (rule isolated_prod_insert)
next
  case 9 then show ?case by (rule isolated_prod_update) blast+
next
  case 10 show ?case by (rule isolated_mv_insert [OF 10(1,2,4,5)])
next
  case 11 then show ?case by (rule isolated_line_insert)
next
  case 12 then show ?case by (rule isolated_set_status) (simp add: movementStatuses_def)
next
  case 13 show ?case by simp
next
  case 14 then show ?case by (rule isolated_outbox)
next
  case 15 then show ?case by (rule isolated_set_status) (simp add: movementStatuses_def)
next
  case 16 then show ?case by (rule isolated_bal_insert)
next
  case 17 show ?case by (rule isolated_bal_update [OF 17(1-3,5)])
qed

lemma serve_isolated:
  assumes "TenantIDFromContext c = Inr t" "TrimSpace t = t" "typedRequest r" "dbInv (wdb w)"
  shows "dbInv (wdb (snd (serve c r w))) \<and> othersEq t (wdb w) (wdb (snd (serve c r w)))"
  using iso.serve_framed [of c t r] assms typedRequest_le [of r]
  by (simp add: keeps_def liftQ_def viewOf_def isolated_def)

text \<open>C2: Tenant isolation of writes. Whatever request an authenticated tenant t makes, and whatever
  statements and cache commands fail on the way, the committed rows of all other tenants are exactly
  what they were: warehouses, categories, products, stock balances, movements with their lines,
  outbox events and audit rows.\<close>

theorem tenant_isolation:
  assumes "TenantIDFromContext c = Inr t" "TrimSpace t = t" "typedRequest r" "dbInv (wdb w)"
  shows "othersEq t (wdb w) (wdb (snd (serve c r w)))"
  using serve_isolated [OF assms] by blast

lemma sample_dbInv: "dbInv sampleDB"
  by code_simp

theorem tenant_isolation_witness:
  "othersEq ''t1'' sampleDB (wdb (snd (serve sampleCtx (RConfirmMovement ''m1'') sampleWorld)))"
  using tenant_isolation [of sampleCtx "''t1''" "RConfirmMovement ''m1''" sampleWorld] sample_dbInv
  by (simp add: typedRequest_def sampleWorld_def sampleWorldOf_def)

section \<open>Reachable worlds\<close>

text \<open>The relay of the outbox worker only marks rows.\<close>

definition invKept :: "database \<Rightarrow> database \<Rightarrow> bool" where
  "invKept d d' \<longleftrightarrow> (dbInv d \<longrightarrow> dbInv d')"

interpretation kept: db_frame invKept
  by unfold_locales (auto simp: invKept_def)

lemma invKept_mark: "invKept d (markPublished i now d)"
proof -
  have "map oerID (updateWhere (\<lambda>r. oerID r = i) (\<lambda>r. r\<lparr>oerPublished := True, oerPublishedAt := Some now\<rparr>) (dbOutbox d))
      = map oerID (dbOutbox d)"
    by (rule map_updateWhere) simp
  then show ?thesis by (simp add: invKept_def dbInv_defs markPublished_def balancesOK_def)
qed

lemma relayOne_kept:
  assumes "\<And>row. keeps sameDB (publish row)"
  shows "framed invKept (relayOne locked publish c)"
  unfolding relayOne_def Let_def
  by (intro kept.fr_bind kept.fr_basic kept.fr_sameDB assms kept.fr_stmt) (auto simp: invKept_mark)

lemma relayLoop_kept:
  assumes "\<And>row. keeps sameDB (publish row)"
  shows "keeps (liftQ Pool invKept) (relayLoop locked publish k n)"
proof (induction k arbitrary: n)
  case (Suc k)
  then show ?case
    by (auto intro!: kept.lifted.keeps_bind kept.lifted.keeps_try kept.fr_RunInTx relayOne_kept [OF assms]
        kept.lifted.keeps_ret split: sum.splits)
qed (simp add: kept.lifted.keeps_ret)

text \<open>The worlds that can follow w0: requests of any tenant on contexts outside a transaction, batches
  of the relay worker with any publish function that leaves the database alone, and any change of
  everything that is not the committed database (faults, clock, cache, other clients of Redis).\<close>

inductive reachable :: "world \<Rightarrow> world \<Rightarrow> bool" for w0 where
  start: "reachable w0 w0"
| request: "reachable w0 w \<Longrightarrow> typedRequest r \<Longrightarrow> (\<And>t. TenantIDFromContext c = Inr t \<Longrightarrow> TrimSpace t = t) \<Longrightarrow>
    reachable w0 (snd (serve c r w))"
| relay: "reachable w0 w \<Longrightarrow> (\<And>row. keeps sameDB (publish row)) \<Longrightarrow>
    reachable w0 (snd (RelayPublishBatch locked limit publish w))"
| environment: "reachable w0 w \<Longrightarrow> wdb w' = wdb w \<Longrightarrow> reachable w0 w'"

lemma serve_unauthenticated:
  assumes "TenantIDFromContext c = Inl e"
  shows "wdb (snd (serve c r w)) = wdb w"
proof (cases "r = RPingDB")
  case True
  have "keeps sameDB (serve c RPingDB)"
    by (simp add: asResp_def PingDB_def dbs.keeps_bind keeps_query dbs.keeps_ret)
  then show ?thesis using True by (simp add: keeps_def sameDB_def)
next
  case False
  then show ?thesis using serve_no_tenant [OF assms False, of w] by auto
qed

lemma reachable_inv:
  assumes "reachable w0 w" "dbInv (wdb w0)"
  shows "dbInv (wdb w)"
  using assms
proof (induction rule: reachable.induct)
  case (request w r c)
  show ?case
  proof (cases "TenantIDFromContext c")
    case (Inl e)
    then show ?thesis using request serve_unauthenticated by simp
  next
    case (Inr t)
    then show ?thesis using serve_isolated [OF Inr _ request.hyps(2)] request by blast
  qed
next
  case (relay w publish locked limit)
  have "keeps (liftQ Pool invKept) (RelayPublishBatch locked limit publish)"
    unfolding RelayPublishBatch_def Let_def by (rule relayLoop_kept) (rule relay.hyps(2))
  then show ?case using relay by (simp add: keeps_def liftQ_def viewOf_def invKept_def)
qed auto



end
