(* ===== verification/History.thy ===== *)
theory History
  imports Tenancy
begin

text \<open>
  What requests can do to rows that exist: the audit log, the outbox and the movement lines are
  append only, rows are never removed, movements only leave the status draft and are otherwise
  immutable, and stock, outbox and the status confirmed change through ConfirmMovement alone. The
  relations are interpretations of the frame locales, like tenant isolation.
\<close>

section \<open>History\<close>

text \<open>The state machine of a movement: nothing, or from draft to confirmed or cancelled; the other
  fields never change.\<close>

definition mvStep :: "movementRow \<Rightarrow> movementRow \<Rightarrow> bool" where
  "mvStep r r' \<longleftrightarrow> r' = r \<or> (mvrStatus r = StatusDraft
     \<and> mvrStatus r' \<in> {StatusConfirmed, StatusCancelled}
     \<and> r' = r\<lparr>mvrStatus := mvrStatus r', mvrUpdatedAt := mvrUpdatedAt r'\<rparr>)"

definition balStep :: "stockBalanceRow \<Rightarrow> stockBalanceRow \<Rightarrow> bool" where
  "balStep r r' \<longleftrightarrow> r' = r\<lparr>sbrQuantity := sbrQuantity r', sbrUpdatedAt := sbrUpdatedAt r'\<rparr>"

definition history :: "database \<Rightarrow> database \<Rightarrow> bool" where
  "history d d' \<longleftrightarrow> evolves (=) (dbAudit d) (dbAudit d')
   \<and> evolves (=) (dbOutbox d) (dbOutbox d')
   \<and> evolves (=) (dbLines d) (dbLines d')
   \<and> evolves mvStep (dbMovements d) (dbMovements d')
   \<and> evolves balStep (dbBalances d) (dbBalances d')
   \<and> evolves (\<lambda>r r'. whrID r' = whrID r \<and> whrTenantID r' = whrTenantID r) (dbWarehouses d) (dbWarehouses d')
   \<and> evolves (\<lambda>r r'. carID r' = carID r \<and> carTenantID r' = carTenantID r) (dbCategories d) (dbCategories d')
   \<and> evolves (\<lambda>r r'. prrID r' = prrID r \<and> prrTenantID r' = prrTenantID r) (dbProducts d) (dbProducts d')"

lemma mvStep_refl: "mvStep r r"
  by (simp add: mvStep_def)

lemma mvStep_trans: "mvStep a b \<Longrightarrow> mvStep b c \<Longrightarrow> mvStep a c"
  by (cases "b = a"; cases "c = b") (simp_all add: mvStep_def, auto simp: status_defs)

lemma balStep_refl: "balStep r r"
  by (cases r) (simp add: balStep_def)

lemma balStep_trans: "balStep a b \<Longrightarrow> balStep b c \<Longrightarrow> balStep a c"
  by (cases a; cases b; cases c) (simp add: balStep_def)

lemma history_refl: "history d d"
  by (simp add: history_def evolves_refl mvStep_refl balStep_refl)

lemma history_trans:
  assumes "history a b" "history b c"
  shows "history a c"
  unfolding history_def
proof (intro conjI)
  show "evolves (=) (dbAudit a) (dbAudit c)"
    by (rule evolves_trans [of "(=)" "dbAudit a" "dbAudit b"]) (use assms in \<open>auto simp: history_def\<close>)
  show "evolves (=) (dbOutbox a) (dbOutbox c)"
    by (rule evolves_trans [of "(=)" "dbOutbox a" "dbOutbox b"]) (use assms in \<open>auto simp: history_def\<close>)
  show "evolves (=) (dbLines a) (dbLines c)"
    by (rule evolves_trans [of "(=)" "dbLines a" "dbLines b"]) (use assms in \<open>auto simp: history_def\<close>)
  show "evolves mvStep (dbMovements a) (dbMovements c)"
    by (rule evolves_trans [of mvStep "dbMovements a" "dbMovements b"]) (use assms in \<open>auto simp: history_def intro: mvStep_trans\<close>)
  show "evolves balStep (dbBalances a) (dbBalances c)"
    by (rule evolves_trans [of balStep "dbBalances a" "dbBalances b"]) (use assms in \<open>auto simp: history_def intro: balStep_trans\<close>)
  show "evolves (\<lambda>r r'. whrID r' = whrID r \<and> whrTenantID r' = whrTenantID r) (dbWarehouses a) (dbWarehouses c)"
    by (rule evolves_trans [of _ "dbWarehouses a" "dbWarehouses b"]) (use assms in \<open>auto simp: history_def\<close>)
  show "evolves (\<lambda>r r'. carID r' = carID r \<and> carTenantID r' = carTenantID r) (dbCategories a) (dbCategories c)"
    by (rule evolves_trans [of _ "dbCategories a" "dbCategories b"]) (use assms in \<open>auto simp: history_def\<close>)
  show "evolves (\<lambda>r r'. prrID r' = prrID r \<and> prrTenantID r' = prrTenantID r) (dbProducts a) (dbProducts c)"
    by (rule evolves_trans [of _ "dbProducts a" "dbProducts b"]) (use assms in \<open>auto simp: history_def\<close>)
qed

lemmas evolves_intros = evolves_refl evolves_append evolves_update mvStep_refl balStep_refl

lemma history_status:
  "setStatus t m StatusDraft s2 now d = (n, d') \<Longrightarrow> s2 \<in> {StatusConfirmed, StatusCancelled} \<Longrightarrow> history d d'"
  by (auto simp: setStatus_def Let_def history_def mvStep_def intro!: evolves_intros)

interpretation hist: stock_frame history "TrimSpace t" for t
proof (unfold_locales, goal_cases)
  case 1 show ?case by (rule history_refl)
next
  case 2 then show ?case by (rule history_trans)
next
  case 3 show ?case by (simp add: history_def evolves_intros)
next
  case 4 then show ?case
    by (auto simp: insertWarehouse_def history_def split: if_splits intro!: evolves_intros)
next
  case 5 then show ?case
    by (auto simp: updateWarehouses_def Let_def history_def split: if_splits intro!: evolves_intros)
next
  case 6 then show ?case
    by (auto simp: insertCategory_def history_def split: if_splits intro!: evolves_intros)
next
  case 7 then show ?case
    by (auto simp: updateCategories_def Let_def history_def split: if_splits intro!: evolves_intros)
next
  case 8 then show ?case
    by (auto simp: insertProduct_def history_def split: if_splits intro!: evolves_intros)
next
  case 9 then show ?case
    by (auto simp: updateProducts_def Let_def history_def split: if_splits intro!: evolves_intros)
next
  case 10 then show ?case
    by (auto simp: insertMovement_def history_def split: if_splits intro!: evolves_intros)
next
  case 11 then show ?case
    by (auto simp: insertLine_def history_def split: if_splits intro!: evolves_intros)
next
  case 12 then show ?case by (rule history_status) simp
next
  case 13 show ?case by simp
next
  case 14 show ?case by (simp add: history_def evolves_intros)
next
  case 15 then show ?case by (rule history_status) simp
next
  case 16 then show ?case
    by (auto simp: insertBalance_def history_def split: if_splits intro!: evolves_intros)
next
  case (17 wh p d0 b d q now n d')
  have "history d d'" using 17(3)
    by (auto simp: updateQuantity_def history_def balStep_def split: if_splits intro!: evolves_intros)
  with 17(2) show ?case by (rule history_trans)
qed

text \<open>C4: Nothing is erased or rewritten. Whatever request is made, and whatever fails on the way, the
  audit log, the outbox and the movement lines only grow at the end; every movement keeps all its
  fields except that a draft may become confirmed or cancelled (a confirmed or cancelled movement
  never changes again); every balance row keeps its identity and its reservation; and no warehouse,
  category or product row is removed or handed to another tenant.\<close>

theorem history_preserved:
  assumes "TenantIDFromContext c = Inr t" "TrimSpace t = t" "typedRequest r"
  shows "history (wdb w) (wdb (snd (serve c r w)))"
  using hist.serve_framed [of c t r] assms typedRequest_le [of r]
  by (simp add: keeps_def liftQ_def viewOf_def)

theorem history_preserved_witness:
  "history sampleDB (wdb (snd (serve sampleCtx (RCancelMovement ''m1'') sampleWorld)))"
  using history_preserved [of sampleCtx "''t1''" "RCancelMovement ''m1''" sampleWorld]
  by (simp add: typedRequest_def sampleWorld_def sampleWorldOf_def)

section \<open>Only a confirmation moves stock\<close>

definition noStockChange :: "database \<Rightarrow> database \<Rightarrow> bool" where
  "noStockChange d d' \<longleftrightarrow> dbBalances d' = dbBalances d \<and> dbOutbox d' = dbOutbox d
   \<and> filter (\<lambda>m. mvrStatus m = StatusConfirmed) (dbMovements d')
      = filter (\<lambda>m. mvrStatus m = StatusConfirmed) (dbMovements d)"

lemma noStockChange_refl: "noStockChange d d"
  by (simp add: noStockChange_def)

lemma filter_confirmed_cancel:
  "filter (\<lambda>m. mvrStatus m = StatusConfirmed) (updateWhere (\<lambda>r. mvrID r = i \<and> mvrTenantID r = t \<and> mvrStatus r = StatusDraft)
      (\<lambda>r. r\<lparr>mvrStatus := StatusCancelled, mvrUpdatedAt := now\<rparr>) xs)
    = filter (\<lambda>m. mvrStatus m = StatusConfirmed) xs"
  by (rule filter_updateWhere_other) (auto simp: status_defs)

interpretation nostock: app_frame noStockChange "TrimSpace t" for t
proof (unfold_locales, goal_cases)
  case 2 then show ?case by (simp add: noStockChange_def)
next
  case 12 then show ?case
    by (auto simp: setStatus_def Let_def noStockChange_def filter_confirmed_cancel)
qed (auto simp: noStockChange_def insertWarehouse_def updateWarehouses_def insertCategory_def
  updateCategories_def insertProduct_def updateProducts_def insertMovement_def insertLine_def
  Let_def status_defs split: if_splits)

text \<open>C5: Only ConfirmMovement moves stock. Any other request, failing or not, leaves every balance row
  and the outbox exactly as they were, and the confirmed movements are the same rows as before: no
  other operation can confirm a movement or touch one that is confirmed.\<close>

theorem only_confirm_moves_stock:
  assumes "TenantIDFromContext c = Inr t" "TrimSpace t = t" "typedRequest r"
    "\<forall>i. r \<noteq> RConfirmMovement i"
  shows "noStockChange (wdb w) (wdb (snd (serve c r w)))"
proof -
  have "framed noStockChange (serve c r)"
    by (rule nostock.serve_framed_other [of c t]) (use assms typedRequest_le [of r] in auto)
  then have "keeps (liftQ Pool noStockChange) (serve c r)" by (simp add: framed_def)
  then show ?thesis by (simp add: keeps_def liftQ_def viewOf_def)
qed

theorem only_confirm_moves_stock_witness:
  "noStockChange sampleDB (wdb (snd (serve sampleCtx (RCancelMovement ''m1'') sampleWorld)))"
  using only_confirm_moves_stock [of sampleCtx "''t1''" "RCancelMovement ''m1''" sampleWorld]
  by (simp add: typedRequest_def sampleWorld_def sampleWorldOf_def)

end
