(* ===== verification/Confirm.thy ===== *)
theory Confirm
  imports History
begin

text \<open>
  The confirmation of a movement as one unit (ConfirmMovement in
  src/services/inventory/domains/movement/usecase/usecase.go): its specification confirmEffect says
  what a confirmed movement does to the whole database; the theorems say that ConfirmMovement does
  exactly that or nothing, whatever fails, and what follows for the stock of a product.
\<close>

section \<open>Frames of the steps\<close>

definition onlyBalances :: "database \<Rightarrow> database \<Rightarrow> bool" where
  "onlyBalances d d' \<longleftrightarrow> d' = d\<lparr>dbBalances := dbBalances d'\<rparr>"

interpretation obal: db_frame onlyBalances
proof
  show "onlyBalances d d" for d by (simp add: onlyBalances_def)
  show "onlyBalances a c" if "onlyBalances a b" "onlyBalances b c" for a b c
    using that unfolding onlyBalances_def
    by (metis database.surjective database.update_convs(5))
qed

lemma obal_stmts:
  "insertBalance k i now d = Inr (u, d') \<Longrightarrow> onlyBalances d d'"
  "updateQuantity i q now d = Inr (n, d') \<Longrightarrow> onlyBalances d d'"
  by (auto simp: insertBalance_def updateQuantity_def onlyBalances_def split: prod.splits if_splits)

lemma obal_getBalance: "framed onlyBalances (getBalanceRowForUpdate c t x p)"
  unfolding getBalanceRowForUpdate_def by (intro obal.fr_struct obal.fr_basic)

lemma obal_applyQuantity: "framed onlyBalances (applyQuantity c row q)"
  unfolding applyQuantity_def
  by (auto intro!: obal.fr_struct obal.fr_basic obal.fr_stmt intro: obal_stmts)

lemma obal_ops:
  "framed onlyBalances (GetForUpdate c t x p)" "framed onlyBalances (EnsureBalanceRow c t x p)"
  "framed onlyBalances (ApplyDelta c t x p n)" "framed onlyBalances (TransferDelta c t x y p n)"
proof -
  show "framed onlyBalances (GetForUpdate c t x p)"
    unfolding GetForUpdate_def by (intro obal.fr_struct obal.fr_basic obal_getBalance)
  show "framed onlyBalances (EnsureBalanceRow c t x p)"
    unfolding EnsureBalanceRow_def
    by (intro obal.fr_struct obal.fr_basic obal.fr_stmt obal_getBalance) (auto intro: obal_stmts)
  show "framed onlyBalances (ApplyDelta c t x p n)"
    unfolding ApplyDelta_def Let_def by (intro obal.fr_struct obal_getBalance obal_applyQuantity)
  show "framed onlyBalances (TransferDelta c t x y p n)"
    unfolding TransferDelta_def Let_def
    by (auto intro!: obal.fr_struct obal.fr_basic obal_getBalance obal_applyQuantity split: prod.splits)
qed

lemma obal_applyStock: "framed onlyBalances (applyStock c stockRepository t mv)"
  unfolding applyStock_def applyInbound_def applyOutbound_def applyTransfer_def applyAdjustment_def
    inboundLine_def outboundLine_def transferLine_def decreaseLine_def Let_def
  by (auto intro!: obal.fr_struct obal.fr_basic obal_ops)

text \<open>What reads leave alone.\<close>

lemma GetWarehouse_frame: "keeps sameDB (GetWarehouse c i)"
  unfolding GetWarehouse_def whGetByID_def
  by (intro dbs.keeps_rules dbs_basic keeps_orNotFound)

lemma validateWarehouses_frame: "keeps sameDB (validateWarehousesActive c src dst)"
  unfolding validateWarehousesActive_def checkWarehouse_def validationFail_def
  by (intro dbs.keeps_rules GetWarehouse_frame)

lemma GetProduct_frame: "keeps sameDB (GetProduct c i)"
  unfolding GetProduct_def GetProductByID_def Let_def
  by (intro dbs.keeps_rules dbs_basic keeps_orNotFound wiredc.readThrough_frame)

lemma mvGetByID_frame: "keeps sameDB (mvGetByID c t i)" "keeps sameDB (GetByIDForUpdate c t i)"
  unfolding mvGetByID_def GetByIDForUpdate_def
  by (intro dbs.keeps_rules dbs_basic keeps_orNotFound)+

lemma afterConfirm_pool: "keeps samePool (afterConfirm t m chs)"
proof -
  have pub: "keeps samePool (PublishStockChanged t m x)" for x
    by (auto simp: keeps_def samePool_def PublishStockChanged_def redisCmd_def ret_def Let_def)
  then show ?thesis unfolding afterConfirm_def
    by (intro pool.keeps_rules pub sameDB_samePool [OF wiredc.delete_frame]
        sameDB_samePool [OF wiredc.pattern_frame])
qed

lemma sameDB_view: "keeps sameDB m \<Longrightarrow> m w = (r, w') \<Longrightarrow> viewOf h w' = viewOf h w"
  by (cases h; cases "wtx w") (auto dest!: keepsD simp: sameDB_def viewOf_def)

text \<open>On a transaction's context nothing is written to the pool.\<close>

lemma applyStock_pool: "cxTx c \<Longrightarrow> keeps samePool (applyStock c stockRepository t mv)"
  unfolding applyStock_def applyInbound_def applyOutbound_def applyTransfer_def applyAdjustment_def
    inboundLine_def outboundLine_def transferLine_def decreaseLine_def Let_def deref_def
  by (auto intro!: pool.keeps_rules keeps_mapErr pool.effect_axioms GetForUpdate_one EnsureBalanceRow_one
      ApplyDelta_one TransferDelta_one)

lemma UpdateStatus_pool: "cxTx c \<Longrightarrow> keeps samePool (UpdateStatus c t m a b)"
  unfolding UpdateStatus_def
  by (auto intro!: pool.keeps_rules now_pool keeps_stmt_pool simp: GetDB_def)

lemma emitOutbox_pool: "cxTx c \<Longrightarrow> keeps samePool (emitOutbox c t m mv chs)"
  unfolding emitOutbox_def emitChange_def Let_def
  by (intro pool.keeps_rules outboxInsert_pool sameDB_samePool GetProduct_frame)

lemma confirmTx_pool: "cxTx c \<Longrightarrow> keeps samePool (confirmTx t mid c)"
  unfolding confirmTx_def
  by (intro pool.keeps_rules sameDB_samePool [OF mvGetByID_frame(2)] sameDB_samePool [OF validateWarehouses_frame]
      applyStock_pool UpdateStatus_pool emitOutbox_pool)
    (simp_all add: emitAudit_def Let_def auditLog_pool)

section \<open>The specification\<close>

definition onHandOf :: "database \<Rightarrow> skey \<Rightarrow> int" where
  "onHandOf d k = (case qtyMap d k of None \<Rightarrow> 0 | Some q \<Rightarrow> q)"

definition activeWarehouse :: "string \<Rightarrow> string \<Rightarrow> database \<Rightarrow> bool" where
  "activeWarehouse t x d \<longleftrightarrow> (\<exists>r \<in> set (dbWarehouses d). whrID r = x \<and> whLive t r \<and> whrIsActive r)"

text \<open>The events of a confirmation in order, by type and payload; a threshold event may follow the
  change it belongs to.\<close>

definition eventOf :: "outboxEventRow \<Rightarrow> string \<times> jval" where
  "eventOf e = (oerEventType e, oerPayload e)"

fun changeEvents :: "string \<Rightarrow> string \<Rightarrow> stockQtyChange list \<Rightarrow> (string \<times> jval) list \<Rightarrow> bool" where
  "changeEvents t mid [] evs \<longleftrightarrow> evs = []"
| "changeEvents t mid (ch # chs) evs \<longleftrightarrow>
    (\<exists>rest. (evs = (EventTypeStockChanged, stockChangedPayload t mid ch) # rest
      \<or> (\<exists>rl > sqNewQty ch. evs = (EventTypeStockChanged, stockChangedPayload t mid ch)
           # (EventTypeStockBelowThreshold, stockBelowThresholdPayload t ch rl) # rest))
      \<and> changeEvents t mid chs rest)"

definition newEvents :: "string \<Rightarrow> string \<Rightarrow> outboxEventRow list \<Rightarrow> bool" where
  "newEvents t mid evs \<longleftrightarrow> list_all (\<lambda>e. oerTenantID e = t \<and> oerAggregateID e = mid \<and> \<not> oerPublished e) evs"

definition confirmEffect :: "string \<Rightarrow> string \<Rightarrow> string \<Rightarrow> database \<Rightarrow> database \<Rightarrow> stockQtyChange list \<Rightarrow> bool" where
  "confirmEffect t user mid d d' chs \<longleftrightarrow>
    (\<exists>row mv now evs aud.
       findMovement t mid d = Some row \<and> mvrStatus row = StatusDraft
     \<and> mv = rowToMovement row (linesOf mid d)
     \<and> (\<forall>x. mvrSourceWarehouseID row = Some x \<or> mvrDestinationWarehouseID row = Some x
          \<longrightarrow> activeWarehouse t x d)
     \<and> runPostings t (postings mv) (onHandOf d) = (onHandOf d', chs)
     \<and> dbMovements d' = dbMovements (snd (setStatus t mid StatusDraft StatusConfirmed now d))
     \<and> dbOutbox d' = dbOutbox d @ evs \<and> newEvents t mid evs
     \<and> (\<exists>rest. map eventOf evs = (EventTypeMovementCreated, movementCreatedPayload t mid mv) # rest
          \<and> changeEvents t mid chs rest)
     \<and> dbAudit d' = dbAudit d @ [aud] \<and> alrTenantID aud = t \<and> alrUserID aud = Some user
     \<and> alrAction aud = ''movement.confirm'' \<and> alrEntity aud = ''movement'' \<and> alrEntityID aud = mid
     \<and> dbUsers d' = dbUsers d \<and> dbWarehouses d' = dbWarehouses d \<and> dbCategories d' = dbCategories d
     \<and> dbProducts d' = dbProducts d \<and> dbLines d' = dbLines d)"

section \<open>The steps of the transaction\<close>

lemma mvRead_Inr:
  assumes "GetByIDForUpdate c t mid w = (Inr mv, w')"
  shows "\<exists>row. findMovement (TrimSpace t) (TrimSpace mid) (viewOf (GetDB c) w) = Some row
    \<and> mv = rowToMovement row (linesOf (mvrID row) (viewOf (GetDB c) w))"
  using assms
  by (fastforce simp: GetByIDForUpdate_def bindM_Inr dest!: firstStmt_Inr queryStmt_Inr)

lemma findMovement_Some: "findMovement t mid d = Some row \<Longrightarrow>
    row \<in> set (dbMovements d) \<and> mvrID row = mid \<and> mvrTenantID row = t"
  by (auto simp: findMovement_def dest: find_SomeD)

lemma rowToMovement_sel [simp]:
  "mvStatus (rowToMovement r ls) = mvrStatus r" "mvType (rowToMovement r ls) = mvrType r"
  "mvSourceWarehouseID (rowToMovement r ls) = mvrSourceWarehouseID r"
  "mvDestinationWarehouseID (rowToMovement r ls) = mvrDestinationWarehouseID r"
  "mvLines (rowToMovement r ls) = map rowToLine ls" "mvID (rowToMovement r ls) = mvrID r"
  by (simp_all add: rowToMovement_def)

lemma set_linesOf: "set (linesOf mid d) = {l \<in> set (dbLines d). mlrMovementID l = mid}"
  by (auto simp: linesOf_def)

text \<open>A movement of a store that satisfies the invariant is well formed.\<close>

lemma movementOK_row:
  assumes "movementsOK d" "row \<in> set (dbMovements d)"
  shows "movementOK (rowToMovement row (linesOf mid d))"
proof -
  have r: "movementRowOK row" using assms by (auto simp: movementsOK_def list_all_iff)
  have l: "\<forall>l \<in> set (dbLines d). 0 < mlrQuantity l \<and> mlrQuantity l \<le> MaxInt32"
    using assms(1) by (simp add: movementsOK_def list_all_iff)
  have tr: "TrimSpace a = a" if "trimOpt p = p" "p = Some a" for p a
    using that trimOpt_Some_nonempty by blast
  have "TrimSpace (the (mvrSourceWarehouseID row)) \<noteq> TrimSpace (the (mvrDestinationWarehouseID row))"
    if transfer: "mvrType row = TypeTransfer"
  proof -
    obtain a b where ab: "mvrSourceWarehouseID row = Some a" "mvrDestinationWarehouseID row = Some b" "a \<noteq> b"
      using r transfer by (auto simp: movementRowOK_def chkMovementWarehouses_def type_defs)
    have "TrimSpace a = a" "TrimSpace b = b"
      using r tr [OF _ ab(1)] tr [OF _ ab(2)] by (simp_all add: movementRowOK_def del: trimOpt.simps)
    then show ?thesis using ab by simp
  qed
  then show ?thesis
    using r l by (auto simp: movementOK_def movementRowOK_def set_linesOf rowToLine_def)
qed

lemma checkWarehouse_Inr:
  assumes "TenantIDFromContext c = Inr t" "checkWarehouse c i w = (Inr u, w')"
  shows "activeWarehouse t (TrimSpace i) (wdb w)"
  using assms
  by (fastforce simp: checkWarehouse_def GetWarehouse_def whGetByID_def bindM_Inr activeWarehouse_def
      validationFail_def rowToWarehouse_def whLive_def viewOf_def split: if_splits
      dest!: firstStmt_Inr find_SomeD)

lemma validateWarehouses_Inr:
  assumes "TenantIDFromContext c = Inr t" "validateWarehousesActive c src dst w = (Inr u, w')"
    "src = Some x \<or> dst = Some x"
  shows "activeWarehouse t (TrimSpace x) (wdb w)"
proof -
  from assms(2) obtain w1 where
    s: "(case src of None \<Rightarrow> ret () | Some s \<Rightarrow> checkWarehouse c (TrimSpace s)) w = (Inr (), w1)"
    and d: "(case dst of None \<Rightarrow> ret () | Some d \<Rightarrow> checkWarehouse c (TrimSpace d)) w1 = (Inr u, w')"
    by (auto simp: validateWarehousesActive_def bindM_Inr)
  have "keeps sameDB (checkWarehouse c i)" for i
    unfolding checkWarehouse_def validationFail_def by (intro dbs.keeps_rules GetWarehouse_frame)
  then have "wdb w1 = wdb w"
    using s keepsD [of sameDB "checkWarehouse c _" w "Inr ()" w1]
    by (cases src) (auto simp: sameDB_def)
  then show ?thesis
    using s d assms(3) checkWarehouse_Inr [OF assms(1)] by (auto split: option.splits) fastforce+
qed

lemma UpdateStatus_Inr:
  assumes "UpdateStatus c t mid a b w = (Inr u, w')"
  shows "\<exists>now. viewOf (GetDB c) w' = snd (setStatus (TrimSpace t) (TrimSpace mid) a b now (viewOf (GetDB c) w))
    \<and> fst (setStatus (TrimSpace t) (TrimSpace mid) a b now (viewOf (GetDB c) w)) = 1"
proof -
  from assms obtain now w1 n where
    "runStmt (GetDB c) (\<lambda>d. Inr (setStatus (TrimSpace t) (TrimSpace mid) a b now d)) w1 = (Inr n, w')"
    "w1 = w\<lparr>wtick := Suc (wtick w)\<rparr>" "n = 1"
    by (auto simp: UpdateStatus_def bindM_Inr split: if_splits)
  with runStmt_Inr [OF this(1)] show ?thesis by (intro exI [of _ now]) auto
qed

lemma outboxInsert_event:
  assumes "outboxInsert c (movementEvent t mid typ payload) w = (Inr u, w')"
  shows "\<exists>e. viewOf (GetDB c) w' = (viewOf (GetDB c) w)\<lparr>dbOutbox := dbOutbox (viewOf (GetDB c) w) @ [e]\<rparr>
    \<and> eventOf e = (typ, payload) \<and> newEvents t mid [e]"
  using outboxInsert_Inr [OF assms]
  by (auto simp: outboxRowOf_def movementEvent_def eventOf_def newEvents_def)

lemma newEvents_append [simp]: "newEvents t mid (a @ b) \<longleftrightarrow> newEvents t mid a \<and> newEvents t mid b"
  by (simp add: newEvents_def)

lemma emitChange_Inr:
  assumes "emitChange c t mid ch w = (Inr u, w')"
  shows "\<exists>evs. viewOf (GetDB c) w' = (viewOf (GetDB c) w)\<lparr>dbOutbox := dbOutbox (viewOf (GetDB c) w) @ evs\<rparr>
    \<and> newEvents t mid evs
    \<and> (map eventOf evs = [(EventTypeStockChanged, stockChangedPayload t mid ch)]
      \<or> (\<exists>rl > sqNewQty ch. map eventOf evs = [(EventTypeStockChanged, stockChangedPayload t mid ch),
           (EventTypeStockBelowThreshold, stockBelowThresholdPayload t ch rl)]))"
proof -
  from assms obtain u1 w1 prod w2 where
    o: "outboxInsert c (movementEvent t mid EventTypeStockChanged (stockChangedPayload t mid ch)) w = (Inr u1, w1)"
    and g: "GetProduct c (sqProductID ch) w1 = (Inr prod, w2)"
    and r: "(if prReorderLevel prod > 0 \<and> sqNewQty ch < prReorderLevel prod then
        outboxInsert c (movementEvent t mid EventTypeStockBelowThreshold
          (stockBelowThresholdPayload t ch (prReorderLevel prod))) else ret ()) w2 = (Inr u, w')"
    by (auto simp: emitChange_def bindM_Inr Let_def)
  from outboxInsert_event [OF o] obtain e1 where
    e1: "viewOf (GetDB c) w1 = (viewOf (GetDB c) w)\<lparr>dbOutbox := dbOutbox (viewOf (GetDB c) w) @ [e1]\<rparr>"
      "eventOf e1 = (EventTypeStockChanged, stockChangedPayload t mid ch)" "newEvents t mid [e1]" by blast
  have v2: "viewOf (GetDB c) w2 = viewOf (GetDB c) w1" by (rule sameDB_view [OF GetProduct_frame g])
  show ?thesis
  proof (cases "prReorderLevel prod > 0 \<and> sqNewQty ch < prReorderLevel prod")
    case True
    with r have "outboxInsert c (movementEvent t mid EventTypeStockBelowThreshold
          (stockBelowThresholdPayload t ch (prReorderLevel prod))) w2 = (Inr u, w')" by simp
    from outboxInsert_event [OF this] obtain e2 where
      e2: "viewOf (GetDB c) w' = (viewOf (GetDB c) w2)\<lparr>dbOutbox := dbOutbox (viewOf (GetDB c) w2) @ [e2]\<rparr>"
        "eventOf e2 = (EventTypeStockBelowThreshold, stockBelowThresholdPayload t ch (prReorderLevel prod))"
        "newEvents t mid [e2]" by blast
    show ?thesis using e1 e2 v2 True
      by (intro exI [of _ "[e1, e2]"]) (auto simp: newEvents_def)
  next
    case False
    with r have "w' = w2" by simp
    then show ?thesis using e1 v2 by (intro exI [of _ "[e1]"]) auto
  qed
qed

lemma changeEvents_Cons:
  "changeEvents t mid chs (map eventOf es) \<Longrightarrow>
   map eventOf evs = [(EventTypeStockChanged, stockChangedPayload t mid ch)]
   \<or> (\<exists>rl > sqNewQty ch. map eventOf evs = [(EventTypeStockChanged, stockChangedPayload t mid ch),
        (EventTypeStockBelowThreshold, stockBelowThresholdPayload t ch rl)]) \<Longrightarrow>
   changeEvents t mid (ch # chs) (map eventOf evs @ map eventOf es)"
  by (simp only: changeEvents.simps) (rule exI [of _ "map eventOf es"], auto)

lemma emitChanges_Inr:
  "forM chs (emitChange c t mid) w = (Inr u, w') \<Longrightarrow>
   \<exists>evs. viewOf (GetDB c) w' = (viewOf (GetDB c) w)\<lparr>dbOutbox := dbOutbox (viewOf (GetDB c) w) @ evs\<rparr>
    \<and> newEvents t mid evs \<and> changeEvents t mid chs (map eventOf evs)"
proof (induction chs arbitrary: w)
  case Nil
  then show ?case by (intro exI [of _ "[]"]) (auto simp: newEvents_def)
next
  case (Cons ch chs)
  then obtain u1 w1 where e: "emitChange c t mid ch w = (Inr u1, w1)"
    and r: "forM chs (emitChange c t mid) w1 = (Inr u, w')" by (auto simp: bindM_Inr)
  from Cons.IH [OF r] obtain es where es:
    "viewOf (GetDB c) w' = (viewOf (GetDB c) w1)\<lparr>dbOutbox := dbOutbox (viewOf (GetDB c) w1) @ es\<rparr>"
    "newEvents t mid es" "changeEvents t mid chs (map eventOf es)" by blast
  from emitChange_Inr [OF e] obtain evs where evs:
    "viewOf (GetDB c) w1 = (viewOf (GetDB c) w)\<lparr>dbOutbox := dbOutbox (viewOf (GetDB c) w) @ evs\<rparr>"
    "newEvents t mid evs"
    "map eventOf evs = [(EventTypeStockChanged, stockChangedPayload t mid ch)]
      \<or> (\<exists>rl > sqNewQty ch. map eventOf evs = [(EventTypeStockChanged, stockChangedPayload t mid ch),
           (EventTypeStockBelowThreshold, stockBelowThresholdPayload t ch rl)])"
    by (elim exE conjE) (rule that)
  show ?case using es evs changeEvents_Cons [OF es(3) evs(3)]
    by (intro exI [of _ "evs @ es"]) (simp del: changeEvents.simps)
qed

lemma emitOutbox_Inr:
  assumes "emitOutbox c t mid mv chs w = (Inr u, w')"
  shows "\<exists>evs rest. viewOf (GetDB c) w' = (viewOf (GetDB c) w)\<lparr>dbOutbox := dbOutbox (viewOf (GetDB c) w) @ evs\<rparr>
    \<and> newEvents t mid evs
    \<and> map eventOf evs = (EventTypeMovementCreated, movementCreatedPayload t mid mv) # rest
    \<and> changeEvents t mid chs rest"
proof -
  from assms obtain u1 w1 where
    o: "outboxInsert c (movementEvent t mid EventTypeMovementCreated (movementCreatedPayload t mid mv)) w = (Inr u1, w1)"
    and r: "forM chs (emitChange c t mid) w1 = (Inr u, w')"
    by (auto simp: emitOutbox_def bindM_Inr)
  from outboxInsert_event [OF o] obtain e1 where
    e1: "viewOf (GetDB c) w1 = (viewOf (GetDB c) w)\<lparr>dbOutbox := dbOutbox (viewOf (GetDB c) w) @ [e1]\<rparr>"
      "eventOf e1 = (EventTypeMovementCreated, movementCreatedPayload t mid mv)" "newEvents t mid [e1]" by blast
  from emitChanges_Inr [OF r] obtain es where
    es: "viewOf (GetDB c) w' = (viewOf (GetDB c) w1)\<lparr>dbOutbox := dbOutbox (viewOf (GetDB c) w1) @ es\<rparr>"
      "newEvents t mid es" "changeEvents t mid chs (map eventOf es)" by blast
  show ?thesis using e1 es
    by (intro exI [of _ "e1 # es"] exI [of _ "map eventOf es"]) (simp add: newEvents_def)
qed

lemma onHand_view: "stock.onHand c w = onHandOf (viewOf (GetDB c) w)"
  by (rule ext) (simp add: stock.onHand_def stockQty_def onHandOf_def)

lemma onHandOf_cong: "dbBalances d = dbBalances d' \<Longrightarrow> onHandOf d = onHandOf d'"
  by (rule ext) (simp add: onHandOf_def qtyMap_def findBalance_def)

lemma setStatus_snd: "snd (setStatus t m a b now d) = d\<lparr>dbMovements := dbMovements (snd (setStatus t m a b now d))\<rparr>"
  by (simp add: setStatus_def Let_def)

lemma setStatus_cong: "dbMovements d = dbMovements d' \<Longrightarrow>
    dbMovements (snd (setStatus t m a b now d)) = dbMovements (snd (setStatus t m a b now d'))"
  by (simp add: setStatus_def Let_def)

text \<open>A successful callback of the transaction has exactly the specified effect on its view.\<close>

lemma confirmTx_Inr:
  assumes c: "cxTx c" "TenantIDFromContext c = Inr t" "TrimSpace t = t" "TrimSpace mid = mid"
    and inv: "dbInv (viewOf Tx w)" and pool: "wdb w = viewOf Tx w"
    and run: "confirmTx t mid c w = (Inr chs, w')"
  shows "\<exists>user. SubjectFromContext c = Inr user \<and> confirmEffect t user mid (viewOf Tx w) (viewOf Tx w') chs"
proof -
  have h: "GetDB c = Tx" using c(1) by (simp add: GetDB_def)
  from run obtain mv w1 u2 w2 w3 u4 w4 u5 w5 u6 where
    r1: "GetByIDForUpdate c t mid w = (Inr mv, w1)" and draft: "mvStatus mv = StatusDraft"
    and r2: "validateWarehousesActive c (mvSourceWarehouseID mv) (mvDestinationWarehouseID mv) w1 = (Inr u2, w2)"
    and r3: "applyStock c stockRepository t mv w2 = (Inr chs, w3)"
    and r4: "UpdateStatus c t mid StatusDraft StatusConfirmed w3 = (Inr u4, w4)"
    and r5: "emitAudit c mid mv w4 = (Inr u5, w5)"
    and r6: "emitOutbox c t mid mv chs w5 = (Inr u6, w')"
    by (auto simp: confirmTx_def bindM_Inr split: if_splits)
  let ?d = "viewOf Tx w"
  have v1: "viewOf Tx w1 = ?d" "wdb w1 = ?d"
    using sameDB_view [OF mvGetByID_frame(2) r1] keepsD [OF mvGetByID_frame(2) r1] pool
    by (simp_all add: sameDB_def)
  have v2: "viewOf Tx w2 = ?d" using sameDB_view [OF validateWarehouses_frame r2] v1 by simp
  from mvRead_Inr [OF r1] obtain row where
    row: "findMovement t mid ?d = Some row" "mv = rowToMovement row (linesOf mid ?d)"
    using c h findMovement_Some by fastforce
  have mem: "row \<in> set (dbMovements ?d)" using findMovement_Some [OF row(1)] by simp
  have invs: "movementsOK ?d" "balancesOK ?d" using inv by (simp_all add: dbInv_def)
  have mvok: "movementOK mv" unfolding row(2) by (rule movementOK_row [OF invs(1) mem])
  have act: "activeWarehouse t x ?d"
    if x: "mvrSourceWarehouseID row = Some x \<or> mvrDestinationWarehouseID row = Some x" for x
  proof -
    have "movementRowOK row" using invs(1) mem by (auto simp: movementsOK_def list_all_iff)
    then have "TrimSpace x = x" using x trimOpt_Some_nonempty unfolding movementRowOK_def by metis
    moreover have "activeWarehouse t (TrimSpace x) (wdb w1)"
      by (rule validateWarehouses_Inr [OF c(2) r2]) (use x row(2) in simp)
    ultimately show ?thesis using v1 by simp
  qed
  have "stockInv c w2" using invs(2) v2 h by (simp add: stockInv_def)
  from stock.applyStock_refines [OF this mvok r3]
  have post: "runPostings t (postings mv) (onHandOf ?d) = (onHandOf (viewOf Tx w3), chs)"
    using onHand_view h v2 by simp
  have o3: "viewOf Tx w3 = ?d\<lparr>dbBalances := dbBalances (viewOf Tx w3)\<rparr>"
    using keepsD [OF obal.framedD [OF obal_applyStock, of Tx] r3] v2 by (simp add: liftQ_def onlyBalances_def)
  from UpdateStatus_Inr [OF r4] obtain now where
    v4: "viewOf Tx w4 = snd (setStatus t mid StatusDraft StatusConfirmed now (viewOf Tx w3))"
    using h c by auto
  from r5 have "auditLog c \<lparr>apAction = ''movement.confirm'', apEntity = ''movement'', apEntityID = mid,
      apBefore = Some (JObj [(''movement_id'', JStr mid), (''reference_number'', JStr (mvReferenceNumber mv)),
        (''status'', JStr (mvStatus mv)), (''type'', JStr (mvType mv))]),
      apAfter = Some (JObj [(''line_count'', JInt (int (length (mvLines mv)))), (''movement_id'', JStr mid),
        (''reference_number'', JStr (mvReferenceNumber mv)), (''status'', JStr StatusConfirmed),
        (''type'', JStr (mvType mv))])\<rparr> w4 = (Inr u5, w5)"
    by (simp add: emitAudit_def Let_def)
  from auditLog_Inr [OF this] obtain aud user where
    v5: "viewOf Tx w5 = (viewOf Tx w4)\<lparr>dbAudit := dbAudit (viewOf Tx w4) @ [aud]\<rparr>"
    and aud: "alrTenantID aud = t" "SubjectFromContext c = Inr user" "alrUserID aud = Some user"
      "alrAction aud = ''movement.confirm''" "alrEntity aud = ''movement''" "alrEntityID aud = mid"
    using h c by (auto simp: auditAppends_def)
  from emitOutbox_Inr [OF r6] obtain evs rest where
    v6: "viewOf Tx w' = (viewOf Tx w5)\<lparr>dbOutbox := dbOutbox (viewOf Tx w5) @ evs\<rparr>"
    and evs: "newEvents t mid evs"
      "map eventOf evs = (EventTypeMovementCreated, movementCreatedPayload t mid mv) # rest"
      "changeEvents t mid chs rest"
    using h by auto
  have f4: "viewOf Tx w4 = (viewOf Tx w3)\<lparr>dbMovements := dbMovements (viewOf Tx w4)\<rparr>"
    "dbMovements (viewOf Tx w4) = dbMovements (snd (setStatus t mid StatusDraft StatusConfirmed now ?d))"
    using setStatus_snd v4 setStatus_cong [of "viewOf Tx w3" ?d] o3 by (metis database.select_convs(6) database.surjective database.update_convs(5))+
  let ?D = "?d\<lparr>dbBalances := dbBalances (viewOf Tx w3),
      dbMovements := dbMovements (viewOf Tx w4), dbOutbox := dbOutbox ?d @ evs, dbAudit := dbAudit ?d @ [aud]\<rparr>"
  have w': "viewOf Tx w' = ?D"
    unfolding v6 v5 by (subst f4(1), subst (1 2 3) f4(1), subst o3, subst (1 2) o3) simp
  show ?thesis
  proof (intro exI [of _ user] conjI aud(2))
    have "onHandOf (viewOf Tx w') = onHandOf (viewOf Tx w3)" unfolding w' by (rule onHandOf_cong) simp
    then show "confirmEffect t user mid ?d (viewOf Tx w') chs"
      unfolding confirmEffect_def
      by (intro exI [of _ row] exI [of _ mv] exI [of _ now] exI [of _ evs] exI [of _ aud] conjI)
        (use row draft act post evs aud f4(2) in \<open>auto simp: w'\<close>)
  qed
qed

section \<open>All or nothing\<close>

lemma viewOf_begin: "viewOf Tx (w\<lparr>wstmt := n, wtx := Some d\<rparr>) = d"
  by (simp add: viewOf_def)

text \<open>C1: Confirmation is all or nothing. Whatever statement or cache command fails while a tenant
  confirms a movement, the committed database afterwards is either exactly the one before, or has
  exactly the specified effect confirmEffect: the movement was a draft of the tenant on active
  warehouses and is now confirmed, the balances are those of running its postings, the outbox got
  the MovementCreated event and one StockChanged event per change (with its threshold event), all
  unpublished, the audit log got one row of the acting user, and every other table is unchanged. A
  successful answer means the effect took place.\<close>

theorem confirm_all_or_nothing:
  assumes "TenantIDFromContext c = Inr t" "TrimSpace t = t" "\<not> cxTx c" "dbInv (wdb w)"
    and "ConfirmMovement c i w = (r, w')"
  shows "(\<exists>user chs. SubjectFromContext c = Inr user
        \<and> confirmEffect t user (TrimSpace i) (wdb w) (wdb w') chs)
    \<or> (wdb w' = wdb w \<and> (\<exists>e. r = Inl e))"
proof -
  let ?mid = "TrimSpace i"
  obtain r1 w1 where r1: "RunInTx c (confirmTx t ?mid) w = (r1, w1)" by fastforce
  have run: "ConfirmMovement c i w = (case r1 of Inl e \<Rightarrow> (Inl e, w1)
      | Inr chs \<Rightarrow> bindM (afterConfirm t ?mid chs) (\<lambda>_. mvGetByID c t ?mid) w1)"
    using assms(1) r1 by (cases r1) (simp_all add: ConfirmMovement_def Let_def bindM_def)
  show ?thesis
  proof (cases r1)
    case (Inl e)
    have "keeps samePool (confirmTx t ?mid (c\<lparr>cxTx := True\<rparr>))" by (rule confirmTx_pool) simp
    from RunInTx_Inl [OF this assms(3) r1 [unfolded Inl]] show ?thesis
      using run Inl assms(5) by simp
  next
    case (Inr chs)
    from RunInTx_Inr [OF assms(3) r1 [unfolded Inr]] obtain w2 d where
      f: "confirmTx t ?mid (c\<lparr>cxTx := True\<rparr>) (w\<lparr>wstmt := Suc (wstmt w), wtx := Some (wdb w)\<rparr>) = (Inr chs, w2)"
      and d: "wtx w2 = Some d" "w1 = w2\<lparr>wstmt := Suc (wstmt w2), wtx := None, wdb := d\<rparr>" by metis
    have "\<exists>user. SubjectFromContext (c\<lparr>cxTx := True\<rparr>) = Inr user
        \<and> confirmEffect t user ?mid (wdb w) (viewOf Tx w2) chs"
      using confirmTx_Inr [OF _ _ assms(2) _ _ _ f] assms(1,4) by (simp add: viewOf_begin)
    moreover have "viewOf Tx w2 = wdb w1" using d by (simp add: viewOf_def)
    moreover have "wdb w' = wdb w1"
    proof -
      have k: "keeps samePool (bindM (afterConfirm t ?mid chs) (\<lambda>_. mvGetByID c t ?mid))"
        by (intro pool.keeps_bind afterConfirm_pool sameDB_samePool [OF mvGetByID_frame(1)])
      have "bindM (afterConfirm t ?mid chs) (\<lambda>_. mvGetByID c t ?mid) w1 = (r, w')"
        using run Inr assms(5) by simp
      from keepsD [OF k this] show ?thesis by (simp add: samePool_def)
    qed
    ultimately show ?thesis by auto
  qed
qed

lemma sample_confirm: "\<not> isl (fst (ConfirmMovement sampleCtx ''m1'' sampleWorld))"
  by code_simp

theorem confirm_all_or_nothing_witness:
  "\<exists>user chs. confirmEffect ''t1'' user (TrimSpace ''m1'') sampleDB
     (wdb (snd (ConfirmMovement sampleCtx ''m1'' sampleWorld))) chs"
proof -
  obtain r w' where r: "ConfirmMovement sampleCtx ''m1'' sampleWorld = (r, w')" by fastforce
  have "wdb sampleWorld = sampleDB" by (simp add: sampleWorld_def sampleWorldOf_def)
  with confirm_all_or_nothing [of sampleCtx "''t1''" sampleWorld "''m1''" r w', OF _ _ _ _ r]
    r sample_dbInv sample_confirm
  show ?thesis by auto
qed

end
