(* ===== verification/Idempotency.thy ===== *)
theory Idempotency
  imports Confirm
begin

text \<open>
  Idempotent creation of movements (createDraft of src/services/inventory/domains/movement/usecase and
  Create of its repository): a creation that is repeated with its Idempotency-Key writes nothing and
  answers the stored movement, or refuses. The second part shows what that means for a creation whose
  statements are not one transaction: a draft cut short by a failure is what the repetition answers.
\<close>

section \<open>A key that is taken\<close>

definition keyTaken :: "string \<Rightarrow> string \<Rightarrow> database \<Rightarrow> bool" where
  "keyTaken t k d \<longleftrightarrow> list_ex (\<lambda>r. mvrTenantID r = t \<and> mvrIdempotencyKey r = Some k) (dbMovements d)"

text \<open>The body of a request that creates a movement.\<close>

fun createBase :: "request \<Rightarrow> CreateMovementBase option" where
  "createBase (RCreateInbound dst inp) = Some inp"
| "createBase (RCreateOutbound src inp) = Some inp"
| "createBase (RCreateTransfer src dst inp) = Some inp"
| "createBase (RCreateAdjustment src dst inp) = Some inp"
| "createBase r = None"

lemma insertMovement_taken:
  "mvrIdempotencyKey m = Some k \<Longrightarrow> keyTaken (mvrTenantID m) k d \<Longrightarrow> \<exists>e. insertMovement m d = Inl e"
  by (auto simp: insertMovement_def keyTaken_def)

lemma GetByKey_frame: "keeps sameDB (GetByTenantAndIdempotencyKey c t k)"
  unfolding GetByTenantAndIdempotencyKey_def Let_def
  by (intro dbs.keeps_rules dbs_basic keeps_orNotFound mvGetByID_frame)

lemma handleDuplicate_frame: "keeps sameDB (handleCreateDuplicate c inp k h)"
  unfolding handleCreateDuplicate_def Let_def
  by (intro dbs.keeps_rules GetByKey_frame)

text \<open>The row with the key is the one that is answered.\<close>

lemma key_unique:
  assumes "movementsOK d" "r \<in> set (dbMovements d)" "r' \<in> set (dbMovements d)"
    and "mvrTenantID r = mvrTenantID r'" "mvrIdempotencyKey r = Some k" "mvrIdempotencyKey r' = Some k"
  shows "r = r'"
proof -
  have "distinct (idemKeys (dbMovements d))" using assms(1) by (simp add: movementsOK_def)
  then have "inj_on (\<lambda>r. (mvrTenantID r, mvrIdempotencyKey r)) (set (filter (\<lambda>r. mvrIdempotencyKey r \<noteq> None) (dbMovements d)))"
    by (simp add: idemKeys_def distinct_map)
  then show ?thesis by (rule inj_onD) (use assms(2-6) in auto)
qed

lemma id_unique:
  assumes "movementsOK d" "r \<in> set (dbMovements d)" "r' \<in> set (dbMovements d)" "mvrID r = mvrID r'"
  shows "r = r'"
  using assms by (auto simp: movementsOK_def distinct_map dest: inj_onD)

lemma mvGetByID_Inr:
  assumes "mvGetByID c t mid w = (Inr mv, w')"
  shows "\<exists>row. findMovement (TrimSpace t) (TrimSpace mid) (viewOf (GetDB c) w) = Some row
    \<and> mv = rowToMovement row (linesOf (mvrID row) (viewOf (GetDB c) w))"
  using assms by (fastforce simp: mvGetByID_def bindM_Inr dest!: firstStmt_Inr queryStmt_Inr)

text \<open>A row of the store with a key, as the reads of the repository find it.\<close>

definition keyRow :: "string \<Rightarrow> string \<Rightarrow> movementRow \<Rightarrow> database \<Rightarrow> bool" where
  "keyRow t k row d \<longleftrightarrow> movementsOK d \<and> row \<in> set (dbMovements d) \<and> mvrTenantID row = t
     \<and> mvrIdempotencyKey row = Some k \<and> TrimSpace (mvrID row) = mvrID row"

lemma keyRow_taken: "keyRow t k row d \<Longrightarrow> keyTaken t k d"
  by (auto simp: keyRow_def keyTaken_def list_ex_iff)

definition movementAt :: "movementRow \<Rightarrow> database \<Rightarrow> Movement" where
  "movementAt row d = rowToMovement row (linesOf (mvrID row) d)"

lemma GetByKey_Inr:
  assumes "keyRow t k row (viewOf (GetDB c) w)" "TrimSpace t = t" "TrimSpace k = k"
    and "GetByTenantAndIdempotencyKey c t k w = (Inr mv, w')"
  shows "mv = movementAt row (viewOf (GetDB c) w)"
proof -
  let ?d = "viewOf (GetDB c) w"
  obtain r w1 where f: "firstStmt (GetDB c) (\<lambda>d. find (\<lambda>r. mvrTenantID r = t \<and> mvrIdempotencyKey r = Some k) (dbMovements d)) w = (Inr r, w1)"
    and g: "mvGetByID c t (mvrID r) w1 = (Inr mv, w')"
    using assms(2-4) by (auto simp: GetByTenantAndIdempotencyKey_def Let_def bindM_Inr split: if_splits)
  have v: "viewOf (GetDB c) w1 = ?d" by (rule sameDB_view [OF keeps_first f])
  have "r \<in> set (dbMovements ?d) \<and> mvrTenantID r = t \<and> mvrIdempotencyKey r = Some k"
    using firstStmt_Inr [OF f] by (auto dest!: find_SomeD)
  then have r: "r = row" using key_unique [of ?d r row k] assms(1) by (simp add: keyRow_def)
  obtain r' where r': "findMovement (TrimSpace t) (TrimSpace (mvrID r)) ?d = Some r'"
    "mv = rowToMovement r' (linesOf (mvrID r') ?d)" using mvGetByID_Inr [OF g] v by auto
  then have "r' = row"
    using findMovement_Some [OF r'(1)] id_unique [of ?d r' row] assms(1) r by (simp add: keyRow_def)
  then show ?thesis using r'(2) by (simp add: movementAt_def)
qed

lemma handleDuplicate_Inr:
  assumes "keyRow t k row (viewOf (GetDB c) w)" "TrimSpace t = t" "TrimSpace k = k" "TrimSpace (cmTenantID inp) = t"
    and "handleCreateDuplicate c inp k h w = (Inr (mv, replay), w')"
  shows "mv = movementAt row (viewOf (GetDB c) w) \<and> replay \<and> idempotencyHashesMatch (mvrIdempotencyRequestHash row) h"
proof -
  obtain x w1 where x: "tryM (GetByTenantAndIdempotencyKey c t k) w = (Inr x, w1)"
    "(case x of Inr existing \<Rightarrow> (if idempotencyHashesMatch (mvIdempotencyRequestHash existing) h
        then ret (existing, True) else throw (App ErrIdempotency))
      | Inl e \<Rightarrow> (if \<not> errorsIs e (App ErrNotFound) then throw e
          else throw (App (withMessage ErrConflict ''reference_number already exists'')))) w1 = (Inr (mv, replay), w')"
    using assms(4,5) by (auto simp: handleCreateDuplicate_def Let_def bindM_Inr split: if_splits)
  obtain m where m: "x = Inr m" using x(2) by (cases x) (auto split: if_splits)
  have "m = movementAt row (viewOf (GetDB c) w)"
    by (rule GetByKey_Inr [OF assms(1-3)]) (use x(1) m in \<open>simp add: tryM_Inr_Inr\<close>)
  then show ?thesis using x(2) m by (auto simp: movementAt_def rowToMovement_def split: if_splits)
qed

text \<open>Create with a key that is taken.\<close>

lemma mvCreate_taken:
  assumes "TrimSpace (cmTenantID inp) = t" "TrimSpace (cmIdempotencyKey inp) = k" "k \<noteq> []"
    and "keyTaken t k (viewOf (GetDB c) w)" "mvCreate c inp w = (r, w')"
  shows "sameDB w w' \<and> (\<forall>mv replay. r = Inr (mv, replay) \<longrightarrow> (\<exists>w1. sameDB w w1 \<and>
    handleCreateDuplicate c inp k (TrimSpace (ToLower (cmIdempotencyRequestHash inp))) w1 = (Inr (mv, replay), w')))"
proof -
  let ?row = "newMovementRow (wuuid w (wfresh w)) (wtime w (wtick w)) inp"
  let ?w = "w\<lparr>wfresh := Suc (wfresh w), wtick := Suc (wtick w)\<rparr>"
  obtain x w1 where x: "runStmt (GetDB c) (insertMovement ?row) ?w = (x, w1)" by fastforce
  have "\<exists>e. insertMovement ?row (viewOf (GetDB c) ?w) = Inl e"
    by (rule insertMovement_taken [where k = k]) (use assms(1-4) in \<open>auto simp: newMovementRow_def Let_def\<close>)
  then obtain e where e: "x = Inl e"
    using x runStmt_Inr [of "GetDB c" "insertMovement ?row" ?w _ w1] by (cases x) auto
  have w1: "sameDB w w1" using runStmt_Inl [OF x [unfolded e]] by (simp add: sameDB_def)
  let ?dup = "handleCreateDuplicate c inp k (TrimSpace (ToLower (cmIdempotencyRequestHash inp)))"
  have "(r, w') = (case e of Panic s \<Rightarrow> (Inl (Panic s), w1)
      | _ \<Rightarrow> (if \<not> mvIsDuplicateErr e then throw e else ?dup) w1)"
    using assms(2,5) x e
    by (cases e) (auto simp: mvCreate_def bindM_def newUUID_def nowUTC_def tryM_def Let_def split: if_splits)
  then consider "r = Inl e" "w' = w1" | "(r, w') = ?dup w1"
    by (cases e) (auto simp: throw_def split: if_splits)
  then show ?thesis
  proof cases
    case 2
    then have "sameDB w1 w'" using keepsD [OF handleDuplicate_frame] by metis
    then show ?thesis using w1 2 dbs.R_trans by metis
  qed (use w1 in auto)
qed

section \<open>Repeated requests\<close>

lemma checks_frame:
  "keeps sameDB (UserBelongsToTenant c t u)" "keeps sameDB (forM ls (checkLine c))"
  unfolding UserBelongsToTenant_def checkLine_def validationFail_def
  by (intro dbs.keeps_rules dbs_basic GetProduct_frame)+

text \<open>The checks before Create, as one program.\<close>

definition draftChecks :: "ctx \<Rightarrow> string \<Rightarrow> string \<Rightarrow> string \<Rightarrow> CreateMovementBase \<Rightarrow> string option \<Rightarrow> string option \<Rightarrow> unit app" where
  "draftChecks c t u typ inp src dst =
    bindM (liftE (validateIdempotencyCreate inp)) (\<lambda>_.
    bindM (liftE (validateMovementWarehouses typ src dst)) (\<lambda>_.
    if TrimSpace (cbReferenceNumber inp) = [] then validationFail ''reference_number is required''
    else if length (cbLines inp) = 0 then validationFail ''at least one line is required''
    else
      bindM (UserBelongsToTenant c t u) (\<lambda>ok.
      if \<not> ok then throw (App (withMessage ErrForbidden ''user does not belong to tenant''))
      else bindM (validateWarehousesActive c src dst) (\<lambda>_. forM (cbLines inp) (checkLine c)))))"

lemma createDraft_checks:
  "createDraft c t u typ inp src dst =
    bindM (draftChecks c t u typ inp src dst) (\<lambda>_.
    bindM (mvCreate c (createInput t u typ inp src dst)) (\<lambda>(mv, replay).
    bindM (if \<not> replay then
             ignoreErr (auditLog c \<lparr>apAction = ''movement.create'', apEntity = ''movement'',
               apEntityID = mvID mv, apBefore = None, apAfter = Some (movementCreateAuditSnapshot mv)\<rparr>)
           else ret ()) (\<lambda>_.
    ret mv)))"
proof -
  have if_bind: "bindM (if b then m else n) f = (if b then bindM m f else bindM n f)" for b m n f by simp
  show ?thesis
    by (simp add: createDraft_def draftChecks_def bindM_assoc Let_def if_bind validationFail_def cong: if_cong)
qed

lemma draftChecks_frame: "keeps sameDB (draftChecks c t u typ inp src dst)"
  unfolding draftChecks_def validationFail_def
  by (intro dbs.keeps_rules checks_frame validateWarehouses_frame)

lemma draftChecks_key: "draftChecks c t u typ inp src dst w = (Inr x, w') \<Longrightarrow> TrimSpace (cbIdempotencyKey inp) \<noteq> []"
  by (auto simp: draftChecks_def bindM_Inr validateIdempotencyCreate_def Let_def)

lemma set_TrimSpace: "set (TrimSpace s) \<subseteq> set s"
  unfolding TrimSpace_def by (auto dest!: set_dropWhileD)

lemma normal_hash: "TrimSpace (ToLower (TrimSpace (ToLower h))) = TrimSpace (ToLower h)"
proof -
  have "lowerChar c = c" if "c \<in> set (TrimSpace (ToLower h))" for c
    using that set_TrimSpace [of "ToLower h"] by (auto simp: ToLower_def)
  then have "ToLower (TrimSpace (ToLower h)) = TrimSpace (ToLower h)"
    unfolding ToLower_def [of "TrimSpace (ToLower h)"] by (simp add: map_idI)
  then show ?thesis by simp
qed

lemma sameDB_sameView: "sameDB w v \<Longrightarrow> viewOf h v = viewOf h w"
  by (cases h; cases "wtx w") (auto simp: sameDB_def viewOf_def)

lemma createDraft_taken:
  assumes "keyRow t k row (viewOf (GetDB c) w)" "TrimSpace t = t" "k = TrimSpace (cbIdempotencyKey inp)"
    and "createDraft c t u typ inp src dst w = (r, w')"
  shows "sameDB w w' \<and> (\<forall>mv. r = Inr mv \<longrightarrow> mv = movementAt row (viewOf (GetDB c) w)
    \<and> idempotencyHashesMatch (mvrIdempotencyRequestHash row) (TrimSpace (ToLower (cbRequestHashSHA256Hex inp))))"
proof -
  let ?d = "viewOf (GetDB c) w" and ?in = "createInput t u typ inp src dst"
  obtain x w1 where x: "draftChecks c t u typ inp src dst w = (x, w1)" by fastforce
  have w1: "sameDB w w1" "viewOf (GetDB c) w1 = ?d"
    using keepsD [OF draftChecks_frame x] sameDB_view [OF draftChecks_frame x] by auto
  show ?thesis
  proof (cases x)
    case (Inl e)
    then show ?thesis using x w1 assms(4) by (auto simp: createDraft_checks bindM_def)
  next
    case (Inr a)
    obtain y w2 where y: "mvCreate c ?in w1 = (y, w2)" by fastforce
    have k: "k \<noteq> []" using draftChecks_key [OF x [unfolded Inr]] assms(3) by simp
    have "sameDB w1 w2 \<and> (\<forall>mv replay. y = Inr (mv, replay) \<longrightarrow> (\<exists>v. sameDB w1 v \<and>
        handleCreateDuplicate c ?in k (TrimSpace (ToLower (cmIdempotencyRequestHash ?in))) v = (Inr (mv, replay), w2)))"
      by (rule mvCreate_taken [OF _ _ k _ y]) (use assms(1-3) w1 keyRow_taken in \<open>auto simp: createInput_def\<close>)
    then have w2: "sameDB w1 w2" and rep: "\<And>mv replay. y = Inr (mv, replay) \<Longrightarrow> \<exists>v. sameDB w1 v \<and>
        handleCreateDuplicate c ?in k (TrimSpace (ToLower (cmIdempotencyRequestHash ?in))) v = (Inr (mv, replay), w2)"
      by blast+
    have res: "mv = movementAt row ?d \<and> replay \<and> idempotencyHashesMatch (mvrIdempotencyRequestHash row)
        (TrimSpace (ToLower (cmIdempotencyRequestHash ?in)))" if yr: "y = Inr (mv, replay)" for mv replay
    proof -
      obtain v where v: "sameDB w1 v" "handleCreateDuplicate c ?in k (TrimSpace (ToLower (cmIdempotencyRequestHash ?in))) v = (Inr (mv, replay), w2)"
        using rep [OF yr] by blast
      have d: "viewOf (GetDB c) v = ?d" using sameDB_sameView [OF v(1)] w1(2) by simp
      show ?thesis
        by (rule handleDuplicate_Inr [of t k row c v ?in _ mv replay w2, unfolded d])
          (use v(2) assms(1-3) d in \<open>simp_all add: createInput_def\<close>)
    qed
    show ?thesis
    proof (cases y)
      case (Inl e)
      then show ?thesis using assms(4) x \<open>x = Inr a\<close> y w1(1) w2 dbs.R_trans
        by (auto simp: createDraft_checks bindM_def)
    next
      case (Inr p)
      obtain mv replay where p: "p = (mv, replay)" by fastforce
      have "createDraft c t u typ inp src dst w = (Inr mv, w2)"
        using res [of mv replay] Inr p x \<open>x = Inr a\<close> y by (simp add: createDraft_checks bindM_def ret_def)
      then show ?thesis using res [of mv replay] Inr p assms(4) w1(1) w2 dbs.R_trans
        by (auto simp: createInput_def normal_hash)
    qed
  qed
qed

lemma asResp_eq: "asResp f m w = (case m w of (Inl e, w') \<Rightarrow> (Inl e, w') | (Inr a, w') \<Rightarrow> (Inr (f a), w'))"
  by (auto simp: asResp_def bindM_def ret_run split: prod.split sum.split)

lemma serve_create:
  assumes "createBase r = Some inp" "TenantIDFromContext c = Inr t"
  obtains (early) e where "serve c r = throw e"
    | (draft) u ty src dst where "serve c r = asResp PMovement (createDraft c t u ty inp src dst)"
proof (cases "SubjectFromContext c")
  case (Inl e)
  have "serve c r = throw e"
    using assms Inl
    by (cases r) (auto simp: asResp_def CreateInbound_def CreateOutbound_def CreateTransfer_def CreateAdjustment_def)
  then show ?thesis by (rule early)
next
  case (Inr u)
  then have "\<exists>typ src dst. serve c r = asResp PMovement (createDraft c t u typ inp src dst)"
    using assms
    by (cases r) (auto simp: CreateInbound_def CreateOutbound_def CreateTransfer_def CreateAdjustment_def)
  then show ?thesis using draft by blast
qed

text \<open>C34: Repeated creations change nothing. If a movement of the tenant carries the Idempotency-Key of a
  request that creates a movement, of whatever type and with whatever body, then serving the request
  leaves the committed tables, an open transaction, the outbox sequence and the published messages as
  they are, whatever fails on the way; and an answer other than an error is exactly the stored movement
  with its lines, given only if the stored fingerprint of the request body has 64 digits and equals the
  one of the request.\<close>

theorem retried_create_replays:
  assumes "TenantIDFromContext c = Inr t" "TrimSpace t = t" "createBase r = Some inp"
    and "keyRow t (TrimSpace (cbIdempotencyKey inp)) row (viewOf (GetDB c) w)"
    and "serve c r w = (answer, w')"
  shows "sameDB w w' \<and> (isl answer \<or> (answer = Inr (PMovement (movementAt row (viewOf (GetDB c) w)))
    \<and> idempotencyHashesMatch (mvrIdempotencyRequestHash row) (TrimSpace (ToLower (cbRequestHashSHA256Hex inp)))))"
  using assms(3,1)
proof (cases rule: serve_create)
  case (early e)
  then show ?thesis using assms(5) by (auto simp: throw_def sameDB_def)
next
  case (draft u ty src dst)
  obtain x v where x: "createDraft c t u ty inp src dst w = (x, v)" by fastforce
  then have "serve c r w = (case x of Inl e \<Rightarrow> Inl e | Inr a \<Rightarrow> Inr (PMovement a), v)"
    by (simp add: draft asResp_eq split: sum.split)
  then show ?thesis using createDraft_taken [OF assms(4,2) refl x] assms(5) by (cases x) auto
qed

definition keyedDB :: database where
  "keyedDB = sampleDB\<lparr>dbMovements := [sampleMovement\<lparr>mvrIdempotencyRequestHash := Some (replicate 64 (CHR ''a''))\<rparr>]\<rparr>"

definition sampleBase :: "string \<Rightarrow> string \<Rightarrow> CreateMovementBase" where
  "sampleBase key h = \<lparr>cbReferenceNumber = ''R9'', cbNotes = None,
     cbLines = [\<lparr>liProductID = ''p1'', liQuantity = 5, liNotes = None\<rparr>, \<lparr>liProductID = ''p1'', liQuantity = 7, liNotes = None\<rparr>],
     cbIdempotencyKey = key, cbRequestHashSHA256Hex = h\<rparr>"

lemma keyed_replay: "\<not> isl (fst (serve sampleCtx (RCreateInbound ''w1'' (sampleBase ''k1'' (replicate 64 (CHR ''A'')))) (sampleWorldOf keyedDB (\<lambda>_. None))))"
  by code_simp

lemma keyed_row: "keyRow ''t1'' ''k1'' (hd (dbMovements keyedDB)) keyedDB"
  unfolding keyRow_def movementsOK_def by code_simp

theorem retried_create_replays_witness:
  "fst (serve sampleCtx (RCreateInbound ''w1'' (sampleBase ''k1'' (replicate 64 (CHR ''A'')))) (sampleWorldOf keyedDB (\<lambda>_. None)))
    = Inr (PMovement (movementAt (hd (dbMovements keyedDB)) keyedDB))"
proof -
  let ?r = "RCreateInbound ''w1'' (sampleBase ''k1'' (replicate 64 (CHR ''A'')))" and ?w = "sampleWorldOf keyedDB (\<lambda>_. None)"
  have "TrimSpace (cbIdempotencyKey (sampleBase ''k1'' (replicate 64 (CHR ''A'')))) = ''k1''" by code_simp
  moreover have v: "viewOf (GetDB sampleCtx) ?w = keyedDB" by (simp add: GetDB_def viewOf_def sampleWorldOf_def)
  ultimately have "keyRow ''t1'' (TrimSpace (cbIdempotencyKey (sampleBase ''k1'' (replicate 64 (CHR ''A'')))))
      (hd (dbMovements keyedDB)) (viewOf (GetDB sampleCtx) ?w)" using keyed_row by simp
  from retried_create_replays [of sampleCtx "''t1''" ?r, OF _ _ _ this prod.collapse [symmetric]] keyed_replay v
  show ?thesis by simp
qed

section \<open>A creation cut short\<close>

text \<open>The rows of the lines of a new movement; identifiers are drawn from position n on.\<close>

fun lineRows :: "string \<Rightarrow> int \<Rightarrow> (nat \<Rightarrow> string) \<Rightarrow> nat \<Rightarrow> MovementLineInput list \<Rightarrow> movementLineRow list" where
  "lineRows mid now u n [] = []"
| "lineRows mid now u n (l # ls) =
    \<lparr>mlrID = u n, mlrMovementID = mid, mlrProductID = TrimSpace (miProductID l), mlrQuantity = miQuantity l,
     mlrNotes = trimOpt (miNotes l), mlrCreatedAt = now\<rparr> # lineRows mid now u (Suc n) ls"

definition addLines :: "movementLineRow list \<Rightarrow> world \<Rightarrow> world" where
  "addLines rs w = w\<lparr>wdb := (wdb w)\<lparr>dbLines := dbLines (wdb w) @ rs\<rparr>, wfresh := wfresh w + length rs,
     wstmt := wstmt w + length rs\<rparr>"

lemma length_lineRows [simp]: "length (lineRows mid now u n ls) = length ls"
  by (induction ls arbitrary: n) auto

lemma lineRows_at: "r \<in> set (lineRows mid now u n ls) \<Longrightarrow> mlrMovementID r = mid \<and> mlrCreatedAt r = now"
  by (induction ls arbitrary: n) auto

text \<open>A faultless run, and the same run with a failing statement at line k.\<close>

lemma createLine_Inr:
  assumes "\<not> cxTx c" "createLine c mid now l w = (Inr x, w')"
  shows "w' = addLines (lineRows mid now (wuuid w) (wfresh w) [l]) w"
  using assms runStmt_Inr [of Pool _ "w\<lparr>wfresh := Suc (wfresh w)\<rparr>" x w']
  by (fastforce simp: createLine_def bindM_Inr GetDB_def insertLine_def setView_def addLines_def viewOf_def split: if_splits)

lemma createLines_Inr:
  "\<not> cxTx c \<Longrightarrow> forM ls (createLine c mid now) w = (Inr x, w') \<Longrightarrow>
     w' = addLines (lineRows mid now (wuuid w) (wfresh w) ls) w"
proof (induction ls arbitrary: w)
  case Nil
  then show ?case by (simp add: addLines_def)
next
  case (Cons l ls)
  obtain y v where v: "createLine c mid now l w = (Inr y, v)" "forM ls (createLine c mid now) v = (Inr x, w')"
    using Cons.prems(2) by (auto simp: bindM_Inr)
  show ?case using Cons.IH [OF Cons.prems(1) v(2)] createLine_Inr [OF Cons.prems(1) v(1)] by (simp add: addLines_def)
qed

lemma createLines_fault:
  assumes "\<not> cxTx c" "forM ls (createLine c mid now) (w\<lparr>wfault := (\<lambda>_. None)\<rparr>) = (Inr x, v)"
    and "k < length ls" "wfault w (wstmt w + k) = Some msg" "\<And>i. i < k \<Longrightarrow> wfault w (wstmt w + i) = None"
  shows "forM ls (createLine c mid now) w = (Inl (Raw msg),
    (addLines (take k (lineRows mid now (wuuid w) (wfresh w) ls)) w)\<lparr>wfresh := Suc (wfresh w + k), wstmt := Suc (wstmt w + k)\<rparr>)"
  using assms
proof (induction ls arbitrary: w k)
  case (Cons l ls)
  let ?n = "\<lambda>w. w\<lparr>wfault := (\<lambda>_. None)\<rparr>"
  obtain y v1 where v1: "createLine c mid now l (?n w) = (Inr y, v1)" "forM ls (createLine c mid now) v1 = (Inr x, v)"
    using Cons.prems(2) by (auto simp: bindM_Inr)
  let ?w1 = "addLines (lineRows mid now (wuuid w) (wfresh w) [l]) w"
  have v1w: "v1 = ?n ?w1" using createLine_Inr [OF Cons.prems(1) v1(1)] by (simp add: addLines_def)
  show ?case
  proof (cases k)
    case 0
    then show ?thesis using Cons.prems(1,4)
      by (simp add: createLine_def bindM_def newUUID_def runStmt_def Let_def addLines_def)
  next
    case (Suc j)
    have ok: "wfault w (wstmt w) = None" using Cons.prems(5) [of 0] Suc by simp
    have "createLine c mid now l w = (Inr y, ?w1)"
      using v1(1) ok Cons.prems(1)
      by (auto simp: createLine_def bindM_def newUUID_def runStmt_def Let_def addLines_def GetDB_def insertLine_def
          split: if_splits)
    moreover have p5: "wfault w (Suc (wstmt w + i)) = None" if "i < j" for i
      using Cons.prems(5) [of "Suc i"] that Suc by simp
    moreover have "forM ls (createLine c mid now) ?w1 = (Inl (Raw msg), (addLines (take j (lineRows mid now (wuuid ?w1) (wfresh ?w1) ls)) ?w1)
        \<lparr>wfresh := Suc (wfresh ?w1 + j), wstmt := Suc (wstmt ?w1 + j)\<rparr>)"
      by (rule Cons.IH [OF Cons.prems(1)])
        (use v1(2) v1w Cons.prems(3,4) p5 Suc in \<open>simp_all add: addLines_def\<close>)
    ultimately show ?thesis using Suc by (simp add: bindM_def addLines_def)
  qed
qed simp

lemma sort_key_const: "\<forall>x \<in> set xs. f x = a \<Longrightarrow> sort_key f xs = xs"
  by (induction xs) (auto intro!: insort_is_Cons)

lemma linesOf_new:
  assumes "linesOf mid d = []" "dbLines d' = dbLines d @ rs" "\<forall>r \<in> set rs. mlrMovementID r = mid \<and> mlrCreatedAt r = now"
  shows "linesOf mid d' = rs"
proof -
  have "filter (\<lambda>l. mlrMovementID l = mid) (dbLines d) = []"
    using assms(1) unfolding linesOf_def by (metis length_sort length_0_conv)
  moreover have "filter (\<lambda>l. mlrMovementID l = mid) rs = rs" using assms(3) by simp
  ultimately show ?thesis unfolding linesOf_def assms(2) using assms(3) sort_key_const [of rs mlrCreatedAt now] by simp
qed

lemma insertMovement_Inr:
  "insertMovement m d = Inr (u, d') \<Longrightarrow> d' = d\<lparr>dbMovements := dbMovements d @ [m]\<rparr>
     \<and> list_all (\<lambda>r. mvrID r \<noteq> mvrID m) (dbMovements d)
     \<and> (mvrIdempotencyKey m \<noteq> None \<longrightarrow> list_all (\<lambda>r. \<not> (mvrTenantID r = mvrTenantID m
         \<and> mvrIdempotencyKey r = mvrIdempotencyKey m)) (dbMovements d))"
  by (auto simp: insertMovement_def list_ex_iff list_all_iff split: if_splits)

text \<open>Inserting the same movement again, under another identifier, is a violation of uniqueness.\<close>

lemma insertMovement_again:
  assumes "insertMovement (newMovementRow mid now inp) d = Inr (u, d1)" "dbMovements d' = dbMovements d1"
  shows "\<exists>cname. insertMovement (newMovementRow mid' now' inp) d' = Inl (Raw (dupMsg cname))"
  using assms by (auto simp: insertMovement_def newMovementRow_def Let_def split: if_splits)

lemma dup_is_duplicate: "mvIsDuplicateErr (Raw (dupMsg cname))"
proof -
  have "ToLower (dupMsg cname) = ''error: '' @ ''duplicate'' @ ToLower ('' key value violates unique constraint '' @ cname @ '' (SQLSTATE 23505)'')"
    by (simp add: dupMsg_def ToLower_def lowerChar_code)
  then show ?thesis using Contains_append [of "''error: ''" "''duplicate''"] by (simp add: mvIsDuplicateErr_def)
qed

text \<open>The read of a movement that was inserted last.\<close>

lemma read_new:
  assumes "\<not> cxTx c" "wdb w = d'" "wfault w (wstmt w) = None" "wfault w (Suc (wstmt w)) = None"
    and d': "dbMovements d' = dbMovements d @ [r]" "list_all (\<lambda>x. mvrID x \<noteq> mvrID r) (dbMovements d)"
    and "TrimSpace t = mvrTenantID r" "TrimSpace (mvrID r) = mvrID r"
  shows "mvGetByID c t (mvrID r) w = (Inr (rowToMovement r (linesOf (mvrID r) d')), w\<lparr>wstmt := wstmt w + 2\<rparr>)"
proof -
  have "findMovement (mvrTenantID r) (mvrID r) d' = Some r"
    using d' by (auto simp: findMovement_def find_append list_all_iff split: option.split dest!: find_SomeD)
  then show ?thesis using assms
    by (simp add: mvGetByID_def bindM_def orNotFound_def tryM_def firstStmt_def queryStmt_def runStmt_def
        GetDB_def Let_def ret_def)
qed

text \<open>The decision on a duplicate, when the row with the key was inserted last.\<close>

lemma duplicate_new:
  assumes c: "\<not> cxTx c" "\<And>i. wstmt w \<le> i \<Longrightarrow> wfault w i = None"
    and d': "wdb w = d'" "dbMovements d' = dbMovements d @ [r]" "insertMovement r d = Inr (u, d1)"
    and r: "TrimSpace (cmTenantID inp) = mvrTenantID r" "TrimSpace (mvrID r) = mvrID r"
      "mvrIdempotencyKey r = Some k" "TrimSpace k = k" "k \<noteq> []"
      "idempotencyHashesMatch (mvrIdempotencyRequestHash r) h"
  shows "\<exists>w'. handleCreateDuplicate c inp k h w = (Inr (rowToMovement r (linesOf (mvrID r) d'), True), w')"
proof -
  have new: "list_all (\<lambda>x. mvrID x \<noteq> mvrID r) (dbMovements d)"
    "list_all (\<lambda>x. \<not> (mvrTenantID x = mvrTenantID r \<and> mvrIdempotencyKey x = Some k)) (dbMovements d)"
    using insertMovement_Inr [OF d'(3)] r(3) by auto
  let ?w = "w\<lparr>wstmt := Suc (wstmt w)\<rparr>"
  have tt: "TrimSpace (mvrTenantID r) = mvrTenantID r" using r(1) by (metis TrimSpace_idem)
  have "find (\<lambda>x. mvrTenantID x = mvrTenantID r \<and> mvrIdempotencyKey x = Some k) (dbMovements d') = Some r"
    using d'(2) new(2) r(3) by (auto simp: find_append list_all_iff split: option.split dest!: find_SomeD)
  then have "orNotFound (firstStmt (GetDB c) (\<lambda>d. find (\<lambda>x. mvrTenantID x = mvrTenantID r
      \<and> mvrIdempotencyKey x = Some k) (dbMovements d))) w = (Inr r, ?w)"
    using c d'(1) by (simp add: firstStmt_def runStmt_def GetDB_def Let_def)
  moreover have "mvGetByID c (mvrTenantID r) (mvrID r) ?w =
      (Inr (rowToMovement r (linesOf (mvrID r) d')), ?w\<lparr>wstmt := wstmt ?w + 2\<rparr>)"
    by (rule read_new [OF c(1) _ _ _ d'(2) new(1) tt r(2)]) (use c(2) d'(1) in simp_all)
  ultimately have "GetByTenantAndIdempotencyKey c (mvrTenantID r) k w =
      (Inr (rowToMovement r (linesOf (mvrID r) d')), ?w\<lparr>wstmt := wstmt ?w + 2\<rparr>)"
    using r(4,5) tt by (simp add: GetByTenantAndIdempotencyKey_def Let_def bindM_run)
  moreover have "mvIdempotencyRequestHash (rowToMovement r ls) = mvrIdempotencyRequestHash r" for ls
    by (simp add: rowToMovement_def)
  ultimately show ?thesis using r(1,5,6)
    by (simp add: handleCreateDuplicate_def Let_def bindM_def tryM_def ret_def)
qed

lemma newMovementRow_sel [simp]:
  "mvrID (newMovementRow mid now inp) = mid" "mvrTenantID (newMovementRow mid now inp) = TrimSpace (cmTenantID inp)"
  "mvrIdempotencyKey (newMovementRow mid now inp) = trimOpt (Some (cmIdempotencyKey inp))"
  by (simp_all add: newMovementRow_def Let_def)

lemma duplicate_replay: "handleCreateDuplicate c inp k h w = (Inr (mv, b), w') \<Longrightarrow> b"
  unfolding handleCreateDuplicate_def Let_def
  by (auto simp: bindM_Inr split: if_splits) (auto split: sum.splits if_splits)

text \<open>The world after the header of a creation.\<close>

definition headerWorld :: "CreateMovementInput \<Rightarrow> world \<Rightarrow> world" where
  "headerWorld inp w = w\<lparr>wfresh := Suc (wfresh w), wtick := Suc (wtick w), wstmt := Suc (wstmt w),
     wdb := (wdb w)\<lparr>dbMovements := dbMovements (wdb w) @ [newMovementRow (wuuid w (wfresh w)) (wtime w (wtick w)) inp]\<rparr>\<rparr>"

lemma headerWorld_fault [simp]: "headerWorld inp (w\<lparr>wfault := f\<rparr>) = (headerWorld inp w)\<lparr>wfault := f\<rparr>"
  by (cases w) (simp add: headerWorld_def)

lemma mvCreate_header:
  assumes "\<not> cxTx c" "wfault w (wstmt w) = None"
    and "insertMovement (newMovementRow (wuuid w (wfresh w)) (wtime w (wtick w)) inp) (wdb w) = Inr (u, d1)"
  shows "mvCreate c inp w = bindM (forM (cmLines inp) (createLine c (wuuid w (wfresh w)) (wtime w (wtick w)))) (\<lambda>_.
    bindM (mvGetByID c (cmTenantID inp) (wuuid w (wfresh w))) (\<lambda>mv. ret (mv, False))) (headerWorld inp w)"
  using assms insertMovement_Inr [OF assms(3)]
  by (simp add: mvCreate_def bindM_def newUUID_def nowUTC_def tryM_def runStmt_def GetDB_def Let_def headerWorld_def)

text \<open>A creation that succeeds inserts the header, then the lines.\<close>

lemma mvCreate_fresh:
  assumes "\<not> cxTx c" "mvCreate c inp w = (Inr (mv, False), v)"
  obtains d1 v1 where
    "insertMovement (newMovementRow (wuuid w (wfresh w)) (wtime w (wtick w)) inp) (wdb w) = Inr ((), d1)"
    "forM (cmLines inp) (createLine c (wuuid w (wfresh w)) (wtime w (wtick w))) (headerWorld inp w) = (Inr (), v1)"
    "mvGetByID c (cmTenantID inp) (wuuid w (wfresh w)) v1 = (Inr mv, v)"
proof -
  let ?row = "newMovementRow (wuuid w (wfresh w)) (wtime w (wtick w)) inp"
  let ?w = "w\<lparr>wfresh := Suc (wfresh w), wtick := Suc (wtick w)\<rparr>"
  obtain x w1 where x: "runStmt Pool (insertMovement ?row) ?w = (x, w1)" by fastforce
  have "\<not> isl x"
  proof
    assume "isl x"
    then obtain e where "x = Inl e" by (cases x) auto
    then show False using assms x duplicate_replay [of c inp _ _ _ mv False]
      by (cases e) (auto simp: mvCreate_def bindM_def newUUID_def nowUTC_def tryM_def GetDB_def Let_def split: if_splits)
  qed
  then obtain y where y: "x = Inr y" by (cases x) auto
  from runStmt_Inr [OF x [unfolded y]] obtain d where d: "insertMovement ?row (wdb w) = Inr (y, d)"
    and f: "wfault w (wstmt w) = None" by (auto simp: viewOf_def)
  have "bindM (forM (cmLines inp) (createLine c (wuuid w (wfresh w)) (wtime w (wtick w)))) (\<lambda>_.
    bindM (mvGetByID c (cmTenantID inp) (wuuid w (wfresh w))) (\<lambda>mv. ret (mv, False))) (headerWorld inp w) = (Inr (mv, False), v)"
    using assms(2) unfolding mvCreate_header [OF assms(1) f d] .
  then show ?thesis using that d by (auto simp: bindM_Inr)
qed

text \<open>A creation repeated after its header was inserted last.\<close>

lemma mvCreate_again:
  assumes c: "\<not> cxTx c" "\<And>i. wstmt w \<le> i \<Longrightarrow> wfault w i = None"
    and ins: "insertMovement (newMovementRow mid now inp) d = Inr ((), d1)"
    and row: "dbMovements (wdb w) = dbMovements d @ [newMovementRow mid now inp]"
    and key: "TrimSpace (cmIdempotencyKey inp) \<noteq> []" "length (TrimSpace (ToLower (cmIdempotencyRequestHash inp))) = 64"
    and mid: "TrimSpace mid = mid"
  shows "\<exists>w'. mvCreate c inp w = (Inr (rowToMovement (newMovementRow mid now inp) (linesOf mid (wdb w)), True), w')"
proof -
  let ?r = "newMovementRow mid now inp" and ?u = "w\<lparr>wfresh := Suc (wfresh w), wtick := Suc (wtick w)\<rparr>"
  let ?hash = "TrimSpace (ToLower (cmIdempotencyRequestHash inp))"
  let ?row2 = "newMovementRow (wuuid w (wfresh w)) (wtime w (wtick w)) inp"
  obtain cname where dup: "insertMovement ?row2 (wdb w) = Inl (Raw (dupMsg cname))"
    using insertMovement_again [OF ins] row insertMovement_Inr [OF ins] by fastforce
  have st: "runStmt (GetDB c) (insertMovement ?row2) ?u = (Inl (Raw (dupMsg cname)), ?u\<lparr>wstmt := Suc (wstmt ?u)\<rparr>)"
    using runStmt_ok [of ?u "GetDB c" "insertMovement ?row2"] c dup by (simp add: GetDB_def viewOf_def)
  have match: "idempotencyHashesMatch (mvrIdempotencyRequestHash ?r) ?hash"
    using key(2) normal_hash by (auto simp: idempotencyHashesMatch_def newMovementRow_def Let_def)
  have "\<exists>w'. handleCreateDuplicate c inp (TrimSpace (cmIdempotencyKey inp)) ?hash (?u\<lparr>wstmt := Suc (wstmt ?u)\<rparr>) =
      (Inr (rowToMovement ?r (linesOf (mvrID ?r) (wdb w)), True), w')"
    by (rule duplicate_new [OF c(1) _ _ row ins]) (use c(2) mid key(1) match in simp_all)
  then show ?thesis using st dup_is_duplicate [of cname]
    by (simp add: mvCreate_def bindM_def newUUID_def nowUTC_def tryM_def Let_def)
qed

text \<open>C35: A creation is not atomic, and its repetition hides that. Take any creation that would succeed
  outside a transaction, with a key and a body fingerprint as validateIdempotencyCreate demands them,
  and let the INSERT of its line k fail (counted from 0). Then it answers the error of the database, but
  the header and the first k lines stay committed; and the same creation sent again with its key is
  answered as a success, with the movement that lacks the other lines, and is never completed.\<close>

theorem cut_short_create_replayed:
  assumes c: "\<not> cxTx c" and full: "mvCreate c inp (w\<lparr>wfault := (\<lambda>_. None)\<rparr>) = (Inr (mv, False), v)"
    and k: "k < length (cmLines inp)" "wfault w = (\<lambda>i. if i = Suc (wstmt w + k) then Some msg else None)"
    and key: "TrimSpace (cmIdempotencyKey inp) \<noteq> []" "length (TrimSpace (ToLower (cmIdempotencyRequestHash inp))) = 64"
    and mid: "TrimSpace (wuuid w (wfresh w)) = wuuid w (wfresh w)" "linesOf (wuuid w (wfresh w)) (wdb w) = []"
  shows "\<exists>w1 w2. mvCreate c inp w = (Inl (Raw msg), w1)
    \<and> mvCreate c inp w1 = (Inr (mv\<lparr>mvLines := take k (mvLines mv)\<rparr>, True), w2)
    \<and> length (mvLines mv) = length (cmLines inp)"
proof -
  let ?n = "w\<lparr>wfault := (\<lambda>_. None)\<rparr>" and ?mid = "wuuid w (wfresh w)" and ?now = "wtime w (wtick w)"
  let ?r = "newMovementRow ?mid ?now inp" and ?h = "headerWorld inp w" and ?d = "wdb w"
  let ?rows = "lineRows ?mid ?now (wuuid w) (Suc (wfresh w)) (cmLines inp)"
  obtain d1 v1 where ins: "insertMovement ?r ?d = Inr ((), d1)"
    and ls: "forM (cmLines inp) (createLine c ?mid ?now) (?h\<lparr>wfault := (\<lambda>_. None)\<rparr>) = (Inr (), v1)"
    and get: "mvGetByID c (cmTenantID inp) ?mid v1 = (Inr mv, v)"
    by (rule mvCreate_fresh [OF c full]) auto
  have new: "list_all (\<lambda>x. mvrID x \<noteq> mvrID ?r) (dbMovements ?d)" using insertMovement_Inr [OF ins] by simp
  have v1: "v1 = addLines ?rows (?h\<lparr>wfault := (\<lambda>_. None)\<rparr>)"
    using createLines_Inr [OF c ls] by (simp add: headerWorld_def)
  have lines: "linesOf ?mid d' = rs"
    if "dbLines d' = dbLines ?d @ rs" "set rs \<subseteq> set ?rows" for d' rs
    by (rule linesOf_new [OF mid(2) that(1)]) (use that(2) lineRows_at in blast)
  have "mvGetByID c (cmTenantID inp) (mvrID ?r) v1 =
      (Inr (rowToMovement ?r (linesOf (mvrID ?r) (wdb v1))), v1\<lparr>wstmt := wstmt v1 + 2\<rparr>)"
    by (rule read_new [where d = ?d, OF c refl]) (use new mid(1) in \<open>simp_all add: v1 addLines_def headerWorld_def\<close>)
  then have mv: "mv = rowToMovement ?r ?rows"
    using get lines [of "wdb v1" ?rows] by (simp add: v1 addLines_def headerWorld_def)
  let ?w1 = "(addLines (take k ?rows) ?h)\<lparr>wfresh := Suc (Suc (wfresh w + k)), wstmt := Suc (Suc (wstmt w + k))\<rparr>"
  have "forM (cmLines inp) (createLine c ?mid ?now) ?h = (Inl (Raw msg), ?w1)"
    using createLines_fault [OF c ls k(1), of msg] k(2) by (simp add: headerWorld_def)
  then have fails: "mvCreate c inp w = (Inl (Raw msg), ?w1)"
    using mvCreate_header [OF c _ ins] k(2) by (simp add: bindM_def)
  have ok: "wfault ?w1 i = None" if "wstmt ?w1 \<le> i" for i
    using that k(2) by (simp add: addLines_def headerWorld_def)
  have "linesOf ?mid (wdb ?w1) = take k ?rows"
    using lines [of "wdb ?w1" "take k ?rows"] by (simp add: addLines_def headerWorld_def set_take_subset)
  moreover have "\<exists>w2. mvCreate c inp ?w1 = (Inr (rowToMovement ?r (linesOf ?mid (wdb ?w1)), True), w2)"
    by (rule mvCreate_again [OF c _ ins _ key mid(1)]) (erule ok, simp add: addLines_def headerWorld_def)
  moreover have "rowToMovement ?r (take k ?rows) = mv\<lparr>mvLines := take k (mvLines mv)\<rparr>"
    by (simp add: mv rowToMovement_def take_map)
  ultimately show ?thesis using fails by (auto simp: mv)
qed

definition sampleCreate :: CreateMovementInput where
  "sampleCreate = createInput ''t1'' ''u1'' TypeInbound (sampleBase ''k9'' (replicate 64 (CHR ''a''))) None (Some ''w1'')"

definition cutWorld :: world where
  "cutWorld = sampleWorldOf sampleDB (\<lambda>i. if i = Suc (0 + 1) then Some ''lost'' else None)"

lemma sample_creates: "case mvCreate sampleCtx sampleCreate (cutWorld\<lparr>wfault := (\<lambda>_. None)\<rparr>) of
    (Inr (mv, replay), _) \<Rightarrow> \<not> replay | _ \<Rightarrow> False"
  by code_simp

lemma sample_create_key:
  "TrimSpace (cmIdempotencyKey sampleCreate) \<noteq> []" "length (TrimSpace (ToLower (cmIdempotencyRequestHash sampleCreate))) = 64"
  "TrimSpace (wuuid cutWorld (wfresh cutWorld)) = wuuid cutWorld (wfresh cutWorld)"
  "linesOf (wuuid cutWorld (wfresh cutWorld)) (wdb cutWorld) = []" "length (cmLines sampleCreate) = 2"
  by code_simp+

theorem cut_short_create_replayed_witness:
  "\<exists>w1 w2 mv. mvCreate sampleCtx sampleCreate cutWorld = (Inl (Raw ''lost''), w1)
    \<and> mvCreate sampleCtx sampleCreate w1 = (Inr (mv, True), w2) \<and> length (mvLines mv) = 1 \<and> length (cmLines sampleCreate) = 2"
proof -
  obtain mv v where full: "mvCreate sampleCtx sampleCreate (cutWorld\<lparr>wfault := (\<lambda>_. None)\<rparr>) = (Inr (mv, False), v)"
    using sample_creates by (auto split: prod.splits sum.splits)
  have f: "wfault cutWorld = (\<lambda>i. if i = Suc (wstmt cutWorld + 1) then Some ''lost'' else None)"
    by (simp add: cutWorld_def sampleWorldOf_def)
  have c: "\<not> cxTx sampleCtx" by simp
  obtain w1 w2 where "mvCreate sampleCtx sampleCreate cutWorld = (Inl (Raw ''lost''), w1)"
    "mvCreate sampleCtx sampleCreate w1 = (Inr (mv\<lparr>mvLines := take 1 (mvLines mv)\<rparr>, True), w2)" "length (mvLines mv) = 2"
    using cut_short_create_replayed [OF c full _ f sample_create_key(1-4)] sample_create_key(5) by auto
  then show ?thesis using sample_create_key(5) by fastforce
qed

end
