(* ===== verification/Event_Types.thy ===== *)
theory Event_Types
  imports Times "HOL-Library.AList"
begin

text \<open>
  Events on the bus (src/pkg/eventbus: types.go, signing.go, naming.go, errors.go and the retry
  metadata of retry_dlq.go): the envelope, its encoding as the fields of a Redis stream entry and its
  decoding, the HMAC signature over a canonical text, retry counters and the names of streams and
  groups. A Go map of field names to values is an association list read through map_of. The hex
  digest of HMAC-SHA256 is the argument hmac of the signing functions.
\<close>

section \<open>Field values\<close>

text \<open>The dynamic types a field value can have; AFloat has the integer part and the printed text.\<close>

datatype anyval = AInt int | AStr string | ABytes string | AFloat int string | AOther string

type_synonym fields = "(string \<times> anyval) list"

fun sprintAny :: "anyval \<Rightarrow> string" where
  "sprintAny (AInt i) = Itoa i"
| "sprintAny (AStr s) = s"
| "sprintAny (ABytes s) = s"
| "sprintAny (AFloat _ t) = t"
| "sprintAny (AOther t) = t"

fun anyToString :: "anyval option \<Rightarrow> string" where
  "anyToString None = []"
| "anyToString (Some v) = sprintAny v"

text \<open>strconv.Atoi.\<close>

definition Atoi :: "string \<Rightarrow> int option" where
  "Atoi s =
    (let neg = (s \<noteq> [] \<and> hd s = CHR ''-'');
         ds = (if s \<noteq> [] \<and> (hd s = CHR ''-'' \<or> hd s = CHR ''+'') then tl s else s);
         n = (if neg then - readDec ds else readDec ds)
     in if ds = [] \<or> \<not> list_all isDec ds \<or> \<not> is_int64 n then None else Some n)"

definition RetryCount :: "fields \<Rightarrow> int" where
  "RetryCount values = (case map_of values ''retry_count'' of
     None \<Rightarrow> 0
   | Some (AInt i) \<Rightarrow> i
   | Some (AFloat i _) \<Rightarrow> i
   | Some v \<Rightarrow> (case Atoi (sprintAny v) of None \<Rightarrow> 0 | Some n \<Rightarrow> n))"

text \<open>What a reader of the stream gets: Redis keeps every value as its text.\<close>

definition asRedis :: "fields \<Rightarrow> (string \<times> string) list" where
  "asRedis values = map (\<lambda>(k, v). (k, sprintAny v)) values"

definition fromRedis :: "(string \<times> string) list \<Rightarrow> fields" where
  "fromRedis entries = map (\<lambda>(k, s). (k, AStr s)) entries"

section \<open>The envelope\<close>

definition FieldEventID :: string where "FieldEventID = ''event_id''"
definition FieldEventType :: string where "FieldEventType = ''event_type''"
definition FieldEventVersion :: string where "FieldEventVersion = ''event_version''"
definition FieldEventStream :: string where "FieldEventStream = ''event_stream''"
definition FieldEventCreatedAt :: string where "FieldEventCreatedAt = ''event_created_at''"
definition FieldEventPublishedAt :: string where "FieldEventPublishedAt = ''event_published_at''"
definition FieldEventPayload :: string where "FieldEventPayload = ''event_payload''"
definition FieldEventSignature :: string where "FieldEventSignature = ''event_signature''"

lemmas field_defs = FieldEventID_def FieldEventType_def FieldEventVersion_def FieldEventStream_def
  FieldEventCreatedAt_def FieldEventPublishedAt_def FieldEventPayload_def FieldEventSignature_def

record BaseEvent =
  beID :: string
  beType :: string
  beVersion :: int
  beStream :: string
  beCreatedAt :: GoTime
  bePublishedAt :: GoTime
  bePayload :: string
  beSignature :: string

record EventMessage =
  emID :: string
  emValues :: fields
  emStream :: string
  emGroup :: string
  emConsumer :: string

definition messageFromRedis :: "string \<Rightarrow> string \<Rightarrow> string \<Rightarrow> string \<Rightarrow> (string \<times> string) list \<Rightarrow> EventMessage" where
  "messageFromRedis stream grp consumer i entries =
    \<lparr>emID = i, emValues = fromRedis entries, emStream = stream, emGroup = grp, emConsumer = consumer\<rparr>"

text \<open>The checks ToValues and canonicalString share.\<close>

definition missingField :: "BaseEvent \<Rightarrow> string option" where
  "missingField e =
    (if beID e = [] then Some ''eventbus: event id is required''
     else if beType e = [] then Some ''eventbus: event type is required''
     else if beStream e = [] then Some ''eventbus: event stream is required''
     else if bePayload e = [] then Some ''eventbus: event payload is required''
     else None)"

text \<open>The defaults of version and times; now is the reading of the clock for a missing creation time.\<close>

definition withDefaults :: "GoTime \<Rightarrow> BaseEvent \<Rightarrow> BaseEvent" where
  "withDefaults now e =
    (let v = (if beVersion e \<le> 0 then 1 else beVersion e);
         c = (if IsZero (beCreatedAt e) then inUTC now else beCreatedAt e);
         p = (if IsZero (bePublishedAt e) then c else bePublishedAt e)
     in e\<lparr>beVersion := v, beCreatedAt := c, bePublishedAt := p\<rparr>)"

definition ToValues :: "GoTime \<Rightarrow> BaseEvent \<Rightarrow> err + fields" where
  "ToValues now e0 = (case missingField e0 of
     Some msg \<Rightarrow> Inl (Raw msg)
   | None \<Rightarrow>
       let e = withDefaults now e0
       in Inr [(FieldEventID, AStr (beID e)), (FieldEventType, AStr (beType e)),
            (FieldEventVersion, AInt (beVersion e)), (FieldEventStream, AStr (beStream e)),
            (FieldEventCreatedAt, AStr (formatTime (beCreatedAt e))),
            (FieldEventPublishedAt, AStr (formatTime (bePublishedAt e))),
            (FieldEventPayload, AStr (bePayload e)), (FieldEventSignature, AStr (beSignature e))])"

definition parseTime :: "string \<Rightarrow> err + GoTime" where
  "parseTime v = (if v = [] then Inr zeroTime
     else case parseTimeText v of
        None \<Rightarrow> Inl (Raw (''parsing time '' @ v))
      | Some t \<Rightarrow> Inr t)"

definition DecodeEvent :: "EventMessage \<Rightarrow> err + BaseEvent" where
  "DecodeEvent msg =
    (let vals = map_of (emValues msg)
     in case vals FieldEventPayload of
          None \<Rightarrow> Inl (Raw ''eventbus: missing event payload'')
        | Some rawPayload \<Rightarrow>
            let rc = RetryCount (case vals FieldEventVersion of None \<Rightarrow> [] | Some v \<Rightarrow> [(FieldEventVersion, v)]);
                version = (if rc \<le> 0 then 1 else rc)
            in case parseTime (anyToString (vals FieldEventCreatedAt)) of
                 Inl e \<Rightarrow> Inl (Wrap (''eventbus: parse created_at: '' @ errorText e) e)
               | Inr createdAt \<Rightarrow>
                   (case parseTime (anyToString (vals FieldEventPublishedAt)) of
                      Inl e \<Rightarrow> Inl (Wrap (''eventbus: parse published_at: '' @ errorText e) e)
                    | Inr publishedAt \<Rightarrow>
                        Inr \<lparr>beID = anyToString (vals FieldEventID), beType = anyToString (vals FieldEventType),
                          beVersion = version, beStream = anyToString (vals FieldEventStream),
                          beCreatedAt = createdAt, bePublishedAt = publishedAt,
                          bePayload = sprintAny rawPayload,
                          beSignature = anyToString (vals FieldEventSignature)\<rparr>))"

section \<open>Signatures\<close>

definition canonicalString :: "BaseEvent \<Rightarrow> err + string" where
  "canonicalString e = (case missingField e of
     Some msg \<Rightarrow> Inl (Raw msg)
   | None \<Rightarrow> Inr (beID e @ ''|'' @ beType e @ ''|'' @ Itoa (beVersion e) @ ''|'' @ beStream e @ ''|'' @
       formatTime (inUTC (beCreatedAt e)) @ ''|'' @ formatTime (inUTC (bePublishedAt e)) @ ''|'' @ bePayload e))"

definition SignEvent :: "(string \<Rightarrow> string \<Rightarrow> string) \<Rightarrow> string \<Rightarrow> BaseEvent \<Rightarrow> err + string" where
  "SignEvent hmac secret e =
    (if TrimSpace secret = [] then Inl (Raw ''eventbus: secret is required'')
     else case canonicalString e of
        Inl err \<Rightarrow> Inl err
      | Inr canonical \<Rightarrow> Inr (hmac secret canonical))"

definition VerifyEvent :: "(string \<Rightarrow> string \<Rightarrow> string) \<Rightarrow> string \<Rightarrow> BaseEvent \<Rightarrow> err + bool" where
  "VerifyEvent hmac secret e =
    (if beSignature e = [] then Inl (Raw ''eventbus: signature is required'')
     else case SignEvent hmac secret e of
        Inl err \<Rightarrow> Inl err
      | Inr expected \<Rightarrow> Inr (expected = beSignature e))"

section \<open>Names\<close>

definition DefaultInventoryStream :: string where "DefaultInventoryStream = ''inventory.events''"
definition DefaultDeadLetter :: string where "DefaultDeadLetter = ''inventory.events.dead''"
definition DefaultAlertsGroup :: string where "DefaultAlertsGroup = ''alerts''"

definition safeName :: "string \<Rightarrow> string \<Rightarrow> string" where
  "safeName v fallback = (if TrimSpace v = [] then fallback else TrimSpace v)"

definition StreamName :: "string \<Rightarrow> string \<Rightarrow> int \<Rightarrow> string" where
  "StreamName domain entity version0 =
    (let version = (if version0 \<le> 0 then 1 else version0)
     in safeName domain ''inventory'' @ '':'' @ safeName entity ''events'' @ '':v'' @ Itoa version)"

definition EventType :: "string \<Rightarrow> string \<Rightarrow> string \<Rightarrow> string" where
  "EventType domain entity action =
    safeName domain ''inventory'' @ ''.'' @ safeName entity ''event'' @ ''.'' @ safeName action ''unknown''"

definition ConsumerGroup :: "string \<Rightarrow> string \<Rightarrow> string" where
  "ConsumerGroup service entity =
    safeName service ''service'' @ ''-'' @ safeName entity ''events'' @ ''-consumer''"

definition DLQStream :: "string \<Rightarrow> string" where
  "DLQStream originalStream =
    (if TrimSpace originalStream = [] then ''dlq:'' @ DefaultInventoryStream else ''dlq:'' @ originalStream)"

definition GroupFor :: "string \<Rightarrow> string" where
  "GroupFor name = (if name = [] then DefaultAlertsGroup else name)"

section \<open>Processing errors and retry metadata\<close>

text \<open>A wrapped error shows the text of its cause and unwraps to its kind.\<close>

definition Transient :: "err \<Rightarrow> err" where
  "Transient e = Wrap (errorText e) (Sys ErrTransient)"

definition Permanent :: "err \<Rightarrow> err" where
  "Permanent e = Wrap (errorText e) (Sys ErrPermanent)"

definition IsTransient :: "err \<Rightarrow> bool" where
  "IsTransient e \<longleftrightarrow> errorsIs e (Sys ErrTransient)"

definition IsPermanent :: "err \<Rightarrow> bool" where
  "IsPermanent e \<longleftrightarrow> errorsIs e (Sys ErrPermanent)"

definition WithRetryMetadata :: "fields \<Rightarrow> int \<Rightarrow> err option \<Rightarrow> fields" where
  "WithRetryMetadata values retryCount lastErr =
    (let out = AList.update ''retry_count'' (AInt retryCount) values
     in case lastErr of None \<Rightarrow> out | Some e \<Rightarrow> AList.update ''last_error'' (AStr (errorText e)) out)"

definition BuildIdempotencyKey :: "EventMessage \<Rightarrow> string" where
  "BuildIdempotencyKey msg =
    (let eventID = (case DecodeEvent msg of Inr e \<Rightarrow> if beID e \<noteq> [] then beID e else emID msg | Inl _ \<Rightarrow> emID msg)
     in ''eventbus:idempotency:'' @ emStream msg @ '':'' @ emGroup msg @ '':'' @ eventID)"

end
