(* ===== verification/Event_Laws.thy ===== *)
theory Event_Laws
  imports Event_Types
begin

text \<open>
  What the encoding of events promises (src/pkg/eventbus types.go, signing.go, retry_dlq.go): an event
  put on the bus and read back is the same event up to its version, its signature then verifies
  unless the version was not 1, equal canonical texts mean equal events when no field contains the
  separator, and retry counters survive the transport.
\<close>

section \<open>Decimal texts\<close>

lemma readDec_snoc [simp]: "readDec (s @ [c]) = 10 * readDec s + decVal c"
  by (simp add: readDec_def)

lemma natDigits_laws: "natDigits n \<noteq> [] \<and> list_all isDec (natDigits n) \<and> readDec (natDigits n) = int n"
proof (induction n rule: natDigits.induct)
  case (1 n)
  show ?case
  proof (cases "n < 10")
    case True
    then show ?thesis using digitChar_dec [of n] by (simp add: natDigits.simps [of n] readDec_def)
  next
    case False
    have "int n = 10 * int (n div 10) + int (n mod 10)" by presburger
    then show ?thesis using False 1 digitChar_dec [of "n mod 10"] by (simp add: natDigits.simps [of n])
  qed
qed

lemma isDec_dash: "\<not> isDec (CHR ''-'')" "\<not> isDec (CHR ''+'')" "\<not> isDec (CHR ''|'')"
  by (simp_all add: isDec_def)

lemma Itoa_chars: "list_all (\<lambda>c. isDec c \<or> c = CHR ''-'') (Itoa i)"
proof -
  have "list_all (\<lambda>c. isDec c \<or> c = CHR ''-'') (natDigits n)" for n
    using natDigits_laws [of n] by (auto simp: list_all_iff)
  then show ?thesis by (simp add: Itoa_def)
qed

lemma Itoa_nonempty [simp]: "Itoa i \<noteq> []"
  using natDigits_laws by (simp add: Itoa_def)

lemma Atoi_Itoa [simp]: "is_int64 i \<Longrightarrow> Atoi (Itoa i) = Some i"
proof -
  assume i: "is_int64 i"
  define s where "s = natDigits (nat \<bar>i\<bar>)"
  have s: "s \<noteq> []" "list_all isDec s" "readDec s = \<bar>i\<bar>" using natDigits_laws by (simp_all add: s_def)
  then obtain c r where cr: "s = c # r" "isDec c" by (cases s) auto
  then have hd: "c \<noteq> CHR ''-''" "c \<noteq> CHR ''+''" using isDec_dash by auto
  show ?thesis
  proof (cases "i < 0")
    case True
    then have "Itoa i = CHR ''-'' # s" by (simp add: Itoa_def s_def)
    then show ?thesis using s i True by (simp add: Atoi_def Let_def)
  next
    case False
    then have "Itoa i = s" by (simp add: Itoa_def s_def)
    then show ?thesis using s i False cr(1) hd by (simp add: Atoi_def Let_def)
  qed
qed

lemma Itoa_inj: "is_int64 i \<Longrightarrow> is_int64 j \<Longrightarrow> Itoa i = Itoa j \<Longrightarrow> i = j"
  using Atoi_Itoa by (metis option.inject)

section \<open>Transport of fields\<close>

lemma map_of_asRedis [simp]: "map_of (asRedis vs) k = map_option sprintAny (map_of vs k)"
  by (induction vs) (auto simp: asRedis_def)

lemma map_of_fromRedis [simp]: "map_of (fromRedis vs) k = map_option AStr (map_of vs k)"
  by (induction vs) (auto simp: fromRedis_def)

lemma emValues_fromRedis [simp]: "emValues (messageFromRedis st g c i es) = fromRedis es"
  by (simp add: messageFromRedis_def)

lemma RetryCount_metadata [simp]: "RetryCount (WithRetryMetadata vs n le) = n"
  by (auto simp: RetryCount_def WithRetryMetadata_def Let_def update_conv' split: option.splits)

lemma RetryCount_transport:
  "is_int64 n \<Longrightarrow> RetryCount (fromRedis (asRedis (WithRetryMetadata vs n le))) = n"
  by (auto simp: RetryCount_def WithRetryMetadata_def Let_def update_conv' split: option.splits)

section \<open>Events\<close>

lemma withDefaults_fields [simp]:
  "beID (withDefaults now e) = beID e" "beType (withDefaults now e) = beType e"
  "beStream (withDefaults now e) = beStream e" "bePayload (withDefaults now e) = bePayload e"
  "beSignature (withDefaults now e) = beSignature e"
  by (simp_all add: withDefaults_def Let_def)

lemma parseTime_format [simp]: "timeInRange t \<Longrightarrow> parseTime (formatTime t) = Inr t"
proof -
  assume t: "timeInRange t"
  from time_text [OF this] have "formatTime t \<noteq> []" by (auto simp: parseTimeText_def takeDec_def)
  then show ?thesis by (simp add: parseTime_def time_text [OF t])
qed

lemma RetryCount_version [simp]: "RetryCount (case x of None \<Rightarrow> [] | Some v \<Rightarrow> [(FieldEventVersion, v)]) = 0"
  by (simp add: RetryCount_def FieldEventVersion_def split: option.splits)

text \<open>The envelope with version 1 as a reader gets it, whatever the message it came in.\<close>

lemma decode_values:
  assumes "ToValues now e = Inr vals"
    and "timeInRange (beCreatedAt (withDefaults now e))" "timeInRange (bePublishedAt (withDefaults now e))"
    and "map_of (emValues m) = map_of (fromRedis (asRedis vals))"
  shows "DecodeEvent m = Inr ((withDefaults now e)\<lparr>beVersion := 1\<rparr>)"
proof -
  let ?e = "withDefaults now e"
  from assms(1) have vals: "vals = [(FieldEventID, AStr (beID ?e)), (FieldEventType, AStr (beType ?e)),
            (FieldEventVersion, AInt (beVersion ?e)), (FieldEventStream, AStr (beStream ?e)),
            (FieldEventCreatedAt, AStr (formatTime (beCreatedAt ?e))),
            (FieldEventPublishedAt, AStr (formatTime (bePublishedAt ?e))),
            (FieldEventPayload, AStr (bePayload ?e)), (FieldEventSignature, AStr (beSignature ?e))]"
    by (auto simp: ToValues_def Let_def split: option.splits)
  have "map_of vals FieldEventPayload = Some (AStr (bePayload ?e))"
    "map_of vals FieldEventID = Some (AStr (beID ?e))" "map_of vals FieldEventType = Some (AStr (beType ?e))"
    "map_of vals FieldEventStream = Some (AStr (beStream ?e))"
    "map_of vals FieldEventCreatedAt = Some (AStr (formatTime (beCreatedAt ?e)))"
    "map_of vals FieldEventPublishedAt = Some (AStr (formatTime (bePublishedAt ?e)))"
    "map_of vals FieldEventSignature = Some (AStr (beSignature ?e))"
    by (simp_all add: vals field_defs)
  then show ?thesis using assms(2,3)
    unfolding DecodeEvent_def Let_def assms(4) RetryCount_version by simp
qed

text \<open>C18: An event survives the bus. If ToValues accepts an event, then the entry Redis stores, whatever
  its id, read back by any consumer and decoded, is the event with its defaults filled in, except for
  the version, which is always 1: DecodeEvent looks the version up under the wrong field name. The
  stored times are the instants of the event, to the nanosecond, with their offsets.\<close>

theorem event_roundtrip:
  assumes "ToValues now e = Inr vals"
    and "timeInRange (beCreatedAt (withDefaults now e))" "timeInRange (bePublishedAt (withDefaults now e))"
  shows "DecodeEvent (messageFromRedis st g c i (asRedis vals)) = Inr ((withDefaults now e)\<lparr>beVersion := 1\<rparr>)"
  by (rule decode_values [OF assms]) simp

section \<open>Signatures\<close>

text \<open>An event that is complete: ToValues fills in no default.\<close>

definition completeEvent :: "BaseEvent \<Rightarrow> bool" where
  "completeEvent e \<longleftrightarrow> 0 < beVersion e \<and> \<not> IsZero (beCreatedAt e) \<and> \<not> IsZero (bePublishedAt e)
     \<and> timeInRange (beCreatedAt e) \<and> timeInRange (bePublishedAt e)"

lemma complete_defaults [simp]: "completeEvent e \<Longrightarrow> withDefaults now e = e"
  by (simp add: completeEvent_def withDefaults_def Let_def)

lemma canonical_signature [simp]: "canonicalString (e\<lparr>beSignature := s\<rparr>) = canonicalString e"
  by (simp add: canonicalString_def missingField_def)

lemma SignEvent_signature [simp]: "SignEvent hmac secret (e\<lparr>beSignature := s\<rparr>) = SignEvent hmac secret e"
  by (simp add: SignEvent_def)

lemma complete_signature [simp]: "completeEvent (e\<lparr>beSignature := s\<rparr>) = completeEvent e"
  by (simp add: completeEvent_def)

lemma Verify_signed:
  "SignEvent hmac secret e = Inr sig \<Longrightarrow> sig \<noteq> [] \<Longrightarrow> VerifyEvent hmac secret (e\<lparr>beSignature := sig\<rparr>) = Inr True"
  by (simp add: VerifyEvent_def)

lemma SignEvent_canonical:
  "SignEvent hmac secret e = Inr sig \<Longrightarrow> \<exists>c. canonicalString e = Inr c \<and> hmac secret c = sig"
  by (auto simp: SignEvent_def split: if_splits sum.splits)

lemma VerifyEvent_canonical:
  "VerifyEvent hmac secret e = Inr True \<Longrightarrow> \<exists>c. canonicalString e = Inr c \<and> hmac secret c = beSignature e"
  by (auto simp: VerifyEvent_def split: if_splits sum.splits dest!: SignEvent_canonical)

lemma canonical_version:
  "canonicalString e = Inr c \<Longrightarrow> canonicalString (e\<lparr>beVersion := v\<rparr>) = Inr c' \<Longrightarrow>
     c = c' \<longleftrightarrow> Itoa (beVersion e) = Itoa v"
  by (auto simp: canonicalString_def missingField_def split: option.splits if_splits)

text \<open>A signed event verifies after the transport, if its version is 1. For a complete event, its
  decoded copy is accepted by VerifyEvent under the key it was signed with when the version is 1.
  With any other version it is accepted only if the digest has a collision: the decoded event has
  version 1, so its canonical text is another one, and a consumer rejects the genuine event.\<close>

theorem verify_after_transport:
  assumes "completeEvent e" "is_int64 (beVersion e)" "SignEvent hmac secret e = Inr sig" "sig \<noteq> []"
    and "ToValues now (e\<lparr>beSignature := sig\<rparr>) = Inr vals"
  shows "\<exists>d. DecodeEvent (messageFromRedis st g c i (asRedis vals)) = Inr d
    \<and> d = e\<lparr>beVersion := 1, beSignature := sig\<rparr>
    \<and> (beVersion e = 1 \<longrightarrow> VerifyEvent hmac secret d = Inr True)
    \<and> (beVersion e \<noteq> 1 \<and> VerifyEvent hmac secret d = Inr True \<longrightarrow>
        (\<exists>x y. x \<noteq> y \<and> hmac secret x = hmac secret y))"
proof -
  let ?d = "e\<lparr>beVersion := 1, beSignature := sig\<rparr>"
  have c: "completeEvent (e\<lparr>beSignature := sig\<rparr>)" using assms(1) by simp
  then have r: "timeInRange (beCreatedAt (withDefaults now (e\<lparr>beSignature := sig\<rparr>)))"
    "timeInRange (bePublishedAt (withDefaults now (e\<lparr>beSignature := sig\<rparr>)))"
    using complete_defaults [OF c] assms(1) by (simp_all add: completeEvent_def)
  have D: "DecodeEvent (messageFromRedis st g c i (asRedis vals)) = Inr ?d"
    using decode_values [OF assms(5) r] complete_defaults [OF c] by simp
  have V: "VerifyEvent hmac secret ?d = Inr True" if "beVersion e = 1"
  proof -
    have "e\<lparr>beVersion := 1\<rparr> = e" using that by (cases e) simp
    then show ?thesis using Verify_signed [OF assms(3,4)] by simp
  qed
  have N: "\<exists>x y. x \<noteq> y \<and> hmac secret x = hmac secret y"
    if v: "beVersion e \<noteq> 1" and ok: "VerifyEvent hmac secret ?d = Inr True"
  proof -
    obtain x where x: "canonicalString e = Inr x" "hmac secret x = sig"
      using SignEvent_canonical [OF assms(3)] by blast
    obtain y where "canonicalString ?d = Inr y" "hmac secret y = beSignature ?d"
      using VerifyEvent_canonical [OF ok] by blast
    then have y: "canonicalString (e\<lparr>beVersion := 1\<rparr>) = Inr y" "hmac secret y = sig" by simp_all
    have "Itoa (beVersion e) \<noteq> Itoa 1"
    proof
      assume "Itoa (beVersion e) = Itoa 1"
      then have "beVersion e = 1" by (rule Itoa_inj [OF assms(2), rotated]) (simp add: is_int64_def)
      with v show False ..
    qed
    then have "x \<noteq> y" using canonical_version [OF x(1) y(1)] by simp
    then show ?thesis using x(2) y(2) by (intro exI [of _ x] exI [of _ y]) simp
  qed
  show ?thesis using V N by (intro exI [of _ ?d] conjI impI D refl) auto
qed

subsection \<open>What a signature fixes\<close>

definition sepFree :: "BaseEvent \<Rightarrow> bool" where
  "sepFree e \<longleftrightarrow> list_all (\<lambda>c. c \<noteq> CHR ''|'') (beID e @ beType e @ beStream e) \<and> is_int64 (beVersion e)
     \<and> timeInRange (inUTC (beCreatedAt e)) \<and> timeInRange (inUTC (bePublishedAt e))"

lemma sep_split:
  "list_all (\<lambda>c. c \<noteq> z) a \<Longrightarrow> list_all (\<lambda>c. c \<noteq> z) b \<Longrightarrow> a @ z # x = b @ z # y \<longleftrightarrow> a = b \<and> x = y"
proof (induction a arbitrary: b)
  case Nil
  then show ?case by (cases b) auto
next
  case (Cons c a)
  then show ?case by (cases b) auto
qed

lemma Itoa_sep: "list_all (\<lambda>c. c \<noteq> CHR ''|'') (Itoa i)"
  using Itoa_chars [of i] isDec_dash by (auto simp: list_all_iff)

lemma digits_sep: "list_all (\<lambda>c. c \<noteq> CHR ''|'') (digitsN k n)"
  using digitsN_dec [of k n] isDec_dash by (auto simp: list_all_iff)

lemma strip_sep: "list_all P s \<Longrightarrow> list_all P (stripZeros s)"
  by (auto simp: stripZeros_def list_all_iff dest: set_dropWhileD)

lemma formatTime_sep: "timeInRange t \<Longrightarrow> list_all (\<lambda>c. c \<noteq> CHR ''|'') (formatTime t)"
proof -
  assume t: "timeInRange t"
  obtain y m d where c: "civilOf (localNanos t div 1000000000 div 86400) = (y, m, d)" by (metis prod_cases3)
  have "localNanos t div 86400000000000 = localNanos t div 1000000000 div 86400"
    by (simp add: zdiv_zmult2_eq [symmetric])
  then have "yearText y = digitsN 4 y" using t c by (intro yearText_digits) (simp_all add: timeInRange_def)
  then show ?thesis by (simp add: formatTime_def Let_def c digits_sep strip_sep)
qed

lemma canonical_binds:
  assumes "sepFree e" "sepFree e'" "canonicalString e = Inr x" "canonicalString e' = Inr x"
  shows "beID e' = beID e \<and> beType e' = beType e \<and> beVersion e' = beVersion e \<and> beStream e' = beStream e
    \<and> gtNanos (beCreatedAt e') = gtNanos (beCreatedAt e) \<and> gtNanos (bePublishedAt e') = gtNanos (bePublishedAt e)
    \<and> bePayload e' = bePayload e"
proof -
  have s: "list_all (\<lambda>c. c \<noteq> CHR ''|'') (beID f)" "list_all (\<lambda>c. c \<noteq> CHR ''|'') (beType f)"
    "list_all (\<lambda>c. c \<noteq> CHR ''|'') (beStream f)" "list_all (\<lambda>c. c \<noteq> CHR ''|'') (formatTime (inUTC (beCreatedAt f)))"
    "list_all (\<lambda>c. c \<noteq> CHR ''|'') (formatTime (inUTC (bePublishedAt f)))"
    if "sepFree f" for f using that by (simp_all add: sepFree_def formatTime_sep)
  have x: "x = beID f @ CHR ''|'' # beType f @ CHR ''|'' # Itoa (beVersion f) @ CHR ''|'' # beStream f @ CHR ''|'' #
       formatTime (inUTC (beCreatedAt f)) @ CHR ''|'' # formatTime (inUTC (bePublishedAt f)) @ CHR ''|'' # bePayload f"
    if "canonicalString f = Inr x" for f using that by (auto simp: canonicalString_def split: option.splits)
  have "beID e = beID e' \<and> beType e = beType e' \<and> Itoa (beVersion e) = Itoa (beVersion e') \<and> beStream e = beStream e'
    \<and> formatTime (inUTC (beCreatedAt e)) = formatTime (inUTC (beCreatedAt e'))
    \<and> formatTime (inUTC (bePublishedAt e)) = formatTime (inUTC (bePublishedAt e')) \<and> bePayload e = bePayload e'"
    using x [OF assms(3), unfolded x [OF assms(4)]] by (simp add: sep_split s [OF assms(1)] s [OF assms(2)] Itoa_sep)
  moreover have "gtNanos t = gtNanos u" if "timeInRange (inUTC t)" "timeInRange (inUTC u)"
    "formatTime (inUTC t) = formatTime (inUTC u)" for t u
  proof -
    have "Some (inUTC t) = Some (inUTC u)" using time_text [OF that(1)] time_text [OF that(2)] that(3) by metis
    then show ?thesis by (simp add: inUTC_def) (metis GoTime.ext_inject GoTime.surjective GoTime.update_convs(2))
  qed
  ultimately show ?thesis using assms(1,2) Itoa_inj [of "beVersion e" "beVersion e'"] unfolding sepFree_def by auto
qed

text \<open>C19: A valid signature fixes the event. If a signature was issued for one event and VerifyEvent
  accepts it on another, both with no separator in their identifier, type and stream and with times
  of four-digit years, then the two have the same identifier, type, version, stream, payload and
  instants, or the digest has a collision under this key. (With separators in those fields two
  different events can share their canonical text.)\<close>

theorem signature_binds:
  assumes "SignEvent hmac secret e = Inr (beSignature e')" "VerifyEvent hmac secret e' = Inr True"
    and "sepFree e" "sepFree e'"
  shows "(beID e' = beID e \<and> beType e' = beType e \<and> beVersion e' = beVersion e \<and> beStream e' = beStream e
      \<and> gtNanos (beCreatedAt e') = gtNanos (beCreatedAt e) \<and> gtNanos (bePublishedAt e') = gtNanos (bePublishedAt e)
      \<and> bePayload e' = bePayload e)
    \<or> (\<exists>x y. x \<noteq> y \<and> hmac secret x = hmac secret y)"
proof -
  obtain x where x: "canonicalString e = Inr x" "hmac secret x = beSignature e'"
    using SignEvent_canonical [OF assms(1)] by blast
  obtain y where y: "canonicalString e' = Inr y" "hmac secret y = beSignature e'"
    using VerifyEvent_canonical [OF assms(2)] by blast
  show ?thesis
  proof (cases "x = y")
    case True
    with canonical_binds [OF assms(3,4) x(1)] y(1) show ?thesis by blast
  next
    case False
    with x(2) y(2) show ?thesis by metis
  qed
qed

section \<open>A sample event\<close>

definition sampleEvent :: BaseEvent where
  "sampleEvent = \<lparr>beID = ''outbox:7'', beType = ''StockChanged'', beVersion = 1, beStream = ''inventory.events'',
     beCreatedAt = \<lparr>gtNanos = 1700000000123456000, gtOffset = 420\<rparr>,
     bePublishedAt = \<lparr>gtNanos = 1700000001000000001, gtOffset = 0\<rparr>, bePayload = ''{}'', beSignature = []\<rparr>"

lemma sample_event:
  "completeEvent sampleEvent" "sepFree sampleEvent" "is_int64 (beVersion sampleEvent)"
  "\<not> isl (ToValues zeroTime sampleEvent)" "\<not> isl (SignEvent (\<lambda>k x. k @ x) ''k'' sampleEvent)"
  "\<not> isl (ToValues zeroTime (sampleEvent\<lparr>beSignature := k @ s\<rparr>))"
  by (code_simp+)

theorem event_roundtrip_witness:
  "\<exists>vals. ToValues zeroTime sampleEvent = Inr vals
     \<and> DecodeEvent (messageFromRedis ''s'' ''g'' ''c'' ''1-0'' (asRedis vals)) = Inr sampleEvent"
proof -
  obtain vals where v: "ToValues zeroTime sampleEvent = Inr vals"
    using sample_event(4) by (metis isl_def obj_sumE)
  have d: "withDefaults zeroTime sampleEvent = sampleEvent" using sample_event(1) by simp
  have "timeInRange (beCreatedAt sampleEvent)" "timeInRange (bePublishedAt sampleEvent)"
    using sample_event(1) by (auto simp: completeEvent_def)
  from event_roundtrip [OF v, unfolded d, OF this] have
    "DecodeEvent (messageFromRedis ''s'' ''g'' ''c'' ''1-0'' (asRedis vals)) = Inr (sampleEvent\<lparr>beVersion := 1\<rparr>)" .
  moreover have "sampleEvent\<lparr>beVersion := 1\<rparr> = sampleEvent" by (simp add: sampleEvent_def)
  ultimately show ?thesis using v by simp
qed

theorem verify_after_transport_witness:
  "\<exists>sig vals d. SignEvent (\<lambda>k x. k @ x) ''k'' sampleEvent = Inr sig
     \<and> ToValues zeroTime (sampleEvent\<lparr>beSignature := sig\<rparr>) = Inr vals
     \<and> DecodeEvent (messageFromRedis ''s'' ''g'' ''c'' ''1-0'' (asRedis vals)) = Inr d
     \<and> VerifyEvent (\<lambda>k x. k @ x) ''k'' d = Inr True"
proof -
  obtain sig where s: "SignEvent (\<lambda>k x. k @ x) ''k'' sampleEvent = Inr sig"
    using sample_event(5) by (metis isl_def obj_sumE)
  then have "sig \<noteq> []" by (auto simp: SignEvent_def split: if_splits sum.splits)
  moreover obtain vals where v: "ToValues zeroTime (sampleEvent\<lparr>beSignature := sig\<rparr>) = Inr vals"
    using sample_event(6) by (metis isl_def obj_sumE append_Nil)
  moreover have "beVersion sampleEvent = 1" by (simp add: sampleEvent_def)
  ultimately show ?thesis using verify_after_transport [OF sample_event(1,3) s _ v] s by blast
qed

theorem signature_binds_witness:
  "\<exists>sig. SignEvent (\<lambda>k x. k @ x) ''k'' sampleEvent = Inr sig
     \<and> (beID (sampleEvent\<lparr>beSignature := sig\<rparr>) = ''outbox:7''
        \<or> (\<exists>x y. x \<noteq> y \<and> ''k'' @ x = ''k'' @ y))"
proof -
  obtain sig where s: "SignEvent (\<lambda>k x. k @ x) ''k'' sampleEvent = Inr sig"
    using sample_event(5) by (metis isl_def obj_sumE)
  then have n: "sig \<noteq> []" by (auto simp: SignEvent_def split: if_splits sum.splits)
  have f: "sepFree (sampleEvent\<lparr>beSignature := sig\<rparr>)" using sample_event(2) by (simp add: sepFree_def)
  have i: "SignEvent (\<lambda>k x. k @ x) ''k'' sampleEvent = Inr (beSignature (sampleEvent\<lparr>beSignature := sig\<rparr>))"
    using s by simp
  from signature_binds [OF i Verify_signed [OF s n] sample_event(2) f] s show ?thesis
    by (auto simp: sampleEvent_def)
qed

end
