(* ===== verification/Event_Bus.thy ===== *)
theory Event_Bus
  imports Outbox Event_Laws
begin

text \<open>
  The event bus client (src/pkg/eventbus: publish.go, consume.go, idempotency.go, retry_dlq.go,
  processing.go). The commands of Redis it sends are functions on the streams and keys of the world:
  XADD appends an entry under a fresh identifier, XREADGROUP with ">" hands a group the entries it
  has not seen and remembers them as pending, XACK forgets pending entries, SET NX takes a free key.
  Each may fail, or be executed and lose its reply. The blocking of XREADGROUP and the deadline of
  its timeout are not visible in the results and are left out.
\<close>

section \<open>Redis commands\<close>

definition busCmd :: "(world \<Rightarrow> (err + 'a) \<times> world) \<Rightarrow> 'a app" where
  "busCmd f w0 =
    (let w = w0\<lparr>wbus := Suc (wbus w0)\<rparr>
     in case wbfault w0 (wbus w0) of
          None \<Rightarrow> f w
        | Some (BusDown msg) \<Rightarrow> (Inl (Raw msg), w)
        | Some (ReplyLost msg) \<Rightarrow> (Inl (Raw msg), snd (f w)))"

definition emptyStream :: "string \<Rightarrow> busStream" where
  "emptyStream s = \<lparr>bsName = s, bsEntries = [], bsGroups = []\<rparr>"

definition streamOf :: "string \<Rightarrow> world \<Rightarrow> busStream" where
  "streamOf s w = (case find (\<lambda>b. bsName b = s) (wstreams w) of Some b \<Rightarrow> b | None \<Rightarrow> emptyStream s)"

text \<open>Change a stream, which is created when it does not exist.\<close>

definition updStream :: "string \<Rightarrow> (busStream \<Rightarrow> busStream) \<Rightarrow> world \<Rightarrow> world" where
  "updStream s f w =
    (if list_ex (\<lambda>b. bsName b = s) (wstreams w)
     then w\<lparr>wstreams := map (\<lambda>b. if bsName b = s then f b else b) (wstreams w)\<rparr>
     else w\<lparr>wstreams := wstreams w @ [f (emptyStream s)]\<rparr>)"

definition xadd :: "string \<Rightarrow> fields \<Rightarrow> world \<Rightarrow> (err + string) \<times> world" where
  "xadd s vals w =
    (let i = wxid w (wxadd w);
         w' = updStream s (\<lambda>b. b\<lparr>bsEntries := bsEntries b @ [\<lparr>seID = i, seFields = asRedis vals\<rparr>]\<rparr>) w
     in (Inr i, w'\<lparr>wxadd := Suc (wxadd w')\<rparr>))"

definition groupOf :: "string \<Rightarrow> busStream \<Rightarrow> groupState option" where
  "groupOf g b = find (\<lambda>x. gsName x = g) (bsGroups b)"

definition updGroup :: "string \<Rightarrow> (groupState \<Rightarrow> groupState) \<Rightarrow> busStream \<Rightarrow> busStream" where
  "updGroup g f b = b\<lparr>bsGroups := map (\<lambda>x. if gsName x = g then f x else x) (bsGroups b)\<rparr>"

definition busyGroup :: string where
  "busyGroup = ''BUSYGROUP Consumer Group name already exists''"

text \<open>XGROUP CREATE stream group 0 MKSTREAM.\<close>

definition xgroupCreate :: "string \<Rightarrow> string \<Rightarrow> world \<Rightarrow> (err + unit) \<times> world" where
  "xgroupCreate s g w =
    (case groupOf g (streamOf s w) of
       Some _ \<Rightarrow> (Inl (Raw busyGroup), w)
     | None \<Rightarrow> (Inr (), updStream s (\<lambda>b. b\<lparr>bsGroups := bsGroups b @ [\<lparr>gsName = g, gsNext = 0, gsPending = []\<rparr>]\<rparr>) w))"

definition noGroup :: string where
  "noGroup = ''NOGROUP No such key or consumer group''"

text \<open>XREADGROUP GROUP g c COUNT n STREAMS s >.\<close>

definition xreadgroup :: "string \<Rightarrow> string \<Rightarrow> nat \<Rightarrow> world \<Rightarrow> (err + streamEntry list) \<times> world" where
  "xreadgroup s g n w =
    (case groupOf g (streamOf s w) of
       None \<Rightarrow> (Inl (Raw noGroup), w)
     | Some st \<Rightarrow>
         let es = take n (drop (gsNext st) (bsEntries (streamOf s w)))
         in (Inr es, updStream s (updGroup g (\<lambda>x. x\<lparr>gsNext := gsNext x + length es,
               gsPending := gsPending x @ map seID es\<rparr>)) w))"

definition xack :: "string \<Rightarrow> string \<Rightarrow> string list \<Rightarrow> world \<Rightarrow> (err + unit) \<times> world" where
  "xack s g ids w =
    (if list_ex (\<lambda>b. bsName b = s) (wstreams w)
     then (Inr (), updStream s (updGroup g (\<lambda>x. x\<lparr>gsPending := filter (\<lambda>i. i \<notin> set ids) (gsPending x)\<rparr>)) w)
     else (Inr (), w))"

text \<open>SET key 1 NX with an expiry, on a server whose clock shows now.\<close>

definition setnx :: "string \<Rightarrow> int \<Rightarrow> world \<Rightarrow> (err + bool) \<times> world" where
  "setnx key ttl w0 =
    (let now = wtime w0 (wtick w0); w = w0\<lparr>wtick := Suc (wtick w0)\<rparr>
     in case map_of (wkeys w) key of
          Some expires \<Rightarrow> if now < expires then (Inr False, w)
            else (Inr True, w\<lparr>wkeys := AList.update key (now + ttl) (wkeys w)\<rparr>)
        | None \<Rightarrow> (Inr True, w\<lparr>wkeys := AList.update key (now + ttl) (wkeys w)\<rparr>))"

section \<open>Publishing\<close>

definition Publish :: "string \<Rightarrow> fields \<Rightarrow> string app" where
  "Publish stream payload =
    (if stream = [] then throw (Raw ''eventbus: stream is required'')
     else if payload = [] then throw (Raw ''eventbus: payload is required'')
     else busCmd (xadd stream payload))"

text \<open>The clock of the process in nanoseconds.\<close>

definition nowGo :: "GoTime app" where
  "nowGo = bindM nowUTC (\<lambda>t. ret \<lparr>gtNanos = 1000 * t, gtOffset = 0\<rparr>)"

definition PublishEvent :: "BaseEvent \<Rightarrow> string app" where
  "PublishEvent event =
    (if beStream event = [] then throw (Raw ''eventbus: event stream is required'')
     else bindM (if IsZero (beCreatedAt event) then nowGo else ret (beCreatedAt event)) (\<lambda>now.
       let event = withDefaults now event
       in bindM (if IsZero (beCreatedAt event) then nowGo else ret (beCreatedAt event)) (\<lambda>now2.
          bindM (liftE (ToValues now2 event)) (\<lambda>values.
          Publish (beStream event) values))))"

section \<open>Consuming\<close>

definition EnsureGroup :: "string \<Rightarrow> string \<Rightarrow> unit app" where
  "EnsureGroup stream grp =
    (if stream = [] \<or> grp = [] then throw (Raw ''eventbus: stream and group are required'')
     else bindM (tryM (busCmd (xgroupCreate stream grp))) (\<lambda>r. case r of
         Inr _ \<Rightarrow> ret ()
       | Inl e \<Rightarrow> if Contains (errorText e) ''BUSYGROUP'' then ret () else throw e))"

definition ReadGroup :: "string \<Rightarrow> string \<Rightarrow> string \<Rightarrow> int \<Rightarrow> EventMessage list app" where
  "ReadGroup stream grp consumer count0 =
    (if stream = [] \<or> grp = [] \<or> consumer = []
     then throw (Raw ''eventbus: stream, group, and consumer are required'')
     else let count = (if count0 \<le> 0 then 1 else count0)
       in bindM (busCmd (xreadgroup stream grp (nat count))) (\<lambda>es.
          ret (map (\<lambda>e. messageFromRedis stream grp consumer (seID e) (seFields e)) es)))"

definition Ack :: "string \<Rightarrow> string \<Rightarrow> string list \<Rightarrow> unit app" where
  "Ack stream grp ids =
    (if stream = [] \<or> grp = [] then throw (Raw ''eventbus: stream and group are required'')
     else if ids = [] then ret ()
     else busCmd (xack stream grp ids))"

text \<open>Durations are in microseconds.\<close>

definition AcquireIdempotency :: "string \<Rightarrow> int \<Rightarrow> bool app" where
  "AcquireIdempotency key ttl0 =
    (if key = [] then throw (Raw ''eventbus: idempotency key is required'')
     else let ttl = (if ttl0 \<le> 0 then 86400000000 else ttl0)
       in busCmd (setnx key ttl))"

section \<open>Retries and dead letters\<close>

record RetryResult =
  rrRequeued :: bool
  rrDeadLetter :: bool
  rrMessageID :: string
  rrRetryCount :: int

definition noRetry :: RetryResult where
  "noRetry = \<lparr>rrRequeued = False, rrDeadLetter = False, rrMessageID = [], rrRetryCount = 0\<rparr>"

definition RequeueOrDLQ :: "string \<Rightarrow> string \<Rightarrow> fields \<Rightarrow> int \<Rightarrow> err option \<Rightarrow> RetryResult app" where
  "RequeueOrDLQ stream dlqStream0 values maxRetry lastErr =
    (let dlqStream = (if dlqStream0 = [] then DLQStream stream else dlqStream0);
         currentRetry = RetryCount values;
         nextRetry = wrap64 (currentRetry + 1)
     in if nextRetry \<le> maxRetry then
          bindM (Publish stream (WithRetryMetadata values nextRetry lastErr)) (\<lambda>i.
          ret \<lparr>rrRequeued = True, rrDeadLetter = False, rrMessageID = i, rrRetryCount = nextRetry\<rparr>)
        else
          bindM (Publish dlqStream (AList.update ''dlq_reason''
              (AStr (''retry exhausted (max='' @ Itoa maxRetry @ '')''))
              (WithRetryMetadata values nextRetry lastErr))) (\<lambda>i.
          ret \<lparr>rrRequeued = False, rrDeadLetter = True, rrMessageID = i, rrRetryCount = nextRetry\<rparr>))"

definition MoveToDLQ :: "string \<Rightarrow> fields \<Rightarrow> err option \<Rightarrow> RetryResult app" where
  "MoveToDLQ dlqStream0 values lastErr =
    (let dlqStream = (if dlqStream0 = [] then DLQStream DefaultInventoryStream else dlqStream0);
         payload = AList.update ''dlq_reason'' (AStr ''permanent_error'')
           (WithRetryMetadata values (RetryCount values) lastErr)
     in bindM (Publish dlqStream payload) (\<lambda>i.
        ret \<lparr>rrRequeued = False, rrDeadLetter = True, rrMessageID = i, rrRetryCount = RetryCount payload\<rparr>))"

section \<open>Processing\<close>

record HandleOptions =
  hoIdempotencyKey :: string
  hoIdempotencyTTL :: int
  hoMaxRetry :: int
  hoDLQStream :: string
  hoOnDuplicate :: "(EventMessage \<Rightarrow> unit app) option"

record HandleResult =
  hrAcked :: bool
  hrSkipped :: bool
  hrRetryResult :: RetryResult

definition ackMsg :: "EventMessage \<Rightarrow> unit app" where
  "ackMsg msg = Ack (emStream msg) (emGroup msg) [emID msg]"

text \<open>The branch of a duplicate, and the processing of a message that may be handled.\<close>

definition skipDuplicate :: "EventMessage \<Rightarrow> HandleOptions \<Rightarrow> HandleResult app" where
  "skipDuplicate msg opts =
    bindM (case hoOnDuplicate opts of None \<Rightarrow> ret () | Some f \<Rightarrow> f msg) (\<lambda>_.
    bindM (ackMsg msg) (\<lambda>_.
    ret \<lparr>hrAcked = True, hrSkipped = True, hrRetryResult = noRetry\<rparr>))"

definition processMessage :: "EventMessage \<Rightarrow> HandleOptions \<Rightarrow> string \<Rightarrow> (EventMessage \<Rightarrow> unit app) \<Rightarrow> HandleResult app" where
  "processMessage msg opts dlq handler =
    bindM (tryM (handler msg)) (\<lambda>r. case r of
      Inr _ \<Rightarrow> bindM (ackMsg msg) (\<lambda>_.
        ret \<lparr>hrAcked = True, hrSkipped = False, hrRetryResult = noRetry\<rparr>)
    | Inl processErr \<Rightarrow>
        bindM (if IsPermanent processErr then MoveToDLQ dlq (emValues msg) (Some processErr)
               else RequeueOrDLQ (emStream msg) dlq (emValues msg) (hoMaxRetry opts) (Some processErr)) (\<lambda>rr.
        bindM (ackMsg msg) (\<lambda>_.
        ret \<lparr>hrAcked = True, hrSkipped = False, hrRetryResult = rr\<rparr>)))"

definition HandleMessage :: "EventMessage \<Rightarrow> HandleOptions \<Rightarrow> (EventMessage \<Rightarrow> unit app) \<Rightarrow> HandleResult app" where
  "HandleMessage msg opts handler =
    (let dlq = (if hoDLQStream opts = [] then DLQStream (emStream msg) else hoDLQStream opts)
     in if hoIdempotencyKey opts \<noteq> [] then
          bindM (AcquireIdempotency (hoIdempotencyKey opts) (hoIdempotencyTTL opts)) (\<lambda>acquired.
          if \<not> acquired then skipDuplicate msg opts else processMessage msg opts dlq handler)
        else processMessage msg opts dlq handler)"

definition HandleWithRetry :: "EventMessage \<Rightarrow> int \<Rightarrow> string \<Rightarrow> (EventMessage \<Rightarrow> unit app) \<Rightarrow> HandleResult app" where
  "HandleWithRetry msg maxRetry dlqStream handler =
    HandleMessage msg \<lparr>hoIdempotencyKey = [], hoIdempotencyTTL = 0, hoMaxRetry = maxRetry,
      hoDLQStream = dlqStream, hoOnDuplicate = None\<rparr> handler"

end
