(* ===== verification/Bus_Laws.thy ===== *)
theory Bus_Laws
  imports Event_Bus
begin

text \<open>
  What the event bus client promises (src/pkg/eventbus): a message that HandleMessage reports as
  processed is acknowledged, and was handled, skipped as a duplicate, put back on its stream or put
  on the dead-letter stream with its fields; a message whose handler keeps failing is dead-lettered
  after the given number of retries; and a group hands out an entry at most once.
\<close>

section \<open>Streams\<close>

lemma find_mem: "find P xs = Some x \<Longrightarrow> x \<in> set xs \<and> P x"
  by (induction xs) (auto split: if_splits)

lemma find_map_upd:
  "(\<And>b. key (f b) = key b) \<Longrightarrow>
   find (\<lambda>b. key b = t) (map (\<lambda>b. if key b = s then f b else b) xs) =
     map_option (\<lambda>b. if key b = s then f b else b) (find (\<lambda>b. key b = t) xs)"
  by (induction xs) auto

lemma find_snoc: "find P (xs @ [x]) = (case find P xs of Some y \<Rightarrow> Some y | None \<Rightarrow> if P x then Some x else None)"
  by (induction xs) auto

lemma find_ex: "list_ex P xs \<longleftrightarrow> find P xs \<noteq> None"
  by (induction xs) auto

lemma bsName_streamOf [simp]: "bsName (streamOf s w) = s"
  by (auto simp: streamOf_def emptyStream_def dest: find_mem split: option.splits)

text \<open>A stream after a change that keeps its name.\<close>

lemma streamOf_upd:
  assumes "\<And>b. bsName (f b) = bsName b"
  shows "streamOf t (updStream s f w) = (if t = s then f (streamOf s w) else streamOf t w)"
  using assms find_ex [of "\<lambda>b. bsName b = s" "wstreams w"]
  by (auto simp: streamOf_def updStream_def find_map_upd find_snoc emptyStream_def dest: find_mem split: option.splits)

lemma updStream_world [simp]:
  "wkeys (updStream s f w) = wkeys w" "wbfault (updStream s f w) = wbfault w" "wbus (updStream s f w) = wbus w"
  "wxid (updStream s f w) = wxid w" "wxadd (updStream s f w) = wxadd w" "wtick (updStream s f w) = wtick w"
  "wtime (updStream s f w) = wtime w" "wdb (updStream s f w) = wdb w" "wtx (updStream s f w) = wtx w"
  "wstmt (updStream s f w) = wstmt w" "wfault (updStream s f w) = wfault w" "wseq (updStream s f w) = wseq w"
  by (simp_all add: updStream_def)

lemma streamOf_world [simp]:
  "streamOf s (w\<lparr>wbus := n\<rparr>) = streamOf s w" "streamOf s (w\<lparr>wxadd := n\<rparr>) = streamOf s w"
  "streamOf s (w\<lparr>wkeys := k\<rparr>) = streamOf s w" "streamOf s (w\<lparr>wtick := n\<rparr>) = streamOf s w"
  by (simp_all add: streamOf_def)

lemma groupOf_name: "groupOf g b = Some x \<Longrightarrow> gsName x = g"
  by (auto simp: groupOf_def dest: find_mem)

lemma groupOf_upd [simp]:
  assumes "\<And>x. gsName (f x) = gsName x"
  shows "groupOf h (updGroup g f b) = (if h = g then map_option f (groupOf h b) else groupOf h b)"
proof -
  have "groupOf h (updGroup g f b) = map_option (\<lambda>x. if gsName x = g then f x else x) (groupOf h b)"
    using assms by (simp add: groupOf_def updGroup_def find_map_upd)
  then show ?thesis by (cases "groupOf h b") (auto dest: groupOf_name)
qed

lemma updGroup_fields [simp]:
  "bsName (updGroup g f b) = bsName b" "bsEntries (updGroup g f b) = bsEntries b"
  by (simp_all add: updGroup_def)

section \<open>Commands\<close>

lemma busCmd_Inr:
  "busCmd f w = (Inr a, w') \<longleftrightarrow> wbfault w (wbus w) = None \<and> f (w\<lparr>wbus := Suc (wbus w)\<rparr>) = (Inr a, w')"
  by (auto simp: busCmd_def Let_def split: option.splits bus_fault.splits)

lemma busCmd_ok: "wbfault w (wbus w) = None \<Longrightarrow> busCmd f w = f (w\<lparr>wbus := Suc (wbus w)\<rparr>)"
  by (simp add: busCmd_def Let_def)

lemma busCmd_keeps:
  assumes "\<And>w. R w (w\<lparr>wbus := Suc (wbus w)\<rparr>)" "\<And>w. R w (snd (f w))" "\<And>a b c. R a b \<Longrightarrow> R b c \<Longrightarrow> R a c"
  shows "keeps R (busCmd f)"
  unfolding keeps_def busCmd_def Let_def
  by (auto split: option.splits bus_fault.splits intro: assms(1) assms(3) [OF assms(1,2)])

text \<open>The entry a successful Publish leaves at the end of the stream.\<close>

lemma Publish_Inr:
  assumes "Publish s vals w = (Inr i, w')"
  shows "\<exists>es. bsEntries (streamOf s w') = es @ [\<lparr>seID = i, seFields = asRedis vals\<rparr>]
    \<and> bsEntries (streamOf s w) = es \<and> s \<noteq> [] \<and> vals \<noteq> []
    \<and> bsGroups (streamOf s w') = bsGroups (streamOf s w) \<and> (\<forall>t. t \<noteq> s \<longrightarrow> streamOf t w' = streamOf t w)
    \<and> wkeys w' = wkeys w \<and> wbfault w' = wbfault w \<and> wtick w' = wtick w \<and> wtime w' = wtime w"
  using assms by (auto simp: Publish_def busCmd_Inr xadd_def Let_def streamOf_upd split: if_splits)

lemma Ack_Inr:
  assumes "Ack s g ids w = (Inr u, w')" "ids \<noteq> []"
  shows "(\<forall>t. bsEntries (streamOf t w') = bsEntries (streamOf t w))
    \<and> (\<forall>x. groupOf g (streamOf s w') = Some x \<longrightarrow> set ids \<inter> set (gsPending x) = {})
    \<and> wkeys w' = wkeys w \<and> wbfault w' = wbfault w \<and> wtick w' = wtick w \<and> wtime w' = wtime w"
proof (cases "list_ex (\<lambda>b. bsName b = s) (wstreams w)")
  case True
  then show ?thesis using assms
    by (auto simp: Ack_def busCmd_Inr xack_def streamOf_upd dest: groupOf_name split: if_splits)
next
  case False
  then have "streamOf s w = emptyStream s" by (auto simp: find_ex streamOf_def)
  with False show ?thesis using assms
    by (auto simp: Ack_def busCmd_Inr xack_def groupOf_def emptyStream_def split: if_splits)
qed

text \<open>Without a fault of the bus the operations succeed.\<close>

lemma Publish_ok:
  "wbfault w (wbus w) = None \<Longrightarrow> s \<noteq> [] \<Longrightarrow> vals \<noteq> [] \<Longrightarrow> \<exists>i w'. Publish s vals w = (Inr i, w')"
  by (simp add: Publish_def busCmd_ok xadd_def Let_def)

lemma Ack_ok: "wbfault w (wbus w) = None \<Longrightarrow> s \<noteq> [] \<Longrightarrow> g \<noteq> [] \<Longrightarrow> \<exists>w'. Ack s g ids w = (Inr (), w')"
  by (auto simp: Ack_def busCmd_ok xack_def ret_def)

lemma ackMsg_Inr:
  assumes "ackMsg msg w = (Inr u, w')"
  shows "(\<forall>t. bsEntries (streamOf t w') = bsEntries (streamOf t w))
    \<and> (\<forall>x. groupOf (emGroup msg) (streamOf (emStream msg) w') = Some x \<longrightarrow> emID msg \<notin> set (gsPending x))
    \<and> wkeys w' = wkeys w \<and> wbfault w' = wbfault w \<and> wtick w' = wtick w \<and> wtime w' = wtime w"
  using Ack_Inr [OF assms [unfolded ackMsg_def]] by auto

section \<open>HandleMessage\<close>

text \<open>A copy of the fields of a message, with the retry counter n and possibly the diagnostic fields.\<close>

definition copyOf :: "fields \<Rightarrow> int \<Rightarrow> (string \<times> string) list \<Rightarrow> bool" where
  "copyOf vals n out \<longleftrightarrow> map_of out ''retry_count'' = Some (Itoa n)
     \<and> (\<forall>k. k \<notin> {''retry_count'', ''last_error'', ''dlq_reason''} \<longrightarrow>
          map_of out k = map_option sprintAny (map_of vals k))"

lemma copyOf_metadata:
  "copyOf vals n (asRedis (WithRetryMetadata vals n le))"
  "copyOf vals n (asRedis (AList.update ''dlq_reason'' d (WithRetryMetadata vals n le)))"
  by (auto simp: copyOf_def WithRetryMetadata_def Let_def update_conv' split: option.splits)

lemma update_nonempty [simp]: "AList.update k d vals \<noteq> []"
  by (cases vals) auto

lemma metadata_nonempty [simp]: "WithRetryMetadata vals n le \<noteq> []"
  by (auto simp: WithRetryMetadata_def Let_def split: option.splits)

text \<open>What is left of a message that was not handled: an entry of the stream or of the dead letters.\<close>

definition storedAs :: "world \<Rightarrow> string \<Rightarrow> string \<Rightarrow> fields \<Rightarrow> int \<Rightarrow> bool" where
  "storedAs w s i vals n \<longleftrightarrow> (\<exists>e \<in> set (bsEntries (streamOf s w)). seID e = i \<and> copyOf vals n (seFields e))"

lemma storedAs_ack: "ackMsg msg w = (Inr u, w') \<Longrightarrow> storedAs w s i vals n \<Longrightarrow> storedAs w' s i vals n"
  by (simp add: storedAs_def ackMsg_Inr)

lemma RequeueOrDLQ_Inr:
  assumes "RequeueOrDLQ s d vals m le w = (Inr rr, w')"
  shows "let n = wrap64 (RetryCount vals + 1) in rrRetryCount rr = n \<and> rrRequeued rr = (n \<le> m) \<and> rrDeadLetter rr = (\<not> n \<le> m)
    \<and> storedAs w' (if n \<le> m then s else if d = [] then DLQStream s else d) (rrMessageID rr) vals n
    \<and> wkeys w' = wkeys w \<and> wbfault w' = wbfault w \<and> wtick w' = wtick w \<and> wtime w' = wtime w"
  using assms unfolding RequeueOrDLQ_def Let_def
  by (auto simp: bindM_Inr storedAs_def copyOf_metadata dest!: Publish_Inr split: if_splits)

lemma MoveToDLQ_Inr:
  assumes "MoveToDLQ d vals le w = (Inr rr, w')" "d \<noteq> []"
  shows "\<not> rrRequeued rr \<and> rrDeadLetter rr \<and> storedAs w' d (rrMessageID rr) vals (RetryCount vals)
    \<and> wkeys w' = wkeys w \<and> wbfault w' = wbfault w \<and> wtick w' = wtick w \<and> wtime w' = wtime w"
  using assms unfolding MoveToDLQ_def Let_def
  by (auto simp: bindM_Inr storedAs_def copyOf_metadata dest!: Publish_Inr)

definition dlqFor :: "EventMessage \<Rightarrow> HandleOptions \<Rightarrow> string" where
  "dlqFor msg opts = (if hoDLQStream opts = [] then DLQStream (emStream msg) else hoDLQStream opts)"

lemma dlqFor_nonempty [simp]: "dlqFor msg opts \<noteq> []"
  by (simp add: dlqFor_def DLQStream_def)

text \<open>The four outcomes of a processed message in the worlds before and after the handler.\<close>

definition processed :: "EventMessage \<Rightarrow> HandleOptions \<Rightarrow> (err + unit) \<Rightarrow> RetryResult \<Rightarrow> world \<Rightarrow> bool" where
  "processed msg opts hr rr w \<longleftrightarrow> (let n = RetryCount (emValues msg); n1 = wrap64 (n + 1) in
     case hr of
       Inr _ \<Rightarrow> rr = noRetry
     | Inl e \<Rightarrow>
        if IsPermanent e then rrDeadLetter rr \<and> \<not> rrRequeued rr
          \<and> storedAs w (dlqFor msg opts) (rrMessageID rr) (emValues msg) n
        else if n1 \<le> hoMaxRetry opts then rrRequeued rr \<and> \<not> rrDeadLetter rr \<and> rrRetryCount rr = n1
          \<and> storedAs w (emStream msg) (rrMessageID rr) (emValues msg) n1
        else rrDeadLetter rr \<and> \<not> rrRequeued rr \<and> rrRetryCount rr = n1
          \<and> storedAs w (dlqFor msg opts) (rrMessageID rr) (emValues msg) n1)"

lemma processMessage_Inr:
  assumes "processMessage msg opts (dlqFor msg opts) handler w = (Inr r, w')"
  shows "\<exists>hr w1. handler msg w = (hr, w1) \<and> processed msg opts hr (hrRetryResult r) w' \<and> hrAcked r \<and> \<not> hrSkipped r
    \<and> (\<forall>x. groupOf (emGroup msg) (streamOf (emStream msg) w') = Some x \<longrightarrow> emID msg \<notin> set (gsPending x))
    \<and> wkeys w' = wkeys w1 \<and> wbfault w' = wbfault w1 \<and> wtick w' = wtick w1 \<and> wtime w' = wtime w1"
proof -
  from assms obtain res w1 where h: "tryM (handler msg) w = (Inr res, w1)"
    and k: "(case res of Inr _ \<Rightarrow> bindM (ackMsg msg) (\<lambda>_. ret \<lparr>hrAcked = True, hrSkipped = False, hrRetryResult = noRetry\<rparr>)
      | Inl e \<Rightarrow> bindM (if IsPermanent e then MoveToDLQ (dlqFor msg opts) (emValues msg) (Some e)
               else RequeueOrDLQ (emStream msg) (dlqFor msg opts) (emValues msg) (hoMaxRetry opts) (Some e)) (\<lambda>rr.
        bindM (ackMsg msg) (\<lambda>_. ret \<lparr>hrAcked = True, hrSkipped = False, hrRetryResult = rr\<rparr>))) w1 = (Inr r, w')"
    by (auto simp: processMessage_def bindM_Inr)
  show ?thesis
  proof (cases res)
    case (Inr u)
    then have "handler msg w = (Inr u, w1)" using h by (simp add: tryM_Inr_Inr)
    with k Inr show ?thesis by (auto simp: bindM_Inr processed_def dest: ackMsg_Inr)
  next
    case (Inl e)
    then have "handler msg w = (Inl e, w1)" using h by (simp add: tryM_Inr_Inl)
    moreover from k Inl obtain rr w2 where
      q: "(if IsPermanent e then MoveToDLQ (dlqFor msg opts) (emValues msg) (Some e)
          else RequeueOrDLQ (emStream msg) (dlqFor msg opts) (emValues msg) (hoMaxRetry opts) (Some e)) w1 = (Inr rr, w2)"
      and a: "ackMsg msg w2 = (Inr (), w')" "r = \<lparr>hrAcked = True, hrSkipped = False, hrRetryResult = rr\<rparr>"
      by (auto simp: bindM_Inr)
    moreover have "processed msg opts (Inl e) rr w2 \<and> wkeys w2 = wkeys w1 \<and> wbfault w2 = wbfault w1
        \<and> wtick w2 = wtick w1 \<and> wtime w2 = wtime w1"
      using q MoveToDLQ_Inr [of "dlqFor msg opts" "emValues msg" "Some e" w1 rr w2] RequeueOrDLQ_Inr
        [of "emStream msg" "dlqFor msg opts" "emValues msg" "hoMaxRetry opts" "Some e" w1 rr w2]
      by (auto simp: processed_def Let_def split: if_splits)
    ultimately show ?thesis using ackMsg_Inr [OF a(1)] storedAs_ack [OF a(1)]
      by (auto simp: processed_def Let_def split: if_splits)
  qed
qed

lemma skipDuplicate_Inr:
  assumes "skipDuplicate msg opts w = (Inr r, w')"
  shows "r = \<lparr>hrAcked = True, hrSkipped = True, hrRetryResult = noRetry\<rparr>
    \<and> (\<forall>x. groupOf (emGroup msg) (streamOf (emStream msg) w') = Some x \<longrightarrow> emID msg \<notin> set (gsPending x))"
  using assms by (auto simp: skipDuplicate_def bindM_Inr dest: ackMsg_Inr)

lemma AcquireIdempotency_Inr:
  assumes "AcquireIdempotency key ttl w = (Inr b, w')"
  shows "let now = wtime w (wtick w); t = (if ttl \<le> 0 then 86400000000 else ttl) in
    (b \<longrightarrow> (case map_of (wkeys w) key of None \<Rightarrow> True | Some x \<Rightarrow> \<not> now < x) \<and> map_of (wkeys w') key = Some (now + t))
    \<and> (\<not> b \<longrightarrow> (\<exists>x. map_of (wkeys w) key = Some x \<and> now < x) \<and> wkeys w' = wkeys w)"
  using assms
  by (auto simp: AcquireIdempotency_def busCmd_Inr setnx_def Let_def update_conv' split: if_splits option.splits)

text \<open>C13: HandleMessage loses no message. When it reports success the message is acknowledged: it is
  not pending in its group any more. It was skipped only because its idempotency key was held; else
  the handler was called, and if the handler failed, a copy of the fields of the message is on the
  dead-letter stream when the error is permanent or the retries are used up, and on its own stream
  otherwise, with the retry counter raised by one.\<close>

theorem handle_message_outcome:
  assumes "HandleMessage msg opts handler w = (Inr r, w')"
  shows "hrAcked r
    \<and> (\<forall>x. groupOf (emGroup msg) (streamOf (emStream msg) w') = Some x \<longrightarrow> emID msg \<notin> set (gsPending x))
    \<and> (if hrSkipped r then hoIdempotencyKey opts \<noteq> []
          \<and> (\<exists>t. map_of (wkeys w) (hoIdempotencyKey opts) = Some t \<and> wtime w (wtick w) < t)
       else \<exists>w0 hr w1. handler msg w0 = (hr, w1) \<and> processed msg opts hr (hrRetryResult r) w')"
proof (cases "hoIdempotencyKey opts = []")
  case True
  then have "processMessage msg opts (dlqFor msg opts) handler w = (Inr r, w')"
    using assms by (simp add: HandleMessage_def dlqFor_def Let_def)
  then show ?thesis using processMessage_Inr by fastforce
next
  case False
  then obtain b w1 where b: "AcquireIdempotency (hoIdempotencyKey opts) (hoIdempotencyTTL opts) w = (Inr b, w1)"
    and k: "(if \<not> b then skipDuplicate msg opts else processMessage msg opts (dlqFor msg opts) handler) w1 = (Inr r, w')"
    using assms by (auto simp: HandleMessage_def Let_def dlqFor_def [symmetric] bindM_Inr)
  show ?thesis
  proof (cases b)
    case True
    with k processMessage_Inr show ?thesis by fastforce
  next
    case b': False
    with k skipDuplicate_Inr [of msg opts w1 r w'] AcquireIdempotency_Inr [OF b] False show ?thesis
      by (simp add: Let_def)
  qed
qed

section \<open>Retries\<close>

text \<open>How a message that keeps being requeued comes back: k times handled and put back, read again
  each time under the identifier of its new entry.\<close>

inductive retried :: "HandleOptions \<Rightarrow> (EventMessage \<Rightarrow> unit app) \<Rightarrow> EventMessage \<Rightarrow> nat \<Rightarrow> EventMessage \<Rightarrow> bool"
  for opts h m where
  first: "retried opts h m 0 m"
| again: "retried opts h m k m1 \<Longrightarrow> HandleMessage m1 opts h w = (Inr r, w1) \<Longrightarrow> rrRequeued (hrRetryResult r) \<Longrightarrow>
    e \<in> set (bsEntries (streamOf (emStream m1) w1)) \<Longrightarrow> seID e = rrMessageID (hrRetryResult r) \<Longrightarrow>
    distinct (map seID (bsEntries (streamOf (emStream m1) w1))) \<Longrightarrow>
    retried opts h m (Suc k) (messageFromRedis (emStream m1) grp consumer (seID e) (seFields e))"

inductive_cases retriedE: "retried opts h m k m'"

lemma copyOf_RetryCount: "copyOf vals n out \<Longrightarrow> is_int64 n \<Longrightarrow> RetryCount (fromRedis out) = n"
  by (simp add: copyOf_def RetryCount_def)

lemma wrap64_range [simp]: "is_int64 (wrap64 i)"
proof -
  have "0 \<le> (i + 9223372036854775808) mod 18446744073709551616"
    "(i + 9223372036854775808) mod 18446744073709551616 < 18446744073709551616" by simp_all
  then show ?thesis unfolding wrap64_def is_int64_def by linarith
qed

lemma RetryCount_next:
  "n < 9223372036854775807 \<Longrightarrow> 0 \<le> n \<Longrightarrow> wrap64 (n + 1) = n + 1"
  by (simp add: is_int64_def)

text \<open>A requeued message is the copy with the next count.\<close>

lemma HandleMessage_requeued:
  assumes "HandleMessage msg opts h w = (Inr r, w')" "rrRequeued (hrRetryResult r)"
  shows "wrap64 (RetryCount (emValues msg) + 1) \<le> hoMaxRetry opts"
    "storedAs w' (emStream msg) (rrMessageID (hrRetryResult r)) (emValues msg) (wrap64 (RetryCount (emValues msg) + 1))"
proof -
  have "\<exists>w0 dlq. dlq = dlqFor msg opts \<and> (processMessage msg opts dlq h w0 = (Inr r, w') \<or> skipDuplicate msg opts w0 = (Inr r, w'))"
    using assms(1) by (auto simp: HandleMessage_def Let_def dlqFor_def [symmetric] bindM_Inr split: if_splits)
  then obtain w0 hr where "processed msg opts hr (hrRetryResult r) w'"
    using assms(2) processMessage_Inr skipDuplicate_Inr [of msg opts _ r w'] by (fastforce simp: noRetry_def)
  then show "wrap64 (RetryCount (emValues msg) + 1) \<le> hoMaxRetry opts"
    "storedAs w' (emStream msg) (rrMessageID (hrRetryResult r)) (emValues msg) (wrap64 (RetryCount (emValues msg) + 1))"
    using assms(2) by (auto simp: processed_def noRetry_def Let_def split: sum.splits if_splits)
qed

lemma distinct_map_eq: "distinct (map f xs) \<Longrightarrow> x \<in> set xs \<Longrightarrow> y \<in> set xs \<Longrightarrow> f x = f y \<Longrightarrow> x = y"
  by (auto simp: distinct_map inj_on_def)

lemma requeued_copy:
  assumes "HandleMessage m1 opts h w = (Inr r, w1)" "rrRequeued (hrRetryResult r)"
    "e \<in> set (bsEntries (streamOf (emStream m1) w1))" "seID e = rrMessageID (hrRetryResult r)"
    "distinct (map seID (bsEntries (streamOf (emStream m1) w1)))"
  shows "copyOf (emValues m1) (wrap64 (RetryCount (emValues m1) + 1)) (seFields e)"
  using HandleMessage_requeued(2) [OF assms(1,2)] distinct_map_eq [OF assms(5)] assms(3,4)
  unfolding storedAs_def by metis

text \<open>C14: Retries are bounded. However often a message is handled, fails and comes back, its retry counter
  counts the requeueings exactly, they are at most the given maximum, and a message whose counter
  has reached the maximum is not requeued: it is handled, skipped or dead-lettered.\<close>

theorem retries_bounded:
  assumes "retried opts h m k m'" "0 \<le> RetryCount (emValues m)" "RetryCount (emValues m) \<le> hoMaxRetry opts"
    and "hoMaxRetry opts < 9223372036854775807"
  shows "RetryCount (emValues m') = RetryCount (emValues m) + int k \<and> RetryCount (emValues m) + int k \<le> hoMaxRetry opts
    \<and> (RetryCount (emValues m') = hoMaxRetry opts \<and> HandleMessage m' opts h w = (Inr r, w') \<longrightarrow> \<not> rrRequeued (hrRetryResult r))"
proof -
  have c: "RetryCount (emValues m') = RetryCount (emValues m) + int k \<and> RetryCount (emValues m) + int k \<le> hoMaxRetry opts"
    using assms(1)
  proof induction
    case first
    then show ?case using assms(3) by simp
  next
    case (again k m1 w r w1 e grp consumer)
    let ?n = "RetryCount (emValues m1)"
    have n: "0 \<le> ?n" "?n \<le> hoMaxRetry opts" using again.IH assms(2) by auto
    have le: "wrap64 (?n + 1) \<le> hoMaxRetry opts" using HandleMessage_requeued(1) [OF again.hyps(2,3)] .
    have w: "RetryCount (fromRedis (seFields e)) = wrap64 (?n + 1)"
      using copyOf_RetryCount [OF requeued_copy [OF again.hyps(2-6)]] by simp
    show ?case using RetryCount_next [of ?n] n assms(4) w le again.IH by simp
  qed
  moreover have "\<not> rrRequeued (hrRetryResult r)"
    if "RetryCount (emValues m') = hoMaxRetry opts" "HandleMessage m' opts h w = (Inr r, w')"
  proof
    assume "rrRequeued (hrRetryResult r)"
    from HandleMessage_requeued(1) [OF that(2) this] that(1) RetryCount_next [of "hoMaxRetry opts"] assms(2-4)
    show False by auto
  qed
  ultimately show ?thesis by blast
qed

section \<open>Retries behind an idempotency key\<close>

lemma HandleMessage_held:
  assumes "map_of (wkeys w) (hoIdempotencyKey opts) = Some t" "wtime w (wtick w) < t" "hoIdempotencyKey opts \<noteq> []"
    and "wbfault w (wbus w) = None"
  shows "\<exists>w1. HandleMessage msg opts h w = skipDuplicate msg opts w1"
proof -
  have "\<exists>w1. AcquireIdempotency (hoIdempotencyKey opts) (hoIdempotencyTTL opts) w = (Inr False, w1)"
    using assms by (simp add: AcquireIdempotency_def busCmd_ok setnx_def Let_def)
  then show ?thesis using assms(3) by (auto simp: HandleMessage_def bindM_def)
qed

lemma anyToString_option: "anyToString x = (case map_option sprintAny x of None \<Rightarrow> [] | Some s \<Rightarrow> s)"
  by (cases x) simp_all

text \<open>Decoding looks at the texts of the event's fields only.\<close>

lemma DecodeEvent_cong:
  assumes "\<And>k. k \<notin> {''retry_count'', ''last_error'', ''dlq_reason''} \<Longrightarrow>
    map_option sprintAny (map_of (emValues m) k) = map_option sprintAny (map_of (emValues m') k)"
  shows "DecodeEvent m = DecodeEvent m'"
proof -
  have f: "map_option sprintAny (map_of (emValues m) k) = map_option sprintAny (map_of (emValues m') k)"
    if "k \<in> {FieldEventID, FieldEventType, FieldEventStream, FieldEventCreatedAt, FieldEventPublishedAt,
      FieldEventPayload, FieldEventSignature}" for k using that by (intro assms) (auto simp: field_defs)
  have a: "anyToString (map_of (emValues m) k) = anyToString (map_of (emValues m') k)"
    if "k \<in> {FieldEventID, FieldEventType, FieldEventStream, FieldEventCreatedAt, FieldEventPublishedAt,
      FieldEventPayload, FieldEventSignature}" for k unfolding anyToString_option f [OF that] ..
  have p: "map_of (emValues m) FieldEventPayload = None \<and> map_of (emValues m') FieldEventPayload = None
    \<or> (\<exists>v v'. map_of (emValues m) FieldEventPayload = Some v \<and> map_of (emValues m') FieldEventPayload = Some v'
        \<and> sprintAny v = sprintAny v')"
    using f [of FieldEventPayload]
    by (cases "map_of (emValues m) FieldEventPayload"; cases "map_of (emValues m') FieldEventPayload") auto
  show ?thesis
    unfolding DecodeEvent_def Let_def RetryCount_version a [of FieldEventID, simplified] a [of FieldEventType, simplified]
      a [of FieldEventStream, simplified] a [of FieldEventCreatedAt, simplified]
      a [of FieldEventPublishedAt, simplified] a [of FieldEventSignature, simplified]
    using p by (elim disjE exE) (auto split: sum.splits)
qed

lemma DecodeEvent_copy:
  assumes "copyOf (emValues m) n (seFields e)"
  shows "DecodeEvent (messageFromRedis s g c i (seFields e)) = DecodeEvent m"
  using assms by (intro DecodeEvent_cong) (simp add: copyOf_def option.map_comp comp_def option.map_ident)

lemma processMessage_keys:
  assumes "processMessage msg opts (dlqFor msg opts) h w = (Inr r, w')" "keeps (\<lambda>w w'. wkeys w' = wkeys w) (h msg)"
  shows "wkeys w' = wkeys w"
  using processMessage_Inr [OF assms(1)] keepsD [OF assms(2)] by auto

text \<open>C15: A retry behind the idempotency key of the event is lost. If HandleMessage, called with the key
  BuildIdempotencyKey makes of a message with an event identifier, requeues the message after its
  handler failed, then the copy it put on the stream has the same key, and as long as the key has not
  expired, handling the copy (in any later world without a fault of the bus, with whatever handler)
  acknowledges it as a duplicate without calling the handler: the key was taken before the handler
  failed and is not given back.\<close>

theorem retry_is_skipped:
  assumes "HandleMessage msg opts h w = (Inr r, w1)" "rrRequeued (hrRetryResult r)"
    and "hoIdempotencyKey opts = BuildIdempotencyKey msg" "DecodeEvent msg = Inr ev" "beID ev \<noteq> []"
    and "keeps (\<lambda>w w'. wkeys w' = wkeys w) (h msg)"
    and "distinct (map seID (bsEntries (streamOf (emStream msg) w1)))"
  shows "\<exists>e \<in> set (bsEntries (streamOf (emStream msg) w1)). \<exists>expires.
    let msg' = messageFromRedis (emStream msg) (emGroup msg) consumer (seID e) (seFields e) in
      seID e = rrMessageID (hrRetryResult r) \<and> BuildIdempotencyKey msg' = BuildIdempotencyKey msg
      \<and> map_of (wkeys w1) (BuildIdempotencyKey msg') = Some expires
      \<and> (wkeys w2 = wkeys w1 \<and> wtime w2 (wtick w2) < expires \<and> wbfault w2 (wbus w2) = None \<longrightarrow>
          (\<exists>w3. HandleMessage msg' opts h' w2 = skipDuplicate msg' opts w3))"
proof -
  let ?key = "BuildIdempotencyKey msg"
  have key: "?key \<noteq> []" by (simp add: BuildIdempotencyKey_def Let_def)
  obtain b w0 where b: "AcquireIdempotency ?key (hoIdempotencyTTL opts) w = (Inr b, w0)"
    and k: "(if \<not> b then skipDuplicate msg opts else processMessage msg opts (dlqFor msg opts) h) w0 = (Inr r, w1)"
    using assms(1,3) key by (auto simp: HandleMessage_def Let_def dlqFor_def [symmetric] bindM_Inr)
  have b': b using k assms(2) skipDuplicate_Inr [of msg opts w0 r w1] by (cases b) (auto simp: noRetry_def)
  then have p: "processMessage msg opts (dlqFor msg opts) h w0 = (Inr r, w1)" using k by simp
  obtain expires where ex: "map_of (wkeys w1) ?key = Some expires"
    using AcquireIdempotency_Inr [OF b] b' processMessage_keys [OF p assms(6)] by (auto simp: Let_def)
  obtain e where e: "e \<in> set (bsEntries (streamOf (emStream msg) w1))" "seID e = rrMessageID (hrRetryResult r)"
    using HandleMessage_requeued(2) [OF assms(1,2)] by (auto simp: storedAs_def)
  let ?m = "messageFromRedis (emStream msg) (emGroup msg) consumer (seID e) (seFields e)"
  have "DecodeEvent ?m = Inr ev"
    using DecodeEvent_copy [OF requeued_copy [OF assms(1,2) e assms(7)]] assms(4) by simp
  then have bk: "BuildIdempotencyKey ?m = ?key"
    using assms(4,5) by (simp add: BuildIdempotencyKey_def messageFromRedis_def)
  have "\<exists>w3. HandleMessage ?m opts h' w2 = skipDuplicate ?m opts w3"
    if "wkeys w2 = wkeys w1" "wtime w2 (wtick w2) < expires" "wbfault w2 (wbus w2) = None"
    using that ex key assms(3) by (intro HandleMessage_held) auto
  then show ?thesis using e bk ex unfolding Let_def by (intro bexI [OF _ e(1)] exI [of _ expires]) simp
qed

section \<open>A sample bus\<close>

text \<open>A world with an empty database and no streams; a message that carries a stock event, and a
  handler that fails transiently.\<close>

definition idleWorld :: world where
  "idleWorld = \<lparr>wdb = \<lparr>dbUsers = [], dbWarehouses = [], dbCategories = [], dbProducts = [], dbBalances = [],
      dbMovements = [], dbLines = [], dbOutbox = [], dbAudit = []\<rparr>, wtx = None, wcache = [], wredis = True,
     wpub = [], wseq = 1, wstmt = 0, wfault = (\<lambda>_. None), wcmd = 0, wcfault = (\<lambda>_. None), wtick = 0,
     wtime = (\<lambda>n. 1000000 * int n), wfresh = 0, wuuid = natDigits, wcoll = (\<lambda>s. s), wsha = (\<lambda>s. s),
     wjsonb = (\<lambda>s. s), wstreams = [], wkeys = [], wbus = 0, wbfault = (\<lambda>_. None), wxadd = 0,
     wxid = (\<lambda>n. natDigits n @ ''-0'')\<rparr>"

definition sampleFields :: "(string \<times> string) list" where
  "sampleFields = [(FieldEventID, ''outbox:7''), (FieldEventType, ''StockChanged''), (FieldEventPayload, ''{}'')]"

definition sampleMsg :: EventMessage where
  "sampleMsg = messageFromRedis ''inventory.events'' ''alerts'' ''c1'' ''7-0'' sampleFields"

definition failTransient :: "EventMessage \<Rightarrow> unit app" where
  "failTransient m = throw (Transient (Raw ''mail server down''))"

definition sampleOptions :: HandleOptions where
  "sampleOptions = \<lparr>hoIdempotencyKey = BuildIdempotencyKey sampleMsg, hoIdempotencyTTL = 0, hoMaxRetry = 3,
     hoDLQStream = [], hoOnDuplicate = None\<rparr>"

definition sampleHandled :: "(err + HandleResult) \<times> world" where
  "sampleHandled = HandleMessage sampleMsg sampleOptions failTransient idleWorld"

lemma sample_handled:
  "map_sum id (\<lambda>r. (hrSkipped r, rrRequeued (hrRetryResult r), rrMessageID (hrRetryResult r))) (fst sampleHandled)
     = Inr (False, True, ''0-0'')"
  "map seID (bsEntries (streamOf ''inventory.events'' (snd sampleHandled))) = [''0-0'']"
  "map_sum id beID (DecodeEvent sampleMsg) = Inr ''outbox:7''"
  "map_of (wkeys (snd sampleHandled)) (BuildIdempotencyKey sampleMsg) = Some 86400000000"
  "wtime (snd sampleHandled) (wtick (snd sampleHandled)) < 86400000000"
  "wbfault (snd sampleHandled) (wbus (snd sampleHandled)) = None"
  "RetryCount (emValues sampleMsg) = 0" "emStream sampleMsg = ''inventory.events''"
  by code_simp+

lemma sample_run:
  obtains r where "HandleMessage sampleMsg sampleOptions failTransient idleWorld = (Inr r, snd sampleHandled)"
    "\<not> hrSkipped r" "rrRequeued (hrRetryResult r)" "rrMessageID (hrRetryResult r) = ''0-0''"
proof -
  obtain r where "fst sampleHandled = Inr r" using sample_handled(1) by (cases "fst sampleHandled") auto
  then show thesis using that [of r] sample_handled(1) by (simp add: sampleHandled_def) (metis prod.collapse)
qed

theorem handle_message_outcome_witness:
  "\<exists>i. storedAs (snd sampleHandled) ''inventory.events'' i (emValues sampleMsg) 1"
proof -
  obtain r where r: "HandleMessage sampleMsg sampleOptions failTransient idleWorld = (Inr r, snd sampleHandled)"
    "\<not> hrSkipped r" "rrRequeued (hrRetryResult r)" by (rule sample_run)
  obtain hr where "processed sampleMsg sampleOptions hr (hrRetryResult r) (snd sampleHandled)"
    using handle_message_outcome [OF r(1)] r(2) by auto
  then show ?thesis using r(3) sample_handled(7,8)
    by (auto simp: processed_def Let_def noRetry_def is_int64_def split: sum.splits if_splits)
qed

theorem retries_bounded_witness:
  "\<exists>m'. retried sampleOptions failTransient sampleMsg 1 m' \<and> RetryCount (emValues m') = 1"
proof -
  obtain r where r: "HandleMessage sampleMsg sampleOptions failTransient idleWorld = (Inr r, snd sampleHandled)"
    "rrRequeued (hrRetryResult r)" "rrMessageID (hrRetryResult r) = ''0-0''" by (rule sample_run)
  obtain e where e: "bsEntries (streamOf (emStream sampleMsg) (snd sampleHandled)) = [e]" "seID e = ''0-0''"
    using sample_handled(2,8) by auto
  have "retried sampleOptions failTransient sampleMsg (Suc 0) (messageFromRedis (emStream sampleMsg) [] [] (seID e) (seFields e))"
    using e r(3) by (intro retried.again [OF retried.first r(1,2)]) auto
  moreover have "hoMaxRetry sampleOptions = 3" by (simp add: sampleOptions_def)
  ultimately show ?thesis using retries_bounded [of sampleOptions failTransient sampleMsg "Suc 0"] sample_handled(7)
    by fastforce
qed

theorem retry_is_skipped_witness:
  "\<exists>m w. HandleMessage m sampleOptions (\<lambda>_. ret ()) (snd sampleHandled) = skipDuplicate m sampleOptions w"
proof -
  obtain r where r: "HandleMessage sampleMsg sampleOptions failTransient idleWorld = (Inr r, snd sampleHandled)"
    "rrRequeued (hrRetryResult r)" by (rule sample_run)
  obtain ev where ev: "DecodeEvent sampleMsg = Inr ev" "beID ev \<noteq> []"
    using sample_handled(3) by (cases "DecodeEvent sampleMsg") auto
  have k: "keeps (\<lambda>w w'. wkeys w' = wkeys w) (failTransient sampleMsg)"
    by (simp add: keeps_def failTransient_def throw_def)
  have d: "distinct (map seID (bsEntries (streamOf (emStream sampleMsg) (snd sampleHandled))))"
    using sample_handled(2,8) by simp
  have o: "hoIdempotencyKey sampleOptions = BuildIdempotencyKey sampleMsg" by (simp add: sampleOptions_def)
  from retry_is_skipped [OF r o ev k d, of "[]" "snd sampleHandled" "\<lambda>_. ret ()"] sample_handled(4-6)
  show ?thesis by (auto simp: Let_def)
qed

end
