(* ===== verification/Workers.thy ===== *)
theory Workers
  imports Bus_Laws
begin

text \<open>
  The background workers: the outbox relay (src/workers/internal/outboxrelay/relay.go), which signs
  unpublished outbox rows and puts them on the stream inventory.events; the alert consumer
  (src/pkg/alertworker/worker.go), which reads that stream as a member of a consumer group, verifies
  and dispatches; and the dispatcher of the notification service
  (src/services/notification/service/dispatch.go). The argument hmac is the hex digest of
  HMAC-SHA256, render the text in which PostgreSQL returns a jsonb value, zone the offset in minutes of the
  location of the process at a time, locked k the rows other workers hold in a round. The endless loops take the number of rounds after which the
  context is found cancelled; waiting has no effect on the state and is left out.
\<close>

section \<open>Outbox relay\<close>

text \<open>Durations are in nanoseconds.\<close>

record RelayConfig =
  rcPollInterval :: int
  rcBatchSize :: int
  rcMinBackoff :: int
  rcMaxBackoff :: int

definition DefaultConfig :: RelayConfig where
  "DefaultConfig = \<lparr>rcPollInterval = 500000000, rcBatchSize = 100, rcMinBackoff = 200000000,
     rcMaxBackoff = 30000000000\<rparr>"

record Runner =
  rnSecret :: string
  rnConfig :: RelayConfig

definition rowTime :: "(int \<Rightarrow> int) \<Rightarrow> int \<Rightarrow> GoTime" where
  "rowTime zone t = \<lparr>gtNanos = 1000 * t, gtOffset = zone t\<rparr>"

definition publishOne ::
  "(string \<Rightarrow> string \<Rightarrow> string) \<Rightarrow> (jval \<Rightarrow> string) \<Rightarrow> (int \<Rightarrow> int) \<Rightarrow> string \<Rightarrow> OutboxRow \<Rightarrow> unit app" where
  "publishOne hmac render zone secret row =
    (if secret = [] then throw (Raw ''outboxrelay: EVENTBUS_HMAC_SECRET is required'')
     else bindM (if IsZero (rowTime zone (orCreatedAt row)) then nowGo else ret (rowTime zone (orCreatedAt row))) (\<lambda>created.
       bindM nowGo (\<lambda>pubAt.
       let ev = \<lparr>beID = ''outbox:'' @ Itoa (orID row), beType = orEventType row, beVersion = 1,
                 beStream = DefaultInventoryStream, beCreatedAt = created, bePublishedAt = pubAt,
                 bePayload = render (orPayload row), beSignature = []\<rparr>
       in bindM (liftE (SignEvent hmac secret ev)) (\<lambda>sig.
          bindM (PublishEvent (ev\<lparr>beSignature := sig\<rparr>)) (\<lambda>_. ret ())))))"

text \<open>rnd is the source of rand.Int63n, which panics when its argument is not positive.\<close>

definition jitterDuration :: "(int \<Rightarrow> int) \<Rightarrow> int \<Rightarrow> err + int" where
  "jitterDuration rnd d =
    (if d \<le> 0 then Inr d
     else if d div 4 \<le> 0 then Inl (Panic ''invalid argument to Int63n'')
     else Inr (wrap64 (d + rnd (d div 4) mod (d div 4))))"

definition nextBackoff :: "int \<Rightarrow> int \<Rightarrow> int" where
  "nextBackoff maxB backoff = (let b = wrap64 (backoff * 2) in if b > maxB then maxB else b)"

definition relayDefaults :: "RelayConfig \<Rightarrow> RelayConfig" where
  "relayDefaults cfg = cfg\<lparr>rcBatchSize := (if rcBatchSize cfg \<le> 0 then 100 else rcBatchSize cfg),
     rcPollInterval := (if rcPollInterval cfg \<le> 0 then 500000000 else rcPollInterval cfg),
     rcMinBackoff := (if rcMinBackoff cfg \<le> 0 then 200000000 else rcMinBackoff cfg),
     rcMaxBackoff := (if rcMaxBackoff cfg \<le> 0 then 30000000000 else rcMaxBackoff cfg)\<rparr>"

definition ctxCanceled :: err where
  "ctxCanceled = Raw ''context canceled''"

fun relayRounds :: "(nat \<Rightarrow> int \<Rightarrow> bool) \<Rightarrow> (OutboxRow \<Rightarrow> unit app) \<Rightarrow> (int \<Rightarrow> int) \<Rightarrow> RelayConfig \<Rightarrow> nat \<Rightarrow> int \<Rightarrow> unit app" where
  "relayRounds locked publish rnd cfg 0 backoff = throw ctxCanceled"
| "relayRounds locked publish rnd cfg (Suc k) backoff =
    bindM (RelayPublishBatch (locked k) (rcBatchSize cfg) publish) (\<lambda>(n, e). case e of
      Some _ \<Rightarrow> bindM (liftE (jitterDuration rnd backoff)) (\<lambda>_.
        relayRounds locked publish rnd cfg k (nextBackoff (rcMaxBackoff cfg) backoff))
    | None \<Rightarrow> relayRounds locked publish rnd cfg k (rcMinBackoff cfg))"

definition relayRun ::
  "(string \<Rightarrow> string \<Rightarrow> string) \<Rightarrow> (jval \<Rightarrow> string) \<Rightarrow> (int \<Rightarrow> int) \<Rightarrow> (nat \<Rightarrow> int \<Rightarrow> bool) \<Rightarrow> (int \<Rightarrow> int) \<Rightarrow> Runner \<Rightarrow> nat \<Rightarrow> unit app" where
  "relayRun hmac render zone locked rnd r rounds =
    (let cfg = relayDefaults (rnConfig r)
     in relayRounds locked (publishOne hmac render zone (rnSecret r)) rnd cfg rounds (rcMinBackoff cfg))"

section \<open>Alert consumer\<close>

record AlertConfig =
  acConsumerName :: string
  acGroup :: string
  acBlock :: int
  acBatch :: int

definition defaultCfg :: "AlertConfig \<Rightarrow> AlertConfig" where
  "defaultCfg c = c\<lparr>acGroup := (if acGroup c = [] then DefaultAlertsGroup else acGroup c),
     acConsumerName := (if acConsumerName c = [] then ''worker-alerts-1'' else acConsumerName c),
     acBlock := (if acBlock c \<le> 0 then 5000000000 else acBlock c),
     acBatch := (if acBatch c \<le> 0 then 10 else acBatch c)\<rparr>"

type_synonym handler = "BaseEvent \<Rightarrow> unit app"

text \<open>One message: what cannot be decoded or verified, or whose handler fails, is passed over.\<close>

definition handleAlert :: "(string \<Rightarrow> string \<Rightarrow> string) \<Rightarrow> string \<Rightarrow> handler option \<Rightarrow> EventMessage \<Rightarrow> unit app" where
  "handleAlert hmac secret h msg =
    (case DecodeEvent msg of
       Inl _ \<Rightarrow> ret ()
     | Inr ev \<Rightarrow>
        if VerifyEvent hmac secret ev \<noteq> Inr True then ret ()
        else bindM (case h of None \<Rightarrow> ret (Inr ()) | Some f \<Rightarrow> tryM (f ev)) (\<lambda>r. case r of
            Inl _ \<Rightarrow> ret ()
          | Inr _ \<Rightarrow> ignoreErr (ackMsg msg)))"

definition alertRound :: "(string \<Rightarrow> string \<Rightarrow> string) \<Rightarrow> string \<Rightarrow> handler option \<Rightarrow> AlertConfig \<Rightarrow> unit app" where
  "alertRound hmac secret h cfg =
    bindM (ReadGroup DefaultInventoryStream (acGroup cfg) (acConsumerName cfg) (acBatch cfg)) (\<lambda>msgs.
    forM msgs (handleAlert hmac secret h))"

fun alertRounds :: "(string \<Rightarrow> string \<Rightarrow> string) \<Rightarrow> string \<Rightarrow> handler option \<Rightarrow> AlertConfig \<Rightarrow> nat \<Rightarrow> unit app" where
  "alertRounds hmac secret h cfg 0 = throw ctxCanceled"
| "alertRounds hmac secret h cfg (Suc k) =
    bindM (alertRound hmac secret h cfg) (\<lambda>_. alertRounds hmac secret h cfg k)"

definition alertRun :: "(string \<Rightarrow> string \<Rightarrow> string) \<Rightarrow> string \<Rightarrow> handler option \<Rightarrow> AlertConfig \<Rightarrow> nat \<Rightarrow> unit app" where
  "alertRun hmac secret h cfg0 rounds =
    (let cfg = defaultCfg cfg0
     in bindM (EnsureGroup DefaultInventoryStream (acGroup cfg)) (\<lambda>_.
        alertRounds hmac secret h cfg rounds))"

definition StubHandler :: handler where
  "StubHandler ev = ret ()"

section \<open>Dispatcher\<close>

record StockBelowThresholdPayload =
  sbtTenantID :: string
  sbtWarehouseID :: string
  sbtProductID :: string
  sbtCurrentQty :: int
  sbtReorderLevel :: int

text \<open>The dispatcher with what it calls: decode is json.Unmarshal into the payload, request the result
  of http.NewRequestWithContext for the URL, post the call of the webhook with a body.\<close>

record Dispatcher =
  dpWebhookURL :: string
  dpDecode :: "string \<Rightarrow> err + StockBelowThresholdPayload"
  dpRequest :: "string \<Rightarrow> err option"
  dpPost :: "string \<Rightarrow> jval \<Rightarrow> int app"

definition webhookBody :: "BaseEvent \<Rightarrow> StockBelowThresholdPayload \<Rightarrow> jval" where
  "webhookBody ev p = JObj [(''event_id'', JStr (beID ev)), (''event_type'', JStr (beType ev)),
     (''tenant_id'', JStr (sbtTenantID p)), (''warehouse_id'', JStr (sbtWarehouseID p)),
     (''product_id'', JStr (sbtProductID p)), (''current_qty'', JInt (sbtCurrentQty p)),
     (''reorder_level'', JInt (sbtReorderLevel p))]"

definition handleStockBelowThreshold :: "Dispatcher \<Rightarrow> handler" where
  "handleStockBelowThreshold d ev =
    (case dpDecode d (bePayload ev) of
       Inl e \<Rightarrow> throw (Wrap (''dispatch StockBelowThreshold: '' @ errorText e) e)
     | Inr p \<Rightarrow>
        if dpWebhookURL d = [] then ret ()
        else (case dpRequest d (dpWebhookURL d) of
            Some e \<Rightarrow> throw e
          | None \<Rightarrow> ignoreErr (dpPost d (dpWebhookURL d) (webhookBody ev p))))"

definition dispatchHandle :: "Dispatcher \<Rightarrow> handler" where
  "dispatchHandle d ev =
    (if beType ev = ''StockBelowThreshold'' then handleStockBelowThreshold d ev else ret ())"

end
