(* ===== verification/Worker_Laws.thy ===== *)
theory Worker_Laws
  imports Workers
begin

text \<open>
  What the workers promise together. A row of the outbox that is marked published is on the stream as
  an event that every consumer decodes and verifies (at least once); without faults a batch
  publishes the oldest rows in order; and a consumer group hands every entry to its handler at most
  once (src/workers/internal/outboxrelay, src/pkg/alertworker, src/pkg/eventbus).
\<close>

section \<open>Streams only grow\<close>

definition streamGrows :: "world \<Rightarrow> world \<Rightarrow> bool" where
  "streamGrows w w' \<longleftrightarrow> (\<forall>s. \<exists>es. bsEntries (streamOf s w') = bsEntries (streamOf s w) @ es)
     \<and> (\<forall>s g x. groupOf g (streamOf s w) = Some x \<longrightarrow>
          (\<exists>x'. groupOf g (streamOf s w') = Some x' \<and> gsNext x \<le> gsNext x'))"

lemma streamGrows_refl: "streamGrows w w"
  by (simp add: streamGrows_def)

lemma streamGrows_trans: "streamGrows a b \<Longrightarrow> streamGrows b c \<Longrightarrow> streamGrows a c"
proof -
  assume g: "streamGrows a b" "streamGrows b c"
  have "\<exists>es. bsEntries (streamOf s c) = bsEntries (streamOf s a) @ es" for s
  proof -
    obtain e1 e2 where "bsEntries (streamOf s b) = bsEntries (streamOf s a) @ e1"
      "bsEntries (streamOf s c) = bsEntries (streamOf s b) @ e2" using g unfolding streamGrows_def by blast
    then show ?thesis by simp
  qed
  moreover have "\<exists>x'. groupOf g (streamOf s c) = Some x' \<and> gsNext x \<le> gsNext x'"
    if x: "groupOf g (streamOf s a) = Some x" for s g x
  proof -
    obtain y where y: "groupOf g (streamOf s b) = Some y" "gsNext x \<le> gsNext y"
      using g(1) x unfolding streamGrows_def by blast
    then obtain z where "groupOf g (streamOf s c) = Some z" "gsNext y \<le> gsNext z"
      using g(2) unfolding streamGrows_def by blast
    with y show ?thesis by auto
  qed
  ultimately show ?thesis by (simp add: streamGrows_def)
qed

lemma streamGrows_same: "wstreams w' = wstreams w \<Longrightarrow> streamGrows w w'"
  by (simp add: streamGrows_def streamOf_def)

interpretation grow: effect streamGrows
  by unfold_locales (fact streamGrows_refl, rule streamGrows_trans)

lemma grow_cmd: "(\<And>w. streamGrows w (snd (f w))) \<Longrightarrow> keeps streamGrows (busCmd f)"
  by (rule busCmd_keeps) (auto intro: streamGrows_same streamGrows_trans)

lemma grow_upd:
  assumes "\<And>b. bsName (f b) = bsName b" "\<And>b. \<exists>es. bsEntries (f b) = bsEntries b @ es"
    and "\<And>b g x. groupOf g b = Some x \<Longrightarrow> \<exists>x'. groupOf g (f b) = Some x' \<and> gsNext x \<le> gsNext x'"
  shows "streamGrows w (updStream s f w)"
  using assms unfolding streamGrows_def by (auto simp: streamOf_upd)

lemma grow_xadd: "streamGrows w (snd (xadd s vals w))"
proof -
  have "streamGrows w (updStream s (\<lambda>b. b\<lparr>bsEntries := bsEntries b @ [e]\<rparr>) w)" for e
    by (rule grow_upd) (auto simp: groupOf_def)
  then show ?thesis unfolding xadd_def Let_def snd_conv by (rule streamGrows_trans [OF _ streamGrows_same]) simp
qed

lemma grow_xgroup: "streamGrows w (snd (xgroupCreate s g w))"
proof -
  have "streamGrows w (updStream s (\<lambda>b. b\<lparr>bsGroups := bsGroups b @ [e]\<rparr>) w)" for e
    by (rule grow_upd) (auto simp: groupOf_def find_snoc)
  then show ?thesis by (auto simp: xgroupCreate_def streamGrows_refl split: option.splits)
qed

lemma grow_group:
  "(\<And>x. gsName (f x) = gsName x \<and> gsNext x \<le> gsNext (f x)) \<Longrightarrow> streamGrows w (updStream s (updGroup g f) w)"
  by (rule grow_upd) auto

lemma grow_xread: "streamGrows w (snd (xreadgroup s g n w))"
  by (auto simp: xreadgroup_def Let_def streamGrows_refl intro!: grow_group split: option.splits)

lemma grow_xack: "streamGrows w (snd (xack s g ids w))"
  by (auto simp: xack_def streamGrows_refl intro!: grow_group)

lemma grow_setnx: "streamGrows w (snd (setnx k t w))"
  by (auto simp: setnx_def Let_def intro: streamGrows_same split: option.splits)

lemma grow_now: "keeps streamGrows nowUTC" "keeps streamGrows nowGo"
proof -
  show n: "keeps streamGrows nowUTC" by (simp add: keeps_def nowUTC_def streamGrows_same)
  then show "keeps streamGrows nowGo" unfolding nowGo_def by (intro grow.keeps_rules)
qed

lemma grow_client:
  "keeps streamGrows (Publish s vals)" "keeps streamGrows (Ack s g ids)"
  "keeps streamGrows (ReadGroup s g c n)" "keeps streamGrows (EnsureGroup s g)"
  "keeps streamGrows (AcquireIdempotency k t)"
  unfolding Publish_def Ack_def ReadGroup_def EnsureGroup_def AcquireIdempotency_def Let_def
  by (intro grow.keeps_rules grow_cmd grow_xadd grow_xgroup grow_xread grow_xack grow_setnx)+

lemma grow_ops:
  "keeps streamGrows (PublishEvent ev)" "keeps streamGrows (ackMsg m)"
  "keeps streamGrows (RequeueOrDLQ s d vals k e)" "keeps streamGrows (MoveToDLQ d vals e)"
  unfolding PublishEvent_def ackMsg_def RequeueOrDLQ_def MoveToDLQ_def Let_def
  by (intro grow.keeps_rules grow_client grow_now)+

lemma grow_handle:
  assumes "\<And>m. keeps streamGrows (h m)" "\<And>f m. hoOnDuplicate opts = Some f \<Longrightarrow> keeps streamGrows (f m)"
  shows "keeps streamGrows (HandleMessage msg opts h)"
  unfolding HandleMessage_def skipDuplicate_def processMessage_def Let_def
  by (intro grow.keeps_rules grow_ops grow_client assms)

lemma grow_publishOne: "keeps streamGrows (publishOne hmac render zone secret row)"
  unfolding publishOne_def Let_def by (intro grow.keeps_rules grow_ops grow_now)

lemma grow_runStmt: "keeps streamGrows (runStmt h f)"
  by (cases h) (auto simp: keeps_def runStmt_def Let_def intro!: streamGrows_same split: option.splits sum.splits)

lemma grow_stmt: "keeps streamGrows (runStmt h f)" "keeps streamGrows (firstStmt h q)"
  unfolding firstStmt_def by (rule grow_runStmt)+

lemma streamGrows_db:
  "streamGrows (w\<lparr>wstmt := n, wtx := t\<rparr>) w' \<Longrightarrow> streamGrows w w'"
  "streamGrows w w' \<Longrightarrow> streamGrows w (w'\<lparr>wtx := t\<rparr>)"
  "streamGrows w w' \<Longrightarrow> streamGrows w (w'\<lparr>wstmt := n, wtx := t\<rparr>)"
  "streamGrows w w' \<Longrightarrow> streamGrows w (w'\<lparr>wstmt := n, wtx := t, wdb := d\<rparr>)"
  by (simp_all add: streamGrows_def streamOf_def)

lemma grow_RunInTx: "(\<And>c. keeps streamGrows (fn c)) \<Longrightarrow> keeps streamGrows (RunInTx c fn)"
  by (auto simp: keeps_def RunInTx_def Let_def streamGrows_same split: option.splits prod.splits sum.splits
      intro!: streamGrows_db(2-4)) (metis snd_conv streamGrows_db(1))+

lemma grow_relay:
  assumes "\<And>row. keeps streamGrows (publish row)"
  shows "keeps streamGrows (RelayPublishBatch locked n publish)"
proof -
  have "keeps streamGrows (relayLoop locked publish k m)" for k m
    using assms by (induction k arbitrary: m)
      (auto simp: relayOne_def Let_def intro!: grow.keeps_rules grow_RunInTx grow_stmt grow_now)
  then show ?thesis by (simp add: RelayPublishBatch_def Let_def)
qed

section \<open>The relay\<close>

subsection \<open>What an entry carries\<close>

definition decodeEntry :: "streamEntry \<Rightarrow> err + BaseEvent" where
  "decodeEntry x = DecodeEvent (messageFromRedis DefaultInventoryStream [] [] (seID x) (seFields x))"

text \<open>The entry is the event of an outbox row, and verifies under the key.\<close>

definition carries :: "(string \<Rightarrow> string \<Rightarrow> string) \<Rightarrow> (jval \<Rightarrow> string) \<Rightarrow> (int \<Rightarrow> int) \<Rightarrow> string \<Rightarrow> OutboxRow \<Rightarrow> streamEntry \<Rightarrow> bool" where
  "carries hmac render zone secret row x \<longleftrightarrow> (case decodeEntry x of
     Inl _ \<Rightarrow> False
   | Inr ev \<Rightarrow> VerifyEvent hmac secret ev = Inr True \<and> beID ev = ''outbox:'' @ Itoa (orID row)
       \<and> beType ev = orEventType row \<and> beStream ev = DefaultInventoryStream
       \<and> bePayload ev = render (orPayload row) \<and> beCreatedAt ev = rowTime zone (orCreatedAt row))"

definition goodTime :: "GoTime \<Rightarrow> bool" where
  "goodTime t \<longleftrightarrow> timeInRange t \<and> \<not> IsZero t"

text \<open>The clock of a world shows times an event can carry.\<close>

definition goodClock :: "world \<Rightarrow> bool" where
  "goodClock w \<longleftrightarrow> (\<forall>n. goodTime \<lparr>gtNanos = 1000 * wtime w n, gtOffset = 0\<rparr>)"

lemma decode_reader:
  "DecodeEvent (messageFromRedis s g c i (seFields x)) = decodeEntry x"
  unfolding decodeEntry_def by (rule DecodeEvent_cong) simp

lemma PublishEvent_Inr:
  assumes "PublishEvent ev w = (Inr i, w')" "completeEvent ev"
  shows "\<exists>vals. ToValues (beCreatedAt ev) ev = Inr vals \<and> Publish (beStream ev) vals w = (Inr i, w')"
  using assms by (auto simp: PublishEvent_def completeEvent_def bindM_Inr Let_def split: if_splits)

lemma publishOne_Inr:
  assumes "publishOne hmac render zone secret row w = (Inr u, w')" "goodClock w"
    and "goodTime (rowTime zone (orCreatedAt row))" "\<forall>x. hmac secret x \<noteq> []"
  shows "\<exists>x. bsEntries (streamOf DefaultInventoryStream w') = bsEntries (streamOf DefaultInventoryStream w) @ [x]
    \<and> carries hmac render zone secret row x \<and> wtime w' = wtime w"
proof -
  let ?c = "rowTime zone (orCreatedAt row)"
  let ?p = "\<lparr>gtNanos = 1000 * wtime w (wtick w), gtOffset = 0\<rparr>"
  let ?ev = "\<lparr>beID = ''outbox:'' @ Itoa (orID row), beType = orEventType row, beVersion = 1,
    beStream = DefaultInventoryStream, beCreatedAt = ?c, bePublishedAt = ?p, bePayload = render (orPayload row), beSignature = []\<rparr>"
  from assms(1,3) obtain sig i where sig: "SignEvent hmac secret ?ev = Inr sig"
    and pub: "PublishEvent (?ev\<lparr>beSignature := sig\<rparr>) (w\<lparr>wtick := Suc (wtick w)\<rparr>) = (Inr i, w')"
    by (auto simp: publishOne_def goodTime_def nowGo_def bindM_Inr Let_def split: if_splits)
  let ?e = "?ev\<lparr>beSignature := sig\<rparr>"
  have c: "completeEvent ?e" using assms(2,3) by (simp add: completeEvent_def goodTime_def goodClock_def)
  then have d: "withDefaults (beCreatedAt ?e) ?e = ?e" by (rule complete_defaults)
  from PublishEvent_Inr [OF pub c] obtain vals where v: "ToValues (beCreatedAt ?e) ?e = Inr vals"
    and p: "Publish DefaultInventoryStream vals (w\<lparr>wtick := Suc (wtick w)\<rparr>) = (Inr i, w')" by auto
  have r: "timeInRange (beCreatedAt (withDefaults (beCreatedAt ?e) ?e))" "timeInRange (bePublishedAt (withDefaults (beCreatedAt ?e) ?e))"
    unfolding d using c by (simp_all add: completeEvent_def)
  let ?x = "\<lparr>seID = i, seFields = asRedis vals\<rparr>"
  have "decodeEntry ?x = Inr ?e"
    using decode_values [OF v r, of "messageFromRedis DefaultInventoryStream [] [] i (asRedis vals)"] unfolding d
    by (simp add: decodeEntry_def)
  moreover have "VerifyEvent hmac secret ?e = Inr True"
  proof -
    have "sig \<noteq> []" using SignEvent_canonical [OF sig] assms(4) by auto
    then show ?thesis by (rule Verify_signed [OF sig])
  qed
  ultimately have "carries hmac render zone secret row ?x" by (simp add: carries_def)
  then show ?thesis using Publish_Inr [OF p] by (intro exI [of _ ?x]) auto
qed

lemma publishOne_db: "keeps sameDB (publishOne hmac render zone secret row)"
proof -
  have cmd: "keeps sameDB (busCmd (xadd s vals))" for s vals
    by (rule busCmd_keeps) (auto simp: sameDB_def xadd_def Let_def updStream_def)
  have go: "keeps sameDB nowGo" unfolding nowGo_def by (intro dbs.keeps_rules keeps_now)
  have "keeps sameDB (PublishEvent ev)" for ev
    unfolding PublishEvent_def Publish_def Let_def by (intro dbs.keeps_rules cmd go)
  then show ?thesis unfolding publishOne_def Let_def by (intro dbs.keeps_rules go)
qed

subsection \<open>Published rows are on the stream\<close>

definition relayed :: "(string \<Rightarrow> string \<Rightarrow> string) \<Rightarrow> (jval \<Rightarrow> string) \<Rightarrow> (int \<Rightarrow> int) \<Rightarrow> string \<Rightarrow> world \<Rightarrow> bool" where
  "relayed hmac render zone secret w \<longleftrightarrow> list_all (\<lambda>r. oerPublished r \<longrightarrow>
     list_ex (carries hmac render zone secret (rowToOutbox r)) (bsEntries (streamOf DefaultInventoryStream w)))
     (dbOutbox (wdb w))"

text \<open>What the relay may do to a row: mark it published.\<close>

definition marked :: "outboxEventRow \<Rightarrow> outboxEventRow \<Rightarrow> bool" where
  "marked r r' \<longleftrightarrow> r' = r \<or> (\<not> oerPublished r \<and> (\<exists>t. r' = r\<lparr>oerPublished := True, oerPublishedAt := Some t\<rparr>))"

lemma marked_refl [simp]: "marked r r"
  by (simp add: marked_def)

lemma marked_trans: "marked a b \<Longrightarrow> marked b c \<Longrightarrow> marked a c"
  by (auto simp: marked_def)

lemma marked_fields: "marked r r' \<Longrightarrow> oerID r' = oerID r \<and> oerCreatedAt r' = oerCreatedAt r \<and> rowToOutbox r' = rowToOutbox r"
  by (auto simp: marked_def rowToOutbox_def)

text \<open>The conditions under which the relay works: times an event can carry, rows with their own ids.\<close>

definition relayReady :: "(int \<Rightarrow> int) \<Rightarrow> world \<Rightarrow> bool" where
  "relayReady zone w \<longleftrightarrow> goodClock w \<and> distinct (map oerID (dbOutbox (wdb w)))
     \<and> list_all (\<lambda>r. goodTime (rowTime zone (oerCreatedAt r))) (dbOutbox (wdb w))"

lemma relayReady_marked:
  assumes "relayReady zone w" "list_all2 marked (dbOutbox (wdb w)) (dbOutbox (wdb w'))" "wtime w' = wtime w"
  shows "relayReady zone w'"
proof -
  have "map oerID (dbOutbox (wdb w')) = map oerID (dbOutbox (wdb w))"
    "list_all (\<lambda>r. goodTime (rowTime zone (oerCreatedAt r))) (dbOutbox (wdb w'))
      = list_all (\<lambda>r. goodTime (rowTime zone (oerCreatedAt r))) (dbOutbox (wdb w))"
    using assms(2) by (induction rule: list_all2_induct) (auto dest: marked_fields)
  then show ?thesis using assms(1,3) by (simp add: relayReady_def goodClock_def)
qed

definition relayKeeps :: "(string \<Rightarrow> string \<Rightarrow> string) \<Rightarrow> (jval \<Rightarrow> string) \<Rightarrow> (int \<Rightarrow> int) \<Rightarrow> string \<Rightarrow> world \<Rightarrow> world \<Rightarrow> bool" where
  "relayKeeps hmac render zone secret w w' \<longleftrightarrow> wtime w' = wtime w \<and>
     (relayReady zone w \<longrightarrow> list_all2 marked (dbOutbox (wdb w)) (dbOutbox (wdb w'))
        \<and> (relayed hmac render zone secret w \<longrightarrow> relayed hmac render zone secret w'))"

lemma list_all2_marked_trans:
  "list_all2 marked xs ys \<Longrightarrow> list_all2 marked ys zs \<Longrightarrow> list_all2 marked xs zs"
  by (rule list_all2_trans [where ?P1.0 = marked and ?P2.0 = marked]) (auto intro: marked_trans)

interpretation relay: effect "relayKeeps hmac render zone secret" for hmac render zone secret
proof
  show "relayKeeps hmac render zone secret w w" for w
    by (simp add: relayKeeps_def list_all2_refl)
  show "relayKeeps hmac render zone secret a c"
    if "relayKeeps hmac render zone secret a b" "relayKeeps hmac render zone secret b c" for a b c
    using that relayReady_marked [of zone a b] unfolding relayKeeps_def by (auto intro: list_all2_marked_trans)
qed

lemma relayKeeps_same:
  "wdb w' = wdb w \<Longrightarrow> streamGrows w w' \<Longrightarrow> wtime w' = wtime w \<Longrightarrow> relayKeeps hmac render zone secret w w'"
proof -
  assume a: "wdb w' = wdb w" "streamGrows w w'" "wtime w' = wtime w"
  then obtain es where "bsEntries (streamOf DefaultInventoryStream w') = bsEntries (streamOf DefaultInventoryStream w) @ es"
    unfolding streamGrows_def by blast
  with a show ?thesis by (auto simp: relayKeeps_def relayed_def list_all_iff list_all2_refl)
qed

text \<open>One row: a transaction that commits has put the row on the stream and marked it.\<close>

lemma publishOne_env: "keeps sameEnv (publishOne hmac render zone secret row)"
proof -
  have cmd: "keeps sameEnv (busCmd (xadd s vals))" for s vals
    by (rule busCmd_keeps) (auto simp: sameEnv_def xadd_def Let_def updStream_def)
  have go: "keeps sameEnv nowGo" unfolding nowGo_def by (intro env.keeps_rules env_basic)
  have "keeps sameEnv (PublishEvent ev)" for ev
    unfolding PublishEvent_def Publish_def Let_def by (intro env.keeps_rules cmd go)
  then show ?thesis unfolding publishOne_def Let_def by (intro env.keeps_rules go)
qed

lemma relayOne_pool:
  assumes "\<And>row. keeps sameDB (publish row)" "cxTx c"
  shows "keeps samePool (relayOne locked publish c)"
  unfolding relayOne_def Let_def using assms
  by (intro pool.keeps_rules sameDB_samePool [OF keeps_now] sameDB_samePool [OF keeps_first]
      sameDB_samePool [OF assms(1)]) (simp add: GetDB_def keeps_stmt_pool)

lemma relayOne_env:
  assumes "\<And>row. keeps sameEnv (publish row)"
  shows "keeps sameEnv (relayOne locked publish c)"
  unfolding relayOne_def Let_def by (intro env.keeps_rules env_basic assms)

lemma RunInTx_env: "(\<And>c. keeps sameEnv (fn c)) \<Longrightarrow> keeps sameEnv (RunInTx c fn)"
proof (rule keepsI)
  fix w assume a: "\<And>c. keeps sameEnv (fn c)"
  obtain r w1 where f: "fn (c\<lparr>cxTx := True\<rparr>) (w\<lparr>wstmt := Suc (wstmt w), wtx := Some (wdb w)\<rparr>) = (r, w1)"
    by (metis prod.collapse)
  then have "sameEnv w w1" using keepsD [OF a f] by (simp add: sameEnv_def)
  then show "sameEnv w (snd (RunInTx c fn w))"
    using f a [of c] by (auto simp: RunInTx_def Let_def sameEnv_def keeps_def split: option.splits sum.splits)
qed

lemma relayTx_Inr:
  assumes "RunInTx Background (relayOne locked publish) w = (Inr u, w')" "\<And>row. keeps sameDB (publish row)"
  shows "\<exists>row t w1 w2. nextUnpublished locked (wdb w) = Some row
    \<and> wdb w' = markPublished (oerID row) t (wdb w) \<and> publish (rowToOutbox row) w1 = (Inr (), w2)
    \<and> wtime w1 = wtime w \<and> wstreams w1 = wstreams w \<and> wstreams w' = wstreams w2"
proof -
  have b: "\<not> cxTx Background" by (simp add: Background_def)
  from assms(1) obtain w3 d where r: "relayOne locked publish (Background\<lparr>cxTx := True\<rparr>)
      (w\<lparr>wstmt := Suc (wstmt w), wtx := Some (wdb w)\<rparr>) = (Inr u, w3)"
    and w3: "wtx w3 = Some d" "w' = w3\<lparr>wstmt := Suc (wstmt w3), wtx := None, wdb := d\<rparr>"
    by (rule RunInTx_Inr [OF b])
  let ?w0 = "w\<lparr>wstmt := Suc (wstmt w), wtx := Some (wdb w)\<rparr>"
  from r obtain row w1 w2 where f: "firstStmt Tx (nextUnpublished locked) ?w0 = (Inr row, w1)"
    and p: "publish (rowToOutbox row) w1 = (Inr (), w2)"
    and m: "runStmt Tx (\<lambda>d. Inr ((), markPublished (oerID row) (wtime w2 (wtick w2)) d)) (w2\<lparr>wtick := Suc (wtick w2)\<rparr>) = (Inr u, w3)"
    by (auto simp: relayOne_def GetDB_def bindM_Inr Let_def)
  from firstStmt_Inr [OF f] have n: "nextUnpublished locked (wdb w) = Some row" "w1 = ?w0\<lparr>wstmt := Suc (Suc (wstmt w))\<rparr>"
    by (simp_all add: viewOf_def)
  have "wtx w2 = Some (wdb w)" using keepsD [OF assms(2) p] n(2) by (simp add: sameDB_def)
  with runStmt_Inr [OF m] w3 have "wdb w' = markPublished (oerID row) (wtime w2 (wtick w2)) (wdb w)" "wstreams w' = wstreams w2"
    by (auto simp: viewOf_def setView_def)
  with n p show ?thesis
    by (intro exI [of _ row] exI [of _ "wtime w2 (wtick w2)"] exI [of _ w1] exI [of _ w2]) (simp add: n(2))
qed

lemma nextUnpublished_Some:
  assumes "nextUnpublished locked d = Some row"
  shows "row \<in> set (dbOutbox d) \<and> \<not> oerPublished row \<and> \<not> locked (oerID row)"
proof -
  let ?xs = "filter (\<lambda>r. \<not> oerPublished r \<and> \<not> locked (oerID r)) (dbOutbox d)"
  obtain rs where "sort_key oerID ?xs = row # rs"
    using assms by (auto simp: nextUnpublished_def split: list.splits)
  then have "row \<in> set (sort_key oerID ?xs)" by simp
  then show ?thesis by simp
qed

lemma markPublished_rows:
  assumes "distinct (map oerID (dbOutbox d))" "row \<in> set (dbOutbox d)" "\<not> oerPublished row"
  shows "list_all2 marked (dbOutbox d) (dbOutbox (markPublished (oerID row) t d))"
    and "r \<in> set (dbOutbox (markPublished (oerID row) t d)) \<Longrightarrow>
      (rowToOutbox r = rowToOutbox row) \<or> r \<in> set (dbOutbox d)"
proof -
  have only: "x = row" if "x \<in> set (dbOutbox d)" "oerID x = oerID row" for x
    using assms(1,2) that by (meson distinct_map_eq)
  then show "list_all2 marked (dbOutbox d) (dbOutbox (markPublished (oerID row) t d))"
    using assms(3) by (auto simp: markPublished_def updateWhere_def list_all2_map2 marked_def intro!: list.rel_refl_strong)
  assume "r \<in> set (dbOutbox (markPublished (oerID row) t d))"
  then obtain x where x: "x \<in> set (dbOutbox d)"
    "r = (if oerID x = oerID row then x\<lparr>oerPublished := True, oerPublishedAt := Some t\<rparr> else x)"
    by (auto simp: markPublished_def updateWhere_def)
  show "(rowToOutbox r = rowToOutbox row) \<or> r \<in> set (dbOutbox d)"
    using x only [OF x(1)] by (cases "oerID x = oerID row") (simp_all add: rowToOutbox_def)
qed

lemma relayTx_keeps:
  assumes h: "\<forall>x. hmac secret x \<noteq> []"
  shows "keeps (relayKeeps hmac render zone secret)
    (RunInTx Background (relayOne locked (publishOne hmac render zone secret)))"
proof (rule keepsI)
  let ?pub = "publishOne hmac render zone secret"
  fix w
  obtain r w' where run: "RunInTx Background (relayOne locked ?pub) w = (r, w')" by (metis prod.collapse)
  have g: "streamGrows w w'"
    by (rule keepsD [OF grow_RunInTx run])
      (auto simp: relayOne_def Let_def intro!: grow.keeps_rules grow_stmt grow_now grow_publishOne)
  have t: "wtime w' = wtime w"
  proof -
    have "sameEnv w w'" by (rule keepsD [OF RunInTx_env run]) (intro relayOne_env publishOne_env)
    then show ?thesis by (simp add: sameEnv_def)
  qed
  have b: "\<not> cxTx Background" by (simp add: Background_def)
  have "relayKeeps hmac render zone secret w w'"
  proof (cases r)
    case (Inl e)
    have "keeps samePool (relayOne locked ?pub (Background\<lparr>cxTx := True\<rparr>))"
      by (rule relayOne_pool [OF publishOne_db]) simp
    from RunInTx_Inl [where fn = "relayOne locked ?pub", OF this b run [unfolded Inl]] have "wdb w' = wdb w" by simp
    then show ?thesis using g t by (rule relayKeeps_same)
  next
    case (Inr u)
    from relayTx_Inr [OF run [unfolded Inr] publishOne_db] obtain row tm w1 w2 where
      n: "nextUnpublished locked (wdb w) = Some row" and d: "wdb w' = markPublished (oerID row) tm (wdb w)"
      and p: "?pub (rowToOutbox row) w1 = (Inr (), w2)"
      and w: "wtime w1 = wtime w" "wstreams w1 = wstreams w" "wstreams w' = wstreams w2" by blast
    note row = nextUnpublished_Some [OF n]
    have "list_all2 marked (dbOutbox (wdb w)) (dbOutbox (wdb w')) \<and>
        (relayed hmac render zone secret w \<longrightarrow> relayed hmac render zone secret w')" if ready: "relayReady zone w"
    proof -
      have di: "distinct (map oerID (dbOutbox (wdb w)))" using ready by (simp add: relayReady_def)
      have gt: "goodTime (rowTime zone (orCreatedAt (rowToOutbox row)))"
        using ready row by (simp add: relayReady_def list_all_iff rowToOutbox_def)
      have "goodClock w1" using ready w(1) by (simp add: relayReady_def goodClock_def)
      from publishOne_Inr [OF p this gt h] obtain x where
        x: "bsEntries (streamOf DefaultInventoryStream w') = bsEntries (streamOf DefaultInventoryStream w) @ [x]"
        "carries hmac render zone secret (rowToOutbox row) x" using w by (auto simp: streamOf_def)
      note rows = markPublished_rows [OF di, of row] row
      have "list_ex (carries hmac render zone secret (rowToOutbox r')) (bsEntries (streamOf DefaultInventoryStream w'))"
        if "relayed hmac render zone secret w" "r' \<in> set (dbOutbox (wdb w'))" "oerPublished r'" for r'
        using rows(2) [of r' tm] row that x by (auto simp: relayed_def list_all_iff d)
      then show ?thesis using rows(1) [of tm] row by (simp add: relayed_def list_all_iff d)
    qed
    then show ?thesis using t by (simp add: relayKeeps_def)
  qed
  then show "relayKeeps hmac render zone secret w (snd (RunInTx Background (relayOne locked ?pub) w))" by (simp add: run)
qed

lemma relayBatch_keeps:
  assumes "\<forall>x. hmac secret x \<noteq> []"
  shows "keeps (relayKeeps hmac render zone secret) (RelayPublishBatch locked n (publishOne hmac render zone secret))"
proof -
  have "keeps (relayKeeps hmac render zone secret) (relayLoop locked (publishOne hmac render zone secret) k m)" for k m
    by (induction k arbitrary: m) (auto intro!: relay.keeps_rules relayTx_keeps [where hmac = hmac and secret = secret, OF assms])
  then show ?thesis by (simp add: RelayPublishBatch_def Let_def)
qed

lemma relayRun_keeps:
  assumes "\<forall>x. hmac (rnSecret r) x \<noteq> []"
  shows "keeps (relayKeeps hmac render zone (rnSecret r)) (relayRun hmac render zone locked rnd r rounds)"
proof -
  have "keeps (relayKeeps hmac render zone (rnSecret r))
      (relayRounds locked (publishOne hmac render zone (rnSecret r)) rnd cfg k b)" for cfg k b
    by (induction k arbitrary: b) (auto intro!: relay.keeps_rules relayBatch_keeps [where hmac = hmac and secret = "rnSecret r", OF assms])
  then show ?thesis by (simp add: relayRun_def Let_def)
qed

text \<open>C21: The relay publishes at least once. Let the rows of the outbox have their own ids, all times be
  ones an event can carry, and every published row be on the stream already. However long the relay
  runs, whatever statement, commit or bus command fails or loses its reply, and whichever rows other
  workers hold: every row marked published is on the stream inventory.events as an entry that
  decodes to the event of that row, with its type, payload and creation time, and verifies under the
  secret; and the relay changes no row except to mark it published.\<close>

theorem relay_at_least_once:
  assumes "relayRun hmac render zone locked rnd r rounds w = (res, w')"
    and "relayReady zone w" "relayed hmac render zone (rnSecret r) w" "\<forall>x. hmac (rnSecret r) x \<noteq> []"
  shows "relayed hmac render zone (rnSecret r) w' \<and> list_all2 marked (dbOutbox (wdb w)) (dbOutbox (wdb w'))"
  using keepsD [OF relayRun_keeps [where hmac = hmac and r = r, OF assms(4)] assms(1)] assms(2,3)
  by (simp add: relayKeeps_def)

subsection \<open>Draining\<close>

text \<open>Nothing fails and no other worker holds a row.\<close>

definition calm :: "world \<Rightarrow> bool" where
  "calm w \<longleftrightarrow> wfault w = (\<lambda>_. None) \<and> wbfault w = (\<lambda>_. None)"

definition pendingRows :: "database \<Rightarrow> outboxEventRow list" where
  "pendingRows d = sort_key oerID (filter (\<lambda>r. \<not> oerPublished r) (dbOutbox d))"

lemma next_pending: "nextUnpublished (\<lambda>_. False) d = (case pendingRows d of [] \<Rightarrow> None | r # _ \<Rightarrow> Some r)"
  by (simp add: nextUnpublished_def pendingRows_def)

text \<open>Marking the oldest pending row leaves the others.\<close>

lemma pending_mark:
  assumes "distinct (map oerID (dbOutbox d))" "pendingRows d = r # rs"
  shows "pendingRows (markPublished (oerID r) t d) = rs"
proof -
  let ?ob = "dbOutbox d"
  have "distinct (map oerID (pendingRows d))"
    using assms(1) by (auto simp: pendingRows_def distinct_map intro: inj_on_subset)
  then have "filter (\<lambda>x. oerID x \<noteq> oerID r) (pendingRows d) = rs"
    using assms(2) by (auto simp: filter_id_conv) (metis image_eqI)
  moreover have "filter (\<lambda>x. \<not> oerPublished x) (dbOutbox (markPublished (oerID r) t d))
      = filter (\<lambda>x. oerID x \<noteq> oerID r) (filter (\<lambda>x. \<not> oerPublished x) ?ob)"
  proof -
    have "filter (\<lambda>x. \<not> oerPublished x) (updateWhere (\<lambda>x. oerID x = i) (\<lambda>x. x\<lparr>oerPublished := True, oerPublishedAt := Some t\<rparr>) xs)
        = filter (\<lambda>x. oerID x \<noteq> i) (filter (\<lambda>x. \<not> oerPublished x) xs)" for i xs
      by (induction xs) auto
    then show ?thesis by (simp add: markPublished_def)
  qed
  ultimately show ?thesis by (simp add: pendingRows_def filter_sort)
qed

text \<open>Rows the relay can turn into events.\<close>

definition publishable :: "(jval \<Rightarrow> string) \<Rightarrow> outboxEventRow \<Rightarrow> bool" where
  "publishable render r \<longleftrightarrow> oerEventType r \<noteq> [] \<and> render (oerPayload r) \<noteq> []"

lemma Publish_calm:
  assumes "wbfault w = (\<lambda>_. None)" "s \<noteq> []" "vals \<noteq> []"
  shows "\<exists>i w'. Publish s vals w = (Inr i, w') \<and> wtx w' = wtx w \<and> wfault w' = wfault w \<and> wbfault w' = wbfault w
    \<and> wdb w' = wdb w"
  using assms by (auto simp: Publish_def busCmd_ok xadd_def Let_def)

lemma ToValues_nonempty: "ToValues now e = Inr vals \<Longrightarrow> vals \<noteq> []"
  by (auto simp: ToValues_def Let_def split: option.splits)

lemma publishOne_calm:
  assumes "calm w" "goodClock w" "goodTime (rowTime zone (orCreatedAt row))" "TrimSpace secret \<noteq> []"
    and "orEventType row \<noteq> []" "render (orPayload row) \<noteq> []"
  shows "\<exists>w'. publishOne hmac render zone secret row w = (Inr (), w')"
proof -
  let ?c = "rowTime zone (orCreatedAt row)"
  let ?p = "\<lparr>gtNanos = 1000 * wtime w (wtick w), gtOffset = 0\<rparr>"
  let ?ev = "\<lparr>beID = ''outbox:'' @ Itoa (orID row), beType = orEventType row, beVersion = 1,
    beStream = DefaultInventoryStream, beCreatedAt = ?c, bePublishedAt = ?p, bePayload = render (orPayload row), beSignature = []\<rparr>"
  have m: "missingField (?ev\<lparr>beSignature := s\<rparr>) = None" "DefaultInventoryStream \<noteq> []" for s
    using assms(5,6) by (simp_all add: missingField_def DefaultInventoryStream_def)
  then obtain sig where sig: "SignEvent hmac secret ?ev = Inr sig"
    using assms(4) m(1) [of "[]"] by (auto simp: SignEvent_def canonicalString_def)
  let ?e = "?ev\<lparr>beSignature := sig\<rparr>"
  have c: "completeEvent ?e" using assms(2,3) by (simp add: completeEvent_def goodTime_def goodClock_def)
  then have d: "withDefaults ?c ?e = ?e" by (rule complete_defaults)
  obtain vals where v: "ToValues ?c ?e = Inr vals" using m(1) by (simp add: ToValues_def Let_def)
  obtain i w' where "Publish DefaultInventoryStream vals (w\<lparr>wtick := Suc (wtick w)\<rparr>) = (Inr i, w')"
    using Publish_calm [of "w\<lparr>wtick := Suc (wtick w)\<rparr>" DefaultInventoryStream vals] assms(1) m(2) ToValues_nonempty [OF v]
    by (auto simp: calm_def)
  then have "PublishEvent ?e (w\<lparr>wtick := Suc (wtick w)\<rparr>) = (Inr i, w')"
    using c d v m(2) by (simp add: PublishEvent_def completeEvent_def Let_def)
  moreover have "\<not> IsZero ?c" "secret \<noteq> []" using assms(3,4) by (auto simp: goodTime_def TrimSpace_def)
  ultimately show ?thesis using sig by (simp add: publishOne_def nowGo_def Let_def bindM_def nowUTC_def ret_def liftE_def)
qed

lemma relayTx_calm:
  assumes "calm w" "pendingRows (wdb w) = row # rs" "\<And>r. keeps sameDB (publish r)" "\<And>r. keeps sameEnv (publish r)"
    and "\<exists>w2. publish (rowToOutbox row) (w\<lparr>wstmt := Suc (Suc (wstmt w)), wtx := Some (wdb w)\<rparr>) = (Inr (), w2)"
  shows "\<exists>w'. RunInTx Background (relayOne (\<lambda>_. False) publish) w = (Inr (), w')"
proof -
  let ?w0 = "w\<lparr>wstmt := Suc (wstmt w), wtx := Some (wdb w)\<rparr>"
  let ?w1 = "w\<lparr>wstmt := Suc (Suc (wstmt w)), wtx := Some (wdb w)\<rparr>"
  from assms(5) obtain w2 where p: "publish (rowToOutbox row) ?w1 = (Inr (), w2)" by blast
  have w2: "wtx w2 = Some (wdb w)" "wfault w2 = (\<lambda>_. None)"
    using keepsD [OF assms(3) p] keepsD [OF assms(4) p] assms(1) by (simp_all add: sameDB_def sameEnv_def calm_def)
  have f: "firstStmt Tx (nextUnpublished (\<lambda>_. False)) ?w0 = (Inr row, ?w1)"
    using assms(1,2) by (simp add: firstStmt_def runStmt_def Let_def next_pending calm_def)
  let ?m = "runStmt Tx (\<lambda>d. Inr ((), markPublished (oerID row) (wtime w2 (wtick w2)) d)) (w2\<lparr>wtick := Suc (wtick w2)\<rparr>)"
  have m: "?m = (Inr (), w2\<lparr>wtick := Suc (wtick w2), wstmt := Suc (wstmt w2), wtx := Some (markPublished (oerID row) (wtime w2 (wtick w2)) (wdb w))\<rparr>)"
    using w2 by (simp add: runStmt_def Let_def)
  have "relayOne (\<lambda>_. False) publish (Background\<lparr>cxTx := True\<rparr>) ?w0 = ?m"
    by (simp add: relayOne_def GetDB_def bindM_def f p Let_def nowUTC_def)
  then show ?thesis using m w2 assms(1) by (simp add: RunInTx_def GetDB_def Let_def calm_def Background_def)
qed

lemma relayTx_empty:
  assumes "calm w" "pendingRows (wdb w) = []"
  shows "\<exists>w'. RunInTx Background (relayOne (\<lambda>_. False) publish) w = (Inl (Sys GormRecordNotFound), w')
    \<and> wdb w' = wdb w \<and> wstreams w' = wstreams w"
  using assms
  by (simp add: RunInTx_def GetDB_def Background_def relayOne_def bindM_def firstStmt_def runStmt_def next_pending calm_def Let_def)

lemma relay_step:
  assumes run: "RunInTx Background (relayOne (\<lambda>_. False) (publishOne hmac render zone secret)) w = (Inr u, w')"
    and ok: "calm w" "relayReady zone w" "list_all (publishable render) (dbOutbox (wdb w))"
    and ps: "pendingRows (wdb w) = row # rs" and h: "\<forall>x. hmac secret x \<noteq> []"
  shows "calm w'" "relayReady zone w'" "list_all (publishable render) (dbOutbox (wdb w'))" "pendingRows (wdb w') = rs"
    "\<exists>x. bsEntries (streamOf DefaultInventoryStream w') = bsEntries (streamOf DefaultInventoryStream w) @ [x]
      \<and> carries hmac render zone secret (rowToOutbox row) x"
proof -
  have "sameEnv w w'" by (rule keepsD [OF RunInTx_env run]) (intro relayOne_env publishOne_env)
  then have t: "wtime w' = wtime w" and c: "calm w'" using ok(1) by (simp_all add: calm_def sameEnv_def)
  from c show "calm w'" .
  have m: "list_all2 marked (dbOutbox (wdb w)) (dbOutbox (wdb w'))"
    using keepsD [OF relayTx_keeps [where hmac = hmac and secret = secret, OF h] run] ok(2)
    by (simp add: relayKeeps_def)
  then show "relayReady zone w'" using relayReady_marked [OF ok(2) _ t] by blast
  have "list_all (publishable render) (dbOutbox (wdb w')) = list_all (publishable render) (dbOutbox (wdb w))"
    using m by (induction rule: list_all2_induct) (auto simp: publishable_def marked_def)
  then show "list_all (publishable render) (dbOutbox (wdb w'))" using ok(3) by simp
  from relayTx_Inr [OF run publishOne_db] ps obtain tm w1 w2 where
    d: "wdb w' = markPublished (oerID row) tm (wdb w)" and n: "nextUnpublished (\<lambda>_. False) (wdb w) = Some row"
    and p: "publishOne hmac render zone secret (rowToOutbox row) w1 = (Inr (), w2)"
    and w: "wtime w1 = wtime w" "wstreams w1 = wstreams w" "wstreams w' = wstreams w2" by (auto simp: next_pending)
  show "pendingRows (wdb w') = rs"
    unfolding d using ok(2) ps by (intro pending_mark) (auto simp: relayReady_def)
  have "goodTime (rowTime zone (orCreatedAt (rowToOutbox row)))"
    using ok(2) nextUnpublished_Some [OF n] by (simp add: relayReady_def list_all_iff rowToOutbox_def)
  moreover have "goodClock w1" using ok(2) w(1) by (simp add: relayReady_def goodClock_def)
  ultimately show "\<exists>x. bsEntries (streamOf DefaultInventoryStream w') = bsEntries (streamOf DefaultInventoryStream w) @ [x]
      \<and> carries hmac render zone secret (rowToOutbox row) x"
    using publishOne_Inr [OF p _ _ h] w by (auto simp: streamOf_def)
qed

lemma relayLoop_drains:
  assumes "calm w" "relayReady zone w" "list_all (publishable render) (dbOutbox (wdb w))" "TrimSpace secret \<noteq> []"
    and "\<forall>x. hmac secret x \<noteq> []"
  shows "\<exists>w' xs. let ps = pendingRows (wdb w); m = min k (length ps) in
    relayLoop (\<lambda>_. False) (publishOne hmac render zone secret) k n w = (Inr (n + int m, None), w')
    \<and> pendingRows (wdb w') = drop m ps
    \<and> bsEntries (streamOf DefaultInventoryStream w') = bsEntries (streamOf DefaultInventoryStream w) @ xs
    \<and> list_all2 (\<lambda>r x. carries hmac render zone secret (rowToOutbox r) x) (take m ps) xs"
  using assms(1-3)
proof (induction k arbitrary: n w)
  case 0
  then show ?case by (simp add: ret_def)
next
  case (Suc k)
  let ?pub = "publishOne hmac render zone secret"
  show ?case
  proof (cases "pendingRows (wdb w)")
    case Nil
    from relayTx_empty [OF Suc.prems(1) Nil, of ?pub] show ?thesis
      by (auto simp: Nil bindM_def tryM_def ret_def streamOf_def)
  next
    case (Cons row rs)
    let ?w1 = "w\<lparr>wstmt := Suc (Suc (wstmt w)), wtx := Some (wdb w)\<rparr>"
    have row: "row \<in> set (dbOutbox (wdb w))"
      using Cons set_sort [of oerID "filter (\<lambda>r. \<not> oerPublished r) (dbOutbox (wdb w))"]
      by (auto simp: pendingRows_def)
    have ok: "calm ?w1" "goodClock ?w1" "goodTime (rowTime zone (orCreatedAt (rowToOutbox row)))"
      "orEventType (rowToOutbox row) \<noteq> []" "render (orPayload (rowToOutbox row)) \<noteq> []"
      using Suc.prems row
      by (simp_all add: calm_def relayReady_def goodClock_def list_all_iff rowToOutbox_def publishable_def)
    have "\<exists>w2. ?pub (rowToOutbox row) ?w1 = (Inr (), w2)"
      by (rule publishOne_calm) (rule ok assms(4))+
    then obtain w' where run: "RunInTx Background (relayOne (\<lambda>_. False) ?pub) w = (Inr (), w')"
      using relayTx_calm [OF Suc.prems(1) Cons, of ?pub] publishOne_db publishOne_env by blast
    note st = relay_step [OF run Suc.prems Cons assms(5)]
    obtain x where x: "bsEntries (streamOf DefaultInventoryStream w') = bsEntries (streamOf DefaultInventoryStream w) @ [x]"
      "carries hmac render zone secret (rowToOutbox row) x" using st(5) by blast
    from Suc.IH [OF st(1-3), of "n + 1"] obtain w2 xs where
      "relayLoop (\<lambda>_. False) ?pub k (n + 1) w' = (Inr (n + 1 + int (min k (length rs)), None), w2)"
      "pendingRows (wdb w2) = drop (min k (length rs)) rs"
      "bsEntries (streamOf DefaultInventoryStream w2) = bsEntries (streamOf DefaultInventoryStream w') @ xs"
      "list_all2 (\<lambda>r x. carries hmac render zone secret (rowToOutbox r) x) (take (min k (length rs)) rs) xs"
      unfolding st(4) Let_def by blast
    then show ?thesis using run x unfolding Cons
      by (intro exI [of _ w2] exI [of _ "x # xs"]) (simp add: bindM_def tryM_def)
  qed
qed

text \<open>C22: Without faults a batch publishes the oldest rows in order. When no statement and no bus command
  fails, no other worker holds rows, and every row has an event type and a payload, RelayPublishBatch
  with a positive limit reports exactly the number of rows it published, the smaller of the limit and
  the number of unpublished rows; they are the oldest by id, the stream gets exactly their events, in
  the order of the ids, and the other unpublished rows are left for the next batch.\<close>

theorem relay_drains:
  assumes "calm w" "relayReady zone w" "list_all (publishable render) (dbOutbox (wdb w))" "TrimSpace secret \<noteq> []"
    and "\<forall>x. hmac secret x \<noteq> []" "0 < limit"
    and "RelayPublishBatch (\<lambda>_. False) limit (publishOne hmac render zone secret) w = (res, w')"
  shows "let ps = pendingRows (wdb w); m = min (nat limit) (length ps) in
    res = Inr (int m, None) \<and> pendingRows (wdb w') = drop m ps
    \<and> (\<exists>xs. bsEntries (streamOf DefaultInventoryStream w') = bsEntries (streamOf DefaultInventoryStream w) @ xs
        \<and> list_all2 (\<lambda>r x. carries hmac render zone secret (rowToOutbox r) x) (take m ps) xs)"
  using relayLoop_drains [where hmac = hmac and secret = secret and k = "nat limit" and n = 0, OF assms(1-5)] assms(6,7)
  by (auto simp: RelayPublishBatch_def Let_def)

end
