(* ===== verification/Bus_Sample.thy ===== *)
theory Bus_Sample
  imports Alert_Laws
begin

text \<open>
  A small concrete bus: a world with two unpublished rows in the outbox, on which the hypotheses of
  the properties of the relay and of the consumers are discharged.
\<close>

definition sampleRow :: "int \<Rightarrow> outboxEventRow" where
  "sampleRow i = \<lparr>oerID = i, oerTenantID = ''t1'', oerEventType = ''StockChanged'', oerAggregateType = ''movement'',
     oerAggregateID = ''m1'', oerPayload = JObj [], oerPublished = False, oerCreatedAt = 1700000000000000,
     oerPublishedAt = None\<rparr>"

definition outboxWorld :: world where
  "outboxWorld = idleWorld\<lparr>wdb := (wdb idleWorld)\<lparr>dbOutbox := [sampleRow 2, sampleRow 1]\<rparr>,
     wtime := (\<lambda>_. 1700000000000000)\<rparr>"

definition sampleHmac :: "string \<Rightarrow> string \<Rightarrow> string" where
  "sampleHmac k x = CHR ''h'' # k @ x"

definition sampleRender :: "jval \<Rightarrow> string" where
  "sampleRender j = ''{}''"

definition sampleZone :: "int \<Rightarrow> int" where
  "sampleZone t = 420"

definition sampleRunner :: Runner where
  "sampleRunner = \<lparr>rnSecret = ''k'', rnConfig = DefaultConfig\<rparr>"

lemma sample_times:
  "goodTime \<lparr>gtNanos = 1700000000000000000, gtOffset = 0\<rparr>" "goodTime \<lparr>gtNanos = 1700000000000000000, gtOffset = 420\<rparr>"
  by code_simp+

lemma sample_ready:
  "relayReady sampleZone outboxWorld" "calm outboxWorld" "relayed sampleHmac sampleRender sampleZone ''k'' outboxWorld"
  "list_all (publishable sampleRender) (dbOutbox (wdb outboxWorld))" "\<forall>x. sampleHmac k x \<noteq> []"
  "TrimSpace ''k'' = ''k''" "pendingRows (wdb outboxWorld) = [sampleRow 1, sampleRow 2]"
  by (simp_all add: relayReady_def goodClock_def outboxWorld_def idleWorld_def sampleRow_def rowTime_def sampleZone_def
      sample_times calm_def relayed_def publishable_def sampleRender_def sampleHmac_def TrimSpace_def isSpace_def
      pendingRows_def)

theorem relay_at_least_once_witness:
  "relayed sampleHmac sampleRender sampleZone ''k''
     (snd (relayRun sampleHmac sampleRender sampleZone (\<lambda>_ _. False) (\<lambda>_. 0) sampleRunner 5 outboxWorld))"
  using relay_at_least_once [of sampleHmac sampleRender sampleZone "\<lambda>_ _. False" "\<lambda>_. 0" sampleRunner 5 outboxWorld,
      OF prod.collapse [symmetric]] sample_ready(1,3,5) by (simp add: sampleRunner_def)

theorem relay_drains_witness:
  "\<exists>x y. bsEntries (streamOf DefaultInventoryStream (snd (RelayPublishBatch (\<lambda>_. False) 5
       (publishOne sampleHmac sampleRender sampleZone ''k'') outboxWorld))) = [x, y]
     \<and> carries sampleHmac sampleRender sampleZone ''k'' (rowToOutbox (sampleRow 1)) x
     \<and> carries sampleHmac sampleRender sampleZone ''k'' (rowToOutbox (sampleRow 2)) y"
proof -
  have e: "bsEntries (streamOf DefaultInventoryStream outboxWorld) = []"
    by (simp add: outboxWorld_def idleWorld_def streamOf_def emptyStream_def)
  have "TrimSpace ''k'' \<noteq> []" using sample_ready(6) by simp
  from relay_drains [where hmac = sampleHmac and limit = 5, OF sample_ready(2,1,4) this sample_ready(5) _ prod.collapse [symmetric]] show ?thesis
    by (auto simp: Let_def sample_ready(7) e list_all2_Cons1)
qed

theorem relay_survives_witness:
  "fst (relayRun sampleHmac sampleRender sampleZone (\<lambda>_ _. False) (\<lambda>_. 0) sampleRunner 5 outboxWorld) = Inl ctxCanceled
    \<and> nextBackoff 30000000000 200000000 = 400000000"
proof -
  have c: "relayDefaults (rnConfig sampleRunner) = DefaultConfig"
    by (simp add: relayDefaults_def sampleRunner_def DefaultConfig_def)
  have "rcMinBackoff DefaultConfig = 200000000" "rcMaxBackoff DefaultConfig = 30000000000"
    by (simp_all add: DefaultConfig_def)
  with relay_survives [of sampleRunner sampleHmac sampleRender sampleZone "\<lambda>_ _. False" "\<lambda>_. 0" 5 outboxWorld 200000000, unfolded c]
  show ?thesis by simp
qed

text \<open>Two reads of a group: the first takes one entry, the second the other.\<close>

definition readWorld :: world where
  "readWorld = idleWorld\<lparr>wstreams := [\<lparr>bsName = DefaultInventoryStream,
     bsEntries = [\<lparr>seID = ''0-0'', seFields = []\<rparr>, \<lparr>seID = ''1-0'', seFields = []\<rparr>],
     bsGroups = [\<lparr>gsName = ''alerts'', gsNext = 0, gsPending = []\<rparr>]\<rparr>]\<rparr>"

definition readOnce :: "world \<Rightarrow> (err + EventMessage list) \<times> world" where
  "readOnce w = ReadGroup DefaultInventoryStream ''alerts'' ''c1'' 1 w"

lemma sample_reads:
  "map_sum id (map emID) (fst (readOnce readWorld)) = Inr [''0-0'']"
  "map_sum id (map emID) (fst (readOnce (snd (readOnce readWorld)))) = Inr [''1-0'']"
  "distinct (map seID (bsEntries (streamOf DefaultInventoryStream (snd (readOnce (snd (readOnce readWorld)))))))"
  by code_simp+

lemma sample_entry: "\<exists>x. carries sampleHmac sampleRender sampleZone ''k'' (rowToOutbox (sampleRow 1)) x"
proof -
  have "TrimSpace ''k'' \<noteq> []" using sample_ready(6) by simp
  from relayLoop_drains [where hmac = sampleHmac and k = 1 and n = 0, OF sample_ready(2,1,4) this sample_ready(5)]
  show ?thesis by (auto simp: Let_def sample_ready(7) list_all2_Cons1)
qed

theorem group_reads_once_witness:
  "\<exists>ms ms'. fst (readOnce readWorld) = Inr ms \<and> fst (readOnce (snd (readOnce readWorld))) = Inr ms'
     \<and> set (map emID ms) \<inter> set (map emID ms') = {}"
proof -
  obtain ms where ms: "fst (readOnce readWorld) = Inr ms"
    using sample_reads(1) by (cases "fst (readOnce readWorld)") auto
  obtain ms' where ms': "fst (readOnce (snd (readOnce readWorld))) = Inr ms'"
    using sample_reads(2) by (cases "fst (readOnce (snd (readOnce readWorld)))") auto
  have r: "ReadGroup DefaultInventoryStream ''alerts'' ''c1'' 1 readWorld = (Inr ms, snd (readOnce readWorld))"
    using ms by (simp add: readOnce_def prod_eq_iff)
  have r': "ReadGroup DefaultInventoryStream ''alerts'' ''c1'' 1 (snd (readOnce readWorld))
      = (Inr ms', snd (readOnce (snd (readOnce readWorld))))"
    using ms' by (simp add: readOnce_def prod_eq_iff)
  show ?thesis using group_reads_once [OF r busSteps.start r' sample_reads(3)] ms ms' by blast
qed


end
