(* ===== verification/Tokens.thy ===== *)
theory Tokens
  imports Programs
begin

text \<open>
  The token service (src/pkg/common/jwt: service.go, factory.go, echo.go, http_token.go,
  echo_middleware.go): issue and verification of HS256 access and refresh tokens, and the Echo
  middleware that puts the claims of a verified access token on the request context.
  The library golang-jwt/jwt/v4 is the parameter lib, a record of the functions the code calls; what
  the code relies on is jwtLaws. Every call that looks at the clock is given its reading: a verification
  reads it twice per key it tries, the sequence clock has these readings in order.
\<close>

section \<open>The library\<close>

datatype SigningMethod = SigningMethodHMAC string | SigningMethodOther string

record ParsedToken =
  ptValid :: bool
  ptClaims :: "Claims option"

text \<open>jlSign: SignedString of an HS256 token; jlParse: ParseWithClaims at a time with a key function;
  jlValid: the error of Claims.Valid at a time; jlNumericDate: NewNumericDate, which rounds down to
  the precision of the library.\<close>

record JWTLib =
  jlSign :: "string \<Rightarrow> Claims \<Rightarrow> err + string"
  jlParse :: "int \<Rightarrow> string \<Rightarrow> (SigningMethod \<Rightarrow> err + string) \<Rightarrow> err + ParsedToken"
  jlValid :: "int \<Rightarrow> Claims \<Rightarrow> string option"
  jlNumericDate :: "int \<Rightarrow> int"

section \<open>Service\<close>

record ClaimsInput =
  ciSubject :: string
  ciTenantID :: string
  ciRole :: string
  ciPermissions :: "string list"

record JWTService =
  jsAccessSecret :: string
  jsRefreshSecret :: string
  jsAccessTTL :: int
  jsRefreshTTL :: int
  jsIssuer :: string
  jsAudience :: string

record ServiceOptions =
  soSharedSecret :: string
  soAccessSecret :: string
  soRefreshSecret :: string
  soAccessTTL :: int
  soRefreshTTL :: int
  soIssuer :: string
  soAudience :: string

definition NewServiceOptions :: "ServiceOptions \<Rightarrow> err + JWTService" where
  "NewServiceOptions opt =
    (let accessSec = (if soSharedSecret opt \<noteq> [] then soSharedSecret opt else soAccessSecret opt);
         refreshSec = (if soSharedSecret opt \<noteq> [] then soSharedSecret opt else soRefreshSecret opt)
     in if accessSec = [] \<or> refreshSec = [] then Inl (Sys ErrJWTInvalidSecret)
        else if soAccessTTL opt \<le> 0 \<or> soRefreshTTL opt \<le> 0 then Inl (Sys ErrJWTInvalidTTL)
        else Inr \<lparr>jsAccessSecret = accessSec, jsRefreshSecret = refreshSec,
                  jsAccessTTL = soAccessTTL opt, jsRefreshTTL = soRefreshTTL opt,
                  jsIssuer = soIssuer opt, jsAudience = soAudience opt\<rparr>)"

definition NewService :: "string \<Rightarrow> int \<Rightarrow> int \<Rightarrow> err + JWTService" where
  "NewService secret accessTTL refreshTTL = NewServiceOptions
    \<lparr>soSharedSecret = secret, soAccessSecret = [], soRefreshSecret = [], soAccessTTL = accessTTL,
     soRefreshTTL = refreshTTL, soIssuer = [], soAudience = []\<rparr>"

definition NewServiceFromSharedOrSplit ::
  "string \<Rightarrow> string \<Rightarrow> string \<Rightarrow> int \<Rightarrow> int \<Rightarrow> string \<Rightarrow> string \<Rightarrow> err + JWTService" where
  "NewServiceFromSharedOrSplit sharedSecret accessSecret refreshSecret accessTTL refreshTTL issuer audience =
    (let split = accessSecret \<noteq> [] \<and> refreshSecret \<noteq> []
     in NewServiceOptions \<lparr>soSharedSecret = (if split then [] else sharedSecret),
          soAccessSecret = (if split then accessSecret else []),
          soRefreshSecret = (if split then refreshSecret else []),
          soAccessTTL = accessTTL, soRefreshTTL = refreshTTL, soIssuer = issuer, soAudience = audience\<rparr>)"

definition generateToken :: "JWTLib \<Rightarrow> JWTService \<Rightarrow> int \<Rightarrow> (err + string) \<Rightarrow>
    ClaimsInput \<Rightarrow> string \<Rightarrow> int \<Rightarrow> string \<Rightarrow> err + string" where
  "generateToken lib s now newRandom inp tokenType ttl signingKey =
    (if ciSubject inp = [] then Inl (Sys ErrJWTInvalidSubject)
     else if ciTenantID inp = [] then Inl (Sys ErrJWTInvalidTenantID)
     else if tokenType \<noteq> TokenTypeAccess \<and> tokenType \<noteq> TokenTypeRefresh then Inl (Sys ErrJWTInvalidTokenType)
     else
       let issue = (\<lambda>jti.
             let rc = \<lparr>rcIssuer = jsIssuer s, rcSubject = ciSubject inp,
                   rcAudience = (if jsAudience s \<noteq> [] then [jsAudience s] else []),
                   rcExpiresAt = Some (jlNumericDate lib (now + ttl)),
                   rcNotBefore = Some (jlNumericDate lib now),
                   rcIssuedAt = Some (jlNumericDate lib now), rcID = jti\<rparr>;
                 claims = \<lparr>clTenantID = ciTenantID inp, clTokenType = tokenType, clRole = ciRole inp,
                   clPermissions = ciPermissions inp, clRegistered = rc\<rparr>
             in case jlSign lib signingKey claims of
                  Inl e \<Rightarrow> Inl (Wrap (''jwt: sign token: '' @ errorText e) e)
                | Inr tok \<Rightarrow> Inr tok)
       in if tokenType = TokenTypeRefresh
          then (case newRandom of
              Inl e \<Rightarrow> Inl (Wrap (''jwt: refresh jti: '' @ errorText e) e)
            | Inr jti \<Rightarrow> issue jti)
          else issue [])"

definition GenerateAccessToken :: "JWTLib \<Rightarrow> JWTService \<Rightarrow> int \<Rightarrow> ClaimsInput \<Rightarrow> err + string" where
  "GenerateAccessToken lib s now inp =
    generateToken lib s now (Inl (Raw [])) inp TokenTypeAccess (jsAccessTTL s) (jsAccessSecret s)"

definition GenerateRefreshToken ::
  "JWTLib \<Rightarrow> JWTService \<Rightarrow> int \<Rightarrow> (err + string) \<Rightarrow> ClaimsInput \<Rightarrow> err + string" where
  "GenerateRefreshToken lib s now newRandom inp =
    generateToken lib s now newRandom inp TokenTypeRefresh (jsRefreshTTL s) (jsRefreshSecret s)"

section \<open>Verification\<close>

definition validateIssuerAudience :: "JWTService \<Rightarrow> Claims \<Rightarrow> err + unit" where
  "validateIssuerAudience s c =
    (if jsIssuer s \<noteq> [] \<and> rcIssuer (clRegistered c) \<noteq> jsIssuer s then Inl (Sys ErrJWTInvalidClaims)
     else if jsAudience s \<noteq> [] \<and> \<not> list_ex (\<lambda>a. a = jsAudience s) (rcAudience (clRegistered c))
          then Inl (Sys ErrJWTInvalidClaims)
     else Inr ())"

definition keyFunc :: "string \<Rightarrow> SigningMethod \<Rightarrow> err + string" where
  "keyFunc secret m = (case m of
     SigningMethodHMAC _ \<Rightarrow> Inr secret
   | SigningMethodOther _ \<Rightarrow> Inl (Sys ErrJWTInvalidSigning))"

definition parseFailed :: "string \<Rightarrow> err" where
  "parseFailed msg = Wrap (sentinelText ErrJWTParseToken @ '': '' @ msg) (Sys ErrJWTParseToken)"

definition parseTokenWithKey :: "JWTLib \<Rightarrow> JWTService \<Rightarrow> (nat \<Rightarrow> int) \<Rightarrow> string \<Rightarrow> string \<Rightarrow> err + Claims" where
  "parseTokenWithKey lib s clock token secret =
    (case jlParse lib (clock 0) token (keyFunc secret) of
       Inl e \<Rightarrow> Inl (parseFailed (errorText e))
     | Inr parsed \<Rightarrow>
         if \<not> ptValid parsed then Inl (Sys ErrJWTParseToken)
         else (case ptClaims parsed of
             None \<Rightarrow> Inl (Sys ErrJWTInvalidClaims)
           | Some claims \<Rightarrow>
               if rcSubject (clRegistered claims) = [] \<or> clTenantID claims = []
                  \<or> rcExpiresAt (clRegistered claims) = None then Inl (Sys ErrJWTInvalidClaims)
               else (case jlValid lib (clock 1) claims of
                   Some msg \<Rightarrow> Inl (parseFailed msg)
                 | None \<Rightarrow>
                     if clTokenType claims \<noteq> TokenTypeAccess \<and> clTokenType claims \<noteq> TokenTypeRefresh
                     then Inl (Sys ErrJWTInvalidClaims)
                     else if clTokenType claims = TokenTypeRefresh \<and> rcID (clRegistered claims) = []
                     then Inl (Sys ErrJWTInvalidClaims)
                     else (case validateIssuerAudience s claims of
                         Inl e \<Rightarrow> Inl e
                       | Inr _ \<Rightarrow> Inr claims))))"

definition uniqueSecretKeys :: "string \<Rightarrow> string \<Rightarrow> string list" where
  "uniqueSecretKeys a b = (if a = b then [a] else [a, b])"

text \<open>The loop over the keys; lastErr is nil before the first attempt, which always takes place.\<close>

fun parseLoop :: "JWTLib \<Rightarrow> JWTService \<Rightarrow> (nat \<Rightarrow> int) \<Rightarrow> string \<Rightarrow> string list \<Rightarrow> err \<Rightarrow> err + Claims" where
  "parseLoop lib s clock token [] lastErr = Inl lastErr"
| "parseLoop lib s clock token (sec # secs) lastErr =
    (case parseTokenWithKey lib s clock token sec of
       Inr c \<Rightarrow> Inr c
     | Inl e \<Rightarrow> parseLoop lib s (\<lambda>i. clock (i + 2)) token secs e)"

definition parseToken :: "JWTLib \<Rightarrow> JWTService \<Rightarrow> (nat \<Rightarrow> int) \<Rightarrow> string \<Rightarrow> err + Claims" where
  "parseToken lib s clock token =
    parseLoop lib s clock token (uniqueSecretKeys (jsAccessSecret s) (jsRefreshSecret s)) (Raw [])"

definition ParseAccess :: "JWTLib \<Rightarrow> JWTService \<Rightarrow> (nat \<Rightarrow> int) \<Rightarrow> string \<Rightarrow> err + Claims" where
  "ParseAccess lib s clock token = (case parseToken lib s clock token of
     Inl e \<Rightarrow> Inl e
   | Inr claims \<Rightarrow> if clTokenType claims \<noteq> TokenTypeAccess then Inl (Sys ErrJWTInvalidTokenType) else Inr claims)"

definition ParseRefresh :: "JWTLib \<Rightarrow> JWTService \<Rightarrow> (nat \<Rightarrow> int) \<Rightarrow> string \<Rightarrow> err + Claims" where
  "ParseRefresh lib s clock token = (case parseToken lib s clock token of
     Inl e \<Rightarrow> Inl e
   | Inr claims \<Rightarrow> if clTokenType claims \<noteq> TokenTypeRefresh then Inl (Sys ErrJWTInvalidTokenType) else Inr claims)"

definition IsParseError :: "err \<Rightarrow> bool" where
  "IsParseError e \<longleftrightarrow> errorsIs e (Sys ErrJWTParseToken) \<or> errorsIs e (Sys ErrJWTInvalidClaims)
     \<or> errorsIs e (Sys ErrJWTInvalidSigning)"

section \<open>Requests\<close>

definition BearerPrefix :: string where "BearerPrefix = ''Bearer ''"

definition GetJWTFromEchoContext :: "string \<Rightarrow> err + string" where
  "GetJWTFromEchoContext h =
    (if \<not> prefix BearerPrefix h then Inl (App ErrUnauthorized)
     else let t = TrimSpace (drop (length BearerPrefix) h)
          in if t = [] then Inl (App ErrUnauthorized) else Inr t)"

text \<open>AccessTokenFromRequest on the Authorization header and the access_token parameter.\<close>

definition AccessTokenFromRequest :: "string \<Rightarrow> string \<Rightarrow> string option" where
  "AccessTokenFromRequest h q =
    (if prefix BearerPrefix h \<and> TrimSpace (drop (length BearerPrefix) h) \<noteq> []
     then Some (TrimSpace (drop (length BearerPrefix) h))
     else if TrimSpace q \<noteq> [] then Some (TrimSpace q) else None)"

definition RequireBearerAccessJWT :: "JWTLib \<Rightarrow> JWTService \<Rightarrow> string list \<Rightarrow> (nat \<Rightarrow> int) \<Rightarrow>
    (ctx \<Rightarrow> ('w, 'a) prog) \<Rightarrow> string \<Rightarrow> string \<Rightarrow> ctx \<Rightarrow> ('w, 'a) prog" where
  "RequireBearerAccessJWT lib s publicPaths clock next path authorization c =
    (if path \<in> set publicPaths then next c
     else bindM (liftE (GetJWTFromEchoContext authorization)) (\<lambda>token.
       case ParseAccess lib s clock token of
         Inl e \<Rightarrow> throw (App ErrUnauthorized)
       | Inr claims \<Rightarrow> next (ContextWithClaims c (Some claims))))"

section \<open>What the code relies on\<close>

text \<open>The time claims: exp after now, iat and nbf not after now, each only if it is present.\<close>

definition timesOK :: "int \<Rightarrow> RegisteredClaims \<Rightarrow> bool" where
  "timesOK now rc \<longleftrightarrow> (case rcExpiresAt rc of None \<Rightarrow> True | Some e \<Rightarrow> now < e)
     \<and> (case rcIssuedAt rc of None \<Rightarrow> True | Some i \<Rightarrow> i \<le> now)
     \<and> (case rcNotBefore rc of None \<Rightarrow> True | Some n \<Rightarrow> n \<le> now)"

definition plainText :: "string \<Rightarrow> bool" where
  "plainText s \<longleftrightarrow> list_all (\<lambda>c. (of_char c :: nat) < 128) s"

definition plainClaims :: "Claims \<Rightarrow> bool" where
  "plainClaims cl \<longleftrightarrow> plainText (clTenantID cl) \<and> plainText (clTokenType cl) \<and> plainText (clRole cl)
     \<and> list_all plainText (clPermissions cl) \<and> plainText (rcIssuer (clRegistered cl))
     \<and> plainText (rcSubject (clRegistered cl)) \<and> list_all plainText (rcAudience (clRegistered cl))
     \<and> plainText (rcID (clRegistered cl))"

text \<open>auth k tok cl: the token tok carries the claims cl under a valid HMAC with the key k. Claims of
  plain text survive their JSON encoding. A token is authentic under one key only and carries one
  set of claims (no HMAC collisions).\<close>

definition jwtLaws :: "JWTLib \<Rightarrow> (string \<Rightarrow> string \<Rightarrow> Claims \<Rightarrow> bool) \<Rightarrow> bool" where
  "jwtLaws lib auth \<longleftrightarrow>
     (\<forall>k cl. plainClaims cl \<longrightarrow> (\<exists>tok. jlSign lib k cl = Inr tok \<and> auth k tok cl))
   \<and> (\<forall>k k' tok cl cl'. auth k tok cl \<longrightarrow> auth k' tok cl' \<longrightarrow> k = k' \<and> cl = cl')
   \<and> (\<forall>now tok k p. jlParse lib now tok (keyFunc k) = Inr p \<longrightarrow>
        (\<exists>cl. p = \<lparr>ptValid = True, ptClaims = Some cl\<rparr> \<and> auth k tok cl \<and> jlValid lib now cl = None))
   \<and> (\<forall>now tok k cl. auth k tok cl \<longrightarrow> jlValid lib now cl = None \<longrightarrow>
        jlParse lib now tok (keyFunc k) = Inr \<lparr>ptValid = True, ptClaims = Some cl\<rparr>)
   \<and> (\<forall>now cl. jlValid lib now cl = None \<longleftrightarrow> timesOK now (clRegistered cl))
   \<and> (\<forall>t. jlNumericDate lib t \<le> t)"

lemma jwtLawsD:
  assumes "jwtLaws lib auth"
  shows "plainClaims cl \<Longrightarrow> \<exists>tok. jlSign lib k cl = Inr tok \<and> auth k tok cl"
    and "auth k tok cl \<Longrightarrow> auth k' tok cl' \<Longrightarrow> k = k' \<and> cl = cl'"
    and "jlParse lib now tok (keyFunc k) = Inr p \<Longrightarrow>
        \<exists>cl. p = \<lparr>ptValid = True, ptClaims = Some cl\<rparr> \<and> auth k tok cl \<and> jlValid lib now cl = None"
    and "auth k tok cl \<Longrightarrow> jlValid lib now cl = None \<Longrightarrow>
        jlParse lib now tok (keyFunc k) = Inr \<lparr>ptValid = True, ptClaims = Some cl\<rparr>"
    and "jlValid lib now cl = None \<longleftrightarrow> timesOK now (clRegistered cl)"
    and "jlNumericDate lib t \<le> t"
  using assms unfolding jwtLaws_def by meson+

section \<open>Verification accepts what it should\<close>

text \<open>What a service accepts: the claims the token must carry.\<close>

definition acceptable :: "JWTService \<Rightarrow> Claims \<Rightarrow> bool" where
  "acceptable s cl \<longleftrightarrow> rcSubject (clRegistered cl) \<noteq> [] \<and> clTenantID cl \<noteq> []
     \<and> rcExpiresAt (clRegistered cl) \<noteq> None
     \<and> (clTokenType cl = TokenTypeAccess \<or> clTokenType cl = TokenTypeRefresh \<and> rcID (clRegistered cl) \<noteq> [])
     \<and> validateIssuerAudience s cl = Inr ()"

lemma tokenTypes_differ [simp]: "TokenTypeAccess \<noteq> TokenTypeRefresh" "TokenTypeRefresh \<noteq> TokenTypeAccess"
  by (simp_all add: TokenTypeAccess_def TokenTypeRefresh_def)

lemma parseTokenWithKey_iff:
  assumes "jwtLaws lib auth"
  shows "parseTokenWithKey lib s clock tok k = Inr cl \<longleftrightarrow>
    auth k tok cl \<and> timesOK (clock 0) (clRegistered cl) \<and> timesOK (clock 1) (clRegistered cl) \<and> acceptable s cl"
    (is "?l \<longleftrightarrow> ?r")
proof
  assume ?l
  then obtain p where p: "jlParse lib (clock 0) tok (keyFunc k) = Inr p"
    by (auto simp: parseTokenWithKey_def split: sum.splits)
  from jwtLawsD(3) [OF assms p] obtain cl' where
    c: "p = \<lparr>ptValid = True, ptClaims = Some cl'\<rparr>" "auth k tok cl'" "jlValid lib (clock 0) cl' = None" by blast
  from \<open>?l\<close> p c(1) have "cl' = cl" "jlValid lib (clock 1) cl = None" "acceptable s cl"
    by (auto simp: parseTokenWithKey_def acceptable_def split: if_splits option.splits sum.splits)
  with c jwtLawsD(5) [OF assms] show ?r by simp
next
  assume r: ?r
  then have "jlParse lib (clock 0) tok (keyFunc k) = Inr \<lparr>ptValid = True, ptClaims = Some cl\<rparr>"
    using jwtLawsD(4,5) [OF assms] by simp
  moreover have "jlValid lib (clock 1) cl = None" using r jwtLawsD(5) [OF assms] by simp
  ultimately show ?l using r by (auto simp: parseTokenWithKey_def acceptable_def)
qed

text \<open>The whole parse: it accepts exactly the tokens authentic under one of the two keys, unexpired
  at the readings of that attempt, with acceptable claims.\<close>

lemma parseToken_Inr:
  assumes "jwtLaws lib auth" "parseToken lib s clock tok = Inr cl"
  shows "\<exists>k i. (i = 0 \<and> k = jsAccessSecret s \<or> i = 2 \<and> k = jsRefreshSecret s) \<and> auth k tok cl
    \<and> timesOK (clock i) (clRegistered cl) \<and> timesOK (clock (Suc i)) (clRegistered cl) \<and> acceptable s cl"
proof -
  from assms(2) consider "parseTokenWithKey lib s clock tok (jsAccessSecret s) = Inr cl"
    | "parseTokenWithKey lib s (\<lambda>i. clock (i + 2)) tok (jsRefreshSecret s) = Inr cl"
    by (auto simp: parseToken_def uniqueSecretKeys_def split: if_splits sum.splits)
  then show ?thesis
  proof cases
    case 1
    with parseTokenWithKey_iff [OF assms(1)] show ?thesis by auto
  next
    case 2
    with parseTokenWithKey_iff [OF assms(1)] show ?thesis by (auto simp: numeral_2_eq_2)
  qed
qed

lemma parseToken_ok:
  assumes l: "jwtLaws lib auth" and a: "auth k tok cl" "acceptable s cl"
    and k: "k = jsAccessSecret s \<or> k = jsRefreshSecret s"
    and t: "\<And>i. i < 4 \<Longrightarrow> timesOK (clock i) (clRegistered cl)"
  shows "parseToken lib s clock tok = Inr cl"
proof (cases "k = jsAccessSecret s")
  case True
  have "parseTokenWithKey lib s clock tok k = Inr cl"
    using parseTokenWithKey_iff [OF l] a t [of 0] t [of 1] by simp
  with True show ?thesis by (auto simp: parseToken_def uniqueSecretKeys_def split: sum.splits)
next
  case False
  have "\<not> auth (jsAccessSecret s) tok cl'" for cl' using jwtLawsD(2) [OF l a(1)] False by blast
  then have "\<exists>e. parseTokenWithKey lib s clock tok (jsAccessSecret s) = Inl e"
    using parseTokenWithKey_iff [OF l] by (metis obj_sumE)
  moreover have "parseTokenWithKey lib s (\<lambda>i. clock (i + 2)) tok k = Inr cl"
    using parseTokenWithKey_iff [OF l] a t [of 2] t [of 3] by (simp add: numeral_3_eq_3 numeral_2_eq_2)
  moreover have "k = jsRefreshSecret s" using k False by simp
  ultimately show ?thesis using False by (auto simp: parseToken_def uniqueSecretKeys_def)
qed

text \<open>The claims a service issues.\<close>

definition issuedClaims :: "JWTLib \<Rightarrow> JWTService \<Rightarrow> int \<Rightarrow> ClaimsInput \<Rightarrow> string \<Rightarrow> int \<Rightarrow> string \<Rightarrow> Claims" where
  "issuedClaims lib s now inp tokenType ttl jti =
    \<lparr>clTenantID = ciTenantID inp, clTokenType = tokenType, clRole = ciRole inp,
     clPermissions = ciPermissions inp, clRegistered =
       \<lparr>rcIssuer = jsIssuer s, rcSubject = ciSubject inp,
        rcAudience = (if jsAudience s \<noteq> [] then [jsAudience s] else []),
        rcExpiresAt = Some (jlNumericDate lib (now + ttl)), rcNotBefore = Some (jlNumericDate lib now),
        rcIssuedAt = Some (jlNumericDate lib now), rcID = jti\<rparr>\<rparr>"

definition plainInput :: "JWTService \<Rightarrow> ClaimsInput \<Rightarrow> bool" where
  "plainInput s inp \<longleftrightarrow> plainText (ciSubject inp) \<and> plainText (ciTenantID inp) \<and> plainText (ciRole inp)
     \<and> list_all plainText (ciPermissions inp) \<and> plainText (jsIssuer s) \<and> plainText (jsAudience s)"

lemma issued_plain:
  assumes "plainInput s inp" "plainText jti" "plainText ty"
  shows "plainClaims (issuedClaims lib s now inp ty ttl jti)"
  using assms by (simp add: plainInput_def plainClaims_def issuedClaims_def)

lemma issued_acceptable:
  assumes "ciSubject inp \<noteq> []" "ciTenantID inp \<noteq> []" "ty = TokenTypeAccess \<or> ty = TokenTypeRefresh \<and> jti \<noteq> []"
  shows "acceptable s (issuedClaims lib s now inp ty ttl jti)"
  using assms by (auto simp: acceptable_def issuedClaims_def validateIssuerAudience_def)

lemma GenerateAccessToken_ok:
  assumes "jwtLaws lib auth" "ciSubject inp \<noteq> []" "ciTenantID inp \<noteq> []" "plainInput s inp"
  shows "\<exists>tok. GenerateAccessToken lib s now inp = Inr tok \<and>
    auth (jsAccessSecret s) tok (issuedClaims lib s now inp TokenTypeAccess (jsAccessTTL s) [])"
proof -
  have "plainClaims (issuedClaims lib s now inp TokenTypeAccess (jsAccessTTL s) [])"
    by (rule issued_plain [OF assms(4)]) (simp_all add: plainText_def TokenTypeAccess_def)
  from jwtLawsD(1) [OF assms(1) this] obtain tok where
    "jlSign lib (jsAccessSecret s) (issuedClaims lib s now inp TokenTypeAccess (jsAccessTTL s) []) = Inr tok"
    "auth (jsAccessSecret s) tok (issuedClaims lib s now inp TokenTypeAccess (jsAccessTTL s) [])" by blast
  then show ?thesis using assms(2,3)
    by (simp add: GenerateAccessToken_def generateToken_def issuedClaims_def Let_def)
qed

lemma GenerateRefreshToken_ok:
  assumes "jwtLaws lib auth" "ciSubject inp \<noteq> []" "ciTenantID inp \<noteq> []" "plainInput s inp" "plainText jti"
  shows "\<exists>tok. GenerateRefreshToken lib s now (Inr jti) inp = Inr tok \<and>
    auth (jsRefreshSecret s) tok (issuedClaims lib s now inp TokenTypeRefresh (jsRefreshTTL s) jti)"
proof -
  have "plainClaims (issuedClaims lib s now inp TokenTypeRefresh (jsRefreshTTL s) jti)"
    by (rule issued_plain [OF assms(4,5)]) (simp add: plainText_def TokenTypeRefresh_def)
  from jwtLawsD(1) [OF assms(1) this] obtain tok where
    "jlSign lib (jsRefreshSecret s) (issuedClaims lib s now inp TokenTypeRefresh (jsRefreshTTL s) jti) = Inr tok"
    "auth (jsRefreshSecret s) tok (issuedClaims lib s now inp TokenTypeRefresh (jsRefreshTTL s) jti)" by blast
  then show ?thesis using assms(2,3)
    by (simp add: GenerateRefreshToken_def generateToken_def issuedClaims_def Let_def)
qed

lemma issued_times:
  assumes "jwtLaws lib auth" "now \<le> t" "t < jlNumericDate lib (now + ttl)"
  shows "timesOK t (clRegistered (issuedClaims lib s now inp ty ttl jti))"
  using assms jwtLawsD(6) [OF assms(1), of now] by (auto simp: timesOK_def issuedClaims_def)

text \<open>C16: Token round trip. For every subject, tenant, role and permissions of plain text, issuing an
  access token and a refresh token at a time now succeeds; until the rounded expiry of the token,
  ParseAccess of the access token and ParseRefresh of the refresh token give back exactly the issued
  claims, whether the service has one shared key or two, and each of the two tokens is refused in
  the place of the other with the error for a wrong token type.\<close>

theorem token_roundtrip:
  assumes "jwtLaws lib auth" "ciSubject inp \<noteq> []" "ciTenantID inp \<noteq> []" "plainInput s inp"
    "plainText jti" "jti \<noteq> []"
    "\<forall>i < 4. now \<le> clock i \<and> clock i < jlNumericDate lib (now + jsAccessTTL s)
        \<and> clock i < jlNumericDate lib (now + jsRefreshTTL s)"
  shows "\<exists>acc rt. GenerateAccessToken lib s now inp = Inr acc
    \<and> GenerateRefreshToken lib s now (Inr jti) inp = Inr rt
    \<and> ParseAccess lib s clock acc = Inr (issuedClaims lib s now inp TokenTypeAccess (jsAccessTTL s) [])
    \<and> ParseRefresh lib s clock rt = Inr (issuedClaims lib s now inp TokenTypeRefresh (jsRefreshTTL s) jti)
    \<and> ParseRefresh lib s clock acc = Inl (Sys ErrJWTInvalidTokenType)
    \<and> ParseAccess lib s clock rt = Inl (Sys ErrJWTInvalidTokenType)"
proof -
  let ?a = "issuedClaims lib s now inp TokenTypeAccess (jsAccessTTL s) []"
  let ?r = "issuedClaims lib s now inp TokenTypeRefresh (jsRefreshTTL s) jti"
  obtain acc rt where acc: "GenerateAccessToken lib s now inp = Inr acc" "auth (jsAccessSecret s) acc ?a"
    and rt: "GenerateRefreshToken lib s now (Inr jti) inp = Inr rt" "auth (jsRefreshSecret s) rt ?r"
    using GenerateAccessToken_ok [OF assms(1-4)] GenerateRefreshToken_ok [OF assms(1-5)] by blast
  have "parseToken lib s clock acc = Inr ?a"
    by (rule parseToken_ok [OF assms(1) acc(2) issued_acceptable [OF assms(2,3)]])
      (use assms(7) in \<open>auto intro: issued_times [OF assms(1)]\<close>)
  moreover have "parseToken lib s clock rt = Inr ?r"
    by (rule parseToken_ok [OF assms(1) rt(2) issued_acceptable [OF assms(2,3)]])
      (use assms(6,7) in \<open>auto intro: issued_times [OF assms(1)]\<close>)
  moreover have "clTokenType ?a = TokenTypeAccess" "clTokenType ?r = TokenTypeRefresh"
    by (simp_all add: issuedClaims_def)
  ultimately show ?thesis using acc(1) rt(1)
    by (auto simp: ParseAccess_def ParseRefresh_def intro!: exI [of _ acc] exI [of _ rt])
qed

text \<open>C17: Verification is sound. Whatever string is presented, ParseAccess accepts it only if it is
  authentic under one of the two keys of the service, and then the claims it returns are those of
  the token, are of type access, name a subject and a tenant, carry an expiry that lies after a
  reading of the clock taken in this verification, and match the configured issuer and
  audience.\<close>

theorem parse_access_sound:
  assumes "jwtLaws lib auth" "ParseAccess lib s clock tok = Inr cl"
  shows "(auth (jsAccessSecret s) tok cl \<or> auth (jsRefreshSecret s) tok cl)
    \<and> clTokenType cl = TokenTypeAccess \<and> rcSubject (clRegistered cl) \<noteq> [] \<and> clTenantID cl \<noteq> []
    \<and> (\<exists>e i. rcExpiresAt (clRegistered cl) = Some e \<and> i < 4 \<and> clock i < e)
    \<and> (jsIssuer s = [] \<or> rcIssuer (clRegistered cl) = jsIssuer s)
    \<and> (jsAudience s = [] \<or> jsAudience s \<in> set (rcAudience (clRegistered cl)))"
proof -
  from assms(2) have p: "parseToken lib s clock tok = Inr cl" and ty: "clTokenType cl = TokenTypeAccess"
    by (auto simp: ParseAccess_def split: sum.splits if_splits)
  from parseToken_Inr [OF assms(1) p] obtain k i where
    k: "i = 0 \<and> k = jsAccessSecret s \<or> i = 2 \<and> k = jsRefreshSecret s" "auth k tok cl"
    and t: "timesOK (clock i) (clRegistered cl)" and a: "acceptable s cl" by blast
  from a obtain e where e: "rcExpiresAt (clRegistered cl) = Some e" by (auto simp: acceptable_def)
  have "clock i < e" "i < 4" using t e k(1) by (auto simp: timesOK_def)
  moreover have "(jsIssuer s = [] \<or> rcIssuer (clRegistered cl) = jsIssuer s)
      \<and> (jsAudience s = [] \<or> jsAudience s \<in> set (rcAudience (clRegistered cl)))"
    using a by (auto simp: acceptable_def validateIssuerAudience_def list_ex_iff split: if_splits)
  ultimately show ?thesis using k ty e a by (auto simp: acceptable_def)
qed

lemma parseTokenWithKey_identity:
  "parseTokenWithKey lib s clock tok k = Inr cl \<Longrightarrow> rcSubject (clRegistered cl) \<noteq> [] \<and> clTenantID cl \<noteq> []"
  by (auto simp: parseTokenWithKey_def split: sum.splits if_splits option.splits)

lemma parseLoop_identity:
  "parseLoop lib s clock tok ks e = Inr cl \<Longrightarrow> rcSubject (clRegistered cl) \<noteq> [] \<and> clTenantID cl \<noteq> []"
  by (induction ks arbitrary: clock e)
    (auto split: sum.splits dest: parseTokenWithKey_identity)

lemma ParseAccess_identity:
  "ParseAccess lib s clock tok = Inr cl \<Longrightarrow> rcSubject (clRegistered cl) \<noteq> [] \<and> clTenantID cl \<noteq> []"
  by (auto simp: ParseAccess_def parseToken_def split: sum.splits if_splits dest: parseLoop_identity)

text \<open>Nothing runs behind the middleware without a verified identity. For a path that is not
  public, RequireBearerAccessJWT either answers ErrUnauthorized and leaves the world as it was, or the
  Authorization header is a bearer token ParseAccess accepts and the handler runs on the context that
  carries exactly the claims of that token; then the handler finds the tenant and the subject of the
  token on its context.\<close>

theorem middleware_guards:
  assumes "path \<notin> set publicPaths"
  shows "RequireBearerAccessJWT lib s publicPaths clock h path authorization c w = (Inl (App ErrUnauthorized), w)
    \<or> (\<exists>tok cl. GetJWTFromEchoContext authorization = Inr tok \<and> ParseAccess lib s clock tok = Inr cl
        \<and> RequireBearerAccessJWT lib s publicPaths clock h path authorization c w
            = h (ContextWithClaims c (Some cl)) w
        \<and> TenantIDFromContext (ContextWithClaims c (Some cl)) = Inr (clTenantID cl)
        \<and> SubjectFromContext (ContextWithClaims c (Some cl)) = Inr (rcSubject (clRegistered cl)))"
proof (cases "GetJWTFromEchoContext authorization")
  case (Inl e)
  then have "e = App ErrUnauthorized" by (auto simp: GetJWTFromEchoContext_def Let_def split: if_splits)
  with Inl assms show ?thesis by (simp add: RequireBearerAccessJWT_def throw_def)
next
  case (Inr tok)
  show ?thesis
  proof (cases "ParseAccess lib s clock tok")
    case (Inl e)
    with Inr assms show ?thesis by (simp add: RequireBearerAccessJWT_def throw_def)
  next
    fix cl assume cl: "ParseAccess lib s clock tok = Inr cl"
    then have "rcSubject (clRegistered cl) \<noteq> []" "clTenantID cl \<noteq> []"
      using ParseAccess_identity by blast+
    then show ?thesis using cl Inr assms
      by (simp add: RequireBearerAccessJWT_def TenantIDFromContext_def SubjectFromContext_def
          ContextWithClaims_def ClaimsFromContext_def)
  qed
qed

section \<open>An instance of the library\<close>

text \<open>A library that satisfies the laws, for the witnesses: a token spells out the key and the claims,
  each field quoted character by character and closed by a dot; lists are quoted twice and numbers
  are in unary.\<close>

fun encField :: "string \<Rightarrow> string" where
  "encField [] = ''.''"
| "encField (c # s) = CHR ''-'' # c # encField s"

fun decField :: "string \<Rightarrow> (string \<times> string) option" where
  "decField [] = None"
| "decField [x] = (if x = CHR ''.'' then Some ([], []) else None)"
| "decField (x # c # s) = (if x = CHR ''.'' then Some ([], c # s)
     else (case decField s of None \<Rightarrow> None | Some (f, r) \<Rightarrow> Some (c # f, r)))"

definition encFields :: "string list \<Rightarrow> string" where
  "encFields fs = concat (map encField fs)"

fun decFields :: "nat \<Rightarrow> string \<Rightarrow> string list option" where
  "decFields _ [] = Some []"
| "decFields 0 (_ # _) = None"
| "decFields (Suc n) s = (case decField s of
     None \<Rightarrow> None
   | Some (f, r) \<Rightarrow> map_option (\<lambda>fs. f # fs) (decFields n r))"

lemma decField_enc: "decField (encField f @ r) = Some (f, r)"
  by (induction f) (cases r, auto)

lemma length_encField: "0 < length (encField f)"
  by (cases f) auto

lemma decFields_enc: "length (encFields fs) \<le> n \<Longrightarrow> decFields n (encFields fs) = Some fs"
proof (induction fs arbitrary: n)
  case (Cons f fs)
  obtain c s where cs: "encFields (f # fs) = c # s" by (cases f) (auto simp: encFields_def)
  obtain m where m: "n = Suc m" using Cons.prems cs by (cases n) auto
  have "1 \<le> length (encField f)" using length_encField [of f] by linarith
  then have len: "length (encFields fs) \<le> m" using Cons.prems m by (simp add: encFields_def del: length_greater_0_conv)
  have "decField (encFields (f # fs)) = Some (f, encFields fs)"
    using decField_enc [of f "encFields fs"] by (simp add: encFields_def)
  with Cons.IH [OF len] show ?case by (simp add: m cs)
qed (simp add: encFields_def)

definition encInt :: "int \<Rightarrow> string" where
  "encInt i = (if i < 0 then replicate (nat (- i)) (CHR ''-'') else replicate (nat i) (CHR ''+''))"

definition decInt :: "string \<Rightarrow> int" where
  "decInt s = (case s of [] \<Rightarrow> 0 | c # _ \<Rightarrow> if c = CHR ''-'' then - int (length s) else int (length s))"

lemma decInt_enc [simp]: "decInt (encInt i) = i"
  by (cases "nat i"; cases "nat (- i)") (auto simp: encInt_def decInt_def)

fun encTime :: "int option \<Rightarrow> string" where
  "encTime None = []"
| "encTime (Some i) = CHR ''t'' # encInt i"

fun decTime :: "string \<Rightarrow> int option" where
  "decTime [] = None"
| "decTime (_ # s) = Some (decInt s)"

lemma decTime_enc [simp]: "decTime (encTime t) = t"
  by (cases t) auto

definition decList :: "string \<Rightarrow> string list" where
  "decList s = (case decFields (length s) s of Some fs \<Rightarrow> fs | None \<Rightarrow> [])"

lemma decList_enc [simp]: "decList (encFields fs) = fs"
  by (simp add: decList_def decFields_enc)

definition spellToken :: "string \<Rightarrow> Claims \<Rightarrow> string" where
  "spellToken k cl = (let rc = clRegistered cl in encFields
     [k, clTenantID cl, clTokenType cl, clRole cl, encFields (clPermissions cl), rcIssuer rc, rcSubject rc,
      encFields (rcAudience rc), encTime (rcExpiresAt rc), encTime (rcNotBefore rc),
      encTime (rcIssuedAt rc), rcID rc])"

definition readToken :: "string \<Rightarrow> (string \<times> Claims) option" where
  "readToken tok = (case decFields (length tok) tok of
     Some [k, tid, ty, role, perms, iss, sub, aud, e, n, i, jti] \<Rightarrow>
       Some (k, \<lparr>clTenantID = tid, clTokenType = ty, clRole = role, clPermissions = decList perms,
         clRegistered = \<lparr>rcIssuer = iss, rcSubject = sub, rcAudience = decList aud,
           rcExpiresAt = decTime e, rcNotBefore = decTime n, rcIssuedAt = decTime i, rcID = jti\<rparr>\<rparr>)
   | _ \<Rightarrow> None)"

lemma readToken_spell [simp]: "readToken (spellToken k cl) = Some (k, cl)"
  by (simp add: readToken_def spellToken_def Let_def decFields_enc)

definition spellAuth :: "string \<Rightarrow> string \<Rightarrow> Claims \<Rightarrow> bool" where
  "spellAuth k tok cl \<longleftrightarrow> readToken tok = Some (k, cl)"

definition spellValid :: "int \<Rightarrow> Claims \<Rightarrow> string option" where
  "spellValid now cl = (if timesOK now (clRegistered cl) then None else Some ''token is not valid now'')"

text \<open>The precision of its dates is the argument.\<close>

definition spellLib :: "int \<Rightarrow> JWTLib" where
  "spellLib prec = \<lparr>jlSign = (\<lambda>k cl. Inr (spellToken k cl)),
     jlParse = (\<lambda>now tok kf. case readToken tok of
         None \<Rightarrow> Inl (Raw ''token is malformed'')
       | Some (k, cl) \<Rightarrow> (case kf (SigningMethodHMAC ''HS256'') of
             Inl e \<Rightarrow> Inl e
           | Inr key \<Rightarrow> if key = k \<and> spellValid now cl = None then Inr \<lparr>ptValid = True, ptClaims = Some cl\<rparr>
                       else Inl (Raw ''signature is invalid''))),
     jlValid = spellValid, jlNumericDate = (\<lambda>t. t - t mod prec)\<rparr>"

lemma spellLib_laws: "0 < prec \<Longrightarrow> jwtLaws (spellLib prec) spellAuth"
  unfolding jwtLaws_def
  by (auto simp: spellLib_def spellAuth_def spellValid_def keyFunc_def split: option.splits if_splits)

definition spellService :: JWTService where
  "spellService = \<lparr>jsAccessSecret = ''ka'', jsRefreshSecret = ''kr'', jsAccessTTL = 900000000,
     jsRefreshTTL = 86400000000, jsIssuer = ''inventory'', jsAudience = []\<rparr>"

definition spellInput :: ClaimsInput where
  "spellInput = \<lparr>ciSubject = ''u1'', ciTenantID = ''t1'', ciRole = ''owner'', ciPermissions = [''product:read'']\<rparr>"

theorem token_roundtrip_witness:
  "\<exists>acc. GenerateAccessToken (spellLib 1000000) spellService 5000000 spellInput = Inr acc
    \<and> ParseAccess (spellLib 1000000) spellService (\<lambda>i. 6000000 + int i) acc =
        Inr (issuedClaims (spellLib 1000000) spellService 5000000 spellInput TokenTypeAccess 900000000 [])
    \<and> ParseRefresh (spellLib 1000000) spellService (\<lambda>i. 6000000 + int i) acc = Inl (Sys ErrJWTInvalidTokenType)"
proof -
  have pos: "0 < (1000000 :: int)" by simp
  have p: "plainInput spellService spellInput" "plainText ''j1''" by code_simp+
  have i: "ciSubject spellInput \<noteq> []" "ciTenantID spellInput \<noteq> []" "jsAccessTTL spellService = 900000000"
    by (simp_all add: spellInput_def spellService_def)
  have "\<forall>i < 4. 5000000 \<le> 6000000 + int i
      \<and> 6000000 + int i < jlNumericDate (spellLib 1000000) (5000000 + jsAccessTTL spellService)
      \<and> 6000000 + int i < jlNumericDate (spellLib 1000000) (5000000 + jsRefreshTTL spellService)"
    by (auto simp: spellLib_def spellService_def)
  from token_roundtrip [OF spellLib_laws [of 1000000, OF pos] i(1,2) p(1,2) _ this] i(3) show ?thesis by fastforce
qed

theorem parse_access_sound_witness:
  "\<exists>tok cl. ParseAccess (spellLib 1000000) spellService (\<lambda>i. 6000000) tok = Inr cl
    \<and> (spellAuth ''ka'' tok cl \<or> spellAuth ''kr'' tok cl) \<and> clTenantID cl \<noteq> []"
proof -
  have pos: "0 < (1000000 :: int)" by simp
  let ?cl = "issuedClaims (spellLib 1000000) spellService 5000000 spellInput TokenTypeAccess 900000000 []"
  have "ParseAccess (spellLib 1000000) spellService (\<lambda>i. 6000000) (spellToken ''ka'' ?cl) = Inr ?cl"
    by (simp add: ParseAccess_def parseToken_def uniqueSecretKeys_def spellService_def
        parseTokenWithKey_def spellLib_def keyFunc_def spellValid_def timesOK_def issuedClaims_def
        spellInput_def validateIssuerAudience_def)
  from this parse_access_sound [OF spellLib_laws [of 1000000, OF pos] this] show ?thesis
    by (intro exI) (auto simp: spellService_def)
qed

theorem middleware_guards_witness:
  "RequireBearerAccessJWT (spellLib 1000000) spellService [''/health''] (\<lambda>i. 0) (\<lambda>c. ret ()) ''/api/v1/products''
     ''Basic x'' Background () = (Inl (App ErrUnauthorized), ())"
  using middleware_guards [of "''/api/v1/products''" "[''/health'']" "spellLib 1000000" spellService "\<lambda>i. 0"
      "\<lambda>c. ret ()" "''Basic x''" Background "()"]
  by (auto simp: GetJWTFromEchoContext_def BearerPrefix_def)

end
