(* ===== verification/Api_Mappers.thy ===== *)
theory Api_Mappers
  imports Service Tokens Event_Types
begin

text \<open>
  What the HTTP layer of the inventory service does with data (src/services/inventory/api:
  inventory_*_mapper.go, pagination_query.go, and the request types of the generated stub): objects of
  the service become the JSON objects of the API, request bodies and query parameters become inputs
  of the service. The package google/uuid and the decoding and encoding of JSON objects are the
  record ApiLib: alUUID parses a UUID and gives its canonical text, alUnmarshal decodes an object
  (None for null), alMarshal encodes one, alNoObject gives the parse error and the text of a value
  that is no object; alSum256 is SHA-256. A JSON object is a JObj with its fields in the order of the
  struct; a nil pointer is null, or left out where the tag says omitempty.
\<close>

record ApiLib =
  alUUID :: "string \<Rightarrow> err + string"
  alUnmarshal :: "string \<Rightarrow> err + (string \<times> jval) list option"
  alMarshal :: "(string \<times> jval) list \<Rightarrow> err + string"
  alNoObject :: "jval \<Rightarrow> string \<times> string"
  alSum256 :: "string \<Rightarrow> string"

section \<open>Errors in sequence\<close>

fun bindE :: "err + 'a \<Rightarrow> ('a \<Rightarrow> err + 'b) \<Rightarrow> err + 'b" where
  "bindE (Inl e) f = Inl e"
| "bindE (Inr a) f = f a"

fun mapE :: "('a \<Rightarrow> err + 'b) \<Rightarrow> 'a list \<Rightarrow> err + 'b list" where
  "mapE f [] = Inr []"
| "mapE f (x # xs) = bindE (f x) (\<lambda>y. bindE (mapE f xs) (\<lambda>ys. Inr (y # ys)))"

lemma bindE_Inr [simp]: "bindE m f = Inr b \<longleftrightarrow> (\<exists>a. m = Inr a \<and> f a = Inr b)"
  by (cases m) auto

definition parseID :: "ApiLib \<Rightarrow> string \<Rightarrow> string \<Rightarrow> err + string" where
  "parseID lib label s = (case alUUID lib s of
     Inl e \<Rightarrow> Inl (Wrap (label @ '': '' @ errorText e) e)
   | Inr u \<Rightarrow> Inr u)"

definition parseOptID :: "ApiLib \<Rightarrow> string \<Rightarrow> string option \<Rightarrow> err + string option" where
  "parseOptID lib label s = (case s of
     None \<Rightarrow> Inr None
   | Some s \<Rightarrow> bindE (parseID lib label s) (\<lambda>u. Inr (Some u)))"

section \<open>Fields\<close>

definition jTime :: "int option \<Rightarrow> jval" where
  "jTime t = (case t of None \<Rightarrow> JNull | Some t \<Rightarrow> JTime t)"

definition omitStr :: "string \<Rightarrow> string option \<Rightarrow> (string \<times> jval) list" where
  "omitStr k s = (case s of None \<Rightarrow> [] | Some s \<Rightarrow> [(k, JStr s)])"

section \<open>Mappers\<close>

definition categoryRepoToStub :: "ApiLib \<Rightarrow> Category \<Rightarrow> err + jval" where
  "categoryRepoToStub lib c =
    bindE (parseID lib ''category id'' (caID c)) (\<lambda>i.
    bindE (parseID lib ''tenant id'' (caTenantID c)) (\<lambda>tid.
    bindE (parseOptID lib ''parent id'' (caParentID c)) (\<lambda>parent.
    Inr (JObj ([(''created_at'', JTime (caCreatedAt c)), (''deleted_at'', jTime (caDeletedAt c))]
      @ omitStr ''description'' (caDescription c)
      @ [(''id'', JStr i), (''name'', JStr (caName c)), (''parent_id'', optJ parent),
         (''sort_order'', JInt (caSortOrder c)), (''tenant_id'', JStr tid),
         (''updated_at'', JTime (caUpdatedAt c))])))))"

definition warehouseRepoToStub :: "ApiLib \<Rightarrow> Warehouse \<Rightarrow> err + jval" where
  "warehouseRepoToStub lib w =
    bindE (parseID lib ''warehouse id'' (whID w)) (\<lambda>i.
    bindE (parseID lib ''tenant id'' (whTenantID w)) (\<lambda>tid.
    Inr (JObj (omitStr ''address'' (whAddress w)
      @ [(''code'', JStr (whCode w)), (''created_at'', JTime (whCreatedAt w)),
         (''deleted_at'', jTime (whDeletedAt w)), (''id'', JStr i), (''is_active'', JBool (whIsActive w)),
         (''name'', JStr (whName w)), (''tenant_id'', JStr tid), (''updated_at'', JTime (whUpdatedAt w))]))))"

text \<open>An undecodable or null metadata text is shown as the empty object.\<close>

definition metadataToStubMap :: "ApiLib \<Rightarrow> string \<Rightarrow> (string \<times> jval) list" where
  "metadataToStubMap lib raw =
    (if raw = [] then []
     else case alUnmarshal lib raw of Inr (Some m) \<Rightarrow> m | _ \<Rightarrow> [])"

definition metadataFromStub :: "ApiLib \<Rightarrow> (string \<times> jval) list option \<Rightarrow> err + string" where
  "metadataFromStub lib m = (case m of None \<Rightarrow> Inr ''{}'' | Some m \<Rightarrow> alMarshal lib m)"

definition productRepoToStub :: "ApiLib \<Rightarrow> Product \<Rightarrow> err + jval" where
  "productRepoToStub lib p =
    bindE (parseID lib ''product id'' (prID p)) (\<lambda>i.
    bindE (parseID lib ''tenant id'' (prTenantID p)) (\<lambda>tid.
    bindE (parseOptID lib ''category id'' (prCategoryID p)) (\<lambda>cat.
    let meta = AList.update ''current_stock'' (JInt (prCurrentStock p)) (metadataToStubMap lib (prMetadata p))
    in Inr (JObj ([(''category_id'', optJ cat), (''created_at'', JTime (prCreatedAt p)),
         (''deleted_at'', jTime (prDeletedAt p))]
      @ omitStr ''description'' (prDescription p)
      @ [(''id'', JStr i), (''metadata'', JObj meta), (''name'', JStr (prName p)), (''price'', JRat (prPrice p)),
         (''reorder_level'', JInt (prReorderLevel p)), (''sku'', JStr (prSKU p)), (''tenant_id'', JStr tid),
         (''unit'', JStr (prUnit p)), (''updated_at'', JTime (prUpdatedAt p))])))))"

definition uuidPtrFromStringOptional :: "ApiLib \<Rightarrow> string option \<Rightarrow> string option" where
  "uuidPtrFromStringOptional lib s = (case s of None \<Rightarrow> None | Some s \<Rightarrow>
     if TrimSpace s = [] then None
     else case alUUID lib (TrimSpace s) of Inl _ \<Rightarrow> None | Inr u \<Rightarrow> Some u)"

definition movementLineRepoToStub :: "ApiLib \<Rightarrow> MovementLine \<Rightarrow> err + jval" where
  "movementLineRepoToStub lib l =
    bindE (alUUID lib (mlID l)) (\<lambda>i.
    bindE (alUUID lib (mlMovementID l)) (\<lambda>mid.
    bindE (alUUID lib (mlProductID l)) (\<lambda>pid.
    Inr (JObj [(''created_at'', JTime (mlCreatedAt l)), (''id'', JStr i), (''movement_id'', JStr mid),
      (''notes'', optJ (mlNotes l)), (''product_id'', JStr pid), (''quantity'', JInt (mlQuantity l))]))))"

definition movementRepoToStub :: "ApiLib \<Rightarrow> Movement \<Rightarrow> err + jval" where
  "movementRepoToStub lib m =
    bindE (parseID lib ''movement id'' (mvID m)) (\<lambda>i.
    bindE (parseID lib ''tenant id'' (mvTenantID m)) (\<lambda>tid.
    bindE (parseID lib ''created_by'' (mvCreatedBy m)) (\<lambda>creator.
    bindE (mapE (movementLineRepoToStub lib) (mvLines m)) (\<lambda>ls.
    Inr (JObj ([(''created_at'', JTime (mvCreatedAt m)), (''created_by'', JStr creator),
        (''destination_warehouse_id'', optJ (uuidPtrFromStringOptional lib (mvDestinationWarehouseID m))),
        (''id'', JStr i), (''idempotency_key'', optJ (mvIdempotencyKey m)),
        (''idempotency_request_hash'', optJ (mvIdempotencyRequestHash m))]
      @ (if ls = [] then [] else [(''lines'', JArr ls)])
      @ [(''notes'', optJ (mvNotes m)), (''reference_number'', JStr (mvReferenceNumber m)),
        (''source_warehouse_id'', optJ (uuidPtrFromStringOptional lib (mvSourceWarehouseID m))),
        (''status'', JStr (mvStatus m)), (''tenant_id'', JStr tid), (''type'', JStr (mvType m)),
        (''updated_at'', JTime (mvUpdatedAt m))]))))))"

text \<open>A stored snapshot as a Go map behind a pointer: None for a nil pointer, Some None for a pointer to
  a nil map, which the JSON null gives. A value that is no object is shown under _raw.\<close>

definition jsonRawToIfaceMapPtr :: "ApiLib \<Rightarrow> jval option \<Rightarrow> (string \<times> jval) list option option" where
  "jsonRawToIfaceMapPtr lib b = (case b of
     None \<Rightarrow> None
   | Some (JObj m) \<Rightarrow> Some (Some m)
   | Some JNull \<Rightarrow> Some None
   | Some v \<Rightarrow> Some (Some [(''_parse_error'', JStr (fst (alNoObject lib v))), (''_raw'', JStr (snd (alNoObject lib v)))]))"

definition jMapPtr :: "(string \<times> jval) list option option \<Rightarrow> jval" where
  "jMapPtr p = (case p of Some (Some m) \<Rightarrow> JObj m | _ \<Rightarrow> JNull)"

text \<open>The name of the user is written into the map of the after snapshot; a write to a nil map panics.\<close>

definition afterWithUser :: "string option \<Rightarrow> (string \<times> jval) list option option \<Rightarrow> err + (string \<times> jval) list option option" where
  "afterWithUser name after =
    (if name = None \<or> name = Some [] then Inr after
     else case after of
       None \<Rightarrow> Inr (Some (Some [(''user_name'', optJ name)]))
     | Some (Some m) \<Rightarrow> Inr (Some (Some (AList.update ''user_name'' (optJ name) m)))
     | Some None \<Rightarrow> Inl (Panic ''assignment to entry in nil map''))"

definition auditEntryToStub :: "ApiLib \<Rightarrow> Entry \<Rightarrow> err + jval" where
  "auditEntryToStub lib e =
    bindE (parseID lib ''audit id'' (enID e)) (\<lambda>i.
    bindE (parseID lib ''tenant id'' (enTenantID e)) (\<lambda>tid.
    bindE (parseID lib ''entity id'' (enEntityID e)) (\<lambda>eid.
    bindE (if enUserID e = Some [] then Inr None else parseOptID lib ''user id'' (enUserID e)) (\<lambda>uid.
    let bef = jsonRawToIfaceMapPtr lib (enBeforeData e) in
    bindE (afterWithUser (enUserName e) (jsonRawToIfaceMapPtr lib (enAfterData e))) (\<lambda>after.
    Inr (JObj [(''action'', JStr (enAction e)), (''after_data'', jMapPtr after), (''before_data'', jMapPtr bef),
      (''created_at'', JTime (enCreatedAt e)), (''entity'', JStr (enEntity e)), (''entity_id'', JStr eid),
      (''id'', JStr i), (''ip_address'', optJ (enIPAddress e)), (''request_id'', optJ (enRequestID e)),
      (''tenant_id'', JStr tid), (''user_agent'', optJ (enUserAgent e)), (''user_id'', optJ uid)]))))))"

section \<open>Requests\<close>

text \<open>An HTTP request: method, path and the pattern of the route the router matched with its path
  parameters (no pattern for a path that is not registered), the query, the headers the code reads
  (every value given for Idempotency-Key), the body or the error of reading it, and the request id
  the RequestID middleware put on the response.\<close>

record httpReq =
  hqMethod :: string
  hqPath :: string
  hqRoute :: "string option"
  hqParams :: "(string \<times> string) list"
  hqQuery :: "(string \<times> string) list"
  hqAuthorization :: string
  hqIdempotencyKey :: "string list option"
  hqBody :: "string + string"
  hqResponseID :: string
  hqRequestID :: string
  hqIP :: string
  hqUserAgent :: string

definition QueryParam :: "httpReq \<Rightarrow> string \<Rightarrow> string" where
  "QueryParam rq k = (case map_of (hqQuery rq) k of None \<Rightarrow> [] | Some v \<Rightarrow> v)"

definition parsePositiveQueryInt :: "httpReq \<Rightarrow> string \<Rightarrow> int" where
  "parsePositiveQueryInt rq key =
    (let raw = TrimSpace (QueryParam rq key)
     in if raw = [] then 0
        else case Atoi raw of None \<Rightarrow> 0 | Some n \<Rightarrow> if n < 1 then 0 else n)"

definition resolvePagePerPage :: "httpReq \<Rightarrow> int option \<Rightarrow> int option \<Rightarrow> int \<times> int" where
  "resolvePagePerPage rq pageParam perPageParam =
    (let page = (case pageParam of
           Some p \<Rightarrow> if p > 0 then p else 1
         | None \<Rightarrow> let qp = parsePositiveQueryInt rq ''page'' in if qp > 0 then qp else 1);
         perPage = (case perPageParam of
           Some p \<Rightarrow> if p > 0 then p else 10
         | None \<Rightarrow> let qp = parsePositiveQueryInt rq ''per_page'' in if qp > 0 then qp else 10)
     in (page, perPage))"

record ListParams =
  gpPage :: "int option"
  gpPerPage :: "int option"
  gpSearch :: "string option"
  gpSort :: "string option"
  gpOrder :: "string option"

record ProductListParams = ListParams +
  gpCategoryId :: "string option"

record MovementListParams = ListParams +
  gpType :: "string option"
  gpStatus :: "string option"

record AuditListParams =
  gaPage :: "int option"
  gaPerPage :: "int option"
  gaEntity :: "string option"
  gaEntityId :: "string option"
  gaAction :: "string option"
  gaUserId :: "string option"
  gaCreatedFrom :: "int option"
  gaCreatedTo :: "int option"

record CategoryCreateRequest =
  ccrDescription :: "string option"
  ccrName :: string
  ccrParentId :: "string option"
  ccrSortOrder :: "int option"

record CategoryUpdateRequest =
  curDescription :: "string option"
  curName :: "string option"
  curParentId :: "string option"
  curSortOrder :: "int option"

record ProductCreateRequest =
  pcrCategoryId :: "string option"
  pcrDescription :: "string option"
  pcrMetadata :: "(string \<times> jval) list option"
  pcrName :: string
  pcrPrice :: "rat option"
  pcrReorderLevel :: "int option"
  pcrSku :: string
  pcrUnit :: "string option"

record ProductUpdateRequest =
  purCategoryId :: "string option"
  purDescription :: "string option"
  purMetadata :: "(string \<times> jval) list option"
  purName :: "string option"
  purPrice :: "rat option"
  purReorderLevel :: "int option"
  purSku :: "string option"
  purUnit :: "string option"

record WarehouseCreateRequest =
  wcrAddress :: "string option"
  wcrCode :: string
  wcrIsActive :: "bool option"
  wcrName :: string

record WarehouseUpdateRequest =
  wurAddress :: "string option"
  wurCode :: "string option"
  wurIsActive :: "bool option"
  wurName :: "string option"

record MovementLineCreate =
  lcNotes :: "string option"
  lcProductId :: string
  lcQuantity :: int

text \<open>The four bodies of movement creations share their fields; the endpoint says which warehouses it
  requires.\<close>

record MovementCreateRequest =
  mrLines :: "MovementLineCreate list"
  mrNotes :: "string option"
  mrReferenceNumber :: string

record InboundMovementCreateRequest = MovementCreateRequest +
  mrDestinationWarehouseId :: string

record OutboundMovementCreateRequest = MovementCreateRequest +
  moSourceWarehouseId :: string

record TransferMovementCreateRequest = MovementCreateRequest +
  mtSourceWarehouseId :: string
  mtDestinationWarehouseId :: string

record AdjustmentMovementCreateRequest = MovementCreateRequest +
  maSourceWarehouseId :: "string option"
  maDestinationWarehouseId :: "string option"

definition linesFromStub :: "MovementLineCreate list \<Rightarrow> LineInput list" where
  "linesFromStub ls = map (\<lambda>l. \<lparr>liProductID = lcProductId l, liQuantity = lcQuantity l, liNotes = lcNotes l\<rparr>) ls"

end
