(* ===== verification/Api_Handlers.thy ===== *)
theory Api_Handlers
  imports Api_Mappers
begin

text \<open>
  The HTTP handlers of the inventory service (src/services/inventory/api: handlers_*.go) and the
  fingerprint of request bodies (src/pkg/idempotency). A handler is a program that ends with the
  response it wrote or with the error it returned, which the error handler of the server answers. The
  decoding of JSON bodies and the binding of query, path and header parameters belong to echo and
  to the runtime of oapi-codegen: they are the record BindLib. A UUID is its canonical text, so the
  conversions between UUIDs and strings are left out.
\<close>

record BindLib =
  bqInt :: "httpReq \<Rightarrow> string \<Rightarrow> err + int option"
  bqStr :: "httpReq \<Rightarrow> string \<Rightarrow> err + string option"
  bqUUID :: "httpReq \<Rightarrow> string \<Rightarrow> err + string option"
  bqTime :: "httpReq \<Rightarrow> string \<Rightarrow> err + int option"
  bpStr :: "httpReq \<Rightarrow> string \<Rightarrow> err + string"
  bpUUID :: "httpReq \<Rightarrow> string \<Rightarrow> err + string"
  bhStr :: "string \<Rightarrow> string \<Rightarrow> err + string"
  bdCategoryCreate :: "httpReq \<Rightarrow> string + CategoryCreateRequest"
  bdCategoryUpdate :: "httpReq \<Rightarrow> string + CategoryUpdateRequest"
  bdProductCreate :: "httpReq \<Rightarrow> string + ProductCreateRequest"
  bdProductUpdate :: "httpReq \<Rightarrow> string + ProductUpdateRequest"
  bdWarehouseCreate :: "httpReq \<Rightarrow> string + WarehouseCreateRequest"
  bdWarehouseUpdate :: "httpReq \<Rightarrow> string + WarehouseUpdateRequest"
  bdInbound :: "httpReq \<Rightarrow> string + InboundMovementCreateRequest"
  bdOutbound :: "httpReq \<Rightarrow> string + OutboundMovementCreateRequest"
  bdTransfer :: "httpReq \<Rightarrow> string + TransferMovementCreateRequest"
  bdAdjustment :: "httpReq \<Rightarrow> string + AdjustmentMovementCreateRequest"

section \<open>Responses\<close>

datatype httpResp =
    HSuccess int "jval APISuccessEnvelope"
  | HError int APIErrorEnvelope
  | HNoContent int
  | HText int string
  | HJSON int jval

type_synonym 'w handler = "('w, httpResp) prog"

definition httpErr :: "int \<Rightarrow> string \<Rightarrow> err" where
  "httpErr code msg = Echo \<lparr>heCode = code, heMessage = EMString msg\<rparr>"

definition writeError :: "httpReq \<Rightarrow> err \<Rightarrow> httpResp" where
  "writeError rq e = (case WriteHTTPError (hqResponseID rq) (hqRequestID rq) (Some e) of
     Some (status, env) \<Rightarrow> HError status env
   | None \<Rightarrow> HNoContent 200)"

definition Fail :: "httpReq \<Rightarrow> err \<Rightarrow> 'w handler" where
  "Fail rq e = ret (writeError rq e)"

definition sendOK :: "httpReq \<Rightarrow> int \<Rightarrow> jval \<Rightarrow> 'w handler" where
  "sendOK rq status d = ret (case OK (hqResponseID rq) (hqRequestID rq) status d of (s, env) \<Rightarrow> HSuccess s env)"

definition sendList :: "httpReq \<Rightarrow> jval list \<Rightarrow> 'a ListOutput \<Rightarrow> 'w handler" where
  "sendList rq d out =
    (let pg = \<lparr>pmPage = loPage out, pmPerPage = loPerPage out, pmTotal = loTotal out,
               pmTotalPages = ComputeTotalPages (loTotal out) (loPerPage out)\<rparr>
     in ret (case OKList (hqResponseID rq) (hqRequestID rq) 200 (JArr d) pg of (s, env) \<Rightarrow> HSuccess s env))"

text \<open>A call of the service whose error goes to Fail; a body that may not bind; the two ways the
  handlers report an object the mappers reject: as an internal error, or returned as a 500.\<close>

definition callSvc :: "httpReq \<Rightarrow> ('w, 'a) prog \<Rightarrow> ('a \<Rightarrow> 'w handler) \<Rightarrow> 'w handler" where
  "callSvc rq m k = bindM (tryM m) (\<lambda>r. case r of Inl e \<Rightarrow> Fail rq e | Inr a \<Rightarrow> k a)"

definition withBody :: "string + 'b \<Rightarrow> ('b \<Rightarrow> 'w handler) \<Rightarrow> 'w handler" where
  "withBody r k = (case r of Inl msg \<Rightarrow> throw (httpErr 400 msg) | Inr body \<Rightarrow> k body)"

definition orInternal :: "httpReq \<Rightarrow> err + 'b \<Rightarrow> ('b \<Rightarrow> 'w handler) \<Rightarrow> 'w handler" where
  "orInternal rq r k = (case r of Inl e \<Rightarrow> Fail rq (App ErrInternal) | Inr row \<Rightarrow> k row)"

definition or500 :: "err + 'b \<Rightarrow> ('b \<Rightarrow> 'w handler) \<Rightarrow> 'w handler" where
  "or500 r k = (case r of
     Inl (Panic s) \<Rightarrow> throw (Panic s)
   | Inl e \<Rightarrow> throw (httpErr 500 (errorText e))
   | Inr row \<Rightarrow> k row)"

section \<open>Categories\<close>

definition GetApiV1InventoryCategories :: "ApiLib \<Rightarrow> httpReq \<Rightarrow> ctx \<Rightarrow> ListParams \<Rightarrow> world handler" where
  "GetApiV1InventoryCategories lib rq c params =
    (let (page, perPage) = resolvePagePerPage rq (gpPage params) (gpPerPage params) in
     callSvc rq (ListCategories c \<lparr>lwPage = Some page, lwPerPage = Some perPage, lwSearch = gpSearch params,
         lwSort = gpSort params, lwOrder = gpOrder params\<rparr>) (\<lambda>out.
     orInternal rq (mapE (categoryRepoToStub lib) (loItems out)) (\<lambda>rows. sendList rq rows out)))"

definition PostApiV1InventoryCategories :: "ApiLib \<Rightarrow> BindLib \<Rightarrow> httpReq \<Rightarrow> ctx \<Rightarrow> world handler" where
  "PostApiV1InventoryCategories lib bl rq c =
    withBody (bdCategoryCreate bl rq) (\<lambda>body.
    callSvc rq (CreateCategory c \<lparr>cciName = ccrName body, cciDescription = ccrDescription body,
        cciParentID = ccrParentId body, cciSortOrder = ccrSortOrder body\<rparr>) (\<lambda>cat.
    orInternal rq (categoryRepoToStub lib cat) (sendOK rq 201)))"

definition PutApiV1InventoryCategoriesCategoryId ::
    "ApiLib \<Rightarrow> BindLib \<Rightarrow> httpReq \<Rightarrow> ctx \<Rightarrow> string \<Rightarrow> world handler" where
  "PutApiV1InventoryCategoriesCategoryId lib bl rq c categoryId =
    withBody (bdCategoryUpdate bl rq) (\<lambda>body.
    callSvc rq (UpdateCategory c categoryId \<lparr>cuiName = curName body, cuiDescription = curDescription body,
        cuiParentID = curParentId body, cuiSortOrder = curSortOrder body\<rparr>) (\<lambda>cat.
    orInternal rq (categoryRepoToStub lib cat) (sendOK rq 200)))"

definition DeleteApiV1InventoryCategoriesCategoryId :: "httpReq \<Rightarrow> ctx \<Rightarrow> string \<Rightarrow> world handler" where
  "DeleteApiV1InventoryCategoriesCategoryId rq c categoryId =
    callSvc rq (DeleteCategory c categoryId) (\<lambda>_. ret (HNoContent 204))"

definition GetApiV1InventoryCategoriesCategoryId :: "ApiLib \<Rightarrow> httpReq \<Rightarrow> ctx \<Rightarrow> string \<Rightarrow> world handler" where
  "GetApiV1InventoryCategoriesCategoryId lib rq c categoryId =
    callSvc rq (GetCategory c categoryId) (\<lambda>x. orInternal rq (categoryRepoToStub lib x) (sendOK rq 200))"

section \<open>Products\<close>

definition GetApiV1InventoryProducts :: "ApiLib \<Rightarrow> httpReq \<Rightarrow> ctx \<Rightarrow> ProductListParams \<Rightarrow> world handler" where
  "GetApiV1InventoryProducts lib rq c params =
    (let (page, perPage) = resolvePagePerPage rq (gpPage params) (gpPerPage params) in
     callSvc rq (ListProducts c \<lparr>lpPage = Some page, lpPerPage = Some perPage, lpSearch = gpSearch params,
         lpSort = gpSort params, lpOrder = gpOrder params, lpCategoryID = gpCategoryId params\<rparr>) (\<lambda>out.
     orInternal rq (mapE (productRepoToStub lib) (loItems out)) (\<lambda>rows. sendList rq rows out)))"

definition PostApiV1InventoryProducts :: "ApiLib \<Rightarrow> BindLib \<Rightarrow> httpReq \<Rightarrow> ctx \<Rightarrow> world handler" where
  "PostApiV1InventoryProducts lib bl rq c =
    withBody (bdProductCreate bl rq) (\<lambda>body.
    case metadataFromStub lib (pcrMetadata body) of
      Inl e \<Rightarrow> throw (httpErr 400 (errorText e))
    | Inr metaRaw \<Rightarrow>
        callSvc rq (CreateProduct c \<lparr>pciCategoryID = pcrCategoryId body, pciSKU = pcrSku body,
            pciName = pcrName body, pciDescription = pcrDescription body, pciUnit = pcrUnit body,
            pciPrice = pcrPrice body, pciReorderLevel = pcrReorderLevel body, pciMetadata = metaRaw\<rparr>) (\<lambda>p.
        orInternal rq (productRepoToStub lib p) (sendOK rq 201)))"

definition PutApiV1InventoryProductsProductId ::
    "ApiLib \<Rightarrow> BindLib \<Rightarrow> httpReq \<Rightarrow> ctx \<Rightarrow> string \<Rightarrow> world handler" where
  "PutApiV1InventoryProductsProductId lib bl rq c productId =
    withBody (bdProductUpdate bl rq) (\<lambda>body.
    case (case purMetadata body of
            None \<Rightarrow> Inr None
          | Some m \<Rightarrow> bindE (metadataFromStub lib (Some m)) (\<lambda>metaRaw. Inr (Some metaRaw))) of
      Inl e \<Rightarrow> throw (httpErr 400 (errorText e))
    | Inr meta \<Rightarrow>
        callSvc rq (UpdateProduct c productId \<lparr>puiCategoryID = purCategoryId body, puiSKU = purSku body,
            puiName = purName body, puiDescription = purDescription body, puiUnit = purUnit body,
            puiPrice = purPrice body, puiReorderLevel = purReorderLevel body, puiMetadata = meta\<rparr>) (\<lambda>p.
        orInternal rq (productRepoToStub lib p) (sendOK rq 200)))"

definition DeleteApiV1InventoryProductsProductId :: "httpReq \<Rightarrow> ctx \<Rightarrow> string \<Rightarrow> world handler" where
  "DeleteApiV1InventoryProductsProductId rq c productId =
    callSvc rq (DeleteProduct c productId) (\<lambda>_. ret (HNoContent 204))"

definition GetApiV1InventoryProductsProductId :: "ApiLib \<Rightarrow> httpReq \<Rightarrow> ctx \<Rightarrow> string \<Rightarrow> world handler" where
  "GetApiV1InventoryProductsProductId lib rq c productId =
    callSvc rq (GetProduct c productId) (\<lambda>x. orInternal rq (productRepoToStub lib x) (sendOK rq 200))"

definition PostApiV1InventoryProductsProductIdRestore :: "ApiLib \<Rightarrow> httpReq \<Rightarrow> ctx \<Rightarrow> string \<Rightarrow> world handler" where
  "PostApiV1InventoryProductsProductIdRestore lib rq c productId =
    callSvc rq (RestoreProduct c productId) (\<lambda>x. orInternal rq (productRepoToStub lib x) (sendOK rq 200))"

section \<open>Warehouses\<close>

definition GetApiV1InventoryWarehouses :: "ApiLib \<Rightarrow> httpReq \<Rightarrow> ctx \<Rightarrow> ListParams \<Rightarrow> world handler" where
  "GetApiV1InventoryWarehouses lib rq c params =
    (let (page, perPage) = resolvePagePerPage rq (gpPage params) (gpPerPage params) in
     callSvc rq (ListWarehouses c \<lparr>lwPage = Some page, lwPerPage = Some perPage, lwSearch = gpSearch params,
         lwSort = gpSort params, lwOrder = gpOrder params\<rparr>) (\<lambda>out.
     orInternal rq (mapE (warehouseRepoToStub lib) (loItems out)) (\<lambda>rows. sendList rq rows out)))"

definition PostApiV1InventoryWarehouses :: "ApiLib \<Rightarrow> BindLib \<Rightarrow> httpReq \<Rightarrow> ctx \<Rightarrow> world handler" where
  "PostApiV1InventoryWarehouses lib bl rq c =
    withBody (bdWarehouseCreate bl rq) (\<lambda>body.
    callSvc rq (CreateWarehouse c \<lparr>ciCode = wcrCode body, ciName = wcrName body,
        ciAddress = wcrAddress body, ciIsActive = wcrIsActive body\<rparr>) (\<lambda>x.
    orInternal rq (warehouseRepoToStub lib x) (sendOK rq 201)))"

definition PutApiV1InventoryWarehousesWarehouseId ::
    "ApiLib \<Rightarrow> BindLib \<Rightarrow> httpReq \<Rightarrow> ctx \<Rightarrow> string \<Rightarrow> world handler" where
  "PutApiV1InventoryWarehousesWarehouseId lib bl rq c warehouseId =
    withBody (bdWarehouseUpdate bl rq) (\<lambda>body.
    callSvc rq (UpdateWarehouse c warehouseId \<lparr>uiCode = wurCode body, uiName = wurName body,
        uiAddress = wurAddress body, uiIsActive = wurIsActive body\<rparr>) (\<lambda>x.
    orInternal rq (warehouseRepoToStub lib x) (sendOK rq 200)))"

definition DeleteApiV1InventoryWarehousesWarehouseId :: "httpReq \<Rightarrow> ctx \<Rightarrow> string \<Rightarrow> world handler" where
  "DeleteApiV1InventoryWarehousesWarehouseId rq c warehouseId =
    callSvc rq (DeleteWarehouse c warehouseId) (\<lambda>_. ret (HNoContent 204))"

definition GetApiV1InventoryWarehousesWarehouseId :: "ApiLib \<Rightarrow> httpReq \<Rightarrow> ctx \<Rightarrow> string \<Rightarrow> world handler" where
  "GetApiV1InventoryWarehousesWarehouseId lib rq c warehouseId =
    callSvc rq (GetWarehouse c warehouseId) (\<lambda>x. orInternal rq (warehouseRepoToStub lib x) (sendOK rq 200))"

section \<open>Movements\<close>

text \<open>hex.EncodeToString on a text as bytes.\<close>

definition hexDigit :: "nat \<Rightarrow> char" where
  "hexDigit n = (if n < 10 then char_of (48 + n) else char_of (87 + n))"

fun hexEncode :: "string \<Rightarrow> string" where
  "hexEncode [] = []"
| "hexEncode (b # bs) = hexDigit ((of_char b :: nat) div 16) # hexDigit ((of_char b :: nat) mod 16) # hexEncode bs"

definition SHA256Hex :: "ApiLib \<Rightarrow> string \<Rightarrow> string" where
  "SHA256Hex lib raw = hexEncode (alSum256 lib raw)"

text \<open>The body is read once, bound from the bytes read, and fingerprinted.\<close>

definition readBindRawBodyMovementHash ::
    "ApiLib \<Rightarrow> (httpReq \<Rightarrow> string + 'b) \<Rightarrow> httpReq \<Rightarrow> string + 'b \<times> string" where
  "readBindRawBodyMovementHash lib dst rq = (case hqBody rq of
     Inl msg \<Rightarrow> Inl msg
   | Inr raw \<Rightarrow> (case dst rq of Inl msg \<Rightarrow> Inl msg | Inr body \<Rightarrow> Inr (body, SHA256Hex lib raw)))"

definition movementBase :: "'a MovementCreateRequest_scheme \<Rightarrow> string \<Rightarrow> string \<Rightarrow> CreateMovementBase" where
  "movementBase body key bodyHash =
    \<lparr>cbReferenceNumber = mrReferenceNumber body, cbNotes = mrNotes body,
     cbLines = linesFromStub (mrLines body), cbIdempotencyKey = key, cbRequestHashSHA256Hex = bodyHash\<rparr>"

definition GetApiV1InventoryMovements :: "ApiLib \<Rightarrow> httpReq \<Rightarrow> ctx \<Rightarrow> MovementListParams \<Rightarrow> world handler" where
  "GetApiV1InventoryMovements lib rq c params =
    (let (page, perPage) = resolvePagePerPage rq (gpPage params) (gpPerPage params);
         search = (case gpSearch params of None \<Rightarrow> [] | Some s \<Rightarrow> s) in
     callSvc rq (ListMovements c \<lparr>lmPage = Some page, lmPerPage = Some perPage, lmType = gpType params,
         lmStatus = gpStatus params, lmSearch = Some search, lmSort = gpSort params,
         lmOrder = gpOrder params\<rparr>) (\<lambda>out.
     or500 (mapE (movementRepoToStub lib) (loItems out)) (\<lambda>rows. sendList rq rows out)))"

definition GetApiV1InventoryMovementsMovementId :: "ApiLib \<Rightarrow> httpReq \<Rightarrow> ctx \<Rightarrow> string \<Rightarrow> world handler" where
  "GetApiV1InventoryMovementsMovementId lib rq c movementId =
    callSvc rq (GetMovement c movementId) (\<lambda>x. or500 (movementRepoToStub lib x) (sendOK rq 200))"

definition PostApiV1InventoryMovementsInbound :: "ApiLib \<Rightarrow> BindLib \<Rightarrow> httpReq \<Rightarrow> ctx \<Rightarrow> string \<Rightarrow> world handler" where
  "PostApiV1InventoryMovementsInbound lib bl rq c idempotencyKey =
    withBody (readBindRawBodyMovementHash lib (bdInbound bl) rq) (\<lambda>(body, bodyHash).
    callSvc rq (CreateInbound c (mrDestinationWarehouseId body) (movementBase body idempotencyKey bodyHash)) (\<lambda>m.
    or500 (movementRepoToStub lib m) (sendOK rq 201)))"

definition PostApiV1InventoryMovementsOutbound :: "ApiLib \<Rightarrow> BindLib \<Rightarrow> httpReq \<Rightarrow> ctx \<Rightarrow> string \<Rightarrow> world handler" where
  "PostApiV1InventoryMovementsOutbound lib bl rq c idempotencyKey =
    withBody (readBindRawBodyMovementHash lib (bdOutbound bl) rq) (\<lambda>(body, bodyHash).
    callSvc rq (CreateOutbound c (moSourceWarehouseId body) (movementBase body idempotencyKey bodyHash)) (\<lambda>m.
    or500 (movementRepoToStub lib m) (sendOK rq 201)))"

definition PostApiV1InventoryMovementsTransfer :: "ApiLib \<Rightarrow> BindLib \<Rightarrow> httpReq \<Rightarrow> ctx \<Rightarrow> string \<Rightarrow> world handler" where
  "PostApiV1InventoryMovementsTransfer lib bl rq c idempotencyKey =
    withBody (readBindRawBodyMovementHash lib (bdTransfer bl) rq) (\<lambda>(body, bodyHash).
    callSvc rq (CreateTransfer c (mtSourceWarehouseId body) (mtDestinationWarehouseId body) (movementBase body idempotencyKey bodyHash)) (\<lambda>m.
    or500 (movementRepoToStub lib m) (sendOK rq 201)))"

definition PostApiV1InventoryMovementsAdjustment :: "ApiLib \<Rightarrow> BindLib \<Rightarrow> httpReq \<Rightarrow> ctx \<Rightarrow> string \<Rightarrow> world handler" where
  "PostApiV1InventoryMovementsAdjustment lib bl rq c idempotencyKey =
    withBody (readBindRawBodyMovementHash lib (bdAdjustment bl) rq) (\<lambda>(body, bodyHash).
    callSvc rq (CreateAdjustment c (maSourceWarehouseId body) (maDestinationWarehouseId body) (movementBase body idempotencyKey bodyHash)) (\<lambda>m.
    or500 (movementRepoToStub lib m) (sendOK rq 201)))"

definition PostApiV1InventoryMovementsMovementIdConfirm :: "ApiLib \<Rightarrow> httpReq \<Rightarrow> ctx \<Rightarrow> string \<Rightarrow> world handler" where
  "PostApiV1InventoryMovementsMovementIdConfirm lib rq c movementId =
    callSvc rq (ConfirmMovement c movementId) (\<lambda>x. or500 (movementRepoToStub lib x) (sendOK rq 200))"

definition PostApiV1InventoryMovementsMovementIdCancel :: "ApiLib \<Rightarrow> httpReq \<Rightarrow> ctx \<Rightarrow> string \<Rightarrow> world handler" where
  "PostApiV1InventoryMovementsMovementIdCancel lib rq c movementId =
    callSvc rq (CancelMovement c movementId) (\<lambda>x. or500 (movementRepoToStub lib x) (sendOK rq 200))"

section \<open>Audit logs\<close>

definition GetApiV1InventoryAuditLogs :: "ApiLib \<Rightarrow> httpReq \<Rightarrow> ctx \<Rightarrow> AuditListParams \<Rightarrow> world handler" where
  "GetApiV1InventoryAuditLogs lib rq c params =
    (let (page, perPage) = resolvePagePerPage rq (gaPage params) (gaPerPage params) in
     callSvc rq (ListAuditLogs c \<lparr>liaPage = Some page, liaPerPage = Some perPage,
         liaEntity = gaEntity params, liaEntityID = gaEntityId params, liaAction = gaAction params,
         liaUserID = gaUserId params, liaCreatedFrom = gaCreatedFrom params,
         liaCreatedTo = gaCreatedTo params\<rparr>) (\<lambda>out.
     or500 (mapE (auditEntryToStub lib) (loItems out)) (\<lambda>rows. sendList rq rows out)))"

definition GetApiV1InventoryAuditLogsAuditEntityAuditEntityId ::
    "ApiLib \<Rightarrow> httpReq \<Rightarrow> ctx \<Rightarrow> string \<Rightarrow> string \<Rightarrow> int option \<Rightarrow> int option \<Rightarrow> world handler" where
  "GetApiV1InventoryAuditLogsAuditEntityAuditEntityId lib rq c auditEntity auditEntityId pageParam perPageParam =
    (let (page, perPage) = resolvePagePerPage rq pageParam perPageParam in
     callSvc rq (ListAuditLogs c \<lparr>liaPage = Some page, liaPerPage = Some perPage,
         liaEntity = Some auditEntity, liaEntityID = Some auditEntityId, liaAction = None,
         liaUserID = None, liaCreatedFrom = None, liaCreatedTo = None\<rparr>) (\<lambda>out.
     or500 (mapE (auditEntryToStub lib) (loItems out)) (\<lambda>rows. sendList rq rows out)))"

section \<open>Dashboard\<close>

definition GetApiV1InventoryDashboardSummary :: "httpReq \<Rightarrow> ctx \<Rightarrow> world handler" where
  "GetApiV1InventoryDashboardSummary rq c =
    callSvc rq (GetDashboardSummary c) (\<lambda>s.
    sendOK rq 200 (JObj [(''low_stock_count'', JInt (suLowStockCount s)),
      (''movements_today'', JInt (suMovementsToday s)), (''total_products'', JInt (suTotalProducts s)),
      (''total_warehouses'', JInt (suTotalWarehouses s))]))"

text \<open>time.Parse with the layout 2006-01-02, and the text of a date.\<close>

definition parseDateOnly :: "string \<Rightarrow> (int \<times> int \<times> int) option" where
  "parseDateOnly s =
     Option.bind (takeDec 4 s) (\<lambda>(y, s).
     Option.bind (takeChar (CHR ''-'') s) (\<lambda>s.
     Option.bind (takeDec 2 s) (\<lambda>(m, s).
     Option.bind (takeChar (CHR ''-'') s) (\<lambda>s.
     Option.bind (takeDec 2 s) (\<lambda>(d, s).
     if s = [] \<and> 1 \<le> m \<and> m \<le> 12 \<and> 1 \<le> d \<and> d \<le> daysIn y m then Some (y, m, d) else None)))))"

definition chartPointToStub :: "MovementChartPoint \<Rightarrow> jval option" where
  "chartPointToStub p = (case parseDateOnly (mcpBucketStart p) of
     None \<Rightarrow> None
   | Some (y, m, d) \<Rightarrow> Some (JObj [(''bucket_start'', JStr (dateText y m d)),
       (''movement_count'', JInt (mcpMovementCount p))]))"

definition GetApiV1InventoryDashboardMovementsChart :: "httpReq \<Rightarrow> ctx \<Rightarrow> string option \<Rightarrow> world handler" where
  "GetApiV1InventoryDashboardMovementsChart rq c periodParam =
    (let period = (case periodParam of None \<Rightarrow> [] | Some p \<Rightarrow> p) in
     callSvc rq (GetDashboardMovementsChart c period) (\<lambda>out.
     let points = map chartPointToStub (mcPoints out)
     in if None \<in> set points then Fail rq (App ErrInternal)
        else sendOK rq 200 (JObj [(''period'', JStr (mcPeriod out)), (''points'', JArr (map the points))])))"

definition storageRowJSON :: "StorageUtilizationRow \<Rightarrow> jval" where
  "storageRowJSON r = JObj [(''warehouse_id'', JStr (stWarehouseID r)), (''warehouse_code'', JStr (stWarehouseCode r)),
     (''warehouse_name'', JStr (stWarehouseName r)), (''on_hand_qty'', JInt (stOnHandQty r)),
     (''percent'', JInt (stPercent r))]"

definition GetDashboardStorageUtilization :: "httpReq \<Rightarrow> ctx \<Rightarrow> world handler" where
  "GetDashboardStorageUtilization rq c =
    (let raw = QueryParam rq ''limit''
     in case (if raw = [] then Some 3 else Atoi raw) of
          None \<Rightarrow> Fail rq (App (WithDetails ErrValidationError [(''message'', JStr ''limit must be an integer'')]))
        | Some limit \<Rightarrow>
            callSvc rq (GetStorageUtilization c limit) (\<lambda>rows.
            sendOK rq 200 (JArr (map storageRowJSON rows))))"

section \<open>Health\<close>

definition GetHealth :: "world handler" where
  "GetHealth = ret (HText 200 ''ok'')"

definition GetInventoryHealth :: "world handler" where
  "GetInventoryHealth = ret (HText 200 ''ok'')"

definition GetReady :: "ctx \<Rightarrow> world handler" where
  "GetReady c = bindM (tryM (PingDB c)) (\<lambda>r. case r of
     Inl e \<Rightarrow> ret (HJSON 503 (JObj [(''error'', JStr ''database unavailable'')]))
   | Inr _ \<Rightarrow> ret (HText 200 ''ok''))"

end
