(* ===== verification/Api_Routes.thy ===== *)
theory Api_Routes
  imports Api_Handlers
begin

text \<open>
  From an HTTP request to a response: the generated wrappers that bind the parameters of an operation
  (src/services/inventory/stub/openapi.gen.go, ServerInterfaceWrapper), the table of routes
  (RegisterHandlers and src/services/inventory/fx/handler.go), the chain of middlewares of
  src/services/inventory/api/echo.go and its error handler (errors.go). The router of echo is not
  modelled: a request carries the pattern it matched. Middlewares run for every request, matched or
  not. The event streams, which hold their connection open, are the theory Sse.
\<close>

section \<open>Binding parameters\<close>

definition badParam :: "string \<Rightarrow> err \<Rightarrow> err" where
  "badParam name e = httpErr 400 (''Invalid format for parameter '' @ name @ '': '' @ errorText e)"

definition param :: "string \<Rightarrow> (string \<Rightarrow> err + 'a) \<Rightarrow> ('a \<Rightarrow> 'w handler) \<Rightarrow> 'w handler" where
  "param name bind k = (case bind name of Inl e \<Rightarrow> throw (badParam name e) | Inr v \<Rightarrow> k v)"

definition idempotencyHeader :: "BindLib \<Rightarrow> httpReq \<Rightarrow> (string \<Rightarrow> 'w handler) \<Rightarrow> 'w handler" where
  "idempotencyHeader bl rq k = (case hqIdempotencyKey rq of
     None \<Rightarrow> throw (httpErr 400 ''Header parameter Idempotency-Key is required, but not found'')
   | Some valueList \<Rightarrow>
       if length valueList \<noteq> 1
       then throw (httpErr 400 (''Expected one value for Idempotency-Key, got '' @ Itoa (int (length valueList))))
       else param ''Idempotency-Key'' (\<lambda>n. bhStr bl n (hd valueList)) k)"

section \<open>Wrappers\<close>

definition wrap_GetApiV1InventoryAuditLogs :: "ApiLib \<Rightarrow> BindLib \<Rightarrow> httpReq \<Rightarrow> ctx \<Rightarrow> world handler" where
  "wrap_GetApiV1InventoryAuditLogs lib bl rq c =
    param ''page'' (bqInt bl rq) (\<lambda>page.
    param ''per_page'' (bqInt bl rq) (\<lambda>perPage.
    param ''entity'' (bqStr bl rq) (\<lambda>entity.
    param ''entity_id'' (bqUUID bl rq) (\<lambda>entityId.
    param ''action'' (bqStr bl rq) (\<lambda>action.
    param ''user_id'' (bqUUID bl rq) (\<lambda>userId.
    param ''created_from'' (bqTime bl rq) (\<lambda>createdFrom.
    param ''created_to'' (bqTime bl rq) (\<lambda>createdTo.
    GetApiV1InventoryAuditLogs lib rq c \<lparr>gaPage = page, gaPerPage = perPage, gaEntity = entity,
      gaEntityId = entityId, gaAction = action, gaUserId = userId, gaCreatedFrom = createdFrom,
      gaCreatedTo = createdTo\<rparr>))))))))"

definition wrap_GetApiV1InventoryAuditLogsAuditEntityAuditEntityId :: "ApiLib \<Rightarrow> BindLib \<Rightarrow> httpReq \<Rightarrow> ctx \<Rightarrow> world handler" where
  "wrap_GetApiV1InventoryAuditLogsAuditEntityAuditEntityId lib bl rq c =
    param ''auditEntity'' (bpStr bl rq) (\<lambda>auditEntity.
    param ''auditEntityId'' (bpUUID bl rq) (\<lambda>auditEntityId.
    param ''page'' (bqInt bl rq) (\<lambda>page.
    param ''per_page'' (bqInt bl rq) (\<lambda>perPage.
    GetApiV1InventoryAuditLogsAuditEntityAuditEntityId lib rq c auditEntity auditEntityId page perPage))))"

definition wrap_GetApiV1InventoryCategories :: "ApiLib \<Rightarrow> BindLib \<Rightarrow> httpReq \<Rightarrow> ctx \<Rightarrow> world handler" where
  "wrap_GetApiV1InventoryCategories lib bl rq c =
    param ''page'' (bqInt bl rq) (\<lambda>page.
    param ''per_page'' (bqInt bl rq) (\<lambda>perPage.
    param ''search'' (bqStr bl rq) (\<lambda>search.
    param ''sort'' (bqStr bl rq) (\<lambda>sort.
    param ''order'' (bqStr bl rq) (\<lambda>order.
    GetApiV1InventoryCategories lib rq c \<lparr>gpPage = page, gpPerPage = perPage, gpSearch = search, gpSort = sort, gpOrder = order\<rparr>)))))"

definition wrap_PostApiV1InventoryCategories :: "ApiLib \<Rightarrow> BindLib \<Rightarrow> httpReq \<Rightarrow> ctx \<Rightarrow> world handler" where
  "wrap_PostApiV1InventoryCategories lib bl rq c =
    PostApiV1InventoryCategories lib bl rq c"

definition wrap_DeleteApiV1InventoryCategoriesCategoryId :: "ApiLib \<Rightarrow> BindLib \<Rightarrow> httpReq \<Rightarrow> ctx \<Rightarrow> world handler" where
  "wrap_DeleteApiV1InventoryCategoriesCategoryId lib bl rq c =
    param ''categoryId'' (bpUUID bl rq) (\<lambda>categoryId.
    DeleteApiV1InventoryCategoriesCategoryId rq c categoryId)"

definition wrap_GetApiV1InventoryCategoriesCategoryId :: "ApiLib \<Rightarrow> BindLib \<Rightarrow> httpReq \<Rightarrow> ctx \<Rightarrow> world handler" where
  "wrap_GetApiV1InventoryCategoriesCategoryId lib bl rq c =
    param ''categoryId'' (bpUUID bl rq) (\<lambda>categoryId.
    GetApiV1InventoryCategoriesCategoryId lib rq c categoryId)"

definition wrap_PutApiV1InventoryCategoriesCategoryId :: "ApiLib \<Rightarrow> BindLib \<Rightarrow> httpReq \<Rightarrow> ctx \<Rightarrow> world handler" where
  "wrap_PutApiV1InventoryCategoriesCategoryId lib bl rq c =
    param ''categoryId'' (bpUUID bl rq) (\<lambda>categoryId.
    PutApiV1InventoryCategoriesCategoryId lib bl rq c categoryId)"

definition wrap_GetApiV1InventoryDashboardMovementsChart :: "ApiLib \<Rightarrow> BindLib \<Rightarrow> httpReq \<Rightarrow> ctx \<Rightarrow> world handler" where
  "wrap_GetApiV1InventoryDashboardMovementsChart lib bl rq c =
    param ''period'' (bqStr bl rq) (\<lambda>period.
    GetApiV1InventoryDashboardMovementsChart rq c period)"

definition wrap_GetApiV1InventoryDashboardSummary :: "ApiLib \<Rightarrow> BindLib \<Rightarrow> httpReq \<Rightarrow> ctx \<Rightarrow> world handler" where
  "wrap_GetApiV1InventoryDashboardSummary lib bl rq c =
    GetApiV1InventoryDashboardSummary rq c"

definition wrap_GetInventoryHealth :: "ApiLib \<Rightarrow> BindLib \<Rightarrow> httpReq \<Rightarrow> ctx \<Rightarrow> world handler" where
  "wrap_GetInventoryHealth lib bl rq c =
    GetInventoryHealth"

definition wrap_GetApiV1InventoryMovements :: "ApiLib \<Rightarrow> BindLib \<Rightarrow> httpReq \<Rightarrow> ctx \<Rightarrow> world handler" where
  "wrap_GetApiV1InventoryMovements lib bl rq c =
    param ''page'' (bqInt bl rq) (\<lambda>page.
    param ''per_page'' (bqInt bl rq) (\<lambda>perPage.
    param ''search'' (bqStr bl rq) (\<lambda>search.
    param ''type'' (bqStr bl rq) (\<lambda>typ.
    param ''status'' (bqStr bl rq) (\<lambda>status.
    param ''sort'' (bqStr bl rq) (\<lambda>sort.
    param ''order'' (bqStr bl rq) (\<lambda>order.
    GetApiV1InventoryMovements lib rq c \<lparr>gpPage = page, gpPerPage = perPage, gpSearch = search, gpSort = sort, gpOrder = order,
      gpType = typ, gpStatus = status\<rparr>)))))))"

definition wrap_PostApiV1InventoryMovementsAdjustment :: "ApiLib \<Rightarrow> BindLib \<Rightarrow> httpReq \<Rightarrow> ctx \<Rightarrow> world handler" where
  "wrap_PostApiV1InventoryMovementsAdjustment lib bl rq c =
    idempotencyHeader bl rq (\<lambda>key.
    PostApiV1InventoryMovementsAdjustment lib bl rq c key)"

definition wrap_PostApiV1InventoryMovementsInbound :: "ApiLib \<Rightarrow> BindLib \<Rightarrow> httpReq \<Rightarrow> ctx \<Rightarrow> world handler" where
  "wrap_PostApiV1InventoryMovementsInbound lib bl rq c =
    idempotencyHeader bl rq (\<lambda>key.
    PostApiV1InventoryMovementsInbound lib bl rq c key)"

definition wrap_PostApiV1InventoryMovementsOutbound :: "ApiLib \<Rightarrow> BindLib \<Rightarrow> httpReq \<Rightarrow> ctx \<Rightarrow> world handler" where
  "wrap_PostApiV1InventoryMovementsOutbound lib bl rq c =
    idempotencyHeader bl rq (\<lambda>key.
    PostApiV1InventoryMovementsOutbound lib bl rq c key)"

definition wrap_PostApiV1InventoryMovementsTransfer :: "ApiLib \<Rightarrow> BindLib \<Rightarrow> httpReq \<Rightarrow> ctx \<Rightarrow> world handler" where
  "wrap_PostApiV1InventoryMovementsTransfer lib bl rq c =
    idempotencyHeader bl rq (\<lambda>key.
    PostApiV1InventoryMovementsTransfer lib bl rq c key)"

definition wrap_GetApiV1InventoryMovementsMovementId :: "ApiLib \<Rightarrow> BindLib \<Rightarrow> httpReq \<Rightarrow> ctx \<Rightarrow> world handler" where
  "wrap_GetApiV1InventoryMovementsMovementId lib bl rq c =
    param ''movementId'' (bpUUID bl rq) (\<lambda>movementId.
    GetApiV1InventoryMovementsMovementId lib rq c movementId)"

definition wrap_PostApiV1InventoryMovementsMovementIdCancel :: "ApiLib \<Rightarrow> BindLib \<Rightarrow> httpReq \<Rightarrow> ctx \<Rightarrow> world handler" where
  "wrap_PostApiV1InventoryMovementsMovementIdCancel lib bl rq c =
    param ''movementId'' (bpUUID bl rq) (\<lambda>movementId.
    PostApiV1InventoryMovementsMovementIdCancel lib rq c movementId)"

definition wrap_PostApiV1InventoryMovementsMovementIdConfirm :: "ApiLib \<Rightarrow> BindLib \<Rightarrow> httpReq \<Rightarrow> ctx \<Rightarrow> world handler" where
  "wrap_PostApiV1InventoryMovementsMovementIdConfirm lib bl rq c =
    param ''movementId'' (bpUUID bl rq) (\<lambda>movementId.
    PostApiV1InventoryMovementsMovementIdConfirm lib rq c movementId)"

definition wrap_GetApiV1InventoryProducts :: "ApiLib \<Rightarrow> BindLib \<Rightarrow> httpReq \<Rightarrow> ctx \<Rightarrow> world handler" where
  "wrap_GetApiV1InventoryProducts lib bl rq c =
    param ''page'' (bqInt bl rq) (\<lambda>page.
    param ''per_page'' (bqInt bl rq) (\<lambda>perPage.
    param ''search'' (bqStr bl rq) (\<lambda>search.
    param ''sort'' (bqStr bl rq) (\<lambda>sort.
    param ''order'' (bqStr bl rq) (\<lambda>order.
    param ''category_id'' (bqUUID bl rq) (\<lambda>categoryId.
    GetApiV1InventoryProducts lib rq c \<lparr>gpPage = page, gpPerPage = perPage, gpSearch = search, gpSort = sort, gpOrder = order,
      gpCategoryId = categoryId\<rparr>))))))"

definition wrap_PostApiV1InventoryProducts :: "ApiLib \<Rightarrow> BindLib \<Rightarrow> httpReq \<Rightarrow> ctx \<Rightarrow> world handler" where
  "wrap_PostApiV1InventoryProducts lib bl rq c =
    PostApiV1InventoryProducts lib bl rq c"

definition wrap_DeleteApiV1InventoryProductsProductId :: "ApiLib \<Rightarrow> BindLib \<Rightarrow> httpReq \<Rightarrow> ctx \<Rightarrow> world handler" where
  "wrap_DeleteApiV1InventoryProductsProductId lib bl rq c =
    param ''productId'' (bpUUID bl rq) (\<lambda>productId.
    DeleteApiV1InventoryProductsProductId rq c productId)"

definition wrap_GetApiV1InventoryProductsProductId :: "ApiLib \<Rightarrow> BindLib \<Rightarrow> httpReq \<Rightarrow> ctx \<Rightarrow> world handler" where
  "wrap_GetApiV1InventoryProductsProductId lib bl rq c =
    param ''productId'' (bpUUID bl rq) (\<lambda>productId.
    GetApiV1InventoryProductsProductId lib rq c productId)"

definition wrap_PutApiV1InventoryProductsProductId :: "ApiLib \<Rightarrow> BindLib \<Rightarrow> httpReq \<Rightarrow> ctx \<Rightarrow> world handler" where
  "wrap_PutApiV1InventoryProductsProductId lib bl rq c =
    param ''productId'' (bpUUID bl rq) (\<lambda>productId.
    PutApiV1InventoryProductsProductId lib bl rq c productId)"

definition wrap_PostApiV1InventoryProductsProductIdRestore :: "ApiLib \<Rightarrow> BindLib \<Rightarrow> httpReq \<Rightarrow> ctx \<Rightarrow> world handler" where
  "wrap_PostApiV1InventoryProductsProductIdRestore lib bl rq c =
    param ''productId'' (bpUUID bl rq) (\<lambda>productId.
    PostApiV1InventoryProductsProductIdRestore lib rq c productId)"

definition wrap_GetApiV1InventoryWarehouses :: "ApiLib \<Rightarrow> BindLib \<Rightarrow> httpReq \<Rightarrow> ctx \<Rightarrow> world handler" where
  "wrap_GetApiV1InventoryWarehouses lib bl rq c =
    param ''page'' (bqInt bl rq) (\<lambda>page.
    param ''per_page'' (bqInt bl rq) (\<lambda>perPage.
    param ''search'' (bqStr bl rq) (\<lambda>search.
    param ''sort'' (bqStr bl rq) (\<lambda>sort.
    param ''order'' (bqStr bl rq) (\<lambda>order.
    GetApiV1InventoryWarehouses lib rq c \<lparr>gpPage = page, gpPerPage = perPage, gpSearch = search, gpSort = sort, gpOrder = order\<rparr>)))))"

definition wrap_PostApiV1InventoryWarehouses :: "ApiLib \<Rightarrow> BindLib \<Rightarrow> httpReq \<Rightarrow> ctx \<Rightarrow> world handler" where
  "wrap_PostApiV1InventoryWarehouses lib bl rq c =
    PostApiV1InventoryWarehouses lib bl rq c"

definition wrap_DeleteApiV1InventoryWarehousesWarehouseId :: "ApiLib \<Rightarrow> BindLib \<Rightarrow> httpReq \<Rightarrow> ctx \<Rightarrow> world handler" where
  "wrap_DeleteApiV1InventoryWarehousesWarehouseId lib bl rq c =
    param ''warehouseId'' (bpUUID bl rq) (\<lambda>warehouseId.
    DeleteApiV1InventoryWarehousesWarehouseId rq c warehouseId)"

definition wrap_GetApiV1InventoryWarehousesWarehouseId :: "ApiLib \<Rightarrow> BindLib \<Rightarrow> httpReq \<Rightarrow> ctx \<Rightarrow> world handler" where
  "wrap_GetApiV1InventoryWarehousesWarehouseId lib bl rq c =
    param ''warehouseId'' (bpUUID bl rq) (\<lambda>warehouseId.
    GetApiV1InventoryWarehousesWarehouseId lib rq c warehouseId)"

definition wrap_PutApiV1InventoryWarehousesWarehouseId :: "ApiLib \<Rightarrow> BindLib \<Rightarrow> httpReq \<Rightarrow> ctx \<Rightarrow> world handler" where
  "wrap_PutApiV1InventoryWarehousesWarehouseId lib bl rq c =
    param ''warehouseId'' (bpUUID bl rq) (\<lambda>warehouseId.
    PutApiV1InventoryWarehousesWarehouseId lib bl rq c warehouseId)"

definition wrap_GetHealth :: "ApiLib \<Rightarrow> BindLib \<Rightarrow> httpReq \<Rightarrow> ctx \<Rightarrow> world handler" where
  "wrap_GetHealth lib bl rq c =
    GetHealth"

definition wrap_GetReady :: "ApiLib \<Rightarrow> BindLib \<Rightarrow> httpReq \<Rightarrow> ctx \<Rightarrow> world handler" where
  "wrap_GetReady lib bl rq c =
    GetReady c"

section \<open>Routes\<close>

text \<open>A route is a method, a pattern and the operation it calls. RegisterHandlers mounts the operations
  of the OpenAPI document, RegisterRoutes adds one handler outside of it.\<close>

type_synonym route = "(string \<times> string) \<times> (ApiLib \<Rightarrow> BindLib \<Rightarrow> httpReq \<Rightarrow> ctx \<Rightarrow> world handler)"

definition RegisterHandlers :: "route list" where
  "RegisterHandlers = [
     ((''GET'', ''/api/v1/inventory/audit-logs''), wrap_GetApiV1InventoryAuditLogs),
     ((''GET'', ''/api/v1/inventory/audit-logs/:auditEntity/:auditEntityId''), wrap_GetApiV1InventoryAuditLogsAuditEntityAuditEntityId),
     ((''GET'', ''/api/v1/inventory/categories''), wrap_GetApiV1InventoryCategories),
     ((''POST'', ''/api/v1/inventory/categories''), wrap_PostApiV1InventoryCategories),
     ((''DELETE'', ''/api/v1/inventory/categories/:categoryId''), wrap_DeleteApiV1InventoryCategoriesCategoryId),
     ((''GET'', ''/api/v1/inventory/categories/:categoryId''), wrap_GetApiV1InventoryCategoriesCategoryId),
     ((''PUT'', ''/api/v1/inventory/categories/:categoryId''), wrap_PutApiV1InventoryCategoriesCategoryId),
     ((''GET'', ''/api/v1/inventory/dashboard/movements/chart''), wrap_GetApiV1InventoryDashboardMovementsChart),
     ((''GET'', ''/api/v1/inventory/dashboard/summary''), wrap_GetApiV1InventoryDashboardSummary),
     ((''GET'', ''/api/v1/inventory/health''), wrap_GetInventoryHealth),
     ((''GET'', ''/api/v1/inventory/movements''), wrap_GetApiV1InventoryMovements),
     ((''POST'', ''/api/v1/inventory/movements/adjustment''), wrap_PostApiV1InventoryMovementsAdjustment),
     ((''POST'', ''/api/v1/inventory/movements/inbound''), wrap_PostApiV1InventoryMovementsInbound),
     ((''POST'', ''/api/v1/inventory/movements/outbound''), wrap_PostApiV1InventoryMovementsOutbound),
     ((''POST'', ''/api/v1/inventory/movements/transfer''), wrap_PostApiV1InventoryMovementsTransfer),
     ((''GET'', ''/api/v1/inventory/movements/:movementId''), wrap_GetApiV1InventoryMovementsMovementId),
     ((''POST'', ''/api/v1/inventory/movements/:movementId/cancel''), wrap_PostApiV1InventoryMovementsMovementIdCancel),
     ((''POST'', ''/api/v1/inventory/movements/:movementId/confirm''), wrap_PostApiV1InventoryMovementsMovementIdConfirm),
     ((''GET'', ''/api/v1/inventory/products''), wrap_GetApiV1InventoryProducts),
     ((''POST'', ''/api/v1/inventory/products''), wrap_PostApiV1InventoryProducts),
     ((''DELETE'', ''/api/v1/inventory/products/:productId''), wrap_DeleteApiV1InventoryProductsProductId),
     ((''GET'', ''/api/v1/inventory/products/:productId''), wrap_GetApiV1InventoryProductsProductId),
     ((''PUT'', ''/api/v1/inventory/products/:productId''), wrap_PutApiV1InventoryProductsProductId),
     ((''POST'', ''/api/v1/inventory/products/:productId/restore''), wrap_PostApiV1InventoryProductsProductIdRestore),
     ((''GET'', ''/api/v1/inventory/warehouses''), wrap_GetApiV1InventoryWarehouses),
     ((''POST'', ''/api/v1/inventory/warehouses''), wrap_PostApiV1InventoryWarehouses),
     ((''DELETE'', ''/api/v1/inventory/warehouses/:warehouseId''), wrap_DeleteApiV1InventoryWarehousesWarehouseId),
     ((''GET'', ''/api/v1/inventory/warehouses/:warehouseId''), wrap_GetApiV1InventoryWarehousesWarehouseId),
     ((''PUT'', ''/api/v1/inventory/warehouses/:warehouseId''), wrap_PutApiV1InventoryWarehousesWarehouseId),
     ((''GET'', ''/health''), wrap_GetHealth),
     ((''GET'', ''/ready''), wrap_GetReady)]"

definition RegisterRoutes :: "route list" where
  "RegisterRoutes = RegisterHandlers @
     [((''GET'', ''/api/v1/inventory/dashboard/storage-utilization''),
       (\<lambda>lib bl rq c. GetDashboardStorageUtilization rq c))]"

definition InventoryPublicPaths :: "string list" where
  "InventoryPublicPaths = [''/health'', ''/ready'', ''/api/v1/inventory/health'',
     ''/api/v1/inventory/sse/stock'', ''/api/v1/inventory/sse/activity'']"

text \<open>echo.ErrNotFound.\<close>

definition notFound :: err where
  "notFound = httpErr 404 ''Not Found''"

definition handleRoute :: "ApiLib \<Rightarrow> BindLib \<Rightarrow> httpReq \<Rightarrow> ctx \<Rightarrow> world handler" where
  "handleRoute lib bl rq c = (case hqRoute rq of
     None \<Rightarrow> throw notFound
   | Some pattern \<Rightarrow> (case map_of RegisterRoutes (hqMethod rq, pattern) of
       None \<Rightarrow> throw notFound
     | Some h \<Rightarrow> h lib bl rq c))"

section \<open>The server\<close>

definition requestMeta :: "httpReq \<Rightarrow> ctx \<Rightarrow> ctx" where
  "requestMeta rq c = EchoMiddleware (hqResponseID rq) (hqRequestID rq) (hqIP rq) (hqUserAgent rq) c"

text \<open>The readings of the clock of one verification of a token.\<close>

definition tokenClock :: "(nat \<Rightarrow> int) app" where
  "tokenClock w = (Inr (\<lambda>i. wtime w (wtick w + i)), w\<lparr>wtick := wtick w + 4\<rparr>)"

text \<open>An error returned by a handler, and a panic, which the Recover middleware turns into one, end in
  httpErrorHandler.\<close>

definition httpErrorHandler :: "httpReq \<Rightarrow> world handler \<Rightarrow> world handler" where
  "httpErrorHandler rq m w = (case m w of (Inl e, w') \<Rightarrow> (Inr (writeError rq e), w') | (Inr r, w') \<Rightarrow> (Inr r, w'))"

definition ServeHTTP :: "JWTLib \<Rightarrow> JWTService \<Rightarrow> ApiLib \<Rightarrow> BindLib \<Rightarrow> httpReq \<Rightarrow> world handler" where
  "ServeHTTP jl js lib bl rq =
    httpErrorHandler rq
      (bindM tokenClock (\<lambda>clock.
       RequireBearerAccessJWT jl js InventoryPublicPaths clock
         (\<lambda>c. handleRoute lib bl rq (requestMeta rq c)) (hqPath rq) (hqAuthorization rq) Background))"

end
