(* ===== verification/Api_Laws.thy ===== *)
theory Api_Laws
  imports Api_Routes Tenancy
begin

text \<open>
  The HTTP layer refines the service: a request makes at most one call of the service, with the
  identity of its token, and its effect on the world is the effect of that call. Hence what holds of
  every request of the service holds of every HTTP request.
\<close>

section \<open>Handlers make one call\<close>

definition pureH :: "world handler \<Rightarrow> bool" where
  "pureH h \<longleftrightarrow> (\<exists>r. h = liftE r)"

text \<open>A handler that refuses the request or answers without the service, or that calls it once.\<close>

definition callsOnce :: "httpReq \<Rightarrow> ctx \<Rightarrow> world handler \<Rightarrow> bool" where
  "callsOnce rq c h \<longleftrightarrow> (\<exists>e. h = throw e) \<or> (\<exists>e. h = Fail rq e) \<or> h = ret (HText 200 ''ok'') \<or> h = GetReady c
     \<or> (\<exists>r k. typedRequest r \<and> r \<noteq> RPingDB \<and> h = callSvc rq (serve c r) k \<and> (\<forall>x. pureH (k x)))"

lemma pureH_basic [intro, simp]: "pureH (ret a)" "pureH (throw e)"
  unfolding pureH_def by (auto simp: ret_def throw_def liftE_def fun_eq_iff)

lemma pureH_send [intro, simp]: "pureH (Fail rq e)" "pureH (sendOK rq s d)" "pureH (sendList rq rows out)"
  by (simp_all add: Fail_def sendOK_def sendList_def Let_def)

lemma pureH_or [intro]:
  "(\<And>a. pureH (k a)) \<Longrightarrow> pureH (orInternal rq r k)"
  "(\<And>a. pureH (k a)) \<Longrightarrow> pureH (or500 r k)"
  by (auto simp: orInternal_def or500_def split: sum.splits err.splits)

lemma callSvc_asResp:
  assumes "inj f"
  shows "callSvc rq m k = callSvc rq (asResp f m) (\<lambda>x. k (inv f x))"
proof (rule ext)
  fix w
  show "callSvc rq m k w = callSvc rq (asResp f m) (\<lambda>x. k (inv f x)) w"
    using assms by (cases "m w"; cases "fst (m w)")
      (auto simp: callSvc_def asResp_def bindM_def tryM_def ret_def split: sum.splits err.splits)
qed

lemma callsOnce_call:
  assumes "serve c r = asResp f m" "inj f" "typedRequest r" "r \<noteq> RPingDB" "\<And>a. pureH (k a)"
  shows "callsOnce rq c (callSvc rq m k)"
  unfolding callsOnce_def using callSvc_asResp [OF assms(2), of rq m k] assms by metis

lemma callsOnce_throw [intro, simp]: "callsOnce rq c (throw e)" "callsOnce rq c (Fail rq e)"
  by (auto simp: callsOnce_def)

lemma callsOnce_body: "(\<And>b. r = Inr b \<Longrightarrow> callsOnce rq c (k b)) \<Longrightarrow> callsOnce rq c (withBody r k)"
  by (auto simp: withBody_def split: sum.splits)

lemma callsOnce_param: "(\<And>b. callsOnce rq c (k b)) \<Longrightarrow> callsOnce rq c (param n f k)"
  by (auto simp: param_def split: sum.splits)

lemma callsOnce_header: "(\<And>b. callsOnce rq c (k b)) \<Longrightarrow> callsOnce rq c (idempotencyHeader bl rq k)"
  by (auto simp: idempotencyHeader_def intro: callsOnce_param split: option.splits)

lemma inj_responses:
  "inj PCategories" "inj PCategory" "inj PProducts" "inj PProduct" "inj PWarehouses" "inj PWarehouse"
  "inj PMovements" "inj PMovement" "inj PAudit" "inj PSummary" "inj PChart" "inj PStorage"
  "inj (\<lambda>_::unit. PDone)"
  by (auto simp: inj_def)

text \<open>The decoder of a body gives quantities that fit the int32 of their field.\<close>

definition typedLines :: "'a MovementCreateRequest_scheme \<Rightarrow> bool" where
  "typedLines b \<longleftrightarrow> list_all (\<lambda>l. is_int32 (lcQuantity l)) (mrLines b)"

definition bindTyped :: "BindLib \<Rightarrow> bool" where
  "bindTyped bl \<longleftrightarrow>
     (\<forall>rq b. bdInbound bl rq = Inr b \<longrightarrow> typedLines b)
   \<and> (\<forall>rq b. bdOutbound bl rq = Inr b \<longrightarrow> typedLines b)
   \<and> (\<forall>rq b. bdTransfer bl rq = Inr b \<longrightarrow> typedLines b)
   \<and> (\<forall>rq b. bdAdjustment bl rq = Inr b \<longrightarrow> typedLines b)"

lemma bindTypedD:
  assumes "bindTyped bl"
  shows "bdInbound bl rq = Inr b1 \<Longrightarrow> typedLines b1" "bdOutbound bl rq = Inr b2 \<Longrightarrow> typedLines b2"
    "bdTransfer bl rq = Inr b3 \<Longrightarrow> typedLines b3" "bdAdjustment bl rq = Inr b4 \<Longrightarrow> typedLines b4"
  using assms unfolding bindTyped_def by blast+

lemma typed_base: "typedLines b \<Longrightarrow> l \<in> set (cbLines (movementBase b key h)) \<Longrightarrow> is_int32 (liQuantity l)"
  by (auto simp: typedLines_def movementBase_def linesFromStub_def list_all_iff)

lemma hash_bound: "readBindRawBodyMovementHash lib dst rq = Inr (b, h) \<Longrightarrow> dst rq = Inr b"
  by (auto simp: readBindRawBodyMovementHash_def split: sum.splits)

lemma typed_plain: "requestLines r = [] \<Longrightarrow> typedRequest r"
  by (simp add: typedRequest_def)

named_theorems call_rules

lemma list_calls [call_rules]:
  "callsOnce rq c (GetApiV1InventoryCategories lib rq c p1)"
  "callsOnce rq c (GetApiV1InventoryProducts lib rq c p2)"
  "callsOnce rq c (GetApiV1InventoryWarehouses lib rq c p1)"
  "callsOnce rq c (GetApiV1InventoryMovements lib rq c p3)"
  "callsOnce rq c (GetApiV1InventoryAuditLogs lib rq c p4)"
  "callsOnce rq c (GetApiV1InventoryAuditLogsAuditEntityAuditEntityId lib rq c e i pg pp)"
  unfolding GetApiV1InventoryCategories_def GetApiV1InventoryProducts_def GetApiV1InventoryWarehouses_def
    GetApiV1InventoryMovements_def GetApiV1InventoryAuditLogs_def
    GetApiV1InventoryAuditLogsAuditEntityAuditEntityId_def Let_def
  by (split prod.split, intro allI impI, rule callsOnce_call [OF serve.simps(2)] callsOnce_call [OF serve.simps(7)]
      callsOnce_call [OF serve.simps(13)] callsOnce_call [OF serve.simps(23)] callsOnce_call [OF serve.simps(26)];
     auto simp: inj_responses typed_plain intro!: pureH_or)+

lemma category_calls [call_rules]:
  "callsOnce rq c (PostApiV1InventoryCategories lib bl rq c)"
  "callsOnce rq c (PutApiV1InventoryCategoriesCategoryId lib bl rq c i)"
  "callsOnce rq c (GetApiV1InventoryCategoriesCategoryId lib rq c i)"
  "callsOnce rq c (DeleteApiV1InventoryCategoriesCategoryId rq c i)"
  unfolding PostApiV1InventoryCategories_def PutApiV1InventoryCategoriesCategoryId_def
    GetApiV1InventoryCategoriesCategoryId_def DeleteApiV1InventoryCategoriesCategoryId_def
  by ((rule callsOnce_body)?, rule callsOnce_call [OF serve.simps(4)] callsOnce_call [OF serve.simps(5)]
      callsOnce_call [OF serve.simps(3)] callsOnce_call [OF serve.simps(6)];
     auto simp: inj_responses typed_plain intro!: pureH_or)+

lemma warehouse_calls [call_rules]:
  "callsOnce rq c (PostApiV1InventoryWarehouses lib bl rq c)"
  "callsOnce rq c (PutApiV1InventoryWarehousesWarehouseId lib bl rq c i)"
  "callsOnce rq c (GetApiV1InventoryWarehousesWarehouseId lib rq c i)"
  "callsOnce rq c (DeleteApiV1InventoryWarehousesWarehouseId rq c i)"
  unfolding PostApiV1InventoryWarehouses_def PutApiV1InventoryWarehousesWarehouseId_def
    GetApiV1InventoryWarehousesWarehouseId_def DeleteApiV1InventoryWarehousesWarehouseId_def
  by ((rule callsOnce_body)?, rule callsOnce_call [OF serve.simps(15)] callsOnce_call [OF serve.simps(16)]
      callsOnce_call [OF serve.simps(14)] callsOnce_call [OF serve.simps(17)];
     auto simp: inj_responses typed_plain intro!: pureH_or)+

lemma product_calls [call_rules]:
  "callsOnce rq c (PostApiV1InventoryProducts lib bl rq c)"
  "callsOnce rq c (PutApiV1InventoryProductsProductId lib bl rq c i)"
  "callsOnce rq c (GetApiV1InventoryProductsProductId lib rq c i)"
  "callsOnce rq c (PostApiV1InventoryProductsProductIdRestore lib rq c i)"
  "callsOnce rq c (DeleteApiV1InventoryProductsProductId rq c i)"
  unfolding PostApiV1InventoryProducts_def PutApiV1InventoryProductsProductId_def
    GetApiV1InventoryProductsProductId_def PostApiV1InventoryProductsProductIdRestore_def
    DeleteApiV1InventoryProductsProductId_def
  by ((rule callsOnce_body)?, (split sum.split, intro conjI allI impI callsOnce_throw)?,
     rule callsOnce_call [OF serve.simps(9)] callsOnce_call [OF serve.simps(10)]
      callsOnce_call [OF serve.simps(8)] callsOnce_call [OF serve.simps(12)] callsOnce_call [OF serve.simps(11)];
     auto simp: inj_responses typed_plain intro!: pureH_or)+

lemma movement_calls [call_rules]:
  "callsOnce rq c (GetApiV1InventoryMovementsMovementId lib rq c i)"
  "callsOnce rq c (PostApiV1InventoryMovementsMovementIdConfirm lib rq c i)"
  "callsOnce rq c (PostApiV1InventoryMovementsMovementIdCancel lib rq c i)"
  unfolding GetApiV1InventoryMovementsMovementId_def PostApiV1InventoryMovementsMovementIdConfirm_def
    PostApiV1InventoryMovementsMovementIdCancel_def
  by (rule callsOnce_call [OF serve.simps(22)] callsOnce_call [OF serve.simps(24)]
      callsOnce_call [OF serve.simps(25)];
     auto simp: inj_responses typed_plain intro!: pureH_or)+

lemma create_calls:
  assumes "bindTyped bl"
  shows "callsOnce rq c (PostApiV1InventoryMovementsInbound lib bl rq c key)"
    and "callsOnce rq c (PostApiV1InventoryMovementsOutbound lib bl rq c key)"
    and "callsOnce rq c (PostApiV1InventoryMovementsTransfer lib bl rq c key)"
    and "callsOnce rq c (PostApiV1InventoryMovementsAdjustment lib bl rq c key)"
  unfolding PostApiV1InventoryMovementsInbound_def PostApiV1InventoryMovementsOutbound_def
    PostApiV1InventoryMovementsTransfer_def PostApiV1InventoryMovementsAdjustment_def
  by (rule callsOnce_body, split prod.split, intro allI impI,
     rule callsOnce_call [OF serve.simps(18)] callsOnce_call [OF serve.simps(19)]
      callsOnce_call [OF serve.simps(20)] callsOnce_call [OF serve.simps(21)];
     auto simp: inj_responses typedRequest_def intro!: pureH_or dest!: hash_bound bindTypedD [OF assms]
       intro: typed_base)+

lemma dashboard_calls [call_rules]:
  "callsOnce rq c (GetApiV1InventoryDashboardSummary rq c)"
  "callsOnce rq c (GetApiV1InventoryDashboardMovementsChart rq c p)"
  "callsOnce rq c (GetDashboardStorageUtilization rq c)"
  unfolding GetApiV1InventoryDashboardSummary_def GetApiV1InventoryDashboardMovementsChart_def
    GetDashboardStorageUtilization_def Let_def
  by ((split option.split, intro conjI allI impI callsOnce_throw)?,
     rule callsOnce_call [OF serve.simps(27)] callsOnce_call [OF serve.simps(28)] callsOnce_call [OF serve.simps(29)];
     auto simp: inj_responses typed_plain intro!: pureH_or)+

lemma health_calls [call_rules]:
  "callsOnce rq c GetHealth" "callsOnce rq c GetInventoryHealth" "callsOnce rq c (GetReady c)"
  by (simp_all add: callsOnce_def GetHealth_def GetInventoryHealth_def)

lemmas wrapper_defs =
  wrap_GetApiV1InventoryAuditLogs_def wrap_GetApiV1InventoryAuditLogsAuditEntityAuditEntityId_def
  wrap_GetApiV1InventoryCategories_def wrap_PostApiV1InventoryCategories_def
  wrap_DeleteApiV1InventoryCategoriesCategoryId_def wrap_GetApiV1InventoryCategoriesCategoryId_def
  wrap_PutApiV1InventoryCategoriesCategoryId_def wrap_GetApiV1InventoryDashboardMovementsChart_def
  wrap_GetApiV1InventoryDashboardSummary_def wrap_GetInventoryHealth_def
  wrap_GetApiV1InventoryMovements_def wrap_PostApiV1InventoryMovementsAdjustment_def
  wrap_PostApiV1InventoryMovementsInbound_def wrap_PostApiV1InventoryMovementsOutbound_def
  wrap_PostApiV1InventoryMovementsTransfer_def wrap_GetApiV1InventoryMovementsMovementId_def
  wrap_PostApiV1InventoryMovementsMovementIdCancel_def
  wrap_PostApiV1InventoryMovementsMovementIdConfirm_def wrap_GetApiV1InventoryProducts_def
  wrap_PostApiV1InventoryProducts_def wrap_DeleteApiV1InventoryProductsProductId_def
  wrap_GetApiV1InventoryProductsProductId_def wrap_PutApiV1InventoryProductsProductId_def
  wrap_PostApiV1InventoryProductsProductIdRestore_def wrap_GetApiV1InventoryWarehouses_def
  wrap_PostApiV1InventoryWarehouses_def wrap_DeleteApiV1InventoryWarehousesWarehouseId_def
  wrap_GetApiV1InventoryWarehousesWarehouseId_def wrap_PutApiV1InventoryWarehousesWarehouseId_def
  wrap_GetHealth_def wrap_GetReady_def

lemma wrapper_calls:
  assumes "bindTyped bl"
  shows "list_all (\<lambda>x. callsOnce rq c (snd x lib bl rq c)) RegisterRoutes"
  unfolding RegisterRoutes_def RegisterHandlers_def append.simps list.pred_inject(2) snd_conv wrapper_defs
  by (intro conjI list.pred_inject(1) callsOnce_param callsOnce_header call_rules create_calls [OF assms])

lemma handleRoute_calls: "bindTyped bl \<Longrightarrow> callsOnce rq c (handleRoute lib bl rq c)"
  using wrapper_calls [of bl rq c lib]
  by (auto simp: handleRoute_def list_all_iff split: option.splits dest!: map_of_SomeD)

section \<open>The server refines the service\<close>

text \<open>The contexts a request can act with: none of its own claims, or those of the accepted token.\<close>

definition actsAs :: "JWTLib \<Rightarrow> JWTService \<Rightarrow> (nat \<Rightarrow> int) \<Rightarrow> httpReq \<Rightarrow> ctx \<Rightarrow> bool" where
  "actsAs jl js clock rq c \<longleftrightarrow>
     hqPath rq \<in> set InventoryPublicPaths \<and> c = requestMeta rq Background
   \<or> (\<exists>tok cl. GetJWTFromEchoContext (hqAuthorization rq) = Inr tok \<and> ParseAccess jl js clock tok = Inr cl
        \<and> c = requestMeta rq (ContextWithClaims Background (Some cl)))"

definition readings :: "world \<Rightarrow> nat \<Rightarrow> int" where
  "readings w = (\<lambda>i. wtime w (wtick w + i))"

definition afterToken :: "world \<Rightarrow> world" where
  "afterToken w = w\<lparr>wtick := wtick w + 4\<rparr>"

lemma tokenClock_run: "tokenClock w = (Inr (readings w), afterToken w)"
  by (simp add: tokenClock_def readings_def afterToken_def)

lemma serves_one:
  assumes "callsOnce rq c h"
  shows "(\<exists>resp. httpErrorHandler rq h w = (Inr resp, w)
            \<and> ((\<exists>e. resp = writeError rq e) \<or> resp = HText 200 ''ok''))
    \<or> (\<exists>r resp. typedRequest r \<and> httpErrorHandler rq h w = (Inr resp, snd (serve c r w))
         \<and> (\<forall>e. fst (serve c r w) = Inl e \<longrightarrow> (if r = RPingDB
              then resp = HJSON 503 (JObj [(''error'', JStr ''database unavailable'')]) \<or> resp = writeError rq e
              else resp = writeError rq e)))"
  using assms unfolding callsOnce_def
proof (elim disjE exE conjE)
  fix e assume "h = throw e"
  then show ?thesis by (auto simp: httpErrorHandler_def throw_def)
next
  fix e assume "h = Fail rq e"
  then show ?thesis by (auto simp: httpErrorHandler_def Fail_def ret_def)
next
  assume "h = ret (HText 200 ''ok'')"
  then show ?thesis by (auto simp: httpErrorHandler_def ret_def)
next
  assume "h = GetReady c"
  then have "\<exists>resp. httpErrorHandler rq h w = (Inr resp, snd (serve c RPingDB w))
      \<and> (\<forall>e. fst (serve c RPingDB w) = Inl e \<longrightarrow>
          resp = HJSON 503 (JObj [(''error'', JStr ''database unavailable'')]) \<or> resp = writeError rq e)"
    by (cases "PingDB c w"; cases "fst (PingDB c w)"; cases "projl (fst (PingDB c w))")
      (auto simp: httpErrorHandler_def GetReady_def asResp_def bindM_def tryM_def ret_def)
  moreover have "typedRequest RPingDB" by (simp add: typed_plain)
  ultimately show ?thesis by auto
next
  fix r k assume r: "typedRequest r" "r \<noteq> RPingDB" and h: "h = callSvc rq (serve c r) k" and k: "\<forall>x. pureH (k x)"
  obtain res w' where s: "serve c r w = (res, w')" by fastforce
  have "\<exists>resp. httpErrorHandler rq h w = (Inr resp, w') \<and> (\<forall>e. res = Inl e \<longrightarrow> resp = writeError rq e)"
  proof (cases res)
    case (Inl e)
    then show ?thesis using s h
      by (cases e) (auto simp: httpErrorHandler_def callSvc_def bindM_def tryM_def Fail_def ret_def)
  next
    case (Inr x)
    from k obtain o' where "k x = liftE o'" by (auto simp: pureH_def)
    then show ?thesis using s h Inr
      by (cases o') (auto simp: httpErrorHandler_def callSvc_def bindM_def tryM_def liftE_def)
  qed
  then show ?thesis using r s by force
qed

lemma middleware_cases:
  "RequireBearerAccessJWT jl js pub clock next path authz c = throw (App ErrUnauthorized) \<and> path \<notin> set pub
   \<or> RequireBearerAccessJWT jl js pub clock next path authz c = next c \<and> path \<in> set pub
   \<or> (\<exists>tok cl. GetJWTFromEchoContext authz = Inr tok \<and> ParseAccess jl js clock tok = Inr cl
       \<and> RequireBearerAccessJWT jl js pub clock next path authz c = next (ContextWithClaims c (Some cl)))"
  by (cases "GetJWTFromEchoContext authz")
    (auto simp: RequireBearerAccessJWT_def fun_eq_iff bindM_def liftE_def throw_def GetJWTFromEchoContext_def Let_def
      split: sum.splits if_splits)

lemma ServeHTTP_run:
  "ServeHTTP jl js lib bl rq w = httpErrorHandler rq (RequireBearerAccessJWT jl js InventoryPublicPaths (readings w)
     (\<lambda>c. handleRoute lib bl rq (requestMeta rq c)) (hqPath rq) (hqAuthorization rq) Background) (afterToken w)"
  by (simp add: ServeHTTP_def httpErrorHandler_def bindM_def tokenClock_run)

lemma ServeHTTP_cases:
  assumes "bindTyped bl"
  shows "(\<exists>resp. ServeHTTP jl js lib bl rq w = (Inr resp, afterToken w)
            \<and> ((\<exists>e. resp = writeError rq e) \<or> resp = HText 200 ''ok''))
    \<or> (\<exists>c r resp. actsAs jl js (readings w) rq c \<and> typedRequest r
         \<and> ServeHTTP jl js lib bl rq w = (Inr resp, snd (serve c r (afterToken w)))
         \<and> (\<forall>e. fst (serve c r (afterToken w)) = Inl e \<longrightarrow> (if r = RPingDB
              then resp = HJSON 503 (JObj [(''error'', JStr ''database unavailable'')]) \<or> resp = writeError rq e
              else resp = writeError rq e)))"
  using middleware_cases [of jl js InventoryPublicPaths "readings w"
      "\<lambda>c. handleRoute lib bl rq (requestMeta rq c)" "hqPath rq" "hqAuthorization rq" Background]
proof (elim disjE exE conjE)
  assume "RequireBearerAccessJWT jl js InventoryPublicPaths (readings w)
      (\<lambda>c. handleRoute lib bl rq (requestMeta rq c)) (hqPath rq) (hqAuthorization rq) Background = throw (App ErrUnauthorized)"
  then show ?thesis by (auto simp: ServeHTTP_run httpErrorHandler_def throw_def)
next
  assume run: "RequireBearerAccessJWT jl js InventoryPublicPaths (readings w)
      (\<lambda>c. handleRoute lib bl rq (requestMeta rq c)) (hqPath rq) (hqAuthorization rq) Background
    = handleRoute lib bl rq (requestMeta rq Background)" and "hqPath rq \<in> set InventoryPublicPaths"
  then have "actsAs jl js (readings w) rq (requestMeta rq Background)" by (simp add: actsAs_def)
  with serves_one [OF handleRoute_calls [OF assms, of rq "requestMeta rq Background" lib], of "afterToken w"]
  show ?thesis unfolding ServeHTTP_run run by blast
next
  fix tok cl assume run: "RequireBearerAccessJWT jl js InventoryPublicPaths (readings w)
      (\<lambda>c. handleRoute lib bl rq (requestMeta rq c)) (hqPath rq) (hqAuthorization rq) Background
    = handleRoute lib bl rq (requestMeta rq (ContextWithClaims Background (Some cl)))"
    and "GetJWTFromEchoContext (hqAuthorization rq) = Inr tok" "ParseAccess jl js (readings w) tok = Inr cl"
  then have "actsAs jl js (readings w) rq (requestMeta rq (ContextWithClaims Background (Some cl)))"
    by (auto simp: actsAs_def)
  with serves_one [OF handleRoute_calls [OF assms, of rq "requestMeta rq (ContextWithClaims Background (Some cl))" lib],
      of "afterToken w"]
  show ?thesis unfolding ServeHTTP_run run by blast
qed

end
