(* ===== verification/Api_Safety.thy ===== *)
theory Api_Safety
  imports Api_Laws
begin

text \<open>
  What the HTTP server of the inventory service guarantees, end to end: one call of the service per
  request with the identity of its token, no effect without a token, and no effect on another
  tenant. The end of the theory evaluates a request on the small world of Sample.
\<close>

section \<open>A concrete server\<close>

definition sampleApi :: ApiLib where
  "sampleApi = \<lparr>alUUID = (\<lambda>s. if s = [] then Inl (Raw ''invalid UUID length: 0'') else Inr s),
     alUnmarshal = (\<lambda>s. if s = ''{}'' then Inr (Some []) else Inl (Raw ''invalid character'')),
     alMarshal = (\<lambda>m. if m = [] then Inr ''{}'' else Inl (Raw ''unsupported value'')),
     alNoObject = (\<lambda>_. (''cannot unmarshal'', ''0'')), alSum256 = take 32\<rparr>"

text \<open>Every body of the samples is the creation of an inbound movement of 5 pieces.\<close>

definition sampleInbound :: InboundMovementCreateRequest where
  "sampleInbound = \<lparr>mrLines = [\<lparr>lcNotes = None, lcProductId = ''p1'', lcQuantity = 5\<rparr>], mrNotes = None,
     mrReferenceNumber = ''R2'', mrDestinationWarehouseId = ''w1''\<rparr>"

definition sampleBind :: BindLib where
  "sampleBind = \<lparr>bqInt = (\<lambda>rq k. Inr (Atoi (QueryParam rq k))), bqStr = (\<lambda>rq k. Inr (map_of (hqQuery rq) k)),
     bqUUID = (\<lambda>rq k. Inr (map_of (hqQuery rq) k)), bqTime = (\<lambda>rq k. Inr None),
     bpStr = (\<lambda>rq k. case map_of (hqParams rq) k of None \<Rightarrow> Inl (Raw ''empty'') | Some v \<Rightarrow> Inr v),
     bpUUID = (\<lambda>rq k. case map_of (hqParams rq) k of None \<Rightarrow> Inl (Raw ''empty'') | Some v \<Rightarrow> Inr v),
     bhStr = (\<lambda>k v. Inr v), bdCategoryCreate = (\<lambda>_. Inl ''no body''), bdCategoryUpdate = (\<lambda>_. Inl ''no body''),
     bdProductCreate = (\<lambda>_. Inl ''no body''), bdProductUpdate = (\<lambda>_. Inl ''no body''),
     bdWarehouseCreate = (\<lambda>_. Inl ''no body''), bdWarehouseUpdate = (\<lambda>_. Inl ''no body''),
     bdInbound = (\<lambda>_. Inr sampleInbound), bdOutbound = (\<lambda>_. Inl ''no body''),
     bdTransfer = (\<lambda>_. Inl ''no body''), bdAdjustment = (\<lambda>_. Inl ''no body'')\<rparr>"

lemma sampleBind_typed [simp]: "bindTyped sampleBind"
  by (simp add: bindTyped_def sampleBind_def sampleInbound_def typedLines_def is_int32_def)

definition bearerClaims :: Claims where
  "bearerClaims = \<lparr>clTenantID = ''t1'', clTokenType = TokenTypeAccess, clRole = ''owner'', clPermissions = [],
     clRegistered = \<lparr>rcIssuer = ''inventory'', rcSubject = ''u1'', rcAudience = [], rcExpiresAt = Some 900000000,
       rcNotBefore = None, rcIssuedAt = None, rcID = []\<rparr>\<rparr>"

definition bearerToken :: string where
  "bearerToken = spellToken ''ka'' bearerClaims"

text \<open>A request for a pattern with the identifier of a movement, and its Authorization header.\<close>

definition sampleReq :: "string \<Rightarrow> string \<Rightarrow> string \<Rightarrow> httpReq" where
  "sampleReq meth pat authz = \<lparr>hqMethod = meth, hqPath = pat, hqRoute = Some pat,
     hqParams = [(''movementId'', ''m1'')], hqQuery = [], hqAuthorization = authz,
     hqIdempotencyKey = Some [''k2''], hqBody = Inr ''{}'', hqResponseID = ''q1'', hqRequestID = [],
     hqIP = ''10.0.0.1'', hqUserAgent = []\<rparr>"

definition confirmReq :: "string \<Rightarrow> httpReq" where
  "confirmReq authz = sampleReq ''POST'' ''/api/v1/inventory/movements/:movementId/confirm'' authz"

lemma last_encField: "encField f \<noteq> [] \<and> last (encField f) = CHR ''.''"
  by (induction f) auto

lemma trim_edges: "s \<noteq> [] \<Longrightarrow> \<not> isSpace (hd s) \<Longrightarrow> \<not> isSpace (last s) \<Longrightarrow> TrimSpace s = s"
  by (cases s) (auto simp: TrimSpace_def dropWhile_eq_self_iff hd_rev hd_append split: list.splits)

lemma spellToken_edges:
  assumes "k \<noteq> []"
  shows "spellToken k cl \<noteq> []" "hd (spellToken k cl) = CHR ''-''" "last (spellToken k cl) = CHR ''.''"
  using assms last_encField
  by (cases k; simp add: spellToken_def encFields_def Let_def; fail)+

lemma bearerToken_trimmed [simp]: "TrimSpace bearerToken = bearerToken"
  unfolding bearerToken_def by (rule trim_edges) (simp_all add: spellToken_edges isSpace_def)

lemma bearer_accepted:
  assumes "\<forall>i. clock i < 900000000"
  shows "GetJWTFromEchoContext (BearerPrefix @ bearerToken) = Inr bearerToken"
    and "ParseAccess (spellLib 1000000) spellService clock bearerToken = Inr bearerClaims"
proof -
  have "bearerToken \<noteq> []" unfolding bearerToken_def by (rule spellToken_edges) simp
  then show "GetJWTFromEchoContext (BearerPrefix @ bearerToken) = Inr bearerToken"
    by (simp add: GetJWTFromEchoContext_def Let_def)
  show "ParseAccess (spellLib 1000000) spellService clock bearerToken = Inr bearerClaims"
    using assms by (simp add: bearerToken_def ParseAccess_def parseToken_def uniqueSecretKeys_def
      spellService_def parseTokenWithKey_def spellLib_def keyFunc_def spellValid_def timesOK_def
      bearerClaims_def validateIssuerAudience_def)
qed

section \<open>One call with the identity of the token\<close>

text \<open>C26: The HTTP server refines the service. Every request gets a response. Either the request is
  answered without the service, with an error or as a liveness probe, and nothing in the world changes
  beyond the readings of the clock; or exactly one call of the service is made, with the claims of the
  token the middleware accepted (none on a public path) and quantities that fit an int32, the new world
  is the world after that call, and if the call fails with an error, the response is the answer
  of that error (503 for a failed readiness probe).\<close>

theorem http_refines_service:
  assumes "bindTyped bl"
  shows "(\<exists>resp. ServeHTTP jl js lib bl rq w = (Inr resp, afterToken w)
            \<and> ((\<exists>e. resp = writeError rq e) \<or> resp = HText 200 ''ok''))
    \<or> (\<exists>c r resp. actsAs jl js (readings w) rq c \<and> typedRequest r
         \<and> ServeHTTP jl js lib bl rq w = (Inr resp, snd (serve c r (afterToken w)))
         \<and> (\<forall>e. fst (serve c r (afterToken w)) = Inl e \<longrightarrow> (if r = RPingDB
              then resp = HJSON 503 (JObj [(''error'', JStr ''database unavailable'')]) \<or> resp = writeError rq e
              else resp = writeError rq e)))"
  by (rule ServeHTTP_cases [OF assms])

theorem http_refines_service_witness:
  "(\<exists>resp. ServeHTTP (spellLib 1000000) spellService sampleApi sampleBind (confirmReq []) sampleWorld
        = (Inr resp, afterToken sampleWorld) \<and> ((\<exists>e. resp = writeError (confirmReq []) e) \<or> resp = HText 200 ''ok''))"
proof -
  have none: "\<not> actsAs (spellLib 1000000) spellService (readings sampleWorld) (confirmReq []) c" for c
    by (simp add: actsAs_def confirmReq_def sampleReq_def InventoryPublicPaths_def GetJWTFromEchoContext_def BearerPrefix_def)
  show ?thesis
    using http_refines_service [of sampleBind "spellLib 1000000" spellService sampleApi "confirmReq []" sampleWorld]
    by (auto simp: none)
qed

section \<open>Without a token\<close>

text \<open>C27: Nothing without a token. A request whose path is not one of the five public ones and which
  carries no bearer token that ParseAccess accepts at that moment is answered with 401 UNAUTHORIZED,
  whatever its method, route, parameters and body are, and leaves the world as it was.\<close>

theorem http_needs_token:
  assumes "hqPath rq \<notin> set InventoryPublicPaths"
    and "\<forall>tok cl. GetJWTFromEchoContext (hqAuthorization rq) = Inr tok \<longrightarrow>
      ParseAccess jl js (readings w) tok \<noteq> Inr cl"
  shows "\<exists>env. ServeHTTP jl js lib bl rq w = (Inr (HError 401 env), afterToken w)
    \<and> epCode (envErr env) = CodeUnauthorized \<and> \<not> envSuccess env"
proof -
  have refuse: "RequireBearerAccessJWT jl js InventoryPublicPaths (readings w)
      (\<lambda>c. handleRoute lib bl rq (requestMeta rq c)) (hqPath rq) (hqAuthorization rq) Background = throw (App ErrUnauthorized)"
    using middleware_cases [of jl js InventoryPublicPaths "readings w"
      "\<lambda>c. handleRoute lib bl rq (requestMeta rq c)" "hqPath rq" "hqAuthorization rq" Background] assms by blast
  then show ?thesis
    by (auto simp: ServeHTTP_run refuse httpErrorHandler_def throw_def writeError_def WriteHTTPError_def ToHTTP_def
      ErrUnauthorized_def newAppError_def Let_def)
qed

theorem http_needs_token_witness:
  "\<exists>env. ServeHTTP (spellLib 1000000) spellService sampleApi sampleBind (confirmReq ''Bearer x'') sampleWorld
      = (Inr (HError 401 env), afterToken sampleWorld)
    \<and> epCode (envErr env) = CodeUnauthorized \<and> \<not> envSuccess env"
proof (rule http_needs_token)
  have p: "ParseAccess (spellLib 1000000) spellService (readings sampleWorld) ''x'' \<noteq> Inr cl" for cl
    by (simp add: ParseAccess_def parseToken_def uniqueSecretKeys_def spellService_def parseTokenWithKey_def
      spellLib_def readToken_def)
  have "GetJWTFromEchoContext ''Bearer x'' = Inr ''x''" by code_simp
  then show "\<forall>tok cl. GetJWTFromEchoContext (hqAuthorization (confirmReq ''Bearer x'')) = Inr tok \<longrightarrow>
      ParseAccess (spellLib 1000000) spellService (readings sampleWorld) tok \<noteq> Inr cl"
    using p by (simp add: confirmReq_def sampleReq_def)
qed (simp add: confirmReq_def sampleReq_def InventoryPublicPaths_def)

section \<open>No effect on another tenant\<close>

lemma tenant_requestMeta [simp]: "TenantIDFromContext (requestMeta rq c) = TenantIDFromContext c"
  by (simp add: requestMeta_def EchoMiddleware_def WithContext_def TenantIDFromContext_def ClaimsFromContext_def Let_def)

lemma tenant_background: "TenantIDFromContext Background = Inl (Sys ErrTenantContextMissing)"
  by (simp add: TenantIDFromContext_def ClaimsFromContext_def Background_def)

lemma tenant_claims:
  "ParseAccess jl js clock tok = Inr cl \<Longrightarrow>
     TenantIDFromContext (ContextWithClaims c (Some cl)) = Inr (clTenantID cl)"
  using ParseAccess_identity [of jl js clock tok cl]
  by (simp add: TenantIDFromContext_def ContextWithClaims_def ClaimsFromContext_def)

lemma afterToken_db [simp]: "wdb (afterToken w) = wdb w"
  by (simp add: afterToken_def)

text \<open>C28: Tenant isolation of the server. Whatever request arrives and whatever fails on the way, the
  store keeps its integrity, and either no committed row changes, or the request carries a bearer token
  that ParseAccess accepts and only rows of the tenant of that token change: those of every other
  tenant are exactly what they were.\<close>

theorem http_tenant_isolation:
  assumes "bindTyped bl" "dbInv (wdb w)"
    and "\<forall>tok cl. GetJWTFromEchoContext (hqAuthorization rq) = Inr tok \<longrightarrow>
      ParseAccess jl js (readings w) tok = Inr cl \<longrightarrow> TrimSpace (clTenantID cl) = clTenantID cl"
  shows "dbInv (wdb (snd (ServeHTTP jl js lib bl rq w)))
    \<and> (wdb (snd (ServeHTTP jl js lib bl rq w)) = wdb w
      \<or> (\<exists>tok cl. GetJWTFromEchoContext (hqAuthorization rq) = Inr tok \<and> ParseAccess jl js (readings w) tok = Inr cl
           \<and> othersEq (clTenantID cl) (wdb w) (wdb (snd (ServeHTTP jl js lib bl rq w)))))"
proof -
  have "wdb (snd (ServeHTTP jl js lib bl rq w)) = wdb w
    \<or> (\<exists>c r. actsAs jl js (readings w) rq c \<and> typedRequest r
         \<and> snd (ServeHTTP jl js lib bl rq w) = snd (serve c r (afterToken w)))"
    using ServeHTTP_cases [OF assms(1), of jl js lib rq w] by fastforce
  then show ?thesis
  proof (elim disjE exE conjE)
    fix c r assume act: "actsAs jl js (readings w) rq c" and r: "typedRequest r"
      and eq: "snd (ServeHTTP jl js lib bl rq w) = snd (serve c r (afterToken w))"
    show ?thesis using act [unfolded actsAs_def]
    proof (elim disjE exE conjE)
      assume "c = requestMeta rq Background"
      then have "TenantIDFromContext c = Inl (Sys ErrTenantContextMissing)"
        using tenant_background by simp
      from serve_unauthenticated [OF this] show ?thesis using assms(2) by (simp add: eq)
    next
      fix tok cl assume h: "GetJWTFromEchoContext (hqAuthorization rq) = Inr tok"
        and p: "ParseAccess jl js (readings w) tok = Inr cl"
        and c: "c = requestMeta rq (ContextWithClaims Background (Some cl))"
      have t: "TenantIDFromContext c = Inr (clTenantID cl)" by (simp add: c tenant_claims [OF p])
      have "TrimSpace (clTenantID cl) = clTenantID cl" using assms(3) h p by blast
      from serve_isolated [OF t this r, of "afterToken w"] assms(2) h p show ?thesis by (auto simp: eq)
    qed
  qed (use assms(2) in simp)
qed

theorem http_tenant_isolation_witness:
  "othersEq ''t1'' sampleDB (wdb (snd (ServeHTTP (spellLib 1000000) spellService sampleApi sampleBind
      (confirmReq (BearerPrefix @ bearerToken)) (sampleWorld\<lparr>wtime := (\<lambda>_. 7)\<rparr>))))"
proof -
  let ?w = "sampleWorld\<lparr>wtime := (\<lambda>_. 7)\<rparr>" and ?rq = "confirmReq (BearerPrefix @ bearerToken)"
  have r: "readings ?w = (\<lambda>_. 7)" by (simp add: readings_def)
  have p: "GetJWTFromEchoContext (hqAuthorization ?rq) = Inr bearerToken"
    "ParseAccess (spellLib 1000000) spellService (readings ?w) bearerToken = Inr bearerClaims"
    using bearer_accepted [of "\<lambda>_. 7"] by (simp_all add: confirmReq_def sampleReq_def r)
  then have "\<forall>tok cl. GetJWTFromEchoContext (hqAuthorization ?rq) = Inr tok \<longrightarrow>
      ParseAccess (spellLib 1000000) spellService (readings ?w) tok = Inr cl \<longrightarrow>
      TrimSpace (clTenantID cl) = clTenantID cl"
    by (auto simp: bearerClaims_def TrimSpace_def isSpace_def)
  from http_tenant_isolation [OF sampleBind_typed _ this, of sampleApi] p sample_dbInv
  show ?thesis by (auto simp: sampleWorld_def sampleWorldOf_def bearerClaims_def othersEq_refl)
qed

end
