(* ===== verification/Sse.thy ===== *)
theory Sse
  imports Api_Safety
begin

text \<open>
  The event streams of the inventory service (src/services/inventory/api: sse_stock.go,
  sse_activity.go). A stream checks the token of its request itself, then writes text until its client
  goes away. What wakes the loop of a handler up is a list of events; for the activity stream, which
  reads the audit log, a change of the world by others comes before each of them.
\<close>

section \<open>Stock\<close>

definition nl :: string where
  "nl = [CHR 0x0A]"

definition pingText :: string where
  "pingText = '': ping'' @ nl @ nl"

definition sseText :: "string \<Rightarrow> string \<Rightarrow> string" where
  "sseText event d = ''event: '' @ event @ nl @ ''data: '' @ d @ nl @ nl"

datatype stockEvent = StockDone | StockTick | StockMessage string | StockClosed

fun stockLoop :: "stockEvent list \<Rightarrow> string list" where
  "stockLoop [] = []"
| "stockLoop (StockDone # es) = []"
| "stockLoop (StockTick # es) = pingText # stockLoop es"
| "stockLoop (StockMessage payload # es) = sseText ''stock_changed'' payload # stockLoop es"
| "stockLoop (StockClosed # es) = []"

text \<open>The token of the request, verified; both streams begin with it.\<close>

definition streamClaims :: "JWTLib \<Rightarrow> JWTService \<Rightarrow> (nat \<Rightarrow> int) \<Rightarrow> httpReq \<Rightarrow> err + Claims" where
  "streamClaims jl js clock rq =
    (case AccessTokenFromRequest (hqAuthorization rq) (QueryParam rq ''access_token'') of
       None \<Rightarrow> Inl (App ErrUnauthorized)
     | Some tok \<Rightarrow> (case ParseAccess jl js clock tok of
         Inl e \<Rightarrow> Inl (App ErrUnauthorized)
       | Inr claims \<Rightarrow> if clTenantID claims = [] then Inl (App ErrUnauthorized) else Inr claims))"

text \<open>The channel subscribed to and what is written to the response, whose status is 200 by then. A
  writer that cannot flush ends the stream before it begins.\<close>

definition SSEStock :: "bool \<Rightarrow> bool \<Rightarrow> JWTLib \<Rightarrow> JWTService \<Rightarrow> (nat \<Rightarrow> int) \<Rightarrow> httpReq \<Rightarrow> stockEvent list \<Rightarrow>
    err + string option \<times> string list" where
  "SSEStock rdb flusher jl js clock rq events =
    (if \<not> rdb then Inl (httpErr 503 ''SSE requires Redis (set REDIS_ADDR)'')
     else bindE (streamClaims jl js clock rq) (\<lambda>claims.
       if \<not> flusher then Inr (None, [])
       else Inr (Some (''stock:'' @ clTenantID claims), stockLoop events)))"

section \<open>Activity\<close>

datatype activityEvent = ActivityDone | ActivityTick | ActivityPing

text \<open>What the activity stream writes: a ping, or an audit row with the JSON text of its payload.\<close>

datatype activityOut = OPing | OActivity Entry string

fun activityText :: "activityOut \<Rightarrow> string" where
  "activityText OPing = pingText"
| "activityText (OActivity row body) = sseText ''activity_changed'' body"

text \<open>CreatedAt.UTC().Format(time.RFC3339): whole seconds.\<close>

definition rfc3339 :: "int \<Rightarrow> string" where
  "rfc3339 ts = formatTime \<lparr>gtNanos = ts div 1000000 * 1000000000, gtOffset = 0\<rparr>"

definition activityPayload :: "Entry \<Rightarrow> (string \<times> jval) list" where
  "activityPayload row = [(''audit_id'', JStr (enID row)), (''entity'', JStr (enEntity row)),
     (''entity_id'', JStr (enEntityID row)), (''action'', JStr (enAction row)),
     (''created_at'', JStr (rfc3339 (enCreatedAt row)))]"

definition newestAudit :: ListAuditLogsInput where
  "newestAudit = \<lparr>liaPage = Some 1, liaPerPage = Some 1, liaEntity = None, liaEntityID = None,
     liaAction = None, liaUserID = None, liaCreatedFrom = None, liaCreatedTo = None\<rparr>"

text \<open>emitLatest on the identifier emitted last: the new one and what is written. Its error is
  dropped by the caller.\<close>

definition emitLatest :: "ApiLib \<Rightarrow> ctx \<Rightarrow> string \<Rightarrow> (string \<times> activityOut list) app" where
  "emitLatest lib c lastAuditID =
    bindM (tryM (ListAuditLogs c newestAudit)) (\<lambda>r. case r of
      Inl e \<Rightarrow> ret (lastAuditID, [])
    | Inr out \<Rightarrow> (case loItems out of
        [] \<Rightarrow> ret (lastAuditID, [])
      | row # _ \<Rightarrow>
          if enID row = lastAuditID then ret (lastAuditID, [])
          else (case alMarshal lib (activityPayload row) of
              Inl e \<Rightarrow> ret (enID row, [])
            | Inr body \<Rightarrow> ret (enID row, [OActivity row body]))))"

fun activityLoop :: "ApiLib \<Rightarrow> ctx \<Rightarrow> ((world \<Rightarrow> world) \<times> activityEvent) list \<Rightarrow> string \<Rightarrow> activityOut list app" where
  "activityLoop lib c [] lastID w = (Inr [], w)"
| "activityLoop lib c ((env, ActivityDone) # es) lastID w = (Inr [], env w)"
| "activityLoop lib c ((env, ActivityPing) # es) lastID w =
     bindM (activityLoop lib c es lastID) (\<lambda>outs. ret (OPing # outs)) (env w)"
| "activityLoop lib c ((env, ActivityTick) # es) lastID w =
     bindM (emitLatest lib c lastID) (\<lambda>(lastID, out).
     bindM (activityLoop lib c es lastID) (\<lambda>outs. ret (out @ outs))) (env w)"

definition SSEActivity :: "ApiLib \<Rightarrow> bool \<Rightarrow> JWTLib \<Rightarrow> JWTService \<Rightarrow> (nat \<Rightarrow> int) \<Rightarrow> httpReq \<Rightarrow>
    ((world \<Rightarrow> world) \<times> activityEvent) list \<Rightarrow> activityOut list app" where
  "SSEActivity lib flusher jl js clock rq events =
    bindM (liftE (streamClaims jl js clock rq)) (\<lambda>claims.
    if \<not> flusher then ret []
    else let c = ContextWithClaims Background (Some claims) in
      bindM (emitLatest lib c []) (\<lambda>(lastID, out).
      bindM (activityLoop lib c events lastID) (\<lambda>outs. ret (out @ outs))))"

section \<open>What a client sees\<close>

text \<open>The audit rows of a stream in order.\<close>

definition activityRows :: "activityOut list \<Rightarrow> Entry list" where
  "activityRows outs = concat (map (\<lambda>x. case x of OPing \<Rightarrow> [] | OActivity row body \<Rightarrow> [row]) outs)"

lemma activityRows_simps [simp]:
  "activityRows [] = []" "activityRows (OPing # xs) = activityRows xs"
  "activityRows (OActivity row body # xs) = row # activityRows xs"
  "activityRows (xs @ ys) = activityRows xs @ activityRows ys"
  by (simp_all add: activityRows_def)

text \<open>Rows a client may get: of its tenant, each with another identifier than the one before.\<close>

fun changing :: "string \<Rightarrow> Entry list \<Rightarrow> bool" where
  "changing i [] = True"
| "changing i (e # es) \<longleftrightarrow> enID e \<noteq> i \<and> changing (enID e) es"

lemma auditList_items:
  assumes "auditList c t f w = (Inr (items, n), w')"
  shows "items = map (listRowToEntry (dbUsers (viewOf (GetDB c) w)))
     (pageOf (if afPage f < 1 then 1 else afPage f) (if afPerPage f < 1 then 20 else afPerPage f)
       (orderBy True (\<lambda>r. sInt (alrCreatedAt r)) alrID
         (filter (auditWhere (TrimSpace t) f) (dbAudit (viewOf (GetDB c) w)))))"
  using assms unfolding auditList_def Let_def bindM_Inr queryStmt_def ret_run
  by (auto dest!: runStmt_Inr)

lemma auditList_tenant:
  assumes "auditList c t f w = (Inr (items, n), w')" "e \<in> set items"
  shows "enTenantID e = TrimSpace t"
proof -
  from assms(2) obtain r where r: "e = listRowToEntry (dbUsers (viewOf (GetDB c) w)) r"
    and p: "r \<in> set (pageOf (if afPage f < 1 then 1 else afPage f) (if afPerPage f < 1 then 20 else afPerPage f)
      (orderBy True (\<lambda>r. sInt (alrCreatedAt r)) alrID
         (filter (auditWhere (TrimSpace t) f) (dbAudit (viewOf (GetDB c) w)))))"
    unfolding auditList_items [OF assms(1)] by auto
  from subsetD [OF set_pageOf p] have "alrTenantID r = TrimSpace t" by (simp add: auditWhere_def)
  then show ?thesis by (simp add: r listRowToEntry_def)
qed

lemma ListAuditLogs_tenant:
  assumes "ListAuditLogs c inp w = (Inr out, w')" "TenantIDFromContext c = Inr t" "e \<in> set (loItems out)"
  shows "enTenantID e = TrimSpace t"
proof -
  obtain page per where pp: "pageParams (liaPage inp) (liaPerPage inp) = (page, per)" by fastforce
  from assms(1,2) obtain f items n w1 where "auditList c t f w = (Inr (items, n), w1)" "loItems out = items"
    unfolding ListAuditLogs_def Let_def pp
    by (auto simp: bindM_Inr run_simps)
  then show ?thesis using auditList_tenant assms(3) by blast
qed

text \<open>The payload has string fields only, which encoding/json always encodes.\<close>

definition encodesActivity :: "ApiLib \<Rightarrow> bool" where
  "encodesActivity lib \<longleftrightarrow> (\<forall>row. \<exists>body. alMarshal lib (activityPayload row) = Inr body)"

lemma emitLatest_cases:
  assumes "emitLatest lib c i w = (Inr (j, out), w')" "TenantIDFromContext c = Inr t" "encodesActivity lib"
  shows "j = i \<and> out = [] \<or> (\<exists>row body. out = [OActivity row body] \<and> j = enID row \<and> enID row \<noteq> i
      \<and> enTenantID row = TrimSpace t)"
proof -
  obtain r w1 where r: "tryM (ListAuditLogs c newestAudit) w = (Inr r, w1)"
    using assms(1) unfolding emitLatest_def bindM_Inr by blast
  show ?thesis
  proof (cases r)
    case (Inl e)
    then show ?thesis using assms(1) r by (simp add: emitLatest_def bindM_def ret_def)
  next
    case (Inr lst)
    then have lst: "ListAuditLogs c newestAudit w = (Inr lst, w1)" using r by (simp add: tryM_Inr_Inr)
    show ?thesis
    proof (cases "loItems lst")
      case Nil
      then show ?thesis using assms(1) r Inr by (simp add: emitLatest_def bindM_def ret_def)
    next
      case (Cons row rest)
      then have t: "enTenantID row = TrimSpace t" using ListAuditLogs_tenant [OF lst assms(2)] by simp
      obtain body where "alMarshal lib (activityPayload row) = Inr body"
        using assms(3) unfolding encodesActivity_def by blast
      then show ?thesis using assms(1) r Inr Cons t
        by (auto simp: emitLatest_def bindM_def ret_def split: if_splits)
    qed
  qed
qed

definition streamRows :: "string \<Rightarrow> string \<Rightarrow> activityOut list \<Rightarrow> bool" where
  "streamRows t i outs \<longleftrightarrow> list_all (\<lambda>e. enTenantID e = TrimSpace t) (activityRows outs)
     \<and> changing i (activityRows outs)"

lemma emit_then:
  assumes "emitLatest lib c i w = (Inr (j, out), w1)" "TenantIDFromContext c = Inr t" "encodesActivity lib"
    and "streamRows t j outs"
  shows "streamRows t i (out @ outs)"
  using emitLatest_cases [OF assms(1-3)] assms(4) by (auto simp: streamRows_def)

lemma activityLoop_rows:
  assumes "activityLoop lib c es i w = (Inr outs, w')" "TenantIDFromContext c = Inr t" "encodesActivity lib"
  shows "streamRows t i outs"
  using assms
proof (induction lib c es i w arbitrary: outs w' rule: activityLoop.induct)
  case (4 lib c env es i w)
  then obtain j out w1 rest w2 where e: "emitLatest lib c i (env w) = (Inr (j, out), w1)"
    and l: "activityLoop lib c es j w1 = (Inr rest, w2)" and o: "outs = out @ rest"
    by (auto simp: bindM_Inr ret_run)
  have "streamRows t j rest" using "4.IH" [OF l] "4.prems" by simp
  then show ?case using emit_then [OF e "4.prems"(2,3)] o by simp
qed (auto simp: streamRows_def bindM_Inr ret_run)

lemma ListAuditLogs_noPanic: "ListAuditLogs c inp w \<noteq> (Inl (Panic s), w')"
proof
  assume a: "ListAuditLogs c inp w = (Inl (Panic s), w')"
  obtain page per where pp: "pageParams (liaPage inp) (liaPerPage inp) = (page, per)" by fastforce
  from a show False
    unfolding ListAuditLogs_def auditList_def Let_def pp queryStmt_def TenantIDFromContext_def
    by (auto simp: bindM_Inl run_simps split: option.splits if_splits dest!: runStmt_Inl)
qed

lemma emitLatest_ok: "\<exists>j out w'. emitLatest lib c i w = (Inr (j, out), w')"
proof -
  obtain r w1 where r: "ListAuditLogs c newestAudit w = (r, w1)" by fastforce
  have "tryM (ListAuditLogs c newestAudit) w = (Inr r, w1)"
    using r ListAuditLogs_noPanic [of c newestAudit w _ w1]
    by (auto simp: tryM_def split: sum.splits err.splits)
  then show ?thesis
    by (auto simp: emitLatest_def bindM_def ret_def split: sum.splits list.splits)
qed

lemma activityLoop_ok: "\<exists>outs w'. activityLoop lib c es i w = (Inr outs, w')"
proof (induction lib c es i w rule: activityLoop.induct)
  case (4 lib c env es i w)
  obtain j out w1 where "emitLatest lib c i (env w) = (Inr (j, out), w1)" using emitLatest_ok by blast
  moreover from 4 obtain outs w2 where "activityLoop lib c es j w1 = (Inr outs, w2)" by blast
  ultimately show ?case by (simp add: bindM_def ret_def)
next
  case (3 lib c env es i w)
  then obtain outs w2 where "activityLoop lib c es i (env w) = (Inr outs, w2)" by blast
  then show ?case by (simp add: bindM_def ret_def)
qed auto

text \<open>C29: Event streams belong to a tenant. Without a token that ParseAccess accepts both streams are
  refused as unauthorized and nothing changes. With one, the stock stream listens to the channel of the
  tenant of the token, and the activity stream, whatever others do meanwhile and however the reads of
  the log fail, runs until its client leaves, shows only audit rows of that tenant, and never shows the
  same row twice in a row.\<close>

theorem streams_tenant:
  assumes "encodesActivity lib"
  shows "case streamClaims jl js clock rq of
      Inl e \<Rightarrow> e = App ErrUnauthorized \<and> SSEStock True fl jl js clock rq sev = Inl e
        \<and> SSEActivity lib fl jl js clock rq aev w = (Inl e, w)
    | Inr cl \<Rightarrow> SSEStock True True jl js clock rq sev = Inr (Some (''stock:'' @ clTenantID cl), stockLoop sev)
        \<and> (\<exists>outs w'. SSEActivity lib fl jl js clock rq aev w = (Inr outs, w')
            \<and> list_all (\<lambda>e. enTenantID e = TrimSpace (clTenantID cl)) (activityRows outs)
            \<and> changing [] (activityRows outs))"
proof (cases "streamClaims jl js clock rq")
  case (Inl e)
  then have "e = App ErrUnauthorized" by (auto simp: streamClaims_def split: option.splits sum.splits if_splits)
  then show ?thesis using Inl by (simp add: SSEStock_def SSEActivity_def bindM_def liftE_def)
next
  case (Inr cl)
  let ?c = "ContextWithClaims Background (Some cl)"
  have t: "TenantIDFromContext ?c = Inr (clTenantID cl)"
    using Inr by (auto simp: streamClaims_def intro: tenant_claims split: option.splits sum.splits if_splits)
  obtain j out w1 where e: "emitLatest lib ?c [] w = (Inr (j, out), w1)" using emitLatest_ok by blast
  obtain outs w2 where l: "activityLoop lib ?c aev j w1 = (Inr outs, w2)" using activityLoop_ok by blast
  have "streamRows (clTenantID cl) [] (out @ outs)"
    using emit_then [OF e t assms] activityLoop_rows [OF l t assms] by blast
  then show ?thesis using Inr e l
    by (cases fl) (simp_all add: SSEStock_def SSEActivity_def bindM_def liftE_def ret_def Let_def streamRows_def)
qed

text \<open>A client of tenant t1, from a world with one audit row of each tenant, with a tick of the clock.\<close>

definition streamReq :: httpReq where
  "streamReq = (confirmReq (BearerPrefix @ bearerToken))\<lparr>hqMethod := ''GET'', hqPath := ''/api/v1/inventory/sse/activity''\<rparr>"

definition activityRow :: "string \<Rightarrow> string \<Rightarrow> auditLogRow" where
  "activityRow i t = \<lparr>alrID = i, alrTenantID = t, alrUserID = None, alrAction = ''CREATE'', alrEntity = ''product'',
     alrEntityID = ''p1'', alrBeforeData = None, alrAfterData = None, alrIPAddress = None,
     alrUserAgent = None, alrRequestID = None, alrCreatedAt = 5\<rparr>"

definition activityWorld :: world where
  "activityWorld = sampleWorldOf (sampleDB\<lparr>dbAudit := [activityRow ''a1'' ''t1'', activityRow ''a2'' ''t2'']\<rparr>) (\<lambda>_. None)"

lemma streamReq_claims:
  "streamClaims (spellLib 1000000) spellService (\<lambda>_. 7) streamReq = Inr bearerClaims"
  using bearer_accepted [of "\<lambda>_. 7"]
  by (auto simp: streamClaims_def streamReq_def confirmReq_def sampleReq_def AccessTokenFromRequest_def
    GetJWTFromEchoContext_def Let_def bearerClaims_def split: if_splits)

theorem streams_tenant_witness:
  "\<exists>outs w'. SSEActivity (sampleApi\<lparr>alMarshal := (\<lambda>m. Inr ''{}'')\<rparr>) True (spellLib 1000000) spellService (\<lambda>_. 7)
        streamReq [(id, ActivityTick), (id, ActivityPing)] activityWorld = (Inr outs, w')
      \<and> list_all (\<lambda>e. enTenantID e = TrimSpace (clTenantID bearerClaims)) (activityRows outs)
      \<and> changing [] (activityRows outs)"
proof -
  have "encodesActivity (sampleApi\<lparr>alMarshal := (\<lambda>m. Inr ''{}'')\<rparr>)" by (simp add: encodesActivity_def)
  from streams_tenant [OF this, where jl = "spellLib 1000000" and js = spellService and clock = "\<lambda>_. 7"
      and rq = streamReq and fl = True and sev = "[]" and aev = "[(id, ActivityTick), (id, ActivityPing)]"
      and w = activityWorld]
  show ?thesis by (simp add: streamReq_claims)
qed

end
