(* ===== verification/Api_Pages.thy ===== *)
theory Api_Pages
  imports Sse
begin

text \<open>
  Two things a client of the API relies on when it reads: the pages of a list cover the whole list
  (shown for the audit log), and the points of a movement chart reach the client with the dates the
  database gave them.
\<close>

section \<open>Pages\<close>

text \<open>The audit log is a filter, an order and a window; reads leave the database alone.\<close>

definition auditFilter :: "ListAuditLogsInput \<Rightarrow> AuditListFilter" where
  "auditFilter inp = \<lparr>afPage = 1, afPerPage = 1, afEntity = trimPtr (liaEntity inp),
     afEntityID = trimPtr (liaEntityID inp), afAction = trimPtr (liaAction inp),
     afUserID = trimPtr (liaUserID inp), afCreatedFrom = liaCreatedFrom inp, afCreatedTo = liaCreatedTo inp\<rparr>"

definition auditRows :: "string \<Rightarrow> ListAuditLogsInput \<Rightarrow> database \<Rightarrow> auditLogRow list" where
  "auditRows tid inp d = orderBy True (\<lambda>r. sInt (alrCreatedAt r)) alrID
     (filter (auditWhere tid (auditFilter inp)) (dbAudit d))"

definition auditPage :: "ListAuditLogsInput \<Rightarrow> int \<Rightarrow> int \<Rightarrow> ListAuditLogsInput" where
  "auditPage inp page per = inp\<lparr>liaPage := Some page, liaPerPage := Some per\<rparr>"

lemma runStmt_quiet:
  "wfault w = (\<lambda>_. None) \<Longrightarrow> queryStmt Pool q w = (Inr (q (wdb w)), w\<lparr>wstmt := Suc (wstmt w)\<rparr>)"
  by (simp add: queryStmt_def runStmt_def Let_def)

lemma auditList_quiet:
  assumes "wfault w = (\<lambda>_. None)" "\<not> cxTx c" "1 \<le> afPage f" "1 \<le> afPerPage f"
  shows "auditList c t f w =
    (Inr (map (listRowToEntry (dbUsers (wdb w))) (pageOf (afPage f) (afPerPage f)
        (orderBy True (\<lambda>r. sInt (alrCreatedAt r)) alrID (filter (auditWhere (TrimSpace t) f) (dbAudit (wdb w))))),
      countWhere (auditWhere (TrimSpace t) f) (dbAudit (wdb w))), w\<lparr>wstmt := Suc (Suc (wstmt w))\<rparr>)"
  using assms by (simp add: auditList_def Let_def bindM_def ret_def GetDB_def runStmt_quiet)

lemma Normalize_id: "1 \<le> p \<Longrightarrow> 1 \<le> n \<Longrightarrow> n \<le> 100 \<Longrightarrow> Normalize p n = (p, n)"
  by (simp add: Normalize_def)

lemma ListAuditLogs_quiet:
  assumes "wfault w = (\<lambda>_. None)" "\<not> cxTx c" "TenantIDFromContext c = Inr t" "1 \<le> p" "1 \<le> n" "n \<le> 100"
    "p \<le> MaxInt32"
  shows "ListAuditLogs c (auditPage inp p n) w =
    (Inr \<lparr>loItems = map (listRowToEntry (dbUsers (wdb w))) (pageOf p n (auditRows (TrimSpace t) inp (wdb w))),
          loTotal = int (length (auditRows (TrimSpace t) inp (wdb w))), loPage = p, loPerPage = n\<rparr>,
     w\<lparr>wstmt := Suc (Suc (wstmt w))\<rparr>)"
proof -
  have f: "auditWhere x (f\<lparr>afPage := a, afPerPage := b\<rparr>) = auditWhere x f" for x f a b
    by (rule ext) (simp add: auditWhere_def)
  have same: "\<lparr>afPage = p, afPerPage = n, afEntity = trimPtr (liaEntity inp),
          afEntityID = trimPtr (liaEntityID inp), afAction = trimPtr (liaAction inp),
          afUserID = trimPtr (liaUserID inp), afCreatedFrom = liaCreatedFrom inp, afCreatedTo = liaCreatedTo inp\<rparr>
      = (auditFilter inp)\<lparr>afPage := p, afPerPage := n\<rparr>"
    by (simp add: auditFilter_def)
  have w: "wrap32 p = p" "wrap32 n = n" using assms by (simp_all add: is_int32_def MaxInt32_def)
  show ?thesis using assms
    by (simp add: ListAuditLogs_def auditPage_def bindM_def liftE_def ret_def pageParams_def Normalize_id same
        auditList_quiet f w auditRows_def countWhere_def)
qed

lemma enough_pages:
  assumes "1 \<le> n" "n \<le> 100" "0 < t" "t \<le> 1000000000"
  shows "ComputeTotalPages t n = (t + n - 1) div n" "(t + n - 1) div n \<le> t" "t \<le> n * ((t + n - 1) div n)"
    "0 < (t + n - 1) div n"
proof -
  let ?q = "(t + n - 1) div n"
  have e: "n * ?q + (t + n - 1) mod n = t + n - 1" by simp
  have b: "0 \<le> (t + n - 1) mod n" "(t + n - 1) mod n < n" using assms(1) by simp_all
  show ge: "t \<le> n * ?q" using e b by linarith
  then show pos: "0 < ?q" using assms by (smt (verit) mult_nonneg_nonpos)
  have "?q - 1 \<le> n * (?q - 1)" using pos assms(1) by (simp add: mult_le_cancel_right1)
  moreover have "n * (?q - 1) = n * ?q - n" by (simp add: algebra_simps)
  ultimately show le: "?q \<le> t" using e b by linarith
  have "wrap64 (wrap64 (t + n) - 1) = t + n - 1" using assms by (simp add: is_int64_def)
  then show "ComputeTotalPages t n = ?q"
    using assms pos le by (simp add: ComputeTotalPages_def Let_def is_int32_def MaxInt32_def)
qed

text \<open>C30: The pages of the audit log are the audit log. While nothing fails and nobody writes, the
  pages 1 to TotalPages of any page size up to 100 succeed, all report the same total, and put one
  after the other they are the rows of the tenant that pass the filters, newest first, each exactly
  once.\<close>

theorem audit_pages_complete:
  assumes "TenantIDFromContext c = Inr t" "\<not> cxTx c" "wfault w = (\<lambda>_. None)"
    and "1 \<le> per" "per \<le> 100" "length (auditRows (TrimSpace t) inp (wdb w)) \<le> 1000000000"
  shows "let rows = auditRows (TrimSpace t) inp (wdb w);
             pages = nat (ComputeTotalPages (int (length rows)) per)
    in \<exists>out. list_all (\<lambda>k. fst (ListAuditLogs c (auditPage inp (int k + 1) per) w) = Inr (out k)
            \<and> loTotal (out k) = int (length rows)) [0..<pages]
        \<and> concat (map (\<lambda>k. loItems (out k)) [0..<pages]) = map (listRowToEntry (dbUsers (wdb w))) rows
        \<and> mset rows = mset (filter (auditWhere (TrimSpace t) (auditFilter inp)) (dbAudit (wdb w)))"
proof -
  define rows where "rows = auditRows (TrimSpace t) inp (wdb w)"
  define pages where "pages = nat (ComputeTotalPages (int (length rows)) per)"
  define out where "out = (\<lambda>k. \<lparr>loItems = map (listRowToEntry (dbUsers (wdb w))) (pageOf (int k + 1) per rows),
     loTotal = int (length rows), loPage = int k + 1, loPerPage = per\<rparr>)"
  have len: "int (length rows) \<le> 1000000000" using assms(6) by (simp add: rows_def)
  have bounds: "int pages \<le> int (length rows)" "int (length rows) \<le> per * int pages"
    using enough_pages [OF assms(4,5), of "int (length rows)"] len
    by (cases "rows = []"; simp add: pages_def ComputeTotalPages_def)+
  have ok: "fst (ListAuditLogs c (auditPage inp (int k + 1) per) w) = Inr (out k)" if "k < pages" for k
    using ListAuditLogs_quiet [OF assms(3,2,1) _ assms(4,5), of "int k + 1" inp] that bounds len
    by (simp add: out_def rows_def MaxInt32_def)
  have "concat (map (\<lambda>k. loItems (out k)) [0..<pages])
      = map (listRowToEntry (dbUsers (wdb w))) (concat (map (\<lambda>k. pageOf (int k + 1) per rows) [0..<pages]))"
    by (simp add: out_def map_concat comp_def)
  also have "concat (map (\<lambda>k. pageOf (int k + 1) per rows) [0..<pages]) = take (nat per * pages) rows"
  proof (rule pageOf_concat)
    have "per * (int pages + 1) \<le> 100 * (int pages + 1)" using assms(4,5) by (intro mult_right_mono) auto
    also have "\<dots> \<le> 100 * (1000000000 + 1)" using bounds(1) len by (intro mult_left_mono) auto
    finally show "per * (int pages + 1) < 9223372036854775808" by simp
  qed (use assms in auto)
  also have "take (nat per * pages) rows = rows"
  proof -
    have "int (nat per * pages) = per * int pages" using assms(4) by simp
    then have "length rows \<le> nat per * pages" using bounds(2) by linarith
    then show ?thesis by simp
  qed
  finally have "concat (map (\<lambda>k. loItems (out k)) [0..<pages]) = map (listRowToEntry (dbUsers (wdb w))) rows" .
  moreover have "list_all (\<lambda>k. fst (ListAuditLogs c (auditPage inp (int k + 1) per) w) = Inr (out k)
      \<and> loTotal (out k) = int (length rows)) [0..<pages]"
    using ok by (simp add: list_all_iff out_def)
  ultimately show ?thesis
    unfolding Let_def rows_def [symmetric] pages_def [symmetric]
    by (intro exI [of _ out]) (simp add: rows_def auditRows_def mset_orderBy)
qed

text \<open>Seven rows of the tenant, three pages of three.\<close>

definition auditWorld :: world where
  "auditWorld = sampleWorldOf (sampleDB\<lparr>dbAudit := map (\<lambda>i. activityRow (natDigits i) ''t1'') [0..<7]
     @ [activityRow ''x'' ''t2'']\<rparr>) (\<lambda>_. None)"

theorem audit_pages_complete_witness:
  "let rows = auditRows (TrimSpace ''t1'') newestAudit (wdb auditWorld);
       pages = nat (ComputeTotalPages (int (length rows)) 3)
    in \<exists>out. list_all (\<lambda>k. fst (ListAuditLogs sampleCtx (auditPage newestAudit (int k + 1) 3) auditWorld) = Inr (out k)
            \<and> loTotal (out k) = int (length rows)) [0..<pages]
        \<and> concat (map (\<lambda>k. loItems (out k)) [0..<pages]) = map (listRowToEntry (dbUsers (wdb auditWorld))) rows
        \<and> mset rows = mset (filter (auditWhere (TrimSpace ''t1'') (auditFilter newestAudit)) (dbAudit (wdb auditWorld)))"
proof (rule audit_pages_complete)
  have "length (auditRows (TrimSpace ''t1'') newestAudit (wdb auditWorld)) \<le> length (dbAudit (wdb auditWorld))"
    by (simp add: auditRows_def)
  also have "\<dots> = 8" by (simp add: auditWorld_def sampleWorldOf_def)
  finally show "length (auditRows (TrimSpace ''t1'') newestAudit (wdb auditWorld)) \<le> 1000000000" by simp
qed (simp_all add: auditWorld_def sampleWorldOf_def)

section \<open>Chart dates\<close>

lemma Itoa_pad: "0 \<le> n \<Longrightarrow> n < 10 ^ k \<Longrightarrow> 0 < k \<Longrightarrow> padTo k (Itoa n) = digitsN k n"
  using natDigits_pad [of "nat n" k] by (simp add: Itoa_def)

lemma parseDateOnly_text:
  assumes "0 \<le> y" "y \<le> 9999" "1 \<le> m" "m \<le> 12" "1 \<le> d" "d \<le> daysIn y m"
  shows "parseDateOnly (dateText y m d) = Some (y, m, d)"
proof -
  have "d \<le> 31" using assms(6) by (auto simp: daysIn_def split: if_splits)
  moreover have "takeDec 2 (digitsN 2 d) = Some (d, [])"
    using takeDec_digits [of d 2 "[]"] assms(5) \<open>d \<le> 31\<close> by simp
  ultimately show ?thesis using assms
    by (simp add: parseDateOnly_def dateText_def Itoa_pad takeDec_digits)
qed

lemma yearOfEra_range:
  assumes "0 \<le> doe" "doe < 146097"
  shows "0 \<le> yearOfEra doe" "yearOfEra doe \<le> 400"
proof -
  define q1 q2 q3 where "q1 = doe div 1460" and "q2 = doe div 36524" and "q3 = doe div 146096"
  have "1460 * q1 + doe mod 1460 = doe" "36524 * q2 + doe mod 36524 = doe" "146096 * q3 + doe mod 146096 = doe"
    by (simp_all add: q1_def q2_def q3_def)
  moreover have "0 \<le> doe mod 1460" "0 \<le> doe mod 36524" "0 \<le> doe mod 146096" by simp_all
  moreover have "0 \<le> q1" "0 \<le> q2" "0 \<le> q3"
    using assms(1) by (simp_all add: q1_def q2_def q3_def pos_imp_zdiv_nonneg_iff)
  moreover have "q2 \<le> q1" unfolding q1_def q2_def using assms(1) by (intro zdiv_mono2) auto
  ultimately have b: "0 \<le> doe - q1 + q2 - q3" "doe - q1 + q2 - q3 < 365 * 401" using assms by linarith+
  show "0 \<le> yearOfEra doe" using b(1) by (simp add: yearOfEra_def q1_def q2_def q3_def pos_imp_zdiv_nonneg_iff)
  have "(doe - q1 + q2 - q3) div 365 < 401" using b(2) by (simp add: div_less_iff_less_mult)
  then show "yearOfEra doe \<le> 400" by (simp add: yearOfEra_def q1_def q2_def q3_def)
qed

text \<open>The years of the days from 1970 to the end of an era.\<close>

lemma civil_year:
  assumes "civilOf day = (y, m, d)" "0 \<le> day" "day < 2786860"
  shows "0 \<le> y" "y \<le> 9999"
proof -
  define e where "e = (day + 719468) div 146097"
  define q where "q = yearOfEra ((day + 719468) mod 146097)"
  have "0 \<le> q" "q \<le> 400" unfolding q_def by (rule yearOfEra_range; simp)+
  moreover have "e < 24" using assms(3) by (simp add: e_def div_less_iff_less_mult)
  moreover have "0 \<le> e" using assms(2) by (simp add: e_def pos_imp_zdiv_nonneg_iff)
  moreover have "y = q + e * 400 + (if m \<le> 2 then 1 else 0)"
    using assms(1) unfolding civilOf_def Let_def prod.inject e_def q_def by - (erule conjE, erule conjE, hypsubst, rule refl)
  ultimately show "0 \<le> y" "y \<le> 9999" by (cases "m \<le> 2"; simp)+
qed

lemma parse_toCharDay:
  assumes "0 \<le> day" "day < 2786860"
  shows "parseDateOnly (toCharDay day) = Some (civilOf day)"
proof -
  obtain y m d where c: "civilOf day = (y, m, d)" by (cases "civilOf day")
  show ?thesis using civilOf_correct [OF c] civil_year [OF c assms] parseDateOnly_text [of y m d]
    by (simp add: toCharDay_def c)
qed

lemma shown_point:
  assumes "parseDateOnly (mcpBucketStart p) = Some (y, m, d)" "dateText y m d = mcpBucketStart p"
  shows "chartPointToStub p = Some (JObj [(''bucket_start'', JStr (mcpBucketStart p)), (''movement_count'', JInt (mcpMovementCount p))])"
  using assms by (simp add: chartPointToStub_def)

lemma toCharDay_shown:
  assumes "0 \<le> day" "day < 2786860" "mcpBucketStart p = toCharDay day"
  shows "chartPointToStub p = Some (JObj [(''bucket_start'', JStr (mcpBucketStart p)), (''movement_count'', JInt (mcpMovementCount p))])"
  using parse_toCharDay [OF assms(1,2)] assms(3)
  by (cases "civilOf day") (rule shown_point, auto simp: toCharDay_def)

text \<open>Charts reach the client. For a reading of the clock of the database from April 1970 to the
  year 9600, every point of the daily and of the weekly chart of any tenant is accepted by the date
  parser of the handler and is shown with exactly the date and the count the query gave it, so the
  handler never answers a chart with an internal error for a date.\<close>

theorem chart_points_shown:
  assumes "90 * 86400000000 \<le> now" "now < 2786860 * 86400000000"
    and "p \<in> set (sqlMovementChartDaily tid now d) \<union> set (sqlMovementChartWeekly tid now d)"
  shows "chartPointToStub p = Some (JObj [(''bucket_start'', JStr (mcpBucketStart p)),
    (''movement_count'', JInt (mcpMovementCount p))])"
proof -
  have day: "90 \<le> dayOf now" "dayOf now < 2786860" using assms(1,2) by (auto simp: dayOf_def)
  have wk: "weekStart (dayOf now) \<le> dayOf now" "dayOf now - 6 \<le> weekStart (dayOf now)"
    by (auto simp: weekStart_def)
  show ?thesis
  proof (cases "p \<in> set (sqlMovementChartDaily tid now d)")
    case True
    then obtain k where "k < 30" "mcpBucketStart p = toCharDay (dayOf now - 29 + int k)"
      by (auto simp: sqlMovementChartDaily_def chartRows_def bucketRange_def)
    then show ?thesis using day by (intro toCharDay_shown) auto
  next
    case False
    then obtain k where "k < 12" "mcpBucketStart p = toCharDay (weekStart (dayOf now) - 77 + 7 * int k)"
      using assms(3) by (auto simp: sqlMovementChartWeekly_def chartRows_def bucketRange_def)
    then show ?thesis using day wk by (intro toCharDay_shown) auto
  qed
qed

theorem chart_points_shown_witness:
  "list_all (\<lambda>p. chartPointToStub p = Some (JObj [(''bucket_start'', JStr (mcpBucketStart p)),
      (''movement_count'', JInt (mcpMovementCount p))])) (sqlMovementChartDaily ''t1'' 1700000000000000 sampleDB)"
  using chart_points_shown [of 1700000000000000 _ "''t1''" sampleDB] by (simp add: list_all_iff)

end
