(* ===== verification/Notify_Api.thy ===== *)
theory Notify_Api
  imports Api_Safety
begin

text \<open>
  The HTTP side of the notification service (src/services/notification/api, the server half of its
  generated stub and service/notification.go): three probes without a token. Its error handler sends
  the AppError of ToHTTP itself, without the envelope of the other two services. The request id and
  recover middleware do not change the response of a handler that returns.
\<close>

section \<open>Service and handlers\<close>

definition notifPingDB :: "ctx \<Rightarrow> unit app" where
  "notifPingDB c = queryStmt Pool (\<lambda>_. ())"

definition notifGetHealth :: "httpReq \<Rightarrow> ctx \<Rightarrow> world handler" where
  "notifGetHealth rq c = ret (HText 200 ''ok'')"

definition GetApiV1NotificationsHealth :: "httpReq \<Rightarrow> ctx \<Rightarrow> world handler" where
  "GetApiV1NotificationsHealth rq c = ret (HText 200 ''ok'')"

definition notifGetReady :: "httpReq \<Rightarrow> ctx \<Rightarrow> world handler" where
  "notifGetReady rq c = bindM (tryM (notifPingDB c)) (\<lambda>r. case r of
     Inl e \<Rightarrow> ret (HText 503 ''db not ready'')
   | Inr _ \<Rightarrow> ret (HText 200 ''ok''))"

section \<open>Server\<close>

definition notifRegisterHandlers :: "((string \<times> string) \<times> (httpReq \<Rightarrow> ctx \<Rightarrow> world handler)) list" where
  "notifRegisterHandlers = [
     ((''GET'', ''/api/v1/notifications/health''), GetApiV1NotificationsHealth),
     ((''GET'', ''/health''), notifGetHealth),
     ((''GET'', ''/ready''), notifGetReady)]"

definition notifHandleRoute :: "httpReq \<Rightarrow> ctx \<Rightarrow> world handler" where
  "notifHandleRoute rq c = (case hqRoute rq of
     None \<Rightarrow> throw notFound
   | Some pattern \<Rightarrow> (case map_of notifRegisterHandlers (hqMethod rq, pattern) of
       None \<Rightarrow> throw notFound
     | Some h \<Rightarrow> h rq c))"

text \<open>encoding/json of an AppError: the status is left out, an empty message_id or details too.\<close>

definition appErrorJSON :: "AppError \<Rightarrow> jval" where
  "appErrorJSON a = JObj ([(''code'', JStr (aeCode a)), (''message'', JStr (aeMessage a))]
     @ (if aeMessageID a = [] then [] else [(''message_id'', JStr (aeMessageID a))])
     @ (if aeDetails a = [] then [] else [(''details'', JObj (aeDetails a))]))"

definition notifErrorHandler :: "world handler \<Rightarrow> world handler" where
  "notifErrorHandler m w = (case m w of
     (Inl e, w') \<Rightarrow> (case ToHTTP (Some e) of (code, body) \<Rightarrow> (Inr (HJSON code (appErrorJSON body)), w'))
   | (Inr r, w') \<Rightarrow> (Inr r, w'))"

definition notifServeHTTP :: "httpReq \<Rightarrow> world handler" where
  "notifServeHTTP rq = notifErrorHandler (notifHandleRoute rq Background)"

section \<open>Probes change nothing\<close>

lemma notifPing_run: "\<exists>r. notifPingDB c w = (r, w\<lparr>wstmt := Suc (wstmt w)\<rparr>) \<and> (\<forall>s. r \<noteq> Inl (Panic s))"
  by (cases "wfault w (wstmt w)") (simp_all add: notifPingDB_def queryStmt_def runStmt_def)

lemma notifReady_run: "\<exists>resp. notifGetReady rq c w = (Inr resp, w\<lparr>wstmt := Suc (wstmt w)\<rparr>)"
proof -
  obtain r where r: "notifPingDB c w = (r, w\<lparr>wstmt := Suc (wstmt w)\<rparr>)" "\<And>s. r \<noteq> Inl (Panic s)"
    using notifPing_run by blast
  show ?thesis
  proof (cases r)
    case (Inl e)
    then show ?thesis using r by (cases e) (simp_all add: notifGetReady_def bindM_def tryM_def ret_def)
  next
    case (Inr u)
    then show ?thesis using r by (simp add: notifGetReady_def bindM_def tryM_def ret_def)
  qed
qed

text \<open>Every request is answered, and only the count of statements moves.\<close>

lemma notif_probe: "\<exists>resp n. notifServeHTTP rq w = (Inr resp, w\<lparr>wstmt := n\<rparr>)"
proof -
  have same: "\<exists>r n. (x, w) = (r, w\<lparr>wstmt := n\<rparr>)" for x :: "err + httpResp" by (rule exI [of _ x], rule exI [of _ "wstmt w"]) simp
  have h: "\<exists>r n. h rq c w = (r, w\<lparr>wstmt := n\<rparr>)" if "(k, h) \<in> set notifRegisterHandlers" for k h c
    using that notifReady_run [of rq c w] same
    by (auto simp: notifRegisterHandlers_def notifGetHealth_def GetApiV1NotificationsHealth_def ret_def)
  have "\<exists>r n. notifHandleRoute rq Background w = (r, w\<lparr>wstmt := n\<rparr>)"
    using h same by (auto simp: notifHandleRoute_def throw_def split: option.splits dest!: map_of_SomeD)
  then obtain r n where "notifHandleRoute rq Background w = (r, w\<lparr>wstmt := n\<rparr>)" by blast
  then show ?thesis by (cases r) (auto simp: notifServeHTTP_def notifErrorHandler_def split: prod.splits)
qed

end
