(* ===== verification/Auth.thy ===== *)
theory Auth
  imports Tokens
begin

text \<open>
  The authentication service (src/services/authentication: repository/repository.go,
  service/authentication.go): tenants, users and refresh sessions, registration, login, the rotation
  of refresh tokens, logout and the profile. It runs in a process of its own on a world of its own:
  its three tables with the constraints of the migrations, and the sources of statement faults,
  clock readings, random identifiers and of the row an unordered LIMIT 1 returns. The libraries
  bcrypt and golang-jwt are parameters of the service.
\<close>

section \<open>Tables and world\<close>

record tenantRow =
  trID :: string
  trName :: string
  trSlug :: string

record authUserRow =
  auID :: string
  auTenantID :: string
  auEmail :: string
  auPasswordHash :: string
  auRole :: string
  auFullName :: string

record sessionRow =
  rsUserID :: string
  rsTenantID :: string
  rsJti :: string
  rsExpiresAt :: int
  rsRevokedAt :: "int option"

record authdb =
  adTenants :: "tenantRow list"
  adUsers :: "authUserRow list"
  adSessions :: "sessionRow list"

record aworld =
  aadb :: authdb
  aastmt :: nat
  aafault :: "nat \<Rightarrow> string option"
  aatick :: nat
  aatime :: "nat \<Rightarrow> int"
  aafresh :: nat
  aauuid :: "nat \<Rightarrow> string"
  aapick :: "nat \<Rightarrow> nat"

type_synonym 'a auth = "(aworld, 'a) prog"

definition aNow :: "int auth" where
  "aNow w = (Inr (aatime w (aatick w)), w\<lparr>aatick := Suc (aatick w)\<rparr>)"

text \<open>The readings of one verification of a token.\<close>

definition aClock :: "(nat \<Rightarrow> int) auth" where
  "aClock w = (Inr (\<lambda>i. aatime w (aatick w + i)), w\<lparr>aatick := aatick w + 4\<rparr>)"

definition aUUID :: "string auth" where
  "aUUID w = (Inr (aauuid w (aafresh w)), w\<lparr>aafresh := Suc (aafresh w)\<rparr>)"

definition aStmt :: "(authdb \<Rightarrow> err + 'a \<times> authdb) \<Rightarrow> 'a auth" where
  "aStmt f w0 =
    (let w = w0\<lparr>aastmt := Suc (aastmt w0)\<rparr>
     in case aafault w0 (aastmt w0) of
          Some msg \<Rightarrow> (Inl (Raw msg), w)
        | None \<Rightarrow> (case f (aadb w0) of
            Inl e \<Rightarrow> (Inl e, w)
          | Inr (a, d) \<Rightarrow> (Inr a, w\<lparr>aadb := d\<rparr>)))"

definition aQuery :: "(authdb \<Rightarrow> 'a) \<Rightarrow> 'a auth" where
  "aQuery q = aStmt (\<lambda>d. Inr (q d, d))"

text \<open>gorm's Transaction: BEGIN, the callback, COMMIT; an error of any of them leaves the tables as
  they were.\<close>

definition aTransaction :: "'a auth \<Rightarrow> 'a auth" where
  "aTransaction fn w0 =
    (case aQuery (\<lambda>_. ()) w0 of
       (Inl e, w) \<Rightarrow> (Inl e, w)
     | (Inr _, w) \<Rightarrow> (case fn w of
         (Inl e, w1) \<Rightarrow> (Inl e, w1\<lparr>aadb := aadb w0\<rparr>)
       | (Inr a, w1) \<Rightarrow> (case aQuery (\<lambda>_. ()) w1 of
           (Inl e, w2) \<Rightarrow> (Inl e, w2\<lparr>aadb := aadb w0\<rparr>)
         | (Inr _, w2) \<Rightarrow> (Inr a, w2))))"

section \<open>Repository\<close>

record CreateTenantAdminInput =
  taTenantName :: string
  taTenantSlug :: string
  taAdminEmail :: string
  taAdminFullName :: string
  taPasswordHash :: string
  taRole :: string

record CreateTenantAdminResult =
  trTenantID :: string
  trUserID :: string
  trEmail :: string

definition keyMsg :: "string \<Rightarrow> string" where
  "keyMsg c = ''ERROR: duplicate key value violates unique constraint '' @ c @ '' (SQLSTATE 23505)''"

definition longMsg :: string where
  "longMsg = ''ERROR: value too long for type character varying (SQLSTATE 22001)''"

definition fkMsg :: string where
  "fkMsg = ''ERROR: insert violates foreign key constraint (SQLSTATE 23503)''"

definition insertTenant :: "tenantRow \<Rightarrow> authdb \<Rightarrow> err + string \<times> authdb" where
  "insertTenant r d =
    (if length (trName r) > 255 \<or> length (trSlug r) > 100 then Inl (Raw longMsg)
     else if list_ex (\<lambda>x. trID x = trID r) (adTenants d) then Inl (Raw (keyMsg ''tenants_pkey''))
     else if list_ex (\<lambda>x. trSlug x = trSlug r) (adTenants d) then Inl (Raw (keyMsg ''uq_tenants_slug''))
     else Inr (trID r, d\<lparr>adTenants := adTenants d @ [r]\<rparr>))"

definition insertUser :: "authUserRow \<Rightarrow> authdb \<Rightarrow> err + string \<times> authdb" where
  "insertUser r d =
    (if length (auEmail r) > 255 \<or> length (auPasswordHash r) > 255 \<or> length (auRole r) > 50
        \<or> length (auFullName r) > 255 then Inl (Raw longMsg)
     else if list_ex (\<lambda>x. auID x = auID r) (adUsers d) then Inl (Raw (keyMsg ''users_pkey''))
     else if list_ex (\<lambda>x. auTenantID x = auTenantID r \<and> auEmail x = auEmail r) (adUsers d)
     then Inl (Raw (keyMsg ''uq_users_tenant_email''))
     else if \<not> list_ex (\<lambda>t. trID t = auTenantID r) (adTenants d) then Inl (Raw fkMsg)
     else Inr (auID r, d\<lparr>adUsers := adUsers d @ [r]\<rparr>))"

definition emailConflict :: err where
  "emailConflict = App (WithDetails ErrConflict [(''message'', JStr ''email already exists'')])"

definition createTenantAdminTx :: "CreateTenantAdminInput \<Rightarrow> (string \<times> string) auth" where
  "createTenantAdminTx inp =
    bindM aUUID (\<lambda>tid.
    bindM (aStmt (insertTenant \<lparr>trID = tid, trName = TrimSpace (taTenantName inp),
        trSlug = TrimSpace (ToLower (taTenantSlug inp))\<rparr>)) (\<lambda>tenantID.
    bindM aUUID (\<lambda>uid.
    bindM (aStmt (insertUser \<lparr>auID = uid, auTenantID = tenantID,
        auEmail = TrimSpace (ToLower (taAdminEmail inp)), auPasswordHash = taPasswordHash inp,
        auRole = taRole inp, auFullName = TrimSpace (taAdminFullName inp)\<rparr>)) (\<lambda>userID.
    ret (tenantID, userID)))))"

definition CreateTenantAdmin :: "CreateTenantAdminInput \<Rightarrow> CreateTenantAdminResult auth" where
  "CreateTenantAdmin inp =
    bindM (tryM (aTransaction (createTenantAdminTx inp))) (\<lambda>r. case r of
      Inl e \<Rightarrow> if Contains (ToLower (errorText e)) ''duplicate key'' then throw emailConflict else throw e
    | Inr (tenantID, userID) \<Rightarrow> ret \<lparr>trTenantID = tenantID, trUserID = userID,
        trEmail = TrimSpace (ToLower (taAdminEmail inp))\<rparr>)"

text \<open>SELECT ... LIMIT 1 without an order: any of the matching rows.\<close>

definition limitOne :: "nat \<Rightarrow> 'a list \<Rightarrow> 'a option" where
  "limitOne k rows = (if rows = [] then None else Some (rows ! (k mod length rows)))"

definition scanUser :: "authUserRow option \<Rightarrow> authUserRow auth" where
  "scanUser row = (case row of
     None \<Rightarrow> throw (Sys GormRecordNotFound)
   | Some u \<Rightarrow> if auID u = [] \<or> auTenantID u = [] then throw (Sys GormRecordNotFound) else ret u)"

definition FindUserCredentialByEmail :: "string \<Rightarrow> authUserRow auth" where
  "FindUserCredentialByEmail email w =
    bindM (aQuery (\<lambda>d. limitOne (aapick w (aastmt w))
        (filter (\<lambda>u. ToLower (auEmail u) = ToLower (TrimSpace email)) (adUsers d)))) scanUser w"

definition FindUserCredentialByID :: "string \<Rightarrow> authUserRow auth" where
  "FindUserCredentialByID userID =
    bindM (aQuery (\<lambda>d. find (\<lambda>u. auID u = TrimSpace userID) (adUsers d))) scanUser"

record UserProfile =
  upUserID :: string
  upTenantID :: string
  upEmail :: string
  upFullName :: string

definition FindUserProfileByID :: "string \<Rightarrow> UserProfile auth" where
  "FindUserProfileByID userID =
    bindM (bindM (aQuery (\<lambda>d. find (\<lambda>u. auID u = TrimSpace userID) (adUsers d))) scanUser) (\<lambda>u.
    ret \<lparr>upUserID = auID u, upTenantID = auTenantID u, upEmail = auEmail u, upFullName = auFullName u\<rparr>)"

definition insertSession :: "sessionRow \<Rightarrow> authdb \<Rightarrow> err + unit \<times> authdb" where
  "insertSession r d =
    (if list_ex (\<lambda>x. rsJti x = rsJti r) (adSessions d) then Inl (Raw (keyMsg ''refresh_sessions_jti_key''))
     else if \<not> list_ex (\<lambda>u. auID u = rsUserID r) (adUsers d)
       \<or> \<not> list_ex (\<lambda>t. trID t = rsTenantID r) (adTenants d) then Inl (Raw fkMsg)
     else Inr ((), d\<lparr>adSessions := adSessions d @ [r]\<rparr>))"

definition InsertRefreshSession :: "string \<Rightarrow> string \<Rightarrow> string \<Rightarrow> int \<Rightarrow> unit auth" where
  "InsertRefreshSession userID tenantID jti expiresAt =
    aStmt (insertSession \<lparr>rsUserID = userID, rsTenantID = tenantID, rsJti = jti,
      rsExpiresAt = expiresAt, rsRevokedAt = None\<rparr>)"

definition activeSession :: "string \<Rightarrow> int \<Rightarrow> sessionRow \<Rightarrow> bool" where
  "activeSession jti now r \<longleftrightarrow> rsJti r = jti \<and> rsRevokedAt r = None \<and> rsExpiresAt r > now"

text \<open>The user and the tenant of the session, None for the answer that it is not active.\<close>

definition FindActiveRefreshSession :: "string \<Rightarrow> (string \<times> string) option auth" where
  "FindActiveRefreshSession jti =
    bindM aNow (\<lambda>now.
    bindM (aQuery (\<lambda>d. find (activeSession (TrimSpace jti) now) (adSessions d))) (\<lambda>r.
    ret (case r of None \<Rightarrow> None | Some s \<Rightarrow>
      if rsUserID s = [] \<or> rsTenantID s = [] then None else Some (rsUserID s, rsTenantID s))))"

definition revokeWhere :: "(sessionRow \<Rightarrow> bool) \<Rightarrow> int \<Rightarrow> authdb \<Rightarrow> authdb" where
  "revokeWhere P now d = d\<lparr>adSessions := updateWhere (\<lambda>r. P r \<and> rsRevokedAt r = None)
     (\<lambda>r. r\<lparr>rsRevokedAt := Some now\<rparr>) (adSessions d)\<rparr>"

definition RevokeRefreshSession :: "string \<Rightarrow> unit auth" where
  "RevokeRefreshSession jti =
    bindM aNow (\<lambda>now. aStmt (\<lambda>d. Inr ((), revokeWhere (\<lambda>r. rsJti r = TrimSpace jti) now d)))"

definition RevokeAllRefreshSessionsForUser :: "string \<Rightarrow> unit auth" where
  "RevokeAllRefreshSessionsForUser userID =
    bindM aNow (\<lambda>now. aStmt (\<lambda>d. Inr ((), revokeWhere (\<lambda>r. rsUserID r = TrimSpace userID) now d)))"

section \<open>Service\<close>

text \<open>bcGenerate: GenerateFromPassword with the salt it draws; bcCompare: the error of
  CompareHashAndPassword.\<close>

record BcryptLib =
  bcGenerate :: "string \<Rightarrow> string \<Rightarrow> err + string"
  bcCompare :: "string \<Rightarrow> string \<Rightarrow> err option"

record AuthenticationService =
  asJwt :: JWTService
  asJwtLib :: JWTLib
  asBcrypt :: BcryptLib
  asAccessTTLSeconds :: int

record RegisterInput =
  riTenantName :: string
  riAdminName :: string
  riAdminEmail :: string
  riPassword :: string

record RegisterResult =
  rrTenantID :: string
  rrUserID :: string
  rrEmail :: string

record LoginInput =
  lgEmail :: string
  lgPassword :: string

record LoginResult =
  lrAccessToken :: string
  lrRefreshToken :: string
  lrTokenType :: string
  lrExpiresIn :: int

record MeResult =
  meUserID :: string
  meTenantID :: string
  meEmail :: string
  meFullName :: string

definition authPingDB :: "unit auth" where
  "authPingDB = bindM (tryM (aQuery (\<lambda>_. ()))) (\<lambda>r. case r of
     Inl e \<Rightarrow> throw (Wrap (''authentication service: ping db: '' @ errorText e) e)
   | Inr _ \<Rightarrow> ret ())"

text \<open>The slug: every run of characters outside a-z and 0-9 becomes a dash, dashes at the ends go, at
  most 80 characters stay, and the first 8 of a fresh UUID follow.\<close>

definition slugChar :: "char \<Rightarrow> bool" where
  "slugChar c \<longleftrightarrow> (97 \<le> (of_char c :: nat) \<and> (of_char c :: nat) \<le> 122)
     \<or> (48 \<le> (of_char c :: nat) \<and> (of_char c :: nat) \<le> 57)"

fun dashRuns :: "string \<Rightarrow> string" where
  "dashRuns [] = []"
| "dashRuns (c # s) = (if slugChar c then c # dashRuns s
     else (case s of
        [] \<Rightarrow> ''-''
      | d # _ \<Rightarrow> if slugChar d then CHR ''-'' # dashRuns s else dashRuns s))"

definition trimDashes :: "string \<Rightarrow> string" where
  "trimDashes s = rev (dropWhile (\<lambda>c. c = CHR ''-'') (rev (dropWhile (\<lambda>c. c = CHR ''-'') s)))"

definition generateTenantSlug :: "string \<Rightarrow> string \<Rightarrow> string" where
  "generateTenantSlug name uuid =
    (let b = trimDashes (dashRuns (TrimSpace (ToLower name)));
         b = (if b = [] then ''tenant'' else b);
         b = (if length b > 80 then take 80 b else b)
     in b @ ''-'' @ take 8 uuid)"

definition registerInvalid :: err where
  "registerInvalid = App (WithDetails ErrValidationError [(''message'',
     JStr ''tenant_name, admin_name, admin_email are required and password min 8 chars'')])"

definition RegisterTenantAdmin :: "AuthenticationService \<Rightarrow> RegisterInput \<Rightarrow> RegisterResult auth" where
  "RegisterTenantAdmin s inp =
    (if TrimSpace (riTenantName inp) = [] \<or> TrimSpace (riAdminName inp) = []
        \<or> TrimSpace (riAdminEmail inp) = [] \<or> length (riPassword inp) < 8
     then throw registerInvalid
     else bindM aUUID (\<lambda>salt.
       case bcGenerate (asBcrypt s) salt (riPassword inp) of
         Inl e \<Rightarrow> throw (Wrap (AppError_Error ErrInternal @ '': hash password'') (App ErrInternal))
       | Inr passwordHash \<Rightarrow>
           bindM aUUID (\<lambda>slugID.
           bindM (tryM (CreateTenantAdmin \<lparr>taTenantName = TrimSpace (riTenantName inp),
               taTenantSlug = generateTenantSlug (riTenantName inp) slugID,
               taAdminEmail = TrimSpace (ToLower (riAdminEmail inp)),
               taAdminFullName = TrimSpace (riAdminName inp), taPasswordHash = passwordHash,
               taRole = ''owner''\<rparr>)) (\<lambda>r. case r of
             Inl e \<Rightarrow> if asApp e \<noteq> None then throw e else throw (App ErrInternal)
           | Inr repoResult \<Rightarrow> ret \<lparr>rrTenantID = trTenantID repoResult,
               rrUserID = trUserID repoResult, rrEmail = trEmail repoResult\<rparr>))))"

text \<open>The part Login and Refresh share: both tokens for a user, and the session of the refresh token.\<close>

definition issueTokens :: "AuthenticationService \<Rightarrow> string \<Rightarrow> authUserRow \<Rightarrow> LoginResult auth" where
  "issueTokens s persistMsg user =
    (let ci = \<lparr>ciSubject = auID user, ciTenantID = auTenantID user, ciRole = auRole user,
               ciPermissions = PermissionsForRole (auRole user)\<rparr>
     in bindM aNow (\<lambda>now1.
        bindM (liftE (GenerateAccessToken (asJwtLib s) (asJwt s) now1 ci)) (\<lambda>access.
        bindM aNow (\<lambda>now2.
        bindM aUUID (\<lambda>jti.
        bindM (liftE (GenerateRefreshToken (asJwtLib s) (asJwt s) now2 (Inr jti) ci)) (\<lambda>refresh.
        bindM aClock (\<lambda>clock.
        case ParseRefresh (asJwtLib s) (asJwt s) clock refresh of
          Inl e \<Rightarrow> throw (Wrap (AppError_Error ErrInternal @ '': parse issued refresh'') (App ErrInternal))
        | Inr rClaims \<Rightarrow>
            (case rcExpiresAt (clRegistered rClaims) of
               None \<Rightarrow> throw (Wrap (AppError_Error ErrInternal @ '': parse issued refresh'') (App ErrInternal))
             | Some expiresAt \<Rightarrow>
                 if rcID (clRegistered rClaims) = []
                 then throw (Wrap (AppError_Error ErrInternal @ '': parse issued refresh'') (App ErrInternal))
                 else bindM (tryM (InsertRefreshSession (auID user) (auTenantID user)
                        (rcID (clRegistered rClaims)) expiresAt)) (\<lambda>r. case r of
                      Inl e \<Rightarrow> throw (Wrap (persistMsg @ errorText e) e)
                    | Inr _ \<Rightarrow> ret \<lparr>lrAccessToken = access, lrRefreshToken = refresh,
                        lrTokenType = ''Bearer'', lrExpiresIn = asAccessTTLSeconds s\<rparr>)))))))))"

definition loginInvalid :: err where
  "loginInvalid = App (WithDetails ErrValidationError [(''message'', JStr ''email and password are required'')])"

definition Login :: "AuthenticationService \<Rightarrow> LoginInput \<Rightarrow> LoginResult auth" where
  "Login s inp =
    (let email = TrimSpace (ToLower (lgEmail inp))
     in if email = [] \<or> TrimSpace (lgPassword inp) = [] then throw loginInvalid
        else bindM (tryM (FindUserCredentialByEmail email)) (\<lambda>r. case r of
          Inl e \<Rightarrow> if errorsIs e (Sys GormRecordNotFound) then throw (App ErrUnauthorized)
                   else throw (Wrap (''login: find credential: '' @ errorText e) e)
        | Inr user \<Rightarrow>
            if bcCompare (asBcrypt s) (auPasswordHash user) (lgPassword inp) \<noteq> None
            then throw (App ErrUnauthorized)
            else issueTokens s ''login: persist refresh session: '' user))"

definition refreshInvalid :: err where
  "refreshInvalid = App (WithDetails ErrValidationError [(''message'', JStr ''refresh_token is required'')])"

text \<open>Refresh up to the last check, and the rotation that follows it.\<close>

definition refreshCheck :: "AuthenticationService \<Rightarrow> string \<Rightarrow> (Claims \<times> authUserRow) auth" where
  "refreshCheck s refreshToken =
    (let rt = TrimSpace refreshToken
     in if rt = [] then throw refreshInvalid
        else bindM aClock (\<lambda>clock.
          case ParseRefresh (asJwtLib s) (asJwt s) clock rt of
            Inl e \<Rightarrow> throw (App ErrUnauthorized)
          | Inr claims \<Rightarrow>
              bindM (tryM (FindActiveRefreshSession (rcID (clRegistered claims)))) (\<lambda>r. case r of
                Inl e \<Rightarrow> throw (Wrap (''refresh: session lookup: '' @ errorText e) e)
              | Inr None \<Rightarrow> throw (App ErrUnauthorized)
              | Inr (Some (uid, tid)) \<Rightarrow>
                  if uid \<noteq> rcSubject (clRegistered claims) \<or> tid \<noteq> clTenantID claims
                  then throw (App ErrUnauthorized)
                  else bindM (tryM (FindUserCredentialByID uid)) (\<lambda>r. case r of
                      Inl e \<Rightarrow> if errorsIs e (Sys GormRecordNotFound) then throw (App ErrUnauthorized) else throw e
                    | Inr user \<Rightarrow> ret (claims, user)))))"

definition refreshRotate :: "AuthenticationService \<Rightarrow> Claims \<times> authUserRow \<Rightarrow> LoginResult auth" where
  "refreshRotate s cu =
    bindM (RevokeRefreshSession (rcID (clRegistered (fst cu)))) (\<lambda>_.
    issueTokens s ''refresh: persist session: '' (snd cu))"

definition Refresh :: "AuthenticationService \<Rightarrow> string \<Rightarrow> LoginResult auth" where
  "Refresh s refreshToken = bindM (refreshCheck s refreshToken) (refreshRotate s)"

definition Logout :: "ctx \<Rightarrow> unit auth" where
  "Logout c = (case ClaimsFromContext c of
     None \<Rightarrow> throw (App ErrUnauthorized)
   | Some claims \<Rightarrow>
       if rcSubject (clRegistered claims) = [] then throw (App ErrUnauthorized)
       else RevokeAllRefreshSessionsForUser (rcSubject (clRegistered claims)))"

definition Me :: "ctx \<Rightarrow> MeResult auth" where
  "Me c = (case ClaimsFromContext c of
     None \<Rightarrow> throw (App ErrUnauthorized)
   | Some claims \<Rightarrow>
       if rcSubject (clRegistered claims) = [] then throw (App ErrUnauthorized)
       else bindM (tryM (FindUserProfileByID (rcSubject (clRegistered claims)))) (\<lambda>r. case r of
           Inl e \<Rightarrow> if errorsIs e (Sys GormRecordNotFound) then throw (App ErrNotFound) else throw e
         | Inr prof \<Rightarrow>
             if upTenantID prof \<noteq> clTenantID claims then throw (App ErrForbidden)
             else ret \<lparr>meUserID = upUserID prof, meTenantID = upTenantID prof,
                       meEmail = upEmail prof, meFullName = upFullName prof\<rparr>))"

end
