(* ===== verification/Auth_Safety.thy ===== *)
theory Auth_Safety
  imports Auth
begin

text \<open>
  Theorems about the authentication service. A relation on its tables that is reflexive, transitive
  and closed under the four mutations of the code (locale auth_frame) holds between the tables
  before and after every operation, whatever fails; the interpretations give the evolution of the
  sessions, from which the single use of refresh tokens and the effect of a logout follow.
\<close>

section \<open>Frames of the service\<close>

definition onTables :: "(authdb \<Rightarrow> authdb \<Rightarrow> bool) \<Rightarrow> aworld \<Rightarrow> aworld \<Rightarrow> bool" where
  "onTables Q w w' \<longleftrightarrow> Q (aadb w) (aadb w')"

locale auth_frame =
  fixes Q :: "authdb \<Rightarrow> authdb \<Rightarrow> bool"
  assumes q_refl: "Q d d"
    and q_trans: "Q a b \<Longrightarrow> Q b c \<Longrightarrow> Q a c"
    and q_tenant: "insertTenant t d = Inr (x, d') \<Longrightarrow> Q d d'"
    and q_user: "insertUser u d = Inr (y, d') \<Longrightarrow> Q d d'"
    and q_session: "insertSession s d = Inr (z, d') \<Longrightarrow> Q d d'"
    and q_revoke: "Q d (revokeWhere P now d)"

sublocale auth_frame \<subseteq> tab: effect "onTables Q"
  by standard (auto simp: onTables_def intro: q_refl q_trans)

context auth_frame
begin

lemma k_stmt: "(\<And>d a d'. f d = Inr (a, d') \<Longrightarrow> Q d d') \<Longrightarrow> keeps (onTables Q) (aStmt f)"
  by (auto simp: keeps_def onTables_def aStmt_def Let_def q_refl split: option.splits sum.splits)

lemma k_query: "keeps (onTables Q) (aQuery q)"
  unfolding aQuery_def by (rule k_stmt) (auto simp: q_refl)

lemma k_env: "keeps (onTables Q) aNow" "keeps (onTables Q) aClock" "keeps (onTables Q) aUUID"
  by (simp_all add: keeps_def onTables_def aNow_def aClock_def aUUID_def q_refl)

lemma k_transaction: "keeps (onTables Q) m \<Longrightarrow> keeps (onTables Q) (aTransaction m)"
  unfolding keeps_def
proof
  fix w assume m: "\<forall>w. onTables Q w (snd (m w))"
  have q: "onTables Q v (snd (aQuery (\<lambda>_. ()) v))" for v
    using k_query [of "\<lambda>_. ()"] by (simp add: keeps_def)
  show "onTables Q w (snd (aTransaction m w))"
    using q [of w] m [rule_format, of "snd (aQuery (\<lambda>_. ()) w)"]
      q [of "snd (m (snd (aQuery (\<lambda>_. ()) w)))"]
    by (auto simp: aTransaction_def onTables_def q_refl split: prod.splits sum.splits intro: q_trans)
qed

lemma k_scan: "keeps (onTables Q) (scanUser row)"
  unfolding scanUser_def by (intro tab.keeps_option tab.keeps_throw tab.keeps_if tab.keeps_ret)

lemma k_find_email: "keeps (onTables Q) (FindUserCredentialByEmail e)"
proof (rule keepsI)
  fix w :: aworld
  have "keeps (onTables Q) (bindM (aQuery (\<lambda>d. limitOne (aapick w (aastmt w))
        (filter (\<lambda>u. ToLower (auEmail u) = ToLower (TrimSpace e)) (adUsers d)))) scanUser)"
    by (intro tab.keeps_bind k_query k_scan)
  then show "onTables Q w (snd (FindUserCredentialByEmail e w))"
    by (simp add: FindUserCredentialByEmail_def keeps_def)
qed

lemma k_repository:
  "keeps (onTables Q) (CreateTenantAdmin inp)" "keeps (onTables Q) (FindUserCredentialByID i)"
  "keeps (onTables Q) (FindUserProfileByID i)" "keeps (onTables Q) (InsertRefreshSession u t j e)"
  "keeps (onTables Q) (FindActiveRefreshSession j)" "keeps (onTables Q) (RevokeRefreshSession j)"
  "keeps (onTables Q) (RevokeAllRefreshSessionsForUser u)"
  unfolding CreateTenantAdmin_def createTenantAdminTx_def FindUserCredentialByID_def
    FindUserProfileByID_def InsertRefreshSession_def FindActiveRefreshSession_def
    RevokeRefreshSession_def RevokeAllRefreshSessionsForUser_def
  by (intro tab.keeps_bind tab.keeps_try tab.keeps_sum tab.keeps_if tab.keeps_throw tab.keeps_prod
      tab.keeps_ret k_transaction k_env k_query k_scan k_stmt; blast dest: q_tenant q_user q_session intro: q_revoke)+

lemma k_issue: "keeps (onTables Q) (issueTokens s msg u)"
  unfolding issueTokens_def Let_def
  by (intro tab.keeps_bind tab.keeps_liftE tab.keeps_try tab.keeps_sum tab.keeps_option tab.keeps_if
      tab.keeps_throw tab.keeps_ret k_env k_repository)

lemma k_refresh: "keeps (onTables Q) (refreshCheck s t)" "keeps (onTables Q) (refreshRotate s cu)"
  unfolding refreshCheck_def refreshRotate_def Let_def
  by (intro tab.keeps_bind tab.keeps_try tab.keeps_sum tab.keeps_option tab.keeps_prod tab.keeps_if
      tab.keeps_throw tab.keeps_ret k_env k_repository k_issue)+

lemma k_service:
  "keeps (onTables Q) authPingDB" "keeps (onTables Q) (RegisterTenantAdmin s ri)"
  "keeps (onTables Q) (Login s li)" "keeps (onTables Q) (Refresh s t)" "keeps (onTables Q) (Logout c)"
  "keeps (onTables Q) (Me c)"
  unfolding authPingDB_def RegisterTenantAdmin_def Login_def Refresh_def Logout_def Me_def Let_def
  by (intro tab.keeps_bind tab.keeps_try tab.keeps_sum tab.keeps_option tab.keeps_if
      tab.keeps_throw tab.keeps_ret k_env k_query k_repository k_find_email k_issue k_refresh)+

end

section \<open>The sessions\<close>

text \<open>A session is only ever revoked, once.\<close>

definition sesStep :: "sessionRow \<Rightarrow> sessionRow \<Rightarrow> bool" where
  "sesStep r r' \<longleftrightarrow> r' = r \<or> (rsRevokedAt r = None \<and> (\<exists>t. r' = r\<lparr>rsRevokedAt := Some t\<rparr>))"

definition authHistory :: "authdb \<Rightarrow> authdb \<Rightarrow> bool" where
  "authHistory d d' \<longleftrightarrow> evolves (=) (adTenants d) (adTenants d') \<and> evolves (=) (adUsers d) (adUsers d')
     \<and> evolves sesStep (adSessions d) (adSessions d')
     \<and> (distinct (map rsJti (adSessions d)) \<longrightarrow> distinct (map rsJti (adSessions d')))"

lemma sesStep_refl: "sesStep r r"
  by (simp add: sesStep_def)

lemma sesStep_trans: "sesStep a b \<Longrightarrow> sesStep b c \<Longrightarrow> sesStep a c"
  by (auto simp: sesStep_def)

lemma ses_evolves [simp]: "evolves sesStep xs xs" "evolves sesStep xs (xs @ ys)"
  by (simp_all add: evolves_refl evolves_append sesStep_refl)

lemma same_evolves [simp]: "evolves (=) xs xs" "evolves (=) xs (xs @ ys)"
  by (simp_all add: evolves_refl evolves_append)

interpretation authhist: auth_frame authHistory
proof
  show "authHistory d d" for d by (simp add: authHistory_def)
  show "authHistory a c" if "authHistory a b" "authHistory b c" for a b c
    using that evolves_trans [of "(=)"] evolves_trans [of sesStep] sesStep_trans
    unfolding authHistory_def by (metis (no_types, lifting))
  show "authHistory d d'" if "insertTenant t d = Inr (x, d')" for t d x d'
    using that by (auto simp: insertTenant_def authHistory_def split: if_splits)
  show "authHistory d d'" if "insertUser u d = Inr (y, d')" for u d y d'
    using that by (auto simp: insertUser_def authHistory_def split: if_splits)
  show "authHistory d d'" if "insertSession s d = Inr (z, d')" for s d z d'
    using that by (auto simp: insertSession_def authHistory_def list_ex_iff split: if_splits) metis
  show "authHistory d (revokeWhere P now d)" for d P now
    by (auto simp: revokeWhere_def authHistory_def map_updateWhere intro!: evolves_update)
      (auto simp: sesStep_def)
qed

section \<open>The service as a whole\<close>

datatype authRequest =
    ARegister RegisterInput
  | ALogin LoginInput
  | ARefresh string
  | ALogout ctx
  | AMe ctx
  | APing

fun serveAuth :: "AuthenticationService \<Rightarrow> authRequest \<Rightarrow> unit auth" where
  "serveAuth s (ARegister inp) = bindM (RegisterTenantAdmin s inp) (\<lambda>_. ret ())"
| "serveAuth s (ALogin inp) = bindM (Login s inp) (\<lambda>_. ret ())"
| "serveAuth s (ARefresh t) = bindM (Refresh s t) (\<lambda>_. ret ())"
| "serveAuth s (ALogout c) = Logout c"
| "serveAuth s (AMe c) = bindM (Me c) (\<lambda>_. ret ())"
| "serveAuth s APing = authPingDB"

context auth_frame
begin

lemma k_serve: "keeps (onTables Q) (serveAuth s r)"
  by (cases r) (auto intro!: tab.keeps_bind tab.keeps_ret k_service)

end

text \<open>The worlds any sequence of requests can lead to; between two requests everything but the tables
  may change (the clock, the identifiers drawn, the faults to come).\<close>

inductive authReach :: "AuthenticationService \<Rightarrow> aworld \<Rightarrow> aworld \<Rightarrow> bool" for s w where
  start: "authReach s w w"
| request: "authReach s w v \<Longrightarrow> authReach s w (snd (serveAuth s r v))"
| outside: "authReach s w v \<Longrightarrow> aadb v' = aadb v \<Longrightarrow> authReach s w v'"

lemma authReach_history: "authReach s w w' \<Longrightarrow> authHistory (aadb w) (aadb w')"
proof (induction rule: authReach.induct)
  case start
  show ?case by (rule authhist.q_refl)
next
  case (request v r)
  have "authHistory (aadb v) (aadb (snd (serveAuth s r v)))"
    using authhist.k_serve [of s r] by (simp add: keeps_def onTables_def)
  with request.IH show ?case by (rule authhist.q_trans)
next
  case (outside v v')
  then show ?case by simp
qed

lemma revoked_stays:
  assumes "authHistory d d'" "distinct (map rsJti (adSessions d))" "r \<in> set (adSessions d)"
    "rsRevokedAt r \<noteq> None" "x \<in> set (adSessions d')" "rsJti x = rsJti r"
  shows "rsRevokedAt x \<noteq> None"
proof -
  obtain i where i: "i < length (adSessions d)" "r = adSessions d ! i" using assms(3) by (auto simp: in_set_conv_nth)
  have st: "i < length (adSessions d')" "sesStep r (adSessions d' ! i)"
    using evolves_nth [of sesStep] assms(1) i by (auto simp: authHistory_def)
  then have same: "adSessions d' ! i = r" using assms(4) by (auto simp: sesStep_def)
  have "distinct (map rsJti (adSessions d'))" using assms(1,2) by (simp add: authHistory_def)
  then have "x = adSessions d' ! i" using assms(5,6) same st(1)
    by (metis distinct_map inj_onD nth_mem)
  with same assms(4) show ?thesis by simp
qed

section \<open>Refresh\<close>

lemma aQuery_Inr: "aQuery q w = (Inr a, w') \<Longrightarrow> a = q (aadb w) \<and> aadb w' = aadb w"
  by (auto simp: aQuery_def aStmt_def Let_def split: option.splits)

lemma bindM_InrE:
  assumes "bindM m f w = (Inr b, w'')"
  obtains a w' where "m w = (Inr a, w')" "f a w' = (Inr b, w'')"
  using assms by (auto simp: bindM_Inr)

lemma FindActive_Inr:
  assumes "FindActiveRefreshSession j w = (Inr (Some (u, t)), w')"
  shows "aadb w' = aadb w \<and> (\<exists>now x. x \<in> set (adSessions (aadb w)) \<and> activeSession (TrimSpace j) now x
    \<and> rsUserID x = u \<and> rsTenantID x = t)"
  using assms
  unfolding FindActiveRefreshSession_def
  by (elim bindM_InrE, auto simp: aNow_def dest!: aQuery_Inr find_SomeD [OF sym] split: option.splits if_splits) blast

lemma refreshCheck_Inr:
  assumes "refreshCheck s rt w = (Inr (cl, u), w')"
  shows "aadb w' = aadb w
    \<and> (\<exists>clock. ParseRefresh (asJwtLib s) (asJwt s) clock (TrimSpace rt) = Inr cl)
    \<and> (\<exists>now x. x \<in> set (adSessions (aadb w)) \<and> activeSession (TrimSpace (rcID (clRegistered cl))) now x
        \<and> rsUserID x = rcSubject (clRegistered cl) \<and> rsTenantID x = clTenantID cl)"
proof -
  have fu: "aadb v' = aadb v" if "FindUserCredentialByID i v = (Inr a, v')" for i a v v'
    using that by (auto simp: FindUserCredentialByID_def bindM_Inr scanUser_def dest!: aQuery_Inr
        split: option.splits if_splits)
  let ?w1 = "w\<lparr>aatick := aatick w + 4\<rparr>"
  from assms obtain w2 where
    c: "ParseRefresh (asJwtLib s) (asJwt s) (\<lambda>i. aatime w (aatick w + i)) (TrimSpace rt) = Inr cl"
    and f: "FindActiveRefreshSession (rcID (clRegistered cl)) ?w1
        = (Inr (Some (rcSubject (clRegistered cl), clTenantID cl)), w2)"
    and w2: "aadb w' = aadb w2"
    unfolding refreshCheck_def Let_def
    by (auto simp: aClock_def tryM_Inr_Inr split: if_splits sum.splits option.splits
        elim!: bindM_InrE dest!: fu)
  from FindActive_Inr [OF f] c w2 show ?thesis by auto
qed

lemma RevokeRefresh_Inr:
  "RevokeRefreshSession j w = (Inr u, w') \<Longrightarrow>
     \<exists>now. aadb w' = revokeWhere (\<lambda>r. rsJti r = TrimSpace j) now (aadb w)"
  by (auto simp: RevokeRefreshSession_def bindM_Inr aNow_def aStmt_def Let_def split: option.splits)

lemma revokeWhere_member:
  assumes "x \<in> set (adSessions d)" "P x"
  shows "\<exists>x1 \<in> set (adSessions (revokeWhere P now d)). rsJti x1 = rsJti x \<and> rsRevokedAt x1 \<noteq> None"
proof (cases "rsRevokedAt x")
  case None
  with assms have "x\<lparr>rsRevokedAt := Some now\<rparr> \<in> set (adSessions (revokeWhere P now d))"
    by (auto simp: revokeWhere_def set_updateWhere intro!: bexI [of _ x])
  then show ?thesis by (intro bexI) auto
next
  case (Some t)
  with assms have "x \<in> set (adSessions (revokeWhere P now d))"
    by (auto simp: revokeWhere_def set_updateWhere intro!: bexI [of _ x])
  with Some show ?thesis by (intro bexI) auto
qed

text \<open>After a successful refresh the session of the presented token is there and revoked.\<close>

lemma Refresh_revokes:
  assumes "Refresh s rt w = (Inr lr, w')"
  shows "\<exists>clock cl x. ParseRefresh (asJwtLib s) (asJwt s) clock (TrimSpace rt) = Inr cl
    \<and> x \<in> set (adSessions (aadb w')) \<and> rsJti x = TrimSpace (rcID (clRegistered cl)) \<and> rsRevokedAt x \<noteq> None"
proof -
  from assms obtain cl u w1 w2 where
    c: "refreshCheck s rt w = (Inr (cl, u), w1)"
    and r: "RevokeRefreshSession (rcID (clRegistered cl)) w1 = (Inr (), w2)"
    and i: "issueTokens s ''refresh: persist session: '' u w2 = (Inr lr, w')"
    by (auto simp: Refresh_def refreshRotate_def bindM_Inr)
  from refreshCheck_Inr [OF c] obtain clock now x where
    cl: "ParseRefresh (asJwtLib s) (asJwt s) clock (TrimSpace rt) = Inr cl"
    and x: "x \<in> set (adSessions (aadb w1))" "activeSession (TrimSpace (rcID (clRegistered cl))) now x" by auto
  from RevokeRefresh_Inr [OF r] obtain t where
    t: "aadb w2 = revokeWhere (\<lambda>r. rsJti r = TrimSpace (rcID (clRegistered cl))) t (aadb w1)" by blast
  have x2: "x\<lparr>rsRevokedAt := Some t\<rparr> \<in> set (adSessions (aadb w2))"
    using x unfolding t revokeWhere_def activeSession_def by (auto simp: set_updateWhere intro!: bexI [of _ x])
  have "authHistory (aadb w2) (aadb w')"
    using keepsD [OF authhist.k_issue i] by (simp add: onTables_def)
  then have "evolves sesStep (adSessions (aadb w2)) (adSessions (aadb w'))" by (simp add: authHistory_def)
  moreover obtain k where "k < length (adSessions (aadb w2))" "adSessions (aadb w2) ! k = x\<lparr>rsRevokedAt := Some t\<rparr>"
    using x2 by (auto simp: in_set_conv_nth)
  ultimately have "x\<lparr>rsRevokedAt := Some t\<rparr> \<in> set (adSessions (aadb w'))"
    by (metis (no_types, lifting) evolves_nth nth_mem option.distinct(1) sesStep_def sessionRow.select_convs(5)
        sessionRow.surjective sessionRow.update_convs(5))
  then show ?thesis using cl x(2)
    by (intro exI [of _ clock] exI [of _ cl] exI [of _ "x\<lparr>rsRevokedAt := Some t\<rparr>"]) (auto simp: activeSession_def)
qed

lemma ParseRefresh_unique:
  assumes "jwtLaws lib auth" "ParseRefresh lib s c1 tok = Inr a" "ParseRefresh lib s c2 tok = Inr b"
  shows "a = b"
proof -
  have "parseToken lib s c1 tok = Inr a" "parseToken lib s c2 tok = Inr b"
    using assms(2,3) by (auto simp: ParseRefresh_def split: sum.splits if_splits)
  then show ?thesis using parseToken_Inr [OF assms(1)] jwtLawsD(2) [OF assms(1)] by metis
qed

lemma refresh_refused:
  assumes l: "jwtLaws (asJwtLib s) auth" and cl: "ParseRefresh (asJwtLib s) (asJwt s) clock (TrimSpace rt) = Inr cl"
    and no: "\<And>x. x \<in> set (adSessions (aadb w)) \<Longrightarrow> rsJti x = TrimSpace (rcID (clRegistered cl)) \<Longrightarrow> rsRevokedAt x \<noteq> None"
  shows "\<exists>e. fst (Refresh s rt w) = Inl e"
proof (rule ccontr)
  assume "\<not> ?thesis"
  then obtain lr w' where "Refresh s rt w = (Inr lr, w')" by (metis obj_sumE prod.collapse)
  then obtain cl' u w1 where c: "refreshCheck s rt w = (Inr (cl', u), w1)"
    by (auto simp: Refresh_def bindM_Inr)
  from refreshCheck_Inr [OF c] obtain clock' now x where
    "ParseRefresh (asJwtLib s) (asJwt s) clock' (TrimSpace rt) = Inr cl'"
    "x \<in> set (adSessions (aadb w))" "activeSession (TrimSpace (rcID (clRegistered cl'))) now x" by blast
  moreover from this(1) have "cl' = cl" by (rule ParseRefresh_unique [OF l _ cl])
  ultimately show False using no [of x] by (auto simp: activeSession_def)
qed

text \<open>C9: A refresh token works once. After Refresh has succeeded with a token, Refresh with the same
  token is refused in every world that any later sequence of registrations, logins, refreshes,
  logouts and other requests can lead to, whatever fails and whatever the clock says.\<close>

theorem refresh_single_use:
  assumes "jwtLaws (asJwtLib s) auth" "distinct (map rsJti (adSessions (aadb w)))"
    and "Refresh s rt w = (Inr lr, w1)" "authReach s w1 w2"
  shows "\<exists>e. fst (Refresh s rt w2) = Inl e"
proof -
  from Refresh_revokes [OF assms(3)] obtain clock cl x where
    cl: "ParseRefresh (asJwtLib s) (asJwt s) clock (TrimSpace rt) = Inr cl"
    and x: "x \<in> set (adSessions (aadb w1))" "rsJti x = TrimSpace (rcID (clRegistered cl))" "rsRevokedAt x \<noteq> None"
    by blast
  have "authHistory (aadb w) (aadb w1)"
    using keepsD [OF authhist.k_service(4) assms(3)] by (simp add: onTables_def)
  then have "distinct (map rsJti (adSessions (aadb w1)))" using assms(2) by (simp add: authHistory_def)
  from revoked_stays [OF authReach_history [OF assms(4)] this x(1,3)] x(2)
  show ?thesis by (intro refresh_refused [OF assms(1) cl]) auto
qed

text \<open>C10: Logout ends every session of the user. After a successful Logout every session of the
  subject is revoked and every other row of the store is as before; a refresh token of the subject
  whose session existed is refused in every world later requests can lead to.\<close>

theorem logout_revokes:
  assumes "cxClaims c = Some cl" "Logout c w = (Inr (), w1)"
  shows "aadb w1 = (aadb w)\<lparr>adSessions := adSessions (aadb w1)\<rparr>
    \<and> list_all2 (\<lambda>r r'. if rsUserID r = TrimSpace (rcSubject (clRegistered cl))
        then rsRevokedAt r' \<noteq> None \<and> (rsRevokedAt r \<noteq> None \<longrightarrow> r' = r) else r' = r)
      (adSessions (aadb w)) (adSessions (aadb w1))
    \<and> (jwtLaws (asJwtLib s) auth \<and> distinct (map rsJti (adSessions (aadb w)))
        \<and> x \<in> set (adSessions (aadb w)) \<and> rsUserID x = TrimSpace (rcSubject (clRegistered cl))
        \<and> ParseRefresh (asJwtLib s) (asJwt s) clock (TrimSpace rt) = Inr rcl
        \<and> rsJti x = TrimSpace (rcID (clRegistered rcl)) \<and> authReach s w1 w2
       \<longrightarrow> (\<exists>e. fst (Refresh s rt w2) = Inl e))"
proof (intro conjI impI)
  let ?u = "TrimSpace (rcSubject (clRegistered cl))"
  from assms obtain t where t: "aadb w1 = revokeWhere (\<lambda>r. rsUserID r = ?u) t (aadb w)"
    by (auto simp: Logout_def ClaimsFromContext_def RevokeAllRefreshSessionsForUser_def bindM_Inr aNow_def
        aStmt_def Let_def split: if_splits option.splits)
  show "aadb w1 = (aadb w)\<lparr>adSessions := adSessions (aadb w1)\<rparr>" by (simp add: t revokeWhere_def)
  show l: "list_all2 (\<lambda>r r'. if rsUserID r = ?u then rsRevokedAt r' \<noteq> None \<and> (rsRevokedAt r \<noteq> None \<longrightarrow> r' = r)
      else r' = r) (adSessions (aadb w)) (adSessions (aadb w1))"
    by (simp add: t revokeWhere_def updateWhere_def list_all2_conv_all_nth)
  assume a: "jwtLaws (asJwtLib s) auth \<and> distinct (map rsJti (adSessions (aadb w)))
    \<and> x \<in> set (adSessions (aadb w)) \<and> rsUserID x = ?u
    \<and> ParseRefresh (asJwtLib s) (asJwt s) clock (TrimSpace rt) = Inr rcl
    \<and> rsJti x = TrimSpace (rcID (clRegistered rcl)) \<and> authReach s w1 w2"
  have d: "distinct (map rsJti (adSessions (aadb w1)))"
    using a by (auto simp: t revokeWhere_def map_updateWhere)
  obtain x1 where x1: "x1 \<in> set (adSessions (aadb w1))" "rsJti x1 = rsJti x" "rsRevokedAt x1 \<noteq> None"
    using a unfolding t
    using revokeWhere_member [of x "aadb w" "\<lambda>r. rsUserID r = ?u" t] by (auto simp: revokeWhere_def)
  from revoked_stays [OF authReach_history d x1(1,3)] a x1(2)
  show "\<exists>e. fst (Refresh s rt w2) = Inl e" by (intro refresh_refused) auto
qed

section \<open>Login\<close>

definition userClaims :: "authUserRow \<Rightarrow> ClaimsInput" where
  "userClaims u = \<lparr>ciSubject = auID u, ciTenantID = auTenantID u, ciRole = auRole u,
     ciPermissions = PermissionsForRole (auRole u)\<rparr>"

lemma isSpace_code: "isSpace c \<longleftrightarrow> (of_char c :: nat) \<in> {9, 10, 11, 12, 13, 32}"
  unfolding isSpace_def insert_iff empty_iff of_char_eq_iff [where ?'a = nat, symmetric]
  by simp

lemma isSpace_lower: "isSpace (lowerChar c) = isSpace c"
  by (auto simp: isSpace_code lowerChar_def)

lemma TrimSpace_ToLower: "TrimSpace (ToLower s) = ToLower (TrimSpace s)"
  by (simp add: TrimSpace_def ToLower_def dropWhile_map rev_map comp_def isSpace_lower)

lemma FindEmail_Inr:
  assumes "FindUserCredentialByEmail e w = (Inr u, w')"
  shows "u \<in> set (adUsers (aadb w)) \<and> ToLower (auEmail u) = ToLower (TrimSpace e) \<and> aadb w' = aadb w"
proof -
  have "x \<in> set xs" if "limitOne k xs = Some x" for k x and xs :: "authUserRow list"
    using that by (auto simp: limitOne_def split: if_splits)
  then show ?thesis using assms unfolding FindUserCredentialByEmail_def scanUser_def
    by (auto elim!: bindM_InrE dest!: aQuery_Inr sym [of "Some _"] split: option.splits if_splits) force+
qed

lemma issueTokens_Inr:
  assumes "issueTokens s msg u w = (Inr lr, w')"
  shows "\<exists>now1 now2 jti clock cl e.
    GenerateAccessToken (asJwtLib s) (asJwt s) now1 (userClaims u) = Inr (lrAccessToken lr)
    \<and> GenerateRefreshToken (asJwtLib s) (asJwt s) now2 (Inr jti) (userClaims u) = Inr (lrRefreshToken lr)
    \<and> ParseRefresh (asJwtLib s) (asJwt s) clock (lrRefreshToken lr) = Inr cl
    \<and> rcExpiresAt (clRegistered cl) = Some e
    \<and> insertSession \<lparr>rsUserID = auID u, rsTenantID = auTenantID u, rsJti = rcID (clRegistered cl),
        rsExpiresAt = e, rsRevokedAt = None\<rparr> (aadb w) = Inr ((), aadb w')"
  using assms unfolding issueTokens_def Let_def userClaims_def [symmetric] InsertRefreshSession_def
  by (elim bindM_InrE)
    (auto simp: aNow_def aUUID_def aClock_def tryM_Inr_Inr aStmt_def Let_def
      split: sum.splits option.splits if_splits elim!: bindM_InrE intro!: exI)


section \<open>A sample service\<close>

text \<open>One tenant with one user; the clock stands still, bcrypt compares plainly.\<close>

definition sampleAuthService :: AuthenticationService where
  "sampleAuthService =
    \<lparr>asJwt = \<lparr>jsAccessSecret = ''k'', jsRefreshSecret = ''k'', jsAccessTTL = 2, jsRefreshTTL = 4,
       jsIssuer = [], jsAudience = []\<rparr>, asJwtLib = spellLib 1,
     asBcrypt = \<lparr>bcGenerate = (\<lambda>salt pw. Inr pw),
       bcCompare = (\<lambda>h pw. if h = pw then None else Some (Raw ''mismatch''))\<rparr>,
     asAccessTTLSeconds = 900\<rparr>"

definition sampleAuthWorld :: aworld where
  "sampleAuthWorld =
    \<lparr>aadb = \<lparr>adTenants = [\<lparr>trID = ''t1'', trName = ''Acme'', trSlug = ''acme''\<rparr>],
       adUsers = [\<lparr>auID = ''u1'', auTenantID = ''t1'', auEmail = ''ann@acme.io'',
         auPasswordHash = ''secret-1'', auRole = ''v'', auFullName = ''Ann''\<rparr>],
       adSessions = []\<rparr>,
     aastmt = 0, aafault = (\<lambda>_. None), aatick = 0, aatime = (\<lambda>_. 1), aafresh = 0,
     aauuid = (\<lambda>n. CHR ''j'' # natDigits n), aapick = (\<lambda>_. 0)\<rparr>"

definition sampleLogin :: "LoginResult auth" where
  "sampleLogin = Login sampleAuthService \<lparr>lgEmail = '' ANN@acme.io'', lgPassword = ''secret-1''\<rparr>"

lemma sample_login: "\<not> isl (fst (sampleLogin sampleAuthWorld))"
  by code_simp


definition sampleToken :: string where
  "sampleToken = (case fst (sampleLogin sampleAuthWorld) of Inr lr \<Rightarrow> lrRefreshToken lr | Inl _ \<Rightarrow> [])"

definition sampleSessionWorld :: aworld where
  "sampleSessionWorld = snd (sampleLogin sampleAuthWorld)"

lemma sample_refresh:
  "\<not> isl (fst (Refresh sampleAuthService sampleToken sampleSessionWorld))"
  "distinct (map rsJti (adSessions (aadb sampleSessionWorld)))"
  by code_simp+

lemma sample_laws: "jwtLaws (asJwtLib sampleAuthService) spellAuth"
  by (simp add: sampleAuthService_def spellLib_laws)


theorem refresh_single_use_witness:
  "\<exists>e. fst (Refresh sampleAuthService sampleToken
     (snd (Refresh sampleAuthService sampleToken sampleSessionWorld))) = Inl e"
proof -
  obtain lr w1 where r: "Refresh sampleAuthService sampleToken sampleSessionWorld = (Inr lr, w1)"
    using sample_refresh(1) by (metis isl_def obj_sumE prod.collapse)
  from refresh_single_use [OF sample_laws sample_refresh(2) r authReach.start] show ?thesis by (simp add: r)
qed

definition sampleUserCtx :: ctx where
  "sampleUserCtx = ContextWithClaims Background (Some
     \<lparr>clTenantID = ''t1'', clTokenType = TokenTypeAccess, clRole = ''v'', clPermissions = [],
      clRegistered = \<lparr>rcIssuer = [], rcSubject = ''u1'', rcAudience = [], rcExpiresAt = None,
        rcNotBefore = None, rcIssuedAt = None, rcID = []\<rparr>\<rparr>)"

lemma sample_logout:
  "map (\<lambda>r. (rsUserID r, rsRevokedAt r)) (adSessions (aadb sampleSessionWorld)) = [(''u1'', None)]"
  "\<not> isl (fst (Logout sampleUserCtx sampleSessionWorld))"
  "map_option (\<lambda>cl. TrimSpace (rcSubject (clRegistered cl))) (cxClaims sampleUserCtx) = Some ''u1''"
  by code_simp+

theorem logout_revokes_witness:
  "\<exists>r. adSessions (aadb (snd (Logout sampleUserCtx sampleSessionWorld))) = [r] \<and> rsRevokedAt r \<noteq> None"
proof -
  obtain w1 where l: "Logout sampleUserCtx sampleSessionWorld = (Inr (), w1)"
    using sample_logout(2) by (metis isl_def obj_sumE old.unit.exhaust prod.collapse)
  obtain cl where cl: "cxClaims sampleUserCtx = Some cl" "TrimSpace (rcSubject (clRegistered cl)) = ''u1''"
    using sample_logout(3) by auto
  obtain x where "adSessions (aadb sampleSessionWorld) = [x]" "rsUserID x = ''u1''"
    using sample_logout(1) by auto
  with logout_revokes [OF cl(1) l, THEN conjunct2, THEN conjunct1] cl(2) show ?thesis
    by (auto simp: l list_all2_Cons1)
qed

text \<open>Two refreshes with one token, their steps interleaved, and one after the other.\<close>

definition refreshInterleaved :: "AuthenticationService \<Rightarrow> string \<Rightarrow> (LoginResult \<times> LoginResult) auth" where
  "refreshInterleaved s rt =
    bindM (refreshCheck s rt) (\<lambda>c1.
    bindM (refreshCheck s rt) (\<lambda>c2.
    bindM (refreshRotate s c1) (\<lambda>r1.
    bindM (refreshRotate s c2) (\<lambda>r2. ret (r1, r2)))))"

definition refreshTwice :: "AuthenticationService \<Rightarrow> string \<Rightarrow> (LoginResult \<times> LoginResult) auth" where
  "refreshTwice s rt = bindM (Refresh s rt) (\<lambda>r1. bindM (Refresh s rt) (\<lambda>r2. ret (r1, r2)))"

definition raceOutcome :: "AuthenticationService \<Rightarrow> string \<Rightarrow> aworld \<Rightarrow> bool \<times> bool" where
  "raceOutcome s rt w = (isl (fst (refreshInterleaved s rt w)), isl (fst (refreshTwice s rt w)))"


end
