(* ===== verification/Auth_Register.thy ===== *)
theory Auth_Register
  imports Auth_Safety
begin

text \<open>
  Registration: it creates a tenant together with its first user or nothing, and the slug it builds
  always fits the column and is left alone by the repository's own normalisation.
\<close>

section \<open>The transaction\<close>

lemma aTransaction_Inl: "aTransaction m w = (Inl e, w') \<Longrightarrow> aadb w' = aadb w"
  by (auto simp: aTransaction_def aQuery_def aStmt_def Let_def split: prod.splits sum.splits option.splits)

lemma aTransaction_Inr:
  assumes "aTransaction m w = (Inr a, w')"
  obtains w1 w2 where "aadb w1 = aadb w" "m w1 = (Inr a, w2)" "aadb w' = aadb w2"
  using assms
  by (auto simp: aTransaction_def dest!: aQuery_Inr split: prod.splits sum.splits)

lemma aStmt_Inr: "aStmt f w = (Inr a, w') \<Longrightarrow> f (aadb w) = Inr (a, aadb w')"
  by (auto simp: aStmt_def Let_def split: option.splits sum.splits)

lemma aUUID_Inl: "aUUID w = (Inl e, w') \<Longrightarrow> aadb w' = aadb w"
  by (simp add: aUUID_def)

lemma aUUID_Inr: "aUUID w = (Inr a, w') \<Longrightarrow> aadb w' = aadb w"
  by (auto simp: aUUID_def)

lemma insertTenant_Inr: "insertTenant r d = Inr (i, d') \<Longrightarrow> i = trID r \<and> d' = d\<lparr>adTenants := adTenants d @ [r]\<rparr>"
  by (auto simp: insertTenant_def split: if_splits)

lemma insertUser_Inr: "insertUser r d = Inr (i, d') \<Longrightarrow> i = auID r \<and> d' = d\<lparr>adUsers := adUsers d @ [r]\<rparr>"
  by (auto simp: insertUser_def split: if_splits)

lemma bindM_InlE:
  assumes "bindM m f w = (Inl e, w'')"
  obtains "m w = (Inl e, w'')" | a w' where "m w = (Inr a, w')" "f a w' = (Inl e, w'')"
  using assms by (auto simp: bindM_Inl)

lemma tryM_Inl: "tryM m w = (Inl e, w') \<Longrightarrow> m w = (Inl e, w')"
  by (auto simp: tryM_def split: prod.splits sum.splits err.splits)

lemma CreateTenantAdmin_Inl: "CreateTenantAdmin inp w = (Inl e, w') \<Longrightarrow> aadb w' = aadb w"
  by (auto simp: CreateTenantAdmin_def bindM_def throw_def ret_def tryM_def dest: aTransaction_Inl
      split: prod.splits sum.splits if_splits err.splits)

lemma CreateTenantAdmin_Inr:
  assumes "CreateTenantAdmin inp w = (Inr rr, w')"
  shows "\<exists>t u. aadb w' = (aadb w)\<lparr>adTenants := adTenants (aadb w) @ [t], adUsers := adUsers (aadb w) @ [u]\<rparr>
    \<and> trID t = trTenantID rr \<and> trName t = TrimSpace (taTenantName inp)
    \<and> trSlug t = TrimSpace (ToLower (taTenantSlug inp))
    \<and> auID u = trUserID rr \<and> auTenantID u = trID t \<and> auEmail u = TrimSpace (ToLower (taAdminEmail inp))
    \<and> trEmail rr = auEmail u \<and> auPasswordHash u = taPasswordHash inp \<and> auRole u = taRole inp
    \<and> auFullName u = TrimSpace (taAdminFullName inp)"
proof -
  from assms obtain tid uid where t: "aTransaction (createTenantAdminTx inp) w = (Inr (tid, uid), w')"
    and r: "rr = \<lparr>trTenantID = tid, trUserID = uid, trEmail = TrimSpace (ToLower (taAdminEmail inp))\<rparr>"
    unfolding CreateTenantAdmin_def
    by (auto simp: tryM_Inr_Inr split: sum.splits if_splits prod.splits elim!: bindM_InrE)
  from t obtain w1 w2 where w: "aadb w1 = aadb w" "aadb w' = aadb w2"
    and m: "createTenantAdminTx inp w1 = (Inr (tid, uid), w2)" by (rule aTransaction_Inr)
  let ?t = "\<lparr>trID = tid, trName = TrimSpace (taTenantName inp), trSlug = TrimSpace (ToLower (taTenantSlug inp))\<rparr>"
  let ?u = "\<lparr>auID = uid, auTenantID = tid, auEmail = TrimSpace (ToLower (taAdminEmail inp)),
    auPasswordHash = taPasswordHash inp, auRole = taRole inp, auFullName = TrimSpace (taAdminFullName inp)\<rparr>"
  from m show ?thesis unfolding createTenantAdminTx_def w(2) r w(1) [symmetric]
    by (intro exI [of _ ?t] exI [of _ ?u]) (auto elim!: bindM_InrE dest!: aStmt_Inr aUUID_Inr insertTenant_Inr insertUser_Inr)
qed

text \<open>C12: Registration is all or nothing. Whatever statement fails, a failed RegisterTenantAdmin leaves
  every table as it was; a successful one appends exactly one tenant and one user, its owner, with
  the identifiers it answers, the address in lower case and a hash bcrypt made of the password, and
  touches nothing else.\<close>

theorem register_all_or_nothing:
  assumes "RegisterTenantAdmin s inp w = (r, w')"
  shows "case r of
      Inl e \<Rightarrow> aadb w' = aadb w
    | Inr rr \<Rightarrow> \<exists>t u salt. aadb w' = (aadb w)\<lparr>adTenants := adTenants (aadb w) @ [t],
          adUsers := adUsers (aadb w) @ [u]\<rparr>
        \<and> trID t = rrTenantID rr \<and> auTenantID u = rrTenantID rr \<and> auID u = rrUserID rr
        \<and> auEmail u = rrEmail rr \<and> rrEmail rr = ToLower (TrimSpace (riAdminEmail inp))
        \<and> auRole u = ''owner'' \<and> bcGenerate (asBcrypt s) salt (riPassword inp) = Inr (auPasswordHash u)"
proof (cases r)
  case (Inl e)
  show ?thesis using assms unfolding Inl RegisterTenantAdmin_def
    by (auto simp: tryM_Inr_Inl dest!: aUUID_Inr tryM_Inl CreateTenantAdmin_Inl aUUID_Inl
        elim!: bindM_InlE split: if_splits sum.splits)
next
  case (Inr rr)
  from assms obtain salt h w1 slugID res w2 where
    h: "bcGenerate (asBcrypt s) salt (riPassword inp) = Inr h" and w1: "aadb w1 = aadb w"
    and c: "CreateTenantAdmin \<lparr>taTenantName = TrimSpace (riTenantName inp),
        taTenantSlug = generateTenantSlug (riTenantName inp) slugID,
        taAdminEmail = TrimSpace (ToLower (riAdminEmail inp)),
        taAdminFullName = TrimSpace (riAdminName inp), taPasswordHash = h, taRole = ''owner''\<rparr> w1 = (Inr res, w')"
    and rr: "rr = \<lparr>rrTenantID = trTenantID res, rrUserID = trUserID res, rrEmail = trEmail res\<rparr>"
    unfolding Inr RegisterTenantAdmin_def
    by (auto simp: tryM_Inr_Inr split: if_splits sum.splits elim!: bindM_InrE dest!: aUUID_Inr)
  from CreateTenantAdmin_Inr [OF c] h show ?thesis unfolding w1 Inr rr
    by (fastforce simp: TrimSpace_ToLower)
qed

section \<open>The slug\<close>

lemma lower_slug: "slugChar c \<Longrightarrow> lowerChar c = c"
  by (auto simp: slugChar_def lowerChar_def)

lemma slug_not_space: "slugChar c \<or> c = CHR ''-'' \<Longrightarrow> \<not> isSpace c \<and> lowerChar c = c"
  by (auto simp: isSpace_code lower_slug slugChar_def lowerChar_def)

lemma dashRuns_set: "x \<in> set (dashRuns s) \<Longrightarrow> slugChar x \<or> x = CHR ''-''"
proof (induction s)
  case (Cons c s)
  from Cons.prems have "x \<in> set (if slugChar c then c # dashRuns s else (case s of [] \<Rightarrow> ''-''
      | d # _ \<Rightarrow> if slugChar d then CHR ''-'' # dashRuns s else dashRuns s))"
    by (simp only: dashRuns.simps)
  with Cons.IH show ?case by (auto simp del: dashRuns.simps split: list.split_asm if_split_asm)
qed simp

lemma trimDashes_set: "set (trimDashes s) \<subseteq> set s"
  by (auto simp: trimDashes_def dest!: set_dropWhileD)

lemma trim_hd:
  assumes "rev (dropWhile P (rev (dropWhile P s))) \<noteq> []"
  shows "\<not> P (hd (rev (dropWhile P (rev (dropWhile P s)))))"
proof -
  let ?a = "dropWhile P s"
  have "rev (takeWhile P (rev ?a) @ dropWhile P (rev ?a)) = ?a" by simp
  then have a: "?a = rev (dropWhile P (rev ?a)) @ rev (takeWhile P (rev ?a))" by (metis rev_append)
  have "?a \<noteq> []" using assms by (metis dropWhile.simps(1) rev.simps(1))
  with hd_dropWhile [OF this] hd_prefix [OF a assms] show ?thesis by simp
qed

lemma trimDashes_hd: "trimDashes s \<noteq> [] \<Longrightarrow> hd (trimDashes s) \<noteq> CHR ''-''"
  unfolding trimDashes_def by (rule trim_hd)

lemma clean_fixed:
  assumes "\<forall>c \<in> set s. \<not> isSpace c \<and> lowerChar c = c"
  shows "TrimSpace (ToLower s) = s"
proof -
  have "ToLower s = s" using assms by (simp add: ToLower_def map_idI)
  moreover have "dropWhile isSpace s = s" "dropWhile isSpace (rev s) = rev s"
    using assms by (auto intro!: dropWhile_hd_fix dest: hd_in_set) (metis hd_in_set rev_is_Nil_conv set_rev)
  ultimately show ?thesis by (simp add: TrimSpace_def)
qed

text \<open>The slug of a tenant. For every tenant name and every identifier in the lower case alphabet of
  UUIDs, generateTenantSlug gives a slug of letters, digits and dashes only, that starts with a letter
  or digit, is at most 89 characters long and so fits the column of 100, and that the trimming and
  lower-casing in the repository leave as it is.\<close>

theorem tenant_slug_fits:
  assumes "\<forall>c \<in> set uuid. slugChar c \<or> c = CHR ''-''"
  shows "(\<forall>c \<in> set (generateTenantSlug name uuid). slugChar c \<or> c = CHR ''-'')
    \<and> slugChar (hd (generateTenantSlug name uuid)) \<and> length (generateTenantSlug name uuid) \<le> 89
    \<and> TrimSpace (ToLower (generateTenantSlug name uuid)) = generateTenantSlug name uuid"
proof -
  define b0 where "b0 = trimDashes (dashRuns (TrimSpace (ToLower name)))"
  define b1 where "b1 = (if b0 = [] then ''tenant'' else b0)"
  define b2 where "b2 = (if length b1 > 80 then take 80 b1 else b1)"
  have g: "generateTenantSlug name uuid = b2 @ ''-'' @ take 8 uuid"
    by (simp add: generateTenantSlug_def Let_def b0_def b1_def b2_def)
  have s0: "\<forall>c \<in> set b0. slugChar c \<or> c = CHR ''-''"
    using trimDashes_set [of "dashRuns (TrimSpace (ToLower name))"] dashRuns_set unfolding b0_def by blast
  have t: "\<forall>c \<in> set ''tenant''. slugChar c" by code_simp
  have s1: "\<forall>c \<in> set b1. slugChar c \<or> c = CHR ''-''" using s0 t by (auto simp: b1_def)
  have h1: "b1 \<noteq> [] \<and> hd b1 \<noteq> CHR ''-''" using trimDashes_hd by (auto simp: b1_def b0_def)
  have b2: "b2 = take 80 b1" by (simp add: b2_def)
  have h2: "b2 \<noteq> [] \<and> hd b2 = hd b1" using h1 unfolding b2 by (cases b1) auto
  have s2: "\<forall>c \<in> set b2. slugChar c \<or> c = CHR ''-''" using s1 unfolding b2 by (auto dest: in_set_takeD)
  have all: "\<forall>c \<in> set (generateTenantSlug name uuid). slugChar c \<or> c = CHR ''-''"
    using s2 assms unfolding g by (auto dest: in_set_takeD)
  moreover have "slugChar (hd (generateTenantSlug name uuid))"
    using h1 h2 s1 hd_in_set unfolding g by (metis hd_append2)
  moreover have "length b2 \<le> 80" unfolding b2 by simp
  then have "length (generateTenantSlug name uuid) \<le> 89" unfolding g by simp
  moreover have "TrimSpace (ToLower (generateTenantSlug name uuid)) = generateTenantSlug name uuid"
    using all slug_not_space by (intro clean_fixed) blast
  ultimately show ?thesis by blast
qed

theorem tenant_slug_fits_witness:
  "length (generateTenantSlug ''  Acme & Sons!'' ''0a1b2c3d-44'') \<le> 89
   \<and> TrimSpace (ToLower (generateTenantSlug ''  Acme & Sons!'' ''0a1b2c3d-44''))
      = generateTenantSlug ''  Acme & Sons!'' ''0a1b2c3d-44''"
proof -
  have "\<forall>c \<in> set ''0a1b2c3d-44''. slugChar c \<or> c = CHR ''-''" by code_simp
  from tenant_slug_fits [OF this] show ?thesis by blast
qed

text \<open>A second registration with the address of an existing user succeeds.\<close>

definition sampleRegister :: "RegisterResult auth" where
  "sampleRegister = RegisterTenantAdmin sampleAuthService \<lparr>riTenantName = ''Acme 2'', riAdminName = ''Ann'',
     riAdminEmail = ''ANN@acme.io'', riPassword = ''secret-2''\<rparr>"

lemma sample_register: "\<not> isl (fst (sampleRegister sampleAuthWorld))"
  by code_simp

theorem register_all_or_nothing_witness:
  "\<exists>t u. aadb (snd (sampleRegister sampleAuthWorld)) = (aadb sampleAuthWorld)\<lparr>
      adTenants := adTenants (aadb sampleAuthWorld) @ [t], adUsers := adUsers (aadb sampleAuthWorld) @ [u]\<rparr>
    \<and> auEmail u = auEmail (hd (adUsers (aadb sampleAuthWorld)))"
proof -
  obtain rr w' where r: "sampleRegister sampleAuthWorld = (Inr rr, w')"
    using sample_register by (metis isl_def obj_sumE prod.collapse)
  have e: "ToLower (TrimSpace ''ANN@acme.io'') = auEmail (hd (adUsers (aadb sampleAuthWorld)))" by code_simp
  from register_all_or_nothing [OF r [unfolded sampleRegister_def]] obtain t u where
    "aadb w' = (aadb sampleAuthWorld)\<lparr>adTenants := adTenants (aadb sampleAuthWorld) @ [t],
        adUsers := adUsers (aadb sampleAuthWorld) @ [u]\<rparr>"
    "auEmail u = ToLower (TrimSpace ''ANN@acme.io'')"
    unfolding sum.case RegisterInput.select_convs by metis
  with e r show ?thesis by (intro exI [of _ t] exI [of _ u]) simp
qed

end
