(* ===== verification/Auth_Api.thy ===== *)
theory Auth_Api
  imports Api_Safety Auth_Register
begin

text \<open>
  The HTTP layer of the authentication service (src/services/authentication/api: auth.go,
  auth_session.go, handlers_health.go, jwt_middleware.go, echo.go, errors.go; request types and routes
  of src/services/authentication/stub). Requests and responses are those of the inventory API. The
  decoding of bodies is a parameter; the time limit of the endpoints shows as failing statements,
  which the world of the service has anyway.
\<close>

record LoginRequest =
  lqEmail :: string
  lqPassword :: string

record RefreshRequest =
  fqRefreshToken :: string

record RegisterRequest =
  gqAdminEmail :: string
  gqAdminName :: string
  gqPassword :: string
  gqTenantName :: string

record AuthBind =
  abLogin :: "httpReq \<Rightarrow> err + LoginRequest"
  abRegister :: "httpReq \<Rightarrow> err + RegisterRequest"
  abRefresh :: "httpReq \<Rightarrow> err + RefreshRequest"

section \<open>Handlers\<close>

definition tokensJSON :: "LoginResult \<Rightarrow> jval" where
  "tokensJSON r = JObj [(''access_token'', JStr (lrAccessToken r)), (''refresh_token'', JStr (lrRefreshToken r)),
     (''token_type'', JStr (lrTokenType r)), (''expires_in'', JInt (lrExpiresIn r))]"

definition PostApiV1AuthLogin :: "AuthenticationService \<Rightarrow> AuthBind \<Rightarrow> httpReq \<Rightarrow> ctx \<Rightarrow> aworld handler" where
  "PostApiV1AuthLogin s ab rq c =
    bindM (liftE (abLogin ab rq)) (\<lambda>req.
    bindM (Login s \<lparr>lgEmail = lqEmail req, lgPassword = lqPassword req\<rparr>) (\<lambda>result.
    sendOK rq 200 (tokensJSON result)))"

definition PostApiV1AuthRegister :: "AuthenticationService \<Rightarrow> AuthBind \<Rightarrow> httpReq \<Rightarrow> ctx \<Rightarrow> aworld handler" where
  "PostApiV1AuthRegister s ab rq c =
    bindM (liftE (abRegister ab rq)) (\<lambda>req.
    bindM (RegisterTenantAdmin s \<lparr>riTenantName = gqTenantName req, riAdminName = gqAdminName req,
        riAdminEmail = gqAdminEmail req, riPassword = gqPassword req\<rparr>) (\<lambda>result.
    sendOK rq 201 (JObj [(''tenant_id'', JStr (rrTenantID result)), (''user_id'', JStr (rrUserID result)),
      (''email'', JStr (rrEmail result))])))"

definition PostApiV1AuthRefresh :: "AuthenticationService \<Rightarrow> AuthBind \<Rightarrow> httpReq \<Rightarrow> ctx \<Rightarrow> aworld handler" where
  "PostApiV1AuthRefresh s ab rq c =
    bindM (liftE (abRefresh ab rq)) (\<lambda>req.
    bindM (Refresh s (fqRefreshToken req)) (\<lambda>result. sendOK rq 200 (tokensJSON result)))"

definition PostApiV1AuthLogout :: "AuthenticationService \<Rightarrow> AuthBind \<Rightarrow> httpReq \<Rightarrow> ctx \<Rightarrow> aworld handler" where
  "PostApiV1AuthLogout s ab rq c = bindM (Logout c) (\<lambda>_. ret (HNoContent 204))"

definition GetApiV1AuthMe :: "AuthenticationService \<Rightarrow> AuthBind \<Rightarrow> httpReq \<Rightarrow> ctx \<Rightarrow> aworld handler" where
  "GetApiV1AuthMe s ab rq c =
    bindM (Me c) (\<lambda>me.
    sendOK rq 200 (JObj [(''user_id'', JStr (meUserID me)), (''tenant_id'', JStr (meTenantID me)),
      (''email'', JStr (meEmail me)), (''full_name'', JStr (meFullName me))]))"

definition authGetHealth :: "AuthenticationService \<Rightarrow> AuthBind \<Rightarrow> httpReq \<Rightarrow> ctx \<Rightarrow> aworld handler" where
  "authGetHealth s ab rq c = ret (HText 200 ''ok'')"

definition GetApiV1AuthHealth :: "AuthenticationService \<Rightarrow> AuthBind \<Rightarrow> httpReq \<Rightarrow> ctx \<Rightarrow> aworld handler" where
  "GetApiV1AuthHealth s ab rq c = ret (HText 200 ''ok'')"

definition authGetReady :: "AuthenticationService \<Rightarrow> AuthBind \<Rightarrow> httpReq \<Rightarrow> ctx \<Rightarrow> aworld handler" where
  "authGetReady s ab rq c = bindM (tryM authPingDB) (\<lambda>r. case r of
     Inl e \<Rightarrow> ret (HText 503 ''db not ready'')
   | Inr _ \<Rightarrow> ret (HText 200 ''ok''))"

section \<open>Server\<close>

type_synonym authRoute = "(string \<times> string) \<times> (AuthenticationService \<Rightarrow> AuthBind \<Rightarrow> httpReq \<Rightarrow> ctx \<Rightarrow> aworld handler)"

definition authRegisterHandlers :: "authRoute list" where
  "authRegisterHandlers = [
     ((''GET'', ''/api/v1/auth/health''), GetApiV1AuthHealth),
     ((''POST'', ''/api/v1/auth/login''), PostApiV1AuthLogin),
     ((''POST'', ''/api/v1/auth/logout''), PostApiV1AuthLogout),
     ((''GET'', ''/api/v1/auth/me''), GetApiV1AuthMe),
     ((''POST'', ''/api/v1/auth/refresh''), PostApiV1AuthRefresh),
     ((''POST'', ''/api/v1/auth/register''), PostApiV1AuthRegister),
     ((''GET'', ''/health''), authGetHealth),
     ((''GET'', ''/ready''), authGetReady)]"

definition AuthPublicPaths :: "string list" where
  "AuthPublicPaths = [''/health'', ''/ready'', ''/api/v1/auth/health'', ''/api/v1/auth/login'',
     ''/api/v1/auth/register'', ''/api/v1/auth/refresh'']"

definition authHandleRoute :: "AuthenticationService \<Rightarrow> AuthBind \<Rightarrow> httpReq \<Rightarrow> ctx \<Rightarrow> aworld handler" where
  "authHandleRoute s ab rq c = (case hqRoute rq of
     None \<Rightarrow> throw notFound
   | Some pattern \<Rightarrow> (case map_of authRegisterHandlers (hqMethod rq, pattern) of
       None \<Rightarrow> throw notFound
     | Some h \<Rightarrow> h s ab rq c))"

definition authErrorHandler :: "httpReq \<Rightarrow> aworld handler \<Rightarrow> aworld handler" where
  "authErrorHandler rq m w = (case m w of (Inl e, w') \<Rightarrow> (Inr (writeError rq e), w') | (Inr r, w') \<Rightarrow> (Inr r, w'))"

definition authServeHTTP :: "AuthenticationService \<Rightarrow> AuthBind \<Rightarrow> httpReq \<Rightarrow> aworld handler" where
  "authServeHTTP s ab rq =
    authErrorHandler rq
      (bindM aClock (\<lambda>clock.
       RequireBearerAccessJWT (asJwtLib s) (asJwt s) AuthPublicPaths clock
         (authHandleRoute s ab rq) (hqPath rq) (hqAuthorization rq) Background))"

section \<open>The server refines the service\<close>

definition afterClock :: "aworld \<Rightarrow> aworld" where
  "afterClock w = w\<lparr>aatick := aatick w + 4\<rparr>"

definition aReadings :: "aworld \<Rightarrow> nat \<Rightarrow> int" where
  "aReadings w = (\<lambda>i. aatime w (aatick w + i))"

lemma aClock_run: "aClock w = (Inr (aReadings w), afterClock w)"
  by (simp add: aClock_def aReadings_def afterClock_def)

lemma authServe_run:
  "authServeHTTP s ab rq w = authErrorHandler rq (RequireBearerAccessJWT (asJwtLib s) (asJwt s) AuthPublicPaths
     (aReadings w) (authHandleRoute s ab rq) (hqPath rq) (hqAuthorization rq) Background) (afterClock w)"
  by (simp add: authServeHTTP_def authErrorHandler_def bindM_def aClock_run)

text \<open>The context of a request of the service.\<close>

fun authCtx :: "authRequest \<Rightarrow> ctx option" where
  "authCtx (ALogout c) = Some c"
| "authCtx (AMe c) = Some c"
| "authCtx _ = None"

definition oneRequest :: "AuthenticationService \<Rightarrow> ctx \<Rightarrow> httpReq \<Rightarrow> aworld handler \<Rightarrow> bool" where
  "oneRequest s c rq h \<longleftrightarrow> (\<forall>w. snd (h w) = w
     \<or> (\<exists>r. (authCtx r = None \<or> authCtx r = Some c) \<and> snd (h w) = snd (serveAuth s r w)
          \<and> (\<forall>e. fst (serveAuth s r w) = Inl e \<longrightarrow> (\<exists>st. fst (h w) = Inr (HText st ''db not ready'')) \<or> fst (h w) = Inl e)))"

lemma one_call:
  assumes "serveAuth s r = bindM m (\<lambda>_. ret ())" "authCtx r = None \<or> authCtx r = Some c"
    and "\<And>a w. \<exists>resp. k a w = (Inr resp, w)"
  shows "oneRequest s c rq (bindM m k)"
  unfolding oneRequest_def
proof (rule allI, rule disjI2, rule exI [of _ r], intro conjI allI impI)
  fix w
  show "authCtx r = None \<or> authCtx r = Some c" by (rule assms(2))
  show "snd (bindM m k w) = snd (serveAuth s r w)"
  proof (cases "m w")
    fix x w' assume m: "m w = (x, w')"
    show ?thesis
    proof (cases x)
      case (Inr a)
      then show ?thesis using m assms(3) [of a w'] by (auto simp: assms(1) bindM_def ret_def)
    qed (simp add: m assms(1) bindM_def)
  qed
  fix e assume "fst (serveAuth s r w) = Inl e"
  then show "(\<exists>st. fst (bindM m k w) = Inr (HText st ''db not ready'')) \<or> fst (bindM m k w) = Inl e"
    by (cases "m w"; cases "fst (m w)") (auto simp: assms(1) bindM_def ret_def)
qed

lemma one_bound:
  assumes "\<And>b. oneRequest s c rq (k b)"
  shows "oneRequest s c rq (bindM (liftE r) k)"
  using assms by (cases r) (auto simp: oneRequest_def bindM_def liftE_def throw_def)

lemma send_keeps: "\<exists>resp. sendOK rq st d w = (Inr resp, w)" "\<exists>resp. ret x w = (Inr resp, w)"
  by (auto simp: sendOK_def ret_def split: prod.splits)

lemma one_handler:
  assumes "(k, h) \<in> set authRegisterHandlers"
  shows "oneRequest s c rq (h s ab rq c)"
proof -
  have "oneRequest s c rq (PostApiV1AuthLogin s ab rq c)" "oneRequest s c rq (PostApiV1AuthRegister s ab rq c)"
    "oneRequest s c rq (PostApiV1AuthRefresh s ab rq c)"
    unfolding PostApiV1AuthLogin_def PostApiV1AuthRegister_def PostApiV1AuthRefresh_def
    by (rule one_bound, rule one_call [OF serveAuth.simps(2)] one_call [OF serveAuth.simps(1)]
        one_call [OF serveAuth.simps(3)]; simp add: send_keeps)+
  moreover have "oneRequest s c rq (GetApiV1AuthMe s ab rq c)"
    unfolding GetApiV1AuthMe_def by (rule one_call [OF serveAuth.simps(5)]) (simp_all add: send_keeps)
  moreover have "oneRequest s c rq (PostApiV1AuthLogout s ab rq c)"
    unfolding PostApiV1AuthLogout_def
    by (rule one_call [where r = "ALogout c"])
      (auto simp: ret_def fun_eq_iff bindM_def split: prod.splits sum.splits)
  moreover have "oneRequest s c rq (authGetReady s ab rq c)"
    unfolding oneRequest_def
  proof (intro allI disjI2 exI [of _ APing])
    fix w show "(authCtx APing = None \<or> authCtx APing = Some c) \<and> snd (authGetReady s ab rq c w) = snd (serveAuth s APing w)
      \<and> (\<forall>e. fst (serveAuth s APing w) = Inl e \<longrightarrow> (\<exists>st. fst (authGetReady s ab rq c w) = Inr (HText st ''db not ready''))
          \<or> fst (authGetReady s ab rq c w) = Inl e)"
      by (cases "authPingDB w"; cases "fst (authPingDB w)"; cases "projl (fst (authPingDB w))")
        (auto simp: authGetReady_def bindM_def tryM_def ret_def)
  qed
  moreover have "oneRequest s c rq (authGetHealth s ab rq c)" "oneRequest s c rq (GetApiV1AuthHealth s ab rq c)"
    by (simp_all add: oneRequest_def authGetHealth_def GetApiV1AuthHealth_def ret_def)
  ultimately show ?thesis using assms by (auto simp: authRegisterHandlers_def)
qed

lemma one_route: "oneRequest s c rq (authHandleRoute s ab rq c)"
proof -
  have "oneRequest s c rq (throw e)" for e by (simp add: oneRequest_def throw_def)
  then show ?thesis
    by (auto simp: authHandleRoute_def split: option.splits dest!: map_of_SomeD intro: one_handler)
qed

definition actsAsUser :: "AuthenticationService \<Rightarrow> (nat \<Rightarrow> int) \<Rightarrow> httpReq \<Rightarrow> ctx \<Rightarrow> bool" where
  "actsAsUser s clock rq c \<longleftrightarrow> hqPath rq \<in> set AuthPublicPaths \<and> c = Background
   \<or> (\<exists>tok cl. GetJWTFromEchoContext (hqAuthorization rq) = Inr tok
        \<and> ParseAccess (asJwtLib s) (asJwt s) clock tok = Inr cl \<and> c = ContextWithClaims Background (Some cl))"

text \<open>A run from v to w' answers with resp after at most one request of the service.\<close>

definition answersOnce :: "AuthenticationService \<Rightarrow> httpReq \<Rightarrow> ctx \<Rightarrow> aworld \<Rightarrow> httpResp \<Rightarrow> aworld \<Rightarrow> bool" where
  "answersOnce s rq c v resp w' \<longleftrightarrow> w' = v
     \<or> (\<exists>r. (authCtx r = None \<or> authCtx r = Some c) \<and> w' = snd (serveAuth s r v)
          \<and> (fst (serveAuth s r v) = Inr () \<or> resp = writeError rq (projl (fst (serveAuth s r v)))
             \<or> (\<exists>st. resp = HText st ''db not ready'')))"

lemma answers_reach: "answersOnce s rq c v resp w' \<Longrightarrow> authReach s w v \<Longrightarrow> authReach s w w'"
  by (auto simp: answersOnce_def intro: authReach.request)

lemma route_answers:
  "\<exists>resp w'. authErrorHandler rq (authHandleRoute s ab rq c) v = (Inr resp, w') \<and> answersOnce s rq c v resp w'"
proof -
  obtain x w' where h: "authHandleRoute s ab rq c v = (x, w')" by fastforce
  define resp where "resp = (case x of Inl e \<Rightarrow> writeError rq e | Inr r \<Rightarrow> r)"
  have run: "authErrorHandler rq (authHandleRoute s ab rq c) v = (Inr resp, w')"
    using h by (cases x) (simp_all add: authErrorHandler_def resp_def)
  have "answersOnce s rq c v resp w'"
    using one_route [of s c rq ab, unfolded oneRequest_def, rule_format, of v]
  proof (rule disjE)
    assume "\<exists>r. (authCtx r = None \<or> authCtx r = Some c) \<and> snd (authHandleRoute s ab rq c v) = snd (serveAuth s r v)
      \<and> (\<forall>e. fst (serveAuth s r v) = Inl e \<longrightarrow> (\<exists>st. fst (authHandleRoute s ab rq c v) = Inr (HText st ''db not ready''))
        \<or> fst (authHandleRoute s ab rq c v) = Inl e)"
    then obtain r where r: "authCtx r = None \<or> authCtx r = Some c" "snd (authHandleRoute s ab rq c v) = snd (serveAuth s r v)"
      and err: "\<forall>e. fst (serveAuth s r v) = Inl e \<longrightarrow> (\<exists>st. fst (authHandleRoute s ab rq c v) = Inr (HText st ''db not ready''))
        \<or> fst (authHandleRoute s ab rq c v) = Inl e" by blast
    have "fst (serveAuth s r v) = Inr () \<or> resp = writeError rq (projl (fst (serveAuth s r v)))
        \<or> (\<exists>st. resp = HText st ''db not ready'')"
      using err h by (cases "fst (serveAuth s r v)") (auto simp: resp_def)
    then show ?thesis using r h unfolding answersOnce_def by auto
  qed (simp add: answersOnce_def h)
  with run show ?thesis by blast
qed

text \<open>C31: The authentication server refines its service. Every HTTP request gets a response, and its
  effect is nothing but readings of the clock or exactly one request of the service, with the claims of
  the accepted token for logout and profile; an error of the service is answered as that error. So the
  worlds the server reaches are worlds the service reaches, and what holds in those (a refresh token
  works once, a logout ends every session of its user) holds of the server.\<close>

theorem auth_http_refines:
  "\<exists>resp w'. authServeHTTP s ab rq w = (Inr resp, w') \<and> authReach s w w'
    \<and> (w' = afterClock w \<or> (\<exists>c. actsAsUser s (aReadings w) rq c \<and> answersOnce s rq c (afterClock w) resp w'))"
proof -
  have tick: "authReach s w (afterClock w)"
    by (rule authReach.outside [OF authReach.start]) (simp add: afterClock_def)
  have served: ?thesis
    if run: "RequireBearerAccessJWT (asJwtLib s) (asJwt s) AuthPublicPaths (aReadings w) (authHandleRoute s ab rq)
      (hqPath rq) (hqAuthorization rq) Background = authHandleRoute s ab rq c" and act: "actsAsUser s (aReadings w) rq c" for c
  proof -
    obtain resp w' where h: "authErrorHandler rq (authHandleRoute s ab rq c) (afterClock w) = (Inr resp, w')"
      and ans: "answersOnce s rq c (afterClock w) resp w'" using route_answers by blast
    have "authServeHTTP s ab rq w = (Inr resp, w')" by (simp only: authServe_run run h)
    then show ?thesis using answers_reach [OF ans tick] act ans by blast
  qed
  show ?thesis
    using middleware_cases [of "asJwtLib s" "asJwt s" AuthPublicPaths "aReadings w" "authHandleRoute s ab rq"
      "hqPath rq" "hqAuthorization rq" Background]
  proof (elim disjE exE conjE)
    assume "RequireBearerAccessJWT (asJwtLib s) (asJwt s) AuthPublicPaths (aReadings w) (authHandleRoute s ab rq)
      (hqPath rq) (hqAuthorization rq) Background = throw (App ErrUnauthorized)"
    then have "authServeHTTP s ab rq w = (Inr (writeError rq (App ErrUnauthorized)), afterClock w)"
      by (simp add: authServe_run authErrorHandler_def throw_def)
    then show ?thesis using tick by blast
  next
    assume "hqPath rq \<in> set AuthPublicPaths"
      and "RequireBearerAccessJWT (asJwtLib s) (asJwt s) AuthPublicPaths (aReadings w) (authHandleRoute s ab rq)
      (hqPath rq) (hqAuthorization rq) Background = authHandleRoute s ab rq Background"
    then show ?thesis using served [of Background] by (simp add: actsAsUser_def)
  next
    fix tok cl assume "GetJWTFromEchoContext (hqAuthorization rq) = Inr tok"
      "ParseAccess (asJwtLib s) (asJwt s) (aReadings w) tok = Inr cl"
      and run: "RequireBearerAccessJWT (asJwtLib s) (asJwt s) AuthPublicPaths (aReadings w) (authHandleRoute s ab rq)
      (hqPath rq) (hqAuthorization rq) Background = authHandleRoute s ab rq (ContextWithClaims Background (Some cl))"
    then have "actsAsUser s (aReadings w) rq (ContextWithClaims Background (Some cl))" by (auto simp: actsAsUser_def)
    with run show ?thesis by (rule served)
  qed
qed

end
