(* ===== verification/Settings.thy ===== *)
theory Settings
  imports Auth_Api Alert_Laws
begin

text \<open>
  How the processes are put together: the settings of the inventory, authentication and notification
  services (src/services/*/config/config.go), the token services built from them, the background
  tasks that the worker process starts (src/workers/cmd/worker/main.go), the stream consumer of the
  notification service (src/services/notification/fx/consumer.go) and its three endpoints
  (src/services/notification/api). The environment is a function from names to values; viper reads a
  variable that is not set, or empty, as its default, and the conversions of its values to numbers and
  booleans are arguments. Waiting for signals, closing of connections and logging are left out.
\<close>

section \<open>Environment\<close>

type_synonym environ = "string \<Rightarrow> string"

definition GetString :: "environ \<Rightarrow> string \<Rightarrow> string \<Rightarrow> string" where
  "GetString env key dflt = (if env key = [] then dflt else env key)"

definition GetInt :: "(string \<Rightarrow> int) \<Rightarrow> environ \<Rightarrow> string \<Rightarrow> int \<Rightarrow> int" where
  "GetInt toInt env key dflt = (if env key = [] then dflt else toInt (env key))"

definition GetBool :: "(string \<Rightarrow> bool) \<Rightarrow> environ \<Rightarrow> string \<Rightarrow> bool \<Rightarrow> bool" where
  "GetBool toBool env key dflt = (if env key = [] then dflt else toBool (env key))"

section \<open>Settings of the services\<close>

record Config =
  cfAppEnv :: string
  cfAppPort :: string
  cfDBDSN :: string
  cfRedisAddr :: string
  cfJWTSecret :: string
  cfJWTAccessSecret :: string
  cfJWTRefreshSecret :: string
  cfJWTIssuer :: string
  cfJWTAudience :: string
  cfJWTAccessTTLSeconds :: int
  cfJWTRefreshTTLSeconds :: int

definition newConfig :: "(string \<Rightarrow> int) \<Rightarrow> environ \<Rightarrow> Config" where
  "newConfig toInt v =
    \<lparr>cfAppEnv = GetString v ''APP_ENV'' ''development'',
     cfAppPort = GetString v ''APP_PORT'' ''8080'',
     cfDBDSN = GetString v ''DB_DSN'' [],
     cfRedisAddr = GetString v ''REDIS_ADDR'' [],
     cfJWTSecret = GetString v ''JWT_SECRET'' ''change-me-in-production'',
     cfJWTAccessSecret = GetString v ''JWT_ACCESS_SECRET'' [],
     cfJWTRefreshSecret = GetString v ''JWT_REFRESH_SECRET'' [],
     cfJWTIssuer = GetString v ''JWT_ISSUER'' [],
     cfJWTAudience = GetString v ''JWT_AUDIENCE'' [],
     cfJWTAccessTTLSeconds = GetInt toInt v ''JWT_ACCESS_TTL_SECONDS'' 86400,
     cfJWTRefreshTTLSeconds = GetInt toInt v ''JWT_REFRESH_TTL_SECONDS'' 604800\<rparr>"

definition newAuthConfig :: "(string \<Rightarrow> int) \<Rightarrow> environ \<Rightarrow> Config" where
  "newAuthConfig toInt v =
    \<lparr>cfAppEnv = GetString v ''APP_ENV'' ''development'',
     cfAppPort = GetString v ''APP_PORT'' ''8082'',
     cfDBDSN = GetString v ''DB_DSN'' [],
     cfRedisAddr = GetString v ''REDIS_ADDR'' [],
     cfJWTSecret = GetString v ''JWT_SECRET'' ''change-me-in-production'',
     cfJWTAccessSecret = GetString v ''JWT_ACCESS_SECRET'' [],
     cfJWTRefreshSecret = GetString v ''JWT_REFRESH_SECRET'' [],
     cfJWTIssuer = GetString v ''JWT_ISSUER'' [],
     cfJWTAudience = GetString v ''JWT_AUDIENCE'' [],
     cfJWTAccessTTLSeconds = GetInt toInt v ''JWT_ACCESS_TTL_SECONDS'' 86400,
     cfJWTRefreshTTLSeconds = GetInt toInt v ''JWT_REFRESH_TTL_SECONDS'' 604800\<rparr>"

text \<open>time.Duration(n) * time.Second, an int64 of nanoseconds, in the microseconds of the model
  (rounded down).\<close>

definition seconds :: "int \<Rightarrow> int" where
  "seconds n = wrap64 (n * 1000000000) div 1000"

definition NewJWTService :: "Config \<Rightarrow> err + JWTService" where
  "NewJWTService cfg = NewServiceFromSharedOrSplit (cfJWTSecret cfg) (cfJWTAccessSecret cfg)
     (cfJWTRefreshSecret cfg) (seconds (cfJWTAccessTTLSeconds cfg)) (seconds (cfJWTRefreshTTLSeconds cfg))
     (cfJWTIssuer cfg) (cfJWTAudience cfg)"

text \<open>The providers of the authentication service: its token service, and the service itself.\<close>

definition newAuthenticationService :: "JWTLib \<Rightarrow> BcryptLib \<Rightarrow> Config \<Rightarrow> err + AuthenticationService" where
  "newAuthenticationService jl bc cfg =
    (case NewServiceFromSharedOrSplit (cfJWTSecret cfg) (cfJWTAccessSecret cfg)
        (cfJWTRefreshSecret cfg) (seconds (cfJWTAccessTTLSeconds cfg)) (seconds (cfJWTRefreshTTLSeconds cfg))
        (cfJWTIssuer cfg) (cfJWTAudience cfg) of
       Inl e \<Rightarrow> Inl e
     | Inr jwtSvc \<Rightarrow> Inr \<lparr>asJwt = jwtSvc, asJwtLib = jl, asBcrypt = bc,
         asAccessTTLSeconds = cfJWTAccessTTLSeconds cfg\<rparr>)"

record NotifConfig =
  ncAppEnv :: string
  ncAppPort :: string
  ncDBDSN :: string
  ncRedisAddr :: string
  ncEventBusHMACSecret :: string
  ncNotifConsumerName :: string
  ncNotifStreamConsumerEnabled :: bool
  ncNotificationWebhookURL :: string

definition newNotifConfig :: "(string \<Rightarrow> bool) \<Rightarrow> environ \<Rightarrow> NotifConfig" where
  "newNotifConfig toBool v =
    \<lparr>ncAppEnv = GetString v ''APP_ENV'' ''development'',
     ncAppPort = GetString v ''APP_PORT'' ''8081'',
     ncDBDSN = GetString v ''DB_DSN'' [],
     ncRedisAddr = GetString v ''REDIS_ADDR'' [],
     ncEventBusHMACSecret = GetString v ''EVENTBUS_HMAC_SECRET'' [],
     ncNotifConsumerName = GetString v ''NOTIF_CONSUMER_NAME'' ''notification-1'',
     ncNotifStreamConsumerEnabled = GetBool toBool v ''NOTIF_STREAM_CONSUMER_ENABLED'' True,
     ncNotificationWebhookURL = GetString v ''NOTIFICATION_WEBHOOK_URL'' []\<rparr>"

definition StreamConsumerConfigured :: "NotifConfig option \<Rightarrow> bool" where
  "StreamConsumerConfigured co = (case co of
     None \<Rightarrow> False
   | Some c \<Rightarrow> ncNotifStreamConsumerEnabled c \<and> ncRedisAddr c \<noteq> [] \<and> ncEventBusHMACSecret c \<noteq> [])"

section \<open>Background tasks\<close>

text \<open>eventbus.New: a client is made without connecting.\<close>

definition newBus :: "string \<Rightarrow> err + unit" where
  "newBus redisAddr = (if redisAddr = [] then Inl (Raw ''eventbus: redis address is required'') else Inr ())"

datatype task =
    RelayTask Runner
  | AlertTask string AlertConfig

text \<open>What a task does until its context is cancelled after a number of rounds; handler is the handler
  of its events. Its error is only logged.\<close>

definition runTask :: "(string \<Rightarrow> string \<Rightarrow> string) \<Rightarrow> (jval \<Rightarrow> string) \<Rightarrow> (int \<Rightarrow> int) \<Rightarrow>
    (nat \<Rightarrow> int \<Rightarrow> bool) \<Rightarrow> (int \<Rightarrow> int) \<Rightarrow> (BaseEvent \<Rightarrow> unit app) \<Rightarrow> task \<Rightarrow> nat \<Rightarrow> unit app" where
  "runTask hmac render zone locked rnd handler tk rounds = (case tk of
     RelayTask r \<Rightarrow> ignoreErr (relayRun hmac render zone locked rnd r rounds)
   | AlertTask secret cfg \<Rightarrow> ignoreErr (alertRun hmac secret (Some handler) cfg rounds))"

text \<open>The tasks of the worker process, or the message it exits with. dbOpen is the error of opening the
  database and reaching it.\<close>

definition relayTask :: "(string \<Rightarrow> int) \<Rightarrow> (string \<Rightarrow> string option) \<Rightarrow> environ \<Rightarrow> string + task" where
  "relayTask toInt dbOpen env =
    (let eventSecret = GetString env ''EVENTBUS_HMAC_SECRET'' []; dsn = GetString env ''DB_DSN'' [] in
     if eventSecret = [] then Inl ''EVENTBUS_HMAC_SECRET is required for outbox relay''
     else if dsn = [] then Inl ''DB_DSN is required for outbox relay''
     else (case dbOpen dsn of
         Some msg \<Rightarrow> Inl msg
       | None \<Rightarrow>
         let pollMs0 = GetInt toInt env ''OUTBOX_RELAY_POLL_MS'' 500;
             pollMs = (if pollMs0 \<le> 0 then 500 else pollMs0);
             batch0 = GetInt toInt env ''OUTBOX_RELAY_BATCH'' 100;
             batch = (if batch0 \<le> 0 then 100 else batch0)
         in Inr (RelayTask \<lparr>rnSecret = eventSecret, rnConfig =
              \<lparr>rcPollInterval = wrap64 (pollMs * 1000000), rcBatchSize = batch, rcMinBackoff = 0, rcMaxBackoff = 0\<rparr>\<rparr>)))"

definition alertTask :: "environ \<Rightarrow> string + task" where
  "alertTask env =
    (let eventSecret = GetString env ''EVENTBUS_HMAC_SECRET'' [] in
     if eventSecret = [] then Inl ''EVENTBUS_HMAC_SECRET is required for alert worker (HMAC verify)''
     else Inr (AlertTask eventSecret \<lparr>acConsumerName = GetString env ''ALERT_CONSUMER_NAME'' ''worker-alerts-1'',
       acGroup = GetString env ''ALERT_CONSUMER_GROUP'' DefaultAlertsGroup, acBlock = 0, acBatch = 0\<rparr>))"

fun allTasks :: "(string + task) list \<Rightarrow> string + task list" where
  "allTasks [] = Inr []"
| "allTasks (Inl msg # ts) = Inl msg"
| "allTasks (Inr t # ts) = (case allTasks ts of Inl msg \<Rightarrow> Inl msg | Inr us \<Rightarrow> Inr (t # us))"

definition workerMain :: "(string \<Rightarrow> int) \<Rightarrow> (string \<Rightarrow> string option) \<Rightarrow> environ \<Rightarrow> string option \<Rightarrow> string + task list" where
  "workerMain toInt dbOpen env modeFlag =
    (let mode = (case modeFlag of None \<Rightarrow> GetString env ''WORKER_MODE'' ''all'' | Some m \<Rightarrow> m);
         redisAddr = GetString env ''REDIS_ADDR'' []
     in if mode \<notin> {''all'', ''outbox-relay'', ''alerts''} then Inr []
        else if redisAddr = [] then Inl ''REDIS_ADDR is required for this worker mode''
        else (case newBus redisAddr of
            Inl e \<Rightarrow> Inl (''redis: '' @ errorText e)
          | Inr _ \<Rightarrow> allTasks
              ((if mode = ''all'' \<or> mode = ''outbox-relay'' then [relayTask toInt dbOpen env] else []) @
               (if mode = ''all'' \<or> mode = ''alerts'' then [alertTask env] else []))))"

definition RegisterStreamConsumer :: "NotifConfig \<Rightarrow> task option" where
  "RegisterStreamConsumer cfg =
    (if \<not> StreamConsumerConfigured (Some cfg) then None
     else (case newBus (ncRedisAddr cfg) of
         Inl e \<Rightarrow> None
       | Inr _ \<Rightarrow> Some (AlertTask (ncEventBusHMACSecret cfg)
           \<lparr>acConsumerName = ncNotifConsumerName cfg, acGroup = GroupFor ''notification'', acBlock = 0, acBatch = 0\<rparr>)))"

end
