(* ===== verification/Auth_Live.thy ===== *)
theory Auth_Live
  imports Auth_Safety
begin

text \<open>
  A login with the right password succeeds, and its access token names the user, as long as no
  statement fails: the converse of what Auth_Safety shows of logins.
\<close>

lemma GenerateAccess_claims:
  assumes "jwtLaws lib auth" "ciSubject inp \<noteq> []" "ciTenantID inp \<noteq> []" "plainInput s inp"
  obtains tok where "GenerateAccessToken lib s now inp = Inr tok"
    "auth (jsAccessSecret s) tok (issuedClaims lib s now inp TokenTypeAccess (jsAccessTTL s) [])"
  using GenerateAccessToken_ok [OF assms] by blast

lemma refresh_token_parses:
  assumes l: "jwtLaws lib auth" and i: "ciSubject inp \<noteq> []" "ciTenantID inp \<noteq> []" "plainInput s inp"
    and j: "plainText jti" "jti \<noteq> []"
    and t: "\<And>i. i < 4 \<Longrightarrow> now \<le> clock i \<and> clock i < jlNumericDate lib (now + jsRefreshTTL s)"
  obtains tok where "GenerateRefreshToken lib s now (Inr jti) inp = Inr tok"
    "ParseRefresh lib s clock tok = Inr (issuedClaims lib s now inp TokenTypeRefresh (jsRefreshTTL s) jti)"
proof -
  obtain tok where tok: "GenerateRefreshToken lib s now (Inr jti) inp = Inr tok"
    "auth (jsRefreshSecret s) tok (issuedClaims lib s now inp TokenTypeRefresh (jsRefreshTTL s) jti)"
    using GenerateRefreshToken_ok [OF l i j(1)] by blast
  have "parseToken lib s clock tok = Inr (issuedClaims lib s now inp TokenTypeRefresh (jsRefreshTTL s) jti)"
    by (rule parseToken_ok [OF l tok(2) issued_acceptable [OF i(1,2)]])
      (use t j in \<open>auto intro: issued_times [OF l]\<close>)
  then have "ParseRefresh lib s clock tok = Inr (issuedClaims lib s now inp TokenTypeRefresh (jsRefreshTTL s) jti)"
    by (simp add: ParseRefresh_def issuedClaims_def)
  with tok(1) show thesis by (rule that)
qed

text \<open>The world of a login: no statement fails, the identifier it draws is new and of plain text, and
  the token service does not let the refresh token expire while it is read back.\<close>

definition loginReady :: "AuthenticationService \<Rightarrow> aworld \<Rightarrow> bool" where
  "loginReady s w \<longleftrightarrow> (\<forall>i. aafault w i = None)
     \<and> plainText (aauuid w (aafresh w)) \<and> aauuid w (aafresh w) \<noteq> []
     \<and> aauuid w (aafresh w) \<notin> rsJti ` set (adSessions (aadb w))
     \<and> plainText (jsIssuer (asJwt s)) \<and> plainText (jsAudience (asJwt s))
     \<and> (\<forall>i < 4. aatime w (aatick w + 1) \<le> aatime w (aatick w + 2 + i)
          \<and> aatime w (aatick w + 2 + i) < jlNumericDate (asJwtLib s) (aatime w (aatick w + 1) + jsRefreshTTL (asJwt s)))"

text \<open>A stored user: identifiers and role of plain text, its tenant exists.\<close>

definition userOK :: "authdb \<Rightarrow> authUserRow \<Rightarrow> bool" where
  "userOK d u \<longleftrightarrow> auID u \<noteq> [] \<and> auTenantID u \<noteq> [] \<and> plainText (auID u) \<and> plainText (auTenantID u)
     \<and> plainText (auRole u) \<and> auTenantID u \<in> trID ` set (adTenants d)"

lemma permissions_plain: "list_all plainText (PermissionsForRole r)"
proof -
  have "list_all plainText allTenantPermissions" "plainText PermProductRead" "plainText PermProductWrite"
    "plainText PermMovementWrite" "plainText PermMovementConfirm" "plainText PermReportRead" by code_simp+
  then show ?thesis by (simp add: PermissionsForRole_def Let_def)
qed

lemma issueTokens_ok:
  assumes l: "jwtLaws (asJwtLib s) auth" and r: "loginReady s w"
    and u: "u \<in> set (adUsers (aadb w))" "userOK (aadb w) u"
  shows "\<exists>lr w'. issueTokens s msg u w = (Inr lr, w')"
proof -
  let ?ci = "userClaims u" and ?j = "aauuid w (aafresh w)" and ?S = "asJwt s" and ?L = "asJwtLib s"
  have ids: "ciSubject ?ci \<noteq> []" "ciTenantID ?ci \<noteq> []" using u(2) by (simp_all add: userClaims_def userOK_def)
  have pl: "plainInput ?S ?ci"
    using u(2) r permissions_plain by (simp add: plainInput_def userClaims_def userOK_def loginReady_def)
  obtain a where a: "GenerateAccessToken ?L ?S (aatime w (aatick w)) ?ci = Inr a"
    by (rule GenerateAccess_claims [OF l ids pl])
  define clock where "clock = (\<lambda>i. aatime w (aatick w + 2 + i))"
  let ?n2 = "aatime w (aatick w + 1)"
  have t: "?n2 \<le> clock i \<and> clock i < jlNumericDate ?L (?n2 + jsRefreshTTL ?S)" if "i < 4" for i
    using r that by (simp add: loginReady_def clock_def)
  have j: "plainText ?j" "?j \<noteq> []" using r by (simp_all add: loginReady_def)
  obtain f where f: "GenerateRefreshToken ?L ?S ?n2 (Inr ?j) ?ci = Inr f"
    "ParseRefresh ?L ?S clock f = Inr (issuedClaims ?L ?S ?n2 ?ci TokenTypeRefresh (jsRefreshTTL ?S) ?j)"
    by (rule refresh_token_parses [OF l ids pl j t])
  have nf: "aafault w i = None" for i using r by (simp add: loginReady_def)
  let ?row = "\<lparr>rsUserID = auID u, rsTenantID = auTenantID u, rsJti = ?j,
      rsExpiresAt = jlNumericDate ?L (?n2 + jsRefreshTTL ?S), rsRevokedAt = None\<rparr>"
  have ins: "insertSession ?row (aadb w) = Inr ((), (aadb w)\<lparr>adSessions := adSessions (aadb w) @ [?row]\<rparr>)"
    using r u by (auto simp: insertSession_def list_ex_iff loginReady_def userOK_def image_iff)
  have c2: "(\<lambda>i. aatime w (Suc (Suc (aatick w + i)))) = clock" by (simp add: clock_def)
  show ?thesis
    using a f j(2) ins nf
    by (simp add: issueTokens_def Let_def userClaims_def [symmetric] bindM_def aNow_def aUUID_def aClock_def
        liftE_def tryM_def InsertRefreshSession_def aStmt_def issuedClaims_def ret_def c2)
qed

lemma Login_ok:
  assumes "jwtLaws (asJwtLib s) auth" "loginReady s w"
    and "TrimSpace (lgEmail inp) \<noteq> []" "TrimSpace (lgPassword inp) \<noteq> []"
    and "\<exists>u \<in> set (adUsers (aadb w)). ToLower (auEmail u) = ToLower (TrimSpace (lgEmail inp))"
    and "\<forall>u \<in> set (adUsers (aadb w)). ToLower (auEmail u) = ToLower (TrimSpace (lgEmail inp)) \<longrightarrow>
      userOK (aadb w) u \<and> bcCompare (asBcrypt s) (auPasswordHash u) (lgPassword inp) = None"
  shows "\<exists>lr w'. Login s inp w = (Inr lr, w')"
proof -
  let ?e = "TrimSpace (ToLower (lgEmail inp))"
  let ?rows = "filter (\<lambda>u. ToLower (auEmail u) = ToLower (TrimSpace ?e)) (adUsers (aadb w))"
  have e: "ToLower (TrimSpace ?e) = ToLower (TrimSpace (lgEmail inp))"
    by (simp add: TrimSpace_ToLower)
  have "?rows \<noteq> []" using assms(5) unfolding e by (auto simp: filter_empty_conv)
  then have "limitOne (aapick w (aastmt w)) ?rows = Some (?rows ! (aapick w (aastmt w) mod length ?rows))"
    "?rows ! (aapick w (aastmt w) mod length ?rows) \<in> set ?rows"
    by (simp add: limitOne_def, intro nth_mem) simp
  then obtain u where u: "limitOne (aapick w (aastmt w)) ?rows = Some u" "u \<in> set ?rows" by blast
  then have ok: "u \<in> set (adUsers (aadb w))" "userOK (aadb w) u"
    "bcCompare (asBcrypt s) (auPasswordHash u) (lgPassword inp) = None" using assms(6) unfolding e by auto
  let ?w1 = "w\<lparr>aastmt := Suc (aastmt w)\<rparr>"
  have f: "FindUserCredentialByEmail ?e w = (Inr u, ?w1)"
    using u(1) ok(2) assms(2)
    by (simp add: FindUserCredentialByEmail_def bindM_def aQuery_def aStmt_def scanUser_def ret_def userOK_def loginReady_def)
  have r1: "loginReady s ?w1" using assms(2) by (simp add: loginReady_def)
  obtain lr w' where "issueTokens s ''login: persist refresh session: '' u ?w1 = (Inr lr, w')"
    using issueTokens_ok [OF assms(1) r1, of u "''login: persist refresh session: ''"] ok by auto
  moreover have "?e \<noteq> []" using assms(3) unfolding TrimSpace_ToLower by (simp add: ToLower_def)
  ultimately show ?thesis using f ok(3) assms(4)
    by (auto simp: Login_def Let_def bindM_def tryM_def)
qed

lemma sample_loginReady: "loginReady sampleAuthService sampleAuthWorld"
proof -
  have "plainText (CHR ''j'' # natDigits 0)" by code_simp
  then show ?thesis
    by (simp add: loginReady_def sampleAuthService_def sampleAuthWorld_def spellLib_def plainText_def)
qed

end
