(* ===== verification/Settings_Laws.thy ===== *)
theory Settings_Laws
  imports Settings Auth_Live
begin

text \<open>
  What the settings give: the inventory service accepts the tokens of the authentication service that
  runs on the same environment, a half-set pair of secrets falls back to a published one, and the
  tasks a process starts carry the secret of the environment.
\<close>

section \<open>The token services\<close>

lemma configs_agree:
  "NewJWTService (newAuthConfig toInt env) = NewJWTService (newConfig toInt env)"
  by (simp add: NewJWTService_def newAuthConfig_def newConfig_def)

lemma NewService_fields:
  assumes "NewServiceFromSharedOrSplit sec a r ttl rttl iss aud = Inr js"
  shows "jsIssuer js = iss" "jsAudience js = aud" "jsAccessTTL js = ttl"
    "a = [] \<or> r = [] \<Longrightarrow> jsAccessSecret js = sec \<and> jsRefreshSecret js = sec"
  using assms by (auto simp: NewServiceFromSharedOrSplit_def NewServiceOptions_def Let_def split: if_splits)

lemma NewService_shared:
  assumes "a = [] \<or> r = []" "sec \<noteq> []" "0 < ttl" "0 < rttl"
  shows "\<exists>js. NewServiceFromSharedOrSplit sec a r ttl rttl iss aud = Inr js"
  using assms by (auto simp: NewServiceFromSharedOrSplit_def NewServiceOptions_def Let_def)

lemma authService_jwt:
  assumes "newAuthenticationService jl bc (newAuthConfig toInt env) = Inr s"
  shows "NewJWTService (newConfig toInt env) = Inr (asJwt s)" "asJwtLib s = jl"
proof -
  have "NewJWTService (newAuthConfig toInt env) = Inr (asJwt s) \<and> asJwtLib s = jl"
    using assms by (auto simp: newAuthenticationService_def NewJWTService_def split: sum.splits)
  then show "NewJWTService (newConfig toInt env) = Inr (asJwt s)" "asJwtLib s = jl" using configs_agree by simp_all
qed

lemma JWTService_fields:
  assumes "NewJWTService (newConfig toInt env) = Inr js"
  shows "jsIssuer js = GetString env ''JWT_ISSUER'' []" "jsAudience js = GetString env ''JWT_AUDIENCE'' []"
    "jsAccessTTL js = seconds (GetInt toInt env ''JWT_ACCESS_TTL_SECONDS'' 86400)"
  using assms [unfolded NewJWTService_def newConfig_def Config.simps] by (simp_all add: NewService_fields)

section \<open>A login opens the inventory\<close>

lemma FindEmail_clock: "snd (FindUserCredentialByEmail e w) = w' \<Longrightarrow> aatick w' = aatick w \<and> aatime w' = aatime w"
  by (auto simp: FindUserCredentialByEmail_def bindM_def aQuery_def aStmt_def scanUser_def ret_def throw_def Let_def
      split: prod.splits sum.splits option.splits if_splits)

lemma issueTokens_access:
  assumes "issueTokens s msg u w = (Inr lr, w')"
  shows "GenerateAccessToken (asJwtLib s) (asJwt s) (aatime w (aatick w)) (userClaims u) = Inr (lrAccessToken lr)"
  using assms unfolding issueTokens_def Let_def userClaims_def [symmetric]
  by (elim bindM_InrE) (auto simp: aNow_def liftE_def ret_def throw_def split: sum.splits option.splits if_splits elim!: bindM_InrE)

lemma Login_access:
  assumes "Login s inp w = (Inr lr, w')"
  shows "\<exists>u \<in> set (adUsers (aadb w)). ToLower (auEmail u) = ToLower (TrimSpace (lgEmail inp))
    \<and> GenerateAccessToken (asJwtLib s) (asJwt s) (aatime w (aatick w)) (userClaims u) = Inr (lrAccessToken lr)"
proof -
  from assms obtain u w1 where f: "FindUserCredentialByEmail (TrimSpace (ToLower (lgEmail inp))) w = (Inr u, w1)"
    and i: "issueTokens s ''login: persist refresh session: '' u w1 = (Inr lr, w')"
    unfolding Login_def Let_def
    by (auto simp: tryM_Inr_Inr split: if_splits sum.splits elim!: bindM_InrE)
  have "u \<in> set (adUsers (aadb w))" "ToLower (auEmail u) = ToLower (TrimSpace (lgEmail inp))"
    using FindEmail_Inr [OF f] by (simp_all add: TrimSpace_ToLower)
  moreover have "aatick w1 = aatick w \<and> aatime w1 = aatime w"
    using FindEmail_clock [of "TrimSpace (ToLower (lgEmail inp))" w w1] f by simp
  ultimately show ?thesis using issueTokens_access [OF i] by auto
qed

text \<open>The claims of a user in an access token issued at a time.\<close>

definition loginClaims :: "AuthenticationService \<Rightarrow> int \<Rightarrow> authUserRow \<Rightarrow> Claims" where
  "loginClaims s now u = issuedClaims (asJwtLib s) (asJwt s) now (userClaims u) TokenTypeAccess (jsAccessTTL (asJwt s)) []"

lemma login_token_parses:
  assumes l: "jwtLaws (asJwtLib s) auth"
    and g: "GenerateAccessToken (asJwtLib s) (asJwt s) now (userClaims u) = Inr tok"
    and p: "userOK d u" "loginReady s w"
    and t: "\<forall>i < 4. now \<le> clock i \<and> clock i < jlNumericDate (asJwtLib s) (now + jsAccessTTL (asJwt s))"
  shows "ParseAccess (asJwtLib s) (asJwt s) clock tok = Inr (loginClaims s now u)"
proof -
  have ids: "ciSubject (userClaims u) \<noteq> []" "ciTenantID (userClaims u) \<noteq> []"
    using g by (auto simp: GenerateAccessToken_def generateToken_def split: if_splits)
  have "plainInput (asJwt s) (userClaims u)"
    using p permissions_plain by (simp add: plainInput_def userOK_def loginReady_def userClaims_def)
  from GenerateAccessToken_ok [OF l ids this, of now] g
  have a: "auth (jsAccessSecret (asJwt s)) tok (loginClaims s now u)" by (simp add: loginClaims_def)
  have "parseToken (asJwtLib s) (asJwt s) clock tok = Inr (loginClaims s now u)"
    unfolding loginClaims_def
    by (rule parseToken_ok [OF l a [unfolded loginClaims_def] issued_acceptable [OF ids]])
      (use t in \<open>auto intro: issued_times [OF l]\<close>)
  then show ?thesis by (simp add: ParseAccess_def loginClaims_def issuedClaims_def)
qed

text \<open>A token has no space around it and is not empty (compact serialization).\<close>

definition compactTokens :: "JWTLib \<Rightarrow> bool" where
  "compactTokens jl \<longleftrightarrow> (\<forall>k cl tok. jlSign jl k cl = Inr tok \<longrightarrow> tok \<noteq> [] \<and> TrimSpace tok = tok)"

lemma access_compact:
  assumes "compactTokens lib" "GenerateAccessToken lib s now inp = Inr tok"
  shows "tok \<noteq> []" "TrimSpace tok = tok"
  using assms by (auto simp: compactTokens_def GenerateAccessToken_def generateToken_def Let_def split: if_splits sum.splits)

text \<open>C37: A login opens the inventory. Let the two services read the same environment, and let every user
  with the address of the login have the given password. As long as no statement fails, Login
  succeeds, and the inventory service lets every request that carries the access token through to its
  route, from the moment of the login until the token expires, with the claims of a user who has the
  address: its identifier, its tenant, its role and the permissions of the role.\<close>

theorem login_opens_inventory:
  assumes "jwtLaws jl auth" "compactTokens jl"
    and "newAuthenticationService jl bc (newAuthConfig toInt env) = Inr s" "loginReady s w"
    and "TrimSpace (lgEmail inp) \<noteq> []" "TrimSpace (lgPassword inp) \<noteq> []"
    and "\<exists>u \<in> set (adUsers (aadb w)). ToLower (auEmail u) = ToLower (TrimSpace (lgEmail inp))"
    and "\<forall>u \<in> set (adUsers (aadb w)). ToLower (auEmail u) = ToLower (TrimSpace (lgEmail inp)) \<longrightarrow>
      userOK (aadb w) u \<and> bcCompare (asBcrypt s) (auPasswordHash u) (lgPassword inp) = None"
  shows "\<exists>lr w' js u cl. Login s inp w = (Inr lr, w') \<and> NewJWTService (newConfig toInt env) = Inr js
    \<and> u \<in> set (adUsers (aadb w)) \<and> ToLower (auEmail u) = ToLower (TrimSpace (lgEmail inp))
    \<and> clTenantID cl = auTenantID u \<and> rcSubject (clRegistered cl) = auID u
    \<and> clRole cl = auRole u \<and> clPermissions cl = PermissionsForRole (auRole u)
    \<and> (\<forall>rq v lib bl. hqAuthorization rq = BearerPrefix @ lrAccessToken lr \<longrightarrow> hqPath rq \<notin> set InventoryPublicPaths \<longrightarrow>
        (\<forall>i < 4. aatime w (aatick w) \<le> readings v i \<and> readings v i
          < jlNumericDate jl (aatime w (aatick w) + seconds (GetInt toInt env ''JWT_ACCESS_TTL_SECONDS'' 86400))) \<longrightarrow>
        ServeHTTP jl js lib bl rq v = httpErrorHandler rq
          (handleRoute lib bl rq (requestMeta rq (ContextWithClaims Background (Some cl)))) (afterToken v))"
proof -
  note jwt = authService_jwt [OF assms(3)]
  note js = jwt JWTService_fields [OF jwt(1)]
  let ?now = "aatime w (aatick w)"
  have l: "jwtLaws (asJwtLib s) auth" using assms(1) js(2) by simp
  obtain lr w' where lr: "Login s inp w = (Inr lr, w')" using Login_ok [OF l assms(4-8)] by blast
  obtain u where u: "u \<in> set (adUsers (aadb w))" "ToLower (auEmail u) = ToLower (TrimSpace (lgEmail inp))"
    and g: "GenerateAccessToken (asJwtLib s) (asJwt s) ?now (userClaims u) = Inr (lrAccessToken lr)"
    using Login_access [OF lr] by blast
  let ?cl = "loginClaims s ?now u"
  have ok: "userOK (aadb w) u" using assms(8) u by blast
  have "ServeHTTP jl (asJwt s) lib bl rq v = httpErrorHandler rq
        (handleRoute lib bl rq (requestMeta rq (ContextWithClaims Background (Some ?cl)))) (afterToken v)"
    if rq: "hqAuthorization rq = BearerPrefix @ lrAccessToken lr" "hqPath rq \<notin> set InventoryPublicPaths"
      and t: "\<forall>i < 4. ?now \<le> readings v i \<and> readings v i
          < jlNumericDate jl (?now + seconds (GetInt toInt env ''JWT_ACCESS_TTL_SECONDS'' 86400))" for rq v lib bl
  proof -
    have "ParseAccess jl (asJwt s) (readings v) (lrAccessToken lr) = Inr ?cl"
      using login_token_parses [OF l g ok assms(4), of "readings v"] t js by simp
    moreover have "GetJWTFromEchoContext (hqAuthorization rq) = Inr (lrAccessToken lr)"
      using rq(1) access_compact [OF assms(2) g [unfolded js(2)]] by (simp add: GetJWTFromEchoContext_def Let_def)
    ultimately show ?thesis
      using rq(2) by (simp add: ServeHTTP_run RequireBearerAccessJWT_def bindM_def liftE_def httpErrorHandler_def)
  qed
  moreover have "clTenantID ?cl = auTenantID u" "rcSubject (clRegistered ?cl) = auID u"
    "clRole ?cl = auRole u" "clPermissions ?cl = PermissionsForRole (auRole u)"
    by (simp_all add: loginClaims_def issuedClaims_def userClaims_def)
  ultimately show ?thesis using lr u js(1) by blast
qed

section \<open>Half a pair of secrets\<close>

text \<open>C38: Half a pair of secrets is none. If the environment sets no JWT_SECRET and at most one of
  JWT_ACCESS_SECRET and JWT_REFRESH_SECRET, the inventory service still gets a token service, and its
  key is the default of the source: whoever signs claims with this published text, for any tenant,
  user and role, gets a token that ParseAccess accepts with exactly these claims, as long as they are
  of type access, name the issuer and audience that are configured and are valid at the time.\<close>

theorem half_set_secret:
  assumes "jwtLaws jl auth" "env ''JWT_SECRET'' = []" "env ''JWT_ACCESS_SECRET'' = [] \<or> env ''JWT_REFRESH_SECRET'' = []"
    and "0 < seconds (GetInt toInt env ''JWT_ACCESS_TTL_SECONDS'' 86400)"
      "0 < seconds (GetInt toInt env ''JWT_REFRESH_TTL_SECONDS'' 604800)"
    and "plainClaims cl" "clTokenType cl = TokenTypeAccess" "rcSubject (clRegistered cl) \<noteq> []" "clTenantID cl \<noteq> []"
      "rcExpiresAt (clRegistered cl) \<noteq> None"
      "env ''JWT_ISSUER'' = [] \<or> rcIssuer (clRegistered cl) = env ''JWT_ISSUER''"
      "env ''JWT_AUDIENCE'' = [] \<or> env ''JWT_AUDIENCE'' \<in> set (rcAudience (clRegistered cl))"
    and "\<forall>i < 4. timesOK (clock i) (clRegistered cl)"
  shows "\<exists>js tok. NewJWTService (newConfig toInt env) = Inr js
    \<and> jlSign jl ''change-me-in-production'' cl = Inr tok \<and> ParseAccess jl js clock tok = Inr cl"
proof -
  have half: "GetString env ''JWT_ACCESS_SECRET'' [] = [] \<or> GetString env ''JWT_REFRESH_SECRET'' [] = []"
    and sec: "GetString env ''JWT_SECRET'' ''change-me-in-production'' = ''change-me-in-production''"
    using assms(2,3) unfolding GetString_def by metis+
  have nJ: "NewJWTService (newConfig toInt env) = NewServiceFromSharedOrSplit ''change-me-in-production''
      (GetString env ''JWT_ACCESS_SECRET'' []) (GetString env ''JWT_REFRESH_SECRET'' [])
      (seconds (GetInt toInt env ''JWT_ACCESS_TTL_SECONDS'' 86400)) (seconds (GetInt toInt env ''JWT_REFRESH_TTL_SECONDS'' 604800))
      (GetString env ''JWT_ISSUER'' []) (GetString env ''JWT_AUDIENCE'' [])"
    by (simp add: NewJWTService_def newConfig_def sec)
  obtain js where js: "NewJWTService (newConfig toInt env) = Inr js"
    unfolding nJ using NewService_shared [OF half _ assms(4,5)] by blast
  have key: "jsAccessSecret js = ''change-me-in-production''"
    using NewService_fields(4) [OF js [unfolded nJ] half] ..
  obtain tok where tok: "jlSign jl (jsAccessSecret js) cl = Inr tok" "auth (jsAccessSecret js) tok cl"
    using jwtLawsD(1) [OF assms(1,6)] by blast
  have "acceptable js cl"
    unfolding acceptable_def validateIssuerAudience_def JWTService_fields [OF js] GetString_def list_ex_iff
    using assms(7-12) by metis
  from parseToken_ok [OF assms(1) tok(2) this] assms(13)
  have "parseToken jl js clock tok = Inr cl" by simp
  then have "ParseAccess jl js clock tok = Inr cl" using assms(7) by (simp add: ParseAccess_def)
  then show ?thesis using js tok(1) key by auto
qed

section \<open>Samples\<close>

lemma spell_compact: "compactTokens (spellLib prec)"
proof -
  have e: "spellToken k cl \<noteq> [] \<and> \<not> isSpace (hd (spellToken k cl)) \<and> \<not> isSpace (last (spellToken k cl))" for k cl
    using last_encField by (cases k) (simp_all add: spellToken_def encFields_def Let_def isSpace_def)
  show ?thesis using e by (auto simp: compactTokens_def spellLib_def intro!: trim_edges)
qed

definition sampleEnv :: environ where
  "sampleEnv k = (if k = ''JWT_SECRET'' then ''k'' else [])"

lemma sampleEnv_vars:
  "sampleEnv ''JWT_SECRET'' = ''k''" "sampleEnv ''JWT_ACCESS_SECRET'' = []" "sampleEnv ''JWT_REFRESH_SECRET'' = []"
  "sampleEnv ''JWT_ISSUER'' = []" "sampleEnv ''JWT_AUDIENCE'' = []" "sampleEnv ''JWT_ACCESS_TTL_SECONDS'' = []"
  "sampleEnv ''JWT_REFRESH_TTL_SECONDS'' = []"
  by (simp_all add: sampleEnv_def)

lemma seconds_small: "seconds 86400 = 86400000000" "seconds 604800 = 604800000000"
  by (simp_all add: seconds_def wrap64_def)

definition sampleLoginService :: AuthenticationService where
  "sampleLoginService = sampleAuthService\<lparr>asJwt := \<lparr>jsAccessSecret = ''k'', jsRefreshSecret = ''k'',
     jsAccessTTL = 86400000000, jsRefreshTTL = 604800000000, jsIssuer = [], jsAudience = []\<rparr>,
     asAccessTTLSeconds := 86400\<rparr>"

lemma sample_login_service:
  "newAuthenticationService (spellLib 1) (asBcrypt sampleAuthService) (newAuthConfig (\<lambda>_. 0) sampleEnv) = Inr sampleLoginService"
  "loginReady sampleLoginService sampleAuthWorld"
proof -
  show "newAuthenticationService (spellLib 1) (asBcrypt sampleAuthService) (newAuthConfig (\<lambda>_. 0) sampleEnv) = Inr sampleLoginService"
    by (simp add: newAuthenticationService_def newAuthConfig_def GetString_def GetInt_def sampleEnv_vars seconds_small
        NewServiceFromSharedOrSplit_def NewServiceOptions_def sampleLoginService_def sampleAuthService_def Let_def)
  show "loginReady sampleLoginService sampleAuthWorld"
    using sample_loginReady
    by (auto simp: loginReady_def sampleLoginService_def sampleAuthService_def sampleAuthWorld_def spellLib_def)
qed

lemma sample_user:
  "\<exists>u \<in> set (adUsers (aadb sampleAuthWorld)). ToLower (auEmail u) = ToLower (TrimSpace ''ann@acme.io'')"
  "\<forall>u \<in> set (adUsers (aadb sampleAuthWorld)). userOK (aadb sampleAuthWorld) u
     \<and> bcCompare (asBcrypt sampleLoginService) (auPasswordHash u) ''secret-1'' = None"
proof -
  have "TrimSpace ''ann@acme.io'' = ''ann@acme.io''" "plainText ''u1''" "plainText ''t1''" "plainText ''v''" by code_simp+
  then show "\<exists>u \<in> set (adUsers (aadb sampleAuthWorld)). ToLower (auEmail u) = ToLower (TrimSpace ''ann@acme.io'')"
    "\<forall>u \<in> set (adUsers (aadb sampleAuthWorld)). userOK (aadb sampleAuthWorld) u
     \<and> bcCompare (asBcrypt sampleLoginService) (auPasswordHash u) ''secret-1'' = None"
    by (simp_all add: sampleAuthWorld_def userOK_def sampleLoginService_def sampleAuthService_def)
qed

theorem login_opens_inventory_witness:
  "\<exists>lr w' js cl. Login sampleLoginService \<lparr>lgEmail = ''ann@acme.io'', lgPassword = ''secret-1''\<rparr> sampleAuthWorld = (Inr lr, w')
    \<and> clTenantID cl = ''t1'' \<and> rcSubject (clRegistered cl) = ''u1''
    \<and> ServeHTTP (spellLib 1) js sampleApi sampleBind (confirmReq (BearerPrefix @ lrAccessToken lr)) (sampleWorld\<lparr>wtick := 1\<rparr>)
      = httpErrorHandler (confirmReq (BearerPrefix @ lrAccessToken lr))
          (handleRoute sampleApi sampleBind (confirmReq (BearerPrefix @ lrAccessToken lr))
            (requestMeta (confirmReq (BearerPrefix @ lrAccessToken lr)) (ContextWithClaims Background (Some cl))))
          (afterToken (sampleWorld\<lparr>wtick := 1\<rparr>))"
proof -
  let ?inp = "\<lparr>lgEmail = ''ann@acme.io'', lgPassword = ''secret-1''\<rparr>" and ?v = "sampleWorld\<lparr>wtick := 1\<rparr>"
  have t: "TrimSpace (lgEmail ?inp) \<noteq> []" "TrimSpace (lgPassword ?inp) \<noteq> []" by code_simp+
  have time: "\<forall>i < 4. aatime sampleAuthWorld (aatick sampleAuthWorld) \<le> readings ?v i \<and> readings ?v i
      < jlNumericDate (spellLib 1) (aatime sampleAuthWorld (aatick sampleAuthWorld)
          + seconds (GetInt (\<lambda>_. 0) sampleEnv ''JWT_ACCESS_TTL_SECONDS'' 86400))"
    by (simp add: GetInt_def sampleEnv_vars seconds_small spellLib_def readings_def sampleAuthWorld_def
        sampleWorld_def sampleWorldOf_def)
  have one: "u \<in> set (adUsers (aadb sampleAuthWorld)) \<Longrightarrow> auTenantID u = ''t1'' \<and> auID u = ''u1''" for u
    by (simp add: sampleAuthWorld_def)
  have p: "hqAuthorization (confirmReq a) = a" "hqPath (confirmReq a) \<notin> set InventoryPublicPaths" for a
    by (simp_all add: confirmReq_def sampleReq_def InventoryPublicPaths_def)
  have pos: "0 < (1 :: int)" by simp
  let ?e = "\<lambda>u. ToLower (auEmail u) = ToLower (TrimSpace (lgEmail ?inp))"
  have some: "\<exists>u \<in> set (adUsers (aadb sampleAuthWorld)). ?e u" using sample_user(1) by simp
  have all: "\<forall>u \<in> set (adUsers (aadb sampleAuthWorld)). ?e u \<longrightarrow> userOK (aadb sampleAuthWorld) u
      \<and> bcCompare (asBcrypt sampleLoginService) (auPasswordHash u) (lgPassword ?inp) = None" using sample_user(2) by simp
  obtain lr w' js u cl where
    r: "Login sampleLoginService ?inp sampleAuthWorld = (Inr lr, w')" "u \<in> set (adUsers (aadb sampleAuthWorld))"
      "clTenantID cl = auTenantID u" "rcSubject (clRegistered cl) = auID u"
    and serve: "hqAuthorization rq = BearerPrefix @ lrAccessToken lr \<Longrightarrow> hqPath rq \<notin> set InventoryPublicPaths \<Longrightarrow>
        \<forall>i < 4. aatime sampleAuthWorld (aatick sampleAuthWorld) \<le> readings v i \<and> readings v i
          < jlNumericDate (spellLib 1) (aatime sampleAuthWorld (aatick sampleAuthWorld)
            + seconds (GetInt (\<lambda>_. 0) sampleEnv ''JWT_ACCESS_TTL_SECONDS'' 86400)) \<Longrightarrow>
        ServeHTTP (spellLib 1) js lib bl rq v = httpErrorHandler rq
          (handleRoute lib bl rq (requestMeta rq (ContextWithClaims Background (Some cl)))) (afterToken v)" for rq v lib bl
    using login_opens_inventory [OF spellLib_laws [of 1, OF pos] spell_compact sample_login_service t some all] by metis
  from serve [OF p(1) p(2) time] r one [OF r(2)] show ?thesis by metis
qed

theorem half_set_secret_witness:
  "\<exists>js tok. NewJWTService (newConfig (\<lambda>_. 0) (\<lambda>k. if k = ''JWT_ACCESS_SECRET'' then ''ka'' else [])) = Inr js
    \<and> ParseAccess (spellLib 1) js (\<lambda>_. 5) tok = Inr bearerClaims"
proof -
  let ?env = "\<lambda>k. if k = ''JWT_ACCESS_SECRET'' then ''ka'' else []"
  have pos: "0 < (1 :: int)" by simp
  have p: "plainClaims bearerClaims" by code_simp
  have ttl: "0 < seconds (GetInt (\<lambda>_. 0) ?env ''JWT_ACCESS_TTL_SECONDS'' 86400)"
    "0 < seconds (GetInt (\<lambda>_. 0) ?env ''JWT_REFRESH_TTL_SECONDS'' 604800)"
    by (simp_all add: GetInt_def seconds_small)
  from half_set_secret [OF spellLib_laws [of 1, OF pos] _ _ ttl p, where clock = "\<lambda>_. 5"]
  show ?thesis by (auto simp: bearerClaims_def timesOK_def)
qed

end
