(* ===== verification/Locks.thy ===== *)
theory Locks
  imports Sample
begin

text \<open>
  The row locks of concurrent confirmations (src/services/inventory/domains/stock/repository and
  domains/movement/usecase/stock_apply.go). The world of the other theories runs one request at a time;
  here several transactions take the locks of their balance rows step by step, each in the order in
  which applyStock asks for them, and keep them until they end. A transaction waits for a row that
  another one holds; a state in which nobody can go on is a deadlock.
\<close>

section \<open>The locks of a movement\<close>

text \<open>The keys in the order in which SELECT FOR UPDATE (or the INSERT before it) asks for them.\<close>

definition getLocks :: "string \<Rightarrow> string \<Rightarrow> string \<Rightarrow> skey list" where
  "getLocks t wh p = [trimKey t wh p]"

definition transferDeltaLocks :: "string \<Rightarrow> string \<Rightarrow> string \<Rightarrow> string \<Rightarrow> int \<Rightarrow> skey list" where
  "transferDeltaLocks t srcWarehouseID dstWarehouseID productID qty =
    (let srcWH = TrimSpace srcWarehouseID; dstWH = TrimSpace dstWarehouseID in
     if qty \<le> 0 \<or> srcWH = dstWH then []
     else
       let kSrc = \<lparr>wpkWarehouseID = srcWH, wpkProductID = TrimSpace productID\<rparr>;
           kDst = \<lparr>wpkWarehouseID = dstWH, wpkProductID = wpkProductID kSrc\<rparr>;
           (first, second) = OrderedWarehouseProduct kSrc kDst
       in getLocks t (wpkWarehouseID first) (wpkProductID first)
          @ getLocks t (wpkWarehouseID second) (wpkProductID second))"

text \<open>One line: the row is ensured or read, then changed; a transfer ensures the destination, moves
  and reads both rows again.\<close>

definition changeLocks :: "string \<Rightarrow> string \<Rightarrow> MovementLine \<Rightarrow> skey list" where
  "changeLocks t wh l = getLocks t wh (mlProductID l) @ getLocks t wh (mlProductID l)"

definition transferLocks :: "string \<Rightarrow> string \<Rightarrow> string \<Rightarrow> MovementLine \<Rightarrow> skey list" where
  "transferLocks t src dst l =
    (let p = mlProductID l
     in getLocks t dst p @ transferDeltaLocks t src dst p (mlQuantity l) @ getLocks t src p @ getLocks t dst p)"

definition movementLocks :: "string \<Rightarrow> Movement \<Rightarrow> skey list" where
  "movementLocks t mv =
    (let src = the (mvSourceWarehouseID mv); dst = the (mvDestinationWarehouseID mv)
     in concat (map (\<lambda>l.
          if mvType mv = TypeInbound then changeLocks t dst l
          else if mvType mv = TypeOutbound then changeLocks t src l
          else if mvType mv = TypeTransfer then transferLocks t src dst l
          else if mvDestinationWarehouseID mv \<noteq> None \<and> mvSourceWarehouseID mv = None then changeLocks t dst l
          else changeLocks t src l) (mvLines mv)))"

section \<open>Transactions that wait\<close>

record lockTx =
  txHeld :: "skey list"
  txNext :: "skey list"

text \<open>A transaction takes the next lock if no other holds it, and releases all at its end.\<close>

definition freeFor :: "lockTx list \<Rightarrow> nat \<Rightarrow> skey \<Rightarrow> bool" where
  "freeFor st i k \<longleftrightarrow> list_all (\<lambda>j. j = i \<or> k \<notin> set (txHeld (st ! j))) [0..<length st]"

inductive lockStep :: "lockTx list \<Rightarrow> lockTx list \<Rightarrow> bool" where
  acquire: "i < length st \<Longrightarrow> txNext (st ! i) = k # ks \<Longrightarrow> freeFor st i k \<Longrightarrow>
    lockStep st (st[i := \<lparr>txHeld = k # txHeld (st ! i), txNext = ks\<rparr>])"
| finish: "i < length st \<Longrightarrow> txNext (st ! i) = [] \<Longrightarrow> txHeld (st ! i) \<noteq> [] \<Longrightarrow>
    lockStep st (st[i := \<lparr>txHeld = [], txNext = []\<rparr>])"

inductive_simps lockStep_simps: "lockStep st st'"

definition beginTx :: "skey list list \<Rightarrow> lockTx list" where
  "beginTx ks = map (\<lambda>k. \<lparr>txHeld = [], txNext = k\<rparr>) ks"

inductive lockReach :: "lockTx list \<Rightarrow> lockTx list \<Rightarrow> bool" for s0 where
  here: "lockReach s0 s0"
| more: "lockReach s0 s \<Longrightarrow> lockStep s s' \<Longrightarrow> lockReach s0 s'"

definition finished :: "lockTx list \<Rightarrow> bool" where
  "finished st \<longleftrightarrow> list_all (\<lambda>x. txNext x = [] \<and> txHeld x = []) st"

definition deadlocked :: "lockTx list \<Rightarrow> bool" where
  "deadlocked st \<longleftrightarrow> \<not> finished st \<and> (\<forall>st'. \<not> lockStep st st')"

section \<open>Ascending requests never deadlock\<close>

text \<open>The requests that are not for rows held already.\<close>

fun fresh :: "skey list \<Rightarrow> skey list \<Rightarrow> skey list" where
  "fresh held [] = []"
| "fresh held (k # ks) = (if k \<in> set held then fresh held ks else k # fresh (k # held) ks)"

definition ascending :: "skey list \<Rightarrow> bool" where
  "ascending ks \<longleftrightarrow> sorted (fresh [] ks)"

definition climbs :: "lockTx \<Rightarrow> bool" where
  "climbs x \<longleftrightarrow> sorted (fresh (txHeld x) (txNext x))
     \<and> (\<forall>h \<in> set (txHeld x). \<forall>k \<in> set (fresh (txHeld x) (txNext x)). h < k)"

definition lockInv :: "lockTx list \<Rightarrow> bool" where
  "lockInv st \<longleftrightarrow> (\<forall>i < length st. climbs (st ! i))
     \<and> (\<forall>i < length st. \<forall>j < length st. i \<noteq> j \<longrightarrow> set (txHeld (st ! i)) \<inter> set (txHeld (st ! j)) = {})"

lemma fresh_new: "k \<in> set (fresh held ks) \<Longrightarrow> k \<notin> set held"
  by (induction held ks rule: fresh.induct) (auto split: if_splits)

lemma fresh_cong: "set h = set h' \<Longrightarrow> fresh h ks = fresh h' ks"
  by (induction h ks arbitrary: h' rule: fresh.induct) auto

lemma climbs_acquire:
  assumes "climbs x" "txNext x = k # ks"
  shows "climbs \<lparr>txHeld = k # txHeld x, txNext = ks\<rparr>"
proof (cases "k \<in> set (txHeld x)")
  case True
  then have "fresh (k # txHeld x) ks = fresh (txHeld x) (txNext x)"
    using assms(2) by (simp add: fresh_cong [of "k # txHeld x" "txHeld x"] insert_absorb)
  then show ?thesis using assms True by (auto simp: climbs_def)
next
  case False
  then have f: "fresh (txHeld x) (txNext x) = k # fresh (k # txHeld x) ks" using assms(2) by simp
  have "k < z" if "z \<in> set (fresh (k # txHeld x) ks)" for z
  proof -
    have "k \<le> z" using assms(1) f that by (simp add: climbs_def)
    moreover have "z \<noteq> k" using fresh_new [OF that] by auto
    ultimately show ?thesis by simp
  qed
  then show ?thesis using assms(1) f by (auto simp: climbs_def)
qed

lemma lockInv_step:
  assumes "lockInv st" "lockStep st st'"
  shows "lockInv st'"
  using assms(2)
proof cases
  case (acquire i k ks)
  have own: "k \<notin> set (txHeld (st ! j))" if "j < length st" "j \<noteq> i" for j
    using acquire(4) that by (auto simp: freeFor_def list_all_iff)
  then show ?thesis using assms(1) acquire climbs_acquire [OF _ acquire(3)]
    unfolding lockInv_def by (auto simp: nth_list_update)
next
  case (finish i)
  have "climbs \<lparr>txHeld = [], txNext = []\<rparr>" by (simp add: climbs_def)
  then show ?thesis using assms(1) finish unfolding lockInv_def by (auto simp: nth_list_update)
qed

lemma lockInv_begin: "list_all ascending ks \<Longrightarrow> lockInv (beginTx ks)"
  by (auto simp: lockInv_def beginTx_def climbs_def ascending_def list_all_iff)

lemma lockInv_reach: "lockReach s0 s \<Longrightarrow> lockInv s0 \<Longrightarrow> lockInv s"
  by (induction rule: lockReach.induct) (auto intro: lockInv_step)

text \<open>Somebody waits for the largest row; its holder can go on.\<close>

lemma lockInv_live:
  assumes inv: "lockInv st"
  shows "\<not> deadlocked st"
proof
  assume dead: "deadlocked st"
  let ?W = "{i. i < length st \<and> txNext (st ! i) \<noteq> []}"
  have stuck: "\<And>st'. \<not> lockStep st st'" using dead by (simp add: deadlocked_def)
  have released: "txHeld (st ! i) = []" if "i < length st" "txNext (st ! i) = []" for i
    using stuck lockStep.finish [OF that] by blast
  have "?W \<noteq> {}"
  proof
    assume "?W = {}"
    then have "finished st" using released by (auto simp: finished_def list_all_length)
    then show False using dead by (simp add: deadlocked_def)
  qed
  define f where "f = (\<lambda>j. hd (txNext (st ! j)))"
  have fin: "finite (f ` ?W)" by simp
  then have "Max (f ` ?W) \<in> f ` ?W" using \<open>?W \<noteq> {}\<close> by (intro Max_in) auto
  then obtain i where i: "i \<in> ?W" and m: "Max (f ` ?W) = f i" by (rule imageE) blast
  have top: "f j \<le> f i" if "j \<in> ?W" for j
    using Max_ge [OF fin imageI [OF that]] m by simp
  obtain k ks where k: "txNext (st ! i) = k # ks" using i by (cases "txNext (st ! i)") auto
  have blocked: "\<exists>m < length st. m \<noteq> j \<and> z \<in> set (txHeld (st ! m))"
    if "j < length st" "txNext (st ! j) = z # zs" for j z zs
  proof -
    have "\<not> freeFor st j z" using stuck lockStep.acquire [OF that] by blast
    then show ?thesis by (auto simp: freeFor_def list_all_iff)
  qed
  obtain j where j: "j < length st" "j \<noteq> i" "k \<in> set (txHeld (st ! j))" using blocked k i by blast
  have "txNext (st ! j) \<noteq> []" using released j by auto
  then obtain z zs where z: "txNext (st ! j) = z # zs" by (cases "txNext (st ! j)") auto
  obtain m where m: "m < length st" "m \<noteq> j" "z \<in> set (txHeld (st ! m))" using blocked [OF j(1) z] by blast
  then have "z \<notin> set (txHeld (st ! j))" using inv j(1) unfolding lockInv_def by blast
  then have "z \<in> set (fresh (txHeld (st ! j)) (txNext (st ! j)))" using z by simp
  then have "k < z" using inv j unfolding lockInv_def climbs_def by blast
  moreover have "z \<le> k" using top [of j] j z k by (simp add: f_def)
  ultimately show False by simp
qed

text \<open>Every step uses up a request or ends a transaction, so every run ends.\<close>

definition lockWork :: "lockTx list \<Rightarrow> nat" where
  "lockWork st = sum_list (map (\<lambda>x. 2 * length (txNext x) + (if txHeld x = [] then 0 else 1)) st)"

lemma lockWork_update:
  assumes "i < length st"
    and "2 * length (txNext x) + (if txHeld x = [] then 0 else 1)
      < 2 * length (txNext (st ! i)) + (if txHeld (st ! i) = [] then 0 else 1)"
  shows "lockWork (st[i := x]) < lockWork st"
  using assms
proof (induction st arbitrary: i)
  case (Cons y st)
  then show ?case by (cases i) (auto simp: lockWork_def)
qed simp

lemma lockWork_step: "lockStep st st' \<Longrightarrow> lockWork st' < lockWork st"
  by (induction rule: lockStep.induct) (rule lockWork_update; simp)+

lemma lockReach_step: "lockReach s' t \<Longrightarrow> lockStep s s' \<Longrightarrow> lockReach s t"
  by (induction rule: lockReach.induct) (auto intro: lockReach.intros)

lemma lockInv_completes: "lockInv st \<Longrightarrow> \<exists>st'. lockReach st st' \<and> finished st'"
proof (induction "lockWork st" arbitrary: st rule: less_induct)
  case less
  show ?case
  proof (cases "finished st")
    case False
    then obtain s where s: "lockStep st s" using lockInv_live [OF less.prems] by (auto simp: deadlocked_def)
    then show ?thesis using less.hyps [OF lockWork_step [OF s] lockInv_step [OF less.prems s]] lockReach_step by blast
  qed (blast intro: lockReach.here)
qed

section \<open>Movements\<close>

lemma fresh_append: "fresh h (xs @ ys) = fresh h xs @ fresh (rev xs @ h) ys"
proof (induction h xs rule: fresh.induct)
  case (2 h k ks)
  have "fresh (rev ks @ k # h) ys = fresh (rev ks @ h) ys" if "k \<in> set h"
    using that by (intro fresh_cong) auto
  with 2 show ?case by auto
qed simp

lemma fresh_changes:
  "sorted (map f ls) \<Longrightarrow> \<forall>h \<in> set held. \<forall>l \<in> set ls. h \<le> f l \<Longrightarrow>
     sorted (fresh held (concat (map (\<lambda>l. [f l, f l]) ls))) \<and> set (fresh held (concat (map (\<lambda>l. [f l, f l]) ls))) \<subseteq> f ` set ls"
proof (induction ls arbitrary: held)
  case (Cons l ls)
  show ?case
  proof (cases "f l \<in> set held")
    case True
    then show ?thesis using Cons.IH [of held] Cons.prems by auto
  next
    case False
    have "sorted (fresh (f l # held) (concat (map (\<lambda>l. [f l, f l]) ls)))
        \<and> set (fresh (f l # held) (concat (map (\<lambda>l. [f l, f l]) ls))) \<subseteq> f ` set ls"
      using Cons.IH [of "f l # held"] Cons.prems by auto
    then show ?thesis using False Cons.prems(1) by (auto 0 3)
  qed
qed simp

text \<open>A movement of one warehouse asks for ascending keys if its lines are ordered by product.\<close>

lemma one_warehouse_ascending:
  assumes "mvType mv \<noteq> TypeTransfer" "sorted (map (\<lambda>l. TrimSpace (mlProductID l)) (mvLines mv))"
  shows "ascending (movementLocks t mv)"
proof -
  obtain wh where "movementLocks t mv = concat (map (changeLocks t wh) (mvLines mv))"
    using assms(1) by (cases "mvType mv = TypeInbound"; cases "mvType mv = TypeOutbound";
      cases "mvDestinationWarehouseID mv \<noteq> None \<and> mvSourceWarehouseID mv = None")
      (auto simp: movementLocks_def Let_def)
  moreover have "changeLocks t wh = (\<lambda>l. [trimKey t wh (mlProductID l), trimKey t wh (mlProductID l)])"
    by (rule ext) (simp add: changeLocks_def getLocks_def)
  moreover have "sorted (map (\<lambda>l. trimKey t wh (mlProductID l)) (mvLines mv))"
    using assms(2) by (simp add: sorted_map trimKey_def)
  ultimately show ?thesis
    using fresh_changes [of "\<lambda>l. trimKey t wh (mlProductID l)" "mvLines mv" "[]"] by (simp add: ascending_def)
qed

lemma one_transfer_ascending:
  assumes "mvType mv = TypeTransfer" "mvLines mv = [l]" "0 < mlQuantity l"
    and "TrimSpace (the (mvDestinationWarehouseID mv)) \<noteq> TrimSpace (the (mvSourceWarehouseID mv))"
  shows "ascending (movementLocks t mv) \<longleftrightarrow>
    TrimSpace (the (mvDestinationWarehouseID mv)) < TrimSpace (the (mvSourceWarehouseID mv))"
  using assms
  by (auto simp: ascending_def movementLocks_def transferLocks_def transferDeltaLocks_def getLocks_def trimKey_def
      Let_def OrderedWarehouseProduct_def LessWarehouseProduct_def type_defs)

text \<open>C32: Ordered locks never deadlock. Any number of concurrent confirmations, each with any number of
  lines, whatever the order in which their steps have been interleaved so far, are never all stuck and
  can go on until all have ended, provided that each asks for the rows it does not hold yet in ascending
  order of (tenant, warehouse, product). That is so for every inbound, outbound and adjustment movement
  whose lines are ordered by product.\<close>

theorem ordered_locks_live:
  assumes "list_all (\<lambda>(t, mv). ascending (movementLocks t mv)
      \<or> mvType mv \<noteq> TypeTransfer \<and> sorted (map (\<lambda>l. TrimSpace (mlProductID l)) (mvLines mv))) txs"
    and "lockReach (beginTx (map (\<lambda>(t, mv). movementLocks t mv) txs)) st"
  shows "\<not> deadlocked st \<and> (\<exists>st'. lockReach st st' \<and> finished st')"
proof -
  have "list_all ascending (map (\<lambda>(t, mv). movementLocks t mv) txs)"
    using assms(1) by (auto simp: list_all_iff intro: one_warehouse_ascending)
  then have "lockInv st" by (intro lockInv_reach [OF assms(2)] lockInv_begin)
  then show ?thesis by (simp add: lockInv_live lockInv_completes)
qed

definition lockMovement :: "string \<Rightarrow> string option \<Rightarrow> string option \<Rightarrow> MovementLine list \<Rightarrow> Movement" where
  "lockMovement typ src dst ls = \<lparr>mvID = ''m'', mvTenantID = ''t1'', mvType = typ, mvReferenceNumber = ''R'',
     mvSourceWarehouseID = src, mvDestinationWarehouseID = dst, mvCreatedBy = ''u1'', mvStatus = ''draft'',
     mvNotes = None, mvIdempotencyKey = None, mvIdempotencyRequestHash = None, mvLines = ls,
     mvCreatedAt = 0, mvUpdatedAt = 0\<rparr>"

definition lockLine :: "string \<Rightarrow> int \<Rightarrow> MovementLine" where
  "lockLine p n = \<lparr>mlID = ''l'', mlMovementID = ''m'', mlProductID = p, mlQuantity = n, mlNotes = None, mlCreatedAt = 0\<rparr>"

theorem ordered_locks_live_witness:
  "\<exists>st'. lockReach (beginTx [movementLocks ''t1'' (lockMovement ''outbound'' (Some ''w1'') None [lockLine ''p1'' 1, lockLine ''p2'' 1]),
      movementLocks ''t1'' (lockMovement ''outbound'' (Some ''w1'') None [lockLine ''p1'' 2])]) st' \<and> finished st'"
proof -
  let ?txs = "[(''t1'', lockMovement ''outbound'' (Some ''w1'') None [lockLine ''p1'' 1, lockLine ''p2'' 1]),
      (''t1'', lockMovement ''outbound'' (Some ''w1'') None [lockLine ''p1'' 2])]"
  have "TrimSpace ''p1'' \<le> TrimSpace ''p2''" by code_simp
  then have "list_all (\<lambda>(t, mv). ascending (movementLocks t mv)
      \<or> mvType mv \<noteq> TypeTransfer \<and> sorted (map (\<lambda>l. TrimSpace (mlProductID l)) (mvLines mv))) ?txs"
    by (simp add: lockMovement_def lockLine_def type_defs)
  from ordered_locks_live [OF this lockReach.here] show ?thesis by simp
qed

text \<open>Two transfers of one product between two warehouses, one each way; src is the smaller key.\<close>

lemma opposite_locks:
  assumes "TrimSpace src < TrimSpace dst" "0 < n" "0 < n'"
    and k: "ks = trimKey t src p" "kd = trimKey t dst p"
  shows "movementLocks t (lockMovement TypeTransfer (Some src) (Some dst) [lockLine p n]) = [kd, ks, kd, ks, kd]"
    "movementLocks t (lockMovement TypeTransfer (Some dst) (Some src) [lockLine p n']) = [ks, ks, kd, kd, ks]"
  using assms(1-3)
  by (auto simp: k movementLocks_def lockMovement_def lockLine_def transferLocks_def transferDeltaLocks_def getLocks_def
      trimKey_def Let_def OrderedWarehouseProduct_def LessWarehouseProduct_def type_defs)

lemma opposite_reach:
  assumes "kd \<noteq> ks"
  shows "lockReach (beginTx [[kd, ks, kd, ks, kd], [ks, ks, kd, kd, ks]])
    [\<lparr>txHeld = [kd], txNext = [ks, kd, ks, kd]\<rparr>, \<lparr>txHeld = [ks, ks], txNext = [kd, kd, ks]\<rparr>]"
proof -
  let ?a = "beginTx [[kd, ks, kd, ks, kd], [ks, ks, kd, kd, ks]]"
  let ?b = "?a[0 := \<lparr>txHeld = [kd], txNext = [ks, kd, ks, kd]\<rparr>]"
  let ?c = "?b[Suc 0 := \<lparr>txHeld = [ks], txNext = [ks, kd, kd, ks]\<rparr>]"
  let ?d = "?c[Suc 0 := \<lparr>txHeld = [ks, ks], txNext = [kd, kd, ks]\<rparr>]"
  have "lockStep ?a ?b"
    using lockStep.acquire [of 0 ?a kd "[ks, kd, ks, kd]"] by (simp add: beginTx_def freeFor_def)
  moreover have "lockStep ?b ?c"
    using lockStep.acquire [of "Suc 0" ?b ks "[ks, kd, kd, ks]"] assms by (simp add: beginTx_def freeFor_def)
  moreover have "lockStep ?c ?d"
    using lockStep.acquire [of "Suc 0" ?c ks "[kd, kd, ks]"] assms by (simp add: beginTx_def freeFor_def)
  ultimately have "lockReach ?a ?d" by (meson lockReach.here lockReach.more)
  then show ?thesis by (simp add: beginTx_def)
qed

lemma opposite_stuck:
  assumes "kd \<noteq> ks"
  shows "deadlocked [\<lparr>txHeld = [kd], txNext = [ks, kd, ks, kd]\<rparr>, \<lparr>txHeld = [ks, ks], txNext = [kd, kd, ks]\<rparr>]"
  unfolding deadlocked_def lockStep_simps
  using assms by (auto simp: finished_def freeFor_def less_Suc_eq nth_Cons' split: if_splits)

text \<open>C33: Opposite transfers can deadlock. Although TransferDelta takes its two locks in a fixed order, the
  confirmation of a transfer asks for the row of the destination first, so its requests ascend only if the
  destination comes before the source; and any two concurrent confirmations of transfers of one product
  between the same two warehouses in opposite directions can reach a deadlock, which the database ends
  by failing one of them.\<close>

theorem opposite_transfers_deadlock:
  assumes "TrimSpace src < TrimSpace dst" "0 < n" "0 < n'"
  shows "\<not> ascending (movementLocks t (lockMovement TypeTransfer (Some src) (Some dst) [lockLine p n]))
    \<and> (\<exists>st. lockReach (beginTx [movementLocks t (lockMovement TypeTransfer (Some src) (Some dst) [lockLine p n]),
          movementLocks t (lockMovement TypeTransfer (Some dst) (Some src) [lockLine p n'])]) st \<and> deadlocked st)"
proof
  have ne: "trimKey t dst p \<noteq> trimKey t src p" using assms(1) by (auto simp: trimKey_def)
  show "\<exists>st. lockReach (beginTx [movementLocks t (lockMovement TypeTransfer (Some src) (Some dst) [lockLine p n]),
      movementLocks t (lockMovement TypeTransfer (Some dst) (Some src) [lockLine p n'])]) st \<and> deadlocked st"
    using opposite_reach [OF ne] opposite_stuck [OF ne] unfolding opposite_locks [OF assms refl refl] by blast
  show "\<not> ascending (movementLocks t (lockMovement TypeTransfer (Some src) (Some dst) [lockLine p n]))"
    using assms one_transfer_ascending [of "lockMovement TypeTransfer (Some src) (Some dst) [lockLine p n]" "lockLine p n" t]
    by (simp add: lockMovement_def lockLine_def)
qed

theorem opposite_transfers_deadlock_witness:
  "\<exists>st. lockReach (beginTx [movementLocks ''t1'' (lockMovement TypeTransfer (Some ''w1'') (Some ''w2'') [lockLine ''p1'' 4]),
      movementLocks ''t1'' (lockMovement TypeTransfer (Some ''w2'') (Some ''w1'') [lockLine ''p1'' 3])]) st \<and> deadlocked st"
proof -
  have "TrimSpace ''w1'' < TrimSpace ''w2''" by code_simp
  from opposite_transfers_deadlock [OF this, of 4 3] show ?thesis by simp
qed

end
