(* ===== verification/Seed_Data.thy ===== *)
theory Seed_Data
  imports Inv_Prelude
begin

text \<open>
  The data of the command that seeds a development database
  (src/infra/database/cmd/seed/service/mock_data.go): the demo tenant with its users, categories,
  products and warehouses, and the scenario of movements in the order in which they are posted.
\<close>

record CategorySeed =
  csName :: string
  csDescription :: string
  csSortOrder :: int

record ProductSeed =
  psCategoryName :: string
  psSKU :: string
  psName :: string
  psDescription :: string
  psUnit :: string
  psPrice :: rat
  psReorderLevel :: int

record WarehouseSeed =
  wsCode :: string
  wsName :: string
  wsAddress :: string
  wsIsActive :: bool

record UserSeed =
  usEmail :: string
  usRole :: string
  usFullName :: string

record MovementLineSeed =
  msSKU :: string
  msQty :: int

record MovementSeed =
  msReferenceNumber :: string
  msType :: string
  msStatus :: string
  msSourceWHCode :: "string option"
  msDestWHCode :: "string option"
  msLines :: "MovementLineSeed list"
  msIdempotencyKey :: string
  msNotes :: string

definition demoTenantName :: string where "demoTenantName = ''Demo Tenant''"
definition demoTenantSlug :: string where "demoTenantSlug = ''demo-tenant-seed''"
definition adminEmail :: string where "adminEmail = ''admin@demo.local''"
definition adminRole :: string where "adminRole = ''owner''"
definition adminFullName :: string where "adminFullName = ''Demo Admin''"
definition devUserPassword :: string where "devUserPassword = ''admin123''"
definition defaultReqState :: string where "defaultReqState = ''{}''"

definition demoCategories :: "CategorySeed list" where
  "demoCategories =
    [\<lparr>csName = ''Beverages'', csDescription = ''Drinks and liquid products'', csSortOrder = 1\<rparr>,
     \<lparr>csName = ''Snacks'', csDescription = ''Packaged snack items'', csSortOrder = 2\<rparr>,
     \<lparr>csName = ''Household'', csDescription = ''Home and cleaning supplies'', csSortOrder = 3\<rparr>,
     \<lparr>csName = ''Electronics'', csDescription = ''Gadgets and accessories'', csSortOrder = 4\<rparr>,
     \<lparr>csName = ''Frozen'', csDescription = ''Frozen foods'', csSortOrder = 5\<rparr>]"

definition demoProducts :: "ProductSeed list" where
  "demoProducts =
    [\<lparr>psCategoryName = ''Beverages'', psSKU = ''BEV-COLA-330'', psName = ''Cola 330ml'',
      psDescription = ''Carbonated cola drink'', psUnit = ''pcs'', psPrice = 8000, psReorderLevel = 20\<rparr>,
     \<lparr>psCategoryName = ''Snacks'', psSKU = ''SNK-POTATO-100'', psName = ''Potato Chips 100g'',
      psDescription = ''Salted potato chips'', psUnit = ''pcs'', psPrice = 12000, psReorderLevel = 15\<rparr>,
     \<lparr>psCategoryName = ''Household'', psSKU = ''HSH-SOAP-500'', psName = ''Dish Soap 500ml'',
      psDescription = ''Liquid dishwashing soap'', psUnit = ''pcs'', psPrice = 18000, psReorderLevel = 10\<rparr>,
     \<lparr>psCategoryName = ''Beverages'', psSKU = ''BEV-TEA-500'', psName = ''Green Tea 500ml'',
      psDescription = ''Unsweetened tea'', psUnit = ''pcs'', psPrice = 6500, psReorderLevel = 25\<rparr>,
     \<lparr>psCategoryName = ''Electronics'', psSKU = ''EL-USB-CABLE'', psName = ''USB-C Cable 1m'',
      psDescription = ''Charging cable'', psUnit = ''pcs'', psPrice = 45000, psReorderLevel = 30\<rparr>,
     \<lparr>psCategoryName = ''Frozen'', psSKU = ''FRZ-DUMPLING-250'', psName = ''Frozen Dumplings 250g'',
      psDescription = ''Pork dumplings'', psUnit = ''pcs'', psPrice = 22000, psReorderLevel = 12\<rparr>,
     \<lparr>psCategoryName = ''Snacks'', psSKU = ''SNK-BISCUIT-200'', psName = ''Butter Biscuits 200g'',
      psDescription = ''Sweet biscuits'', psUnit = ''pcs'', psPrice = 9500, psReorderLevel = 18\<rparr>]"

definition demoWarehouses :: "WarehouseSeed list" where
  "demoWarehouses =
    [\<lparr>wsCode = ''WH-JKT-01'', wsName = ''Jakarta Main Warehouse'',
      wsAddress = ''Jl. Sudirman No. 1, Jakarta'', wsIsActive = True\<rparr>,
     \<lparr>wsCode = ''WH-BDG-01'', wsName = ''Bandung Backup Warehouse'',
      wsAddress = ''Jl. Asia Afrika No. 10, Bandung'', wsIsActive = True\<rparr>,
     \<lparr>wsCode = ''WH-SBY-01'', wsName = ''Surabaya Distribution Hub'',
      wsAddress = ''Jl. Tunjungan No. 5, Surabaya'', wsIsActive = True\<rparr>]"

definition demoExtraUsers :: "UserSeed list" where
  "demoExtraUsers =
    [\<lparr>usEmail = ''staff@demo.local'', usRole = ''owner'', usFullName = ''Demo Staff''\<rparr>,
     \<lparr>usEmail = ''viewer@demo.local'', usRole = ''owner'', usFullName = ''Demo Viewer''\<rparr>]"

definition seedMovementScenario :: "MovementSeed list" where
  "seedMovementScenario =
    [\<lparr>msReferenceNumber = ''SEED-IN-001'', msType = ''inbound'', msStatus = ''confirmed'',
      msSourceWHCode = None, msDestWHCode = Some ''WH-JKT-01'',
      msLines = [\<lparr>msSKU = ''BEV-COLA-330'', msQty = 500\<rparr>, \<lparr>msSKU = ''SNK-POTATO-100'', msQty = 300\<rparr>],
      msIdempotencyKey = ''SEED-IDEMP-IN-001'', msNotes = ''Seed bulk inbound Jakarta''\<rparr>,
     \<lparr>msReferenceNumber = ''SEED-IN-002'', msType = ''inbound'', msStatus = ''confirmed'',
      msSourceWHCode = None, msDestWHCode = Some ''WH-JKT-01'',
      msLines = [\<lparr>msSKU = ''HSH-SOAP-500'', msQty = 150\<rparr>, \<lparr>msSKU = ''EL-USB-CABLE'', msQty = 80\<rparr>,
        \<lparr>msSKU = ''SNK-BISCUIT-200'', msQty = 60\<rparr>, \<lparr>msSKU = ''FRZ-DUMPLING-250'', msQty = 100\<rparr>],
      msIdempotencyKey = ''SEED-IDEMP-IN-002'', msNotes = ''Seed inbound Jakarta mixed''\<rparr>,
     \<lparr>msReferenceNumber = ''SEED-TR-001'', msType = ''transfer'', msStatus = ''confirmed'',
      msSourceWHCode = Some ''WH-JKT-01'', msDestWHCode = Some ''WH-BDG-01'',
      msLines = [\<lparr>msSKU = ''BEV-COLA-330'', msQty = 200\<rparr>],
      msIdempotencyKey = ''SEED-IDEMP-TR-001'', msNotes = ''Seed transfer JKT to BDG''\<rparr>,
     \<lparr>msReferenceNumber = ''SEED-OUT-001'', msType = ''outbound'', msStatus = ''confirmed'',
      msSourceWHCode = Some ''WH-BDG-01'', msDestWHCode = None,
      msLines = [\<lparr>msSKU = ''BEV-COLA-330'', msQty = 50\<rparr>],
      msIdempotencyKey = ''SEED-IDEMP-OUT-001'', msNotes = ''Seed outbound Bandung''\<rparr>,
     \<lparr>msReferenceNumber = ''SEED-TR-002'', msType = ''transfer'', msStatus = ''confirmed'',
      msSourceWHCode = Some ''WH-JKT-01'', msDestWHCode = Some ''WH-SBY-01'',
      msLines = [\<lparr>msSKU = ''SNK-POTATO-100'', msQty = 80\<rparr>, \<lparr>msSKU = ''FRZ-DUMPLING-250'', msQty = 40\<rparr>],
      msIdempotencyKey = ''SEED-IDEMP-TR-002'', msNotes = ''Seed transfer JKT to Surabaya''\<rparr>,
     \<lparr>msReferenceNumber = ''SEED-ADJ-001'', msType = ''adjustment'', msStatus = ''confirmed'',
      msSourceWHCode = None, msDestWHCode = Some ''WH-BDG-01'',
      msLines = [\<lparr>msSKU = ''HSH-SOAP-500'', msQty = 15\<rparr>],
      msIdempotencyKey = ''SEED-IDEMP-ADJ-001'', msNotes = ''Positive adjustment Bandung''\<rparr>,
     \<lparr>msReferenceNumber = ''SEED-ADJ-002'', msType = ''adjustment'', msStatus = ''confirmed'',
      msSourceWHCode = Some ''WH-JKT-01'', msDestWHCode = None,
      msLines = [\<lparr>msSKU = ''SNK-BISCUIT-200'', msQty = 5\<rparr>],
      msIdempotencyKey = ''SEED-IDEMP-ADJ-002'', msNotes = ''Negative adjustment Jakarta (shrinkage)''\<rparr>,
     \<lparr>msReferenceNumber = ''SEED-DRAFT-001'', msType = ''inbound'', msStatus = ''draft'',
      msSourceWHCode = None, msDestWHCode = Some ''WH-JKT-01'',
      msLines = [\<lparr>msSKU = ''BEV-TEA-500'', msQty = 120\<rparr>],
      msIdempotencyKey = ''SEED-IDEMP-DRAFT-001'', msNotes = ''Draft inbound (no stock apply)''\<rparr>,
     \<lparr>msReferenceNumber = ''SEED-CAN-001'', msType = ''inbound'', msStatus = ''cancelled'',
      msSourceWHCode = None, msDestWHCode = Some ''WH-JKT-01'',
      msLines = [\<lparr>msSKU = ''BEV-TEA-500'', msQty = 999\<rparr>],
      msIdempotencyKey = ''SEED-IDEMP-CAN-001'', msNotes = ''Cancelled inbound''\<rparr>]"

end
