(* ===== verification/Seed.thy ===== *)
theory Seed
  imports Auth Movement_Apply Seed_Data
begin

text \<open>
  The command that seeds a development database (src/infra/database/cmd/seed/service: seed_service.go,
  movements_seed.go, audit_seed.go). It runs alone, in one transaction on the tables of the
  authentication and of the inventory service: Run upserts the master data, deletes the seeded
  movements and all stock of the demo tenant and posts the scenario again; Rollback deletes the
  tenant. The users table is the part that the authentication service reads and the part that the
  inventory service reads; column defaults (gen_random_uuid, NOW) come from the world, and NOW is the
  start of the transaction.
\<close>

section \<open>Tables and world\<close>

record seeddb =
  sdAuth :: authdb
  sdInv :: database

record sworld =
  zdb :: seeddb
  ztx :: "seeddb option"
  zstmt :: nat
  zfault :: "nat \<Rightarrow> string option"
  zpick :: "nat \<Rightarrow> nat"
  znow :: int
  ztick :: nat
  ztime :: "nat \<Rightarrow> int"
  zfresh :: nat
  zuuid :: "nat \<Rightarrow> string"
  zjsonb :: "string \<Rightarrow> string"

type_synonym 'a seed = "(sworld, 'a) prog"

definition zStmt :: "(seeddb \<Rightarrow> err + 'a \<times> seeddb) \<Rightarrow> 'a seed" where
  "zStmt f z0 =
    (let z = z0\<lparr>zstmt := Suc (zstmt z0)\<rparr>
     in case zfault z0 (zstmt z0) of
          Some msg \<Rightarrow> (Inl (Raw msg), z)
        | None \<Rightarrow> (case ztx z0 of
            None \<Rightarrow> (Inl (Raw ''sql: transaction has already been committed or rolled back''), z)
          | Some d \<Rightarrow> (case f d of
              Inl e \<Rightarrow> (Inl e, z)
            | Inr (a, d') \<Rightarrow> (Inr a, z\<lparr>ztx := Some d'\<rparr>))))"

text \<open>Rows of a SELECT, and the one that QueryRow scans of an unordered result.\<close>

definition zRows :: "(seeddb \<Rightarrow> 'a list) \<Rightarrow> 'a list seed" where
  "zRows q = zStmt (\<lambda>d. Inr (q d, d))"

definition zRow :: "(seeddb \<Rightarrow> 'a list) \<Rightarrow> 'a option seed" where
  "zRow q z = zStmt (\<lambda>d. Inr (limitOne (zpick z (zstmt z)) (q d), d)) z"

definition zNow :: "int seed" where
  "zNow z = (Inr (znow z), z)"

definition zUUID :: "string seed" where
  "zUUID z = (Inr (zuuid z (zfresh z)), z\<lparr>zfresh := Suc (zfresh z)\<rparr>)"

definition zJsonb :: "string \<Rightarrow> string seed" where
  "zJsonb s z = (Inr (zjsonb z s), z)"

text \<open>A statement on the tables of the inventory service.\<close>

definition onInv :: "(database \<Rightarrow> err + 'a \<times> database) \<Rightarrow> seeddb \<Rightarrow> err + 'a \<times> seeddb" where
  "onInv f d = (case f (sdInv d) of Inl e \<Rightarrow> Inl e | Inr (a, i) \<Rightarrow> Inr (a, d\<lparr>sdInv := i\<rparr>))"

text \<open>fmt.Errorf with the verb w around a call.\<close>

definition wrapf :: "string \<Rightarrow> 'a seed \<Rightarrow> 'a seed" where
  "wrapf msg m = bindM (tryM m) (\<lambda>r. case r of
     Inl e \<Rightarrow> throw (Wrap (msg @ '': '' @ errorText e) e) | Inr a \<Rightarrow> ret a)"

text \<open>BEGIN, the body, COMMIT, and ROLLBACK on an error of any of them.\<close>

definition inSeedTx :: "unit seed \<Rightarrow> unit seed" where
  "inSeedTx body z0 =
    (let z = z0\<lparr>zstmt := Suc (zstmt z0)\<rparr>
     in case zfault z0 (zstmt z0) of
          Some msg \<Rightarrow> (Inl (Wrap (''begin tx: '' @ msg) (Raw msg)), z)
        | None \<Rightarrow>
          (case body (z\<lparr>ztx := Some (zdb z), znow := ztime z (ztick z), ztick := Suc (ztick z)\<rparr>) of
             (Inl e, z1) \<Rightarrow> (Inl e, z1\<lparr>ztx := None\<rparr>)
           | (Inr _, z1) \<Rightarrow>
             (let z2 = z1\<lparr>zstmt := Suc (zstmt z1), ztx := None\<rparr>
              in case (zfault z1 (zstmt z1), ztx z1) of
                   (None, Some d) \<Rightarrow> (Inr (), z2\<lparr>zdb := d\<rparr>)
                 | (None, None) \<Rightarrow> (Inl (Raw ''sql: transaction has already been committed or rolled back''), z2)
                 | (Some msg, _) \<Rightarrow> (Inl (Wrap (''commit tx: '' @ msg) (Raw msg)), z2))))"

section \<open>Tenant and users\<close>

definition isDemoTenant :: "tenantRow \<Rightarrow> bool" where
  "isDemoTenant r \<longleftrightarrow> trSlug r = demoTenantSlug \<or> trName r = demoTenantName"

definition onAuth :: "(authdb \<Rightarrow> err + 'a \<times> authdb) \<Rightarrow> seeddb \<Rightarrow> err + 'a \<times> seeddb" where
  "onAuth f d = (case f (sdAuth d) of Inl e \<Rightarrow> Inl e | Inr (a, i) \<Rightarrow> Inr (a, d\<lparr>sdAuth := i\<rparr>))"

definition seedTenant :: "string seed" where
  "seedTenant =
    bindM (wrapf ''select tenant'' (zRow (\<lambda>d. map trID (filter isDemoTenant (adTenants (sdAuth d)))))) (\<lambda>r.
    case r of
      Some tenantID \<Rightarrow> ret tenantID
    | None \<Rightarrow>
        bindM zUUID (\<lambda>i.
        wrapf ''insert tenant'' (zStmt (onAuth (insertTenant
          \<lparr>trID = i, trName = demoTenantName, trSlug = demoTenantSlug\<rparr>)))))"

text \<open>INSERT INTO users ... ON CONFLICT (tenant_id, email) DO UPDATE.\<close>

definition upsertUser :: "authUserRow \<Rightarrow> seeddb \<Rightarrow> err + unit \<times> seeddb" where
  "upsertUser r d =
    (let same = (\<lambda>x. auTenantID x = auTenantID r \<and> auEmail x = auEmail r);
         a = sdAuth d; i = sdInv d
     in case find same (adUsers a) of
          Some x \<Rightarrow>
            if length (auPasswordHash r) > 255 \<or> length (auRole r) > 50 \<or> length (auFullName r) > 255
            then Inl (Raw longMsg)
            else Inr ((), d\<lparr>sdAuth := a\<lparr>adUsers := updateWhere same (\<lambda>x. x\<lparr>auPasswordHash := auPasswordHash r,
                    auRole := auRole r, auFullName := auFullName r\<rparr>) (adUsers a)\<rparr>,
                  sdInv := i\<lparr>dbUsers := updateWhere (\<lambda>u. urID u = auID x) (\<lambda>u. u\<lparr>urFullName := auFullName r\<rparr>) (dbUsers i)\<rparr>\<rparr>)
        | None \<Rightarrow> (case insertUser r a of
            Inl e \<Rightarrow> Inl e
          | Inr (_, a') \<Rightarrow> Inr ((), d\<lparr>sdAuth := a',
              sdInv := i\<lparr>dbUsers := dbUsers i @ [\<lparr>urID = auID r, urTenantID = auTenantID r, urFullName = auFullName r\<rparr>]\<rparr>\<rparr>)))"

definition seedUser :: "string \<Rightarrow> string \<Rightarrow> UserSeed \<Rightarrow> unit seed" where
  "seedUser tenantID hash u =
    bindM zUUID (\<lambda>i.
    zStmt (upsertUser \<lparr>auID = i, auTenantID = tenantID, auEmail = usEmail u, auPasswordHash = hash,
      auRole = usRole u, auFullName = usFullName u\<rparr>))"

definition hashPassword :: "BcryptLib \<Rightarrow> string seed" where
  "hashPassword bc =
    bindM zUUID (\<lambda>salt. wrapf ''hash password'' (liftE (bcGenerate bc salt devUserPassword)))"

definition seedAdminUser :: "BcryptLib \<Rightarrow> string \<Rightarrow> unit seed" where
  "seedAdminUser bc tenantID =
    bindM (hashPassword bc) (\<lambda>hash.
    wrapf ''upsert admin user'' (seedUser tenantID hash
      \<lparr>usEmail = adminEmail, usRole = adminRole, usFullName = adminFullName\<rparr>))"

definition seedExtraUsers :: "BcryptLib \<Rightarrow> string \<Rightarrow> unit seed" where
  "seedExtraUsers bc tenantID =
    bindM (hashPassword bc) (\<lambda>hash.
    forM demoExtraUsers (\<lambda>u. wrapf (''upsert user '' @ usEmail u) (seedUser tenantID hash u)))"

section \<open>Master data\<close>

definition upsertCategory :: "string \<Rightarrow> int \<Rightarrow> string \<Rightarrow> CategorySeed \<Rightarrow> database \<Rightarrow> err + string \<times> database" where
  "upsertCategory newID now t c d =
    (let same = (\<lambda>r. carTenantID r = t \<and> carName r = csName c)
     in case find same (dbCategories d) of
          Some r \<Rightarrow> Inr (carID r, d\<lparr>dbCategories := updateWhere same (\<lambda>r. r\<lparr>carDescription := Some (csDescription c),
              carSortOrder := csSortOrder c, carUpdatedAt := now\<rparr>) (dbCategories d)\<rparr>)
        | None \<Rightarrow> (case insertCategory \<lparr>carID = newID, carTenantID = t, carParentID = None, carName = csName c,
              carDescription = Some (csDescription c), carSortOrder = csSortOrder c, carCreatedAt = now,
              carUpdatedAt = now, carDeletedAt = None\<rparr> d of
            Inl e \<Rightarrow> Inl e | Inr (_, d') \<Rightarrow> Inr (newID, d')))"

type_synonym idmap = "string \<Rightarrow> string option"

fun seedCategoriesFrom :: "string \<Rightarrow> idmap \<Rightarrow> CategorySeed list \<Rightarrow> idmap seed" where
  "seedCategoriesFrom t ids [] = ret ids"
| "seedCategoriesFrom t ids (c # cs) =
    bindM zUUID (\<lambda>i.
    bindM zNow (\<lambda>now.
    bindM (wrapf (''upsert category '' @ csName c) (zStmt (onInv (upsertCategory i now t c)))) (\<lambda>cid.
    seedCategoriesFrom t (ids(csName c \<mapsto> cid)) cs)))"

definition seedCategories :: "string \<Rightarrow> idmap seed" where
  "seedCategories t = seedCategoriesFrom t (\<lambda>_. None) demoCategories"

definition upsertProduct :: "productRow \<Rightarrow> database \<Rightarrow> err + unit \<times> database" where
  "upsertProduct m d =
    (let same = (\<lambda>r. prrTenantID r = prrTenantID m \<and> prrSKU r = prrSKU m)
     in if list_ex same (dbProducts d)
        then Inr ((), d\<lparr>dbProducts := updateWhere same (\<lambda>r. r\<lparr>prrCategoryID := prrCategoryID m, prrName := prrName m,
            prrDescription := prrDescription m, prrUnit := prrUnit m, prrPrice := prrPrice m,
            prrReorderLevel := prrReorderLevel m, prrMetadata := prrMetadata m, prrUpdatedAt := prrUpdatedAt m\<rparr>)
            (dbProducts d)\<rparr>)
        else insertProduct m d)"

definition seedProduct :: "string \<Rightarrow> idmap \<Rightarrow> ProductSeed \<Rightarrow> unit seed" where
  "seedProduct t categoryIDs p =
    (case categoryIDs (psCategoryName p) of
       None \<Rightarrow> throw (Raw (''category not found for product '' @ psSKU p @ '': '' @ psCategoryName p))
     | Some categoryID \<Rightarrow>
         bindM zUUID (\<lambda>i.
         bindM zNow (\<lambda>now.
         bindM (zJsonb defaultReqState) (\<lambda>meta.
         wrapf (''upsert product '' @ psSKU p) (zStmt (onInv (upsertProduct
           \<lparr>prrID = i, prrTenantID = t, prrCategoryID = Some categoryID, prrSKU = psSKU p, prrName = psName p,
            prrDescription = Some (psDescription p), prrUnit = psUnit p, prrPrice = numeric2 (psPrice p),
            prrReorderLevel = psReorderLevel p, prrMetadata = meta, prrCreatedAt = now,
            prrUpdatedAt = now, prrDeletedAt = None\<rparr>)))))))"

definition seedProducts :: "string \<Rightarrow> idmap \<Rightarrow> unit seed" where
  "seedProducts t categoryIDs = forM demoProducts (seedProduct t categoryIDs)"

definition upsertWarehouse :: "warehouseRow \<Rightarrow> database \<Rightarrow> err + unit \<times> database" where
  "upsertWarehouse m d =
    (let same = (\<lambda>r. whrTenantID r = whrTenantID m \<and> whrCode r = whrCode m)
     in if list_ex same (dbWarehouses d)
        then Inr ((), d\<lparr>dbWarehouses := updateWhere same (\<lambda>r. r\<lparr>whrName := whrName m, whrAddress := whrAddress m,
            whrIsActive := whrIsActive m, whrUpdatedAt := whrUpdatedAt m\<rparr>) (dbWarehouses d)\<rparr>)
        else insertWarehouse m d)"

definition seedWarehouses :: "string \<Rightarrow> unit seed" where
  "seedWarehouses t = forM demoWarehouses (\<lambda>w.
    bindM zUUID (\<lambda>i.
    bindM zNow (\<lambda>now.
    wrapf (''upsert warehouse '' @ wsCode w) (zStmt (onInv (upsertWarehouse
      \<lparr>whrID = i, whrTenantID = t, whrCode = wsCode w, whrName = wsName w, whrAddress = Some (wsAddress w),
       whrIsActive = wsIsActive w, whrCreatedAt = now, whrUpdatedAt = now, whrDeletedAt = None\<rparr>))))))"

section \<open>Maps from the tables\<close>

definition rowsMap :: "(string \<times> string) list \<Rightarrow> idmap" where
  "rowsMap rows = foldl (\<lambda>m (k, i). m(k \<mapsto> i)) (\<lambda>_. None) rows"

definition loadProductSKUs :: "string \<Rightarrow> idmap seed" where
  "loadProductSKUs t =
    bindM (zRows (\<lambda>d. map (\<lambda>r. (prrSKU r, prrID r))
      (filter (\<lambda>r. prrTenantID r = t \<and> prrDeletedAt r = None) (dbProducts (sdInv d))))) (\<lambda>rows.
    ret (rowsMap rows))"

definition loadWarehouseCodes :: "string \<Rightarrow> idmap seed" where
  "loadWarehouseCodes t =
    bindM (zRows (\<lambda>d. map (\<lambda>r. (whrCode r, whrID r))
      (filter (\<lambda>r. whrTenantID r = t) (dbWarehouses (sdInv d))))) (\<lambda>rows.
    ret (rowsMap rows))"

definition getUserID :: "string \<Rightarrow> string \<Rightarrow> string seed" where
  "getUserID t email =
    bindM (zRow (\<lambda>d. map auID (filter (\<lambda>u. auTenantID u = t \<and> ToLower (auEmail u) = ToLower email)
      (adUsers (sdAuth d))))) (\<lambda>r.
    case r of None \<Rightarrow> throw (Raw ''sql: no rows in result set'') | Some i \<Rightarrow> ret i)"

section \<open>Movements and stock\<close>

text \<open>LIKE SEED-% is a prefix. Deleting a movement deletes its lines.\<close>

definition isSeedMovement :: "string \<Rightarrow> movementRow \<Rightarrow> bool" where
  "isSeedMovement t r \<longleftrightarrow> mvrTenantID r = t \<and> prefix ''SEED-'' (mvrReferenceNumber r)"

definition deleteMovements :: "(movementRow \<Rightarrow> bool) \<Rightarrow> database \<Rightarrow> database" where
  "deleteMovements P d =
    (let gone = map mvrID (filter P (dbMovements d))
     in d\<lparr>dbMovements := filter (\<lambda>r. \<not> P r) (dbMovements d),
          dbLines := filter (\<lambda>l. mlrMovementID l \<notin> set gone) (dbLines d)\<rparr>)"

definition purgeSeedMovements :: "string \<Rightarrow> unit seed" where
  "purgeSeedMovements t =
    wrapf ''delete seed movements'' (zStmt (onInv (\<lambda>d. Inr ((), deleteMovements (isSeedMovement t) d))))"

definition resetTenantStock :: "string \<Rightarrow> unit seed" where
  "resetTenantStock t =
    wrapf ''clear stock_balances'' (zStmt (onInv (\<lambda>d.
      Inr ((), d\<lparr>dbBalances := filter (\<lambda>r. sbrTenantID r \<noteq> t) (dbBalances d)\<rparr>))))"

definition quoted :: "string \<Rightarrow> string" where
  "quoted s = [CHR 0x22] @ s @ [CHR 0x22]"

definition codeID :: "string \<Rightarrow> idmap \<Rightarrow> string option \<Rightarrow> err + string option" where
  "codeID side wh code =
    (case code of
       None \<Rightarrow> Inr None
     | Some k \<Rightarrow> (case wh k of
         None \<Rightarrow> Inl (Raw (''unknown '' @ side @ '' warehouse code '' @ quoted k))
       | Some i \<Rightarrow> Inr (Some i)))"

definition nullIfEmpty :: "string \<Rightarrow> string option" where
  "nullIfEmpty s = (if s = [] then None else Some s)"

definition seedInsertMovement :: "string \<Rightarrow> string \<Rightarrow> MovementSeed \<Rightarrow> idmap \<Rightarrow> string seed" where
  "seedInsertMovement t createdBy mv wh =
    bindM (liftE (codeID ''source'' wh (msSourceWHCode mv))) (\<lambda>srcID.
    bindM (liftE (codeID ''dest'' wh (msDestWHCode mv))) (\<lambda>dstID.
    bindM zUUID (\<lambda>movID.
    bindM zNow (\<lambda>now.
    bindM (wrapf (''insert movement '' @ msReferenceNumber mv) (zStmt (onInv (insertMovement
      \<lparr>mvrID = movID, mvrTenantID = t, mvrType = msType mv, mvrReferenceNumber = msReferenceNumber mv,
       mvrSourceWarehouseID = srcID, mvrDestinationWarehouseID = dstID, mvrCreatedBy = createdBy,
       mvrStatus = msStatus mv, mvrNotes = nullIfEmpty (msNotes mv),
       mvrIdempotencyKey = nullIfEmpty (msIdempotencyKey mv), mvrIdempotencyRequestHash = None,
       mvrCreatedAt = now, mvrUpdatedAt = now\<rparr>)))) (\<lambda>_.
    ret movID)))))"

definition rangeMsg :: string where
  "rangeMsg = ''ERROR: integer out of range (SQLSTATE 22003)''"

definition seedInsertLine :: "string \<Rightarrow> idmap \<Rightarrow> MovementLineSeed \<Rightarrow> unit seed" where
  "seedInsertLine movementID productBySKU l =
    (case productBySKU (msSKU l) of
       None \<Rightarrow> throw (Raw (''unknown product SKU '' @ quoted (msSKU l)))
     | Some pid \<Rightarrow>
         bindM zUUID (\<lambda>i.
         bindM zNow (\<lambda>now.
         wrapf (''insert movement line sku='' @ msSKU l) (zStmt (onInv (\<lambda>d.
           if \<not> is_int32 (msQty l) then Inl (Raw rangeMsg)
           else insertLine \<lparr>mlrID = i, mlrMovementID = movementID, mlrProductID = pid, mlrQuantity = msQty l,
             mlrNotes = None, mlrCreatedAt = now\<rparr> d))))))"

definition insertMovementLines :: "string \<Rightarrow> MovementLineSeed list \<Rightarrow> idmap \<Rightarrow> unit seed" where
  "insertMovementLines movementID lines productBySKU = forM lines (seedInsertLine movementID productBySKU)"

text \<open>INSERT INTO stock_balances and UPDATE ... WHERE tenant, warehouse and product, under the
  constraints of the table.\<close>

definition newBalance :: "string \<Rightarrow> int \<Rightarrow> skey \<Rightarrow> int \<Rightarrow> database \<Rightarrow> err + unit \<times> database" where
  "newBalance i now k q d =
    (case k of (t, w, p) \<Rightarrow>
     if \<not> is_int32 q then Inl (Raw rangeMsg)
     else if q < 0 then Inl (Raw (checkMsg ''stock_balances_quantity_check''))
     else if list_ex (\<lambda>r. sbrID r = i) (dbBalances d) then Inl (Raw (dupMsg ''stock_balances_pkey''))
     else if findBalance k d \<noteq> None then Inl (Raw (dupMsg ''uq_stock_tenant_warehouse_product''))
     else Inr ((), d\<lparr>dbBalances := dbBalances d @
       [\<lparr>sbrID = i, sbrTenantID = t, sbrWarehouseID = w, sbrProductID = p, sbrQuantity = q,
         sbrReservedQuantity = 0, sbrLastMovementAt = Some now, sbrCreatedAt = now, sbrUpdatedAt = now\<rparr>]\<rparr>))"

definition setBalance :: "int \<Rightarrow> skey \<Rightarrow> int \<Rightarrow> database \<Rightarrow> err + unit \<times> database" where
  "setBalance now k q d =
    (if \<not> is_int32 q then Inl (Raw rangeMsg)
     else if list_ex (\<lambda>r. rowKey r = k \<and> q < 0) (dbBalances d)
     then Inl (Raw (checkMsg ''stock_balances_quantity_check''))
     else if list_ex (\<lambda>r. rowKey r = k \<and> q < sbrReservedQuantity r) (dbBalances d)
     then Inl (Raw (checkMsg ''chk_reserved_lte_quantity''))
     else Inr ((), d\<lparr>dbBalances := updateWhere (\<lambda>r. rowKey r = k)
       (\<lambda>r. r\<lparr>sbrQuantity := q, sbrUpdatedAt := now, sbrLastMovementAt := Some now\<rparr>) (dbBalances d)\<rparr>))"

definition stockDelta :: "string \<Rightarrow> string \<Rightarrow> string \<Rightarrow> int \<Rightarrow> unit seed" where
  "stockDelta t wh p delta =
    bindM (wrapf ''select stock'' (zStmt (onInv (\<lambda>d. Inr (findBalance (t, wh, p) d, d))))) (\<lambda>r.
    bindM zNow (\<lambda>now.
    case r of
      None \<Rightarrow>
        if delta < 0 then throw (Raw (''no stock row for negative delta (wh='' @ wh @ '' prod='' @ p @ '')''))
        else bindM zUUID (\<lambda>i. zStmt (onInv (newBalance i now (t, wh, p) delta)))
    | Some row \<Rightarrow>
        let qty = sbrQuantity row; newQty = wrap64 (qty + delta)
        in if newQty < 0
           then throw (Raw (''stock would go negative (wh='' @ wh @ '' prod='' @ p @ '' qty='' @ Itoa qty
             @ '' delta='' @ Itoa delta @ '')''))
           else zStmt (onInv (setBalance now (t, wh, p) newQty))))"

text \<open>A missing key of a Go map of strings reads as the empty string.\<close>

definition getStr :: "idmap \<Rightarrow> string \<Rightarrow> string" where
  "getStr m k = (case m k of None \<Rightarrow> [] | Some v \<Rightarrow> v)"

definition zDeref :: "'a option \<Rightarrow> 'a seed" where
  "zDeref p = (case p of None \<Rightarrow> throw (Panic ''invalid memory address or nil pointer dereference'') | Some x \<Rightarrow> ret x)"

definition applyConfirmedStock :: "string \<Rightarrow> MovementSeed \<Rightarrow> idmap \<Rightarrow> idmap \<Rightarrow> unit seed" where
  "applyConfirmedStock t mv wh sku =
    (if msType mv = ''inbound'' then
       bindM (zDeref (msDestWHCode mv)) (\<lambda>d.
       forM (msLines mv) (\<lambda>l. stockDelta t (getStr wh d) (getStr sku (msSKU l)) (msQty l)))
     else if msType mv = ''outbound'' then
       bindM (zDeref (msSourceWHCode mv)) (\<lambda>s.
       forM (msLines mv) (\<lambda>l. stockDelta t (getStr wh s) (getStr sku (msSKU l)) (- msQty l)))
     else if msType mv = ''transfer'' then
       bindM (zDeref (msSourceWHCode mv)) (\<lambda>s.
       bindM (zDeref (msDestWHCode mv)) (\<lambda>d.
       forM (msLines mv) (\<lambda>l.
         bindM (stockDelta t (getStr wh s) (getStr sku (msSKU l)) (- msQty l)) (\<lambda>_.
         stockDelta t (getStr wh d) (getStr sku (msSKU l)) (msQty l)))))
     else if msType mv = ''adjustment'' then
       forM (msLines mv) (\<lambda>l. case (msSourceWHCode mv, msDestWHCode mv) of
           (None, Some d) \<Rightarrow> stockDelta t (getStr wh d) (getStr sku (msSKU l)) (msQty l)
         | (Some s, None) \<Rightarrow> stockDelta t (getStr wh s) (getStr sku (msSKU l)) (- msQty l)
         | _ \<Rightarrow> throw (Raw (''adjustment '' @ msReferenceNumber mv @ '': set exactly one of source or dest warehouse'')))
     else throw (Raw (''unknown movement type '' @ quoted (msType mv))))"

definition seedMovement :: "string \<Rightarrow> string \<Rightarrow> idmap \<Rightarrow> idmap \<Rightarrow> MovementSeed \<Rightarrow> unit seed" where
  "seedMovement t createdBy productBySKU warehouseByCode mv =
    bindM (seedInsertMovement t createdBy mv warehouseByCode) (\<lambda>movID.
    bindM (insertMovementLines movID (msLines mv) productBySKU) (\<lambda>_.
    if msStatus mv \<noteq> ''confirmed'' then ret ()
    else wrapf (''movement '' @ msReferenceNumber mv) (applyConfirmedStock t mv warehouseByCode productBySKU)))"

definition seedMovementsAndStock :: "string \<Rightarrow> string \<Rightarrow> idmap \<Rightarrow> idmap \<Rightarrow> unit seed" where
  "seedMovementsAndStock t createdBy productBySKU warehouseByCode =
    bindM (purgeSeedMovements t) (\<lambda>_.
    bindM (resetTenantStock t) (\<lambda>_.
    forM seedMovementScenario (seedMovement t createdBy productBySKU warehouseByCode)))"

section \<open>Audit samples, Run and Rollback\<close>

definition auditSamples :: "(string \<times> string) list" where
  "auditSamples = [(''CREATE'', ''category''), (''UPDATE'', ''product''), (''CONFIRM'', ''movement'')]"

definition seedAuditSamples :: "string \<Rightarrow> string \<Rightarrow> unit seed" where
  "seedAuditSamples t userID = forM auditSamples (\<lambda>(action, entity).
    bindM zUUID (\<lambda>i.
    bindM zUUID (\<lambda>eid.
    bindM zNow (\<lambda>now.
    zStmt (onInv (\<lambda>d.
      if list_ex (\<lambda>r. alrID r = i) (dbAudit d) then Inl (Raw (dupMsg ''audit_logs_pkey''))
      else Inr ((), d\<lparr>dbAudit := dbAudit d @
        [\<lparr>alrID = i, alrTenantID = t, alrUserID = Some userID, alrAction = action, alrEntity = entity,
          alrEntityID = eid, alrBeforeData = Some (JObj []), alrAfterData = Some (JObj [(''seed'', JBool True)]),
          alrIPAddress = None, alrUserAgent = None, alrRequestID = None, alrCreatedAt = now\<rparr>]\<rparr>)))))))"

definition runBody :: "BcryptLib \<Rightarrow> unit seed" where
  "runBody bc =
    bindM seedTenant (\<lambda>tenantID.
    bindM (seedAdminUser bc tenantID) (\<lambda>_.
    bindM (seedExtraUsers bc tenantID) (\<lambda>_.
    bindM (seedCategories tenantID) (\<lambda>categoryIDs.
    bindM (seedProducts tenantID categoryIDs) (\<lambda>_.
    bindM (seedWarehouses tenantID) (\<lambda>_.
    bindM (wrapf ''load products'' (loadProductSKUs tenantID)) (\<lambda>productBySKU.
    bindM (wrapf ''load warehouses'' (loadWarehouseCodes tenantID)) (\<lambda>warehouseByCode.
    bindM (wrapf ''resolve admin user id'' (getUserID tenantID adminEmail)) (\<lambda>adminUserID.
    bindM (seedMovementsAndStock tenantID adminUserID productBySKU warehouseByCode) (\<lambda>_.
    seedAuditSamples tenantID adminUserID))))))))))"

definition Run :: "BcryptLib \<Rightarrow> unit seed" where
  "Run bc = inSeedTx (runBody bc)"

text \<open>DELETE FROM tenants, with everything that references a tenant ON DELETE CASCADE.\<close>

definition deleteTenants :: "(tenantRow \<Rightarrow> bool) \<Rightarrow> seeddb \<Rightarrow> seeddb" where
  "deleteTenants P d =
    (let a = sdAuth d; i = sdInv d; ids = map trID (filter P (adTenants a)); keep = (\<lambda>t. t \<notin> set ids);
         m = deleteMovements (\<lambda>r. \<not> keep (mvrTenantID r)) i
     in \<lparr>sdAuth = \<lparr>adTenants = filter (\<lambda>r. keep (trID r)) (adTenants a),
           adUsers = filter (\<lambda>r. keep (auTenantID r)) (adUsers a),
           adSessions = filter (\<lambda>r. keep (rsTenantID r)) (adSessions a)\<rparr>,
         sdInv = m\<lparr>dbUsers := filter (\<lambda>r. keep (urTenantID r)) (dbUsers i),
           dbWarehouses := filter (\<lambda>r. keep (whrTenantID r)) (dbWarehouses i),
           dbCategories := filter (\<lambda>r. keep (carTenantID r)) (dbCategories i),
           dbProducts := filter (\<lambda>r. keep (prrTenantID r)) (dbProducts i),
           dbBalances := filter (\<lambda>r. keep (sbrTenantID r)) (dbBalances i),
           dbOutbox := filter (\<lambda>r. keep (oerTenantID r)) (dbOutbox i),
           dbAudit := filter (\<lambda>r. keep (alrTenantID r)) (dbAudit i)\<rparr>\<rparr>)"

definition Rollback :: "unit seed" where
  "Rollback = inSeedTx (wrapf ''delete demo tenant'' (zStmt (\<lambda>d. Inr ((), deleteTenants isDemoTenant d))))"

end
