(* ===== verification/Stock_Forward.thy ===== *)
theory Stock_Forward
  imports Confirm
begin

text \<open>
  Completeness of the stock application. The refinement of Movement_Apply says what a successful
  applyStock did; here the converse: without faults it succeeds whenever the postings of the movement
  are feasible. Together they decide by the quantities alone which movements can be confirmed.
\<close>

section \<open>A world in which nothing external fails\<close>

text \<open>No statement fails from here on, identifiers are fresh, and nothing is reserved (no code of the
  repository reserves stock).\<close>

definition stockReady :: "ctx \<Rightarrow> world \<Rightarrow> bool" where
  "stockReady c w \<longleftrightarrow> stockInv c w \<and> (cxTx c \<longrightarrow> wtx w \<noteq> None) \<and> (\<forall>i \<ge> wstmt w. wfault w i = None)
     \<and> inj (wuuid w) \<and> (\<forall>n \<ge> wfresh w. wuuid w n \<notin> sbrID ` set (dbBalances (viewOf (GetDB c) w)))
     \<and> (\<forall>r \<in> set (dbBalances (viewOf (GetDB c) w)). sbrReservedQuantity r = 0)"

lemma stockReady_next:
  "stockReady c w \<Longrightarrow> stockReady c (w\<lparr>wstmt := Suc (wstmt w)\<rparr>)"
  "stockReady c w \<Longrightarrow> stockReady c (w\<lparr>wtick := n\<rparr>)"
  by (auto simp: stockReady_def)

lemma stockReady_fresh:
  "stockReady c w \<Longrightarrow> wfresh w \<le> n \<Longrightarrow> wuuid w n \<notin> sbrID ` set (dbBalances (viewOf (GetDB c) w))"
  by (simp add: stockReady_def)

lemma stmt_forward:
  assumes "stockReady c w" "f (viewOf (GetDB c) w) = Inr (a, d)"
  shows "runStmt (GetDB c) f w = (Inr a, setView (GetDB c) d (w\<lparr>wstmt := Suc (wstmt w)\<rparr>))"
  using assms runStmt_ok [of w "GetDB c" f] by (auto simp: stockReady_def GetDB_def split: if_splits)

lemma setView_env [simp]:
  "wfault (setView h d w) = wfault w" "wuuid (setView h d w) = wuuid w" "wfresh (setView h d w) = wfresh w"
  "wstmt (setView h d w) = wstmt w" "wtick (setView h d w) = wtick w"
  by (cases h; simp add: setView_def)+

lemma stockReady_setView:
  assumes r: "stockReady c w" and ok: "balancesOK d"
    and ids: "sbrID ` set (dbBalances d) \<subseteq> sbrID ` set (dbBalances (viewOf (GetDB c) w)) \<union> wuuid w ` {i. i < wfresh v}"
    and res: "\<forall>r \<in> set (dbBalances d). sbrReservedQuantity r = 0"
    and v: "wfault v = wfault w" "wuuid v = wuuid w" "wfresh w \<le> wfresh v" "wstmt w \<le> wstmt v"
  shows "stockReady c (setView (GetDB c) d v)"
  unfolding stockReady_def stockInv_def viewOf_setView setView_env
proof (intro conjI allI impI)
  show "balancesOK d" "\<forall>r \<in> set (dbBalances d). sbrReservedQuantity r = 0" by (fact ok, fact res)
  show "wtx (setView (GetDB c) d v) \<noteq> None" if "cxTx c" using that by (simp add: setView_def GetDB_def)
  show "wfault v i = None" if "wstmt v \<le> i" for i
    using r v(1,4) that by (simp add: stockReady_def)
  show "inj (wuuid v)" using r v(2) by (simp add: stockReady_def)
  show "wuuid v j \<notin> sbrID ` set (dbBalances d)" if j: "wfresh v \<le> j" for j
  proof
    assume "wuuid v j \<in> sbrID ` set (dbBalances d)"
    then have "wuuid w j \<in> wuuid w ` {i. i < wfresh v}"
      using ids v stockReady_fresh [OF r, of j] j by auto
    then show False using r j by (auto simp: stockReady_def dest: injD)
  qed
qed

section \<open>The repository\<close>

lemma get_forward:
  assumes "stockReady c w" "findBalance (trimKey t wh p) (viewOf (GetDB c) w) = Some row"
  shows "getBalanceRowForUpdate c t wh p w = (Inr row, w\<lparr>wstmt := Suc (wstmt w)\<rparr>)"
proof -
  have "firstStmt (GetDB c) (findBalance (trimKey t wh p)) w =
      (Inr row, setView (GetDB c) (viewOf (GetDB c) w) (w\<lparr>wstmt := Suc (wstmt w)\<rparr>))"
    unfolding firstStmt_def by (rule stmt_forward [OF assms(1)]) (simp add: assms(2))
  moreover have "setView (GetDB c) (viewOf (GetDB c) w) (w\<lparr>wstmt := Suc (wstmt w)\<rparr>) = w\<lparr>wstmt := Suc (wstmt w)\<rparr>"
    using assms(1) by (auto simp: stockReady_def setView_def viewOf_def GetDB_def)
  ultimately show ?thesis by (simp add: getBalanceRowForUpdate_def)
qed

lemma qty_row: "stockQty c w k = Some q \<Longrightarrow> \<exists>row. findBalance k (viewOf (GetDB c) w) = Some row \<and> sbrQuantity row = q"
  by (auto simp: stockQty_def qtyMap_def)

lemma applyQuantity_forward:
  assumes "stockReady c w" "findBalance k (viewOf (GetDB c) w) = Some cur" "sbrID cur = sbrID row" "0 \<le> q" "q \<le> MaxInt32"
  shows "\<exists>w'. applyQuantity c row q w = (Inr (), w') \<and> stockReady c w'"
proof -
  let ?d = "viewOf (GetDB c) w" and ?now = "wtime w (wtick w)" and ?P = "\<lambda>r. sbrID r = sbrID row"
  let ?f = "\<lambda>r. r\<lparr>sbrQuantity := q, sbrUpdatedAt := ?now\<rparr>"
  let ?d' = "?d\<lparr>dbBalances := updateWhere ?P ?f (dbBalances ?d)\<rparr>"
  have ok: "balancesOK ?d" using assms(1) by (simp add: stockReady_def stockInv_def)
  have u: "updateQuantity (sbrID row) q ?now ?d = Inr (countWhere ?P (dbBalances ?d), ?d')"
    using assms by (auto simp: updateQuantity_def stockReady_def list_ex_iff)
  have e: "countWhere ?P (dbBalances ?d) = 1" "balancesOK ?d'"
    using updateQuantity_effect [OF ok assms(2,4,5) u [folded assms(3)]] assms(3) by auto
  let ?w = "w\<lparr>wtick := Suc (wtick w)\<rparr>"
  have r: "stockReady c ?w" by (rule stockReady_next(2) [OF assms(1)])
  have "runStmt (GetDB c) (updateQuantity (sbrID row) q ?now) ?w =
      (Inr 1, setView (GetDB c) ?d' (?w\<lparr>wstmt := Suc (wstmt ?w)\<rparr>))"
    using stmt_forward [OF r, of "updateQuantity (sbrID row) q ?now"] u e(1) by simp
  then have "applyQuantity c row q w = (Inr (), setView (GetDB c) ?d' (w\<lparr>wtick := Suc (wtick w), wstmt := Suc (wstmt w)\<rparr>))"
    using assms(4,5) int32_qty [OF assms(4,5)] by (simp add: applyQuantity_def bindM_def nowUTC_def ret_def)
  moreover have "stockReady c (setView (GetDB c) ?d' (w\<lparr>wtick := Suc (wtick w), wstmt := Suc (wstmt w)\<rparr>))"
  proof (rule stockReady_setView [OF assms(1) e(2)])
    have "map sbrID (dbBalances ?d') = map sbrID (dbBalances ?d)" by (simp add: map_updateWhere)
    then have "sbrID ` set (dbBalances ?d') = sbrID ` set (dbBalances ?d)" by (metis list.set_map)
    then show "sbrID ` set (dbBalances ?d') \<subseteq> sbrID ` set (dbBalances ?d) \<union> wuuid w ` {i. i < wfresh (w\<lparr>wtick := Suc (wtick w), wstmt := Suc (wstmt w)\<rparr>)}" by simp
    show "\<forall>r \<in> set (dbBalances ?d'). sbrReservedQuantity r = 0"
      using assms(1) by (auto simp: set_updateWhere stockReady_def split: if_splits)
  qed simp_all
  ultimately show ?thesis by blast
qed

lemma ApplyDelta_forward:
  assumes "stockReady c w" "stockQty c w (trimKey t wh p) = Some q" "is_int32 n" "0 \<le> q + n" "q + n \<le> MaxInt32"
  shows "\<exists>w'. ApplyDelta c t wh p n w = (Inr (), w') \<and> stockReady c w'"
proof -
  obtain row where row: "findBalance (trimKey t wh p) (viewOf (GetDB c) w) = Some row" "sbrQuantity row = q"
    using qty_row [OF assms(2)] by blast
  let ?w = "w\<lparr>wstmt := Suc (wstmt w)\<rparr>"
  have "stockInv c w" using assms(1) by (simp add: stockReady_def)
  then have "wrap64 (sbrQuantity row + n) = q + n" using sums_int64(1) [OF stockInv_row [OF _ row(1)] assms(3)] row(2) by simp
  moreover have "\<exists>w'. applyQuantity c row (q + n) ?w = (Inr (), w') \<and> stockReady c w'"
    by (rule applyQuantity_forward [OF stockReady_next(1) [OF assms(1)], where k = "trimKey t wh p"])
      (use row(1) assms(4,5) in simp_all)
  ultimately show ?thesis using get_forward [OF assms(1) row(1)] by (simp add: ApplyDelta_def bindM_def Let_def)
qed

lemma insertBalance_rows:
  assumes "insertBalance k i now d = Inr (u, d')"
  shows "dbBalances d' = dbBalances d
    \<or> (\<exists>r. dbBalances d' = dbBalances d @ [r] \<and> sbrID r = i \<and> sbrReservedQuantity r = 0)"
  using assms by (cases k) (auto simp: insertBalance_def split: if_splits)

lemma EnsureBalanceRow_forward:
  assumes "stockReady c w"
  shows "\<exists>sb w'. EnsureBalanceRow c t wh p w = (Inr sb, w') \<and> stockReady c w'"
proof -
  let ?d = "viewOf (GetDB c) w" and ?k = "trimKey t wh p" and ?id = "wuuid w (wfresh w)" and ?now = "wtime w (wtick w)"
  let ?w = "w\<lparr>wfresh := Suc (wfresh w), wtick := Suc (wtick w)\<rparr>"
  have ok: "balancesOK ?d" using assms by (simp add: stockReady_def stockInv_def)
  have r: "stockReady c ?w" using assms by (auto simp: stockReady_def)
  have "\<not> list_ex (\<lambda>r. sbrID r = ?id) (dbBalances ?d)"
    using stockReady_fresh [OF assms order_refl] by (force simp: list_ex_iff)
  then have "\<exists>d. insertBalance ?k ?id ?now ?d = Inr ((), d)"
    by (simp add: insertBalance_def split: prod.split)
  then obtain d where d: "insertBalance ?k ?id ?now ?d = Inr ((), d)" by blast
  note e = insertBalance_effect [OF ok d]
  let ?v = "setView (GetDB c) d (?w\<lparr>wstmt := Suc (wstmt ?w)\<rparr>)"
  have rv: "stockReady c ?v"
  proof (rule stockReady_setView [OF r e(1)])
    have "sbrReservedQuantity x = 0" if "x \<in> set (dbBalances ?d)" for x
      using that assms by (simp add: stockReady_def)
    then show "\<forall>x \<in> set (dbBalances d). sbrReservedQuantity x = 0" using insertBalance_rows [OF d] by auto
    show "sbrID ` set (dbBalances d) \<subseteq> sbrID ` set (dbBalances (viewOf (GetDB c) ?w))
        \<union> wuuid ?w ` {i. i < wfresh (?w\<lparr>wstmt := Suc (wstmt ?w)\<rparr>)}"
      using insertBalance_rows [OF d] by auto
  qed simp_all
  have "runStmt (GetDB c) (insertBalance ?k ?id ?now) ?w = (Inr (), ?v)"
    by (rule stmt_forward [OF r]) (simp add: d)
  moreover obtain row where row: "findBalance ?k (viewOf (GetDB c) ?v) = Some row"
  proof -
    have "qtyMap d ?k \<noteq> None" using e(2) by (cases "qtyMap ?d ?k") simp_all
    then show ?thesis using that by (auto simp: qtyMap_def)
  qed
  ultimately have "EnsureBalanceRow c t wh p w = (Inr (rowToStockBalance row), ?v\<lparr>wstmt := Suc (wstmt ?v)\<rparr>)"
    using get_forward [OF rv row] by (simp add: EnsureBalanceRow_def bindM_def newUUID_def nowUTC_def ret_def)
  then show ?thesis using stockReady_next(1) [OF rv] by blast
qed

lemma idMap_row: "findBalance k d = Some r \<Longrightarrow> idMap d' = idMap d \<Longrightarrow>
    \<exists>r'. findBalance k d' = Some r' \<and> sbrID r' = sbrID r"
  by (metis idMap_def map_option_eq_Some option.simps(9))

lemma TransferDelta_forward:
  assumes r: "stockReady c w" and ne: "TrimSpace src \<noteq> TrimSpace dst" and n: "0 < n" "is_int32 n"
    and qs: "stockQty c w (trimKey t src p) = Some a" "0 \<le> a - n"
    and qd: "stockQty c w (trimKey t dst p) = Some b" "b + n \<le> MaxInt32"
  shows "\<exists>w'. TransferDelta c t src dst p n w = (Inr (), w') \<and> stockReady c w'"
proof -
  let ?v = "viewOf (GetDB c) w" and ?w2 = "w\<lparr>wstmt := Suc (Suc (wstmt w))\<rparr>"
  obtain sr where sr: "findBalance (trimKey t src p) ?v = Some sr" "sbrQuantity sr = a" using qty_row [OF qs(1)] by blast
  obtain dr where dr: "findBalance (trimKey t dst p) ?v = Some dr" "sbrQuantity dr = b" using qty_row [OF qd(1)] by blast
  have inv: "stockInv c w" using r by (simp add: stockReady_def)
  note rs = stockInv_row [OF inv sr(1)] and rd = stockInv_row [OF inv dr(1)]
  have r2: "stockReady c ?w2" using stockReady_next(1) [OF stockReady_next(1) [OF r]] by simp
  obtain w3 where a1: "applyQuantity c sr (a - n) ?w2 = (Inr (), w3)" and r3: "stockReady c w3"
    using applyQuantity_forward [OF r2, of "trimKey t src p" sr sr "a - n"] sr rs n qs(2) by auto
  have inv2: "stockInv c ?w2" and f2: "findBalance (trimKey t src p) (viewOf (GetDB c) ?w2) = Some sr"
    using inv sr by simp_all
  have ids: "idMap (viewOf (GetDB c) w3) = idMap ?v" using applyQuantity_Inr(5) [OF a1 inv2 f2 refl] by simp
  obtain dr3 where "findBalance (trimKey t dst p) (viewOf (GetDB c) w3) = Some dr3" "sbrID dr3 = sbrID dr"
    using idMap_row [OF dr(1) ids] by blast
  then obtain w4 where a2: "applyQuantity c dr (b + n) w3 = (Inr (), w4)" and r4: "stockReady c w4"
    using applyQuantity_forward [OF r3, of "trimKey t dst p" dr3 dr "b + n"] rd dr n qd(2) by auto
  let ?s = "\<lparr>wpkWarehouseID = TrimSpace src, wpkProductID = TrimSpace p\<rparr>"
  let ?d = "\<lparr>wpkWarehouseID = TrimSpace dst, wpkProductID = TrimSpace p\<rparr>"
  have g: "getBalanceRowForUpdate c t (TrimSpace x) (TrimSpace p) u = (Inr row, u\<lparr>wstmt := Suc (wstmt u)\<rparr>)"
    if "stockReady c u" "findBalance (trimKey t x p) (viewOf (GetDB c) u) = Some row" for x u row
    using get_forward [OF that(1), of t "TrimSpace x" "TrimSpace p" row] that(2) by simp
  have key: "sbrWarehouseID sr = TrimSpace src" "sbrProductID sr = TrimSpace p"
    "sbrWarehouseID dr = TrimSpace dst" "sbrProductID dr = TrimSpace p"
    using findBalance_key [OF sr(1)] findBalance_key [OF dr(1)] by (simp_all add: rowKey_def trimKey_def)
  have sums: "wrap64 (a - n) = a - n" "wrap64 (b + n) = b + n"
    using sums_int64(2) [OF rs n(2)] sums_int64(1) [OF rd n(2)] sr(2) dr(2) by simp_all
  have rows: "transferRows (TrimSpace src) (TrimSpace p) sr dr = Inr (sr, dr)"
    "transferRows (TrimSpace src) (TrimSpace p) dr sr = Inr (sr, dr)"
    using key ne by (simp_all add: transferRows_def)
  have r1: "stockReady c (w\<lparr>wstmt := Suc (wstmt w)\<rparr>)" by (rule stockReady_next(1) [OF r])
  have "TransferDelta c t src dst p n w = (Inr (), w4)"
    using OrderedWarehouseProduct_cases [of ?s ?d] n ne a1 a2 rows sums sr dr
      g [OF r, of src sr] g [OF r, of dst dr] g [OF r1, of src sr] g [OF r1, of dst dr]
    by (auto simp: TransferDelta_def Let_def bindM_def)
  then show ?thesis using r4 by blast
qed

section \<open>Lines and movements\<close>

lemma stockReady_inv: "stockReady c w \<Longrightarrow> stockInv c w"
  by (simp add: stockReady_def)

lemma onHand_Some: "stock.onHand c w k \<noteq> 0 \<Longrightarrow> stockQty c w k = Some (stock.onHand c w k)"
  by (auto simp: stock.onHand_def split: option.splits)

lemma inboundLine_forward:
  assumes "stockReady c w" "0 < mlQuantity l" "mlQuantity l \<le> MaxInt32"
    and "feasible t [(dst, mlProductID l, mlQuantity l)] (stock.onHand c w)"
  shows "\<exists>chs w'. inboundLine c stockRepository t dst l w = (Inr chs, w') \<and> stockReady c w'"
proof -
  let ?p = "mlProductID l" and ?n = "mlQuantity l" and ?k = "trimKey t dst (mlProductID l)"
  obtain sb w1 where e: "EnsureBalanceRow c t dst ?p w = (Inr sb, w1)" "stockReady c w1"
    using EnsureBalanceRow_forward [OF assms(1)] by blast
  have e': "srEnsureBalanceRow stockRepository c t dst ?p w = (Inr sb, w1)" using e(1) by (simp add: stockRepository_def)
  have "stockQty c w1 ?k = Some (stock.onHand c w ?k)"
    using stock.ensure_ok [OF stockReady_inv [OF assms(1)] e'] by (auto simp: stock.onHand_def split: option.splits)
  then obtain w2 where "ApplyDelta c t dst ?p ?n w1 = (Inr (), w2)" "stockReady c w2"
    using ApplyDelta_forward [OF e(2), of t dst ?p _ ?n] assms(2-4) int32_pos(1) [OF assms(2,3)]
    by (auto simp: Let_def)
  then show ?thesis using e(1)
    by (simp add: inboundLine_def bindM_def stockRepository_def Let_def ret_def)
qed

lemma decrease_forward:
  assumes r: "stockReady c w" and n: "0 < n" "n \<le> MaxInt32" and f: "feasible t [(src, p, - n)] (stock.onHand c w)"
  shows "\<exists>b w1 w2. GetForUpdate c t src p w = (Inr b, w1) \<and> ApplyDelta c t src p (- n) w1 = (Inr (), w2) \<and> stockReady c w2"
proof -
  let ?k = "trimKey t src p" and ?w1 = "w\<lparr>wstmt := Suc (wstmt w)\<rparr>"
  have q: "stockQty c w ?k = Some (stock.onHand c w ?k)" using onHand_Some [of c w ?k] n(1) f by (auto simp: Let_def)
  obtain row where row: "findBalance ?k (viewOf (GetDB c) w) = Some row" using qty_row [OF q] by blast
  have "GetForUpdate c t src p w = (Inr (rowToStockBalance row), ?w1)"
    using get_forward [OF r row] by (simp add: GetForUpdate_def bindM_def ret_def)
  moreover obtain w2 where "ApplyDelta c t src p (- n) ?w1 = (Inr (), w2)" "stockReady c w2"
    using ApplyDelta_forward [OF stockReady_next(1) [OF r], of t src p "stock.onHand c w ?k" "- n"]
      q f int32_pos(2) [OF n] by (auto simp: Let_def)
  ultimately show ?thesis by blast
qed

lemma outboundLine_forward:
  assumes "stockReady c w" "0 < mlQuantity l" "mlQuantity l \<le> MaxInt32"
    and "feasible t [(src, mlProductID l, - mlQuantity l)] (stock.onHand c w)"
  shows "\<exists>chs w'. outboundLine c stockRepository t src l w = (Inr chs, w') \<and> stockReady c w'"
    "\<exists>chs w'. decreaseLine c stockRepository t src l w = (Inr chs, w') \<and> stockReady c w'"
proof -
  obtain b w1 w2 where g: "GetForUpdate c t src (mlProductID l) w = (Inr b, w1)"
    and a: "ApplyDelta c t src (mlProductID l) (- mlQuantity l) w1 = (Inr (), w2)" and r: "stockReady c w2"
    using decrease_forward [OF assms] by blast
  have "outboundLine c stockRepository t src l w =
      (Inr [change src (mlProductID l) (sbQuantity b) (wrap32 (sbQuantity b - mlQuantity l))], w2)"
    "decreaseLine c stockRepository t src l w =
      (Inr [change src (mlProductID l) (sbQuantity b) (wrap32 (sbQuantity b - mlQuantity l))], w2)"
    using g a by (simp_all add: outboundLine_def decreaseLine_def stockRepository_def bindM_Inr Let_def)
  then show "\<exists>chs w'. outboundLine c stockRepository t src l w = (Inr chs, w') \<and> stockReady c w'"
    "\<exists>chs w'. decreaseLine c stockRepository t src l w = (Inr chs, w') \<and> stockReady c w'"
    using r by blast+
qed

lemma transferLine_forward:
  assumes r: "stockReady c w" and n: "0 < mlQuantity l" "mlQuantity l \<le> MaxInt32" and ne: "TrimSpace src \<noteq> TrimSpace dst"
    and f: "feasible t [(src, mlProductID l, - mlQuantity l), (dst, mlProductID l, mlQuantity l)] (stock.onHand c w)"
  shows "\<exists>chs w'. transferLine c stockRepository t src dst l w = (Inr chs, w') \<and> stockReady c w'"
proof -
  let ?p = "mlProductID l" and ?n = "mlQuantity l"
  let ?ks = "trimKey t src ?p" and ?kd = "trimKey t dst ?p"
  have kne: "?ks \<noteq> ?kd" using ne by (simp add: trimKey_def)
  obtain sb w1 where e: "EnsureBalanceRow c t dst ?p w = (Inr sb, w1)" "stockReady c w1"
    using EnsureBalanceRow_forward [OF r] by blast
  have e': "srEnsureBalanceRow stockRepository c t dst ?p w = (Inr sb, w1)" using e(1) by (simp add: stockRepository_def)
  note q1 = stock.ensure_ok [OF stockReady_inv [OF r] e']
  have qd: "stockQty c w1 ?kd = Some (stock.onHand c w ?kd)"
    using q1 by (auto simp: stock.onHand_def split: option.splits)
  have "stockQty c w ?ks = Some (stock.onHand c w ?ks)" using onHand_Some [of c w ?ks] n f by (auto simp: Let_def)
  then have qs: "stockQty c w1 ?ks = Some (stock.onHand c w ?ks)" using q1 kne by simp
  have "0 \<le> stock.onHand c w ?ks - ?n" "stock.onHand c w ?kd + ?n \<le> MaxInt32" using f kne by (auto simp: Let_def)
  then obtain w2 where t2: "TransferDelta c t src dst ?p ?n w1 = (Inr (), w2)" "stockReady c w2"
    using TransferDelta_forward [OF e(2) ne n(1) int32_pos(1) [OF n] qs _ qd] by blast
  note q2 = TransferDelta_Inr [OF stockReady_inv [OF e(2)] int32_pos(1) [OF n] ne t2(1)]
  obtain a b where "stockQty c w2 ?ks = Some a" "stockQty c w2 ?kd = Some b" using q2 kne by auto
  then obtain s d where sd: "findBalance ?ks (viewOf (GetDB c) w2) = Some s" "findBalance ?kd (viewOf (GetDB c) w2) = Some d"
    using qty_row by meson
  let ?w3 = "w2\<lparr>wstmt := Suc (wstmt w2)\<rparr>"
  have r3: "stockReady c ?w3" by (rule stockReady_next(1) [OF t2(2)])
  have g: "GetForUpdate c t src ?p w2 = (Inr (rowToStockBalance s), ?w3)"
    using get_forward [OF t2(2) sd(1)] by (simp add: GetForUpdate_def bindM_def ret_def)
  have h: "GetForUpdate c t dst ?p ?w3 = (Inr (rowToStockBalance d), ?w3\<lparr>wstmt := Suc (wstmt ?w3)\<rparr>)"
    using get_forward [OF r3, of t dst ?p d] sd(2) by (simp add: GetForUpdate_def bindM_def ret_def)
  have "\<exists>chs. transferLine c stockRepository t src dst l w = (Inr chs, ?w3\<lparr>wstmt := Suc (wstmt ?w3)\<rparr>)"
    using e(1) t2(1) g h by (simp add: transferLine_def stockRepository_def bindM_Inr Let_def)
  then show ?thesis using stockReady_next(1) [OF r3] by blast
qed

lemma collectM_forward:
  assumes "\<And>w l. stockReady c w \<Longrightarrow> l \<in> set ls \<Longrightarrow> feasible t (g l) (stock.onHand c w) \<Longrightarrow>
      \<exists>chs w'. f l w = (Inr chs, w') \<and> stockReady c w'"
    and "\<And>w l chs w'. stockReady c w \<Longrightarrow> l \<in> set ls \<Longrightarrow> f l w = (Inr chs, w') \<Longrightarrow>
      runPostings t (g l) (stock.onHand c w) = (stock.onHand c w', chs)"
    and "stockReady c w" "feasible t (concat (map g ls)) (stock.onHand c w)"
  shows "\<exists>chs w'. collectM ls f w = (Inr chs, w') \<and> stockReady c w'"
  using assms
proof (induction ls arbitrary: w)
  case Nil
  then show ?case by (simp add: ret_def)
next
  case (Cons l ls)
  have fe: "feasible t (g l) (stock.onHand c w)" using Cons.prems(4) by (simp add: feasible_append)
  obtain c1 w1 where f: "f l w = (Inr c1, w1)" "stockReady c w1"
    using Cons.prems(1) [OF Cons.prems(3) _ fe] by auto
  have "runPostings t (g l) (stock.onHand c w) = (stock.onHand c w1, c1)"
    using Cons.prems(2) [OF Cons.prems(3) _ f(1)] by simp
  then have "feasible t (concat (map g ls)) (stock.onHand c w1)" using Cons.prems(4) by (simp add: feasible_append)
  then obtain c2 w2 where "collectM ls f w1 = (Inr c2, w2)" "stockReady c w2"
    using Cons.IH [OF _ _ f(2)] Cons.prems(1,2) by (metis list.set_intros(2))
  then show ?case using f(1) by (simp add: bindM_def ret_def)
qed

lemma applyStock_forward:
  assumes r: "stockReady c w" and ok: "movementOK mv" and f: "feasible t (postings mv) (stock.onHand c w)"
  shows "\<exists>chs w'. applyStock c stockRepository t mv w = (Inr chs, w') \<and> stockReady c w'"
proof -
  let ?src = "the (mvSourceWarehouseID mv)" and ?dst = "the (mvDestinationWarehouseID mv)"
  have q: "0 < mlQuantity l" "mlQuantity l \<le> MaxInt32" if "l \<in> set (mvLines mv)" for l
    using ok that by (auto simp: movementOK_def)
  have chk: "chkMovementWarehouses (mvType mv) (mvSourceWarehouseID mv) (mvDestinationWarehouseID mv)"
    using ok by (simp add: movementOK_def)
  have run: "\<exists>chs w'. collectM (mvLines mv) h w = (Inr chs, w') \<and> stockReady c w'"
    if fwd: "\<And>w l. stockReady c w \<Longrightarrow> l \<in> set (mvLines mv) \<Longrightarrow> feasible t (linePostings mv l) (stock.onHand c w) \<Longrightarrow>
        \<exists>chs w'. h l w = (Inr chs, w') \<and> stockReady c w'"
      and bwd: "\<And>w l chs w'. stockReady c w \<Longrightarrow> l \<in> set (mvLines mv) \<Longrightarrow> h l w = (Inr chs, w') \<Longrightarrow>
        runPostings t (linePostings mv l) (stock.onHand c w) = (stock.onHand c w', chs)" for h
    by (rule collectM_forward [OF fwd bwd r f [unfolded postings_def]])
  consider (inb) "mvType mv = TypeInbound" | (outb) "mvType mv = TypeOutbound" | (tra) "mvType mv = TypeTransfer"
    | (up) "mvType mv = TypeAdjustment" "mvDestinationWarehouseID mv \<noteq> None \<and> mvSourceWarehouseID mv = None"
    | (down) "mvType mv = TypeAdjustment" "\<not> (mvDestinationWarehouseID mv \<noteq> None \<and> mvSourceWarehouseID mv = None)"
    using chk unfolding chkMovementWarehouses_def by metis
  then show ?thesis
  proof cases
    case inb
    then have g: "linePostings mv l = [(?dst, mlProductID l, mlQuantity l)]" for l by (simp add: linePostings_def Let_def)
    have "\<exists>chs w'. collectM (mvLines mv) (inboundLine c stockRepository t ?dst) w = (Inr chs, w') \<and> stockReady c w'"
      by (rule run) (use inboundLine_forward q stock.inboundLine_ok stockReady_inv g in metis)+
    then show ?thesis using inb chk
      by (auto simp: applyStock_def applyInbound_def chkMovementWarehouses_def type_defs deref_def)
  next
    case outb
    then have g: "linePostings mv l = [(?src, mlProductID l, - mlQuantity l)]" for l by (simp add: linePostings_def type_defs Let_def)
    have "\<exists>chs w'. collectM (mvLines mv) (outboundLine c stockRepository t ?src) w = (Inr chs, w') \<and> stockReady c w'"
      by (rule run) (use outboundLine_forward(1) q stock.outboundLine_ok stockReady_inv g in metis)+
    then show ?thesis using outb chk
      by (auto simp: applyStock_def applyOutbound_def chkMovementWarehouses_def type_defs deref_def)
  next
    case tra
    then have g: "linePostings mv l = [(?src, mlProductID l, - mlQuantity l), (?dst, mlProductID l, mlQuantity l)]" for l
      by (simp add: linePostings_def type_defs Let_def)
    have ne: "TrimSpace ?src \<noteq> TrimSpace ?dst" using ok tra by (simp add: movementOK_def)
    have "\<exists>chs w'. collectM (mvLines mv) (transferLine c stockRepository t ?src ?dst) w = (Inr chs, w') \<and> stockReady c w'"
      by (rule run) (use transferLine_forward q ne stock.transferLine_ok stockReady_inv g in metis)+
    then show ?thesis using tra chk
      by (auto simp: applyStock_def applyTransfer_def chkMovementWarehouses_def type_defs deref_def)
  next
    case up
    then have g: "linePostings mv l = [(?dst, mlProductID l, mlQuantity l)]" for l by (simp add: linePostings_def type_defs Let_def)
    have "\<exists>chs w'. collectM (mvLines mv) (inboundLine c stockRepository t ?dst) w = (Inr chs, w') \<and> stockReady c w'"
      by (rule run) (use inboundLine_forward q stock.inboundLine_ok stockReady_inv g in metis)+
    then show ?thesis using up
      by (auto simp: applyStock_def applyAdjustment_def type_defs deref_def)
  next
    case down
    have src: "mvSourceWarehouseID mv \<noteq> None" using down chk by (auto simp: chkMovementWarehouses_def type_defs)
    have g: "linePostings mv l = [(?src, mlProductID l, - mlQuantity l)]" for l
      using down(1) src by (auto simp: linePostings_def type_defs Let_def)
    have "\<exists>chs w'. collectM (mvLines mv) (decreaseLine c stockRepository t ?src) w = (Inr chs, w') \<and> stockReady c w'"
      by (rule run) (use outboundLine_forward(2) q stock.decreaseLine_ok stockReady_inv g in metis)+
    then show ?thesis using down(1) src
      by (auto simp: applyStock_def applyAdjustment_def type_defs deref_def)
  qed
qed

text \<open>Without faults the quantities decide.\<close>

lemma applyStock_decided:
  assumes "stockReady c w" "movementOK mv"
  shows "(\<exists>chs w'. applyStock c stockRepository t mv w = (Inr chs, w')) \<longleftrightarrow> feasible t (postings mv) (stock.onHand c w)"
  using applyStock_forward [OF assms] stock.applyStock_refines [OF stockReady_inv [OF assms(1)] assms(2)] by blast

end
