(* ===== verification/Seed_Laws.thy ===== *)
theory Seed_Laws
  imports Seed Stock_Forward
begin

text \<open>
  The seed command beside the service. The comment of stockDelta promises the net effect of the
  domain's applyStock: both are run on the same quantities and compared, through the postings of
  Movement_Apply. The second part follows a run of the command over a soft-deleted product.
\<close>

section \<open>The statements of stockDelta\<close>

text \<open>The open transaction d, no fault ahead, fresh identifiers, nothing reserved.\<close>

definition seedReady :: "sworld \<Rightarrow> seeddb \<Rightarrow> bool" where
  "seedReady z d \<longleftrightarrow> ztx z = Some d \<and> balancesOK (sdInv d) \<and> (\<forall>i \<ge> zstmt z. zfault z i = None) \<and> inj (zuuid z)
     \<and> (\<forall>n \<ge> zfresh z. zuuid z n \<notin> sbrID ` set (dbBalances (sdInv d)))
     \<and> (\<forall>r \<in> set (dbBalances (sdInv d)). sbrReservedQuantity r = 0)"

lemma zStmt_ready: "seedReady z d \<Longrightarrow> zStmt f z = (case f d of
      Inl e \<Rightarrow> (Inl e, z\<lparr>zstmt := Suc (zstmt z)\<rparr>)
    | Inr (a, d') \<Rightarrow> (Inr a, z\<lparr>zstmt := Suc (zstmt z), ztx := Some d'\<rparr>))"
  by (auto simp: zStmt_def seedReady_def split: sum.splits)

lemma select_ready:
  "seedReady z d \<Longrightarrow> zStmt (onInv (\<lambda>d. Inr (q d, d))) z = (Inr (q (sdInv d)), z\<lparr>zstmt := Suc (zstmt z)\<rparr>)"
  by (cases z; cases d) (simp add: zStmt_ready onInv_def, simp add: seedReady_def)

lemma write_ready:
  "seedReady z d \<Longrightarrow> f (sdInv d) = Inr (a, i) \<Longrightarrow>
    zStmt (onInv f) z = (Inr a, z\<lparr>zstmt := Suc (zstmt z), ztx := Some (d\<lparr>sdInv := i\<rparr>)\<rparr>)"
  by (simp add: zStmt_ready onInv_def)

lemma seedReady_to:
  assumes r: "seedReady z d" and b: "dbBalances (sdInv d') = bs" "balancesOK (sdInv d')"
    and ids: "sbrID ` set bs \<subseteq> sbrID ` set (dbBalances (sdInv d)) \<union> zuuid z ` {i. i < zfresh v}"
    and res: "\<forall>r \<in> set bs. sbrReservedQuantity r = 0"
    and v: "ztx v = Some d'" "zfault v = zfault z" "zuuid v = zuuid z" "zfresh z \<le> zfresh v" "zstmt z \<le> zstmt v"
  shows "seedReady v d'"
  unfolding seedReady_def b(1) v(2,3)
proof (intro conjI allI impI)
  show "ztx v = Some d'" "balancesOK (sdInv d')" "\<forall>r \<in> set bs. sbrReservedQuantity r = 0" by (fact v(1), fact b(2), fact res)
  show "zfault z i = None" if "zstmt v \<le> i" for i using r v(5) that by (simp add: seedReady_def)
  show "inj (zuuid z)" using r by (simp add: seedReady_def)
  show "zuuid z j \<notin> sbrID ` set bs" if j: "zfresh v \<le> j" for j
  proof
    assume "zuuid z j \<in> sbrID ` set bs"
    moreover have "zuuid z j \<notin> sbrID ` set (dbBalances (sdInv d))" using r v(4) j by (simp add: seedReady_def)
    ultimately have "zuuid z j \<in> zuuid z ` {i. i < zfresh v}" using ids by blast
    then show False using r j by (auto simp: seedReady_def dest: injD)
  qed
qed

lemma newBalance_effect:
  assumes "balancesOK d" "newBalance i now k q d = Inr (u, d')" "findBalance k d = None"
  shows "balancesOK d'" "onHandOf d' = (onHandOf d)(k := q)"
    "\<exists>r. dbBalances d' = dbBalances d @ [r] \<and> sbrID r = i \<and> sbrReservedQuantity r = 0"
proof -
  obtain t w p where k: "k = (t, w, p)" by (cases k)
  show "\<exists>r. dbBalances d' = dbBalances d @ [r] \<and> sbrID r = i \<and> sbrReservedQuantity r = 0"
    using assms(2) unfolding k by (auto simp: newBalance_def split: if_splits)
  show "balancesOK d'"
    using assms unfolding k balancesOK_def newBalance_def findBalance_def
    by (auto simp: list_ex_iff find_None_iff rowKey_def MaxInt32_def is_int32_def split: if_splits)
  show "onHandOf d' = (onHandOf d)(k := q)"
    using assms(2,3) unfolding k
    by (auto simp: onHandOf_def qtyMap_def newBalance_def findBalance_def find_append rowKey_def fun_eq_iff
        split: if_splits option.splits)
qed

lemma setBalance_effect:
  assumes ok: "balancesOK d" and row: "findBalance k d = Some row" and q: "0 \<le> q" "q \<le> MaxInt32"
    and s: "setBalance now k q d = Inr (u, d')"
  shows "balancesOK d'" "onHandOf d' = (onHandOf d)(k := q)"
    "map sbrID (dbBalances d') = map sbrID (dbBalances d)"
    "map sbrReservedQuantity (dbBalances d') = map sbrReservedQuantity (dbBalances d)"
proof -
  let ?P = "\<lambda>r. rowKey r = k" and ?f = "\<lambda>r. r\<lparr>sbrQuantity := q, sbrUpdatedAt := now, sbrLastMovementAt := Some now\<rparr>"
  have d': "d' = d\<lparr>dbBalances := updateWhere ?P ?f (dbBalances d)\<rparr>"
    and res: "\<forall>r \<in> set (dbBalances d). rowKey r = k \<longrightarrow> sbrReservedQuantity r \<le> q"
    using s by (auto simp: setBalance_def list_ex_iff not_less split: if_splits)
  have maps: "map sbrID (updateWhere ?P ?f (dbBalances d)) = map sbrID (dbBalances d)"
    "map rowKey (updateWhere ?P ?f (dbBalances d)) = map rowKey (dbBalances d)"
    "map sbrReservedQuantity (updateWhere ?P ?f (dbBalances d)) = map sbrReservedQuantity (dbBalances d)"
    by (rule map_updateWhere; simp add: rowKey_def)+
  show "map sbrID (dbBalances d') = map sbrID (dbBalances d)"
    "map sbrReservedQuantity (dbBalances d') = map sbrReservedQuantity (dbBalances d)" using maps d' by simp_all
  show "balancesOK d'" using ok res q unfolding balancesOK_def d'
    by (simp add: maps) (auto simp: set_updateWhere split: if_splits)
  have "findBalance k' d' = map_option (\<lambda>r. if ?P r then ?f r else r) (findBalance k' d)" for k'
    unfolding findBalance_def d' by (simp add: find_updateWhere_same rowKey_def)
  then show "onHandOf d' = (onHandOf d)(k := q)"
    using row findBalance_key by (fastforce simp: onHandOf_def qtyMap_def fun_eq_iff split: option.splits)
qed

lemma select_wrapped:
  "seedReady z d \<Longrightarrow> wrapf msg (zStmt (onInv (\<lambda>d. Inr (q d, d)))) z = (Inr (q (sdInv d)), z\<lparr>zstmt := Suc (zstmt z)\<rparr>)"
  by (simp add: wrapf_def bindM_def tryM_def ret_def select_ready)

lemma onHandOf_row: "findBalance k d = Some row \<Longrightarrow> onHandOf d k = sbrQuantity row"
  "findBalance k d = None \<Longrightarrow> onHandOf d k = 0"
  by (simp_all add: onHandOf_def qtyMap_def)

text \<open>stockDelta posts if the quantity stays within the column, and fails otherwise.\<close>

lemma stockDelta_new:
  assumes r: "seedReady z d" and none: "findBalance (t, wh, p) (sdInv d) = None" and n: "0 \<le> n" "n \<le> MaxInt32"
  shows "\<exists>z' d'. stockDelta t wh p n z = (Inr (), z') \<and> seedReady z' d'
    \<and> onHandOf (sdInv d') = (onHandOf (sdInv d))((t, wh, p) := n)"
proof -
  let ?k = "(t, wh, p)" and ?i = "zuuid z (zfresh z)" and ?z1 = "z\<lparr>zstmt := Suc (zstmt z)\<rparr>"
  let ?z2 = "?z1\<lparr>zfresh := Suc (zfresh z)\<rparr>"
  have b: "balancesOK (sdInv d)" using r by (simp add: seedReady_def)
  have "\<not> list_ex (\<lambda>r. sbrID r = ?i) (dbBalances (sdInv d))"
    using r by (force simp: seedReady_def list_ex_iff)
  then have "\<exists>i'. newBalance ?i (znow z) ?k n (sdInv d) = Inr ((), i')"
    using n none int32_qty [OF n] by (auto simp: newBalance_def is_int32_def MaxInt32_def)
  then obtain i' where i': "newBalance ?i (znow z) ?k n (sdInv d) = Inr ((), i')" by blast
  note e = newBalance_effect [OF b i' none]
  let ?d' = "d\<lparr>sdInv := i'\<rparr>" and ?z3 = "?z2\<lparr>zstmt := Suc (zstmt ?z2), ztx := Some (d\<lparr>sdInv := i'\<rparr>)\<rparr>"
  have r2: "seedReady ?z2 d" using r by (simp add: seedReady_def)
  have s1: "wrapf msg (zStmt (onInv (\<lambda>d. Inr (findBalance ?k d, d)))) z = (Inr None, ?z1)" for msg
    using select_wrapped [OF r, where q = "findBalance ?k"] none by simp
  have s2: "zStmt (onInv (newBalance ?i (znow z) ?k n)) ?z2 = (Inr (), ?z3)"
    by (rule write_ready) (fact r2, fact i')
  have "stockDelta t wh p n z = (Inr (), ?z3)"
    using n(1) s2 s1
    by (simp add: stockDelta_def bindM_def zNow_def zUUID_def)
  moreover have "seedReady ?z3 ?d'"
  proof (rule seedReady_to [OF r])
    show "\<forall>x \<in> set (dbBalances i'). sbrReservedQuantity x = 0" using e(3) r by (auto simp: seedReady_def)
    show "sbrID ` set (dbBalances i') \<subseteq> sbrID ` set (dbBalances (sdInv d)) \<union> zuuid z ` {i. i < zfresh ?z3}"
      using e(3) by auto
  qed (use e(1) in simp_all)
  moreover have "onHandOf (sdInv ?d') = (onHandOf (sdInv d))(?k := n)" using e(2) by simp
  ultimately show ?thesis by blast
qed

lemma stockDelta_old:
  assumes r: "seedReady z d" and row: "findBalance (t, wh, p) (sdInv d) = Some row" and n: "is_int32 n"
    and q: "0 \<le> sbrQuantity row + n" "sbrQuantity row + n \<le> MaxInt32"
  shows "\<exists>z' d'. stockDelta t wh p n z = (Inr (), z') \<and> seedReady z' d'
    \<and> onHandOf (sdInv d') = (onHandOf (sdInv d))((t, wh, p) := sbrQuantity row + n)"
proof -
  let ?k = "(t, wh, p)" and ?z1 = "z\<lparr>zstmt := Suc (zstmt z)\<rparr>" and ?q = "sbrQuantity row + n"
  have b: "balancesOK (sdInv d)" using r by (simp add: seedReady_def)
  have range: "0 \<le> sbrQuantity row" "sbrQuantity row \<le> MaxInt32"
    using b findBalance_key [OF row] by (force simp: balancesOK_def)+
  have w: "wrap64 ?q = ?q" by (rule sums_int64(1) [OF range n])
  have "\<exists>i'. setBalance (znow z) ?k ?q (sdInv d) = Inr ((), i')"
    using r q by (auto simp: setBalance_def is_int32_def MaxInt32_def list_ex_iff seedReady_def)
  then obtain i' where i': "setBalance (znow z) ?k ?q (sdInv d) = Inr ((), i')" by blast
  note e = setBalance_effect [OF b row q i']
  let ?d' = "d\<lparr>sdInv := i'\<rparr>" and ?z3 = "?z1\<lparr>zstmt := Suc (zstmt ?z1), ztx := Some (d\<lparr>sdInv := i'\<rparr>)\<rparr>"
  have r1: "seedReady ?z1 d" using r by (simp add: seedReady_def)
  have s1: "wrapf msg (zStmt (onInv (\<lambda>d. Inr (findBalance ?k d, d)))) z = (Inr (Some row), ?z1)" for msg
    using select_wrapped [OF r, where q = "findBalance ?k"] row by simp
  have s2: "zStmt (onInv (setBalance (znow z) ?k ?q)) ?z1 = (Inr (), ?z3)"
    by (rule write_ready) (fact r1, fact i')
  have "stockDelta t wh p n z = (Inr (), ?z3)"
    using q(1) s2 w s1 by (simp add: stockDelta_def bindM_def zNow_def Let_def)
  moreover have "seedReady ?z3 ?d'"
  proof (rule seedReady_to [OF r])
    have "sbrReservedQuantity ` set (dbBalances i') = sbrReservedQuantity ` set (dbBalances (sdInv d))"
      "sbrID ` set (dbBalances i') = sbrID ` set (dbBalances (sdInv d))" using e(3,4) by (metis list.set_map)+
    then show "sbrID ` set (dbBalances i') \<subseteq> sbrID ` set (dbBalances (sdInv d)) \<union> zuuid z ` {i. i < zfresh ?z3}" by simp
    have "set (map sbrReservedQuantity (dbBalances i')) = set (map sbrReservedQuantity (dbBalances (sdInv d)))"
      using e(4) by simp
    then show "\<forall>x \<in> set (dbBalances i'). sbrReservedQuantity x = 0" using r by (force simp: seedReady_def)
  qed (use e(1) in simp_all)
  moreover have "onHandOf (sdInv ?d') = (onHandOf (sdInv d))(?k := ?q)" using e(2) by simp
  ultimately show ?thesis by blast
qed

lemma zStmt_Inl: "seedReady z d \<Longrightarrow> f d = Inl e \<Longrightarrow> zStmt f z = (Inl e, z\<lparr>zstmt := Suc (zstmt z)\<rparr>)"
  by (simp add: zStmt_ready)

lemma stockDelta_run:
  assumes r: "seedReady z d" and n: "is_int32 n"
  shows "if 0 \<le> onHandOf (sdInv d) (t, wh, p) + n \<and> onHandOf (sdInv d) (t, wh, p) + n \<le> MaxInt32
    then \<exists>z' d'. stockDelta t wh p n z = (Inr (), z') \<and> seedReady z' d'
      \<and> onHandOf (sdInv d') = (onHandOf (sdInv d))((t, wh, p) := onHandOf (sdInv d) (t, wh, p) + n)
    else \<exists>e z'. stockDelta t wh p n z = (Inl e, z')"
proof (cases "findBalance (t, wh, p) (sdInv d)")
  case None
  then show ?thesis
  proof (cases "n < 0")
    case True
    have "wrapf msg (zStmt (onInv (\<lambda>d. Inr (findBalance (t, wh, p) d, d)))) z = (Inr None, z\<lparr>zstmt := Suc (zstmt z)\<rparr>)" for msg
      using select_wrapped [OF r, where q = "findBalance (t, wh, p)"] None by simp
    from this True None show ?thesis
      by (simp add: stockDelta_def bindM_def zNow_def throw_def onHandOf_row)
  next
    case False
    then have "n \<le> MaxInt32" using n by (simp add: is_int32_def MaxInt32_def)
    with False stockDelta_new [OF r None] None show ?thesis by (simp add: onHandOf_row)
  qed
next
  case (Some row)
  let ?q = "sbrQuantity row + n" and ?z1 = "z\<lparr>zstmt := Suc (zstmt z)\<rparr>"
  have "balancesOK (sdInv d)" using r by (simp add: seedReady_def)
  then have range: "0 \<le> sbrQuantity row" "sbrQuantity row \<le> MaxInt32"
    using findBalance_key [OF Some] by (force simp: balancesOK_def)+
  have w: "wrap64 ?q = ?q" by (rule sums_int64(1) [OF range n])
  show ?thesis
  proof (cases "0 \<le> ?q \<and> ?q \<le> MaxInt32")
    case True
    then show ?thesis using stockDelta_old [OF r Some n] Some by (simp add: onHandOf_row)
  next
    case False
    have r1: "seedReady ?z1 d" using r by (simp add: seedReady_def)
    have s1: "wrapf msg (zStmt (onInv (\<lambda>d. Inr (findBalance (t, wh, p) d, d)))) z = (Inr (Some row), ?z1)" for msg
      using select_wrapped [OF r, where q = "findBalance (t, wh, p)"] Some by simp
    have "\<not> is_int32 ?q" if "\<not> ?q < 0" using that False by (simp add: is_int32_def MaxInt32_def)
    then have "\<exists>e z'. stockDelta t wh p n z = (Inl e, z')"
      using s1 w zStmt_Inl [OF r1, of "onInv (setBalance (znow z) (t, wh, p) ?q)"]
      by (cases "?q < 0") (simp_all add: stockDelta_def bindM_def zNow_def Let_def throw_def onInv_def setBalance_def)
    then show ?thesis using False Some by (auto simp: onHandOf_row)
  qed
qed

section \<open>Postings\<close>

definition postAll :: "string \<Rightarrow> posting list \<Rightarrow> unit seed" where
  "postAll t ps = forM ps (\<lambda>(w, p, n). stockDelta t w p n)"

definition trimmedPosting :: "posting \<Rightarrow> bool" where
  "trimmedPosting x = (case x of (w, p, n) \<Rightarrow> TrimSpace w = w \<and> TrimSpace p = p \<and> is_int32 n)"

lemma postAll_run:
  assumes "TrimSpace t = t" "list_all trimmedPosting ps" "seedReady z d"
  shows "if feasible t ps (onHandOf (sdInv d))
    then \<exists>z' d'. postAll t ps z = (Inr (), z') \<and> seedReady z' d'
      \<and> onHandOf (sdInv d') = fst (runPostings t ps (onHandOf (sdInv d)))
    else \<exists>e z'. postAll t ps z = (Inl e, z')"
  using assms(2,3)
proof (induction ps arbitrary: z d)
  case Nil
  then show ?case by (auto simp: postAll_def ret_def)
next
  case (Cons x ps)
  obtain w p n where x: "x = (w, p, n)" by (cases x)
  have tr: "trimKey t w p = (t, w, p)" "is_int32 n" using Cons.prems(1) assms(1) x by (simp_all add: trimmedPosting_def trimKey_def)
  let ?q = "onHandOf (sdInv d)" and ?k = "(t, w, p)"
  have unfold: "postAll t (x # ps) z = bindM (stockDelta t w p n) (\<lambda>_. postAll t ps) z" by (simp add: postAll_def x)
  define q' where "q' = ?q(?k := ?q ?k + n)"
  obtain q1 cs where rp: "runPostings t ps q' = (q1, cs)" by fastforce
  have f: "feasible t (x # ps) ?q \<longleftrightarrow> 0 \<le> ?q ?k + n \<and> ?q ?k + n \<le> MaxInt32 \<and> feasible t ps q'"
    unfolding x feasible.simps Let_def tr(1) q'_def ..
  have g: "fst (runPostings t (x # ps) ?q) = q1"
    unfolding x runPostings.simps Let_def tr(1) rp [unfolded q'_def] by simp
  show ?case
  proof (cases "0 \<le> ?q ?k + n \<and> ?q ?k + n \<le> MaxInt32")
    case False
    then have "\<exists>e z'. stockDelta t w p n z = (Inl e, z')"
      using stockDelta_run [OF Cons.prems(2) tr(2), of t w p] by (auto split: if_splits)
    then obtain e z' where "stockDelta t w p n z = (Inl e, z')" by blast
    then show ?thesis using False f by (auto simp: unfold bindM_def)
  next
    case True
    then obtain z1 d1 where s: "stockDelta t w p n z = (Inr (), z1)" "seedReady z1 d1"
      and q: "onHandOf (sdInv d1) = q'"
      using stockDelta_run [OF Cons.prems(2) tr(2), of t w p] unfolding q'_def by auto
    have "postAll t (x # ps) z = postAll t ps z1" using s(1) by (simp add: unfold bindM_def)
    then show ?thesis using Cons.IH [OF _ s(2)] Cons.prems(1) True f g rp unfolding q by (auto split: if_splits)
  qed
qed

text \<open>The movement that a seeded one is for the service: the row as it is read back, with the
  identifiers that the maps give for warehouse codes and SKUs.\<close>

definition asMovement :: "string \<Rightarrow> MovementSeed \<Rightarrow> idmap \<Rightarrow> idmap \<Rightarrow> Movement" where
  "asMovement t mv wh sku =
    \<lparr>mvID = [], mvTenantID = t, mvType = msType mv, mvReferenceNumber = msReferenceNumber mv,
     mvSourceWarehouseID = map_option (getStr wh) (msSourceWHCode mv),
     mvDestinationWarehouseID = map_option (getStr wh) (msDestWHCode mv), mvCreatedBy = [],
     mvStatus = msStatus mv, mvNotes = nullIfEmpty (msNotes mv), mvIdempotencyKey = nullIfEmpty (msIdempotencyKey mv),
     mvIdempotencyRequestHash = None,
     mvLines = map (\<lambda>l. \<lparr>mlID = [], mlMovementID = [], mlProductID = getStr sku (msSKU l), mlQuantity = msQty l,
       mlNotes = None, mlCreatedAt = 0\<rparr>) (msLines mv), mvCreatedAt = 0, mvUpdatedAt = 0\<rparr>"

lemma bind_ret: "bindM m ret = m"
  by (rule ext) (auto simp: bindM_def ret_def split: prod.splits sum.splits)

lemma forM_append: "forM (xs @ ys) f = bindM (forM xs f) (\<lambda>_. forM ys f)"
  by (induction xs) (simp_all add: bindM_assoc)

lemma forM_concat: "forM (concat (map g xs)) f = forM xs (\<lambda>x. forM (g x) f)"
  by (induction xs) (simp_all add: forM_append)

lemma forM_map: "forM (map g xs) f = forM xs (\<lambda>x. f (g x))"
  by (induction xs) simp_all

lemma applyConfirmedStock_posts:
  assumes "movementOK (asMovement t mv wh sku)" "\<not> (msType mv = ''adjustment'' \<and> msSourceWHCode mv \<noteq> None \<and> msDestWHCode mv \<noteq> None)"
  shows "applyConfirmedStock t mv wh sku = postAll t (postings (asMovement t mv wh sku))"
proof -
  have chk: "chkMovementWarehouses (msType mv) (map_option (getStr wh) (msSourceWHCode mv)) (map_option (getStr wh) (msDestWHCode mv))"
    using assms(1) by (simp add: movementOK_def asMovement_def)
  have p: "postAll t (postings (asMovement t mv wh sku)) =
      forM (msLines mv) (\<lambda>l. postAll t (linePostings (asMovement t mv wh sku)
        \<lparr>mlID = [], mlMovementID = [], mlProductID = getStr sku (msSKU l), mlQuantity = msQty l, mlNotes = None, mlCreatedAt = 0\<rparr>))"
    by (simp add: postAll_def postings_def forM_concat asMovement_def forM_map)
  show ?thesis unfolding p
    using chk assms(2)
    by (cases "msSourceWHCode mv"; cases "msDestWHCode mv")
      (auto simp: applyConfirmedStock_def chkMovementWarehouses_def type_defs linePostings_def asMovement_def postAll_def
        zDeref_def bind_ret Let_def)
qed

text \<open>C36: The seed posts like the service. Take a movement of the seed scenario's kind, of any type and
  with any lines, whose codes and SKUs are resolved to trimmed identifiers and whose row the service
  accepts (an adjustment names one warehouse), and let the seed's transaction and the service's
  database hold the same quantities. Then, as long as no statement fails, either both
  applyConfirmedStock of the seed and applyStock of the service succeed, and leave the same quantity
  on hand for every tenant, warehouse and product; or both refuse the movement.\<close>

theorem seed_posts_like_service:
  assumes "movementOK (asMovement t mv wh sku)"
    and "\<not> (msType mv = ''adjustment'' \<and> msSourceWHCode mv \<noteq> None \<and> msDestWHCode mv \<noteq> None)"
    and "TrimSpace t = t" "list_all trimmedPosting (postings (asMovement t mv wh sku))"
    and "seedReady z d" "stockReady c w" "onHandOf (viewOf (GetDB c) w) = onHandOf (sdInv d)"
  shows "(\<exists>chs w' z' d'. applyStock c stockRepository t (asMovement t mv wh sku) w = (Inr chs, w')
      \<and> applyConfirmedStock t mv wh sku z = (Inr (), z') \<and> ztx z' = Some d'
      \<and> onHandOf (sdInv d') = onHandOf (viewOf (GetDB c) w'))
    \<or> (\<exists>e w' e' z'. applyStock c stockRepository t (asMovement t mv wh sku) w = (Inl e, w')
      \<and> applyConfirmedStock t mv wh sku z = (Inl e', z'))"
proof -
  let ?m = "asMovement t mv wh sku" and ?q = "onHandOf (sdInv d)"
  have q: "stock.onHand c w = ?q" using assms(7) by (simp add: onHand_view)
  note seed = postAll_run [OF assms(3-5)] applyConfirmedStock_posts [OF assms(1,2)]
  show ?thesis
  proof (cases "feasible t (postings ?m) ?q")
    case True
    then obtain chs w' where a: "applyStock c stockRepository t ?m w = (Inr chs, w')"
      using applyStock_decided [OF assms(6,1), where t = t] q by auto
    then have "onHandOf (viewOf (GetDB c) w') = fst (runPostings t (postings ?m) ?q)"
      using stock.applyStock_refines [OF stockReady_inv [OF assms(6)] assms(1) a] q by (simp add: onHand_view)
    moreover obtain z' d' where "applyConfirmedStock t mv wh sku z = (Inr (), z')" "seedReady z' d'"
      "onHandOf (sdInv d') = fst (runPostings t (postings ?m) ?q)" using seed True by auto
    ultimately show ?thesis using a unfolding seedReady_def by metis
  next
    case False
    then have "\<not> (\<exists>chs w'. applyStock c stockRepository t ?m w = (Inr chs, w'))"
      using applyStock_decided [OF assms(6,1), where t = t] q by simp
    then obtain e w' where "applyStock c stockRepository t ?m w = (Inl e, w')"
      by (cases "applyStock c stockRepository t ?m w"; cases "fst (applyStock c stockRepository t ?m w)") auto
    moreover obtain e' z' where "applyConfirmedStock t mv wh sku z = (Inl e', z')" using seed False by auto
    ultimately show ?thesis by blast
  qed
qed

definition sampleSeedWorld :: sworld where
  "sampleSeedWorld =
    (let d = \<lparr>sdAuth = \<lparr>adTenants = [], adUsers = [], adSessions = []\<rparr>, sdInv = sampleDB\<rparr>
     in \<lparr>zdb = d, ztx = Some d, zstmt = 0, zfault = (\<lambda>_. None), zpick = (\<lambda>_. 0), znow = 0, ztick = 0,
       ztime = (\<lambda>i. int i), zfresh = 0, zuuid = (\<lambda>n. replicate (Suc n) (CHR ''z'')), zjsonb = (\<lambda>s. s)\<rparr>)"

definition sampleCodes :: idmap where
  "sampleCodes = [''A'' \<mapsto> ''w1'', ''B'' \<mapsto> ''w2'', ''S'' \<mapsto> ''p1'']"

definition sampleSeed :: MovementSeed where
  "sampleSeed = \<lparr>msReferenceNumber = ''SEED-TR-009'', msType = ''transfer'', msStatus = ''confirmed'',
     msSourceWHCode = Some ''A'', msDestWHCode = Some ''B'', msLines = [\<lparr>msSKU = ''S'', msQty = 4\<rparr>, \<lparr>msSKU = ''S'', msQty = 5\<rparr>],
     msIdempotencyKey = [], msNotes = []\<rparr>"

lemma sample_stock:
  "balancesOK sampleDB" "list_all (\<lambda>r. sbrReservedQuantity r = 0) (dbBalances sampleDB)"
  "map sbrID (dbBalances sampleDB) = [''b1'', ''b2'']"
  by (simp_all add: balancesOK_def sampleDB_def sampleBal_def rowKey_def MaxInt32_def)

lemma sample_seed_ready:
  "stockReady sampleCtx sampleWorld"
  "seedReady sampleSeedWorld \<lparr>sdAuth = \<lparr>adTenants = [], adUsers = [], adSessions = []\<rparr>, sdInv = sampleDB\<rparr>"
proof -
  have ids: "sbrID ` set (dbBalances sampleDB) = {''b1'', ''b2''}"
    using sample_stock(3) by (metis list.set_map list.simps(15) set_empty empty_set)
  have j: "inj (\<lambda>n. replicate (Suc n) a)" for a :: char
    by (rule injI) (metis length_replicate nat.inject)
  have v: "viewOf (GetDB sampleCtx) sampleWorld = sampleDB"
    by (simp add: GetDB_def viewOf_def sampleWorld_def sampleWorldOf_def)
  have r: "\<forall>r \<in> set (dbBalances sampleDB). sbrReservedQuantity r = 0" using sample_stock(2) by (simp add: list_all_iff)
  show "stockReady sampleCtx sampleWorld" unfolding stockReady_def stockInv_def v ids
    using sample_stock(1) r j by (simp add: sampleWorld_def sampleWorldOf_def)
  show "seedReady sampleSeedWorld \<lparr>sdAuth = \<lparr>adTenants = [], adUsers = [], adSessions = []\<rparr>, sdInv = sampleDB\<rparr>"
    unfolding seedReady_def using sample_stock(1) r j ids by (simp add: sampleSeedWorld_def Let_def)
qed

lemma sample_seed:
  "movementOK (asMovement ''t1'' sampleSeed sampleCodes sampleCodes)"
  "list_all trimmedPosting (postings (asMovement ''t1'' sampleSeed sampleCodes sampleCodes))"
  "\<not> isl (fst (applyConfirmedStock ''t1'' sampleSeed sampleCodes sampleCodes sampleSeedWorld))"
  unfolding movementOK_def by code_simp+

theorem seed_posts_like_service_witness:
  "\<exists>chs w' z' d'. applyStock sampleCtx stockRepository ''t1'' (asMovement ''t1'' sampleSeed sampleCodes sampleCodes) sampleWorld = (Inr chs, w')
    \<and> applyConfirmedStock ''t1'' sampleSeed sampleCodes sampleCodes sampleSeedWorld = (Inr (), z') \<and> ztx z' = Some d'
    \<and> onHandOf (sdInv d') = onHandOf (viewOf (GetDB sampleCtx) w')"
proof -
  have v: "onHandOf (viewOf (GetDB sampleCtx) sampleWorld) =
      onHandOf (sdInv \<lparr>sdAuth = \<lparr>adTenants = [], adUsers = [], adSessions = []\<rparr>, sdInv = sampleDB\<rparr>)"
    by (simp add: GetDB_def viewOf_def sampleWorld_def sampleWorldOf_def)
  have a: "\<not> (msType sampleSeed = ''adjustment'' \<and> msSourceWHCode sampleSeed \<noteq> None \<and> msDestWHCode sampleSeed \<noteq> None)"
    by (simp add: sampleSeed_def)
  show ?thesis
    using seed_posts_like_service [OF sample_seed(1) a _ sample_seed(2) sample_seed_ready(2,1) v] sample_seed(3) by auto
qed

end
