(* ===== verification/Sql_Tx.thy ===== *)
theory Sql_Tx
  imports Seed
begin

text \<open>
  WithSQLTx (src/pkg/database/transaction/with_tx.go), the deprecated helper for flows on a plain
  sql.Tx, on the world of Seed, the one flow of this kind that is left: it has no caller, because the
  seed command writes the same begin, rollback and commit by hand. Both are compared here.
\<close>

text \<open>The world in which the callback runs.\<close>

definition beginTx :: "sworld \<Rightarrow> sworld" where
  "beginTx z = z\<lparr>zstmt := Suc (zstmt z), ztx := Some (zdb z), znow := ztime z (ztick z), ztick := Suc (ztick z)\<rparr>"

text \<open>The error of tx.Rollback, sql.ErrTxDone left out.\<close>

definition rollbackError :: "sworld \<Rightarrow> string option" where
  "rollbackError z = (if ztx z = None then None else zfault z (zstmt z))"

text \<open>What the caller gets after the rollback: the error or panic of the callback, or the failed
  rollback.\<close>

definition rolledBack :: "string option \<Rightarrow> err \<Rightarrow> err" where
  "rolledBack rb e = (case rb of
     None \<Rightarrow> e
   | Some msg \<Rightarrow> (case e of
       Panic p \<Rightarrow> Panic (sentinelText ErrTxRollback @ '': '' @ msg @ '' (panic: '' @ p @ '')'')
     | _ \<Rightarrow> Wrap (sentinelText ErrTxRollback @ '': '' @ msg) (Sys ErrTxRollback)))"

definition WithSQLTx :: "unit seed \<Rightarrow> unit seed" where
  "WithSQLTx fn z =
    (case zfault z (zstmt z) of
       Some msg \<Rightarrow> (Inl (Wrap (sentinelText ErrTxBegin @ '': '' @ msg) (Sys ErrTxBegin)), z\<lparr>zstmt := Suc (zstmt z)\<rparr>)
     | None \<Rightarrow> (case fn (beginTx z) of
         (Inl e, z1) \<Rightarrow>
           (Inl (rolledBack (rollbackError z1) e), z1\<lparr>zstmt := Suc (zstmt z1), ztx := None\<rparr>)
       | (Inr _, z1) \<Rightarrow>
           (case (zfault z1 (zstmt z1), ztx z1) of
              (None, Some d) \<Rightarrow> (Inr (), z1\<lparr>zstmt := Suc (zstmt z1), ztx := None, zdb := d\<rparr>)
            | (None, None) \<Rightarrow>
                (Inl (Wrap (sentinelText ErrTxCommit @ '': sql: transaction has already been committed or rolled back'')
                  (Sys ErrTxCommit)), z1\<lparr>zstmt := Suc (zstmt z1), ztx := None\<rparr>)
            | (Some msg, _) \<Rightarrow> (Inl (Wrap (sentinelText ErrTxCommit @ '': '' @ msg) (Sys ErrTxCommit)),
                z1\<lparr>zstmt := Suc (zstmt z1), ztx := None\<rparr>))))"

section \<open>All or nothing\<close>

text \<open>The callback works on the transaction only.\<close>

definition onTx :: "'a seed \<Rightarrow> bool" where
  "onTx fn \<longleftrightarrow> (\<forall>z. zdb (snd (fn z)) = zdb z)"

lemma WithSQLTx_cases:
  assumes "onTx fn"
  shows "(\<exists>z1 d. WithSQLTx fn z = (Inr (), z1\<lparr>zstmt := Suc (zstmt z1), ztx := None, zdb := d\<rparr>)
      \<and> fn (beginTx z) = (Inr (), z1) \<and> ztx z1 = Some d \<and> zfault z1 (zstmt z1) = None \<and> zfault z (zstmt z) = None)
    \<or> (\<exists>e z'. WithSQLTx fn z = (Inl e, z') \<and> zdb z' = zdb z)"
proof (cases "fn (beginTx z)")
  case (Pair r z1)
  have "zdb (snd (fn (beginTx z))) = zdb (beginTx z)" using assms by (simp add: onTx_def)
  then have db: "zdb z1 = zdb z" using Pair by (simp add: beginTx_def)
  show ?thesis
  proof (cases r)
    case (Inl e)
    then show ?thesis using Pair db by (cases "zfault z (zstmt z)") (auto simp: WithSQLTx_def)
  next
    case (Inr u)
    then show ?thesis using Pair db
      by (cases "zfault z (zstmt z)"; cases "zfault z1 (zstmt z1)"; cases "ztx z1") (auto simp: WithSQLTx_def)
  qed
qed

text \<open>A failed begin, rollback or commit is told apart by its sentinel, which errors.Is finds.\<close>

lemma WithSQLTx_sentinel:
  assumes "WithSQLTx fn z = (Inl e, z')"
  shows "(\<exists>msg. e = Wrap msg (Sys ErrTxBegin)) \<or> (\<exists>msg. e = Wrap msg (Sys ErrTxCommit))
    \<or> (\<exists>e0 z1. fn (beginTx z) = (Inl e0, z1) \<and> e = rolledBack (rollbackError z1) e0)"
proof (cases "fn (beginTx z)")
  case (Pair r z1)
  then show ?thesis using assms
    by (cases "zfault z (zstmt z)"; cases r; cases "zfault z1 (zstmt z1)"; cases "ztx z1") (auto simp: WithSQLTx_def)
qed

text \<open>The hand-written transaction of the seed command leaves the tables the helper would leave, and
  fails on the same runs.\<close>

lemma inSeedTx_like_helper:
  "zdb (snd (inSeedTx fn z)) = zdb (snd (WithSQLTx fn z))" "isl (fst (inSeedTx fn z)) = isl (fst (WithSQLTx fn z))"
proof -
  have b: "z\<lparr>zstmt := Suc (zstmt z), ztx := Some (zdb z), znow := ztime z (ztick z), ztick := Suc (ztick z)\<rparr> = beginTx z"
    by (simp add: beginTx_def)
  have "zdb (snd (inSeedTx fn z)) = zdb (snd (WithSQLTx fn z)) \<and> isl (fst (inSeedTx fn z)) = isl (fst (WithSQLTx fn z))"
  proof (cases "fn (beginTx z)")
    case (Pair r z1)
    then show ?thesis
      by (cases "zfault z (zstmt z)"; cases r; cases "zfault z1 (zstmt z1)"; cases "ztx z1")
        (auto simp: WithSQLTx_def inSeedTx_def Let_def b)
  qed
  then show "zdb (snd (inSeedTx fn z)) = zdb (snd (WithSQLTx fn z))" "isl (fst (inSeedTx fn z)) = isl (fst (WithSQLTx fn z))"
    by simp_all
qed

end
