(* ===== verification/Seed_Rules.thy ===== *)
theory Seed_Rules
  imports Sql_Tx Tenancy
begin

text \<open>
  A calculus for the seed command: what a run that succeeds leaves behind (triple, partial correctness
  in the sense that a failing run leaves nothing, because its transaction is rolled back), and the
  frame that no statement touches the committed tables. The locale seed_masters states what a
  property of the tables has to satisfy to survive the upserts of the master data.
\<close>

section \<open>Triples\<close>

definition triple :: "('w \<Rightarrow> bool) \<Rightarrow> ('w, 'a) prog \<Rightarrow> ('a \<Rightarrow> 'w \<Rightarrow> bool) \<Rightarrow> bool" where
  "triple P m Q \<longleftrightarrow> (\<forall>w a w'. P w \<longrightarrow> m w = (Inr a, w') \<longrightarrow> Q a w')"

lemma tripleI: "(\<And>w a w'. P w \<Longrightarrow> m w = (Inr a, w') \<Longrightarrow> Q a w') \<Longrightarrow> triple P m Q"
  by (simp add: triple_def)

lemma tripleD: "triple P m Q \<Longrightarrow> P w \<Longrightarrow> m w = (Inr a, w') \<Longrightarrow> Q a w'"
  by (simp add: triple_def)

lemma triple_weaken: "triple P m R \<Longrightarrow> (\<And>a w. R a w \<Longrightarrow> Q a w) \<Longrightarrow> triple P m Q"
  by (simp add: triple_def)

lemma triple_pre: "triple R m Q \<Longrightarrow> (\<And>w. P w \<Longrightarrow> R w) \<Longrightarrow> triple P m Q"
  unfolding triple_def by blast

lemma triple_ret: "(\<And>w. P w \<Longrightarrow> Q a w) \<Longrightarrow> triple P (ret a) Q"
  by (simp add: triple_def)

lemma triple_throw: "triple P (throw e) Q"
  by (simp add: triple_def)

lemma triple_bind: "triple P m R \<Longrightarrow> (\<And>a. triple (R a) (f a) Q) \<Longrightarrow> triple P (bindM m f) Q"
  unfolding triple_def bindM_Inr by metis

lemma triple_liftE: "(\<And>a w. r = Inr a \<Longrightarrow> P w \<Longrightarrow> Q a w) \<Longrightarrow> triple P (liftE r) Q"
  by (simp add: triple_def)

lemma triple_forM: "(\<And>x. x \<in> set xs \<Longrightarrow> triple P (f x) (\<lambda>_. P)) \<Longrightarrow> triple P (forM xs f) (\<lambda>_. P)"
proof (induction xs)
  case Nil
  show ?case by (simp add: triple_ret)
next
  case (Cons x xs)
  have "triple P (forM xs f) (\<lambda>_. P)" by (rule Cons.IH) (simp add: Cons.prems)
  then show ?case using Cons.prems [of x] by (auto intro!: triple_bind)
qed

text \<open>A loop with an iteration that never succeeds does not succeed.\<close>

lemma triple_forM_fails:
  assumes "x \<in> set xs" "triple (\<lambda>_. True) (f x) (\<lambda>_ _. False)"
  shows "triple (\<lambda>_. True) (forM xs f) (\<lambda>_ _. False)"
  using assms(1)
proof (induction xs)
  case (Cons y ys)
  show ?case
  proof (cases "y = x")
    case True
    show ?thesis unfolding forM.simps True by (rule triple_bind [OF assms(2)]) (simp add: triple_def)
  next
    case False
    then have rest: "triple (\<lambda>_. True) (forM ys f) (\<lambda>_ _. False)" using Cons by simp
    have "triple (\<lambda>_. True) (f y) (\<lambda>_ _. True)" by (simp add: triple_def)
    then show ?thesis unfolding forM.simps using rest by (rule triple_bind)
  qed
qed simp

lemma wrapf_Inr [simp]: "wrapf msg m w = (Inr a, w') \<longleftrightarrow> m w = (Inr a, w')"
proof (cases "m w")
  case (Pair r w1)
  show ?thesis
  proof (cases r)
    case (Inl e)
    then show ?thesis using Pair by (cases e) (auto simp: wrapf_def bindM_def tryM_def throw_def)
  next
    case (Inr x)
    then show ?thesis using Pair by (auto simp: wrapf_def bindM_def tryM_def)
  qed
qed

lemma triple_wrapf: "triple P m Q \<Longrightarrow> triple P (wrapf msg m) Q"
  by (simp add: triple_def)

section \<open>Statements of the seed\<close>

text \<open>There is an open transaction, it satisfies I, and identifiers are drawn from u.\<close>

definition txOK :: "(nat \<Rightarrow> string) \<Rightarrow> (seeddb \<Rightarrow> bool) \<Rightarrow> sworld \<Rightarrow> bool" where
  "txOK u I z \<longleftrightarrow> (\<exists>d. ztx z = Some d \<and> I d) \<and> zuuid z = u"

lemma triple_zStmt:
  assumes "\<And>d a d'. I d \<Longrightarrow> f d = Inr (a, d') \<Longrightarrow> I' a d'"
  shows "triple (txOK u I) (zStmt f) (\<lambda>a. txOK u (I' a))"
  using assms by (auto simp: triple_def zStmt_def txOK_def Let_def split: option.splits sum.splits)

lemma triple_onInv:
  assumes "\<And>d a e. I d \<Longrightarrow> f (sdInv d) = Inr (a, e) \<Longrightarrow> I' a (d\<lparr>sdInv := e\<rparr>)"
  shows "triple (txOK u I) (zStmt (onInv f)) (\<lambda>a. txOK u (I' a))"
  by (rule triple_zStmt) (use assms in \<open>auto simp: onInv_def split: sum.splits\<close>)

text \<open>A query returns something that the transaction justifies.\<close>

lemma triple_rows:
  assumes "\<And>d. I d \<Longrightarrow> R (q d)"
  shows "triple (txOK u I) (zRows q) (\<lambda>a z. txOK u I z \<and> R a)"
  using assms by (auto simp: triple_def zRows_def zStmt_def txOK_def Let_def split: option.splits)

lemma limitOne_mem: "limitOne k rows = Some a \<Longrightarrow> a \<in> set rows" "limitOne k rows = None \<longleftrightarrow> rows = []"
  by (auto simp: limitOne_def split: if_splits)

lemma triple_row:
  assumes "\<And>d a. I d \<Longrightarrow> a \<in> set (q d) \<Longrightarrow> R (Some a)" "\<And>d. I d \<Longrightarrow> q d = [] \<Longrightarrow> R None"
  shows "triple (txOK u I) (zRow q) (\<lambda>a z. txOK u I z \<and> R a)"
proof (rule tripleI)
  fix z r z' assume "txOK u I z" "zRow q z = (Inr r, z')"
  then show "txOK u I z' \<and> R r"
    using assms by (cases r) (auto simp: zRow_def zStmt_def txOK_def Let_def limitOne_mem(2) dest: limitOne_mem(1) split: option.splits)
qed

lemma triple_zUUID: "triple (txOK u I) zUUID (\<lambda>i z. txOK u I z \<and> i \<in> range u)"
  by (auto simp: triple_def zUUID_def txOK_def)

lemma triple_zNow: "triple P zNow (\<lambda>_. P)"
  by (simp add: triple_def zNow_def)

lemma triple_zJsonb: "triple P (zJsonb s) (\<lambda>_. P)"
  by (simp add: triple_def zJsonb_def)

lemma triple_facts: "(b \<Longrightarrow> triple P m Q) \<Longrightarrow> triple (\<lambda>z. P z \<and> b) m Q"
  by (auto simp: triple_def)

text \<open>The next identifier, as a fact of the rest.\<close>

lemma triple_fresh:
  assumes "\<And>i. i \<in> range u \<Longrightarrow> triple (txOK u I) (f i) Q"
  shows "triple (txOK u I) (bindM zUUID f) Q"
  by (rule triple_bind [OF triple_zUUID]) (rule triple_facts, erule assms)

lemma triple_now: "(\<And>now. triple P (f now) Q) \<Longrightarrow> triple P (bindM zNow f) Q"
  by (rule triple_bind [OF triple_zNow])

section \<open>The committed tables\<close>

definition sameCommitted :: "sworld \<Rightarrow> sworld \<Rightarrow> bool" where
  "sameCommitted z z' \<longleftrightarrow> zdb z' = zdb z"

interpretation committed: effect sameCommitted
  by unfold_locales (auto simp: sameCommitted_def)

lemma committed_stmt: "keeps sameCommitted (zStmt f)"
  by (auto simp: keeps_def sameCommitted_def zStmt_def Let_def split: option.splits sum.splits)

lemma committed_basic:
  "keeps sameCommitted (zRows q)" "keeps sameCommitted (zRow r)" "keeps sameCommitted zNow" "keeps sameCommitted zUUID"
  "keeps sameCommitted (zJsonb s)"
proof -
  have "zdb (snd (zRow r z)) = zdb z" for z
    using committed_stmt [of "\<lambda>d. Inr (limitOne (zpick z (zstmt z)) (r d), d)"]
    by (simp add: zRow_def keeps_def sameCommitted_def)
  then show "keeps sameCommitted (zRow r)" by (simp add: keeps_def sameCommitted_def)
  show "keeps sameCommitted (zRows q)" unfolding zRows_def by (rule committed_stmt)
qed (simp_all add: keeps_def sameCommitted_def zNow_def zUUID_def zJsonb_def)

lemma committed_wrapf: "keeps sameCommitted m \<Longrightarrow> keeps sameCommitted (wrapf msg m)"
  unfolding wrapf_def by (intro committed.keeps_rules) (auto intro: committed.keeps_rules committed.keeps_sum)

lemma committed_Deref: "keeps sameCommitted (zDeref p)"
  unfolding zDeref_def by (intro committed.keeps_option committed.keeps_rules)

lemmas committed_intros = committed.keeps_rules committed_stmt committed_basic committed_wrapf committed_Deref

lemma committed_users:
  "keeps sameCommitted (seedUser t h us)" "keeps sameCommitted (hashPassword bc)"
  unfolding seedUser_def hashPassword_def by (intro committed_intros)+

lemma committed_categories: "keeps sameCommitted (seedCategoriesFrom t ids cs)"
  by (induction cs arbitrary: ids) (simp_all only: seedCategoriesFrom.simps, (intro committed_intros | assumption)+)

lemma committed_masters:
  "keeps sameCommitted seedTenant" "keeps sameCommitted (seedAdminUser bc t)" "keeps sameCommitted (seedExtraUsers bc t)"
  "keeps sameCommitted (seedCategories t)" "keeps sameCommitted (seedProducts t ids)" "keeps sameCommitted (seedWarehouses t)"
  "keeps sameCommitted (loadProductSKUs t)" "keeps sameCommitted (loadWarehouseCodes t)" "keeps sameCommitted (getUserID t e)"
  unfolding seedTenant_def seedAdminUser_def seedExtraUsers_def seedCategories_def seedProducts_def seedProduct_def
    seedWarehouses_def loadProductSKUs_def loadWarehouseCodes_def getUserID_def
  by (intro committed_intros committed_users committed_categories)+

lemma committed_movements:
  "keeps sameCommitted (stockDelta t w p n)" "keeps sameCommitted (seedMovementsAndStock t u sku wh)"
  "keeps sameCommitted (seedAuditSamples t u)"
proof -
  show d: "keeps sameCommitted (stockDelta t w p n)" for w p n
    unfolding stockDelta_def Let_def by (intro committed_intros)
  have a: "keeps sameCommitted (applyConfirmedStock t mv wh sku)" for mv
    unfolding applyConfirmedStock_def by (intro committed_intros d)
  have "keeps sameCommitted (seedMovement t u sku wh mv)" for mv
    unfolding seedMovement_def seedInsertMovement_def insertMovementLines_def seedInsertLine_def
    by (intro committed_intros a)
  then show "keeps sameCommitted (seedMovementsAndStock t u sku wh)"
    unfolding seedMovementsAndStock_def purgeSeedMovements_def resetTenantStock_def by (intro committed_intros)
  show "keeps sameCommitted (seedAuditSamples t u)"
    unfolding seedAuditSamples_def by (intro committed_intros)
qed

lemma runBody_onTx: "onTx (runBody bc)"
proof -
  have "keeps sameCommitted (runBody bc)"
    unfolding runBody_def by (intro committed_intros committed_masters committed_movements)
  then show ?thesis by (simp add: onTx_def keeps_def sameCommitted_def)
qed

end
