(* ===== verification/Seed_Safety.thy ===== *)
theory Seed_Safety
  imports Seed_Rules
begin

text \<open>
  What a run of the seed command does to a database that is in use. The locale seed_masters has the
  laws under which a property of the tables survives the upserts of the master data; it is
  interpreted for a deleted product (which a second run trips over) and for the rows of all
  other tenants (which no run touches).
\<close>

section \<open>The master data\<close>

locale seed_masters =
  fixes I :: "seeddb \<Rightarrow> bool" and u :: "nat \<Rightarrow> string" and t :: string
  assumes keeps_user: "I d \<Longrightarrow> auTenantID r = t \<Longrightarrow> upsertUser r d = Inr (x, d') \<Longrightarrow> I d'"
    and keeps_cat: "I d \<Longrightarrow> upsertCategory i now t c (sdInv d) = Inr (y, e) \<Longrightarrow> I (d\<lparr>sdInv := e\<rparr>)"
    and keeps_prod: "I d \<Longrightarrow> prrTenantID m = t \<Longrightarrow> upsertProduct m (sdInv d) = Inr (x, e) \<Longrightarrow> I (d\<lparr>sdInv := e\<rparr>)"
    and keeps_wh: "I d \<Longrightarrow> whrTenantID v = t \<Longrightarrow> whrID v \<in> range u \<Longrightarrow> upsertWarehouse v (sdInv d) = Inr (x, e) \<Longrightarrow>
      I (d\<lparr>sdInv := e\<rparr>)"
begin

lemma user_triple: "triple (txOK u I) (seedUser t h us) (\<lambda>_. txOK u I)"
  unfolding seedUser_def by (rule triple_fresh) (rule triple_zStmt, erule keeps_user [rotated 2], simp_all)

lemma hash_triple: "triple (txOK u I) (hashPassword bc) (\<lambda>_. txOK u I)"
  unfolding hashPassword_def by (rule triple_fresh) (rule triple_wrapf, rule triple_liftE)

lemma admin_triple: "triple (txOK u I) (seedAdminUser bc t) (\<lambda>_. txOK u I)"
  unfolding seedAdminUser_def by (rule triple_bind [OF hash_triple]) (rule triple_wrapf, rule user_triple)

lemma extra_triple: "triple (txOK u I) (seedExtraUsers bc t) (\<lambda>_. txOK u I)"
  unfolding seedExtraUsers_def
  by (rule triple_bind [OF hash_triple]) (rule triple_forM, rule triple_wrapf, rule user_triple)

lemma categories_triple: "triple (txOK u I) (seedCategories t) (\<lambda>_. txOK u I)"
proof -
  have "triple (txOK u I) (seedCategoriesFrom t ids cs) (\<lambda>_. txOK u I)" for ids cs
  proof (induction cs arbitrary: ids)
    case (Cons c cs)
    show ?case unfolding seedCategoriesFrom.simps
    proof (rule triple_fresh, rule triple_now, rule triple_bind)
      show "triple (txOK u I) (wrapf msg (zStmt (onInv (upsertCategory i now t c)))) (\<lambda>_. txOK u I)" for msg i now
        by (rule triple_wrapf, rule triple_onInv) (rule keeps_cat)
    qed (rule Cons.IH)
  qed (simp add: triple_ret)
  then show ?thesis by (simp add: seedCategories_def)
qed

lemma products_triple: "triple (txOK u I) (seedProducts t ids) (\<lambda>_. txOK u I)"
proof -
  have "triple (txOK u I) (seedProduct t ids p) (\<lambda>_. txOK u I)" for p
  proof (cases "ids (psCategoryName p)")
    case (Some cid)
    show ?thesis unfolding seedProduct_def Some option.case
      by (rule triple_fresh, rule triple_now, rule triple_bind [OF triple_zJsonb], rule triple_wrapf, rule triple_onInv)
        (erule keeps_prod [rotated 2]; simp)
  qed (simp add: seedProduct_def triple_throw)
  then show ?thesis unfolding seedProducts_def by (rule triple_forM)
qed

lemma warehouses_triple: "triple (txOK u I) (seedWarehouses t) (\<lambda>_. txOK u I)"
  unfolding seedWarehouses_def
  by (rule triple_forM, rule triple_fresh, rule triple_now, rule triple_wrapf, rule triple_onInv)
    (erule keeps_wh [rotated 3]; simp)

lemmas masters_triples = admin_triple extra_triple categories_triple products_triple warehouses_triple

end

section \<open>A run over a deleted product\<close>

text \<open>The tenant has the SKU, and every product of it with that SKU is deleted.\<close>

definition skuDeleted :: "string \<Rightarrow> string \<Rightarrow> seeddb \<Rightarrow> bool" where
  "skuDeleted t k d \<longleftrightarrow> (t, k) \<in> (\<lambda>r. (prrTenantID r, prrSKU r)) ` set (dbProducts (sdInv d))
     \<and> (\<forall>r \<in> set (dbProducts (sdInv d)). prrTenantID r = t \<and> prrSKU r = k \<longrightarrow> prrDeletedAt r \<noteq> None)"

lemma skuDeleted_cong: "dbProducts (sdInv d') = dbProducts (sdInv d) \<Longrightarrow> skuDeleted t k d' = skuDeleted t k d"
  by (simp add: skuDeleted_def)

lemma skuDeleted_upsert:
  assumes "skuDeleted t k d" "upsertProduct m (sdInv d) = Inr (x, e)"
  shows "skuDeleted t k (d\<lparr>sdInv := e\<rparr>)"
proof (cases "list_ex (\<lambda>r. prrTenantID r = prrTenantID m \<and> prrSKU r = prrSKU m) (dbProducts (sdInv d))")
  case True
  let ?P = "\<lambda>r. prrTenantID r = prrTenantID m \<and> prrSKU r = prrSKU m"
  let ?f = "\<lambda>r. r\<lparr>prrCategoryID := prrCategoryID m, prrName := prrName m, prrDescription := prrDescription m,
      prrUnit := prrUnit m, prrPrice := prrPrice m, prrReorderLevel := prrReorderLevel m,
      prrMetadata := prrMetadata m, prrUpdatedAt := prrUpdatedAt m\<rparr>"
  have e: "dbProducts e = updateWhere ?P ?f (dbProducts (sdInv d))"
    using assms(2) True by (auto simp: upsertProduct_def Let_def)
  have keys: "map (\<lambda>r. (prrTenantID r, prrSKU r)) (dbProducts e) = map (\<lambda>r. (prrTenantID r, prrSKU r)) (dbProducts (sdInv d))"
    unfolding e by (rule map_updateWhere) simp
  have "(t, k) \<in> (\<lambda>r. (prrTenantID r, prrSKU r)) ` set (dbProducts e)"
    using assms(1) keys unfolding skuDeleted_def by (metis list.set_map)
  moreover have "prrDeletedAt r \<noteq> None" if "r \<in> set (dbProducts e)" "prrTenantID r = t" "prrSKU r = k" for r
    using that assms(1) by (auto simp: e set_updateWhere skuDeleted_def split: if_splits)
  ultimately show ?thesis by (simp add: skuDeleted_def)
next
  case False
  then have "insertProduct m (sdInv d) = Inr (x, e)" using assms(2) by (simp add: upsertProduct_def Let_def)
  then have e: "dbProducts e = dbProducts (sdInv d) @ [m]" by (auto simp: insertProduct_def split: if_splits)
  have "\<not> (prrTenantID m = t \<and> prrSKU m = k)"
    using assms(1) False by (auto simp: skuDeleted_def list_ex_iff)
  then show ?thesis using assms(1) by (auto simp: skuDeleted_def e)
qed

lemma upserts_products:
  "upsertUser r d = Inr (x, d') \<Longrightarrow> dbProducts (sdInv d') = dbProducts (sdInv d)"
  "upsertCategory i now t c b = Inr (y, e) \<Longrightarrow> dbProducts e = dbProducts b"
  "upsertWarehouse v b = Inr (x, e) \<Longrightarrow> dbProducts e = dbProducts b"
  by (auto simp: upsertUser_def upsertCategory_def insertCategory_def upsertWarehouse_def insertWarehouse_def Let_def
      split: option.splits if_splits sum.splits)

interpretation deleted: seed_masters "skuDeleted t k" u t for t k u
proof
  fix d r x d' assume "skuDeleted t k d" "upsertUser r d = Inr (x, d')"
  then show "skuDeleted t k d'" using skuDeleted_cong upserts_products(1) by metis
next
  fix d i now c y e assume "skuDeleted t k d" "upsertCategory i now t c (sdInv d) = Inr (y, e)"
  then show "skuDeleted t k (d\<lparr>sdInv := e\<rparr>)" using upserts_products(2) by (force simp: skuDeleted_def)
next
  fix d v x e assume "skuDeleted t k d" "upsertWarehouse v (sdInv d) = Inr (x, e)"
  then show "skuDeleted t k (d\<lparr>sdInv := e\<rparr>)" using upserts_products(3) by (force simp: skuDeleted_def)
qed (rule skuDeleted_upsert)

lemma rowsMap_None: "k \<notin> fst ` set rows \<Longrightarrow> rowsMap rows k = None"
proof -
  have "k \<notin> fst ` set rows \<Longrightarrow> m k = None \<Longrightarrow> foldl (\<lambda>m (k, i). m(k \<mapsto> i)) m rows k = None" for m :: idmap
    by (induction rows arbitrary: m) auto
  then show "k \<notin> fst ` set rows \<Longrightarrow> rowsMap rows k = None" by (simp add: rowsMap_def)
qed

lemma load_deleted:
  "triple (txOK u (skuDeleted t k)) (loadProductSKUs t) (\<lambda>m z. txOK u (skuDeleted t k) z \<and> m k = None)"
  unfolding loadProductSKUs_def
  by (rule triple_bind, rule triple_rows [where R = "\<lambda>rows. k \<notin> fst ` set rows"])
    (auto simp: skuDeleted_def intro!: triple_ret rowsMap_None)

definition seededSKUs :: "string list" where
  "seededSKUs = map msSKU (concat (map msLines seedMovementScenario))"

text \<open>Without an identifier for a SKU of the scenario its movements are never written.\<close>

lemma movements_fail:
  assumes "k \<in> set seededSKUs" "sku k = None"
  shows "triple (\<lambda>_. True) (seedMovementsAndStock t uid sku wh) (\<lambda>_ _. False)"
proof -
  obtain mv l where mv: "mv \<in> set seedMovementScenario" "l \<in> set (msLines mv)" "msSKU l = k"
    using assms(1) by (auto simp: seededSKUs_def)
  have "triple (\<lambda>_. True) (insertMovementLines i (msLines mv) sku) (\<lambda>_ _. False)" for i
    unfolding insertMovementLines_def
    by (rule triple_forM_fails [OF mv(2)]) (simp add: seedInsertLine_def mv(3) assms(2) triple_throw)
  then have "triple (\<lambda>_. True) (seedMovement t uid sku wh mv) (\<lambda>_ _. False)"
    unfolding seedMovement_def
    by (intro triple_bind [where R = "\<lambda>_ _. True"] triple_bind [where R = "\<lambda>_ _. False"]) (simp_all add: triple_def)
  from triple_forM_fails [where f = "seedMovement t uid sku wh", OF mv(1) this] show ?thesis
    unfolding seedMovementsAndStock_def
    by (intro triple_bind [where R = "\<lambda>_ _. True"]) (simp_all add: triple_def)
qed

text \<open>With a demo tenant in the tables, seedTenant returns it.\<close>

lemma seedTenant_old:
  assumes "filter isDemoTenant (adTenants (sdAuth d0)) \<noteq> []"
    and "\<forall>r \<in> set (adTenants (sdAuth d0)). isDemoTenant r \<longrightarrow> trID r = t"
  shows "triple (txOK u (\<lambda>d. d = d0)) seedTenant (\<lambda>i z. txOK u (\<lambda>d. d = d0) z \<and> i = t)"
  unfolding seedTenant_def
proof (rule triple_bind)
  show "triple (txOK u (\<lambda>d. d = d0)) (wrapf msg (zRow (\<lambda>d. map trID (filter isDemoTenant (adTenants (sdAuth d))))))
      (\<lambda>a z. txOK u (\<lambda>d. d = d0) z \<and> a = Some t)" for msg
    by (rule triple_wrapf, rule triple_row) (use assms in auto)
qed (auto intro!: triple_facts triple_ret)

text \<open>C39: A deleted product stops the seed. Let the database have a demo tenant (with one identifier),
  and let a product of it whose SKU occurs in the scenario be deleted. Then the seed command fails on
  every such database and under every schedule of failures, and leaves the tables as they were: the upsert
  of the product does not undelete it, and the movements cannot find its identifier.\<close>

theorem reseed_after_delete_fails:
  assumes "filter isDemoTenant (adTenants (sdAuth (zdb z))) \<noteq> []"
    and "\<forall>r \<in> set (adTenants (sdAuth (zdb z))). isDemoTenant r \<longrightarrow> trID r = t"
    and "k \<in> set seededSKUs" "skuDeleted t k (zdb z)"
  shows "\<exists>e z'. Run bc z = (Inl e, z') \<and> zdb z' = zdb z"
proof -
  let ?u = "zuuid z" and ?I = "skuDeleted t k"
  have moves: "triple (\<lambda>z. txOK ?u ?I z \<and> sku k = None) (bindM (wrapf m1 (loadWarehouseCodes t)) (\<lambda>wh.
      bindM (wrapf m2 (getUserID t adminEmail)) (\<lambda>uid. bindM (seedMovementsAndStock t uid sku wh) (\<lambda>_.
      seedAuditSamples t uid)))) (\<lambda>_ _. False)" for sku m1 m2
    by (rule triple_facts, rule triple_pre [where R = "\<lambda>_. True"], rule triple_bind [where R = "\<lambda>_ _. True"], simp add: triple_def,
        rule triple_bind [where R = "\<lambda>_ _. True"], simp add: triple_def, rule triple_bind [OF movements_fail [OF assms(3)]])
      (simp_all add: triple_def)
  have "triple (txOK ?u (\<lambda>d. d = zdb z)) (runBody bc) (\<lambda>_ _. False)"
    unfolding runBody_def
  proof (rule triple_bind [OF seedTenant_old [OF assms(1,2)]], rule triple_facts)
    fix i assume i: "i = t"
    show "triple (txOK ?u (\<lambda>d. d = zdb z)) (bindM (seedAdminUser bc i) (\<lambda>_. bindM (seedExtraUsers bc i) (\<lambda>_.
        bindM (seedCategories i) (\<lambda>categoryIDs. bindM (seedProducts i categoryIDs) (\<lambda>_. bindM (seedWarehouses i) (\<lambda>_.
        bindM (wrapf ''load products'' (loadProductSKUs i)) (\<lambda>productBySKU.
        bindM (wrapf ''load warehouses'' (loadWarehouseCodes i)) (\<lambda>warehouseByCode.
        bindM (wrapf ''resolve admin user id'' (getUserID i adminEmail)) (\<lambda>adminUserID.
        bindM (seedMovementsAndStock i adminUserID productBySKU warehouseByCode) (\<lambda>_.
        seedAuditSamples i adminUserID)))))))))) (\<lambda>_ _. False)"
      unfolding i
      by (rule triple_pre [where R = "txOK ?u ?I"], (rule triple_bind, rule deleted.masters_triples)+,
          rule triple_bind, rule triple_wrapf, rule load_deleted, rule moves)
        (use assms(4) in \<open>auto simp: txOK_def\<close>)
  qed
  then have body: "\<not> (\<exists>a z1. runBody bc (beginTx z) = (Inr a, z1))"
    by (auto simp: triple_def txOK_def beginTx_def)
  have "isl (fst (WithSQLTx (runBody bc) z)) \<and> zdb (snd (WithSQLTx (runBody bc) z)) = zdb z"
    using WithSQLTx_cases [OF runBody_onTx, of bc z] body by auto
  then have "isl (fst (Run bc z))" "zdb (snd (Run bc z)) = zdb z"
    unfolding Run_def inSeedTx_like_helper by simp_all
  then show ?thesis by (cases "Run bc z"; cases "fst (Run bc z)") auto
qed

end
