(* ===== verification/Seed_Isolation.thy ===== *)
theory Seed_Isolation
  imports Seed_Safety Seed_Laws
begin

text \<open>
  What a run of the seed command leaves of a database in use: the integrity of the tables, and every row
  of every other tenant. The invariant is carried through the upserts by seed_masters, and through the
  movements and the stock by the closure lemmas of Tenancy.
\<close>

section \<open>The invariant\<close>

text \<open>The users table is modelled as the part each service reads; both parts have the same rows.\<close>

definition usersAgree :: "seeddb \<Rightarrow> bool" where
  "usersAgree d \<longleftrightarrow> map (\<lambda>x. (auID x, auTenantID x)) (adUsers (sdAuth d)) = map (\<lambda>x. (urID x, urTenantID x)) (dbUsers (sdInv d))
     \<and> distinct (map auID (adUsers (sdAuth d)))"

definition properID :: "string \<Rightarrow> bool" where
  "properID i \<longleftrightarrow> trimOpt (Some i) = Some i"

definition seedOK :: "seeddb \<Rightarrow> bool" where
  "seedOK d \<longleftrightarrow> dbInv (sdInv d) \<and> usersAgree d \<and> (\<forall>v \<in> set (dbWarehouses (sdInv d)). properID (whrID v))"

definition seedOthers :: "string \<Rightarrow> seeddb \<Rightarrow> seeddb \<Rightarrow> bool" where
  "seedOthers t d d' \<longleftrightarrow> others trID t (adTenants (sdAuth d')) = others trID t (adTenants (sdAuth d))
     \<and> others auTenantID t (adUsers (sdAuth d')) = others auTenantID t (adUsers (sdAuth d))
     \<and> others rsTenantID t (adSessions (sdAuth d')) = others rsTenantID t (adSessions (sdAuth d))
     \<and> others urTenantID t (dbUsers (sdInv d')) = others urTenantID t (dbUsers (sdInv d))
     \<and> othersEq t (sdInv d) ((sdInv d')\<lparr>dbUsers := dbUsers (sdInv d)\<rparr>)"

definition isoInv :: "(nat \<Rightarrow> string) \<Rightarrow> string \<Rightarrow> seeddb \<Rightarrow> seeddb \<Rightarrow> bool" where
  "isoInv u t d0 d \<longleftrightarrow> seedOK d \<and> seedOthers t d0 d \<and> (\<forall>i. properID (u i))"

lemma isoInv_step:
  assumes "isoInv u t d0 d" "isolated t (sdInv d) e" "dbUsers e = dbUsers (sdInv d)"
    and "\<forall>v \<in> set (dbWarehouses e). properID (whrID v)"
  shows "isoInv u t d0 (d\<lparr>sdInv := e\<rparr>)"
  using assms by (auto simp: isoInv_def seedOK_def usersAgree_def seedOthers_def isolated_def othersEq_def linesOf_def)

lemma isoInv_same_wh:
  assumes "isoInv u t d0 d" "isolated t (sdInv d) e" "dbUsers e = dbUsers (sdInv d)" "dbWarehouses e = dbWarehouses (sdInv d)"
  shows "isoInv u t d0 (d\<lparr>sdInv := e\<rparr>)"
  by (rule isoInv_step [OF assms(1-3)]) (use assms(1,4) in \<open>simp add: isoInv_def seedOK_def\<close>)

section \<open>Upserts\<close>

lemma isolated_cat_rows:
  assumes "map carID cs = map carID (dbCategories d)"
    "map (\<lambda>r. (carTenantID r, carName r)) cs = map (\<lambda>r. (carTenantID r, carName r)) (dbCategories d)"
    "others carTenantID t cs = others carTenantID t (dbCategories d)"
  shows "isolated t d (d\<lparr>dbCategories := cs\<rparr>)"
  using assms by (simp add: isolated_def dbInv_defs othersEq_def balancesOK_def linesOf_def del: distinct_map)

lemma isolated_prod_rows:
  assumes "map prrID cs = map prrID (dbProducts d)"
    "map (\<lambda>r. (prrTenantID r, prrSKU r)) cs = map (\<lambda>r. (prrTenantID r, prrSKU r)) (dbProducts d)"
    "others prrTenantID t cs = others prrTenantID t (dbProducts d)"
  shows "isolated t d (d\<lparr>dbProducts := cs\<rparr>)"
  using assms by (simp add: isolated_def dbInv_defs othersEq_def balancesOK_def linesOf_def del: distinct_map)

lemma isolated_wh_rows:
  assumes "map whrID cs = map whrID (dbWarehouses d)"
    "map (\<lambda>r. (whrTenantID r, whrCode r)) cs = map (\<lambda>r. (whrTenantID r, whrCode r)) (dbWarehouses d)"
    "others whrTenantID t cs = others whrTenantID t (dbWarehouses d)"
  shows "isolated t d (d\<lparr>dbWarehouses := cs\<rparr>)"
  using assms by (simp add: isolated_def dbInv_defs othersEq_def balancesOK_def linesOf_def del: distinct_map)

lemma upsertCategory_isolated:
  assumes "upsertCategory i now t c d = Inr (y, e)"
  shows "isolated t d e \<and> dbUsers e = dbUsers d \<and> dbWarehouses e = dbWarehouses d"
proof (cases "find (\<lambda>r. carTenantID r = t \<and> carName r = csName c) (dbCategories d)")
  case None
  let ?r = "\<lparr>carID = i, carTenantID = t, carParentID = None, carName = csName c, carDescription = Some (csDescription c),
      carSortOrder = csSortOrder c, carCreatedAt = now, carUpdatedAt = now, carDeletedAt = None\<rparr>"
  have i: "insertCategory ?r d = Inr ((), e)"
    using assms None by (auto simp: upsertCategory_def Let_def split: sum.splits)
  then have "dbUsers e = dbUsers d \<and> dbWarehouses e = dbWarehouses d" by (auto simp: insertCategory_def split: if_splits)
  with isolated_cat_insert [OF i, of t] show ?thesis by simp
next
  case (Some r)
  let ?f = "\<lambda>r. r\<lparr>carDescription := Some (csDescription c), carSortOrder := csSortOrder c, carUpdatedAt := now\<rparr>"
  let ?cs = "updateWhere (\<lambda>r. carTenantID r = t \<and> carName r = csName c) ?f (dbCategories d)"
  have "map carID ?cs = map carID (dbCategories d)"
    "map (\<lambda>r. (carTenantID r, carName r)) ?cs = map (\<lambda>r. (carTenantID r, carName r)) (dbCategories d)"
    by (rule map_updateWhere; simp)+
  moreover have "others carTenantID t ?cs = others carTenantID t (dbCategories d)"
    by (rule others_updateWhere) auto
  ultimately have "isolated t d (d\<lparr>dbCategories := ?cs\<rparr>)" by (rule isolated_cat_rows)
  then show ?thesis using assms Some by (auto simp: upsertCategory_def Let_def)
qed

lemma upsertProduct_isolated:
  assumes "upsertProduct m d = Inr (x, e)" "prrTenantID m = t"
  shows "isolated t d e \<and> dbUsers e = dbUsers d \<and> dbWarehouses e = dbWarehouses d"
proof (cases "list_ex (\<lambda>r. prrTenantID r = prrTenantID m \<and> prrSKU r = prrSKU m) (dbProducts d)")
  case False
  then have i: "insertProduct m d = Inr (x, e)" using assms(1) by (simp add: upsertProduct_def Let_def)
  then have "dbUsers e = dbUsers d \<and> dbWarehouses e = dbWarehouses d" by (auto simp: insertProduct_def split: if_splits)
  with isolated_prod_insert [OF i assms(2)] show ?thesis by simp
next
  case True
  let ?P = "\<lambda>r. prrTenantID r = prrTenantID m \<and> prrSKU r = prrSKU m"
  let ?f = "\<lambda>r. r\<lparr>prrCategoryID := prrCategoryID m, prrName := prrName m, prrDescription := prrDescription m,
      prrUnit := prrUnit m, prrPrice := prrPrice m, prrReorderLevel := prrReorderLevel m,
      prrMetadata := prrMetadata m, prrUpdatedAt := prrUpdatedAt m\<rparr>"
  have "map prrID (updateWhere ?P ?f (dbProducts d)) = map prrID (dbProducts d)"
    "map (\<lambda>r. (prrTenantID r, prrSKU r)) (updateWhere ?P ?f (dbProducts d)) = map (\<lambda>r. (prrTenantID r, prrSKU r)) (dbProducts d)"
    by (rule map_updateWhere; simp)+
  moreover have "others prrTenantID t (updateWhere ?P ?f (dbProducts d)) = others prrTenantID t (dbProducts d)"
    by (rule others_updateWhere) (auto simp: assms(2))
  ultimately have "isolated t d (d\<lparr>dbProducts := updateWhere ?P ?f (dbProducts d)\<rparr>)" by (rule isolated_prod_rows)
  then show ?thesis using assms(1) True by (auto simp: upsertProduct_def Let_def)
qed

lemma upsertWarehouse_isolated:
  assumes "upsertWarehouse m d = Inr (x, e)" "whrTenantID m = t"
  shows "isolated t d e \<and> dbUsers e = dbUsers d \<and> whrID ` set (dbWarehouses e) \<subseteq> insert (whrID m) (whrID ` set (dbWarehouses d))"
proof (cases "list_ex (\<lambda>r. whrTenantID r = whrTenantID m \<and> whrCode r = whrCode m) (dbWarehouses d)")
  case False
  then have i: "insertWarehouse m d = Inr (x, e)" using assms(1) by (simp add: upsertWarehouse_def Let_def)
  then have "dbUsers e = dbUsers d \<and> dbWarehouses e = dbWarehouses d @ [m]" by (auto simp: insertWarehouse_def split: if_splits)
  with isolated_wh_insert [OF i assms(2)] show ?thesis by simp
next
  case True
  let ?P = "\<lambda>r. whrTenantID r = whrTenantID m \<and> whrCode r = whrCode m"
  let ?f = "\<lambda>r. r\<lparr>whrName := whrName m, whrAddress := whrAddress m, whrIsActive := whrIsActive m, whrUpdatedAt := whrUpdatedAt m\<rparr>"
  have maps: "map whrID (updateWhere ?P ?f (dbWarehouses d)) = map whrID (dbWarehouses d)"
    "map (\<lambda>r. (whrTenantID r, whrCode r)) (updateWhere ?P ?f (dbWarehouses d)) = map (\<lambda>r. (whrTenantID r, whrCode r)) (dbWarehouses d)"
    by (rule map_updateWhere; simp)+
  moreover have "others whrTenantID t (updateWhere ?P ?f (dbWarehouses d)) = others whrTenantID t (dbWarehouses d)"
    by (rule others_updateWhere) (auto simp: assms(2))
  ultimately have "isolated t d (d\<lparr>dbWarehouses := updateWhere ?P ?f (dbWarehouses d)\<rparr>)" by (rule isolated_wh_rows)
  moreover have "whrID ` set (updateWhere ?P ?f (dbWarehouses d)) = whrID ` set (dbWarehouses d)"
    using maps(1) by (metis list.set_map)
  ultimately show ?thesis using assms(1) True by (auto simp: upsertWarehouse_def Let_def)
qed

text \<open>The row of a user is changed or added in both parts of the table.\<close>

lemma others_updateWhere_in:
  "(\<And>x. x \<in> set xs \<Longrightarrow> P x \<Longrightarrow> f x = t) \<Longrightarrow> (\<And>x. f (g x) = f x) \<Longrightarrow> others f t (updateWhere P g xs) = others f t xs"
  by (induction xs) (auto simp: others_def)

lemma upsertUser_agree:
  assumes ok: "usersAgree d" and up: "upsertUser r d = Inr (x, d')" and t: "auTenantID r = t"
  shows "usersAgree d' \<and> others auTenantID t (adUsers (sdAuth d')) = others auTenantID t (adUsers (sdAuth d))
    \<and> others urTenantID t (dbUsers (sdInv d')) = others urTenantID t (dbUsers (sdInv d))
    \<and> adTenants (sdAuth d') = adTenants (sdAuth d) \<and> adSessions (sdAuth d') = adSessions (sdAuth d)
    \<and> sdInv d' = (sdInv d)\<lparr>dbUsers := dbUsers (sdInv d')\<rparr>"
proof (cases "find (\<lambda>x. auTenantID x = auTenantID r \<and> auEmail x = auEmail r) (adUsers (sdAuth d))")
  case None
  then obtain a' where a': "insertUser r (sdAuth d) = Inr (auID r, a')" "d' = d\<lparr>sdAuth := a',
      sdInv := (sdInv d)\<lparr>dbUsers := dbUsers (sdInv d) @ [\<lparr>urID = auID r, urTenantID = auTenantID r, urFullName = auFullName r\<rparr>]\<rparr>\<rparr>"
    using up by (auto simp: upsertUser_def Let_def insertUser_def split: sum.splits if_splits)
  then have "a' = (sdAuth d)\<lparr>adUsers := adUsers (sdAuth d) @ [r]\<rparr>" "auID r \<notin> auID ` set (adUsers (sdAuth d))"
    by (auto simp: insertUser_def list_ex_iff split: if_splits)
  then show ?thesis using ok t by (auto simp: a'(2) usersAgree_def)
next
  case (Some v)
  let ?same = "\<lambda>x. auTenantID x = auTenantID r \<and> auEmail x = auEmail r"
  let ?f = "\<lambda>x. x\<lparr>auPasswordHash := auPasswordHash r, auRole := auRole r, auFullName := auFullName r\<rparr>"
  let ?g = "\<lambda>u. u\<lparr>urFullName := auFullName r\<rparr>"
  have d': "d' = d\<lparr>sdAuth := (sdAuth d)\<lparr>adUsers := updateWhere ?same ?f (adUsers (sdAuth d))\<rparr>,
      sdInv := (sdInv d)\<lparr>dbUsers := updateWhere (\<lambda>u. urID u = auID v) ?g (dbUsers (sdInv d))\<rparr>\<rparr>"
    using up Some by (auto simp: upsertUser_def Let_def split: if_splits)
  have v: "v \<in> set (adUsers (sdAuth d))" "auTenantID v = t"
    using Some t by (auto simp: find_Some_iff in_set_conv_nth)
  have keys: "map (\<lambda>x. (auID x, auTenantID x)) (updateWhere ?same ?f (adUsers (sdAuth d))) = map (\<lambda>x. (auID x, auTenantID x)) (adUsers (sdAuth d))"
    "map auID (updateWhere ?same ?f (adUsers (sdAuth d))) = map auID (adUsers (sdAuth d))"
    "map (\<lambda>x. (urID x, urTenantID x)) (updateWhere (\<lambda>u. urID u = auID v) ?g (dbUsers (sdInv d))) = map (\<lambda>x. (urID x, urTenantID x)) (dbUsers (sdInv d))"
    by (rule map_updateWhere; simp)+
  have own: "urTenantID y = t" if y: "y \<in> set (dbUsers (sdInv d))" "urID y = auID v" for y
  proof -
    have "(urID y, urTenantID y) \<in> set (map (\<lambda>x. (urID x, urTenantID x)) (dbUsers (sdInv d)))" using y(1) by simp
    then have "(urID y, urTenantID y) \<in> set (map (\<lambda>x. (auID x, auTenantID x)) (adUsers (sdAuth d)))"
      using ok by (simp only: usersAgree_def)
    then obtain x where x: "x \<in> set (adUsers (sdAuth d))" "auID x = auID v" "auTenantID x = urTenantID y" using y(2) by auto
    then have "x = v" using ok v(1) by (auto simp: usersAgree_def distinct_map dest: inj_onD)
    then show ?thesis using x(3) v(2) by simp
  qed
  have "others urTenantID t (updateWhere (\<lambda>u. urID u = auID v) ?g (dbUsers (sdInv d))) = others urTenantID t (dbUsers (sdInv d))"
    by (rule others_updateWhere_in) (auto intro: own)
  moreover have "others auTenantID t (updateWhere ?same ?f (adUsers (sdAuth d))) = others auTenantID t (adUsers (sdAuth d))"
    by (rule others_updateWhere) (auto simp: t)
  ultimately show ?thesis using ok keys by (simp add: d' usersAgree_def del: distinct_map)
qed

lemma isoInv_user:
  assumes "isoInv u t d0 d" "auTenantID r = t" "upsertUser r d = Inr (x, d')"
  shows "isoInv u t d0 d'"
proof -
  obtain us where us: "usersAgree d'" "others auTenantID t (adUsers (sdAuth d')) = others auTenantID t (adUsers (sdAuth d))"
    "others urTenantID t (dbUsers (sdInv d')) = others urTenantID t (dbUsers (sdInv d))"
    "adTenants (sdAuth d') = adTenants (sdAuth d)" "adSessions (sdAuth d') = adSessions (sdAuth d)"
    "sdInv d' = (sdInv d)\<lparr>dbUsers := us\<rparr>"
    using upsertUser_agree [OF _ assms(3,2)] assms(1) unfolding isoInv_def seedOK_def by blast
  then show ?thesis using assms(1)
    by (auto simp: isoInv_def seedOK_def seedOthers_def dbInv_defs balancesOK_def)
qed

interpretation iso: seed_masters "isoInv u t d0" u t for u t d0
proof
  fix d i now c y e assume a: "isoInv u t d0 d" "upsertCategory i now t c (sdInv d) = Inr (y, e)"
  show "isoInv u t d0 (d\<lparr>sdInv := e\<rparr>)"
    by (rule isoInv_same_wh [OF a(1)]) (use upsertCategory_isolated [OF a(2)] in simp_all)
next
  fix d m x e assume a: "isoInv u t d0 d" "prrTenantID m = t" "upsertProduct m (sdInv d) = Inr (x, e)"
  show "isoInv u t d0 (d\<lparr>sdInv := e\<rparr>)"
    by (rule isoInv_same_wh [OF a(1)]) (use upsertProduct_isolated [OF a(3,2)] in simp_all)
next
  fix d v x e assume a: "isoInv u t d0 d" "whrTenantID v = t" "whrID v \<in> range u" "upsertWarehouse v (sdInv d) = Inr (x, e)"
  note i = upsertWarehouse_isolated [OF a(4,2)]
  have old: "\<forall>x \<in> whrID ` set (dbWarehouses (sdInv d)). properID x" and new: "properID (whrID v)"
    using a(1,3) by (auto simp: isoInv_def seedOK_def)
  have "\<forall>v \<in> set (dbWarehouses e). properID (whrID v)"
  proof
    fix y assume "y \<in> set (dbWarehouses e)"
    then have "whrID y \<in> insert (whrID v) (whrID ` set (dbWarehouses (sdInv d)))" using i by blast
    then show "properID (whrID y)" using old new by auto
  qed
  then show "isoInv u t d0 (d\<lparr>sdInv := e\<rparr>)" using isoInv_step [OF a(1)] i by simp
qed (rule isoInv_user)

end
