(* ===== verification/Seed_Replay.thy ===== *)
theory Seed_Replay
  imports Seed_Isolation Auth_Safety
begin

text \<open>
  The second half of a run of the seed command: the seeded movements are deleted and written again, and
  the stock of the tenant is cleared and posted again. With Seed_Isolation this gives the theorem about a
  whole run.
\<close>

section \<open>Movements\<close>

lemma others_filter: "(\<And>x. f x \<noteq> t \<Longrightarrow> P x) \<Longrightarrow> others f t (filter P xs) = others f t xs"
  by (induction xs) (auto simp: others_def)

lemma filter_filter_sub: "(\<And>x. P x \<Longrightarrow> Q x) \<Longrightarrow> filter P (filter Q xs) = filter P xs"
  by (induction xs) auto

lemma idemKeys_filter:
  assumes "distinct (idemKeys xs)"
  shows "distinct (idemKeys (filter P xs))"
proof -
  have eq: "idemKeys (filter P xs) = map (\<lambda>r. (mvrTenantID r, mvrIdempotencyKey r)) (filter P (filter (\<lambda>r. mvrIdempotencyKey r \<noteq> None) xs))"
    by (simp add: idemKeys_def conj_commute)
  show ?thesis unfolding eq by (rule distinct_map_filter) (use assms in \<open>simp only: idemKeys_def\<close>)
qed

lemma movementsOK_filter:
  assumes "movementsOK d" "dbMovements e = filter P (dbMovements d)" "dbLines e = filter Q (dbLines d)"
  shows "movementsOK e"
  unfolding movementsOK_def assms(2,3)
proof (intro conjI)
  show "distinct (idemKeys (filter P (dbMovements d)))" using assms(1) by (intro idemKeys_filter) (simp add: movementsOK_def)
  show "distinct (map mvrID (filter P (dbMovements d)))"
    "distinct (map (\<lambda>r. (mvrTenantID r, mvrReferenceNumber r)) (filter P (dbMovements d)))"
    using assms(1) by (intro distinct_map_filter; simp only: movementsOK_def)+
  show "list_all movementRowOK (filter P (dbMovements d))"
    "list_all (\<lambda>l. 0 < mlrQuantity l \<and> mlrQuantity l \<le> MaxInt32) (filter Q (dbLines d))"
    using assms(1) by (auto simp: movementsOK_def list_all_iff)
qed

lemma deleteMovements_isolated:
  assumes own: "\<And>r. P r \<Longrightarrow> mvrTenantID r = t"
  shows "isolated t d (deleteMovements P d)"
  unfolding isolated_def
proof (rule impI, rule conjI)
  define gone where "gone = set (map mvrID (filter P (dbMovements d)))"
  let ?e = "deleteMovements P d"
  assume inv: "dbInv d"
  have e: "?e = d\<lparr>dbMovements := filter (\<lambda>r. \<not> P r) (dbMovements d),
      dbLines := filter (\<lambda>l. mlrMovementID l \<notin> gone) (dbLines d)\<rparr>" unfolding deleteMovements_def Let_def gone_def ..
  have "movementsOK ?e"
    by (rule movementsOK_filter [of d _ "\<lambda>r. \<not> P r" "\<lambda>l. mlrMovementID l \<notin> gone"])
      (use inv in \<open>simp_all add: dbInv_def e\<close>)
  then show "dbInv ?e" using inv by (simp add: e dbInv_def balancesOK_def keysOK_def del: distinct_map)
  have "linesOf (mvrID m) ?e = linesOf (mvrID m) d" if m: "m \<in> set (others mvrTenantID t (dbMovements d))" for m
  proof -
    have "mvrID m \<notin> gone"
    proof
      assume "mvrID m \<in> gone"
      then obtain x where x: "x \<in> set (dbMovements d)" "P x" "mvrID x = mvrID m" by (auto simp: gone_def)
      have "inj_on mvrID (set (dbMovements d))" using inv by (simp add: dbInv_def movementsOK_def distinct_map)
      then have "x = m" using x(1,3) m unfolding set_others by (blast dest: inj_onD)
      then show False using own [OF x(2)] m by (simp add: set_others)
    qed
    then have "filter (\<lambda>l. mlrMovementID l = mvrID m) (filter (\<lambda>l. mlrMovementID l \<notin> gone) (dbLines d))
        = filter (\<lambda>l. mlrMovementID l = mvrID m) (dbLines d)" by (intro filter_filter_sub) simp
    then have "filter (\<lambda>l. mlrMovementID l = mvrID m) (dbLines ?e) = filter (\<lambda>l. mlrMovementID l = mvrID m) (dbLines d)"
      by (simp add: e)
    then show ?thesis by (simp add: linesOf_def)
  qed
  moreover have "others mvrTenantID t (dbMovements ?e) = others mvrTenantID t (dbMovements d)"
    unfolding e by (simp, rule others_filter) (use own in blast)
  ultimately show "othersEq t d ?e" by (simp add: othersEq_def) (simp add: e)
qed

lemma resetStock_isolated: "isolated t d (d\<lparr>dbBalances := filter (\<lambda>r. sbrTenantID r \<noteq> t) (dbBalances d)\<rparr>)"
proof -
  have "others sbrTenantID t (filter (\<lambda>r. sbrTenantID r \<noteq> t) (dbBalances d)) = others sbrTenantID t (dbBalances d)"
    by (rule others_filter)
  then show ?thesis
    by (auto simp: isolated_def dbInv_defs balancesOK_def othersEq_def linesOf_def distinct_map_filter simp del: distinct_map)
qed

text \<open>Both statements on the balances.\<close>

lemma newBalance_isolated:
  assumes "newBalance i now (t, w, p) q d = Inr (x, e)"
  shows "isolated t d e"
proof -
  have none: "findBalance (t, w, p) d = None" using assms by (auto simp: newBalance_def split: if_splits)
  obtain r where r: "e = d\<lparr>dbBalances := dbBalances d @ [r]\<rparr>" "sbrTenantID r = t"
    using assms by (auto simp: newBalance_def split: if_splits)
  have "balancesOK d \<Longrightarrow> balancesOK e" using newBalance_effect(1) [OF _ assms none] by simp
  then show ?thesis using r(2) by (auto simp: r(1) isolated_def dbInv_defs othersEq_def linesOf_def)
qed

lemma setBalance_isolated:
  assumes "setBalance now (t, w, p) q d = Inr (x, e)"
  shows "isolated t d e"
proof -
  let ?P = "\<lambda>r. rowKey r = (t, w, p)" and ?f = "\<lambda>r. r\<lparr>sbrQuantity := q, sbrUpdatedAt := now, sbrLastMovementAt := Some now\<rparr>"
  have e: "e = d\<lparr>dbBalances := updateWhere ?P ?f (dbBalances d)\<rparr>" and q: "q \<le> MaxInt32"
    and res: "\<forall>r \<in> set (dbBalances d). rowKey r = (t, w, p) \<longrightarrow> sbrReservedQuantity r \<le> q"
    using assms by (auto simp: setBalance_def list_ex_iff not_less is_int32_def MaxInt32_def split: if_splits)
  have maps: "map sbrID (updateWhere ?P ?f (dbBalances d)) = map sbrID (dbBalances d)"
    "map rowKey (updateWhere ?P ?f (dbBalances d)) = map rowKey (dbBalances d)"
    by (rule map_updateWhere; simp add: rowKey_def)+
  have "balancesOK d \<Longrightarrow> balancesOK e" using res q unfolding balancesOK_def e
    by (simp add: maps) (auto simp: set_updateWhere split: if_splits)
  moreover have "others sbrTenantID t (updateWhere ?P ?f (dbBalances d)) = others sbrTenantID t (dbBalances d)"
    by (rule others_updateWhere) (auto simp: rowKey_def)
  ultimately show ?thesis by (auto simp: e isolated_def dbInv_defs othersEq_def linesOf_def)
qed

section \<open>The replay\<close>

text \<open>Statements on the balances and audit rows of the tenant keep the invariant.\<close>

lemma iso_stmt:
  assumes "\<And>d a e. f d = Inr (a, e) \<Longrightarrow> isolated t d e \<and> dbUsers e = dbUsers d \<and> dbWarehouses e = dbWarehouses d"
  shows "triple (txOK u (isoInv u t d0)) (zStmt (onInv f)) (\<lambda>_. txOK u (isoInv u t d0))"
proof (rule triple_onInv)
  fix d a e assume "isoInv u t d0 d" "f (sdInv d) = Inr (a, e)"
  then show "isoInv u t d0 (d\<lparr>sdInv := e\<rparr>)" using assms [of "sdInv d" a e] by (intro isoInv_same_wh) simp_all
qed

lemma balance_frames:
  "newBalance i now k q d = Inr (x, e) \<Longrightarrow> dbUsers e = dbUsers d \<and> dbWarehouses e = dbWarehouses d"
  "setBalance now k q d = Inr (x, e) \<Longrightarrow> dbUsers e = dbUsers d \<and> dbWarehouses e = dbWarehouses d"
  by (auto simp: newBalance_def setBalance_def split: prod.splits if_splits)

lemma stockDelta_triple: "triple (txOK u (isoInv u t d0)) (stockDelta t w p n) (\<lambda>_. txOK u (isoInv u t d0))"
proof -
  let ?J = "txOK u (isoInv u t d0)"
  have new: "triple ?J (zStmt (onInv (newBalance i now (t, w, p) n))) (\<lambda>_. ?J)" for i now
    by (rule iso_stmt) (use newBalance_isolated balance_frames(1) in blast)
  have upd: "triple ?J (zStmt (onInv (setBalance now (t, w, p) q))) (\<lambda>_. ?J)" for q now
    by (rule iso_stmt) (use setBalance_isolated balance_frames(2) in blast)
  show ?thesis unfolding stockDelta_def
  proof (rule triple_bind)
    show "triple ?J (wrapf msg (zStmt (onInv (\<lambda>d. Inr (findBalance (t, w, p) d, d))))) (\<lambda>_. ?J)" for msg
      by (rule triple_wrapf, rule iso_stmt) (auto simp: isolated_refl)
    show "triple ?J (bindM zNow (\<lambda>now. case r of
        None \<Rightarrow> if n < 0 then throw (Raw (''no stock row for negative delta (wh='' @ w @ '' prod='' @ p @ '')''))
          else bindM zUUID (\<lambda>i. zStmt (onInv (newBalance i now (t, w, p) n)))
      | Some row \<Rightarrow> let qty = sbrQuantity row; newQty = wrap64 (qty + n)
          in if newQty < 0
             then throw (Raw (''stock would go negative (wh='' @ w @ '' prod='' @ p @ '' qty='' @ Itoa qty @ '' delta='' @ Itoa n @ '')''))
             else zStmt (onInv (setBalance now (t, w, p) newQty)))) (\<lambda>_. ?J)" for r
      by (rule triple_now) (auto simp: Let_def split: option.split intro!: triple_throw triple_fresh new upd)
  qed
qed

lemma triple_zDeref: "(\<And>x. p = Some x \<Longrightarrow> triple P (f x) Q) \<Longrightarrow> triple P (bindM (zDeref p) f) Q"
  by (cases p) (simp_all add: zDeref_def triple_throw)

lemma applyConfirmed_triple: "triple (txOK u (isoInv u t d0)) (applyConfirmedStock t mv wh sku) (\<lambda>_. txOK u (isoInv u t d0))"
proof -
  let ?J = "txOK u (isoInv u t d0)"
  have two: "triple ?J (bindM (stockDelta t w p n) (\<lambda>_. stockDelta t w' p' n')) (\<lambda>_. ?J)" for w p n w' p' n'
    by (rule triple_bind; rule stockDelta_triple)
  show ?thesis unfolding applyConfirmedStock_def
    by (auto intro!: triple_zDeref triple_forM stockDelta_triple two triple_throw split: option.split)
qed

text \<open>The header of a movement, then its lines.\<close>

definition ownMovement :: "string \<Rightarrow> string \<Rightarrow> seeddb \<Rightarrow> bool" where
  "ownMovement t i d \<longleftrightarrow> isMovementOf t i (sdInv d)"

lemma insertMovement_triple:
  assumes wh: "\<And>c i. wh c = Some i \<Longrightarrow> properID i"
  shows "triple (txOK u (isoInv u t d0)) (seedInsertMovement t uid mv wh)
    (\<lambda>i. txOK u (\<lambda>d. isoInv u t d0 d \<and> ownMovement t i d))"
proof -
  have proper: "trimOpt o1 = o1" if code: "codeID side wh c = Inr o1" for side c o1
  proof (cases o1)
    case (Some i)
    then obtain k where "wh k = Some i" using code by (auto simp: codeID_def split: option.splits)
    then show ?thesis using wh Some unfolding properID_def by metis
  qed simp
  have ins: "triple (txOK u (isoInv u t d0)) (zStmt (onInv (insertMovement r)))
      (\<lambda>_. txOK u (\<lambda>d. isoInv u t d0 d \<and> ownMovement t (mvrID r) d))"
    if r: "mvrTenantID r = t" "trimOpt (mvrSourceWarehouseID r) = mvrSourceWarehouseID r"
      "trimOpt (mvrDestinationWarehouseID r) = mvrDestinationWarehouseID r" for r
  proof (rule triple_onInv)
    fix d x e assume d: "isoInv u t d0 d" "insertMovement r (sdInv d) = Inr (x, e)"
    then have e: "e = (sdInv d)\<lparr>dbMovements := dbMovements (sdInv d) @ [r]\<rparr>"
      by (auto simp: insertMovement_def split: if_splits)
    have "isoInv u t d0 (d\<lparr>sdInv := e\<rparr>)"
      by (rule isoInv_same_wh [OF d(1) isolated_mv_insert [OF d(2) r]]) (simp_all add: e)
    then show "isoInv u t d0 (d\<lparr>sdInv := e\<rparr>) \<and> ownMovement t (mvrID r) (d\<lparr>sdInv := e\<rparr>)"
      using r(1) by (simp add: ownMovement_def isMovementOf_def e)
  qed
  show ?thesis unfolding seedInsertMovement_def
  proof (rule triple_bind [where R = "\<lambda>s z. txOK u (isoInv u t d0) z \<and> trimOpt s = s"])
    show "triple (txOK u (isoInv u t d0)) (liftE (codeID ''source'' wh (msSourceWHCode mv)))
        (\<lambda>s z. txOK u (isoInv u t d0) z \<and> trimOpt s = s)" by (rule triple_liftE) (use proper in auto)
    fix s
    show "triple (\<lambda>z. txOK u (isoInv u t d0) z \<and> trimOpt s = s) (bindM (liftE (codeID ''dest'' wh (msDestWHCode mv))) (\<lambda>dst.
        bindM zUUID (\<lambda>movID. bindM zNow (\<lambda>now. bindM (wrapf (''insert movement '' @ msReferenceNumber mv) (zStmt (onInv (insertMovement
      \<lparr>mvrID = movID, mvrTenantID = t, mvrType = msType mv, mvrReferenceNumber = msReferenceNumber mv,
       mvrSourceWarehouseID = s, mvrDestinationWarehouseID = dst, mvrCreatedBy = uid,
       mvrStatus = msStatus mv, mvrNotes = nullIfEmpty (msNotes mv),
       mvrIdempotencyKey = nullIfEmpty (msIdempotencyKey mv), mvrIdempotencyRequestHash = None,
       mvrCreatedAt = now, mvrUpdatedAt = now\<rparr>)))) (\<lambda>_. ret movID)))))
       (\<lambda>i. txOK u (\<lambda>d. isoInv u t d0 d \<and> ownMovement t i d))"
    proof (rule triple_facts, rule triple_bind [where R = "\<lambda>s z. txOK u (isoInv u t d0) z \<and> trimOpt s = s"])
      show "triple (txOK u (isoInv u t d0)) (liftE (codeID ''dest'' wh (msDestWHCode mv)))
        (\<lambda>s z. txOK u (isoInv u t d0) z \<and> trimOpt s = s)" by (rule triple_liftE) (use proper in auto)
    next
      fix dst assume s: "trimOpt s = s"
      show "triple (\<lambda>z. txOK u (isoInv u t d0) z \<and> trimOpt dst = dst) (bindM zUUID (\<lambda>movID. bindM zNow (\<lambda>now.
          bindM (wrapf (''insert movement '' @ msReferenceNumber mv) (zStmt (onInv (insertMovement
      \<lparr>mvrID = movID, mvrTenantID = t, mvrType = msType mv, mvrReferenceNumber = msReferenceNumber mv,
       mvrSourceWarehouseID = s, mvrDestinationWarehouseID = dst, mvrCreatedBy = uid,
       mvrStatus = msStatus mv, mvrNotes = nullIfEmpty (msNotes mv),
       mvrIdempotencyKey = nullIfEmpty (msIdempotencyKey mv), mvrIdempotencyRequestHash = None,
       mvrCreatedAt = now, mvrUpdatedAt = now\<rparr>)))) (\<lambda>_. ret movID))))
       (\<lambda>i. txOK u (\<lambda>d. isoInv u t d0 d \<and> ownMovement t i d))"
        by (rule triple_facts, rule triple_fresh, rule triple_now, rule triple_bind, rule triple_wrapf, rule ins)
          (simp_all add: s triple_ret)
    qed
  qed
qed

lemma insertLines_triple:
  "triple (txOK u (\<lambda>d. isoInv u t d0 d \<and> ownMovement t i d)) (insertMovementLines i ls sku)
     (\<lambda>_. txOK u (\<lambda>d. isoInv u t d0 d \<and> ownMovement t i d))"
proof -
  let ?I = "\<lambda>d. isoInv u t d0 d \<and> ownMovement t i d"
  have line: "triple (txOK u ?I) (zStmt (onInv (\<lambda>d. if \<not> is_int32 (msQty l) then Inl (Raw rangeMsg) else insertLine r d))) (\<lambda>_. txOK u ?I)"
    if r: "mlrMovementID r = i" "mlrQuantity r = msQty l" for r l
  proof (rule triple_onInv)
    fix d x e assume d: "?I d" "(if \<not> is_int32 (msQty l) then Inl (Raw rangeMsg) else insertLine r (sdInv d)) = Inr (x, e)"
    then have ins: "insertLine r (sdInv d) = Inr (x, e)" and q: "mlrQuantity r \<le> MaxInt32"
      using r(2) by (auto simp: is_int32_def MaxInt32_def split: if_splits)
    have e: "e = (sdInv d)\<lparr>dbLines := dbLines (sdInv d) @ [r]\<rparr>" using ins by (auto simp: insertLine_def split: if_splits)
    have own: "isMovementOf t (mlrMovementID r) (sdInv d)" using d(1) r(1) by (simp add: ownMovement_def)
    have "isoInv u t d0 (d\<lparr>sdInv := e\<rparr>)"
      by (rule isoInv_same_wh [OF conjunct1 [OF d(1)] isolated_line_insert [OF ins q own]]) (simp_all add: e)
    then show "?I (d\<lparr>sdInv := e\<rparr>)" using d(1) isMovementOf_insertLine [OF ins] by (simp add: ownMovement_def)
  qed
  show ?thesis unfolding insertMovementLines_def
    by (rule triple_forM) (auto simp: seedInsertLine_def split: option.split
      intro!: triple_throw triple_fresh triple_now triple_wrapf line)
qed

lemma seedMovement_triple:
  assumes "\<And>c i. wh c = Some i \<Longrightarrow> properID i"
  shows "triple (txOK u (isoInv u t d0)) (seedMovement t uid sku wh mv) (\<lambda>_. txOK u (isoInv u t d0))"
proof -
  have weaken: "txOK u (\<lambda>d. isoInv u t d0 d \<and> ownMovement t i d) z \<Longrightarrow> txOK u (isoInv u t d0) z" for i z
    by (auto simp: txOK_def)
  have apply_it: "triple (txOK u (isoInv u t d0)) (if msStatus mv \<noteq> ''confirmed'' then ret ()
      else wrapf msg (applyConfirmedStock t mv wh sku)) (\<lambda>_. txOK u (isoInv u t d0))" for msg
    by (auto intro: triple_ret triple_wrapf applyConfirmed_triple)
  show ?thesis unfolding seedMovement_def
  proof (rule triple_bind [OF insertMovement_triple [OF assms]])
    fix i
    show "triple (txOK u (\<lambda>d. isoInv u t d0 d \<and> ownMovement t i d))
        (bindM (insertMovementLines i (msLines mv) sku) (\<lambda>_. if msStatus mv \<noteq> ''confirmed'' then ret ()
          else wrapf (''movement '' @ msReferenceNumber mv) (applyConfirmedStock t mv wh sku)))
        (\<lambda>_. txOK u (isoInv u t d0))"
      by (rule triple_bind [OF insertLines_triple], rule triple_pre [OF apply_it], erule weaken)
  qed
qed

lemma replay_triple:
  assumes "\<And>c i. wh c = Some i \<Longrightarrow> properID i"
  shows "triple (txOK u (isoInv u t d0)) (seedMovementsAndStock t uid sku wh) (\<lambda>_. txOK u (isoInv u t d0))"
proof -
  let ?J = "txOK u (isoInv u t d0)"
  have p: "triple ?J (purgeSeedMovements t) (\<lambda>_. ?J)" unfolding purgeSeedMovements_def
  proof (rule triple_wrapf, rule iso_stmt)
    fix d a e assume "Inr ((), deleteMovements (isSeedMovement t) d) = (Inr (a, e) :: err + unit \<times> database)"
    then have e: "e = deleteMovements (isSeedMovement t) d" by simp
    have "isolated t d e" unfolding e by (rule deleteMovements_isolated) (simp add: isSeedMovement_def)
    then show "isolated t d e \<and> dbUsers e = dbUsers d \<and> dbWarehouses e = dbWarehouses d"
      by (simp add: e deleteMovements_def Let_def)
  qed
  have r: "triple ?J (resetTenantStock t) (\<lambda>_. ?J)" unfolding resetTenantStock_def
    by (rule triple_wrapf, rule iso_stmt) (use resetStock_isolated in auto)
  show ?thesis unfolding seedMovementsAndStock_def
    by (rule triple_bind [OF p], rule triple_bind [OF r], rule triple_forM, rule seedMovement_triple, rule assms)
qed

lemma audit_triple: "triple (txOK u (isoInv u t d0)) (seedAuditSamples t uid) (\<lambda>_. txOK u (isoInv u t d0))"
proof -
  have ins: "triple (txOK u (isoInv u t d0)) (zStmt (onInv (\<lambda>d. if list_ex (\<lambda>x. alrID x = alrID r) (dbAudit d)
      then Inl e else Inr ((), d\<lparr>dbAudit := dbAudit d @ [r]\<rparr>)))) (\<lambda>_. txOK u (isoInv u t d0))"
    if "alrTenantID r = t" for r e
    by (rule iso_stmt) (use that in \<open>auto split: if_splits intro!: isolated_audit\<close>)
  have one: "triple (txOK u (isoInv u t d0)) (zStmt (onInv (\<lambda>d. if list_ex (\<lambda>x. alrID x = i) (dbAudit d)
      then Inl e else Inr ((), d\<lparr>dbAudit := dbAudit d @ [\<lparr>alrID = i, alrTenantID = t, alrUserID = Some uid, alrAction = action,
        alrEntity = entity, alrEntityID = eid, alrBeforeData = Some (JObj []), alrAfterData = Some (JObj [(''seed'', JBool True)]),
        alrIPAddress = None, alrUserAgent = None, alrRequestID = None, alrCreatedAt = now\<rparr>]\<rparr>)))) (\<lambda>_. txOK u (isoInv u t d0))"
    for i e action entity eid now
    using ins [of "\<lparr>alrID = i, alrTenantID = t, alrUserID = Some uid, alrAction = action, alrEntity = entity, alrEntityID = eid,
        alrBeforeData = Some (JObj []), alrAfterData = Some (JObj [(''seed'', JBool True)]), alrIPAddress = None,
        alrUserAgent = None, alrRequestID = None, alrCreatedAt = now\<rparr>" e] by simp
  show ?thesis unfolding seedAuditSamples_def
    by (rule triple_forM, unfold split_beta, (rule triple_fresh)+, rule triple_now, rule one)
qed

lemma rowsMap_mem: "rowsMap rows k = Some i \<Longrightarrow> i \<in> snd ` set rows"
proof -
  have "foldl (\<lambda>m (k, i). m(k \<mapsto> i)) m rows k = Some i \<Longrightarrow> i \<in> snd ` set rows \<or> m k = Some i" for m :: idmap
  proof (induction rows arbitrary: m)
    case (Cons x rows)
    obtain c j where x: "x = (c, j)" by fastforce
    from Cons.IH [of "m(c \<mapsto> j)"] Cons.prems have "i \<in> snd ` set rows \<or> (m(c \<mapsto> j)) k = Some i" by (simp add: x)
    then show ?case by (auto simp: x split: if_splits)
  qed simp
  from this [of "\<lambda>_. None"] show "rowsMap rows k = Some i \<Longrightarrow> i \<in> snd ` set rows" by (simp add: rowsMap_def)
qed

lemma load_warehouses:
  "triple (txOK u (isoInv u t d0)) (loadWarehouseCodes t)
     (\<lambda>m z. txOK u (isoInv u t d0) z \<and> (\<forall>c i. m c = Some i \<longrightarrow> properID i))"
  unfolding loadWarehouseCodes_def
proof (rule triple_bind, rule triple_rows [where R = "\<lambda>rows. \<forall>x \<in> set rows. properID (snd x)"])
  show "\<forall>x \<in> set (map (\<lambda>r. (whrCode r, whrID r)) (filter (\<lambda>r. whrTenantID r = t) (dbWarehouses (sdInv d)))). properID (snd x)"
    if "isoInv u t d0 d" for d using that by (simp add: isoInv_def seedOK_def)
  show "triple (\<lambda>z. txOK u (isoInv u t d0) z \<and> (\<forall>x \<in> set rows. properID (snd x))) (ret (rowsMap rows))
      (\<lambda>m z. txOK u (isoInv u t d0) z \<and> (\<forall>c i. m c = Some i \<longrightarrow> properID i))" for rows
    by (rule triple_ret) (auto dest: rowsMap_mem)
qed

lemma queries_triple:
  "triple (txOK u (isoInv u t d0)) (loadProductSKUs t) (\<lambda>_. txOK u (isoInv u t d0))"
  "triple (txOK u (isoInv u t d0)) (getUserID t e) (\<lambda>_. txOK u (isoInv u t d0))"
  unfolding loadProductSKUs_def getUserID_def
  by (rule triple_bind, rule triple_rows [where R = "\<lambda>_. True"], simp, rule triple_ret, simp)
    (rule triple_bind, rule triple_row [where R = "\<lambda>_. True"], simp, simp, auto split: option.split intro: triple_throw triple_ret)

text \<open>The tenant the run works for: a demo tenant of the tables, or a new one.\<close>

lemma seedTenant_triple:
  assumes "seedOK d0" "\<forall>i. properID (u i)"
  shows "triple (txOK u (\<lambda>d. d = d0)) seedTenant
    (\<lambda>t z. txOK u (isoInv u t d0) z \<and> (t \<in> trID ` set (filter isDemoTenant (adTenants (sdAuth d0))) \<or> t \<in> range u))"
  unfolding seedTenant_def
proof (rule triple_bind)
  let ?ids = "trID ` set (filter isDemoTenant (adTenants (sdAuth d0)))"
  show "triple (txOK u (\<lambda>d. d = d0)) (wrapf msg (zRow (\<lambda>d. map trID (filter isDemoTenant (adTenants (sdAuth d))))))
      (\<lambda>a z. txOK u (\<lambda>d. d = d0) z \<and> (case a of None \<Rightarrow> True | Some t \<Rightarrow> t \<in> ?ids))" for msg
    by (rule triple_wrapf, rule triple_row) auto
  have start: "isoInv u t d0 d0" for t
    using assms by (simp add: isoInv_def seedOthers_def othersEq_refl)
  have ins: "isoInv u i d0 (d0\<lparr>sdAuth := a\<rparr>)" if "insertTenant r (sdAuth d0) = Inr (x, a)" "trID r = i" for r x a i
    using that start [of i] by (auto simp: insertTenant_def isoInv_def seedOK_def usersAgree_def seedOthers_def split: if_splits)
  fix r
  show "triple (\<lambda>z. txOK u (\<lambda>d. d = d0) z \<and> (case r of None \<Rightarrow> True | Some t \<Rightarrow> t \<in> ?ids))
      (case r of Some tenantID \<Rightarrow> ret tenantID
       | None \<Rightarrow> bindM zUUID (\<lambda>i. wrapf ''insert tenant'' (zStmt (onAuth (insertTenant
          \<lparr>trID = i, trName = demoTenantName, trSlug = demoTenantSlug\<rparr>)))))
      (\<lambda>t z. txOK u (isoInv u t d0) z \<and> (t \<in> ?ids \<or> t \<in> range u))"
  proof (cases r)
    case None
    have "triple (txOK u (\<lambda>d. d = d0)) (zStmt (onAuth (insertTenant \<lparr>trID = i, trName = demoTenantName, trSlug = demoTenantSlug\<rparr>)))
        (\<lambda>t. txOK u (\<lambda>d. isoInv u t d0 d \<and> t = i))" for i
      by (rule triple_zStmt) (auto simp: onAuth_def split: sum.splits intro!: ins dest: sym, auto simp: insertTenant_def split: if_splits)
    then show ?thesis unfolding None option.case
      by (intro triple_facts triple_fresh triple_wrapf) (rule triple_weaken, assumption, auto simp: txOK_def)
  next
    case (Some t)
    then show ?thesis using start by (auto intro!: triple_facts triple_ret simp: txOK_def)
  qed
qed

lemma runBody_triple:
  assumes "seedOK d0" "\<forall>i. properID (u i)"
  shows "triple (txOK u (\<lambda>d. d = d0)) (runBody bc)
    (\<lambda>_ z. \<exists>t. txOK u (isoInv u t d0) z \<and> (t \<in> trID ` set (filter isDemoTenant (adTenants (sdAuth d0))) \<or> t \<in> range u))"
  unfolding runBody_def
proof (rule triple_bind [OF seedTenant_triple [OF assms]], rule triple_facts)
  fix t assume t: "t \<in> trID ` set (filter isDemoTenant (adTenants (sdAuth d0))) \<or> t \<in> range u"
  show "triple (txOK u (isoInv u t d0)) (bindM (seedAdminUser bc t) (\<lambda>_. bindM (seedExtraUsers bc t) (\<lambda>_.
      bindM (seedCategories t) (\<lambda>categoryIDs. bindM (seedProducts t categoryIDs) (\<lambda>_. bindM (seedWarehouses t) (\<lambda>_.
      bindM (wrapf ''load products'' (loadProductSKUs t)) (\<lambda>productBySKU.
      bindM (wrapf ''load warehouses'' (loadWarehouseCodes t)) (\<lambda>warehouseByCode.
      bindM (wrapf ''resolve admin user id'' (getUserID t adminEmail)) (\<lambda>adminUserID.
      bindM (seedMovementsAndStock t adminUserID productBySKU warehouseByCode) (\<lambda>_.
      seedAuditSamples t adminUserID))))))))))
      (\<lambda>_ z. \<exists>t. txOK u (isoInv u t d0) z \<and> (t \<in> trID ` set (filter isDemoTenant (adTenants (sdAuth d0))) \<or> t \<in> range u))"
    by ((rule triple_bind, rule iso.masters_triples)+, rule triple_bind, rule triple_wrapf, rule queries_triple,
        rule triple_bind, rule triple_wrapf, rule load_warehouses, rule triple_facts,
        rule triple_bind, rule triple_wrapf, rule queries_triple, rule triple_bind, rule replay_triple, blast,
        rule triple_weaken, rule audit_triple, use t in blast)
qed

text \<open>C40: The seed works on one tenant. Whatever state the database is in and whatever fails, after a run
  of the seed command the tables still have their integrity, and there is one tenant, a demo tenant of
  the database or a new one, such that no row of any other tenant has changed, in any table of
  either service.\<close>

theorem seed_isolated:
  assumes "seedOK (zdb z)" "\<forall>i. properID (zuuid z i)"
  shows "\<exists>t. (t \<in> trID ` set (filter isDemoTenant (adTenants (sdAuth (zdb z)))) \<or> t \<in> range (zuuid z))
    \<and> seedOK (zdb (snd (Run bc z))) \<and> seedOthers t (zdb z) (zdb (snd (Run bc z)))"
proof -
  let ?d = "zdb (snd (Run bc z))"
  have same: ?thesis if "?d = zdb z"
    using assms that by (auto simp: seedOthers_def othersEq_refl)
  have run: "?d = zdb (snd (WithSQLTx (runBody bc) z))" by (simp add: Run_def inSeedTx_like_helper)
  from WithSQLTx_cases [OF runBody_onTx, of bc z] show ?thesis
  proof (elim disjE exE conjE)
    fix e z' assume "WithSQLTx (runBody bc) z = (Inl e, z')" "zdb z' = zdb z"
    then show ?thesis using same run by simp
  next
    fix z1 d assume w: "WithSQLTx (runBody bc) z = (Inr (), z1\<lparr>zstmt := Suc (zstmt z1), ztx := None, zdb := d\<rparr>)"
      and body: "runBody bc (beginTx z) = (Inr (), z1)" and tx: "ztx z1 = Some d"
    have "txOK (zuuid z) (\<lambda>d. d = zdb z) (beginTx z)" by (simp add: txOK_def beginTx_def)
    from tripleD [OF runBody_triple [OF assms] this body] obtain t where
      "isoInv (zuuid z) t (zdb z) d" "t \<in> trID ` set (filter isDemoTenant (adTenants (sdAuth (zdb z)))) \<or> t \<in> range (zuuid z)"
      using tx by (auto simp: txOK_def)
    moreover have "?d = d" using run w by simp
    ultimately show ?thesis by (auto simp: isoInv_def)
  qed
qed

section \<open>Samples\<close>

text \<open>A database in use by the demo tenant t1 and a customer t2, with the products given, before a run.\<close>

definition inUseWorld :: "productRow list \<Rightarrow> sworld" where
  "inUseWorld ps = sampleSeedWorld\<lparr>ztx := None, zdb :=
     \<lparr>sdAuth = \<lparr>adTenants = [\<lparr>trID = ''t1'', trName = demoTenantName, trSlug = demoTenantSlug\<rparr>,
          \<lparr>trID = ''t2'', trName = ''Acme'', trSlug = ''acme''\<rparr>],
        adUsers = [\<lparr>auID = ''u1'', auTenantID = ''t1'', auEmail = adminEmail, auPasswordHash = ''x'', auRole = ''owner'', auFullName = ''U''\<rparr>],
        adSessions = []\<rparr>,
      sdInv = sampleDB\<lparr>dbProducts := ps\<rparr>\<rparr>\<rparr>"

definition deletedTea :: productRow where
  "deletedTea = (sampleProduct ''p1'' ''t1'')\<lparr>prrSKU := ''BEV-TEA-500'', prrDeletedAt := Some 0\<rparr>"

lemma inUse_tenants:
  "filter isDemoTenant (adTenants (sdAuth (zdb (inUseWorld ps)))) = [\<lparr>trID = ''t1'', trName = demoTenantName, trSlug = demoTenantSlug\<rparr>]"
  by (simp add: inUseWorld_def sampleSeedWorld_def isDemoTenant_def demoTenantSlug_def demoTenantName_def Let_def)

lemma sample_ids: "properID (zuuid (inUseWorld ps) i)"
proof -
  have s: "\<not> isSpace (CHR ''z'')" by (simp add: isSpace_def)
  then have "dropWhile isSpace (replicate (Suc i) (CHR ''z'')) = replicate (Suc i) (CHR ''z'')" by simp
  then have "TrimSpace (replicate (Suc i) (CHR ''z'')) = replicate (Suc i) (CHR ''z'')" by (simp add: TrimSpace_def del: replicate_Suc)
  then show ?thesis by (simp add: properID_def inUseWorld_def sampleSeedWorld_def Let_def del: replicate_Suc)
qed

lemma inUse_OK: "seedOK (zdb (inUseWorld (dbProducts sampleDB)))"
proof -
  have i: "sdInv (zdb (inUseWorld (dbProducts sampleDB))) = sampleDB"
    by (simp add: inUseWorld_def sampleSeedWorld_def Let_def)
  have "list_all (\<lambda>v. properID (whrID v)) (dbWarehouses sampleDB)" unfolding properID_def by code_simp
  moreover have "usersAgree (zdb (inUseWorld (dbProducts sampleDB)))"
    by (simp add: usersAgree_def inUseWorld_def sampleSeedWorld_def Let_def sampleDB_def)
  ultimately show ?thesis using sample_dbInv by (simp add: seedOK_def i list_all_iff)
qed

theorem seed_isolated_witness:
  "\<exists>t. (t = ''t1'' \<or> t \<in> range (zuuid (inUseWorld (dbProducts sampleDB))))
    \<and> seedOthers t (zdb (inUseWorld (dbProducts sampleDB)))
        (zdb (snd (Run (asBcrypt sampleAuthService) (inUseWorld (dbProducts sampleDB)))))"
  using seed_isolated [of "inUseWorld (dbProducts sampleDB)" "asBcrypt sampleAuthService", OF inUse_OK] sample_ids
  by (auto simp: inUse_tenants)

theorem reseed_after_delete_fails_witness:
  "\<exists>e z'. Run (asBcrypt sampleAuthService) (inUseWorld [deletedTea]) = (Inl e, z') \<and> zdb z' = zdb (inUseWorld [deletedTea])"
proof (rule reseed_after_delete_fails)
  show "filter isDemoTenant (adTenants (sdAuth (zdb (inUseWorld [deletedTea])))) \<noteq> []" by (simp add: inUse_tenants)
  show "\<forall>r \<in> set (adTenants (sdAuth (zdb (inUseWorld [deletedTea])))). isDemoTenant r \<longrightarrow> trID r = ''t1''"
  proof (intro ballI impI)
    fix r assume "r \<in> set (adTenants (sdAuth (zdb (inUseWorld [deletedTea]))))" "isDemoTenant r"
    then have "r \<in> set (filter isDemoTenant (adTenants (sdAuth (zdb (inUseWorld [deletedTea])))))" by simp
    then show "trID r = ''t1''" unfolding inUse_tenants by simp
  qed
  show "''BEV-TEA-500'' \<in> set seededSKUs" by (simp add: seededSKUs_def seedMovementScenario_def)
  show "skuDeleted ''t1'' ''BEV-TEA-500'' (zdb (inUseWorld [deletedTea]))"
    by (simp add: skuDeleted_def inUseWorld_def sampleSeedWorld_def Let_def deletedTea_def sampleProduct_def)
qed

end
