(* ===== verification/Spec2Isabelle.thy ===== *)
theory Spec2Isabelle
  imports Idempotency Bus_Sample Api_Pages Notify_Api Settings_Laws Locks Seed_Laws Seed_Replay
begin

text \<open>
  Verification of the inventory backend: a multi-tenant stock keeping system written in Go, whose
  services share one PostgreSQL database and one Redis server.

  Besides the inventory service there are an authentication service, an event bus on Redis streams
  with its workers, and a notification service fed by the bus.

  The model. Programs are functions from a world to a result and a world (Programs). The world of the
  inventory service and the workers (Database) holds the committed tables, the tables of an open transaction, the
  Redis keys with their expiry, the messages published, the streams of the event bus, and the environment as oracles: which
  statement or cache command fails, the clock, fresh identifiers, row locks, the text collation. An
  operation of the program is a function from a world to a result and a world; a result is an error
  of the datatype err or a value. Statements run on the open transaction or on the committed store
  as GetDB decides, may fail with a driver error at every single call, and enforce the constraints
  of the tables; RunInTx commits or rolls back.

  Theories, in the order of the program:
  Inv_Prelude (Go strings, machine integers, rows);
  Errors (pkg/common/errorcodes);
  Claims (pkg/common/jwt claims, context and permissions, pkg/common/requestmeta);
  Pagination (pkg/common/pagination, pkg/common/httpresponse);
  Programs (the monad of the model and its frame conditions, locale effect);
  Database, Effects (tables, world, transactions, frames of effects);
  Cache (pkg/cache, pkg/database/base);
  Sql_List (ordering, ILIKE and paging of list queries);
  Audit_Log, Stock, Outbox, Warehouse, Categories, Json, Products, Movement_Repo, Movement_Apply,
  Movement, Dashboard (services/inventory/domains, a theory per domain, repository and usecase);
  Service (services/inventory/service, one constructor of request per method);
  Frames, Stock_Frames (what each operation of the service may do to the store, proved once for
  every relation that satisfies the assumptions of the locales app_frame and stock_frame);
  Tenancy, History, Confirm, Idempotency (the theorems about the whole service: tenant isolation,
  integrity of every reachable world, append-only history, confirmation as one unit, repeated
  creations);
  Locks (the row locks of concurrent confirmations as a step relation on waiting transactions: when
  they cannot deadlock, and how opposite transfers can);
  Sample (a concrete world the witnesses are evaluated on);
  Tokens (pkg/common/jwt: issue and parse of tokens, middleware), Auth, Auth_Safety, Auth_Register
  (services/authentication: repository and service on a world of their own; life of sessions,
  soundness of logins, registration);
  Times (the calendar and the RFC3339Nano layout), Event_Types, Event_Laws (pkg/eventbus: envelope,
  encoding, signature, names; round trip and what a signature fixes);
  Event_Bus, Bus_Laws (pkg/eventbus: the client on Redis streams, retries, dead letters, idempotency
  keys; no message is lost by HandleMessage, retries are bounded);
  Workers, Worker_Laws, Alert_Laws, Bus_Sample (workers/internal/outboxrelay, pkg/alertworker,
  services/notification/service: the relay from the outbox to the stream, the alert consumer and the
  dispatcher; nothing marked published is missing from the stream, a batch drains the outbox, relayed
  rows reach the handler as the events they encode; sample worlds with a bus);
  Api_Mappers, Api_Handlers, Api_Routes (services/inventory/api and the server half of its generated
  stub: query and body decoding, the mapping of results, a definition per handler, the binding of
  parameters and the routing table, the middleware chain and the error handler);
  Api_Laws, Api_Safety, Api_Pages (every route makes one call of the service; the server refines the
  service, needs a token and isolates tenants; the pages of the audit log and the charts as a client
  sees them); Sse (the two event streams, polled for a number of rounds);
  Auth_Api (services/authentication/api with its routes and middleware), Notify_Api (the probes of
  services/notification/api);
  Settings, Settings_Laws (the config packages of the three services, the token services built from
  them, the tasks of workers/cmd/worker and of the consumer in services/notification/fx; a login in one
  service opens the other, and what a half-set pair of secrets does), Auth_Live (logins succeed);
  Seed_Data, Seed (infra/database/cmd/seed/service: the command that fills a development database, one
  definition per function, on the tables of both services);
  Stock_Forward (when applyStock succeeds: exactly if every posting stays within the column),
  Seed_Laws (the command posts stock like the service), Sql_Tx (WithSQLTx of pkg/database/transaction,
  beside the transaction the command writes by hand), Seed_Rules (triples and frames for the command,
  locale seed_masters), Seed_Safety (a run over a deleted product fails), Seed_Isolation, Seed_Replay
  (a run keeps the integrity of the tables and touches one tenant).

  Parameters. golang-jwt (record JWTLib with the laws jwtLaws, and compactTokens), bcrypt, HMAC-SHA256, SHA-256 and the
  text of a jsonb value are arguments of the definitions that use them; so are the library calls of
  the HTTP layer: UUID and number parsing and the JSON of bodies (record ApiLib), the binding of
  path and query parameters (record BindLib), those of the authentication handlers (AuthBind), and the conversions of viper.

  Bounds and fuel. Loops over rows are structural, the SCAN loop of the cache and the digits of a
  number have a measure, and the relay loop is bounded by its limit. The endless loops of the two
  workers take the number of rounds after which the context is found cancelled: they return the
  error of the context after exactly that many rounds, whatever the number.

  Not modelled. The router and transport of Echo, the decoding of JSON and parameters, the
  strict-server halves of the generated stubs and the types of responses in them (unused by the
  program), flags and connection of the seed command, signals and shutdown, dependency injection and
  logging, and helpers without callers (EncodeEventPayload, DecodeEventPayload, BindAndValidate). Concurrency of statements is that of the environment:
  between two operations anything allowed by the outside relation may happen, within a transaction
  the rows read FOR UPDATE are locked; only the waiting for these locks is a model of its own (Locks).
\<close>

end
